(* ===== verification/Errors.thy ===== *)
theory Errors
  imports Prelude
begin

section \<open>Errors, exit codes and the advisory-lock codes\<close>

text \<open>
  \<open>crates/core/src/error.rs\<close>: the crate's error type and its process exit codes; and from
  \<open>crates/core/src/lock/mod.rs\<close> the two pure functions of the advisory lock, the clamping of
  the timeout and the classification of the return code of \<open>sp_getapplock\<close>. An
  \<open>std::io::Error\<close> and a boxed foreign error are represented by their rendered text.
\<close>

datatype error =
    Config string
  | InvalidInput string
  | Io string
  | Sql string
  | Conn string
  | PlanBlocked
  | Checksum string
  | LockTimeout
  | Other string

type_synonym 'a result = "error + 'a"

definition EXIT_OK :: int where "EXIT_OK = 0"
definition EXIT_GENERAL :: int where "EXIT_GENERAL = 1"
definition EXIT_CONFIG :: int where "EXIT_CONFIG = 2"
definition EXIT_CONN :: int where "EXIT_CONN = 3"
definition EXIT_CHECKSUM :: int where "EXIT_CHECKSUM = 4"
definition EXIT_SQL :: int where "EXIT_SQL = 5"
definition EXIT_LOCK_TIMEOUT :: int where "EXIT_LOCK_TIMEOUT = 7"
definition EXIT_INVALID_INPUT :: int where "EXIT_INVALID_INPUT = 8"
definition EXIT_PLAN_BLOCKED :: int where "EXIT_PLAN_BLOCKED = 10"

lemmas exit_defs = EXIT_OK_def EXIT_GENERAL_def EXIT_CONFIG_def EXIT_CONN_def EXIT_CHECKSUM_def
  EXIT_SQL_def EXIT_LOCK_TIMEOUT_def EXIT_INVALID_INPUT_def EXIT_PLAN_BLOCKED_def

fun exit_code :: "error \<Rightarrow> int" where
  "exit_code (Config m) = EXIT_CONFIG"
| "exit_code (InvalidInput m) = EXIT_INVALID_INPUT"
| "exit_code PlanBlocked = EXIT_PLAN_BLOCKED"
| "exit_code (Checksum m) = EXIT_CHECKSUM"
| "exit_code LockTimeout = EXIT_LOCK_TIMEOUT"
| "exit_code (Conn m) = EXIT_CONN"
| "exit_code (Sql m) = EXIT_SQL"
| "exit_code (Io e) = EXIT_GENERAL"
| "exit_code (Other e) = EXIT_GENERAL"

text \<open>\<open>Display\<close> for the error.\<close>

fun error_to_string :: "error \<Rightarrow> string" where
  "error_to_string (Config m) = ''configuration error: '' @ m"
| "error_to_string (InvalidInput m) = m"
| "error_to_string (Io e) = e"
| "error_to_string (Sql m) = m"
| "error_to_string (Conn m) = m"
| "error_to_string PlanBlocked = ''plan is blocked''"
| "error_to_string (Checksum m) = ''checksum integrity error: '' @ m"
| "error_to_string LockTimeout = ''lock timeout''"
| "error_to_string (Other e) = e"

subsection \<open>Advisory lock\<close>

definition I32_MAX :: int where "I32_MAX = 2 ^ 31 - 1"

text \<open>A \<open>Duration\<close> is its whole number of milliseconds here.\<close>

definition lock_timeout_millis_i32 :: "nat \<Rightarrow> int" where
  "lock_timeout_millis_i32 millis = min (int millis) I32_MAX"

definition classify_applock :: "int \<Rightarrow> unit result" where
  "classify_applock code =
     (if code \<ge> 0 then Inr ()
      else if code = -1 then Inl LockTimeout
      else if code = -2 then Inl (Sql ''advisory lock request was canceled (sp_getapplock -2)'')
      else if code = -3 then Inl (Sql ''advisory lock deadlock victim (sp_getapplock -3)'')
      else Inl (Sql (''advisory lock acquisition failed (sp_getapplock ''
             @ int_to_string code @ '')'')))"

lemma exit_code_range: "exit_code e \<in> {1, 2, 3, 4, 5, 7, 8, 10}"
  by (cases e) (simp_all add: exit_defs)

lemma exit_code_pos: "0 < exit_code e"
  using exit_code_range [of e] by auto

lemma lock_timeout_millis_range:
  "0 \<le> lock_timeout_millis_i32 t \<and> lock_timeout_millis_i32 t \<le> I32_MAX"
  by (simp add: lock_timeout_millis_i32_def I32_MAX_def)

text \<open>
  The lock is granted exactly for the non-negative codes, exactly \<open>-1\<close> is reported as a
  timeout (exit code 7), and every other code is an SQL failure (exit code 5).
\<close>

lemma classify_applock_cases:
  "classify_applock c = Inr () \<longleftrightarrow> c \<ge> 0"
  "classify_applock c = Inl LockTimeout \<longleftrightarrow> c = -1"
  "(\<exists>m. classify_applock c = Inl (Sql m)) \<longleftrightarrow> c < -1"
  by (auto simp: classify_applock_def)

end
