(* ===== verification/Sql_Ident.thy ===== *)
theory Sql_Ident
  imports Errors
begin

section \<open>Identifier validation and quoting\<close>

text \<open>
  \<open>crates/core/src/sql_ident.rs\<close> and the two statement builders that rely on it:
  \<open>apply/schemas.rs\<close> (\<open>CREATE SCHEMA\<close>) and \<open>config/ensure_db.rs\<close>
  (\<open>CREATE DATABASE\<close>). The specification side is the documented lexical rule of T-SQL for
  bracketed identifiers and string literals, stated as two readers: the quoted text must read back
  as exactly the name, whatever follows.
\<close>

definition validate_path_component :: "string \<Rightarrow> unit result" where
  "validate_path_component name =
     (if name = [] then Inl (InvalidInput ''empty path component'')
      else if name = ''.'' \<or> name = ''..'' then
        Inl (InvalidInput (''invalid path component: '' @ debug_str name))
      else case find (\<lambda>c. c = CHR ''/'' \<or> c = CHR 0x5C \<or> c = CHR 0x00) name of
        Some c \<Rightarrow> Inl (InvalidInput (''invalid character '' @ [CHR 0x27] @ debug_char c @ [CHR 0x27]
                    @ '' in path component: '' @ debug_str name))
      | None \<Rightarrow> Inr ())"

definition validate_filename_token :: "string \<Rightarrow> unit result" where
  "validate_filename_token token =
     (if token = [] then Inl (InvalidInput ''empty filename token'')
      else if \<not> (\<forall>c \<in> set token. is_ascii_alphanumeric c \<or> c = CHR ''_'' \<or> c = CHR ''-'') then
        Inl (InvalidInput (''invalid filename token: '' @ debug_str token))
      else Inr ())"

definition bracket_ident :: "string \<Rightarrow> string result" where
  "bracket_ident name =
     bind_result (validate_path_component name) (\<lambda>_.
       let len = chars_count name
       in if len > 128 then
            Inl (InvalidInput (''identifier too long ('' @ nat_to_string len
              @ '' chars, max 128): '' @ debug_str name))
          else Inr (''['' @ replace_char (CHR '']'') '']]'' name @ '']''))"

text \<open>Doubling of single quotes for a string-literal context.\<close>

definition quote_literal :: "string \<Rightarrow> string" where
  "quote_literal s = replace_char (CHR 0x27) [CHR 0x27, CHR 0x27] s"

text \<open>\<open>apply/schemas.rs\<close>, with the template of \<open>sql/apply/create_schema.sql\<close>.\<close>

definition build_create_schema_sql :: "string \<Rightarrow> string result" where
  "build_create_schema_sql name =
     bind_result (bracket_ident name) (\<lambda>bracket.
       let probe = quote_literal name;
           bracket_escaped = quote_literal bracket
       in Inr (''IF SCHEMA_ID(N'' @ [CHR 0x27] @ probe @ [CHR 0x27] @ '') IS NULL EXEC('' @ [CHR 0x27]
            @ ''CREATE SCHEMA '' @ bracket_escaped @ [CHR 0x27] @ '')''))"

text \<open>\<open>config/ensure_db.rs\<close>, the statement of \<open>create_database_if_missing\<close>.\<close>

definition create_database_sql :: "string \<Rightarrow> string result" where
  "create_database_sql db =
     bind_result (bracket_ident db) (\<lambda>bracket.
       let literal = quote_literal db
       in Inr (''IF DB_ID(N'' @ [CHR 0x27] @ literal @ [CHR 0x27] @ '') IS NULL CREATE DATABASE ''
            @ bracket))"

subsection \<open>The lexical rules of T-SQL\<close>

text \<open>
  The reader of the text after an opening delimiter: a doubled closing delimiter is one
  character of the name, a single one ends it.
\<close>

fun read_quoted :: "char \<Rightarrow> string \<Rightarrow> (string \<times> string) option" where
  "read_quoted q [] = None"
| "read_quoted q [c] = (if c = q then Some ([], []) else None)"
| "read_quoted q (c # d # s) =
     (if c = q then
        (if d = q then map_option (\<lambda>(n, r). (q # n, r)) (read_quoted q s)
         else Some ([], d # s))
      else map_option (\<lambda>(n, r). (c # n, r)) (read_quoted q (d # s)))"

definition lex_bracket :: "string \<Rightarrow> (string \<times> string) option" where
  "lex_bracket s = (case s of c # t \<Rightarrow> if c = CHR ''['' then read_quoted (CHR '']'') t else None
                    | [] \<Rightarrow> None)"

definition lex_literal :: "string \<Rightarrow> (string \<times> string) option" where
  "lex_literal s = (case s of c # t \<Rightarrow> if c = CHR 0x27 then read_quoted (CHR 0x27) t else None
                    | [] \<Rightarrow> None)"

lemma read_quoted_char:
  "c \<noteq> q \<Longrightarrow> s \<noteq> [] \<Longrightarrow>
   read_quoted q (c # s) = map_option (\<lambda>(n, r). (c # n, r)) (read_quoted q s)"
  by (cases s) auto

lemma read_quoted_end:
  "(\<forall>r. rest \<noteq> q # r) \<Longrightarrow> read_quoted q (q # rest) = Some ([], rest)"
  by (cases rest) auto

lemma read_quoted_doubled:
  assumes "\<forall>r. rest \<noteq> q # r"
  shows "read_quoted q (replace_char q [q, q] name @ q # rest) = Some (name, rest)"
proof (induction name)
  case Nil
  from assms show ?case by (simp add: read_quoted_end)
next
  case (Cons c name)
  show ?case
  proof (cases "c = q")
    case True
    with Cons show ?thesis by (simp add: text_simps)
  next
    case False
    with Cons show ?thesis by (simp add: text_simps read_quoted_char)
  qed
qed

lemma lex_literal_quote:
  assumes "\<forall>r. rest \<noteq> CHR 0x27 # r"
  shows "lex_literal ([CHR 0x27] @ quote_literal s @ [CHR 0x27] @ rest) = Some (s, rest)"
  using read_quoted_doubled [OF assms, of s]
  by (simp add: lex_literal_def quote_literal_def)

lemma validate_path_component_ok:
  "validate_path_component name = Inr () \<longleftrightarrow>
     name \<noteq> [] \<and> name \<noteq> ''.'' \<and> name \<noteq> ''..'' \<and>
     CHR ''/'' \<notin> set name \<and> CHR 0x5C \<notin> set name \<and> CHR 0x00 \<notin> set name"
  by (auto simp: validate_path_component_def find_None_iff find_Some_iff split: option.splits
      dest: nth_mem)

lemma validate_path_component_error:
  "validate_path_component name = Inl e \<Longrightarrow> exit_code e = EXIT_INVALID_INPUT"
  by (auto simp: validate_path_component_def split: if_splits option.splits)

lemma bracket_ident_ok:
  "bracket_ident name = Inr q \<longleftrightarrow>
     validate_path_component name = Inr () \<and> chars_count name \<le> 128 \<and>
     q = ''['' @ replace_char (CHR '']'') '']]'' name @ '']''"
  by (auto simp: bracket_ident_def Let_def bind_result_Inr split: if_splits)

lemma bracket_ident_error:
  "bracket_ident name = Inl e \<Longrightarrow> exit_code e = EXIT_INVALID_INPUT"
  by (auto simp: bracket_ident_def Let_def bind_result_Inl dest: validate_path_component_error
      split: if_splits)

lemma lex_bracket_ident:
  assumes "bracket_ident name = Inr q" and "\<forall>r. rest \<noteq> CHR '']'' # r"
  shows "lex_bracket (q @ rest) = Some (name, rest)"
  using assms read_quoted_doubled [of rest "CHR '']''" name]
  by (simp add: bracket_ident_ok lex_bracket_def)

end
