(* ===== verification/Domain_Key.thy ===== *)
theory Domain_Key
  imports Sql_Ident
begin

unbundle bit_operations_syntax

section \<open>Actions, kinds, object keys and layout paths\<close>

text \<open>
  The value types of \<open>crates/core/src/domain\<close>: \<open>action.rs\<close>, \<open>kind_code.rs\<close>,
  \<open>key.rs\<close>, \<open>layout_path.rs\<close>, the flag bits of \<open>object/mod.rs\<close> and of
  \<open>export/plan_row.rs\<close>. An \<open>ObjectKey\<close> and a \<open>ScriptKey\<close> are the text they
  wrap (\<open>SharedStr\<close> compares and hashes by content).
\<close>

datatype Action =
    CreateObject
  | AdoptExisting
  | SkipUnchanged
  | UpdateExistingModule
  | ReprocessChanged
  | ReprocessChangedBlocked
  | Fail

datatype SchemaAction = CreateSchema | Exists

fun as_repr :: "Action \<Rightarrow> u8" where
  "as_repr CreateObject = 0"
| "as_repr AdoptExisting = 1"
| "as_repr SkipUnchanged = 2"
| "as_repr UpdateExistingModule = 3"
| "as_repr ReprocessChanged = 4"
| "as_repr ReprocessChangedBlocked = 5"
| "as_repr Fail = 6"

definition from_repr :: "u8 \<Rightarrow> Action option" where
  "from_repr v =
     (if v = 0 then Some CreateObject
      else if v = 1 then Some AdoptExisting
      else if v = 2 then Some SkipUnchanged
      else if v = 3 then Some UpdateExistingModule
      else if v = 4 then Some ReprocessChanged
      else if v = 5 then Some ReprocessChangedBlocked
      else if v = 6 then Some Fail
      else None)"

text \<open>The wire name of an action (\<open>serde(rename_all = "snake_case")\<close>).\<close>

fun action_str :: "Action \<Rightarrow> string" where
  "action_str CreateObject = ''create_object''"
| "action_str AdoptExisting = ''adopt_existing''"
| "action_str SkipUnchanged = ''skip_unchanged''"
| "action_str UpdateExistingModule = ''update_existing_module''"
| "action_str ReprocessChanged = ''reprocess_changed''"
| "action_str ReprocessChangedBlocked = ''reprocess_changed_blocked''"
| "action_str Fail = ''fail''"

definition is_transactional_kind :: "string \<Rightarrow> bool" where
  "is_transactional_kind kind \<longleftrightarrow>
     kind \<in> set [''tables'', ''indexes'', ''types'', ''sequences'', ''synonyms'']"

subsection \<open>Kind codes\<close>

definition KIND_TYPES :: u8 where "KIND_TYPES = 1"
definition KIND_SEQUENCES :: u8 where "KIND_SEQUENCES = 2"
definition KIND_TABLES :: u8 where "KIND_TABLES = 3"
definition KIND_SYNONYMS :: u8 where "KIND_SYNONYMS = 4"
definition KIND_INDEXES :: u8 where "KIND_INDEXES = 5"
definition KIND_VIEWS :: u8 where "KIND_VIEWS = 6"
definition KIND_FUNCTIONS :: u8 where "KIND_FUNCTIONS = 7"
definition KIND_PROCEDURES :: u8 where "KIND_PROCEDURES = 8"
definition KIND_TRIGGERS :: u8 where "KIND_TRIGGERS = 9"

lemmas kind_defs = KIND_TYPES_def KIND_SEQUENCES_def KIND_TABLES_def KIND_SYNONYMS_def
  KIND_INDEXES_def KIND_VIEWS_def KIND_FUNCTIONS_def KIND_PROCEDURES_def KIND_TRIGGERS_def

definition kind_code :: "string \<Rightarrow> u8" where
  "kind_code kind =
     (if kind = ''types'' then KIND_TYPES
      else if kind = ''sequences'' then KIND_SEQUENCES
      else if kind = ''tables'' then KIND_TABLES
      else if kind = ''synonyms'' then KIND_SYNONYMS
      else if kind = ''indexes'' then KIND_INDEXES
      else if kind = ''views'' then KIND_VIEWS
      else if kind = ''functions'' then KIND_FUNCTIONS
      else if kind = ''procedures'' then KIND_PROCEDURES
      else if kind = ''triggers'' then KIND_TRIGGERS
      else 0)"

definition is_module_kind_code :: "u8 \<Rightarrow> bool" where
  "is_module_kind_code code \<longleftrightarrow>
     code = KIND_VIEWS \<or> code = KIND_FUNCTIONS \<or> code = KIND_PROCEDURES \<or> code = KIND_TRIGGERS"

subsection \<open>Object keys\<close>

definition key_part :: "string \<Rightarrow> nat \<Rightarrow> string" where
  "key_part s index =
     (let parts = split_on (CHR ''/'') s in if index < length parts then parts ! index else [])"

definition object_key_new :: "string \<Rightarrow> string \<Rightarrow> string \<Rightarrow> string" where
  "object_key_new schema kind name =
     to_lowercase schema @ ''/'' @ to_lowercase kind @ ''/'' @ to_lowercase name"

definition schema_part :: "string \<Rightarrow> string" where "schema_part k = key_part k 0"
definition kind_part :: "string \<Rightarrow> string" where "kind_part k = key_part k 1"
definition name_part :: "string \<Rightarrow> string" where "name_part k = key_part k 2"

text \<open>\<open>str::trim_end_matches(".sql")\<close> strips every trailing occurrence.\<close>

function trim_end_sql_rev :: "string \<Rightarrow> string" where
  "trim_end_sql_rev s =
     (if take 4 s = ''lqs.'' then trim_end_sql_rev (drop 4 s) else s)"
  by pat_completeness auto
termination
  by (relation "measure length") (auto simp: take_Cons' neq_Nil_conv intro!: diff_less)

declare trim_end_sql_rev.simps [simp del]

definition trim_end_sql :: "string \<Rightarrow> string" where
  "trim_end_sql s = rev (trim_end_sql_rev (rev s))"

definition object_key_parse :: "string \<Rightarrow> string option" where
  "object_key_parse path =
     (let parts = split_on (CHR ''/'') (trim_end_sql path); n = length parts
      in if n < 4 then None
         else Some (object_key_new (parts ! (n - 3)) (parts ! (n - 2)) (last parts)))"

text \<open>\<open>ScriptKey::from_path\<close>.\<close>

definition script_key_from_path :: "string \<Rightarrow> string" where
  "script_key_from_path path = replace_char (CHR 0x5C) ''/'' path"

subsection \<open>Layout paths\<close>

definition object_path_for_entry :: "string \<Rightarrow> string \<Rightarrow> string" where
  "object_path_for_entry database path =
     (if database = [] then path
      else if starts_with path (database @ ''/'') then path
      else database @ ''/'' @ dropWhile (\<lambda>c. c = CHR ''/'') path)"

definition with_database_prefix :: "string \<Rightarrow> string \<Rightarrow> string" where
  "with_database_prefix database path =
     object_path_for_entry database (replace_char (CHR 0x5C) ''/'' path)"

definition path_lookup_candidates :: "string \<Rightarrow> string \<Rightarrow> string list" where
  "path_lookup_candidates database path =
     (if database = [] then [path]
      else
        (let prefixed = with_database_prefix database path;
             out = [path] @ (if prefixed \<noteq> path then [prefixed] else []);
             prfx = database @ ''/''
         in out @ (if starts_with path prfx then [drop (length prfx) path] else [])))"

subsection \<open>Flag bits\<close>

definition OBJECT_FLAG_DB_EXISTS :: u8 where "OBJECT_FLAG_DB_EXISTS = 1"
definition PLAN_FLAG_EXISTS :: u8 where "PLAN_FLAG_EXISTS = 1"

text \<open>An offset and a length into the layout arena.\<close>

type_synonym str_off = "nat \<times> nat"

definition str_off_EMPTY :: str_off where "str_off_EMPTY = (0, 0)"

record object_entry =
  oe_checksum :: digest
  oe_key_off :: str_off
  oe_script_id :: nat
  oe_db_id :: nat
  oe_flags :: u8

definition db_exists :: "object_entry \<Rightarrow> bool" where
  "db_exists e \<longleftrightarrow> oe_flags e AND OBJECT_FLAG_DB_EXISTS \<noteq> 0"

definition set_db_exists :: "bool \<Rightarrow> object_entry \<Rightarrow> object_entry" where
  "set_db_exists ex e =
     (if ex then e\<lparr>oe_flags := oe_flags e OR OBJECT_FLAG_DB_EXISTS\<rparr>
      else e\<lparr>oe_flags := oe_flags e AND NOT OBJECT_FLAG_DB_EXISTS\<rparr>)"

record plan_row =
  pr_action :: u8
  pr_flags :: u8
  pr_checksum :: digest

definition planned_action :: "plan_row \<Rightarrow> Action" where
  "planned_action r = (case from_repr (pr_action r) of Some a \<Rightarrow> a | None \<Rightarrow> Fail)"

definition set_planned_action :: "Action \<Rightarrow> plan_row \<Rightarrow> plan_row" where
  "set_planned_action a r = r\<lparr>pr_action := as_repr a\<rparr>"

definition row_exists :: "plan_row \<Rightarrow> bool" where
  "row_exists r \<longleftrightarrow> pr_flags r AND PLAN_FLAG_EXISTS \<noteq> 0"

definition set_row_exists :: "bool \<Rightarrow> plan_row \<Rightarrow> plan_row" where
  "set_row_exists ex r =
     (if ex then r\<lparr>pr_flags := pr_flags r OR PLAN_FLAG_EXISTS\<rparr>
      else r\<lparr>pr_flags := pr_flags r AND NOT PLAN_FLAG_EXISTS\<rparr>)"

subsection \<open>Lemmas\<close>

lemma from_repr_as_repr [simp]: "from_repr (as_repr a) = Some a"
  by (cases a) (simp_all add: from_repr_def)

lemma from_repr_Some: "from_repr v = Some a \<longleftrightarrow> v = as_repr a"
  by (cases a) (auto simp: from_repr_def split: if_splits)

lemma action_str_inject: "action_str a = action_str b \<Longrightarrow> a = b"
  by (cases a; cases b) simp_all

text \<open>The two readings of a kind agree: on the nine kinds, transactional means not a module.\<close>

lemma kind_code_partition:
  "kind_code k \<noteq> 0 \<Longrightarrow> is_transactional_kind k \<longleftrightarrow> \<not> is_module_kind_code (kind_code k)"
  by (auto simp: kind_code_def is_transactional_kind_def is_module_kind_code_def kind_defs
      split: if_splits)

lemma kind_code_inject:
  "kind_code k = kind_code l \<Longrightarrow> kind_code k \<noteq> 0 \<Longrightarrow> k = l"
  by (simp add: kind_code_def kind_defs split: if_splits)

lemma word_flag_one:
  "(w OR 1) AND 1 \<noteq> (0 :: u8)"
  "(w AND NOT 1) AND 1 = (0 :: u8)"
  "(w AND - 2) AND 1 = (0 :: u8)"
proof -
  have "bit ((w OR 1) AND 1) 0"
    by (simp add: bit_simps)
  then show "(w OR 1) AND 1 \<noteq> (0 :: u8)"
    by (metis bit_0_eq bot_apply bot_bool_def)
  show clear: "(w AND NOT 1) AND 1 = (0 :: u8)"
    by (rule bit_eqI) (auto simp: bit_simps)
  then show "(w AND - 2) AND 1 = (0 :: u8)"
    by simp
qed

lemma db_exists_set [simp]: "db_exists (set_db_exists ex e) = ex"
  by (simp add: db_exists_def set_db_exists_def OBJECT_FLAG_DB_EXISTS_def word_flag_one)

lemma set_db_exists_frame [simp]:
  "oe_checksum (set_db_exists ex e) = oe_checksum e"
  "oe_key_off (set_db_exists ex e) = oe_key_off e"
  "oe_script_id (set_db_exists ex e) = oe_script_id e"
  "oe_db_id (set_db_exists ex e) = oe_db_id e"
  by (simp_all add: set_db_exists_def)

lemma planned_action_set [simp]:
  "planned_action (set_planned_action a r) = a"
  "planned_action (set_row_exists ex r) = planned_action r"
  "planned_action (r\<lparr>pr_checksum := cs\<rparr>) = planned_action r"
  by (simp_all add: planned_action_def set_planned_action_def set_row_exists_def)

lemma row_exists_set [simp]:
  "row_exists (set_row_exists ex r) = ex"
  "row_exists (set_planned_action a r) = row_exists r"
  "row_exists (r\<lparr>pr_checksum := cs\<rparr>) = row_exists r"
  by (simp_all add: row_exists_def set_planned_action_def set_row_exists_def PLAN_FLAG_EXISTS_def
      word_flag_one)

lemma pr_checksum_set [simp]:
  "pr_checksum (set_row_exists ex r) = pr_checksum r"
  "pr_checksum (set_planned_action a r) = pr_checksum r"
  by (simp_all add: set_planned_action_def set_row_exists_def)

lemma kind_code_tables: "kind_code k = KIND_TABLES \<longleftrightarrow> k = ''tables''"
  by (simp add: kind_code_def kind_defs)

subsubsection \<open>Keys\<close>

lemma split_on_key:
  assumes "CHR ''/'' \<notin> set s" "CHR ''/'' \<notin> set k" "CHR ''/'' \<notin> set n"
  shows "split_on (CHR ''/'') (s @ ''/'' @ k @ ''/'' @ n) = [s, k, n]"
  using assms by (simp add: split_on_append split_on_no_sep)

lemma object_key_parts:
  assumes "CHR ''/'' \<notin> set s" "CHR ''/'' \<notin> set k" "CHR ''/'' \<notin> set n"
  shows "schema_part (object_key_new s k n) = to_lowercase s"
    and "kind_part (object_key_new s k n) = to_lowercase k"
    and "name_part (object_key_new s k n) = to_lowercase n"
  using assms
  by (simp_all add: object_key_new_def schema_part_def kind_part_def name_part_def key_part_def
      split_on_key [simplified])

lemma object_key_new_eq_iff:
  assumes "CHR ''/'' \<notin> set s" "CHR ''/'' \<notin> set k" "CHR ''/'' \<notin> set n"
    and "CHR ''/'' \<notin> set s'" "CHR ''/'' \<notin> set k'" "CHR ''/'' \<notin> set n'"
  shows "object_key_new s k n = object_key_new s' k' n' \<longleftrightarrow>
    eq_ignore_ascii_case s s' \<and> eq_ignore_ascii_case k k' \<and> eq_ignore_ascii_case n n'"
  using assms object_key_parts [of s k n] object_key_parts [of s' k' n']
  by (auto simp: eq_ignore_ascii_case_def object_key_new_def)

lemma key_part_no_slash: "CHR ''/'' \<notin> set (key_part s i)"
  by (auto simp: key_part_def Let_def dest: split_on_pieces [OF nth_mem])

subsubsection \<open>Paths\<close>

lemma object_path_idem:
  "object_path_for_entry db (object_path_for_entry db p) = object_path_for_entry db p"
  by (auto simp: object_path_for_entry_def starts_with_def prefix_def)

lemma object_path_prefixed:
  "db \<noteq> [] \<Longrightarrow> starts_with (object_path_for_entry db p) (db @ ''/'')"
  by (auto simp: object_path_for_entry_def starts_with_def)

text \<open>
  A script path is among the candidates generated from the path under which it was planned,
  so that the lookup at apply time reaches the planned script.
\<close>

lemma candidates_contain_script_path:
  assumes "hd p \<noteq> CHR ''/''" and "p \<noteq> []"
  shows "p \<in> set (path_lookup_candidates db (object_path_for_entry db p))"
proof (cases "db = [] \<or> starts_with p (db @ ''/'')")
  case True
  then show ?thesis
    by (auto simp: object_path_for_entry_def path_lookup_candidates_def Let_def)
next
  case False
  with assms have "dropWhile (\<lambda>c. c = CHR ''/'') p = p"
    by (cases p) auto
  with False show ?thesis
    by (auto simp: object_path_for_entry_def path_lookup_candidates_def Let_def starts_with_def)
qed

end
