(* ===== verification/Arena.thy ===== *)
theory Arena
  imports Domain_Key
begin

section \<open>The string arena and shared strings\<close>

text \<open>
  \<open>crates/core/src/domain/arena\<close> (\<open>builder.rs\<close>, \<open>slice.rs\<close>) and
  \<open>domain/shared\<close>. The arena is one byte buffer with an index from each distinct string to
  its offset; offsets and lengths are \<open>u32\<close>, so the cast of the buffer length is modelled
  with its wrap-around. Reading is partial: a missing string, a range outside the buffer and bytes
  that are not UTF-8 are panics, here \<open>None\<close>. The interface \<open>interner\<close> states what the
  workspace relies on; it is interpreted on the builder of the source.
\<close>

subsection \<open>UTF-8 validity\<close>

definition in_range :: "nat \<Rightarrow> nat \<Rightarrow> char \<Rightarrow> bool" where
  "in_range lo hi c \<longleftrightarrow> lo \<le> of_char c \<and> of_char c \<le> hi"

text \<open>Length of the first encoded character, 0 when the bytes do not start with one.\<close>

fun utf8_step :: "bytes \<Rightarrow> nat" where
  "utf8_step [] = 0"
| "utf8_step (a # s) =
     (if in_range 0 127 a then 1
      else case s of [] \<Rightarrow> 0
      | b # t \<Rightarrow>
        (if in_range 194 223 a then (if in_range 128 191 b then 2 else 0)
         else case t of [] \<Rightarrow> 0
         | c # u \<Rightarrow>
           (if (in_range 224 224 a \<and> in_range 160 191 b \<or> in_range 225 236 a \<and> in_range 128 191 b
                \<or> in_range 237 237 a \<and> in_range 128 159 b \<or> in_range 238 239 a \<and> in_range 128 191 b)
            then (if in_range 128 191 c then 3 else 0)
            else case u of [] \<Rightarrow> 0
            | d # _ \<Rightarrow>
              (if (in_range 240 240 a \<and> in_range 144 191 b \<or> in_range 241 243 a \<and> in_range 128 191 b
                   \<or> in_range 244 244 a \<and> in_range 128 143 b)
                  \<and> in_range 128 191 c \<and> in_range 128 191 d
               then 4 else 0))))"

function is_utf8 :: "bytes \<Rightarrow> bool" where
  "is_utf8 s = (if s = [] then True
     else if utf8_step s = 0 then False else is_utf8 (drop (utf8_step s) s))"
  by pat_completeness auto
termination
  by (relation "measure length") auto

declare is_utf8.simps [simp del]

subsection \<open>Builder and arena\<close>

record arena_builder =
  ab_buf :: bytes
  ab_index :: "(string \<times> nat) list"

record string_arena =
  sa_buf :: bytes
  sa_index :: "(string \<times> nat) list"

definition builder_with_capacity :: arena_builder where
  "builder_with_capacity = \<lparr>ab_buf = [], ab_index = []\<rparr>"

definition register :: "arena_builder \<Rightarrow> string \<Rightarrow> arena_builder" where
  "register b s =
     (if s = [] \<or> map_of (ab_index b) s \<noteq> None then b
      else b\<lparr>ab_buf := ab_buf b @ s,
             ab_index := ab_index b @ [(s, as_u32 (length (ab_buf b)))]\<rparr>)"

definition finish_builder :: "arena_builder \<Rightarrow> string_arena" where
  "finish_builder b = \<lparr>sa_buf = ab_buf b, sa_index = ab_index b\<rparr>"

definition offset_len :: "string_arena \<Rightarrow> string \<Rightarrow> str_off option" where
  "offset_len a s =
     (if s = [] then Some (0, 0)
      else case map_of (sa_index a) s of
        None \<Rightarrow> None
      | Some off \<Rightarrow> Some (off, as_u32 (length s)))"

definition slice_bytes :: "string_arena \<Rightarrow> str_off \<Rightarrow> bytes option" where
  "slice_bytes a off =
     (if snd off = 0 then Some []
      else if fst off + snd off \<le> length (sa_buf a)
      then Some (take (snd off) (drop (fst off) (sa_buf a)))
      else None)"

definition str_at :: "string_arena \<Rightarrow> str_off \<Rightarrow> string option" where
  "str_at a off = (case slice_bytes a off of
     None \<Rightarrow> None | Some bs \<Rightarrow> if is_utf8 bs then Some bs else None)"

definition unique_count :: "string_arena \<Rightarrow> nat" where
  "unique_count a = length (sa_index a)"

definition byte_len :: "string_arena \<Rightarrow> nat" where
  "byte_len a = length (sa_buf a)"

subsection \<open>Shared strings\<close>

text \<open>A slice carries the identity of its buffer (\<open>Arc::ptr_eq\<close>) with its contents.\<close>

datatype shared_str =
    SEmpty
  | SSlice nat bytes nat nat
  | SOwned string

definition empty_str :: shared_str where
  "empty_str = SEmpty"

text \<open>\<open>SharedStr::new\<close> and its wrapper.\<close>

definition shared_new :: "string \<Rightarrow> shared_str" where
  "shared_new s = (if s = [] then empty_str else SOwned s)"

definition share :: "string \<Rightarrow> shared_str" where
  "share s = shared_new s"

definition from_arena_slice :: "nat \<Rightarrow> bytes \<Rightarrow> nat \<Rightarrow> nat \<Rightarrow> shared_str" where
  "from_arena_slice ident buf start len =
     (if len = 0 then empty_str else SSlice ident buf start len)"

fun hash_bytes :: "shared_str \<Rightarrow> bytes option" where
  "hash_bytes SEmpty = Some []"
| "hash_bytes (SSlice ident buf start len) =
     (if start + len \<le> length buf then Some (take len (drop start buf)) else None)"
| "hash_bytes (SOwned s) = Some s"

definition as_str :: "shared_str \<Rightarrow> string option" where
  "as_str x = (case x of
      SEmpty \<Rightarrow> Some []
    | SSlice ident buf start len \<Rightarrow>
        (case hash_bytes x of None \<Rightarrow> None | Some bs \<Rightarrow> if is_utf8 bs then Some bs else None)
    | SOwned s \<Rightarrow> Some s)"

text \<open>\<open>str::find\<close>: the byte offset of the first occurrence.\<close>

fun str_find :: "string \<Rightarrow> string \<Rightarrow> nat option" where
  "str_find p [] = (if p = [] then Some 0 else None)"
| "str_find p (x # xs) =
     (if prefix p (x # xs) then Some 0 else map_option Suc (str_find p xs))"

definition saturating_add_u32 :: "nat \<Rightarrow> nat \<Rightarrow> nat" where
  "saturating_add_u32 a b = min (a + b) (2 ^ 32 - 1)"

text \<open>
  \<open>subslice_of\<close>; the buffer of an owned base keeps the identity \<open>ident\<close> of its
  allocation.
\<close>

definition subslice_of :: "nat \<Rightarrow> shared_str \<Rightarrow> string \<Rightarrow> shared_str option" where
  "subslice_of ident base part =
     (if part = [] then Some empty_str
      else case as_str base of
        None \<Rightarrow> None
      | Some full \<Rightarrow>
          (case str_find part full of
             None \<Rightarrow> Some (share part)
           | Some off \<Rightarrow>
               Some (case base of
                 SSlice i buf start _ \<Rightarrow>
                   SSlice i buf (saturating_add_u32 start (as_u32 off)) (as_u32 (length part))
               | SOwned s \<Rightarrow> SSlice ident s (as_u32 off) (as_u32 (length part))
               | SEmpty \<Rightarrow> share part)))"

text \<open>
  \<open>StringArena::shared_at\<close>, where the buffer of the arena has the identity
  \<open>arena_ident\<close>, and \<open>str_off_if_dedicated\<close>: the offset of a slice of this very buffer.
\<close>

definition shared_at :: "nat \<Rightarrow> string_arena \<Rightarrow> str_off \<Rightarrow> shared_str" where
  "shared_at arena_ident a off =
     (if snd off = 0 then empty_str
      else from_arena_slice arena_ident (sa_buf a) (fst off) (snd off))"

definition str_off_if_dedicated :: "nat \<Rightarrow> shared_str \<Rightarrow> str_off option" where
  "str_off_if_dedicated arena_ident x = (case x of
      SSlice ident buf start len \<Rightarrow> if ident = arena_ident then Some (start, len) else None
    | _ \<Rightarrow> None)"

subsection \<open>The invariant of the builder\<close>

text \<open>Every indexed string lies in the buffer at its recorded offset.\<close>

definition located :: "bytes \<Rightarrow> string \<times> nat \<Rightarrow> bool" where
  "located buf e \<longleftrightarrow> fst e \<noteq> [] \<and> snd e + length (fst e) \<le> length buf
     \<and> take (length (fst e)) (drop (snd e) buf) = fst e"

definition builder_wf :: "arena_builder \<Rightarrow> bool" where
  "builder_wf b \<longleftrightarrow> distinct (map fst (ab_index b)) \<and> (\<forall>e \<in> set (ab_index b). located (ab_buf b) e)"

text \<open>The string is known to the builder: the empty string always is.\<close>

definition builder_knows :: "arena_builder \<Rightarrow> string \<Rightarrow> bool" where
  "builder_knows b s \<longleftrightarrow> s = [] \<or> map_of (ab_index b) s \<noteq> None"

definition builder_size :: "arena_builder \<Rightarrow> nat" where
  "builder_size b = length (ab_buf b)"

lemma located_mono: "located buf e \<Longrightarrow> located (buf @ s) e"
  by (auto simp: located_def)

lemma register_cases:
  obtains (known) "register b s = b" "builder_knows b s"
  | (fresh) "s \<noteq> []" "map_of (ab_index b) s = None"
      "register b s = b\<lparr>ab_buf := ab_buf b @ s,
         ab_index := ab_index b @ [(s, as_u32 (length (ab_buf b)))]\<rparr>"
  by (cases "s = [] \<or> map_of (ab_index b) s \<noteq> None")
    (auto simp: register_def builder_knows_def)

lemma builder_wf_empty: "builder_wf builder_with_capacity"
  by (simp add: builder_wf_def builder_with_capacity_def)

lemma register_wf:
  assumes "builder_wf b" and "builder_size b < 2 ^ 32"
  shows "builder_wf (register b s)"
proof (cases rule: register_cases [where b = b and s = s])
  case known
  with assms show ?thesis by simp
next
  case fresh
  from assms fresh have "located (ab_buf b @ s) (s, as_u32 (length (ab_buf b)))"
    by (simp add: located_def builder_size_def)
  with assms fresh show ?thesis
    by (auto simp: builder_wf_def located_mono map_of_eq_None_iff)
qed

lemma register_knows: "builder_knows (register b s) s"
  by (cases rule: register_cases [where b = b and s = s])
    (auto simp: builder_knows_def map_add_def)

lemma register_keeps: "builder_knows b t \<Longrightarrow> builder_knows (register b s) t"
  by (cases rule: register_cases [where b = b and s = s])
    (auto simp: builder_knows_def map_add_def split: option.splits)

lemma register_size: "builder_size (register b s) \<le> builder_size b + length s"
  by (cases rule: register_cases [where b = b and s = s]) (auto simp: builder_size_def)

lemma known_resolves:
  assumes "builder_wf b" and "builder_size b < 2 ^ 32" and "builder_knows b s" and "is_utf8 s"
  shows "Option.bind (offset_len (finish_builder b) s) (str_at (finish_builder b)) = Some s"
proof (cases "s = []")
  case True
  then show ?thesis
    by (simp add: offset_len_def str_at_def slice_bytes_def is_utf8.simps)
next
  case False
  with assms obtain off where off: "map_of (ab_index b) s = Some off"
    by (auto simp: builder_knows_def)
  then have "(s, off) \<in> set (ab_index b)" by (rule map_of_SomeD)
  with assms have loc: "located (ab_buf b) (s, off)"
    by (simp add: builder_wf_def)
  then have "length s < 2 ^ 32"
    using assms(2) by (auto simp: located_def builder_size_def)
  with False off loc assms(4) show ?thesis
    by (simp add: offset_len_def finish_builder_def str_at_def slice_bytes_def located_def)
qed

subsection \<open>The interface the workspace relies on\<close>

locale interner =
  fixes reg :: "'b \<Rightarrow> string \<Rightarrow> 'b"
    and wf :: "'b \<Rightarrow> bool"
    and knows :: "'b \<Rightarrow> string \<Rightarrow> bool"
    and size_of :: "'b \<Rightarrow> nat"
    and resolve :: "'b \<Rightarrow> string \<Rightarrow> string option"
  assumes reg_wf: "wf b \<Longrightarrow> size_of b < 2 ^ 32 \<Longrightarrow> wf (reg b s)"
    and reg_knows: "knows (reg b s) s"
    and reg_keeps: "knows b t \<Longrightarrow> knows (reg b s) t"
    and reg_size: "size_of (reg b s) \<le> size_of b + length s"
    and resolves: "wf b \<Longrightarrow> size_of b < 2 ^ 32 \<Longrightarrow> knows b s \<Longrightarrow> is_utf8 s \<Longrightarrow> resolve b s = Some s"
begin

lemma foldl_size: "size_of (foldl reg b ss) \<le> size_of b + sum_list (map length ss)"
proof (induction ss arbitrary: b)
  case Nil
  show ?case by simp
next
  case (Cons s ss)
  from Cons [of "reg b s"] reg_size [of b s] show ?case by simp
qed

lemma foldl_keeps: "knows b t \<Longrightarrow> knows (foldl reg b ss) t"
  by (induction ss arbitrary: b) (auto intro: reg_keeps)

lemma foldl_knows: "s \<in> set ss \<Longrightarrow> knows (foldl reg b ss) s"
  by (induction ss arbitrary: b) (auto intro: foldl_keeps reg_knows)

lemma foldl_wf:
  "wf b \<Longrightarrow> size_of b + sum_list (map length ss) < 2 ^ 32 \<Longrightarrow> wf (foldl reg b ss)"
proof (induction ss arbitrary: b)
  case Nil
  then show ?case by simp
next
  case (Cons s ss)
  then have "wf (reg b s)" by (auto intro: reg_wf)
  moreover have "size_of (reg b s) + sum_list (map length ss) < 2 ^ 32"
    using Cons.prems(2) reg_size [of b s] by simp
  ultimately show ?case using Cons.IH by simp
qed

lemma foldl_resolves:
  assumes "wf b" and "size_of b + sum_list (map length ss) < 2 ^ 32"
    and "s \<in> set ss" and "is_utf8 s"
  shows "resolve (foldl reg b ss) s = Some s"
proof (rule resolves)
  show "size_of (foldl reg b ss) < 2 ^ 32"
    using foldl_size [of b ss] assms(2) by simp
qed (use assms in \<open>auto intro: foldl_wf foldl_knows\<close>)

end

interpretation ar: interner register builder_wf builder_knows builder_size
  "\<lambda>b s. Option.bind (offset_len (finish_builder b) s) (str_at (finish_builder b))"
  by unfold_locales
    (simp_all add: register_wf register_knows register_keeps register_size known_resolves)

subsection \<open>Shared strings read back as the text they were made from\<close>

lemma str_find_Some:
  "str_find p s = Some n \<Longrightarrow> n + length p \<le> length s \<and> take (length p) (drop n s) = p"
proof (induction s arbitrary: n)
  case Nil
  then show ?case by (simp split: if_splits)
next
  case (Cons x xs)
  show ?case
  proof (cases "prefix p (x # xs)")
    case True
    with Cons.prems have "n = 0" by simp
    with True show ?thesis
      using prefix_length_le [OF True] by (auto simp: prefix_def)
  next
    case False
    with Cons.prems obtain m where "n = Suc m" "str_find p xs = Some m" by auto
    with Cons.IH show ?thesis by simp
  qed
qed

lemma as_str_share: "as_str (share s) = Some s"
  by (simp add: share_def shared_new_def empty_str_def as_str_def)

lemma subslice_of_reads_back:
  assumes sub: "subslice_of ident base part = Some x" and utf: "is_utf8 part"
    and fits: "\<forall>i buf start len. base = SSlice i buf start len \<longrightarrow> length buf < 2 ^ 32"
      "\<forall>s. base = SOwned s \<longrightarrow> length s < 2 ^ 32"
  shows "as_str x = Some part"
proof (cases "part = []")
  case True
  with sub show ?thesis by (auto simp: subslice_of_def as_str_def empty_str_def)
next
  case False
  from sub False obtain full where full: "as_str base = Some full"
    by (auto simp: subslice_of_def split: option.splits)
  show ?thesis
  proof (cases "str_find part full")
    case None
    with sub full False show ?thesis
      by (auto simp: subslice_of_def as_str_share)
  next
    case (Some off)
    note at = str_find_Some [OF Some]
    show ?thesis
    proof (cases base)
      case SEmpty
      with sub full False Some show ?thesis
        by (auto simp: subslice_of_def as_str_share)
    next
      case (SOwned s)
      with full have "s = full" by (simp add: as_str_def)
      with sub full False Some SOwned at fits(2) utf show ?thesis
        by (auto simp: subslice_of_def as_str_def)
    next
      case (SSlice i buf start len)
      from full SSlice have slice: "start + len \<le> length buf" "full = take len (drop start buf)"
        by (auto simp: as_str_def split: if_splits)
      from fits(1) SSlice have b: "length buf < 2 ^ 32" by simp
      from at slice have le: "off + length part \<le> len" by auto
      moreover from at slice have "take (length part) (drop off (take len (drop start buf))) = part"
        by simp
      with le have "take (length part) (drop (start + off) buf) = part"
        by (simp add: drop_take min_absorb1 add.commute)
      ultimately show ?thesis
        using sub full False Some SSlice slice b utf
        by (auto simp: subslice_of_def as_str_def saturating_add_u32_def min_def)
    qed
  qed
qed

end
