(* ===== verification/Workspace.thy ===== *)
theory Workspace
  imports Arena "HOL-Library.Monad_Syntax"
begin

section \<open>The workspace\<close>

text \<open>
  \<open>crates/core/src/domain/workspace\<close>, \<open>domain/store.rs\<close>, \<open>domain/databases.rs\<close>,
  \<open>domain/path_cache.rs\<close>, \<open>domain/script_resolve\<close> and the interning passes of
  \<open>domain/arena\<close>. The Rust \<open>Workspace\<close> dereferences to its \<open>WorkspaceCold\<close>, so
  the record \<open>workspace\<close> extends the record \<open>workspace_cold\<close>. Row ids and script ids are
  1-based; an access out of range is a panic, here \<open>None\<close>. The fingerprint of a key is the
  unspecified hash of \<open>std::hash::DefaultHasher\<close>, a parameter \<open>fp\<close> of the operations
  that use it.
\<close>

subsection \<open>Data\<close>

datatype ScriptKind = ObjectScript | TransitionScript | CheckScript

record script_row =
  sr_path_off :: str_off
  sr_abs_path_off :: str_off
  sr_kind :: ScriptKind

record script =
  sc_key :: string
  sc_kind :: ScriptKind
  sc_abs_path :: string
  sc_checksum :: "digest option"

record script_git_staging =
  st_hash :: "string option"
  st_author :: "string option"
  st_date :: "string option"

record script_git =
  sg_hash_off :: str_off
  sg_author_off :: str_off
  sg_date_off :: str_off

record transition_entry =
  te_ord_off :: str_off
  te_script_id :: nat
  te_staging_ord :: "string option"

record schema_entry =
  se_database :: string
  se_name :: string
  se_normalized :: string

record object_row =
  row_schema_id :: nat
  row_kind_code :: u8

record workspace_cold =
  ws_root :: string
  ws_script_git :: "nat \<rightharpoonup> script_git"
  ws_script_git_staging :: "(nat \<times> script_git_staging) list"
  ws_script_key_index :: "string \<rightharpoonup> nat"
  ws_key_index :: "string \<rightharpoonup> nat"
  ws_fp_index :: "nat \<rightharpoonup> nat"
  ws_ingest_key_index :: "nat \<times> string \<rightharpoonup> nat"
  ws_ingest_keys :: "string list"
  ws_ingest_script_keys :: "string list"
  ws_ingest_script_abs :: "string list"
  ws_transitions_by_row :: "(nat \<times> transition_entry list) list"
  ws_transitions_staging :: "((string \<times> string) \<times> (string \<times> string) list) list"
  ws_parent_by_row :: "(nat \<times> nat) list"
  ws_transition_path_cache :: "(nat \<times> str_off list) list option"
  ws_object_path_cache :: "str_off list option"
  ws_layout_arena :: "string_arena option"
  ws_schemas :: "schema_entry list"
  ws_script_rows :: "script_row list"
  ws_script_checksums :: "digest option list"
  ws_database_names :: "string list"
  ws_prior_by_row :: "digest option list"
  ws_catalog_row :: "u8 list"
  ws_has_transition_paths_row :: "u8 list"
  ws_layout_digest :: digest

record workspace = workspace_cold +
  ws_object_entries :: "object_entry list"
  ws_object_keys :: "string list"
  ws_object_rows :: "object_row list"
  ws_catalog_flags :: u8

definition CATALOG_APPLIED :: u8 where "CATALOG_APPLIED = 1"
definition CHECKSUMS_APPLIED :: u8 where "CHECKSUMS_APPLIED = 2"

definition workspace_default :: workspace where
  "workspace_default =
     \<lparr>ws_root = [], ws_script_git = Map.empty, ws_script_git_staging = [],
      ws_script_key_index = Map.empty, ws_key_index = Map.empty, ws_fp_index = Map.empty,
      ws_ingest_key_index = Map.empty, ws_ingest_keys = [], ws_ingest_script_keys = [],
      ws_ingest_script_abs = [], ws_transitions_by_row = [], ws_transitions_staging = [],
      ws_parent_by_row = [], ws_transition_path_cache = None, ws_object_path_cache = None,
      ws_layout_arena = None, ws_schemas = [], ws_script_rows = [], ws_script_checksums = [],
      ws_database_names = [[]], ws_prior_by_row = [], ws_catalog_row = [],
      ws_has_transition_paths_row = [], ws_layout_digest = zero_digest,
      ws_object_entries = [], ws_object_keys = [], ws_object_rows = [], ws_catalog_flags = 0\<rparr>"

subsection \<open>Access\<close>

definition nth_opt :: "'a list \<Rightarrow> nat \<Rightarrow> 'a option" where
  "nth_opt xs i = (if i < length xs then Some (xs ! i) else None)"

definition object_count :: "workspace \<Rightarrow> nat" where
  "object_count ws = length (ws_object_entries ws)"

definition row_id_at :: "nat \<Rightarrow> nat" where
  "row_id_at i = as_u32 (i + 1)"

definition key_index :: "workspace \<Rightarrow> string \<Rightarrow> nat" where
  "key_index ws k = (case ws_key_index ws k of Some i \<Rightarrow> i | None \<Rightarrow> 0)"

definition entry_key :: "workspace \<Rightarrow> nat \<Rightarrow> string option" where
  "entry_key ws i =
     (if i < length (ws_object_keys ws) then Some (ws_object_keys ws ! i)
      else nth_opt (ws_ingest_keys ws) i)"

definition object_by_key :: "workspace \<Rightarrow> string \<Rightarrow> object_entry option" where
  "object_by_key ws k =
     (let i = key_index ws k in if i > 0 then nth_opt (ws_object_entries ws) (i - 1) else None)"

definition ws_str_at :: "workspace \<Rightarrow> str_off \<Rightarrow> string option" where
  "ws_str_at ws off = do { arena \<leftarrow> ws_layout_arena ws; str_at arena off }"

definition database_name :: "workspace \<Rightarrow> nat \<Rightarrow> string" where
  "database_name ws db_id = (case nth_opt (ws_database_names ws) db_id of Some s \<Rightarrow> s | None \<Rightarrow> [])"

text \<open>\<open>ScriptRow::path_str\<close> and \<open>abs_path\<close>: interned text, else the staged text.\<close>

definition script_path :: "workspace \<Rightarrow> nat \<Rightarrow> string option" where
  "script_path ws script_id =
     (if script_id = 0 then None
      else do {
        row \<leftarrow> nth_opt (ws_script_rows ws) (script_id - 1);
        if snd (sr_path_off row) \<noteq> 0 then ws_str_at ws (sr_path_off row)
        else nth_opt (ws_ingest_script_keys ws) (script_id - 1)
      })"

definition script_abs_path :: "workspace \<Rightarrow> nat \<Rightarrow> string option" where
  "script_abs_path ws script_id =
     (if script_id = 0 then None
      else do {
        row \<leftarrow> nth_opt (ws_script_rows ws) (script_id - 1);
        if snd (sr_abs_path_off row) \<noteq> 0 then ws_str_at ws (sr_abs_path_off row)
        else nth_opt (ws_ingest_script_abs ws) (script_id - 1)
      })"

definition script_checksum :: "workspace \<Rightarrow> nat \<Rightarrow> digest option" where
  "script_checksum ws script_id =
     (case nth_opt (ws_script_checksums ws) (script_id - 1) of Some (Some c) \<Rightarrow> Some c | _ \<Rightarrow> None)"

definition catalog_has_row :: "workspace \<Rightarrow> nat \<Rightarrow> bool" where
  "catalog_has_row ws i = (case nth_opt (ws_catalog_row ws) i of Some b \<Rightarrow> b \<noteq> 0 | None \<Rightarrow> False)"

definition row_has_transition_paths :: "workspace \<Rightarrow> nat \<Rightarrow> bool" where
  "row_has_transition_paths ws i =
     (case nth_opt (ws_has_transition_paths_row ws) i of Some b \<Rightarrow> b \<noteq> 0 | None \<Rightarrow> False)"

subsection \<open>Ingest\<close>

text \<open>\<open>Iterator::position\<close>.\<close>

fun position :: "('a \<Rightarrow> bool) \<Rightarrow> 'a list \<Rightarrow> nat option" where
  "position p [] = None"
| "position p (x # xs) = (if p x then Some 0 else map_option Suc (position p xs))"

definition intern_database :: "workspace \<Rightarrow> string \<Rightarrow> (workspace \<times> nat) option" where
  "intern_database ws name =
     (if name = [] then Some (ws, 0)
      else case position (\<lambda>d. eq_ignore_ascii_case d name) (ws_database_names ws) of
        Some i \<Rightarrow> Some (ws, as_u16 i)
      | None \<Rightarrow>
          (let did = length (ws_database_names ws)
           in if did < 2 ^ 16 - 1
              then Some (ws\<lparr>ws_database_names := ws_database_names ws @ [name]\<rparr>, as_u16 did)
              else None))"

definition push_object :: "workspace \<Rightarrow> string \<Rightarrow> object_entry \<Rightarrow> workspace result" where
  "push_object ws key obj =
     (let db_id = oe_db_id obj in
      if ws_ingest_key_index ws (db_id, key) \<noteq> None then
        Inl (InvalidInput (''duplicate object '' @ debug_str key @ '' in database ''
          @ debug_str (database_name ws db_id)
          @ '': two source files map to the same normalized <schema>/<kind>/<name> key ''
          @ ''(keys are case-insensitive); rename or remove one''))
      else
        (let idx = length (ws_object_entries ws) in
         Inr (ws\<lparr>ws_object_entries := ws_object_entries ws @ [obj],
                 ws_ingest_keys := ws_ingest_keys ws @ [key],
                 ws_ingest_key_index := (ws_ingest_key_index ws)((db_id, key) \<mapsto> as_u32 (idx + 1))\<rparr>)))"

text \<open>\<open>Script::into_parts\<close> and \<open>insert_script\<close>.\<close>

definition into_parts :: "script \<Rightarrow> script_row \<times> digest option" where
  "into_parts s = (\<lparr>sr_path_off = str_off_EMPTY, sr_abs_path_off = str_off_EMPTY,
                    sr_kind = sc_kind s\<rparr>, sc_checksum s)"

definition insert_script :: "workspace \<Rightarrow> script \<Rightarrow> (workspace \<times> nat) option" where
  "insert_script ws s =
     (let key = sc_key s; apath = sc_abs_path s; (row, cs) = into_parts s in
      case ws_script_key_index ws key of
        Some sid \<Rightarrow>
          (let idx = sid - 1 in
           if 0 < sid \<and> idx < length (ws_script_rows ws) \<and> idx < length (ws_script_checksums ws)
              \<and> idx < length (ws_ingest_script_keys ws) \<and> idx < length (ws_ingest_script_abs ws)
           then Some (ws\<lparr>ws_script_rows := (ws_script_rows ws)[idx := row],
                         ws_script_checksums := (ws_script_checksums ws)[idx := cs],
                         ws_ingest_script_keys := (ws_ingest_script_keys ws)[idx := key],
                         ws_ingest_script_abs := (ws_ingest_script_abs ws)[idx := apath]\<rparr>, sid)
           else None)
      | None \<Rightarrow>
          (let sid = as_u32 (length (ws_script_rows ws)) + 1 in
           Some (ws\<lparr>ws_script_key_index := (ws_script_key_index ws)(key \<mapsto> sid),
                    ws_script_rows := ws_script_rows ws @ [row],
                    ws_script_checksums := ws_script_checksums ws @ [cs],
                    ws_ingest_script_keys := ws_ingest_script_keys ws @ [key],
                    ws_ingest_script_abs := ws_ingest_script_abs ws @ [apath]\<rparr>, sid)))"

definition push_transition_staging ::
  "workspace \<Rightarrow> string \<Rightarrow> string \<Rightarrow> string \<Rightarrow> string \<Rightarrow> workspace result" where
  "push_transition_staging ws database table_key ord script_key =
     (let staged = (database, table_key);
          entries = (case map_of (ws_transitions_staging ws) staged of Some es \<Rightarrow> es | None \<Rightarrow> [])
      in if \<exists>e \<in> set entries. fst e = ord then
           Inl (InvalidInput (''duplicate transition ordinal '' @ ord @ '' for '' @ database @ ''/''
             @ table_key @ '': each migration ordinal must be unique per table''))
         else Inr (ws\<lparr>ws_transitions_staging :=
                AList.update staged (entries @ [(ord, script_key)]) (ws_transitions_staging ws)\<rparr>))"

subsection \<open>Invalidation and reset\<close>

definition invalidate_transition_paths :: "workspace \<Rightarrow> workspace" where
  "invalidate_transition_paths ws =
     ws\<lparr>ws_transition_path_cache := None, ws_object_path_cache := None,
        ws_has_transition_paths_row := []\<rparr>"

definition invalidate_catalog_facts :: "workspace \<Rightarrow> workspace" where
  "invalidate_catalog_facts ws =
     ws\<lparr>ws_catalog_flags := and (ws_catalog_flags ws) (not (or CATALOG_APPLIED CHECKSUMS_APPLIED)),
        ws_parent_by_row := [], ws_prior_by_row := [], ws_catalog_row := [],
        ws_object_entries := map (set_db_exists False) (ws_object_entries ws)\<rparr>"

definition clear_object_staging :: "workspace \<Rightarrow> workspace" where
  "clear_object_staging ws = ws\<lparr>ws_ingest_keys := [], ws_ingest_key_index := Map.empty\<rparr>"

definition clear_scan_staging :: "workspace \<Rightarrow> workspace" where
  "clear_scan_staging ws =
     (let ws' = clear_object_staging ws in
      if \<forall>r \<in> set (ws_script_rows ws'). snd (sr_path_off r) \<noteq> 0 \<and> snd (sr_abs_path_off r) \<noteq> 0
      then ws'\<lparr>ws_ingest_script_keys := [], ws_ingest_script_abs := []\<rparr>
      else ws')"

definition reset_layout :: "workspace \<Rightarrow> workspace" where
  "reset_layout ws =
     invalidate_catalog_facts
      ((invalidate_transition_paths
        (ws\<lparr>ws_object_entries := [], ws_object_keys := [], ws_object_rows := [],
            ws_ingest_key_index := Map.empty, ws_ingest_keys := [], ws_ingest_script_keys := [],
            ws_ingest_script_abs := [], ws_script_git_staging := [], ws_key_index := Map.empty,
            ws_fp_index := Map.empty, ws_script_rows := [], ws_script_checksums := [],
            ws_script_git := Map.empty, ws_script_key_index := Map.empty,
            ws_transitions_by_row := [], ws_transitions_staging := [], ws_parent_by_row := []\<rparr>))
        \<lparr>ws_schemas := [], ws_database_names := take 1 (ws_database_names ws),
         ws_layout_arena := None\<rparr>)"

definition catalog_applied :: "workspace \<Rightarrow> bool" where
  "catalog_applied ws \<longleftrightarrow> and (ws_catalog_flags ws) CATALOG_APPLIED \<noteq> 0"

definition mark_catalog_applied :: "workspace \<Rightarrow> workspace" where
  "mark_catalog_applied ws = ws\<lparr>ws_catalog_flags := or (ws_catalog_flags ws) CATALOG_APPLIED\<rparr>"

definition checksums_applied :: "workspace \<Rightarrow> bool" where
  "checksums_applied ws \<longleftrightarrow> and (ws_catalog_flags ws) CHECKSUMS_APPLIED \<noteq> 0"

definition mark_checksums_applied :: "workspace \<Rightarrow> workspace" where
  "mark_checksums_applied ws = ws\<lparr>ws_catalog_flags := or (ws_catalog_flags ws) CHECKSUMS_APPLIED\<rparr>"

subsection \<open>Lemmas\<close>

lemma nth_opt_Some: "nth_opt xs i = Some x \<longleftrightarrow> i < length xs \<and> x = xs ! i"
  by (auto simp: nth_opt_def)

end
