(* ===== verification/Layout.thy ===== *)
theory Layout
  imports Workspace
begin

section \<open>The dense layout: finalizing, interning, path caches and views\<close>

text \<open>
  \<open>domain/store.rs\<close>, \<open>domain/workspace/objects\<close>, \<open>domain/workspace/compact.rs\<close>,
  \<open>domain/path_cache.rs\<close>, \<open>domain/arena/ws_register.rs\<close>, \<open>ws_apply\<close>,
  \<open>ws_git.rs\<close>, \<open>ws_intern.rs\<close> and \<open>domain/workspace/views\<close>. A freshly scanned
  workspace is finalized (sorted by key, rows and indexes assigned, staged transitions linked to
  the row of their database), its strings are interned into one arena, and the path caches are
  rebuilt from it. The passes that may skip the lookup of a string which already is a slice of
  the new arena return the same offsets and are modelled by the lookup.
\<close>

subsection \<open>Finalizing the object entries\<close>

text \<open>The loop of \<open>finalize_sorted_entries\<close>: schema ids in order of first occurrence.\<close>

definition schema_id_for :: "(string \<times> nat) list \<Rightarrow> string \<Rightarrow> nat \<times> (string \<times> nat) list" where
  "schema_id_for ids schema =
     (if schema = [] then (0, ids)
      else case map_of ids schema of
        Some i \<Rightarrow> (i, ids)
      | None \<Rightarrow> (let next = as_u16 (length ids + 1) in (next, (schema, next) # ids)))"

fun object_rows_for :: "(string \<times> nat) list \<Rightarrow> string list \<Rightarrow> object_row list" where
  "object_rows_for ids [] = []"
| "object_rows_for ids (key # keys) =
     (let (sid, ids') = schema_id_for ids (schema_part key)
      in \<lparr>row_schema_id = sid, row_kind_code = kind_code (kind_part key)\<rparr>
           # object_rows_for ids' keys)"

text \<open>\<open>index.insert(f(key), (i + 1) as u32)\<close> for the keys from position \<open>i\<close> on.\<close>

fun index_rows :: "('a \<Rightarrow> 'k) \<Rightarrow> nat \<Rightarrow> 'a list \<Rightarrow> ('k \<rightharpoonup> nat) \<Rightarrow> ('k \<rightharpoonup> nat)" where
  "index_rows f i [] m = m"
| "index_rows f i (k # ks) m = index_rows f (Suc i) ks (m(f k \<mapsto> as_u32 (i + 1)))"

record finalized =
  fin_rows :: "object_row list"
  fin_key_index :: "string \<rightharpoonup> nat"
  fin_fp_index :: "nat \<rightharpoonup> nat"
  fin_entries :: "object_entry list"
  fin_keys :: "string list"

definition finalize_sorted_entries ::
  "(string \<Rightarrow> nat) \<Rightarrow> object_entry list \<Rightarrow> string list \<Rightarrow> finalized option" where
  "finalize_sorted_entries fp entries keys =
     (if length entries \<noteq> length keys then None
      else
        (let pairs = sort_key fst (zip keys entries); ks = map fst pairs
         in Some \<lparr>fin_rows = object_rows_for [] ks,
                  fin_key_index = index_rows (\<lambda>k. k) 0 ks Map.empty,
                  fin_fp_index = index_rows fp 0 ks Map.empty,
                  fin_entries = map snd pairs,
                  fin_keys = ks\<rparr>))"

subsection \<open>Linking the staged transitions\<close>

definition entry_keys :: "workspace \<Rightarrow> string list option" where
  "entry_keys ws = those (map (entry_key ws) [0..<object_count ws])"

definition new_staging_transition :: "string \<Rightarrow> nat \<Rightarrow> transition_entry" where
  "new_staging_transition ord sid =
     \<lparr>te_ord_off = str_off_EMPTY, te_script_id = sid, te_staging_ord = Some ord\<rparr>"

definition link_staged :: "(string \<rightharpoonup> nat) \<Rightarrow> (string \<times> string) list \<Rightarrow> transition_entry list" where
  "link_staged index entries =
     List.map_filter (\<lambda>(ord, sk). map_option (new_staging_transition ord) (index sk)) entries"

fun compact_staged ::
  "(string \<Rightarrow> nat) \<Rightarrow> (nat \<times> nat \<rightharpoonup> nat) \<Rightarrow> workspace
    \<Rightarrow> ((string \<times> string) \<times> (string \<times> string) list) list \<Rightarrow> workspace option" where
  "compact_staged fp db_rows ws [] = Some ws"
| "compact_staged fp db_rows ws (((db, key), entries) # rest) =
     do {
       (ws', db_id) \<leftarrow> intern_database ws db;
       case db_rows (db_id, fp key) of
         None \<Rightarrow> compact_staged fp db_rows ws' rest
       | Some row_id \<Rightarrow>
           if row_id = 0 then compact_staged fp db_rows ws' rest
           else
             (let row_entries = link_staged (ws_script_key_index ws') entries in
              compact_staged fp db_rows
                (if row_entries = [] then ws'
                 else ws'\<lparr>ws_transitions_by_row :=
                       AList.update row_id row_entries (ws_transitions_by_row ws')\<rparr>)
                rest)
     }"

definition compact_transitions :: "(string \<Rightarrow> nat) \<Rightarrow> workspace \<Rightarrow> workspace option" where
  "compact_transitions fp ws =
     do {
       keys \<leftarrow> entry_keys ws;
       let db_rows = index_rows (\<lambda>(db, k). (db, fp k)) 0
                       (zip (map oe_db_id (ws_object_entries ws)) keys) Map.empty;
           staging = ws_transitions_staging ws;
           ws' = ws\<lparr>ws_transitions_staging := [], ws_transitions_by_row := []\<rparr>
       in compact_staged fp db_rows ws' staging
     }"

subsection \<open>Path caches\<close>

definition from_arena :: "workspace \<Rightarrow> string \<Rightarrow> str_off option" where
  "from_arena ws s = do { arena \<leftarrow> ws_layout_arena ws; offset_len arena s }"

definition transition_ord :: "workspace \<Rightarrow> transition_entry \<Rightarrow> string option" where
  "transition_ord ws e =
     (case te_staging_ord e of Some s \<Rightarrow> Some s | None \<Rightarrow> ws_str_at ws (te_ord_off e))"

text \<open>The sorted (ordinal, path) list of one row and its offsets.\<close>

definition row_transition_paths ::
  "workspace \<Rightarrow> nat \<Rightarrow> transition_entry list \<Rightarrow> str_off list option" where
  "row_transition_paths ws row_id entries =
     do {
       obj \<leftarrow> nth_opt (ws_object_entries ws) (row_id - 1);
       let db = database_name ws (oe_db_id obj) in do {
         rows \<leftarrow> those (map (\<lambda>e. do {
                   ord \<leftarrow> transition_ord ws e;
                   path \<leftarrow> script_path ws (te_script_id e);
                   Some (ord, with_database_prefix db path) }) entries);
         those (map (\<lambda>(ord, p). from_arena ws p) (sort_key fst rows))
       }
     }"

fun paths_by_row_loop ::
  "workspace \<Rightarrow> (nat \<times> transition_entry list) list \<Rightarrow> (nat \<times> str_off list) list
    \<Rightarrow> (nat \<times> str_off list) list option" where
  "paths_by_row_loop ws [] out = Some out"
| "paths_by_row_loop ws ((row_id, entries) # rest) out =
     (if row_id = 0 then None
      else do {
        paths \<leftarrow> row_transition_paths ws row_id entries;
        paths_by_row_loop ws rest (if paths = [] then out else AList.update row_id paths out)
      })"

definition paths_by_row :: "workspace \<Rightarrow> (nat \<times> str_off list) list option" where
  "paths_by_row ws =
     do { arena \<leftarrow> ws_layout_arena ws; paths_by_row_loop ws (ws_transitions_by_row ws) [] }"

definition transition_flags :: "nat \<Rightarrow> (nat \<times> str_off list) list \<Rightarrow> u8 list" where
  "transition_flags n cache =
     foldl (\<lambda>flags (row_id, paths).
              if paths = [] \<or> \<not> row_id - 1 < n then flags else flags[row_id - 1 := 1])
       (replicate n 0) cache"

definition rebuild_transition_path_cache :: "workspace \<Rightarrow> workspace option" where
  "rebuild_transition_path_cache ws =
     (if ws_transitions_by_row ws = [] \<or> ws_layout_arena ws = None
      then Some (ws\<lparr>ws_transition_path_cache := None, ws_has_transition_paths_row := []\<rparr>)
      else do {
        cache \<leftarrow> paths_by_row ws;
        Some (ws\<lparr>ws_transition_path_cache := Some cache,
                 ws_has_transition_paths_row := transition_flags (object_count ws) cache\<rparr>)
      })"

definition object_layout_path :: "workspace \<Rightarrow> object_entry \<Rightarrow> string option" where
  "object_layout_path ws obj =
     do {
       path \<leftarrow> script_path ws (oe_script_id obj);
       Some (object_path_for_entry (database_name ws (oe_db_id obj)) path)
     }"

definition rebuild_object_path_cache :: "workspace \<Rightarrow> workspace option" where
  "rebuild_object_path_cache ws =
     (if ws_object_entries ws = [] \<or> ws_layout_arena ws = None
      then Some (ws\<lparr>ws_object_path_cache := None\<rparr>)
      else do {
        paths \<leftarrow> those (map (\<lambda>obj. do { p \<leftarrow> object_layout_path ws obj; from_arena ws p })
                        (ws_object_entries ws));
        Some (ws\<lparr>ws_object_path_cache := Some paths\<rparr>)
      })"

definition rebuild_path_caches :: "workspace \<Rightarrow> workspace option" where
  "rebuild_path_caches ws =
     do { ws' \<leftarrow> rebuild_transition_path_cache ws; rebuild_object_path_cache ws' }"

definition ensure_path_caches :: "workspace \<Rightarrow> workspace option" where
  "ensure_path_caches ws =
     (if ws_object_entries ws \<noteq> [] \<and> ws_object_path_cache ws = None then rebuild_path_caches ws
      else if ws_transitions_by_row ws \<noteq> [] \<and> ws_transition_path_cache ws = None
      then rebuild_transition_path_cache ws
      else Some ws)"

subsection \<open>Adopting the finalized entries\<close>

definition settle_layout :: "(string \<Rightarrow> nat) \<Rightarrow> workspace \<Rightarrow> workspace option" where
  "settle_layout fp ws =
     do {
       ws' \<leftarrow> compact_transitions fp ws;
       rebuild_path_caches (invalidate_catalog_facts (clear_scan_staging ws'))
     }"

definition rebuild_layout_from_keys :: "(string \<Rightarrow> nat) \<Rightarrow> workspace \<Rightarrow> string list \<Rightarrow> workspace option" where
  "rebuild_layout_from_keys fp ws keys =
     (if length keys \<noteq> length (ws_object_entries ws) then None
      else settle_layout fp
        (ws\<lparr>ws_object_rows := object_rows_for [] keys, ws_object_keys := keys,
            ws_key_index := index_rows (\<lambda>k. k) 0 keys Map.empty,
            ws_fp_index := index_rows fp 0 keys Map.empty\<rparr>))"

definition rebuild_layout_from_interned :: "(string \<Rightarrow> nat) \<Rightarrow> workspace \<Rightarrow> workspace option" where
  "rebuild_layout_from_interned fp ws =
     do {
       keys \<leftarrow> those (map (\<lambda>o'. ws_str_at ws (oe_key_off o')) (ws_object_entries ws));
       rebuild_layout_from_keys fp ws keys
     }"

definition apply_finalized_entries :: "(string \<Rightarrow> nat) \<Rightarrow> workspace \<Rightarrow> finalized \<Rightarrow> workspace option" where
  "apply_finalized_entries fp ws fin =
     settle_layout fp
       (ws\<lparr>ws_object_rows := fin_rows fin, ws_key_index := fin_key_index fin,
           ws_fp_index := fin_fp_index fin, ws_object_entries := fin_entries fin,
           ws_object_keys := fin_keys fin\<rparr>)"

definition entries_are_interned :: "object_entry list \<Rightarrow> bool" where
  "entries_are_interned entries \<longleftrightarrow> entries \<noteq> [] \<and> (\<forall>e \<in> set entries. snd (oe_key_off e) \<noteq> 0)"

definition finalize_object_layout :: "(string \<Rightarrow> nat) \<Rightarrow> workspace \<Rightarrow> workspace option" where
  "finalize_object_layout fp ws =
     (if entries_are_interned (ws_object_entries ws) then rebuild_layout_from_interned fp ws
      else do {
        fin \<leftarrow> finalize_sorted_entries fp (ws_object_entries ws) (ws_ingest_keys ws);
        apply_finalized_entries fp (ws\<lparr>ws_object_entries := [], ws_ingest_keys := []\<rparr>) fin
      })"

definition adopt_dense_entries ::
  "(string \<Rightarrow> nat) \<Rightarrow> workspace \<Rightarrow> (string \<times> object_entry) list \<Rightarrow> workspace option" where
  "adopt_dense_entries fp ws pairs =
     (let keys = map fst pairs; entries = map snd pairs in
      if entries_are_interned entries then
        (let ws' = ws\<lparr>ws_object_entries := entries, ws_ingest_keys := keys\<rparr> in
         if ws_layout_arena ws' \<noteq> None then rebuild_layout_from_interned fp ws' else Some ws')
      else do {
        fin \<leftarrow> finalize_sorted_entries fp entries keys;
        apply_finalized_entries fp ws fin
      })"

subsection \<open>Interning the strings of a workspace\<close>

definition object_strings :: "workspace \<Rightarrow> nat \<Rightarrow> string list option" where
  "object_strings ws i =
     do {
       obj \<leftarrow> nth_opt (ws_object_entries ws) i;
       key \<leftarrow> entry_key ws i;
       path \<leftarrow> script_path ws (oe_script_id obj);
       Some [key, database_name ws (oe_db_id obj), path]
     }"

definition script_strings :: "workspace \<Rightarrow> nat \<Rightarrow> string list option" where
  "script_strings ws i =
     do {
       path \<leftarrow> script_path ws (as_u32 (i + 1));
       apath \<leftarrow> script_abs_path ws (as_u32 (i + 1));
       Some [path, apath]
     }"

definition opt_list :: "'a option \<Rightarrow> 'a list" where
  "opt_list x = (case x of None \<Rightarrow> [] | Some v \<Rightarrow> [v])"

definition git_strings :: "workspace \<Rightarrow> string list" where
  "git_strings ws =
     concat (map (\<lambda>(sid, st). opt_list (st_hash st) @ opt_list (st_author st) @ opt_list (st_date st))
       (ws_script_git_staging ws))"

definition transition_strings :: "workspace \<Rightarrow> string list" where
  "transition_strings ws =
     concat (map (\<lambda>(row_id, es). concat (map (\<lambda>e. opt_list (te_staging_ord e)) es))
       (ws_transitions_by_row ws))"

definition schema_strings :: "workspace \<Rightarrow> string list" where
  "schema_strings ws = concat (map (\<lambda>s. [se_database s, se_name s, se_normalized s]) (ws_schemas ws))"

text \<open>The strings \<open>register_workspace_strings\<close> registers, in its order.\<close>

definition registered_strings :: "workspace \<Rightarrow> string list option" where
  "registered_strings ws =
     do {
       objs \<leftarrow> those (map (object_strings ws) [0..<object_count ws]);
       scripts \<leftarrow> those (map (script_strings ws) [0..<length (ws_script_rows ws)]);
       Some (concat objs @ concat scripts @ git_strings ws @ transition_strings ws
             @ schema_strings ws)
     }"

definition register_workspace_strings :: "workspace \<Rightarrow> arena_builder \<Rightarrow> arena_builder option" where
  "register_workspace_strings ws b = map_option (foldl register b) (registered_strings ws)"

definition arena_get :: "string_arena \<Rightarrow> string \<Rightarrow> string option" where
  "arena_get arena s = do { off \<leftarrow> offset_len arena s; str_at arena off }"

fun apply_entries_loop ::
  "string_arena \<Rightarrow> workspace \<Rightarrow> (object_entry \<times> string \<times> string) list
    \<Rightarrow> (workspace \<times> object_entry list) option" where
  "apply_entries_loop arena ws [] = Some (ws, [])"
| "apply_entries_loop arena ws ((obj, key, db_name) # rest) =
     do {
       db \<leftarrow> arena_get arena db_name;
       (ws', db_id) \<leftarrow> intern_database ws db;
       key_off \<leftarrow> offset_len arena key;
       (ws'', objs) \<leftarrow> apply_entries_loop arena ws' rest;
       Some (ws'', obj\<lparr>oe_db_id := db_id, oe_key_off := key_off\<rparr> # objs)
     }"

definition apply_object_entries :: "string_arena \<Rightarrow> workspace \<Rightarrow> workspace option" where
  "apply_object_entries arena ws =
     (if ws_object_entries ws = [] then Some ws
      else do {
        keys \<leftarrow> entry_keys ws;
        let objs = ws_object_entries ws;
            names = map (\<lambda>obj. database_name ws (oe_db_id obj)) objs
        in do {
          (ws', objs') \<leftarrow> apply_entries_loop arena (ws\<lparr>ws_database_names := [[]]\<rparr>)
                            (zip objs (zip keys names));
          Some (ws'\<lparr>ws_object_entries := objs', ws_ingest_keys := []\<rparr>)
        }
      })"

definition apply_script_row ::
  "string_arena \<Rightarrow> workspace \<Rightarrow> nat \<Rightarrow> script_row option" where
  "apply_script_row arena ws i =
     do {
       row \<leftarrow> nth_opt (ws_script_rows ws) i;
       key \<leftarrow> nth_opt (ws_ingest_script_keys ws) i;
       apath \<leftarrow> nth_opt (ws_ingest_script_abs ws) i;
       path_off \<leftarrow> offset_len arena key;
       abs_off \<leftarrow> offset_len arena apath;
       Some (row\<lparr>sr_path_off := path_off, sr_abs_path_off := abs_off\<rparr>)
     }"

definition apply_scripts :: "string_arena \<Rightarrow> workspace \<Rightarrow> workspace option" where
  "apply_scripts arena ws =
     (if ws_script_rows ws = [] then Some ws
      else do {
        rows \<leftarrow> those (map (apply_script_row arena ws) [0..<length (ws_script_rows ws)]);
        Some (ws\<lparr>ws_script_rows := rows, ws_ingest_script_keys := [], ws_ingest_script_abs := []\<rparr>)
      })"

definition apply_transition :: "string_arena \<Rightarrow> transition_entry \<Rightarrow> transition_entry option" where
  "apply_transition arena e =
     (case te_staging_ord e of
        None \<Rightarrow> Some e
      | Some ord \<Rightarrow> do {
          off \<leftarrow> offset_len arena ord;
          Some (e\<lparr>te_staging_ord := None, te_ord_off := off\<rparr>) })"

definition apply_interned_transitions :: "string_arena \<Rightarrow> workspace \<Rightarrow> workspace option" where
  "apply_interned_transitions arena ws =
     do {
       trs \<leftarrow> those (map (\<lambda>(row_id, es). map_option (Pair row_id) (those (map (apply_transition arena) es)))
                (ws_transitions_by_row ws));
       Some (ws\<lparr>ws_transitions_by_row := trs\<rparr>)
     }"

definition apply_schemas :: "string_arena \<Rightarrow> workspace \<Rightarrow> workspace option" where
  "apply_schemas arena ws =
     do {
       ss \<leftarrow> those (map (\<lambda>s. do {
               d \<leftarrow> arena_get arena (se_database s);
               n \<leftarrow> arena_get arena (se_name s);
               z \<leftarrow> arena_get arena (se_normalized s);
               Some (s\<lparr>se_database := d, se_name := n, se_normalized := z\<rparr>) }) (ws_schemas ws));
       Some (ws\<lparr>ws_schemas := ss\<rparr>)
     }"

definition apply_workspace_strings :: "string_arena \<Rightarrow> workspace \<Rightarrow> workspace option" where
  "apply_workspace_strings arena ws =
     do {
       ws1 \<leftarrow> apply_object_entries arena ws;
       ws2 \<leftarrow> apply_scripts arena ws1;
       ws3 \<leftarrow> apply_interned_transitions arena ws2;
       apply_schemas arena (invalidate_transition_paths ws3)
     }"

definition rebuild_script_key_index :: "workspace \<Rightarrow> workspace option" where
  "rebuild_script_key_index ws =
     do {
       keys \<leftarrow> those (map (\<lambda>i. script_path ws (as_u32 (i + 1))) [0..<length (ws_script_rows ws)]);
       Some (ws\<lparr>ws_script_key_index := index_rows (\<lambda>k. k) 0 keys Map.empty\<rparr>)
     }"

definition rebuild_fp_index :: "(string \<Rightarrow> nat) \<Rightarrow> workspace \<Rightarrow> workspace" where
  "rebuild_fp_index fp ws = ws\<lparr>ws_fp_index := index_rows fp 0 (ws_object_keys ws) Map.empty\<rparr>"

definition script_git_default :: script_git where
  "script_git_default =
     \<lparr>sg_hash_off = str_off_EMPTY, sg_author_off = str_off_EMPTY, sg_date_off = str_off_EMPTY\<rparr>"

definition git_offset :: "string_arena \<Rightarrow> string option \<Rightarrow> str_off \<Rightarrow> str_off option" where
  "git_offset arena s old = (case s of None \<Rightarrow> Some old | Some t \<Rightarrow> offset_len arena t)"

fun apply_git_loop ::
  "string_arena \<Rightarrow> (nat \<rightharpoonup> script_git) \<Rightarrow> (nat \<times> script_git_staging) list \<Rightarrow> (nat \<rightharpoonup> script_git) option" where
  "apply_git_loop arena m [] = Some m"
| "apply_git_loop arena m ((sid, st) # rest) =
     (let git = (case m sid of Some g \<Rightarrow> g | None \<Rightarrow> script_git_default) in do {
        h \<leftarrow> git_offset arena (st_hash st) (sg_hash_off git);
        a \<leftarrow> git_offset arena (st_author st) (sg_author_off git);
        d \<leftarrow> git_offset arena (st_date st) (sg_date_off git);
        apply_git_loop arena (m(sid \<mapsto> \<lparr>sg_hash_off = h, sg_author_off = a, sg_date_off = d\<rparr>)) rest
      })"

definition apply_script_git_offs :: "workspace \<Rightarrow> workspace option" where
  "apply_script_git_offs ws =
     (case ws_layout_arena ws of
        None \<Rightarrow> Some ws
      | Some arena \<Rightarrow> do {
          m \<leftarrow> apply_git_loop arena (ws_script_git ws) (ws_script_git_staging ws);
          Some (ws\<lparr>ws_script_git := m, ws_script_git_staging := []\<rparr>) })"

definition install_layout_arena :: "(string \<Rightarrow> nat) \<Rightarrow> workspace \<Rightarrow> string_arena \<Rightarrow> workspace option" where
  "install_layout_arena fp ws arena =
     do {
       ws1 \<leftarrow> apply_workspace_strings arena ws;
       ws2 \<leftarrow> rebuild_script_key_index (ws1\<lparr>ws_layout_arena := Some arena\<rparr>);
       keys \<leftarrow> those (map (\<lambda>obj. ws_str_at ws2 (oe_key_off obj)) (ws_object_entries ws2));
       apply_script_git_offs (rebuild_fp_index fp (ws2\<lparr>ws_object_keys := keys\<rparr>))
     }"

definition intern_workspace_strings :: "(string \<Rightarrow> nat) \<Rightarrow> workspace \<Rightarrow> workspace option" where
  "intern_workspace_strings fp ws =
     do {
       b \<leftarrow> register_workspace_strings ws builder_with_capacity;
       install_layout_arena fp ws (finish_builder b)
     }"

subsection \<open>Views\<close>

text \<open>\<open>push_json_str\<close>: the four hexadecimal digits of a control character.\<close>

definition hex_digit :: "nat \<Rightarrow> char" where
  "hex_digit n = (if n < 10 then char_of (48 + n) else char_of (87 + n))"

definition json_char :: "char \<Rightarrow> string" where
  "json_char c =
     (if c = CHR 0x22 then [CHR 0x5C, CHR 0x22]
      else if c = CHR 0x5C then [CHR 0x5C, CHR 0x5C]
      else if (of_char c :: nat) < 32
      then [CHR 0x5C, CHR ''u'', CHR ''0'', CHR ''0'', hex_digit (of_char c div 16), hex_digit (of_char c mod 16)]
      else [c])"

definition push_json_str :: "string \<Rightarrow> string" where
  "push_json_str s = concat (map json_char s)"

definition quoted_json :: "string \<Rightarrow> string" where
  "quoted_json s = [CHR 0x22] @ push_json_str s @ [CHR 0x22]"

definition normalized_keys :: "workspace \<Rightarrow> string list option" where
  "normalized_keys ws = entry_keys ws"

definition normalized_keys_json :: "workspace \<Rightarrow> string option" where
  "normalized_keys_json ws =
     (if ws_object_entries ws = [] then Some ''[]''
      else do {
        keys \<leftarrow> entry_keys ws;
        Some (''['' @ join_with '','' (map quoted_json keys) @ '']'')
      })"

definition scope_ref_json :: "string \<Rightarrow> string \<Rightarrow> string \<Rightarrow> string" where
  "scope_ref_json schema kind name =
     ''{'' @ quoted_json ''schema'' @ '':'' @ quoted_json schema @ '','' @ quoted_json ''kind''
      @ '':'' @ quoted_json kind @ '','' @ quoted_json ''object'' @ '':'' @ quoted_json name @ ''}''"

definition object_scope_json :: "workspace \<Rightarrow> string option" where
  "object_scope_json ws =
     (if ws_object_entries ws = [] then Some ''[]''
      else do {
        keys \<leftarrow> entry_keys ws;
        Some (''['' @ join_with '','' (map (\<lambda>k. scope_ref_json (key_part k 0) (key_part k 1) (key_part k 2)) keys)
              @ '']'')
      })"

definition object_path_at :: "workspace \<Rightarrow> nat \<Rightarrow> string option" where
  "object_path_at ws i =
     (case Option.bind (ws_object_path_cache ws) (\<lambda>ps. nth_opt ps i) of
        Some p \<Rightarrow> ws_str_at ws p
      | None \<Rightarrow> do {
          obj \<leftarrow> nth_opt (ws_object_entries ws) i;
          path \<leftarrow> script_path ws (oe_script_id obj);
          Some (with_database_prefix (database_name ws (oe_db_id obj)) path) })"

definition objects_by_path :: "workspace \<Rightarrow> (string \<times> string) list option" where
  "objects_by_path ws =
     do {
       keys \<leftarrow> entry_keys ws;
       paths \<leftarrow> those (map (\<lambda>obj. script_path ws (oe_script_id obj)) (ws_object_entries ws));
       Some (foldl (\<lambda>m (p, k). AList.update p k m) [] (zip paths keys))
     }"

definition transition_paths_by_script :: "workspace \<Rightarrow> (string \<times> string) list option" where
  "transition_paths_by_script ws =
     do {
       pairs \<leftarrow> those (map (\<lambda>(row_id, es). do {
                  table_key \<leftarrow> (if row_id = 0 then None else entry_key ws (row_id - 1));
                  those (map (\<lambda>e. map_option (\<lambda>p. (p, table_key)) (script_path ws (te_script_id e))) es) })
                (ws_transitions_by_row ws));
       Some (foldl (\<lambda>m (p, k). AList.update p k m) [] (concat pairs))
     }"

definition parent_name :: "workspace \<Rightarrow> nat \<Rightarrow> string option" where
  "parent_name ws child_row_id =
     (case map_of (ws_parent_by_row ws) child_row_id of
        None \<Rightarrow> Some []
      | Some parent_row_id \<Rightarrow>
          if parent_row_id = 0 then Some []
          else do {
            ent \<leftarrow> nth_opt (ws_object_entries ws) (parent_row_id - 1);
            k \<leftarrow> entry_key ws (parent_row_id - 1);
            Some (name_part k)
          })"

subsection \<open>The sub-workspace of one catalog database\<close>

definition script_to_ingest :: "workspace \<Rightarrow> nat \<Rightarrow> script option" where
  "script_to_ingest ws sid =
     do {
       row \<leftarrow> (if sid = 0 then None else nth_opt (ws_script_rows ws) (sid - 1));
       key \<leftarrow> script_path ws sid;
       apath \<leftarrow> script_abs_path ws sid;
       Some \<lparr>sc_key = key, sc_kind = sr_kind row, sc_abs_path = apath, sc_checksum = script_checksum ws sid\<rparr>
     }"

fun copy_scripts ::
  "workspace \<Rightarrow> string \<Rightarrow> nat list \<Rightarrow> workspace \<Rightarrow> (nat \<rightharpoonup> nat) \<Rightarrow> (workspace \<times> (nat \<rightharpoonup> nat)) option" where
  "copy_scripts src pre [] out ids = Some (out, ids)"
| "copy_scripts src pre (sid # rest) out ids =
     do {
       path \<leftarrow> script_path src sid;
       if starts_with path pre then do {
         s \<leftarrow> script_to_ingest src sid;
         (out', child) \<leftarrow> insert_script out s;
         copy_scripts src pre rest out' (ids(sid \<mapsto> child))
       } else copy_scripts src pre rest out ids
     }"

fun copy_objects ::
  "workspace \<Rightarrow> string \<Rightarrow> nat \<Rightarrow> (nat \<rightharpoonup> nat) \<Rightarrow> nat list \<Rightarrow> workspace
    \<Rightarrow> (workspace \<times> (string \<times> object_entry) list) option" where
  "copy_objects src db db_id ids [] out = Some (out, [])"
| "copy_objects src db db_id ids (i # rest) out =
     do {
       o' \<leftarrow> nth_opt (ws_object_entries src) i;
       if database_name src (oe_db_id o') \<noteq> db then copy_objects src db db_id ids rest out
       else do {
         (out', child) \<leftarrow> (case ids (oe_script_id o') of
            Some c \<Rightarrow> Some (out, c)
          | None \<Rightarrow> do { s \<leftarrow> script_to_ingest src (oe_script_id o'); insert_script out s });
         key \<leftarrow> entry_key src i;
         (out'', pairs) \<leftarrow> copy_objects src db db_id ids rest out';
         Some (out'', (key, o'\<lparr>oe_key_off := str_off_EMPTY, oe_db_id := db_id, oe_script_id := child\<rparr>) # pairs)
       }
     }"

fun relink_transitions_loop ::
  "workspace \<Rightarrow> string \<Rightarrow> (nat \<times> transition_entry list) list \<Rightarrow> workspace \<Rightarrow> workspace option" where
  "relink_transitions_loop src db [] out = Some out"
| "relink_transitions_loop src db ((pi, entries) # rest) out =
     (if pi = 0 \<or> length (ws_object_entries src) < pi then relink_transitions_loop src db rest out
      else if database_name src (oe_db_id (ws_object_entries src ! (pi - 1))) \<noteq> db
      then relink_transitions_loop src db rest out
      else do {
        table_key \<leftarrow> entry_key src (pi - 1);
        let child_row_id = key_index out table_key in
        if child_row_id = 0 then relink_transitions_loop src db rest out
        else do {
          mapped \<leftarrow> those (map (\<lambda>e. do {
                      sk \<leftarrow> script_path src (te_script_id e);
                      case ws_script_key_index out sk of
                        None \<Rightarrow> Some []
                      | Some child \<Rightarrow> do {
                          ord \<leftarrow> transition_ord src e;
                          Some [new_staging_transition ord child] } }) entries);
          relink_transitions_loop src db rest
            (if concat mapped = [] then out
             else out\<lparr>ws_transitions_by_row :=
                    AList.update child_row_id (concat mapped) (ws_transitions_by_row out)\<rparr>)
        }
      })"

definition relink_transitions_from :: "workspace \<Rightarrow> workspace \<Rightarrow> string \<Rightarrow> workspace option" where
  "relink_transitions_from out src db =
     relink_transitions_loop src db (ws_transitions_by_row src) (out\<lparr>ws_transitions_by_row := []\<rparr>)"

fun relink_parents_loop ::
  "workspace \<Rightarrow> string \<Rightarrow> (nat \<times> nat) list \<Rightarrow> workspace \<Rightarrow> workspace option" where
  "relink_parents_loop src db [] out = Some out"
| "relink_parents_loop src db ((ci, pi) # rest) out =
     (if ci = 0 \<or> length (ws_object_entries src) < ci then relink_parents_loop src db rest out
      else if database_name src (oe_db_id (ws_object_entries src ! (ci - 1))) \<noteq> db
      then relink_parents_loop src db rest out
      else do {
        child_key \<leftarrow> entry_key src (ci - 1);
        let child_row_id = key_index out child_key in
        if child_row_id = 0 \<or> pi = 0 \<or> length (ws_object_entries src) < pi
        then relink_parents_loop src db rest out
        else do {
          parent_key \<leftarrow> entry_key src (pi - 1);
          let parent_row = key_index out parent_key in
          relink_parents_loop src db rest
            (if parent_row = 0 then out
             else out\<lparr>ws_parent_by_row := AList.update child_row_id parent_row (ws_parent_by_row out)\<rparr>)
        }
      })"

definition relink_parents_from :: "workspace \<Rightarrow> workspace \<Rightarrow> string \<Rightarrow> workspace option" where
  "relink_parents_from out src db =
     relink_parents_loop src db (ws_parent_by_row src) (out\<lparr>ws_parent_by_row := []\<rparr>)"

definition for_catalog_database :: "(string \<Rightarrow> nat) \<Rightarrow> workspace \<Rightarrow> string \<Rightarrow> workspace option" where
  "for_catalog_database fp src db =
     (let start = workspace_default\<lparr>ws_root := ws_root src, ws_layout_digest := ws_layout_digest src,
                    ws_schemas := filter (\<lambda>s. se_database s = db) (ws_schemas src)\<rparr>
      in do {
        (out0, db_id) \<leftarrow> intern_database start db;
        (out1, ids) \<leftarrow> copy_scripts src (db @ ''/'')
          (map (\<lambda>i. i + 1) [0..<length (ws_script_rows src)]) out0 Map.empty;
        (out2, pairs) \<leftarrow> copy_objects src db db_id ids [0..<object_count src] out1;
        out3 \<leftarrow> adopt_dense_entries fp out2 pairs;
        out4 \<leftarrow> relink_transitions_from out3 src db;
        out5 \<leftarrow> relink_parents_from out4 src db;
        out6 \<leftarrow> (if ws_object_entries out5 \<noteq> [] then intern_workspace_strings fp out5 else Some out5);
        rebuild_path_caches out6
      })"

end
