(* ===== verification/Scan.thy ===== *)
theory Scan
  imports Layout
begin

section \<open>Scanning the SQL tree\<close>

text \<open>
  \<open>crates/core/src/scan\<close>: walking the tree, classifying every file, parsing object and
  transition paths, the content checksum and the layout digest. The file system is a tree of
  nodes as read by the walk, with the unreadable ones marked; SHA-256 is a parameter \<open>sha\<close>.
  An operation that can both fail and panic returns an \<open>outcome\<close>: \<open>None\<close> is a panic.
\<close>

type_synonym 'a outcome = "(error + 'a) option"

definition obind :: "'a outcome \<Rightarrow> ('a \<Rightarrow> 'b outcome) \<Rightarrow> 'b outcome" where
  "obind m f = (case m of None \<Rightarrow> None | Some (Inl e) \<Rightarrow> Some (Inl e) | Some (Inr x) \<Rightarrow> f x)"

text \<open>A step that cannot return an error.\<close>

definition no_error :: "'a option \<Rightarrow> 'a outcome" where
  "no_error m = map_option Inr m"

subsection \<open>Checksums\<close>

text \<open>
  \<open>content_checksum\<close> feeds the hash piecewise; \<open>hashed_bytes\<close> is what it feeds, by the loop
  of the source.
\<close>

definition CR :: char where "CR = CHR 0x0D"
definition LF :: char where "LF = CHR 0x0A"

lemma position_Some: "position p xs = Some i \<Longrightarrow> i < length xs \<and> p (xs ! i) \<and> (\<forall>j < i. \<not> p (xs ! j))"
proof (induction xs arbitrary: i)
  case (Cons x xs)
  show ?case
  proof (cases i)
    case 0
    with Cons.prems show ?thesis by (auto split: if_splits)
  next
    case (Suc k)
    with Cons.prems have "\<not> p x" "position p xs = Some k" by (auto split: if_splits)
    with Cons.IH [of k] Suc show ?thesis by (auto simp: less_Suc_eq_0_disj)
  qed
qed simp

function hashed_bytes :: "bytes \<Rightarrow> bytes" where
  "hashed_bytes rest =
     (case position (\<lambda>b. b = CR) rest of
        None \<Rightarrow> rest
      | Some pos \<Rightarrow>
          if nth_opt rest (pos + 1) = Some LF
          then take pos rest @ [LF] @ hashed_bytes (drop (pos + 2) rest)
          else take (pos + 1) rest @ hashed_bytes (drop (pos + 1) rest))"
  by pat_completeness auto
termination
  by (relation "measure length") (auto dest!: position_Some simp: nth_opt_def split: if_splits)

declare hashed_bytes.simps [simp del]

definition content_checksum :: "(bytes \<Rightarrow> digest) \<Rightarrow> bytes \<Rightarrow> digest" where
  "content_checksum sha data = sha (hashed_bytes data)"

text \<open>\<open>u64::to_le_bytes\<close>.\<close>

definition to_le_bytes :: "nat \<Rightarrow> bytes" where
  "to_le_bytes n = map (\<lambda>i. char_of (n div 256 ^ i mod 256)) [0..<8]"

definition layout_preimage :: "string list \<Rightarrow> bytes" where
  "layout_preimage keys = concat (map (\<lambda>k. to_le_bytes (length k) @ k) (sort keys))"

definition layout_digest :: "(bytes \<Rightarrow> digest) \<Rightarrow> workspace \<Rightarrow> digest option" where
  "layout_digest sha ws =
     map_option (\<lambda>keys. sha (layout_preimage keys))
       (those (map (\<lambda>i. script_path ws (i + 1)) [0..<length (ws_script_rows ws)]))"

subsection \<open>The file tree\<close>

datatype fs_node =
    FsFile bytes
  | FsBadFile string
  | FsSymlink
  | FsDir "(string \<times> fs_node) list"
  | FsBadDir string

text \<open>\<open>Path::extension\<close> of a file name.\<close>

definition extension :: "string \<Rightarrow> string option" where
  "extension name =
     (let parts = split_on (CHR ''.'') name in
      if length parts \<le> 1 \<or> butlast parts = [[]] then None else Some (last parts))"

definition is_sql_file :: "string \<Rightarrow> bool" where
  "is_sql_file name = (case extension name of Some e \<Rightarrow> eq_ignore_ascii_case e ''sql'' | None \<Rightarrow> False)"

text \<open>
  \<open>walk_dir\<close>: every file below the directory with the components of its path from the root and
  what reading it gives.
\<close>

type_synonym fs_entry = "string list \<times> (string + bytes)"

fun walk_node :: "string list \<Rightarrow> string \<Rightarrow> fs_node \<Rightarrow> error + fs_entry list"
and walk_dir :: "string list \<Rightarrow> (string \<times> fs_node) list \<Rightarrow> error + fs_entry list" where
  "walk_node pre name (FsFile data) =
     Inr (if is_sql_file name then [(pre @ [name], Inr data)] else [])"
| "walk_node pre name (FsBadFile msg) =
     Inr (if is_sql_file name then [(pre @ [name], Inl msg)] else [])"
| "walk_node pre name FsSymlink = Inr []"
| "walk_node pre name (FsDir kids) = walk_dir (pre @ [name]) kids"
| "walk_node pre name (FsBadDir msg) = Inl (Io msg)"
| "walk_dir pre [] = Inr []"
| "walk_dir pre ((name, node) # rest) =
     bind_result (walk_node pre name node) (\<lambda>a.
     bind_result (walk_dir pre rest) (\<lambda>b. Inr (a @ b)))"

definition walk_sql :: "(string \<times> fs_node) list \<Rightarrow> error + fs_entry list" where
  "walk_sql root = bind_result (walk_dir [] root) (\<lambda>es. Inr (sort_key fst es))"

definition relative_sql_path :: "string list \<Rightarrow> error + string" where
  "relative_sql_path comps =
     (case find (\<lambda>c. \<not> is_utf8 c) comps of
        Some c \<Rightarrow> Inl (InvalidInput (''path component is not valid UTF-8: '' @ c))
      | None \<Rightarrow> Inr (join_with ''/'' comps))"

definition absolute_path :: "string \<Rightarrow> string \<Rightarrow> string" where
  "absolute_path root rel = root @ ''/'' @ rel"

subsection \<open>Object files\<close>

definition KINDS :: "string list" where
  "KINDS = [''tables'', ''views'', ''procedures'', ''functions'', ''triggers'', ''indexes'',
            ''types'', ''sequences'', ''synonyms'']"

definition strip_sql_ext :: "string \<Rightarrow> string" where
  "strip_sql_ext file =
     (let n = length file in
      if n \<ge> 4 \<and> \<not> is_continuation (file ! (n - 4)) \<and> eq_ignore_ascii_case (drop (n - 4) file) ''.sql''
      then take (n - 4) file else file)"

type_synonym parsed_object = "string \<times> object_entry \<times> script"

definition file_checksum :: "(bytes \<Rightarrow> digest) \<Rightarrow> (string + bytes) \<Rightarrow> error + digest" where
  "file_checksum sha data = (case data of Inl msg \<Rightarrow> Inl (Io msg) | Inr bs \<Rightarrow> Inr (content_checksum sha bs))"

definition parse_object ::
  "(bytes \<Rightarrow> digest) \<Rightarrow> string \<Rightarrow> string \<Rightarrow> (string + bytes) \<Rightarrow> error + parsed_object option" where
  "parse_object sha rel apath data =
     (let parts = split_on (CHR ''/'') rel; n = length parts in
      if n < 4 then Inr None
      else if n > 4 then
        (if parts ! (n - 2) \<in> set KINDS then
           Inl (InvalidInput (''object scripts must sit exactly at <database>/<schema>/<kind>/<name>.sql; ''
             @ ''nested path is not deployable: '' @ rel))
         else Inr None)
      else
        (let name = strip_sql_ext (parts ! (n - 1)); kind = parts ! (n - 2); schema = parts ! (n - 3) in
         if kind \<notin> set KINDS then Inr None
         else
           bind_result (validate_path_component (parts ! 0)) (\<lambda>_.
           bind_result (validate_path_component schema) (\<lambda>_.
           bind_result (validate_path_component name) (\<lambda>_.
           bind_result (file_checksum sha data) (\<lambda>cs.
             Inr (Some
               (object_key_new schema kind name,
                \<lparr>oe_checksum = cs, oe_key_off = str_off_EMPTY, oe_script_id = 0, oe_db_id = 0, oe_flags = 0\<rparr>,
                \<lparr>sc_key = script_key_from_path rel, sc_kind = ObjectScript, sc_abs_path = apath,
                 sc_checksum = Some cs\<rparr>))))))))"

type_synonym scan_item = "string \<times> string \<times> (string + bytes)"

definition parse_item :: "(bytes \<Rightarrow> digest) \<Rightarrow> scan_item \<Rightarrow> error + parsed_object option" where
  "parse_item sha it = (case it of (rel, apath, data) \<Rightarrow> parse_object sha rel apath data)"

text \<open>
  \<open>parse_objects\<close>: sequential below the threshold, else in chunks by worker threads whose
  results are joined in order. \<open>parallelism\<close> is \<open>thread::available_parallelism\<close>, \<open>None\<close>
  when it is an error.
\<close>

definition PARALLEL_THRESHOLD :: nat where "PARALLEL_THRESHOLD = 64"
definition MAX_WORKERS :: nat where "MAX_WORKERS = 8"

function chunks :: "nat \<Rightarrow> 'a list \<Rightarrow> 'a list list" where
  "chunks c xs = (if xs = [] \<or> c = 0 then [] else take c xs # chunks c (drop c xs))"
  by pat_completeness auto
termination
  by (relation "measure (\<lambda>(c, xs). length xs)") auto

declare chunks.simps [simp del]

definition div_ceil :: "nat \<Rightarrow> nat \<Rightarrow> nat" where
  "div_ceil a b = (a + b - 1) div b"

definition parse_objects ::
  "(bytes \<Rightarrow> digest) \<Rightarrow> nat option \<Rightarrow> scan_item list \<Rightarrow> error + parsed_object option list" where
  "parse_objects sha parallelism items =
     (if length items < PARALLEL_THRESHOLD then collect_results (map (parse_item sha) items)
      else
        (let workers = min (case parallelism of Some n \<Rightarrow> n | None \<Rightarrow> 1) MAX_WORKERS;
             chunk = div_ceil (length items) workers;
             parts = map (map (parse_item sha)) (chunks chunk items)
         in collect_results (concat parts)))"

subsection \<open>Merging objects into the workspace\<close>

type_synonym schema_map = "((string \<times> string) \<times> schema_entry) list"

definition record_schema :: "string \<Rightarrow> string \<Rightarrow> schema_map \<Rightarrow> schema_map" where
  "record_schema db schema m =
     (if map_of m (db, schema) = None
      then m @ [((db, schema), \<lparr>se_database = db, se_name = schema, se_normalized = to_lowercase schema\<rparr>)]
      else m)"

definition insert_parsed_object ::
  "workspace \<Rightarrow> parsed_object option \<Rightarrow> string \<Rightarrow> schema_map \<Rightarrow> (workspace \<times> schema_map) outcome" where
  "insert_parsed_object ws parsed rel schemas =
     (case parsed of
        None \<Rightarrow> Some (Inr (ws, schemas))
      | Some (key, obj, s) \<Rightarrow>
          (let db = hd (split_on (CHR ''/'') rel); schemas' = record_schema db (schema_part key) schemas in
           obind (no_error (insert_script ws s)) (\<lambda>(ws1, sid).
           if length (ws_database_names ws1) \<ge> 2 ^ 16 - 2
           then Some (Inl (InvalidInput
             ''too many distinct database directories under RM_SQL_ROOT (max 65534)''))
           else
             obind (no_error (intern_database ws1 db)) (\<lambda>(ws2, db_id).
             obind (Some (push_object ws2 key (obj\<lparr>oe_script_id := sid, oe_db_id := db_id\<rparr>))) (\<lambda>ws3.
             Some (Inr (ws3, schemas')))))))"

definition push_check :: "workspace \<Rightarrow> string \<Rightarrow> string \<Rightarrow> workspace option" where
  "push_check ws rel apath =
     map_option fst (insert_script ws \<lparr>sc_key = script_key_from_path rel, sc_kind = CheckScript,
       sc_abs_path = apath, sc_checksum = None\<rparr>)"

definition is_check_path :: "string \<Rightarrow> bool" where
  "is_check_path rel =
     (case split_on (CHR ''/'') rel of
        [a, b, f] \<Rightarrow> b = ''checks'' \<and> f \<noteq> []
      | [a, b, c, f] \<Rightarrow> c = ''checks'' \<and> f \<noteq> []
      | _ \<Rightarrow> False)"

subsection \<open>Transition files\<close>

definition SCAFFOLD :: string where "SCAFFOLD = ''-- rmig: transition-scaffold''"
definition MAX_KEY_UTF16_UNITS :: nat where "MAX_KEY_UTF16_UNITS = 512"

definition parse_filename :: "string \<Rightarrow> string option" where
  "parse_filename file =
     (let stripped = strip_sql_ext file in
      if length stripped = length file then None
      else do {
        (ordinal, rest) \<leftarrow> split_once (CHR ''_'') stripped;
        if length ordinal \<noteq> 3 \<or> \<not> list_all is_ascii_digit ordinal then None
        else do {
          (commit, slug) \<leftarrow> split_once (CHR ''_'') rest;
          if length commit < 7 \<or> \<not> list_all is_ascii_hexdigit commit then None
          else if slug = [] then None
          else Some ordinal
        }
      })"

record transition_meta =
  tm_table_key :: string
  tm_path :: string
  tm_ordinal :: string

definition parse_meta :: "string \<Rightarrow> error + transition_meta option" where
  "parse_meta rel =
     (let parts = split_on (CHR ''/'') rel; n = length parts in
      if n < 6 then Inr None
      else if parts ! (n - 4) \<noteq> ''tables'' \<or> parts ! (n - 3) \<noteq> ''_migrations'' then Inr None
      else
        (let schema = parts ! (n - 5); table = parts ! (n - 2); file = parts ! (n - 1) in
         bind_result (validate_path_component schema) (\<lambda>_.
         bind_result (validate_path_component table) (\<lambda>_.
         bind_result (validate_path_component file) (\<lambda>_.
           case parse_filename file of
             None \<Rightarrow> Inr None
           | Some ordinal \<Rightarrow>
               if utf16_count rel > MAX_KEY_UTF16_UNITS then
                 Inl (InvalidInput (''transition path exceeds '' @ nat_to_string MAX_KEY_UTF16_UNITS
                   @ '' characters and cannot be recorded exactly in audit history: '' @ rel))
               else Inr (Some \<lparr>tm_table_key = object_key_new schema ''tables'' table,
                              tm_path = rel, tm_ordinal = ordinal\<rparr>))))))"

text \<open>\<open>str::trim_end_matches('\r')\<close> of the first line.\<close>

definition is_scaffold :: "bytes \<Rightarrow> bool" where
  "is_scaffold data =
     (let line = hd (split_on LF data);
          text = (if is_utf8 line then line else [])
      in starts_with (rev (dropWhile (\<lambda>c. c = CR) (rev text))) SCAFFOLD)"

definition ingest ::
  "(bytes \<Rightarrow> digest) \<Rightarrow> workspace \<Rightarrow> string \<Rightarrow> string \<Rightarrow> (string + bytes) \<Rightarrow> workspace outcome" where
  "ingest sha ws rel apath data =
     obind (Some (parse_meta rel)) (\<lambda>meta.
       case meta of
         None \<Rightarrow> Some (Inr ws)
       | Some m \<Rightarrow>
           (case data of
              Inl msg \<Rightarrow> Some (Inl (Io msg))
            | Inr bs \<Rightarrow>
                (let sk = script_key_from_path (tm_path m) in
                 obind (no_error (insert_script ws \<lparr>sc_key = sk, sc_kind = TransitionScript,
                   sc_abs_path = apath, sc_checksum = Some (content_checksum sha bs)\<rparr>)) (\<lambda>(ws1, sid).
                 if is_scaffold bs then Some (Inr ws1)
                 else
                   obind (Some (push_transition_staging ws1 (hd (split_on (CHR ''/'') rel))
                     (tm_table_key m) (tm_ordinal m) sk)) (\<lambda>ws2.
                   Some (Inr (invalidate_transition_paths ws2)))))))"

subsection \<open>The scan\<close>

datatype file_class = TransitionFile | CheckFile | ObjectFile

definition classify :: "string \<Rightarrow> file_class" where
  "classify rel =
     (if str_contains rel ''/tables/_migrations/'' then TransitionFile
      else if is_check_path rel then CheckFile
      else ObjectFile)"

fun scan_entries ::
  "(bytes \<Rightarrow> digest) \<Rightarrow> string \<Rightarrow> fs_entry list \<Rightarrow> workspace \<Rightarrow> (workspace \<times> scan_item list) outcome" where
  "scan_entries sha root [] ws = Some (Inr (ws, []))"
| "scan_entries sha root ((comps, data) # rest) ws =
     obind (Some (relative_sql_path comps)) (\<lambda>rel.
       let apath = absolute_path root rel in
       case classify rel of
         TransitionFile \<Rightarrow> obind (ingest sha ws rel apath data) (scan_entries sha root rest)
       | CheckFile \<Rightarrow> obind (no_error (push_check ws rel apath)) (scan_entries sha root rest)
       | ObjectFile \<Rightarrow>
           obind (scan_entries sha root rest ws) (\<lambda>(ws', items). Some (Inr (ws', (rel, apath, data) # items))))"

fun merge_objects ::
  "(scan_item \<times> parsed_object option) list \<Rightarrow> workspace \<Rightarrow> schema_map \<Rightarrow> (workspace \<times> schema_map) outcome" where
  "merge_objects [] ws schemas = Some (Inr (ws, schemas))"
| "merge_objects (((rel, apath, data), parsed) # rest) ws schemas =
     obind (insert_parsed_object ws parsed rel schemas) (\<lambda>(ws', schemas'). merge_objects rest ws' schemas')"

definition scan_root ::
  "(bytes \<Rightarrow> digest) \<Rightarrow> (string \<Rightarrow> nat) \<Rightarrow> nat option \<Rightarrow> workspace \<Rightarrow> string \<Rightarrow> (string \<times> fs_node) list
    \<Rightarrow> workspace outcome" where
  "scan_root sha fp parallelism ws0 root tree =
     (let ws = (reset_layout ws0)\<lparr>ws_root := root\<rparr> in
      obind (Some (walk_sql tree)) (\<lambda>entries.
      obind (scan_entries sha root entries ws) (\<lambda>(ws1, items).
      obind (Some (parse_objects sha parallelism items)) (\<lambda>parsed.
      obind (merge_objects (zip items parsed) ws1 []) (\<lambda>(ws2, schemas).
        no_error (finalize_object_layout fp
          (ws2\<lparr>ws_schemas := sort_key se_name (map snd schemas)\<rparr>)))))))"

end
