(* ===== verification/Layout_Correct.thy ===== *)
theory Layout_Correct
  imports Layout
begin

section \<open>Correctness of the dense layout\<close>

text \<open>
  The frame of every layout pass, what finalizing gives (a sorted permutation with correct kind
  codes and indexes, on which no catalog facts are stamped) and the agreement of the transition
  flags with the path cache.
\<close>

subsection \<open>Finalizing\<close>

lemma object_rows_for_kinds:
  "length (object_rows_for ids ks) = length ks
   \<and> (\<forall>i < length ks. row_kind_code (object_rows_for ids ks ! i) = kind_code (kind_part (ks ! i)))"
proof (induction ks arbitrary: ids)
  case (Cons k ks)
  obtain sid ids' where s: "schema_id_for ids (schema_part k) = (sid, ids')" by (cases "schema_id_for ids (schema_part k)")
  show ?case using Cons [of ids'] by (auto simp: s nth_Cons split: nat.splits)
qed simp

lemma index_rows_notin: "x \<notin> f ` set ks \<Longrightarrow> index_rows f i ks m x = m x"
  by (induction ks arbitrary: i m) auto

lemma index_rows_last:
  assumes "i + length ks < 2 ^ 32" and "j < length ks" and "f (ks ! j) = x"
    and "\<forall>l. j < l \<and> l < length ks \<longrightarrow> f (ks ! l) \<noteq> x"
  shows "index_rows f i ks m x = Some (i + j + 1)"
  using assms
proof (induction ks arbitrary: i j m)
  case (Cons k ks)
  show ?case
  proof (cases j)
    case 0
    have "x \<notin> f ` set ks"
    proof
      assume "x \<in> f ` set ks"
      then obtain l where "l < length ks" "f (ks ! l) = x" by (auto simp: in_set_conv_nth)
      with Cons.prems(4) 0 show False by (auto dest: spec [of _ "Suc l"])
    qed
    with 0 Cons.prems show ?thesis by (simp add: index_rows_notin)
  next
    case (Suc j')
    have "\<forall>l. j' < l \<and> l < length ks \<longrightarrow> f (ks ! l) \<noteq> x"
    proof (intro allI impI)
      fix l assume "j' < l \<and> l < length ks"
      with Cons.prems(4) Suc show "f (ks ! l) \<noteq> x" by (auto dest: spec [of _ "Suc l"])
    qed
    with Cons.IH [of "Suc i" j'] Cons.prems Suc show ?thesis by simp
  qed
qed simp

lemma finalize_sorted_entries_Some:
  assumes "finalize_sorted_entries fp entries keys = Some fin"
  shows "length (fin_keys fin) = length entries" "length (fin_entries fin) = length entries"
    "length (fin_rows fin) = length entries" "length keys = length entries"
    "mset (zip (fin_keys fin) (fin_entries fin)) = mset (zip keys entries)"
    "sorted (fin_keys fin)"
    "\<forall>i < length entries. row_kind_code (fin_rows fin ! i) = kind_code (kind_part (fin_keys fin ! i))"
    "fin_key_index fin = index_rows (\<lambda>k. k) 0 (fin_keys fin) Map.empty"
proof -
  let ?p = "sort_key fst (zip keys entries)"
  from assms have len: "length keys = length entries" and fin: "fin = \<lparr>fin_rows = object_rows_for [] (map fst ?p),
      fin_key_index = index_rows (\<lambda>k. k) 0 (map fst ?p) Map.empty, fin_fp_index = index_rows fp 0 (map fst ?p) Map.empty,
      fin_entries = map snd ?p, fin_keys = map fst ?p\<rparr>"
    by (auto simp: finalize_sorted_entries_def Let_def split: if_splits)
  show "length (fin_keys fin) = length entries" "length (fin_entries fin) = length entries"
    "length (fin_rows fin) = length entries" "length keys = length entries"
    "\<forall>i < length entries. row_kind_code (fin_rows fin ! i) = kind_code (kind_part (fin_keys fin ! i))"
    "fin_key_index fin = index_rows (\<lambda>k. k) 0 (fin_keys fin) Map.empty"
    using len object_rows_for_kinds [of "[]" "map fst ?p"] by (simp_all add: fin)
  show "mset (zip (fin_keys fin) (fin_entries fin)) = mset (zip keys entries)"
    by (simp add: fin zip_map_fst_snd)
  show "sorted (fin_keys fin)" by (simp add: fin)
qed

lemma names_same: "(ws :: workspace)\<lparr>ws_database_names := ws_database_names ws\<rparr> = ws"
  by simp

lemma trs_same: "(ws :: workspace)\<lparr>ws_transitions_by_row := ws_transitions_by_row ws\<rparr> = ws"
  by simp

lemma intern_database_frame:
  assumes "intern_database ws db = Some (ws', i)"
  shows "\<exists>names. ws' = ws\<lparr>ws_database_names := names\<rparr>"
proof -
  from assms have "ws' = ws \<or> ws' = ws\<lparr>ws_database_names := ws_database_names ws @ [db]\<rparr>"
    by (auto simp: intern_database_def Let_def split: if_splits option.splits)
  then show ?thesis using names_same [of ws] by metis
qed

lemma compact_staged_step:
  assumes "compact_staged fp db_rows ws (((db, key), entries) # staged) = Some ws'"
  shows "\<exists>names trs. compact_staged fp db_rows (ws\<lparr>ws_database_names := names, ws_transitions_by_row := trs\<rparr>) staged = Some ws'"
proof -
  from assms obtain w i where I: "intern_database ws db = Some (w, i)"
    and rest: "(case db_rows (i, fp key) of
         None \<Rightarrow> compact_staged fp db_rows w staged
       | Some row_id \<Rightarrow>
           if row_id = 0 then compact_staged fp db_rows w staged
           else
             (let row_entries = link_staged (ws_script_key_index w) entries in
              compact_staged fp db_rows
                (if row_entries = [] then w
                 else w\<lparr>ws_transitions_by_row :=
                       AList.update row_id row_entries (ws_transitions_by_row w)\<rparr>)
                staged)) = Some ws'"
    by (auto split: Option.bind_splits)
  from intern_database_frame [OF I] obtain names where w: "w = ws\<lparr>ws_database_names := names\<rparr>" by blast
  from rest have "compact_staged fp db_rows w staged = Some ws'
      \<or> (\<exists>trs. compact_staged fp db_rows (w\<lparr>ws_transitions_by_row := trs\<rparr>) staged = Some ws')"
    unfolding Let_def by (auto split: option.splits if_splits)
  then show ?thesis using trs_same [of w] unfolding w by metis
qed

lemma compact_staged_frame:
  "compact_staged fp db_rows ws staged = Some ws' \<Longrightarrow>
   \<exists>names trs. ws' = ws\<lparr>ws_database_names := names, ws_transitions_by_row := trs\<rparr>"
proof (induction staged arbitrary: ws)
  case Nil
  then have "ws' = ws" by simp
  then show ?case using names_same [of ws] trs_same [of ws] by metis
next
  case (Cons x staged)
  obtain db key entries where x: "x = ((db, key), entries)" by (cases x) auto
  from compact_staged_step [OF Cons.prems [unfolded x]] obtain names trs where
    "compact_staged fp db_rows (ws\<lparr>ws_database_names := names, ws_transitions_by_row := trs\<rparr>) staged = Some ws'" by blast
  from Cons.IH [OF this] obtain names' trs' where
    "ws' = ws\<lparr>ws_database_names := names, ws_transitions_by_row := trs\<rparr>\<lparr>ws_database_names := names', ws_transitions_by_row := trs'\<rparr>" by blast
  then have "ws' = ws\<lparr>ws_database_names := names', ws_transitions_by_row := trs'\<rparr>" by simp
  then show ?case by blast
qed

lemma compact_transitions_frame:
  assumes "compact_transitions fp ws = Some ws'"
  shows "\<exists>names trs. ws' = ws\<lparr>ws_transitions_staging := [], ws_database_names := names, ws_transitions_by_row := trs\<rparr>"
proof -
  from assms obtain db_rows where
    "compact_staged fp db_rows (ws\<lparr>ws_transitions_staging := [], ws_transitions_by_row := []\<rparr>) (ws_transitions_staging ws) = Some ws'"
    by (auto simp: compact_transitions_def Let_def split: Option.bind_splits)
  from compact_staged_frame [OF this] obtain names trs where
    "ws' = ws\<lparr>ws_transitions_staging := [], ws_transitions_by_row := []\<rparr>\<lparr>ws_database_names := names, ws_transitions_by_row := trs\<rparr>" by blast
  then have "ws' = ws\<lparr>ws_transitions_staging := [], ws_database_names := names, ws_transitions_by_row := trs\<rparr>" by simp
  then show ?thesis by blast
qed

subsection \<open>Path caches and settling\<close>

lemma rebuild_transition_frame:
  "rebuild_transition_path_cache w = Some v \<Longrightarrow>
   \<exists>a b. v = w\<lparr>ws_transition_path_cache := a, ws_has_transition_paths_row := b\<rparr>"
  by (auto simp: rebuild_transition_path_cache_def split: if_splits Option.bind_splits)

lemma rebuild_object_frame:
  "rebuild_object_path_cache w = Some v \<Longrightarrow> \<exists>c. v = w\<lparr>ws_object_path_cache := c\<rparr>"
  by (auto simp: rebuild_object_path_cache_def split: if_splits Option.bind_splits)

lemma rebuild_path_caches_Some:
  assumes "rebuild_path_caches ws = Some ws'"
  shows "\<exists>a b c. ws' = ws\<lparr>ws_transition_path_cache := a, ws_has_transition_paths_row := b, ws_object_path_cache := c\<rparr>"
proof -
  from assms obtain w where w: "rebuild_transition_path_cache ws = Some w" "rebuild_object_path_cache w = Some ws'"
    by (auto simp: rebuild_path_caches_def split: Option.bind_splits)
  from rebuild_transition_frame [OF w(1)] obtain a b where
    "w = ws\<lparr>ws_transition_path_cache := a, ws_has_transition_paths_row := b\<rparr>" by blast
  moreover from rebuild_object_frame [OF w(2)] obtain c where "ws' = w\<lparr>ws_object_path_cache := c\<rparr>" by blast
  ultimately have "ws' = ws\<lparr>ws_transition_path_cache := a, ws_has_transition_paths_row := b,
      ws_object_path_cache := c\<rparr>" by simp
  then show ?thesis by blast
qed

lemma ensure_path_caches_Some:
  assumes "ensure_path_caches ws = Some ws'"
  shows "\<exists>a b c. ws' = ws\<lparr>ws_transition_path_cache := a, ws_has_transition_paths_row := b, ws_object_path_cache := c\<rparr>"
proof -
  have same: "ws = ws\<lparr>ws_transition_path_cache := ws_transition_path_cache ws,
      ws_has_transition_paths_row := ws_has_transition_paths_row ws,
      ws_object_path_cache := ws_object_path_cache ws\<rparr>"
    by simp
  have keep: "ws\<lparr>ws_transition_path_cache := a, ws_has_transition_paths_row := b\<rparr>
    = ws\<lparr>ws_transition_path_cache := a, ws_has_transition_paths_row := b, ws_object_path_cache := ws_object_path_cache ws\<rparr>"
    for a b by simp
  consider (both) "rebuild_path_caches ws = Some ws'"
    | (one) "rebuild_transition_path_cache ws = Some ws'" | (none) "ws' = ws"
    using assms unfolding ensure_path_caches_def by (metis option.inject)
  then show ?thesis
  proof cases
    case both
    then show ?thesis by (rule rebuild_path_caches_Some)
  next
    case one
    from rebuild_transition_frame [OF one] keep show ?thesis by metis
  next
    case none
    with same show ?thesis by blast
  qed
qed

lemma word_clear_bits:
  "(f AND NOT (1 OR 2)) AND 1 = (0 :: u8)" "(f AND NOT (1 OR 2)) AND 2 = (0 :: u8)"
  "(f OR 1) AND 2 = (f AND 2 :: u8)"
  by (rule bit_word_eqI, auto simp: bit_simps)+

lemma checksums_after_catalog: "checksums_applied (mark_catalog_applied ws) = checksums_applied ws"
  by (simp add: checksums_applied_def mark_catalog_applied_def CATALOG_APPLIED_def CHECKSUMS_APPLIED_def word_clear_bits)

lemma invalidate_clears:
  "\<not> catalog_applied (invalidate_catalog_facts ws)" "\<not> checksums_applied (invalidate_catalog_facts ws)"
  unfolding catalog_applied_def checksums_applied_def invalidate_catalog_facts_def CATALOG_APPLIED_def CHECKSUMS_APPLIED_def
  using word_clear_bits [of "ws_catalog_flags ws"] by simp_all

lemma clear_scan_staging_frame:
  "ws_object_entries (clear_scan_staging ws) = ws_object_entries ws" "ws_object_keys (clear_scan_staging ws) = ws_object_keys ws"
  "ws_object_rows (clear_scan_staging ws) = ws_object_rows ws" "ws_key_index (clear_scan_staging ws) = ws_key_index ws"
  "ws_script_rows (clear_scan_staging ws) = ws_script_rows ws"
  by (simp_all add: clear_scan_staging_def clear_object_staging_def Let_def)

lemma settle_layout_Some:
  assumes "settle_layout fp ws = Some ws'"
  shows "ws_object_entries ws' = map (set_db_exists False) (ws_object_entries ws)"
    and "ws_object_keys ws' = ws_object_keys ws" and "ws_object_rows ws' = ws_object_rows ws"
    and "ws_key_index ws' = ws_key_index ws" and "ws_script_rows ws' = ws_script_rows ws"
    and "\<not> catalog_applied ws'" and "\<not> checksums_applied ws'" and "ws_prior_by_row ws' = []"
proof -
  from assms obtain w where w: "compact_transitions fp ws = Some w"
    and reb: "rebuild_path_caches (invalidate_catalog_facts (clear_scan_staging w)) = Some ws'"
    by (auto simp: settle_layout_def split: Option.bind_splits)
  from compact_transitions_frame [OF w] obtain names trs where
    w': "w = ws\<lparr>ws_transitions_staging := [], ws_database_names := names, ws_transitions_by_row := trs\<rparr>" by blast
  from rebuild_path_caches_Some [OF reb] obtain a b c where
    ws': "ws' = (invalidate_catalog_facts (clear_scan_staging w))\<lparr>ws_transition_path_cache := a,
      ws_has_transition_paths_row := b, ws_object_path_cache := c\<rparr>" by blast
  show "ws_object_entries ws' = map (set_db_exists False) (ws_object_entries ws)"
    "ws_object_keys ws' = ws_object_keys ws" "ws_object_rows ws' = ws_object_rows ws"
    "ws_key_index ws' = ws_key_index ws" "ws_script_rows ws' = ws_script_rows ws" "ws_prior_by_row ws' = []"
    unfolding ws' by (simp_all add: invalidate_catalog_facts_def clear_scan_staging_frame) (simp_all add: w')
  show "\<not> catalog_applied ws'" "\<not> checksums_applied ws'"
    using invalidate_clears [of "clear_scan_staging w"]
    by (simp_all add: ws' catalog_applied_def checksums_applied_def)
qed

text \<open>A finalized layout on which no catalog facts have been stamped yet.\<close>

definition layout_ready :: "workspace \<Rightarrow> bool" where
  "layout_ready ws \<longleftrightarrow>
     length (ws_object_rows ws) = object_count ws \<and> length (ws_object_keys ws) = object_count ws
     \<and> object_count ws < 2 ^ 32 \<and> \<not> catalog_applied ws \<and> \<not> checksums_applied ws \<and> ws_prior_by_row ws = []
     \<and> (\<forall>i < object_count ws. row_kind_code (ws_object_rows ws ! i) = kind_code (kind_part (ws_object_keys ws ! i)))"

lemma entry_key_ready: "length (ws_object_keys ws) = n \<Longrightarrow> i < n \<Longrightarrow> entry_key ws i = Some (ws_object_keys ws ! i)"
  by (simp add: entry_key_def)

lemma entry_keys_ready:
  "length (ws_object_keys ws) = object_count ws \<Longrightarrow> entry_keys ws = Some (ws_object_keys ws)"
  unfolding entry_keys_def those_eq_Some
  by (rule nth_equalityI) (simp_all add: entry_key_def)

subsection \<open>Transition flags\<close>

text \<open>A row is flagged only when the cache holds transition paths for it.\<close>

definition path_flags_ok :: "workspace \<Rightarrow> bool" where
  "path_flags_ok ws \<longleftrightarrow> (\<forall>i < object_count ws. row_has_transition_paths ws i \<longrightarrow>
     (\<exists>ps. Option.bind (ws_transition_path_cache ws) (\<lambda>m. map_of m (row_id_at i)) = Some ps \<and> ps \<noteq> []))"

lemma paths_by_row_loop_wf:
  assumes "paths_by_row_loop ws trs out = Some out'"
    and "distinct (map fst out)" and "0 \<notin> fst ` set out"
  shows "distinct (map fst out') \<and> 0 \<notin> fst ` set out'"
  using assms
proof (induction trs arbitrary: out)
  case Nil
  then show ?case by simp
next
  case (Cons t trs)
  obtain r es where t: "t = (r, es)" by (cases t)
  from Cons.prems(1) obtain ps where r: "0 < r"
    and rest: "paths_by_row_loop ws trs (if ps = [] then out else AList.update r ps out) = Some out'"
    by (auto simp: t split: if_splits Option.bind_splits)
  from Cons.prems(2,3) r have "distinct (map fst (if ps = [] then out else AList.update r ps out))"
    "0 \<notin> fst ` set (if ps = [] then out else AList.update r ps out)"
    using dom_update [of r ps out]
    by (auto simp: distinct_update update_keys split: if_splits)
  with Cons.IH [OF rest] show ?case by blast
qed


lemma transition_flags_step:
  assumes "length flags = n" and "i < n" and "0 \<notin> fst ` set cache"
    and "foldl (\<lambda>flags (row_id, paths). if paths = [] \<or> \<not> row_id - 1 < n then flags else flags[row_id - 1 := 1])
      flags cache ! i \<noteq> (0 :: u8)"
  shows "flags ! i \<noteq> 0 \<or> (\<exists>ps. (Suc i, ps) \<in> set cache \<and> ps \<noteq> [])"
  using assms
proof (induction cache arbitrary: flags)
  case Nil
  then show ?case by simp
next
  case (Cons e cache)
  obtain r ps where e: "e = (r, ps)" by (cases e)
  let ?f = "if ps = [] \<or> \<not> r - 1 < n then flags else flags[r - 1 := 1]"
  have "?f ! i \<noteq> 0 \<or> (\<exists>ps. (Suc i, ps) \<in> set cache \<and> ps \<noteq> [])"
    using Cons.prems by (intro Cons.IH) (auto simp: e)
  moreover have "?f ! i \<noteq> 0 \<Longrightarrow> flags ! i \<noteq> 0 \<or> r = Suc i \<and> ps \<noteq> []"
    using Cons.prems by (auto simp: e nth_list_update split: if_splits)
  ultimately show ?case by (auto simp: e)
qed

lemma transition_flags_nth:
  assumes "transition_flags n cache ! i \<noteq> 0" and "i < n" and "0 \<notin> fst ` set cache"
  shows "\<exists>ps. (Suc i, ps) \<in> set cache \<and> ps \<noteq> []"
  using transition_flags_step [of "replicate n 0" n i cache] assms by (auto simp: transition_flags_def)

lemma length_transition_flags: "length (transition_flags n cache) = n"
proof -
  have "length (foldl (\<lambda>flags (row_id, paths). if paths = [] \<or> \<not> row_id - 1 < n then flags
      else flags[row_id - 1 := (1 :: u8)]) flags cache) = length flags" for flags
    by (induction cache arbitrary: flags) (auto split: prod.splits)
  then show ?thesis by (simp add: transition_flags_def)
qed

lemma row_id_at_small: "i < 2 ^ 32 - 1 \<Longrightarrow> row_id_at i = Suc i"
  by (simp add: row_id_at_def as_u32_def)

lemma rebuild_transition_flags_ok:
  assumes "rebuild_transition_path_cache ws = Some ws'" and "object_count ws < 2 ^ 32"
  shows "path_flags_ok ws'"
proof (cases "ws_transitions_by_row ws = [] \<or> ws_layout_arena ws = None")
  case True
  with assms(1) have "ws_has_transition_paths_row ws' = []"
    by (auto simp: rebuild_transition_path_cache_def)
  then show ?thesis by (simp add: path_flags_ok_def row_has_transition_paths_def nth_opt_def)
next
  case False
  with assms(1) obtain cache where cache: "paths_by_row ws = Some cache"
    and ws': "ws' = ws\<lparr>ws_transition_path_cache := Some cache,
      ws_has_transition_paths_row := transition_flags (object_count ws) cache\<rparr>"
    by (auto simp: rebuild_transition_path_cache_def split: Option.bind_splits)
  from cache have wf: "distinct (map fst cache)" "0 \<notin> fst ` set cache"
    using paths_by_row_loop_wf [of ws "ws_transitions_by_row ws" "[]" cache]
    by (auto simp: paths_by_row_def split: Option.bind_splits)
  show ?thesis
    unfolding path_flags_ok_def
  proof (intro allI impI)
    fix i
    assume "i < object_count ws'" and "row_has_transition_paths ws' i"
    then have "i < object_count ws" "transition_flags (object_count ws) cache ! i \<noteq> 0"
      by (simp_all add: ws' object_count_def row_has_transition_paths_def nth_opt_def length_transition_flags)
    with transition_flags_nth wf(2) obtain ps where "(Suc i, ps) \<in> set cache" "ps \<noteq> []" by blast
    moreover from \<open>i < object_count ws\<close> assms(2) have "row_id_at i = Suc i"
      by (intro row_id_at_small) simp
    ultimately show "\<exists>ps. Option.bind (ws_transition_path_cache ws') (\<lambda>m. map_of m (row_id_at i)) = Some ps \<and> ps \<noteq> []"
      using wf(1) by (auto simp: ws' map_of_eq_Some_iff)
  qed
qed

lemma path_flags_ok_frame:
  "path_flags_ok (ws\<lparr>ws_object_path_cache := c\<rparr>) = path_flags_ok ws"
  "path_flags_ok (mark_catalog_applied ws) = path_flags_ok ws"
  "path_flags_ok (mark_checksums_applied ws) = path_flags_ok ws"
  "path_flags_ok (ws\<lparr>ws_prior_by_row := ps\<rparr>) = path_flags_ok ws"
  "length es = object_count ws \<Longrightarrow> path_flags_ok (ws\<lparr>ws_object_entries := es, ws_catalog_row := cr, ws_parent_by_row := pr\<rparr>) = path_flags_ok ws"
  by (simp_all add: path_flags_ok_def object_count_def row_has_transition_paths_def mark_catalog_applied_def
      mark_checksums_applied_def)

lemma ensure_path_flags_ok:
  assumes "ensure_path_caches ws = Some ws'" and "path_flags_ok ws" and "object_count ws < 2 ^ 32"
  shows "path_flags_ok ws'"
proof -
  consider w where "rebuild_transition_path_cache ws = Some w" "rebuild_object_path_cache w = Some ws'"
    | "rebuild_transition_path_cache ws = Some ws'" | "ws' = ws"
    using assms(1) unfolding ensure_path_caches_def rebuild_path_caches_def
    by (metis bind_eq_Some_conv option.inject)
  then show ?thesis
  proof cases
    case (1 w)
    from 1(2) obtain c where "ws' = w\<lparr>ws_object_path_cache := c\<rparr>"
      by (auto simp: rebuild_object_path_cache_def split: if_splits Option.bind_splits)
    with rebuild_transition_flags_ok [OF 1(1) assms(3)] show ?thesis
      by (simp add: path_flags_ok_frame)
  qed (use assms rebuild_transition_flags_ok in auto)
qed

end
