(* ===== verification/Scan_Correct.thy ===== *)
theory Scan_Correct
  imports Scan Layout_Correct
begin

section \<open>Correctness of the scan\<close>

text \<open>
  The checksum and the layout digest, the parallel parse, which files become objects, and the
  invariant of the workspace during the scan with what the finalized layout promises.
\<close>

subsection \<open>Checksums and digests\<close>

text \<open>Reference: fold every CRLF to LF, leaving any other byte.\<close>

fun fold_crlf :: "bytes \<Rightarrow> bytes" where
  "fold_crlf [] = []"
| "fold_crlf [c] = [c]"
| "fold_crlf (c # d # s) = (if c = CR \<and> d = LF then LF # fold_crlf s else c # fold_crlf (d # s))"

lemma fold_crlf_prefix:
  "CR \<notin> set a \<Longrightarrow> fold_crlf (a @ s) = a @ fold_crlf s"
proof (induction a)
  case (Cons c a)
  then show ?case by (cases "a @ s") auto
qed simp

lemma position_None: "position p xs = None \<longleftrightarrow> (\<forall>x \<in> set xs. \<not> p x)"
  by (induction xs) auto

lemma position_split:
  assumes "position p xs = Some i"
  shows "xs = take i xs @ xs ! i # drop (i + 1) xs" and "\<forall>x \<in> set (take i xs). \<not> p x"
proof -
  note P = position_Some [OF assms]
  then show "xs = take i xs @ xs ! i # drop (i + 1) xs" by (simp add: id_take_nth_drop)
  show "\<forall>x \<in> set (take i xs). \<not> p x" using P by (auto simp: in_set_conv_nth)
qed

lemma hashed_bytes_fold: "hashed_bytes s = fold_crlf s"
proof (induction s rule: hashed_bytes.induct)
  case (1 rest)
  show ?case
  proof (cases "position (\<lambda>b. b = CR) rest")
    case None
    then have "CR \<notin> set rest" by (auto simp: position_None)
    then have "fold_crlf rest = rest" using fold_crlf_prefix [of rest "[]"] by simp
    with None show ?thesis by (simp add: hashed_bytes.simps [of rest])
  next
    case (Some pos)
    note sp = position_split [OF Some] and P = position_Some [OF Some]
    have pre: "CR \<notin> set (take pos rest)" using sp(2) by auto
    have rest: "rest = take pos rest @ CR # drop (pos + 1) rest" using sp(1) P by simp
    have folded: "fold_crlf rest = take pos rest @ fold_crlf (CR # drop (pos + 1) rest)"
      by (subst rest) (rule fold_crlf_prefix [OF pre])
    show ?thesis
    proof (cases "nth_opt rest (pos + 1) = Some LF")
      case True
      then have len: "pos + 1 < length rest" and lf: "rest ! (pos + 1) = LF" by (auto simp: nth_opt_def split: if_splits)
      then have "drop (pos + 1) rest = LF # drop (pos + 2) rest"
        by (metis Cons_nth_drop_Suc Suc_eq_plus1 add_2_eq_Suc')
      with folded 1(1) [OF Some True] Some True show ?thesis
        by (simp add: hashed_bytes.simps [of rest])
    next
      case False
      have "fold_crlf (CR # drop (pos + 1) rest) = CR # fold_crlf (drop (pos + 1) rest)"
      proof (cases "drop (pos + 1) rest")
        case (Cons d t)
        then have "nth_opt rest (pos + 1) = Some d"
          by (metis drop_eq_Nil hd_drop_conv_nth leI list.distinct(1) list.sel(1) nth_opt_def)
        with False Cons show ?thesis by auto
      qed simp
      moreover have "take (pos + 1) rest = take pos rest @ [CR]"
        using P by (simp add: take_Suc_conv_app_nth)
      ultimately show ?thesis
        using folded 1(2) [OF Some False] Some False by (simp add: hashed_bytes.simps [of rest])
    qed
  qed
qed

text \<open>A checkout that writes every line end as CRLF.\<close>

definition to_crlf :: "bytes \<Rightarrow> bytes" where
  "to_crlf s = concat (map (\<lambda>c. if c = LF then [CR, LF] else [c]) s)"

lemma fold_to_crlf: "CR \<notin> set s \<Longrightarrow> fold_crlf (to_crlf s) = s"
proof (induction s)
  case (Cons c s)
  then have IH: "fold_crlf (to_crlf s) = s" by simp
  show ?case
  proof (cases "c = LF")
    case True
    with IH show ?thesis by (simp add: to_crlf_def)
  next
    case False
    with Cons.prems have "CR \<notin> set [c]" by auto
    from fold_crlf_prefix [OF this, of "to_crlf s"] IH False show ?thesis by (simp add: to_crlf_def)
  qed
qed (simp add: to_crlf_def)

lemma fold_crlf_id: "CR \<notin> set s \<Longrightarrow> fold_crlf s = s"
  using fold_crlf_prefix [of s "[]"] by simp

text \<open>
  The content checksum hashes the file with every CRLF folded to LF and nothing else changed, so
  a checkout that only rewrites line ends keeps the checksum.
\<close>

theorem checksum_ignores_line_endings:
  "content_checksum sha data = sha (fold_crlf data)
   \<and> (CR \<notin> set text \<longrightarrow> content_checksum sha (to_crlf text) = content_checksum sha text)"
  by (simp add: content_checksum_def hashed_bytes_fold fold_to_crlf fold_crlf_id)

theorem checksum_ignores_line_endings_witness:
  "content_checksum rev (to_crlf [CHR ''a'', CHR 0x0A]) = content_checksum rev [CHR ''a'', CHR 0x0A]"
  using conjunct2 [OF checksum_ignores_line_endings [of rev "[]" "[CHR ''a'', CHR 0x0A]"]]
  by (simp add: CR_def)

lemma concat_chunks: "c > 0 \<Longrightarrow> concat (chunks c xs) = xs"
proof (induction c xs rule: chunks.induct)
  case (1 c xs)
  then show ?case by (cases "xs = []") (simp_all add: chunks.simps [of c "[]"] chunks.simps [of c xs])
qed

lemma parse_objects_seq:
  assumes "parallelism \<noteq> Some 0"
  shows "parse_objects sha parallelism items = collect_results (map (parse_item sha) items)"
proof (cases "length items < PARALLEL_THRESHOLD")
  case False
  define workers where "workers = min (case parallelism of Some n \<Rightarrow> n | None \<Rightarrow> 1) MAX_WORKERS"
  from assms have "workers > 0" by (auto simp: workers_def MAX_WORKERS_def split: option.splits)
  moreover from False have "length items > 0" by (auto simp: PARALLEL_THRESHOLD_def)
  ultimately have "div_ceil (length items) workers > 0"
    by (cases "length items") (simp_all add: div_ceil_def div_greater_zero_iff)
  from concat_chunks [OF this, of items] have
    "concat (map (map (parse_item sha)) (chunks (div_ceil (length items) workers) items)) = map (parse_item sha) items"
    by (metis map_concat)
  with False show ?thesis by (simp add: parse_objects_def Let_def workers_def)
qed (simp add: parse_objects_def)




lemma length_to_le_bytes [simp]: "length (to_le_bytes n) = 8" "to_le_bytes n \<noteq> []"
  by (simp_all add: to_le_bytes_def)

lemma base256_digits:
  "m < 256 ^ k \<Longrightarrow> (\<Sum>i < k. (m div 256 ^ i mod 256) * 256 ^ i) = (m :: nat)"
proof (induction k arbitrary: m)
  case (Suc k)
  have "m div 256 < 256 ^ k" using Suc.prems by (simp add: less_mult_imp_div_less mult.commute)
  from Suc.IH [OF this] have "(\<Sum>i < k. (m div 256 ^ Suc i mod 256) * 256 ^ Suc i) = 256 * (m div 256)"
    by (simp add: sum_distrib_left [symmetric] div_mult2_eq mult.left_commute)
  then show ?case
    by (subst sum.lessThan_Suc_shift) simp
qed simp

lemma to_le_bytes_inject:
  assumes "to_le_bytes m = to_le_bytes n" and "m < 2 ^ 64" and "n < 2 ^ 64"
  shows "m = n"
proof -
  have dig: "m div 256 ^ i mod 256 = n div 256 ^ i mod 256" if "i < 8" for i
  proof -
    have "to_le_bytes m ! i = to_le_bytes n ! i" using assms(1) by simp
    with that have "char_of (m div 256 ^ i mod 256) = (char_of (n div 256 ^ i mod 256) :: char)"
      by (simp add: to_le_bytes_def)
    then have "of_char (char_of (m div 256 ^ i mod 256) :: char) = (of_char (char_of (n div 256 ^ i mod 256) :: char) :: nat)"
      by simp
    then show ?thesis by (simp add: of_char_of)
  qed
  have "m < 256 ^ 8" "n < 256 ^ 8" using assms(2,3) by simp_all
  then have "m = (\<Sum>i < 8. (m div 256 ^ i mod 256) * 256 ^ i)" "n = (\<Sum>i < 8. (n div 256 ^ i mod 256) * 256 ^ i)"
    by (simp_all only: base256_digits)
  moreover have "(\<Sum>i < 8. (m div 256 ^ i mod 256) * 256 ^ i) = (\<Sum>i < 8. (n div 256 ^ i mod 256) * 256 ^ i)"
    using dig by (intro sum.cong) simp_all
  ultimately show ?thesis by simp
qed

lemma prefixed_concat_inject:
  assumes "concat (map (\<lambda>k. to_le_bytes (length k) @ k) ks) = concat (map (\<lambda>k. to_le_bytes (length k) @ k) ls)"
    and "\<forall>k \<in> set ks. length k < 2 ^ 64" and "\<forall>k \<in> set ls. length k < 2 ^ 64"
  shows "ks = ls"
  using assms
proof (induction ks arbitrary: ls)
  case Nil
  then show ?case
  proof (cases ls)
    case (Cons l ls')
    with Nil(1) show ?thesis by simp
  qed simp
next
  case (Cons k ks)
  show ?case
  proof (cases ls)
    case Nil
    with Cons.prems(1) show ?thesis by simp
  next
    case (Cons l ls')
    with Cons.prems(1) have eq: "to_le_bytes (length k) @ (k @ concat (map (\<lambda>k. to_le_bytes (length k) @ k) ks))
        = to_le_bytes (length l) @ (l @ concat (map (\<lambda>k. to_le_bytes (length k) @ k) ls'))" by simp
    then have pre: "to_le_bytes (length k) = to_le_bytes (length l)"
      and rest: "k @ concat (map (\<lambda>k. to_le_bytes (length k) @ k) ks) = l @ concat (map (\<lambda>k. to_le_bytes (length k) @ k) ls')"
      by (simp_all add: append_eq_append_conv)
    have "length k = length l"
      using to_le_bytes_inject [OF pre] Cons.prems(2,3) local.Cons by simp
    with rest have "k = l" "concat (map (\<lambda>k. to_le_bytes (length k) @ k) ks) = concat (map (\<lambda>k. to_le_bytes (length k) @ k) ls')"
      by simp_all
    with Cons.IH [of ls'] Cons.prems(2,3) local.Cons show ?thesis by simp
  qed
qed

text \<open>
  C11: The byte string hashed into the layout digest determines the collection of script paths: two
  different collections never share a preimage.
\<close>

theorem layout_preimage_injective:
  assumes "layout_preimage ks = layout_preimage ls"
    and "\<forall>k \<in> set ks \<union> set ls. length k < 2 ^ 64"
  shows "mset ks = mset ls"
  using prefixed_concat_inject [of "sort ks" "sort ls"] assms
  by (auto simp: layout_preimage_def) (metis mset_sort)

theorem layout_preimage_injective_witness:
  "layout_preimage [''a'', ''bc''] \<noteq> layout_preimage [''ab'', ''c'']"
proof
  assume "layout_preimage [''a'', ''bc''] = layout_preimage [''ab'', ''c'']"
  with layout_preimage_injective [of "[''a'', ''bc'']" "[''ab'', ''c'']"]
  have "set_mset (mset [''a'', ''bc'']) = set_mset (mset [''ab'', ''c''])" by simp
  then show False by (simp add: doubleton_eq_iff)
qed

lemma list4: "length xs = 4 \<Longrightarrow> xs = [xs ! 0, xs ! 1, xs ! 2, xs ! 3]"
  by (auto simp: eval_nat_numeral length_Suc_conv)

text \<open>A path component that \<open>validate_path_component\<close> accepts.\<close>

definition safe_component :: "string \<Rightarrow> bool" where
  "safe_component c \<longleftrightarrow> c \<noteq> [] \<and> c \<noteq> ''.'' \<and> c \<noteq> ''..'' \<and> CHR ''/'' \<notin> set c \<and> CHR 0x5C \<notin> set c \<and> CHR 0x00 \<notin> set c"

lemma validate_safe: "validate_path_component c = Inr u \<longleftrightarrow> safe_component c"
  using validate_path_component_ok [of c] by (cases u) (simp add: safe_component_def)

lemma parse_object_Some:
  assumes "parse_object sha rel apath data = Inr (Some (key, obj, s))"
  obtains db schema kind leaf bs where "split_on (CHR ''/'') rel = [db, schema, kind, leaf]"
    "kind \<in> set KINDS" "safe_component db" "safe_component schema" "safe_component (strip_sql_ext leaf)"
    "data = Inr bs" "key = object_key_new schema kind (strip_sql_ext leaf)"
    "obj = \<lparr>oe_checksum = content_checksum sha bs, oe_key_off = str_off_EMPTY, oe_script_id = 0, oe_db_id = 0, oe_flags = 0\<rparr>"
    "s = \<lparr>sc_key = script_key_from_path rel, sc_kind = ObjectScript, sc_abs_path = apath,
          sc_checksum = Some (content_checksum sha bs)\<rparr>"
proof -
  define parts where "parts = split_on (CHR ''/'') rel"
  from assms have n: "length parts = 4"
    by (auto simp: parse_object_def Let_def parts_def split: if_splits)
  then have parts: "split_on (CHR ''/'') rel = [parts ! 0, parts ! 1, parts ! 2, parts ! 3]"
    using list4 [of parts] by (simp add: parts_def)
  from assms n obtain bs where "data = Inr bs" "parts ! 2 \<in> set KINDS" "safe_component (parts ! 0)"
    "safe_component (parts ! 1)" "safe_component (strip_sql_ext (parts ! 3))"
    "key = object_key_new (parts ! 1) (parts ! 2) (strip_sql_ext (parts ! 3))"
    "obj = \<lparr>oe_checksum = content_checksum sha bs, oe_key_off = str_off_EMPTY, oe_script_id = 0, oe_db_id = 0, oe_flags = 0\<rparr>"
    "s = \<lparr>sc_key = script_key_from_path rel, sc_kind = ObjectScript, sc_abs_path = apath,
          sc_checksum = Some (content_checksum sha bs)\<rparr>"
    by (auto simp: parse_object_def Let_def parts_def [symmetric] bind_result_Inr validate_safe file_checksum_def
        split: if_splits sum.splits)
  with parts show thesis by (intro that)
qed

lemma KINDS_lower: "kind \<in> set KINDS \<Longrightarrow> to_lowercase kind = kind \<and> CHR ''/'' \<notin> set kind \<and> kind_code kind \<noteq> 0"
proof -
  have "\<forall>k \<in> set KINDS. to_lowercase k = k \<and> CHR ''/'' \<notin> set k \<and> kind_code k \<noteq> 0"
    unfolding KINDS_def by (simp add: to_lowercase_def ascii_lower_def kind_code_def kind_defs)
  then show "kind \<in> set KINDS \<Longrightarrow> to_lowercase kind = kind \<and> CHR ''/'' \<notin> set kind \<and> kind_code kind \<noteq> 0"
    by blast
qed

text \<open>
  C9: A file becomes a managed object only at \<open>database/schema/kind/name\<close> with one of the nine
  kinds and safe components, its key is the lower-cased schema, kind and name, and its checksum is
  the checksum of its bytes.
\<close>

theorem parsed_objects_are_layout_files:
  assumes "parse_object sha rel apath data = Inr (Some (key, obj, s))"
  shows "\<exists>db schema kind leaf bs. rel = db @ ''/'' @ schema @ ''/'' @ kind @ ''/'' @ leaf
    \<and> kind \<in> set KINDS \<and> safe_component db \<and> safe_component schema \<and> safe_component (strip_sql_ext leaf)
    \<and> schema_part key = to_lowercase schema \<and> kind_part key = kind
    \<and> name_part key = to_lowercase (strip_sql_ext leaf)
    \<and> data = Inr bs \<and> oe_checksum obj = content_checksum sha bs
    \<and> sc_checksum s = Some (oe_checksum obj) \<and> sc_kind s = ObjectScript"
proof -
  from assms obtain db schema kind leaf bs where
    P: "split_on (CHR ''/'') rel = [db, schema, kind, leaf]"
      "kind \<in> set KINDS" "safe_component db" "safe_component schema" "safe_component (strip_sql_ext leaf)"
      "data = Inr bs" "key = object_key_new schema kind (strip_sql_ext leaf)"
    and O: "obj = \<lparr>oe_checksum = content_checksum sha bs, oe_key_off = str_off_EMPTY, oe_script_id = 0, oe_db_id = 0, oe_flags = 0\<rparr>"
      "s = \<lparr>sc_key = script_key_from_path rel, sc_kind = ObjectScript, sc_abs_path = apath,
          sc_checksum = Some (content_checksum sha bs)\<rparr>"
    by (rule parse_object_Some)
  from P(1) have "rel = join_with ''/'' [db, schema, kind, leaf]" by (metis join_split_on)
  moreover have "schema_part key = to_lowercase schema" "kind_part key = kind"
    "name_part key = to_lowercase (strip_sql_ext leaf)"
    using P(4,5) KINDS_lower [OF P(2)] object_key_parts [of schema kind "strip_sql_ext leaf"]
    by (simp_all add: P(7) safe_component_def)
  ultimately show ?thesis
    using P O by (intro exI [of _ db] exI [of _ schema] exI [of _ kind] exI [of _ leaf] exI [of _ bs]) simp
qed

theorem parsed_objects_are_layout_files_witness:
  "\<exists>db schema kind leaf. ''db/dbo/views/V.SQL'' = db @ ''/'' @ schema @ ''/'' @ kind @ ''/'' @ leaf
     \<and> kind \<in> set KINDS \<and> safe_component db \<and> name_part ''dbo/views/v'' = to_lowercase (strip_sql_ext leaf)"
proof -
  have "parse_object rev ''db/dbo/views/V.SQL'' ''/r'' (Inr ''x'') = Inr (Some
    (''dbo/views/v'', \<lparr>oe_checksum = ''x'', oe_key_off = (0, 0), oe_script_id = 0, oe_db_id = 0, oe_flags = 0\<rparr>,
     \<lparr>sc_key = ''db/dbo/views/V.SQL'', sc_kind = ObjectScript, sc_abs_path = ''/r'', sc_checksum = Some ''x''\<rparr>))"
    by code_simp
  from parsed_objects_are_layout_files [OF this] show ?thesis
    by blast
qed

subsection \<open>The workspace during the scan\<close>

text \<open>The staged script columns agree with each other and with the key index.\<close>

definition scripts_wf :: "workspace \<Rightarrow> bool" where
  "scripts_wf ws \<longleftrightarrow>
     length (ws_script_checksums ws) = length (ws_script_rows ws)
     \<and> length (ws_ingest_script_keys ws) = length (ws_script_rows ws)
     \<and> length (ws_ingest_script_abs ws) = length (ws_script_rows ws)
     \<and> (\<forall>k r. ws_script_key_index ws k = Some r \<longrightarrow>
          0 < r \<and> r \<le> length (ws_script_rows ws) \<and> ws_ingest_script_keys ws ! (r - 1) = k)
     \<and> (\<forall>row \<in> set (ws_script_rows ws). sr_path_off row = str_off_EMPTY \<and> sr_abs_path_off row = str_off_EMPTY)"

text \<open>No two staged objects of one database share a key, and the index knows exactly the staged ones.\<close>

definition object_ids :: "workspace \<Rightarrow> (nat \<times> string) list" where
  "object_ids ws = zip (map oe_db_id (ws_object_entries ws)) (ws_ingest_keys ws)"

definition objects_wf :: "workspace \<Rightarrow> bool" where
  "objects_wf ws \<longleftrightarrow>
     ws_object_keys ws = [] \<and> ws_layout_arena ws = None
     \<and> length (ws_ingest_keys ws) = object_count ws
     \<and> distinct (object_ids ws) \<and> dom (ws_ingest_key_index ws) = set (object_ids ws)
     \<and> (\<forall>e \<in> set (ws_object_entries ws). oe_key_off e = str_off_EMPTY
          \<and> 0 < oe_script_id e \<and> oe_script_id e \<le> length (ws_script_rows ws))"

lemma insert_script_wf:
  assumes "scripts_wf ws" and "length (ws_script_rows ws) < 2 ^ 32 - 1"
  shows "\<exists>ws' sid. insert_script ws s = Some (ws', sid) \<and> scripts_wf ws'
    \<and> 0 < sid \<and> sid \<le> length (ws_script_rows ws')
    \<and> length (ws_script_rows ws) \<le> length (ws_script_rows ws')
    \<and> length (ws_script_rows ws') \<le> Suc (length (ws_script_rows ws))"
proof (cases "ws_script_key_index ws (sc_key s)")
  case None
  have idx: "r - Suc 0 < length (ws_script_rows ws) \<and> 0 < r \<and> r \<le> length (ws_script_rows ws)
      \<and> ws_ingest_script_keys ws ! (r - Suc 0) = k" if "ws_script_key_index ws k = Some r" for k r
  proof -
    from that assms(1) have "0 < r" "r \<le> length (ws_script_rows ws)" "ws_ingest_script_keys ws ! (r - 1) = k"
      by (auto simp: scripts_wf_def)
    then show ?thesis by auto
  qed
  from assms have len: "length (ws_script_checksums ws) = length (ws_script_rows ws)"
      "length (ws_ingest_script_keys ws) = length (ws_script_rows ws)"
      "length (ws_ingest_script_abs ws) = length (ws_script_rows ws)"
      "\<forall>row \<in> set (ws_script_rows ws). sr_path_off row = str_off_EMPTY \<and> sr_abs_path_off row = str_off_EMPTY"
    by (auto simp: scripts_wf_def)
  from None assms(2) len show ?thesis
    by (auto simp: insert_script_def Let_def into_parts_def scripts_wf_def nth_append dest: idx split: if_splits)
next
  case (Some r)
  with assms(1) have "0 < r" "r \<le> length (ws_script_rows ws)" "ws_ingest_script_keys ws ! (r - 1) = sc_key s"
    by (auto simp: scripts_wf_def)
  note r = this
  then have "r - 1 < length (ws_script_rows ws)" by auto
  moreover from r(3) have "(ws_ingest_script_keys ws)[r - 1 := sc_key s] = ws_ingest_script_keys ws"
    by (metis list_update_id)
  ultimately show ?thesis
    using assms Some r(1,2) set_update_subset_insert [of "ws_script_rows ws" "r - 1"]
    by (fastforce simp: insert_script_def Let_def into_parts_def scripts_wf_def)
qed

lemma insert_script_frame:
  assumes "insert_script ws s = Some (ws', sid)"
  shows "ws_object_entries ws' = ws_object_entries ws" "ws_object_keys ws' = ws_object_keys ws"
    "ws_layout_arena ws' = ws_layout_arena ws" "ws_ingest_keys ws' = ws_ingest_keys ws"
    "ws_ingest_key_index ws' = ws_ingest_key_index ws" "ws_database_names ws' = ws_database_names ws"
    "ws_transitions_staging ws' = ws_transitions_staging ws"
  using assms by (auto simp: insert_script_def Let_def into_parts_def split: option.splits if_splits)

lemma insert_script_objects_wf:
  assumes "insert_script ws s = Some (ws', sid)" and "objects_wf ws"
    and "length (ws_script_rows ws) \<le> length (ws_script_rows ws')"
  shows "objects_wf ws'"
  using assms(2,3) unfolding objects_wf_def object_ids_def object_count_def insert_script_frame [OF assms(1)]
  by fastforce

lemma push_object_wf:
  assumes "push_object ws key obj = Inr ws'" and "objects_wf ws"
    and "oe_key_off obj = str_off_EMPTY" and "0 < oe_script_id obj"
    and "oe_script_id obj \<le> length (ws_script_rows ws)"
  shows "objects_wf ws'"
proof -
  from assms(1) have new: "(oe_db_id obj, key) \<notin> dom (ws_ingest_key_index ws)"
    and ws': "ws' = ws\<lparr>ws_object_entries := ws_object_entries ws @ [obj], ws_ingest_keys := ws_ingest_keys ws @ [key],
      ws_ingest_key_index := (ws_ingest_key_index ws)((oe_db_id obj, key) \<mapsto> as_u32 (length (ws_object_entries ws) + 1))\<rparr>"
    by (auto simp: push_object_def Let_def split: if_splits)
  from assms(2) have len: "length (ws_ingest_keys ws) = length (ws_object_entries ws)"
    by (simp add: objects_wf_def object_count_def)
  then have ids: "object_ids ws' = object_ids ws @ [(oe_db_id obj, key)]"
    by (simp add: object_ids_def ws')
  show ?thesis
    using assms(2-5) new ids by (auto simp: objects_wf_def object_count_def ws')
qed

definition scan_inv :: "workspace \<Rightarrow> bool" where
  "scan_inv ws \<longleftrightarrow> scripts_wf ws \<and> objects_wf ws"

text \<open>Scripts, database names and staged tables: a file of the tree adds at most two.\<close>

definition scan_size :: "workspace \<Rightarrow> nat" where
  "scan_size ws = length (ws_script_rows ws) + length (ws_database_names ws) + length (ws_transitions_staging ws)"

lemma obind_eq_Some:
  "obind m f = Some r \<longleftrightarrow> (\<exists>e. m = Some (Inl e) \<and> r = Inl e) \<or> (\<exists>x. m = Some (Inr x) \<and> f x = Some r)"
  by (auto simp: obind_def split: option.splits sum.splits)

lemma obind_eq_None: "obind m f = None \<longleftrightarrow> m = None \<or> (\<exists>x. m = Some (Inr x) \<and> f x = None)"
  by (auto simp: obind_def split: option.splits sum.splits)

lemma no_error_eq: "no_error m = Some r \<longleftrightarrow> (\<exists>x. m = Some x \<and> r = Inr x)" "no_error m = None \<longleftrightarrow> m = None"
  by (auto simp: no_error_def)

lemmas outcome_simps = obind_eq_Some obind_eq_None no_error_eq

lemma length_update_le: "length (AList.update k v xs) \<le> Suc (length xs)"
  by (induction xs) auto

lemma push_transition_staging_frame:
  "push_transition_staging ws a b c d = Inr ws' \<Longrightarrow>
   \<exists>st. ws' = ws\<lparr>ws_transitions_staging := st\<rparr> \<and> length st \<le> Suc (length (ws_transitions_staging ws))"
  by (auto simp: push_transition_staging_def Let_def length_update_le split: if_splits)

lemma scan_inv_frame [simp]:
  "scan_inv (ws\<lparr>ws_transitions_staging := st\<rparr>) = scan_inv ws"
  "scan_inv (invalidate_transition_paths ws) = scan_inv ws"
  "scan_inv (ws\<lparr>ws_database_names := names\<rparr>) = scan_inv ws"
  by (simp_all add: scan_inv_def scripts_wf_def objects_wf_def object_ids_def object_count_def
      invalidate_transition_paths_def)

lemma insert_script_inv:
  assumes "scan_inv ws" and "scan_size ws < 2 ^ 32 - 1"
  obtains ws' sid where "insert_script ws s = Some (ws', sid)" "scan_inv ws'" "0 < sid"
    "sid \<le> length (ws_script_rows ws')" "scan_size ws' \<le> Suc (scan_size ws)"
    "object_count ws' = object_count ws" "ws_database_names ws' = ws_database_names ws"
proof -
  from insert_script_wf [of ws s] assms obtain ws' sid where I: "insert_script ws s = Some (ws', sid)" "scripts_wf ws'"
    "0 < sid" "sid \<le> length (ws_script_rows ws')" "length (ws_script_rows ws) \<le> length (ws_script_rows ws')"
    "length (ws_script_rows ws') \<le> Suc (length (ws_script_rows ws))"
    by (auto simp: scan_inv_def scan_size_def)
  moreover from insert_script_objects_wf [OF I(1) _ I(5)] assms(1) have "objects_wf ws'" by (simp add: scan_inv_def)
  ultimately show thesis
    using insert_script_frame [OF I(1)] by (intro that [of ws' sid]) (simp_all add: scan_inv_def object_count_def scan_size_def)
qed

text \<open>What one step of the scan keeps: the invariant, and at most two more names.\<close>

lemma ingest_inv:
  assumes "scan_inv ws" and "scan_size ws < 2 ^ 32 - 1"
  shows "ingest sha ws rel apath data \<noteq> None"
    and "ingest sha ws rel apath data = Some (Inr ws') \<Longrightarrow> scan_inv ws' \<and> object_count ws' = object_count ws
      \<and> scan_size ws' \<le> scan_size ws + 2"
proof -
  have "(ingest sha ws rel apath data \<noteq> None) \<and> (ingest sha ws rel apath data = Some (Inr ws') \<longrightarrow> scan_inv ws' \<and> object_count ws' = object_count ws
      \<and> scan_size ws' \<le> scan_size ws + 2)"
  proof (cases "parse_meta rel")
    case (Inl e)
    then show ?thesis by (simp add: ingest_def obind_def)
  next
    case (Inr meta)
    show ?thesis
    proof (cases "\<exists>m bs. meta = Some m \<and> data = Inr bs")
      case False
      with Inr assms show ?thesis by (auto simp: ingest_def obind_def split: option.splits sum.splits)
    next
      case True
      then obtain m bs where m: "meta = Some m" "data = Inr bs" by blast
      let ?s = "\<lparr>sc_key = script_key_from_path (tm_path m), sc_kind = TransitionScript,
                   sc_abs_path = apath, sc_checksum = Some (content_checksum sha bs)\<rparr>"
      from insert_script_inv [OF assms, of ?s] obtain w sid where w: "insert_script ws ?s = Some (w, sid)" "scan_inv w"
        "scan_size w \<le> Suc (scan_size ws)" "object_count w = object_count ws" by metis
      show ?thesis
        using Inr m w
        by (auto simp: ingest_def obind_def no_error_def Let_def invalidate_transition_paths_def object_count_def scan_size_def
            dest!: push_transition_staging_frame split: sum.splits)
          (simp_all add: scan_inv_def scripts_wf_def objects_wf_def object_ids_def object_count_def)
    qed
  qed
  then show "ingest sha ws rel apath data \<noteq> None"
    and "ingest sha ws rel apath data = Some (Inr ws') \<Longrightarrow> scan_inv ws' \<and> object_count ws' = object_count ws
      \<and> scan_size ws' \<le> scan_size ws + 2"
    by auto
qed

lemma push_check_inv:
  assumes "scan_inv ws" and "scan_size ws < 2 ^ 32 - 1"
  shows "\<exists>ws'. push_check ws rel apath = Some ws' \<and> scan_inv ws' \<and> object_count ws' = object_count ws
      \<and> scan_size ws' \<le> scan_size ws + 2"
  by (rule insert_script_inv [OF assms]) (fastforce simp: push_check_def)

text \<open>A transition or check file is an error, or the scan goes on in a workspace that keeps the invariant.\<close>

lemma scan_entries_staged:
  assumes inv: "scan_inv ws" "scan_size ws < 2 ^ 32 - 1" and rel: "relative_sql_path comps = Inr rel" and "classify rel \<noteq> ObjectFile"
  obtains err where "scan_entries sha root ((comps, data) # entries) ws = Some (Inl err)"
  | w where "scan_entries sha root ((comps, data) # entries) ws = scan_entries sha root entries w" "scan_inv w"
      "object_count w = object_count ws" "scan_size w \<le> scan_size ws + 2"
proof (cases "classify rel")
  case TransitionFile
  let ?a = "absolute_path root rel"
  obtain r where r: "ingest sha ws rel ?a data = Some r" using ingest_inv(1) [OF inv, of sha rel ?a data] by blast
  show ?thesis
  proof (cases r)
    case (Inl err)
    with r rel TransitionFile show ?thesis by (intro that(1)) (simp add: obind_def)
  next
    case (Inr w)
    with ingest_inv(2) [OF inv, of sha rel ?a data w] r rel TransitionFile show ?thesis
      by (intro that(2) [of w]) (simp_all add: obind_def)
  qed
next
  case CheckFile
  from push_check_inv [OF inv, of rel "absolute_path root rel"] obtain w where "push_check ws rel (absolute_path root rel) = Some w"
    "scan_inv w" "object_count w = object_count ws" "scan_size w \<le> scan_size ws + 2" by blast
  with rel CheckFile show ?thesis by (intro that(2) [of w]) (simp_all add: obind_def no_error_def)
qed (use assms(4) in simp)

lemma scan_entries_inv:
  assumes "scan_inv ws" and "scan_size ws + 2 * length entries < 2 ^ 32 - 1"
  shows "scan_entries sha root entries ws \<noteq> None
    \<and> (\<forall>ws' items. scan_entries sha root entries ws = Some (Inr (ws', items)) \<longrightarrow>
      scan_inv ws' \<and> object_count ws' = object_count ws
      \<and> scan_size ws' + 2 * length items \<le> scan_size ws + 2 * length entries)"
  using assms
proof (induction entries arbitrary: ws)
  case Nil
  then show ?case by simp
next
  case (Cons e entries)
  obtain comps data where e: "e = (comps, data)" by (cases e)
  from Cons.prems have small: "scan_size ws < 2 ^ 32 - 1" by simp
  consider (bad) err where "relative_sql_path comps = Inl err"
    | (staged) rel where "relative_sql_path comps = Inr rel" "classify rel \<noteq> ObjectFile"
    | (object) rel where "relative_sql_path comps = Inr rel" "classify rel = ObjectFile"
    by (cases "relative_sql_path comps") auto
  then show ?case
  proof cases
    case bad
    then show ?thesis by (simp add: e obind_def)
  next
    case staged
    then show ?thesis
    proof (cases rule: scan_entries_staged [OF Cons.prems(1) small staged, of sha root data entries])
      case (1 err)
      then show ?thesis by (simp add: e del: scan_entries.simps)
    next
      case (2 w)
      then have "scan_size w + 2 * length entries < 2 ^ 32 - 1" using Cons.prems(2) by simp
      from Cons.IH [OF 2(2) this] 2(3,4) show ?thesis unfolding e 2(1) by fastforce
    qed
  next
    case (object rel)
    let ?a = "absolute_path root rel"
    have eq: "scan_entries sha root (e # entries) ws =
        obind (scan_entries sha root entries ws) (\<lambda>(ws', items). Some (Inr (ws', (rel, ?a, data) # items)))"
      using object by (simp add: e obind_def [of "Some _"])
    have "scan_size ws + 2 * length entries < 2 ^ 32 - 1" using Cons.prems(2) by simp
    note IH = Cons.IH [OF Cons.prems(1) this]
    show ?thesis
    proof (intro conjI allI impI)
      show "scan_entries sha root (e # entries) ws \<noteq> None"
        unfolding eq using IH by (simp add: obind_eq_None split: prod.splits)
      fix ws' items
      assume "scan_entries sha root (e # entries) ws = Some (Inr (ws', items))"
      then obtain items' where "scan_entries sha root entries ws = Some (Inr (ws', items'))" "items = (rel, ?a, data) # items'"
        unfolding eq by (auto simp: obind_eq_Some)
      with IH show "scan_inv ws'" "object_count ws' = object_count ws"
        "scan_size ws' + 2 * length items \<le> scan_size ws + 2 * length (e # entries)"
        by auto
    qed
  qed
qed

lemma intern_database_total:
  "length (ws_database_names ws) < 2 ^ 16 - 1 \<Longrightarrow> \<exists>ws' i. intern_database ws db = Some (ws', i)"
  by (auto simp: intern_database_def Let_def split: option.splits)

lemma insert_parsed_object_inv:
  assumes "scan_inv ws" and "scan_size ws < 2 ^ 32 - 1"
    and "\<And>k ob s. parsed = Some (k, ob, s) \<Longrightarrow> oe_key_off ob = str_off_EMPTY"
  shows "insert_parsed_object ws parsed rel schemas \<noteq> None
    \<and> (\<forall>ws' sm. insert_parsed_object ws parsed rel schemas = Some (Inr (ws', sm)) \<longrightarrow>
        scan_inv ws' \<and> object_count ws' \<le> Suc (object_count ws)
        \<and> scan_size ws' \<le> scan_size ws + 2)"
proof (cases parsed)
  case None
  with assms show ?thesis by (simp add: insert_parsed_object_def)
next
  case (Some p)
  obtain k ob s where p: "p = (k, ob, s)" by (cases p)
  from assms(3) Some p have off: "oe_key_off ob = str_off_EMPTY" by simp
  let ?db = "hd (split_on (CHR ''/'') rel)"
  obtain w sid where W: "insert_script ws s = Some (w, sid)" "scan_inv w" "0 < sid" "sid \<le> length (ws_script_rows w)"
    "scan_size w \<le> Suc (scan_size ws)" "object_count w = object_count ws"
    by (rule insert_script_inv [OF assms(1,2), of s])
  show ?thesis
  proof (cases "length (ws_database_names w) \<ge> 2 ^ 16 - 2")
    case True
    with W(1) show ?thesis by (simp add: insert_parsed_object_def Some p obind_def no_error_def Let_def)
  next
    case False
    then obtain w2 i where I: "intern_database w ?db = Some (w2, i)"
      using intern_database_total [of w ?db] by auto
    from intern_database_frame [OF I] obtain names where w2: "w2 = w\<lparr>ws_database_names := names\<rparr>" by blast
    from I have "length (ws_database_names w2) \<le> Suc (length (ws_database_names w))"
      by (auto simp: intern_database_def Let_def split: if_splits option.splits)
    then have names: "length names \<le> Suc (length (ws_database_names w))" by (simp add: w2)
    let ?ob = "ob\<lparr>oe_script_id := sid, oe_db_id := i\<rparr>"
    have eq: "insert_parsed_object ws parsed rel schemas =
        obind (Some (push_object w2 k ?ob)) (\<lambda>ws3. Some (Inr (ws3, record_schema ?db (schema_part k) schemas)))"
      using W(1) False I by (simp add: insert_parsed_object_def Some p obind_def [of "Some (Inr _)"] no_error_def Let_def)
    have "scan_inv w2" using W(2) by (simp add: w2)
    show ?thesis
    proof (intro conjI allI impI)
      show "insert_parsed_object ws parsed rel schemas \<noteq> None"
        unfolding eq by (simp add: obind_eq_None)
      fix ws' sm
      assume "insert_parsed_object ws parsed rel schemas = Some (Inr (ws', sm))"
      then have push: "push_object w2 k ?ob = Inr ws'" unfolding eq by (auto simp: obind_eq_Some)
      then have frame: "ws_script_rows ws' = ws_script_rows w2" "object_count ws' = Suc (object_count w2)"
        "ws_script_checksums ws' = ws_script_checksums w2" "ws_ingest_script_keys ws' = ws_ingest_script_keys w2"
        "ws_ingest_script_abs ws' = ws_ingest_script_abs w2" "ws_script_key_index ws' = ws_script_key_index w2"
        "ws_database_names ws' = ws_database_names w2" "ws_transitions_staging ws' = ws_transitions_staging w2"
        by (auto simp: push_object_def Let_def object_count_def split: if_splits)
      from push_object_wf [OF push] \<open>scan_inv w2\<close> off W(3,4)
      have "objects_wf ws'" by (simp add: scan_inv_def w2)
      moreover from \<open>scan_inv w2\<close> have "scripts_wf ws'"
        unfolding scan_inv_def scripts_wf_def frame(1,3-6) by simp
      ultimately show "scan_inv ws'" by (simp add: scan_inv_def)
      show "object_count ws' \<le> Suc (object_count ws)" "scan_size ws' \<le> scan_size ws + 2"
        using frame W(5,6) names by (simp_all add: w2 object_count_def scan_size_def)
    qed
  qed
qed

lemma merge_objects_inv:
  assumes "scan_inv ws" and "scan_size ws + 2 * length l < 2 ^ 32 - 1"
    and "\<forall>(it, parsed) \<in> set l. \<forall>k ob s. parsed = Some (k, ob, s) \<longrightarrow> oe_key_off ob = str_off_EMPTY"
  shows "merge_objects l ws schemas \<noteq> None
    \<and> (\<forall>ws' sm. merge_objects l ws schemas = Some (Inr (ws', sm)) \<longrightarrow>
        scan_inv ws' \<and> object_count ws' \<le> object_count ws + length l
        \<and> scan_size ws' \<le> scan_size ws + 2 * length l)"
  using assms
proof (induction l arbitrary: ws schemas)
  case Nil
  then show ?case by simp
next
  case (Cons x l)
  obtain rel apath data parsed where x: "x = ((rel, apath, data), parsed)" by (cases x) auto
  have one: "insert_parsed_object ws parsed rel schemas \<noteq> None
    \<and> (\<forall>ws' sm. insert_parsed_object ws parsed rel schemas = Some (Inr (ws', sm)) \<longrightarrow>
        scan_inv ws' \<and> object_count ws' \<le> Suc (object_count ws)
        \<and> scan_size ws' \<le> scan_size ws + 2)"
    using Cons.prems by (intro insert_parsed_object_inv) (auto simp: x)
  have eq: "merge_objects (x # l) ws schemas =
      obind (insert_parsed_object ws parsed rel schemas) (\<lambda>(ws', schemas'). merge_objects l ws' schemas')"
    by (simp add: x)
  have step: "merge_objects l w sm \<noteq> None \<and> (\<forall>ws' sm'. merge_objects l w sm = Some (Inr (ws', sm')) \<longrightarrow>
        scan_inv ws' \<and> object_count ws' \<le> object_count ws + length (x # l)
        \<and> scan_size ws' \<le> scan_size ws + 2 * length (x # l))"
    if "insert_parsed_object ws parsed rel schemas = Some (Inr (w, sm))" for w sm
  proof -
    from one that have w: "scan_inv w" "object_count w \<le> Suc (object_count ws)"
      "scan_size w \<le> scan_size ws + 2" by auto
    have "scan_size w + 2 * length l < 2 ^ 32 - 1" using w(3) Cons.prems(2) by simp
    from Cons.IH [OF w(1) this, of sm] Cons.prems(3) w(2,3) show ?thesis by fastforce
  qed
  show ?case
  proof (intro conjI allI impI)
    show "merge_objects (x # l) ws schemas \<noteq> None"
      unfolding eq obind_eq_None using one step by auto
    fix ws' sm
    assume "merge_objects (x # l) ws schemas = Some (Inr (ws', sm))"
    then obtain w sm0 where "insert_parsed_object ws parsed rel schemas = Some (Inr (w, sm0))"
      "merge_objects l w sm0 = Some (Inr (ws', sm))"
      unfolding eq by (auto simp: obind_eq_Some)
    with step show "scan_inv ws'" "object_count ws' \<le> object_count ws + length (x # l)"
      "scan_size ws' \<le> scan_size ws + 2 * length (x # l)" by blast+
  qed
qed

lemma parse_objects_offs:
  assumes "parse_objects sha par items = Inr parsed" and "par \<noteq> Some 0"
  shows "length parsed = length items \<and> (\<forall>p \<in> set parsed. \<forall>k ob s. p = Some (k, ob, s) \<longrightarrow> oe_key_off ob = str_off_EMPTY)"
proof -
  from assms have "map (parse_item sha) items = map Inr parsed"
    by (simp add: parse_objects_seq collect_results_Inr)
  then have len: "length parsed = length items" and
    each: "\<And>p. p \<in> set parsed \<Longrightarrow> \<exists>it. parse_item sha it = Inr p"
    by (metis length_map, metis imageE image_eqI list.set_map)
  have "oe_key_off ob = str_off_EMPTY" if p: "p \<in> set parsed" "p = Some (k, ob, s)" for p k ob s
  proof -
    from each [OF p(1)] p(2) obtain rel apath data where "parse_object sha rel apath data = Inr (Some (k, ob, s))"
      by (auto simp: parse_item_def)
    then show ?thesis by (rule parse_object_Some) simp
  qed
  with len show ?thesis by blast
qed

lemma reset_scan_inv: "scan_inv ((reset_layout ws)\<lparr>ws_root := root\<rparr>)"
  "object_count ((reset_layout ws)\<lparr>ws_root := root\<rparr>) = 0"
  "scan_size ((reset_layout ws)\<lparr>ws_root := root\<rparr>) \<le> 1"
  by (simp_all add: scan_size_def scan_inv_def scripts_wf_def objects_wf_def object_ids_def object_count_def reset_layout_def
      invalidate_transition_paths_def invalidate_catalog_facts_def)

lemma mset_zip_swap: "length a = length b \<Longrightarrow> length c = length d \<Longrightarrow> mset (zip a b) = mset (zip c d) \<Longrightarrow>
   mset (zip (map f b) a) = mset (zip (map f d) c)"
proof -
  assume "length a = length b" "length c = length d" and eq: "mset (zip a b) = mset (zip c d)"
  then have "zip (map f b) a = map (\<lambda>(x, y). (f y, x)) (zip a b)" "zip (map f d) c = map (\<lambda>(x, y). (f y, x)) (zip c d)"
    by (simp_all add: list_eq_iff_nth_eq)
  with eq show ?thesis by (metis mset_map)
qed

lemma finalize_object_layout_ready:
  assumes inv: "objects_wf ws" and fin: "finalize_object_layout fp ws = Some ws'" and small: "object_count ws < 2 ^ 32"
  shows "layout_ready ws'" and "sorted (ws_object_keys ws')"
    and "mset (zip (map oe_db_id (ws_object_entries ws')) (ws_object_keys ws')) = mset (object_ids ws)"
    and "object_count ws' = object_count ws"
    and "ws_key_index ws' = index_rows (\<lambda>k. k) 0 (ws_object_keys ws') Map.empty"
proof -
  from inv have "\<not> entries_are_interned (ws_object_entries ws)"
    by (auto simp: entries_are_interned_def objects_wf_def str_off_EMPTY_def)
  with fin obtain f where f: "finalize_sorted_entries fp (ws_object_entries ws) (ws_ingest_keys ws) = Some f"
    and ap: "apply_finalized_entries fp (ws\<lparr>ws_object_entries := [], ws_ingest_keys := []\<rparr>) f = Some ws'"
    by (auto simp: finalize_object_layout_def split: Option.bind_splits)
  note F = finalize_sorted_entries_Some [OF f]
  note S = settle_layout_Some [OF ap [unfolded apply_finalized_entries_def]]
  have ent: "ws_object_entries ws' = map (set_db_exists False) (fin_entries f)" "ws_object_keys ws' = fin_keys f"
    "ws_object_rows ws' = fin_rows f" "ws_key_index ws' = fin_key_index f"
    using S(1-4) by simp_all
  show cnt: "object_count ws' = object_count ws" using F(2) by (simp add: object_count_def ent)
  show "layout_ready ws'"
    using F(1-3,7) S(6-8) small cnt unfolding layout_ready_def by (simp add: ent object_count_def)
  show "sorted (ws_object_keys ws')" using F(6) by (simp add: ent)
  show "ws_key_index ws' = index_rows (\<lambda>k. k) 0 (ws_object_keys ws') Map.empty" using F(8) by (simp add: ent)
  show "mset (zip (map oe_db_id (ws_object_entries ws')) (ws_object_keys ws')) = mset (object_ids ws)"
    using mset_zip_swap [of "fin_keys f" "fin_entries f" "ws_ingest_keys ws" "ws_object_entries ws" oe_db_id] F(1,2,4,5)
    by (simp add: ent object_ids_def o_def)
qed

lemma scan_root_parts:
  assumes "scan_root sha fp par ws0 root tree = Some (Inr ws)"
    and walk: "walk_sql tree = Inr entries" and small: "length entries < 2 ^ 31 - 1" and par: "par \<noteq> Some 0"
  obtains w1 items parsed w2 schemas where
    "scan_entries sha root entries ((reset_layout ws0)\<lparr>ws_root := root\<rparr>) = Some (Inr (w1, items))"
    "parse_objects sha par items = Inr parsed"
    "merge_objects (zip items parsed) w1 [] = Some (Inr (w2, schemas))"
    "finalize_object_layout fp (w2\<lparr>ws_schemas := sort_key se_name (map snd schemas)\<rparr>) = Some ws"
    "scan_inv w2" "object_count w2 < 2 ^ 32" "scan_size w2 < 2 ^ 32"
proof -
  let ?w0 = "(reset_layout ws0)\<lparr>ws_root := root\<rparr>"
  from assms(1) walk obtain w1 items parsed w2 schemas where
    ent: "scan_entries sha root entries ?w0 = Some (Inr (w1, items))"
    and par': "parse_objects sha par items = Inr parsed"
    and mrg: "merge_objects (zip items parsed) w1 [] = Some (Inr (w2, schemas))"
    and fin: "finalize_object_layout fp (w2\<lparr>ws_schemas := sort_key se_name (map snd schemas)\<rparr>) = Some ws"
    by (auto simp: scan_root_def Let_def outcome_simps)
  have e: "scan_inv w1" "object_count w1 = 0" "scan_size w1 + 2 * length items \<le> 1 + 2 * length entries"
    using scan_entries_inv [of ?w0 entries sha root] ent small reset_scan_inv [where ws = ws0 and root = root] by fastforce+
  from parse_objects_offs [OF par' par] have po: "length parsed = length items"
    "\<forall>(it, p) \<in> set (zip items parsed). \<forall>k ob s. p = Some (k, ob, s) \<longrightarrow> oe_key_off ob = str_off_EMPTY"
    by (auto dest: set_zip_rightD)
  have m: "scan_inv w2" "object_count w2 \<le> length items" "scan_size w2 \<le> scan_size w1 + 2 * length items"
    using merge_objects_inv [OF e(1) _ po(2), of "[]"] mrg e(2,3) po(1) small by fastforce+
  show thesis
    using m e(3) small by (intro that [OF ent par' mrg fin]) simp_all
qed

lemma scan_root_stages:
  assumes "scan_root sha fp par ws0 root tree = Some (Inr ws)"
    and "walk_sql tree = Inr entries" and "length entries < 2 ^ 31 - 1" and "par \<noteq> Some 0"
  obtains w where "scan_inv w" "object_count w < 2 ^ 32" "finalize_object_layout fp w = Some ws"
proof (rule scan_root_parts [OF assms])
  fix w1 items parsed w2 schemas
  assume "scan_inv w2" "object_count w2 < 2 ^ 32"
    and fin: "finalize_object_layout fp (w2\<lparr>ws_schemas := sort_key se_name (map snd schemas)\<rparr>) = Some ws"
  then show thesis
    by (intro that [OF _ _ fin])
      (simp_all add: scan_inv_def scripts_wf_def objects_wf_def object_ids_def object_count_def)
qed

text \<open>
  C7: A scan that succeeds leaves a finalized layout: aligned columns with the right kind codes, keys
  sorted, no catalog facts, and no two objects of one database with the same key.
\<close>

theorem scan_yields_ready_layout:
  assumes "scan_root sha fp par ws0 root tree = Some (Inr ws)"
    and "walk_sql tree = Inr entries" and "length entries < 2 ^ 31 - 1" and "par \<noteq> Some 0"
  shows "layout_ready ws \<and> sorted (ws_object_keys ws)
    \<and> distinct (zip (map oe_db_id (ws_object_entries ws)) (ws_object_keys ws))"
proof -
  from scan_root_stages [OF assms] obtain w where
    w: "scan_inv w" "object_count w < 2 ^ 32" "finalize_object_layout fp w = Some ws" .
  then have wf: "objects_wf w" by (simp add: scan_inv_def)
  note F = finalize_object_layout_ready [OF wf w(3,2)]
  from wf have "distinct (object_ids w)" by (simp add: objects_wf_def)
  then have "distinct (zip (map oe_db_id (ws_object_entries ws)) (ws_object_keys ws))"
    using F(3) mset_eq_imp_distinct_iff by blast
  with F(1,2) show ?thesis by blast
qed


subsection \<open>The scan does not panic\<close>

lemma compact_staged_total:
  "length (ws_database_names ws) + length staged < 2 ^ 16 \<Longrightarrow> \<exists>ws'. compact_staged fp db_rows ws staged = Some ws'"
proof (induction staged arbitrary: ws)
  case (Cons x staged)
  obtain db key entries where x: "x = ((db, key), entries)" by (cases x) auto
  from Cons.prems have "length (ws_database_names ws) < 2 ^ 16 - 1" by simp
  from intern_database_total [OF this] obtain w i where I: "intern_database ws db = Some (w, i)" by blast
  then have "length (ws_database_names w) \<le> Suc (length (ws_database_names ws))"
    by (auto simp: intern_database_def Let_def split: if_splits option.splits)
  with Cons.prems have "length (ws_database_names (w\<lparr>ws_transitions_by_row := trs\<rparr>)) + length staged < 2 ^ 16"
    "length (ws_database_names w) + length staged < 2 ^ 16" for trs by simp_all
  with Cons.IH have "\<exists>ws'. compact_staged fp db_rows (w\<lparr>ws_transitions_by_row := trs\<rparr>) staged = Some ws'"
    "\<exists>ws'. compact_staged fp db_rows w staged = Some ws'" for trs by blast+
  then show ?case by (simp add: x I Let_def split: option.splits)
qed simp

lemma finalize_total:
  assumes wf: "objects_wf ws" and size: "length (ws_database_names ws) + length (ws_transitions_staging ws) < 2 ^ 16"
  shows "\<exists>ws'. finalize_object_layout fp ws = Some ws'"
proof -
  from wf have int: "\<not> entries_are_interned (ws_object_entries ws)" and arena: "ws_layout_arena ws = None"
    and len: "length (ws_ingest_keys ws) = length (ws_object_entries ws)"
    by (auto simp: entries_are_interned_def objects_wf_def str_off_EMPTY_def object_count_def)
  from len obtain f where f: "finalize_sorted_entries fp (ws_object_entries ws) (ws_ingest_keys ws) = Some f"
    by (simp add: finalize_sorted_entries_def Let_def)
  note F = finalize_sorted_entries_Some [OF f]
  define v where "v = ws\<lparr>ws_object_entries := [], ws_ingest_keys := []\<rparr>\<lparr>ws_object_rows := fin_rows f, ws_key_index := fin_key_index f,
           ws_fp_index := fin_fp_index f, ws_object_entries := fin_entries f, ws_object_keys := fin_keys f\<rparr>"
  have v: "ws_transitions_staging v = ws_transitions_staging ws" "ws_database_names v = ws_database_names ws"
    "ws_layout_arena v = None" "length (ws_object_keys v) = object_count v"
    using arena F(1,2) by (simp_all add: v_def object_count_def)
  have "length (ws_database_names (v\<lparr>ws_transitions_staging := [], ws_transitions_by_row := []\<rparr>))
      + length (ws_transitions_staging v) < 2 ^ 16" using size by (simp add: v)
  from compact_staged_total [OF this] obtain w where w: "compact_transitions fp v = Some w"
    unfolding compact_transitions_def entry_keys_ready [OF v(4)] Let_def by fastforce
  from compact_transitions_frame [OF w] have "ws_layout_arena w = None" using v(3) by auto
  then have "ws_layout_arena (invalidate_catalog_facts (clear_scan_staging w)) = None"
    by (simp add: invalidate_catalog_facts_def clear_scan_staging_def clear_object_staging_def Let_def)
  then have "\<exists>ws'. rebuild_path_caches (invalidate_catalog_facts (clear_scan_staging w)) = Some ws'"
    by (simp add: rebuild_path_caches_def rebuild_transition_path_cache_def rebuild_object_path_cache_def)
  then have "\<exists>ws'. settle_layout fp v = Some ws'" using w by (simp add: settle_layout_def)
  moreover have "finalize_object_layout fp ws = settle_layout fp v"
    using f int by (simp add: finalize_object_layout_def apply_finalized_entries_def v_def)
  ultimately show ?thesis by simp
qed

lemma scan_root_not_None:
  assumes walk: "walk_sql tree = Inr entries" and small: "length entries < 2 ^ 15 - 1" and par: "par \<noteq> Some 0"
  shows "scan_root sha fp par ws0 root tree \<noteq> None"
proof
  let ?w0 = "(reset_layout ws0)\<lparr>ws_root := root\<rparr>"
  assume panic: "scan_root sha fp par ws0 root tree = None"
  have E: "scan_entries sha root entries ?w0 \<noteq> None \<and> (\<forall>w1 items. scan_entries sha root entries ?w0 = Some (Inr (w1, items))
      \<longrightarrow> scan_inv w1 \<and> object_count w1 = object_count ?w0 \<and> scan_size w1 + 2 * length items \<le> scan_size ?w0 + 2 * length entries)"
    using small reset_scan_inv [where ws = ws0 and root = root] by (intro scan_entries_inv) auto
  with panic walk obtain w1 items parsed where
    ent: "scan_entries sha root entries ?w0 = Some (Inr (w1, items))"
    and par': "parse_objects sha par items = Inr parsed"
    and rest: "merge_objects (zip items parsed) w1 [] = None \<or> (\<exists>w2 schemas.
      merge_objects (zip items parsed) w1 [] = Some (Inr (w2, schemas))
      \<and> finalize_object_layout fp (w2\<lparr>ws_schemas := sort_key se_name (map snd schemas)\<rparr>) = None)"
    by (auto simp: scan_root_def Let_def outcome_simps)
  have e: "scan_inv w1" "scan_size w1 + 2 * length items \<le> 1 + 2 * length entries"
    using E ent reset_scan_inv [where ws = ws0 and root = root] by fastforce+
  from parse_objects_offs [OF par' par] have po: "length parsed = length items"
    "\<forall>(it, p) \<in> set (zip items parsed). \<forall>k ob s. p = Some (k, ob, s) \<longrightarrow> oe_key_off ob = str_off_EMPTY"
    by (auto dest: set_zip_rightD)
  have "scan_size w1 + 2 * length (zip items parsed) < 2 ^ 32 - 1" using e(2) po(1) small by simp
  note M = merge_objects_inv [OF e(1) this po(2), of "[]"]
  from conjunct1 [OF M] rest obtain w2 schemas where mrg: "merge_objects (zip items parsed) w1 [] = Some (Inr (w2, schemas))"
    and fin: "finalize_object_layout fp (w2\<lparr>ws_schemas := sort_key se_name (map snd schemas)\<rparr>) = None" by auto
  let ?w3 = "w2\<lparr>ws_schemas := sort_key se_name (map snd schemas)\<rparr>"
  from M mrg have m: "scan_inv w2" "scan_size w2 \<le> scan_size w1 + 2 * length (zip items parsed)" by blast+
  have wf: "objects_wf ?w3"
    using m(1) by (simp add: scan_inv_def objects_wf_def object_ids_def object_count_def)
  have size: "length (ws_database_names ?w3) + length (ws_transitions_staging ?w3) < 2 ^ 16"
    using m(2) e(2) po(1) small by (simp add: scan_size_def)
  from finalize_total [OF wf size, of fp] fin show False by simp
qed


text \<open>
  C6: On every readable tree of fewer than 32767 SQL files the scan returns a workspace or an error;
  no internal assertion or index of the layout passes fails.
\<close>

theorem scan_never_panics:
  assumes "walk_sql tree = Inr entries" and "length entries < 2 ^ 15 - 1" and "par \<noteq> Some 0"
  shows "scan_root sha fp par ws0 root tree \<noteq> None"
  using assms by (rule scan_root_not_None)

subsection \<open>A sample tree\<close>

definition sample_tree :: "(string \<times> fs_node) list" where
  "sample_tree = [(''db'', FsDir [(''dbo'', FsDir [(''views'', FsDir [(''V.sql'', FsFile ''x''), (''a.txt'', FsFile [])])])])]"

definition sample_item :: scan_item where
  "sample_item = (''db/dbo/views/V.sql'', ''/r/db/dbo/views/V.sql'', Inr ''x'')"

definition sample_parsed :: parsed_object where
  "sample_parsed = (''dbo/views/v'', \<lparr>oe_checksum = ''x'', oe_key_off = (0, 0), oe_script_id = 0, oe_db_id = 0, oe_flags = 0\<rparr>,
     \<lparr>sc_key = ''db/dbo/views/V.sql'', sc_kind = ObjectScript, sc_abs_path = ''/r/db/dbo/views/V.sql'', sc_checksum = Some ''x''\<rparr>)"

lemma sample_walk: "walk_sql sample_tree = Inr [([''db'', ''dbo'', ''views'', ''V.sql''], Inr ''x'')]"
  by code_simp

lemma sample_entries:
  "scan_entries rev ''/r'' [([''db'', ''dbo'', ''views'', ''V.sql''], Inr ''x'')] ws = Some (Inr (ws, [sample_item]))"
proof -
  have "relative_sql_path [''db'', ''dbo'', ''views'', ''V.sql''] = Inr ''db/dbo/views/V.sql''"
    and "classify ''db/dbo/views/V.sql'' = ObjectFile" by code_simp+
  then show ?thesis by (simp add: obind_def absolute_path_def sample_item_def)
qed

lemma sample_parse: "parse_objects rev None [sample_item] = Inr [Some sample_parsed]"
  by code_simp

lemma sample_scan_not_error: "scan_root rev length None workspace_default ''/r'' sample_tree \<noteq> Some (Inl e)"
proof -
  let ?w0 = "(reset_layout workspace_default)\<lparr>ws_root := ''/r''\<rparr>"
  obtain rel apath data where it: "sample_item = (rel, apath, data)" by (simp add: sample_item_def)
  obtain w sid where W: "insert_script ?w0 (snd (snd sample_parsed)) = Some (w, sid)" "scan_inv w"
    "scan_size w \<le> Suc (scan_size ?w0)" "object_count w = object_count ?w0" "ws_database_names w = ws_database_names ?w0"
    using reset_scan_inv [where ws = workspace_default and root = "''/r''"]
    by (elim insert_script_inv [where ws = ?w0 and s = "snd (snd sample_parsed)"]) auto
  have "length (ws_database_names w) = 1" unfolding W(5) by (simp add: reset_layout_def workspace_default_def
      invalidate_catalog_facts_def invalidate_transition_paths_def)
  then obtain w2 i where I: "intern_database w (hd (split_on (CHR ''/'') rel)) = Some (w2, i)"
    using intern_database_total [of w "hd (split_on (CHR ''/'') rel)"] by auto
  have "ws_ingest_key_index w2 k = None" for k
  proof -
    have "ws_object_entries w = []" using W(4) reset_scan_inv(2) [of "''/r''" workspace_default] by (simp add: object_count_def)
    with W(2) have "dom (ws_ingest_key_index w) = {}" by (simp add: scan_inv_def objects_wf_def object_ids_def)
    with intern_database_frame [OF I] show ?thesis by auto
  qed
  then have "push_object w2 k ob \<noteq> Inl e" for k ob e by (simp add: push_object_def Let_def)
  with W(1) I \<open>length (ws_database_names w) = 1\<close>
  have "\<exists>w3 sm. insert_parsed_object ?w0 (Some sample_parsed) rel [] = Some (Inr (w3, sm))"
    by (auto simp: insert_parsed_object_def sample_parsed_def obind_def no_error_def Let_def split: sum.splits)
  then show ?thesis
    by (auto simp: scan_root_def Let_def sample_walk sample_entries sample_parse [unfolded it] it outcome_simps
        simp del: scan_entries.simps)
qed

lemma sample_scans: "\<exists>ws. scan_root rev length None workspace_default ''/r'' sample_tree = Some (Inr ws)"
  using scan_root_not_None [OF sample_walk, of None rev length workspace_default "''/r''"] sample_scan_not_error
  by (simp, metis not_Some_eq sumE)

theorem scan_never_panics_witness:
  "scan_root rev length None workspace_default ''/r'' sample_tree \<noteq> None"
  by (rule scan_never_panics [OF sample_walk]) simp_all

theorem scan_yields_ready_layout_witness:
  "\<exists>ws. scan_root rev length None workspace_default ''/r'' sample_tree = Some (Inr ws) \<and> layout_ready ws"
  using sample_scans scan_yields_ready_layout [OF _ sample_walk] by fastforce

end
