(* ===== verification/Shared_Key.thy ===== *)
theory Shared_Key
  imports Workspace
begin

section \<open>Keys over shared strings, and the text they stand for\<close>

text \<open>
  The trait implementations of \<open>SharedStr\<close> (\<open>domain/shared/traits.rs\<close>, \<open>shared/mod.rs\<close>)
  and the key types of \<open>domain/key.rs\<close> and \<open>key_from.rs\<close> with the representation they have in
  the source: a key wraps a shared string, which is empty, owned, or a slice of an arena buffer.
  Reading the text of a slice may panic (\<open>None\<close>), reading its bytes does so only out of range. The
  rest of the development works on the text of a key; the lemmas at the end justify that: each
  operation on the representation has the text the operation of \<open>Domain_Key\<close> computes, and
  equality, hash and fingerprint depend on the text alone. The hasher and the serializer are
  parameters.
\<close>

subsection \<open>Traits of shared strings\<close>

definition shared_default :: shared_str where
  "shared_default = empty_str"

definition shared_is_empty :: "shared_str \<Rightarrow> bool option" where
  "shared_is_empty x = map_option (\<lambda>s. s = []) (as_str x)"

definition shared_eq :: "shared_str \<Rightarrow> shared_str \<Rightarrow> bool option" where
  "shared_eq x y = do { a \<leftarrow> as_str x; b \<leftarrow> as_str y; Some (a = b) }"

text \<open>\<open>Hash::hash\<close> feeds the bytes to a hasher \<open>feed\<close> in state \<open>h\<close>.\<close>

definition shared_hash :: "(bytes \<Rightarrow> 'h \<Rightarrow> 'h) \<Rightarrow> shared_str \<Rightarrow> 'h \<Rightarrow> 'h option" where
  "shared_hash feed x h = map_option (\<lambda>bs. feed bs h) (hash_bytes x)"

definition shared_fmt :: "shared_str \<Rightarrow> string option" where
  "shared_fmt x = as_str x"

definition shared_as_ref :: "shared_str \<Rightarrow> string option" where
  "shared_as_ref x = as_str x"

definition shared_deref :: "shared_str \<Rightarrow> string option" where
  "shared_deref x = as_str x"

definition shared_from_string :: "string \<Rightarrow> shared_str" where
  "shared_from_string s = shared_new s"

definition shared_from_ref :: "string \<Rightarrow> shared_str" where
  "shared_from_ref s = shared_new s"

definition shared_serialize :: "(string \<Rightarrow> 'o) \<Rightarrow> shared_str \<Rightarrow> 'o option" where
  "shared_serialize ser x = map_option ser (as_str x)"

definition shared_deserialize :: "('i \<Rightarrow> string option) \<Rightarrow> 'i \<Rightarrow> shared_str option" where
  "shared_deserialize de i = map_option shared_new (de i)"

text \<open>
  \<open>key_fingerprint\<close>: a fresh \<open>DefaultHasher\<close>, fed with the bytes and finished. Its algorithm
  is unspecified by the standard library, so it is the three parameters.
\<close>

record 'h hasher =
  hs_new :: 'h
  hs_feed :: "bytes \<Rightarrow> 'h \<Rightarrow> 'h"
  hs_finish :: "'h \<Rightarrow> nat"

definition key_fingerprint :: "'h hasher \<Rightarrow> bytes \<Rightarrow> nat" where
  "key_fingerprint hs bs = hs_finish hs (hs_feed hs bs (hs_new hs))"

definition shared_fingerprint :: "'h hasher \<Rightarrow> shared_str \<Rightarrow> nat option" where
  "shared_fingerprint hs x = map_option (key_fingerprint hs) (hash_bytes x)"

subsection \<open>Object keys and script keys\<close>

datatype object_key = ObjectKey (ok_inner: shared_str)

datatype script_key = ScriptKey (sk_inner: shared_str)

definition object_key_eq :: "object_key \<Rightarrow> object_key \<Rightarrow> bool option" where
  "object_key_eq a b = shared_eq (ok_inner a) (ok_inner b)"

definition object_key_hash :: "(bytes \<Rightarrow> 'h \<Rightarrow> 'h) \<Rightarrow> object_key \<Rightarrow> 'h \<Rightarrow> 'h option" where
  "object_key_hash feed k h = shared_hash feed (ok_inner k) h"

definition script_key_eq :: "script_key \<Rightarrow> script_key \<Rightarrow> bool option" where
  "script_key_eq a b = shared_eq (sk_inner a) (sk_inner b)"

definition script_key_hash :: "(bytes \<Rightarrow> 'h \<Rightarrow> 'h) \<Rightarrow> script_key \<Rightarrow> 'h \<Rightarrow> 'h option" where
  "script_key_hash feed k h = shared_hash feed (sk_inner k) h"

definition new_object_key :: "string \<Rightarrow> string \<Rightarrow> string \<Rightarrow> object_key" where
  "new_object_key schema kind name =
     ObjectKey (share (to_lowercase schema @ ''/'' @ to_lowercase kind @ ''/'' @ to_lowercase name))"

definition from_normalized :: "string \<Rightarrow> object_key" where
  "from_normalized s = ObjectKey (share s)"

definition parse_object_key :: "string \<Rightarrow> object_key option" where
  "parse_object_key path =
     (let parts = split_on (CHR ''/'') (trim_end_sql path); n = length parts
      in if n < 4 then None
         else Some (new_object_key (parts ! (n - 3)) (parts ! (n - 2)) (last parts)))"

definition object_key_as_str :: "object_key \<Rightarrow> string option" where
  "object_key_as_str k = shared_deref (ok_inner k)"

definition object_key_fingerprint :: "'h hasher \<Rightarrow> object_key \<Rightarrow> nat option" where
  "object_key_fingerprint hs k = shared_fingerprint hs (ok_inner k)"

definition object_key_schema_part :: "object_key \<Rightarrow> string option" where
  "object_key_schema_part k = map_option (\<lambda>s. key_part s 0) (object_key_as_str k)"

definition object_key_kind_part :: "object_key \<Rightarrow> string option" where
  "object_key_kind_part k = map_option (\<lambda>s. key_part s 1) (object_key_as_str k)"

definition object_key_name_part :: "object_key \<Rightarrow> string option" where
  "object_key_name_part k = map_option (\<lambda>s. key_part s 2) (object_key_as_str k)"

text \<open>The segments as subslices; \<open>ident\<close> is the identity of the buffer of an owned key.\<close>

definition schema_shared :: "nat \<Rightarrow> object_key \<Rightarrow> shared_str option" where
  "schema_shared ident k =
     do { part \<leftarrow> object_key_schema_part k; subslice_of ident (ok_inner k) part }"

definition kind_shared :: "nat \<Rightarrow> object_key \<Rightarrow> shared_str option" where
  "kind_shared ident k =
     do { part \<leftarrow> object_key_kind_part k; subslice_of ident (ok_inner k) part }"

definition name_shared :: "nat \<Rightarrow> object_key \<Rightarrow> shared_str option" where
  "name_shared ident k =
     do { part \<leftarrow> object_key_name_part k; subslice_of ident (ok_inner k) part }"

definition object_key_shared :: "object_key \<Rightarrow> shared_str" where
  "object_key_shared k = ok_inner k"

definition object_key_fmt :: "object_key \<Rightarrow> string option" where
  "object_key_fmt k = shared_deref (ok_inner k)"

definition object_key_from :: "shared_str \<Rightarrow> object_key" where
  "object_key_from s = ObjectKey s"

definition script_key_from :: "shared_str \<Rightarrow> script_key" where
  "script_key_from s = ScriptKey s"

definition new_script_key :: "string \<Rightarrow> script_key" where
  "new_script_key path = ScriptKey (share (replace_char (CHR 0x5C) ''/'' path))"

definition script_key_as_str :: "script_key \<Rightarrow> string option" where
  "script_key_as_str k = shared_deref (sk_inner k)"

definition script_key_shared :: "script_key \<Rightarrow> shared_str" where
  "script_key_shared k = sk_inner k"

subsection \<open>Well-formed shared strings\<close>

text \<open>What the source maintains: buffers below 4 GiB, slices in range and on UTF-8 boundaries.\<close>

fun shared_wf :: "shared_str \<Rightarrow> bool" where
  "shared_wf SEmpty = True"
| "shared_wf (SOwned s) = (length s < 2 ^ 32 \<and> is_utf8 s)"
| "shared_wf (SSlice i buf start len) =
     (length buf < 2 ^ 32 \<and> start + len \<le> length buf \<and> is_utf8 (take len (drop start buf)))"

lemma is_utf8_Nil [simp]: "is_utf8 []"
  by (simp add: is_utf8.simps)

lemma shared_wf_text:
  assumes "shared_wf x"
  obtains s where "as_str x = Some s" "hash_bytes x = Some s" "is_utf8 s"
  using assms by (cases x) (auto simp: as_str_def)

text \<open>A readable string has the bytes of its text.\<close>

lemma as_str_hash_bytes: "as_str x = Some s \<Longrightarrow> hash_bytes x = Some s"
  by (cases x) (auto simp: as_str_def split: if_splits)

subsection \<open>Cutting UTF-8 text at an ASCII separator\<close>

lemma utf8_step_cut:
  assumes "utf8_step (a @ c # b) \<noteq> 0" and "in_range 0 127 c" and "a \<noteq> []"
  shows "utf8_step a = utf8_step (a @ c # b) \<and> utf8_step a \<le> length a"
proof -
  from assms(2) have c: "\<not> in_range 128 191 c" "\<not> in_range 160 191 c" "\<not> in_range 128 159 c"
      "\<not> in_range 144 191 c" "\<not> in_range 128 143 c"
    by (auto simp: in_range_def)
  obtain a1 as where a: "a = a1 # as" using assms(3) by (cases a) auto
  show ?thesis
  proof (cases as)
    case Nil
    with assms c a show ?thesis by (auto split: if_splits list.splits)
  next
    case (Cons a2 as2)
    show ?thesis
    proof (cases as2)
      case Nil
      with assms c a Cons show ?thesis by (auto split: if_splits list.splits)
    next
      case (Cons a3 as3)
      with assms c a \<open>as = a2 # as2\<close> show ?thesis
        by (cases as3) (auto split: if_splits list.splits)
    qed
  qed
qed

lemma is_utf8_cut:
  "is_utf8 (a @ c # b) \<Longrightarrow> in_range 0 127 c \<Longrightarrow> is_utf8 a \<and> is_utf8 b"
proof (induction "length a" arbitrary: a rule: less_induct)
  case less
  show ?case
  proof (cases "a = []")
    case True
    with less.prems show ?thesis by (simp add: is_utf8.simps [of "c # b"])
  next
    case False
    from less.prems(1) have step: "utf8_step (a @ c # b) \<noteq> 0"
      and rest: "is_utf8 (drop (utf8_step (a @ c # b)) (a @ c # b))"
      by (simp_all add: is_utf8.simps [of "a @ c # b"] split: if_splits)
    from utf8_step_cut [OF step less.prems(2) False] have n: "utf8_step a = utf8_step (a @ c # b)"
      "utf8_step a \<le> length a" by auto
    with rest have "is_utf8 (drop (utf8_step a) a @ c # b)" by simp
    moreover have "length (drop (utf8_step a) a) < length a"
      using n step False by simp
    ultimately have "is_utf8 (drop (utf8_step a) a) \<and> is_utf8 b"
      using less.hyps less.prems(2) by blast
    with n step show ?thesis
      by (simp add: is_utf8.simps [of a])
  qed
qed

lemma split_on_utf8:
  "is_utf8 s \<Longrightarrow> in_range 0 127 c \<Longrightarrow> p \<in> set (split_on c s) \<Longrightarrow> is_utf8 p"
proof (induction "length s" arbitrary: s rule: less_induct)
  case less
  show ?case
  proof (cases "c \<in> set s")
    case False
    with less.prems show ?thesis by (simp add: split_on_no_sep)
  next
    case True
    then obtain a b where s: "s = a @ c # b" "c \<notin> set a"
      by (meson split_list_first)
    with less.prems have "is_utf8 a" "is_utf8 b" using is_utf8_cut by blast+
    moreover from s less.prems(3) have "p = a \<or> p \<in> set (split_on c b)"
      by (simp add: split_on_append)
    ultimately show ?thesis using less.hyps [of b] less.prems(2) s by auto
  qed
qed

lemma key_part_utf8: "is_utf8 s \<Longrightarrow> is_utf8 (key_part s i)"
  by (auto simp: key_part_def Let_def in_range_def intro: split_on_utf8 [OF _ _ nth_mem])

subsection \<open>The representation refines the text\<close>

lemma shared_eq_text:
  "as_str x = Some s \<Longrightarrow> as_str y = Some t \<Longrightarrow> shared_eq x y = Some (s = t)"
  by (simp add: shared_eq_def)

lemma shared_hash_text:
  "as_str x = Some s \<Longrightarrow> shared_hash feed x h = Some (feed s h)"
  by (simp add: shared_hash_def as_str_hash_bytes)

text \<open>The contract of \<open>Hash\<close> and \<open>Eq\<close>: equal values hash equally, in any hasher.\<close>

lemma shared_eq_hash:
  assumes "shared_eq x y = Some True"
  shows "shared_hash feed x h = shared_hash feed y h"
    and "shared_fingerprint hs x = shared_fingerprint hs y"
  using assms
  by (auto simp: shared_eq_def shared_hash_def shared_fingerprint_def
      dest!: as_str_hash_bytes split: Option.bind_splits)

lemma shared_serde_roundtrip:
  assumes "\<And>s. de (ser s) = Some s" and "as_str x = Some s"
  shows "\<exists>y. Option.bind (shared_serialize ser x) (shared_deserialize de) = Some y
    \<and> shared_eq y x = Some True"
  using assms
  by (simp add: shared_serialize_def shared_deserialize_def shared_eq_def
      as_str_share [unfolded share_def])

lemma subslice_of_total:
  assumes "as_str base = Some full" shows "\<exists>x. subslice_of ident base part = Some x"
  using assms by (auto simp: subslice_of_def split: option.splits)

lemma subslice_text:
  assumes "shared_wf base" and "is_utf8 part"
  shows "Option.bind (subslice_of ident base part) as_str = Some part"
proof -
  from assms(1) obtain full where "as_str base = Some full" by (rule shared_wf_text)
  then obtain x where "subslice_of ident base part = Some x"
    using subslice_of_total by blast
  moreover from this have "as_str x = Some part"
    by (rule subslice_of_reads_back) (use assms in auto)
  ultimately show ?thesis by simp
qed

lemma new_object_key_text: "object_key_as_str (new_object_key s k n) = Some (object_key_new s k n)"
  by (simp add: object_key_as_str_def shared_deref_def new_object_key_def object_key_new_def
      as_str_share)

lemma from_normalized_text: "object_key_as_str (from_normalized s) = Some s"
  by (simp add: object_key_as_str_def shared_deref_def from_normalized_def as_str_share)

lemma parse_object_key_text:
  "Option.bind (parse_object_key path) object_key_as_str = object_key_parse path"
  by (simp add: parse_object_key_def object_key_parse_def Let_def new_object_key_text)

lemma new_script_key_text: "script_key_as_str (new_script_key p) = Some (script_key_from_path p)"
  by (simp add: script_key_as_str_def shared_deref_def new_script_key_def script_key_from_path_def
      as_str_share)

lemma key_segments_text:
  assumes "shared_wf (ok_inner k)" and "object_key_as_str k = Some t"
  shows "Option.bind (schema_shared ident k) as_str = Some (schema_part t)"
    and "Option.bind (kind_shared ident k) as_str = Some (kind_part t)"
    and "Option.bind (name_shared ident k) as_str = Some (name_part t)"
proof -
  from assms have "is_utf8 t"
    by (auto simp: object_key_as_str_def shared_deref_def elim: shared_wf_text)
  then have "Option.bind (subslice_of ident (ok_inner k) (key_part t i)) as_str
      = Some (key_part t i)" for i
    by (intro subslice_text assms(1) key_part_utf8)
  with assms(2) show "Option.bind (schema_shared ident k) as_str = Some (schema_part t)"
    and "Option.bind (kind_shared ident k) as_str = Some (kind_part t)"
    and "Option.bind (name_shared ident k) as_str = Some (name_part t)"
    by (simp_all add: schema_shared_def kind_shared_def name_shared_def object_key_schema_part_def
        object_key_kind_part_def object_key_name_part_def schema_part_def kind_part_def
        name_part_def)
qed

text \<open>
  C12: An object key (\<open>domain/key.rs\<close>) behaves as its text, whatever buffer it points into: reading a
  well-formed key never panics, two keys are equal exactly when their texts are, hash and fingerprint are
  those of the text (so an interned key is found under the hash of a scanned one), and the schema, kind and
  name taken as subslices of the key, which share its buffer, read the segments of the text.
\<close>

theorem object_keys_behave_as_text:
  assumes "shared_wf (ok_inner a)" and "shared_wf (ok_inner b)"
  shows "\<exists>s t. object_key_as_str a = Some s \<and> object_key_as_str b = Some t
    \<and> object_key_eq a b = Some (s = t)
    \<and> object_key_hash feed a h = Some (feed s h)
    \<and> object_key_fingerprint hs a = Some (key_fingerprint hs s)
    \<and> Option.bind (schema_shared ident a) as_str = Some (schema_part s)
    \<and> Option.bind (kind_shared ident a) as_str = Some (kind_part s)
    \<and> Option.bind (name_shared ident a) as_str = Some (name_part s)"
proof -
  obtain s where s: "as_str (ok_inner a) = Some s" using assms(1) by (rule shared_wf_text)
  obtain t where t: "as_str (ok_inner b) = Some t" using assms(2) by (rule shared_wf_text)
  have "object_key_as_str a = Some s" using s by (simp add: object_key_as_str_def shared_deref_def)
  with key_segments_text [OF assms(1) this] s t show ?thesis
    by (intro exI [of _ s] exI [of _ t])
      (simp add: object_key_as_str_def shared_deref_def object_key_eq_def shared_eq_text object_key_hash_def
        shared_hash_text object_key_fingerprint_def shared_fingerprint_def as_str_hash_bytes)
qed

theorem object_keys_behave_as_text_witness:
  "object_key_eq (ObjectKey (SOwned ''a/b/c'')) (ObjectKey (SSlice 7 ''xa/b/cy'' 1 5)) = Some True
   \<and> Option.bind (kind_shared 3 (ObjectKey (SOwned ''a/b/c''))) as_str = Some ''b''"
proof -
  let ?a = "ObjectKey (SOwned ''a/b/c'')" and ?b = "ObjectKey (SSlice 7 ''xa/b/cy'' 1 5)"
  have "is_utf8 ''a/b/c''" "take 5 (drop 1 ''xa/b/cy'') = ''a/b/c''" "kind_part ''a/b/c'' = ''b''" by code_simp+
  then have wf: "shared_wf (ok_inner ?a)" "shared_wf (ok_inner ?b)"
    and texts: "object_key_as_str ?a = Some ''a/b/c''" "object_key_as_str ?b = Some ''a/b/c''"
    by (simp_all add: object_key_as_str_def shared_deref_def as_str_def)
  show ?thesis
    using object_keys_behave_as_text [OF wf, where feed = "\<lambda>bs n. n + length bs" and h = "0 :: nat" and ident = 3
        and hs = "\<lparr>hs_new = (0 :: nat), hs_feed = (\<lambda>bs n. n + length bs), hs_finish = id\<rparr>"]
      texts \<open>kind_part ''a/b/c'' = ''b''\<close> by auto
qed

end
