(* ===== verification/Layout_Fast.thy ===== *)
theory Layout_Fast
  imports Layout Shared_Key
begin

section \<open>Interning strings that already are slices of the arena\<close>

text \<open>
  The passes of \<open>domain/arena/ws_apply\<close> in full. \<open>Layout\<close> models them by the lookup of each
  string in the index of the arena; the source first asks whether a string already is a slice of
  the buffer of that very arena (\<open>str_off_if_dedicated\<close>, an identity test on the buffer) and then
  reuses its offset. Here every string of the workspace comes with its representation, a record
  \<open>string_reps\<close>, and both branches are definitions. Two facts tie them to \<open>Layout\<close>: no string
  is a slice of a buffer that was just allocated, so \<open>intern_workspace_strings\<close> always takes the
  lookup; and on dedicated slices the fast pass yields the same entries up to offsets that read
  back the same text. \<open>ident\<close> is the identity of the buffer of the arena.
\<close>

subsection \<open>Both branches of the passes\<close>

record string_reps =
  rp_key :: "nat \<Rightarrow> shared_str"
  rp_database :: "nat \<Rightarrow> shared_str"
  rp_script_key :: "nat \<Rightarrow> shared_str"
  rp_script_abs :: "nat \<Rightarrow> shared_str"

text \<open>The loop that collects the offsets, left at the first string that is no dedicated slice.\<close>

fun dedicated_entry_offs ::
  "nat \<Rightarrow> string_reps \<Rightarrow> nat \<Rightarrow> object_entry list \<Rightarrow> (str_off \<times> str_off) list option" where
  "dedicated_entry_offs ident rp i [] = Some []"
| "dedicated_entry_offs ident rp i (obj # objs) =
     do {
       key_off \<leftarrow> str_off_if_dedicated ident (rp_key rp i);
       db_off \<leftarrow> str_off_if_dedicated ident (rp_database rp (oe_db_id obj));
       rest \<leftarrow> dedicated_entry_offs ident rp (Suc i) objs;
       Some ((key_off, db_off) # rest)
     }"

fun fast_entries_loop ::
  "nat \<Rightarrow> string_arena \<Rightarrow> workspace \<Rightarrow> (object_entry \<times> str_off \<times> str_off) list
    \<Rightarrow> (workspace \<times> object_entry list) option" where
  "fast_entries_loop ident arena ws [] = Some (ws, [])"
| "fast_entries_loop ident arena ws ((obj, key_off, db_off) # rest) =
     do {
       db \<leftarrow> as_str (shared_at ident arena db_off);
       (ws', db_id) \<leftarrow> intern_database ws db;
       (ws'', objs) \<leftarrow> fast_entries_loop ident arena ws' rest;
       Some (ws'', obj\<lparr>oe_db_id := db_id, oe_key_off := key_off\<rparr> # objs)
     }"

definition apply_object_entries_full ::
  "nat \<Rightarrow> string_arena \<Rightarrow> string_reps \<Rightarrow> workspace \<Rightarrow> workspace option" where
  "apply_object_entries_full ident arena rp ws =
     (if ws_object_entries ws = [] then Some ws
      else case dedicated_entry_offs ident rp 0 (ws_object_entries ws) of
        Some offs \<Rightarrow> do {
          (ws', objs') \<leftarrow> fast_entries_loop ident arena (ws\<lparr>ws_database_names := [[]]\<rparr>)
                            (zip (ws_object_entries ws) offs);
          Some (ws'\<lparr>ws_object_entries := objs', ws_ingest_keys := []\<rparr>)
        }
      | None \<Rightarrow> apply_object_entries arena ws)"

text \<open>The loop of \<open>apply_scripts\<close>: a missing staged key is a panic, the outer \<open>None\<close>.\<close>

fun dedicated_script_offs ::
  "nat \<Rightarrow> string_reps \<Rightarrow> workspace \<Rightarrow> nat list \<Rightarrow> (str_off \<times> str_off) list option option" where
  "dedicated_script_offs ident rp ws [] = Some (Some [])"
| "dedicated_script_offs ident rp ws (i # is) =
     do {
       key \<leftarrow> nth_opt (ws_ingest_script_keys ws) i;
       apath \<leftarrow> nth_opt (ws_ingest_script_abs ws) i;
       case (str_off_if_dedicated ident (rp_script_key rp i),
             str_off_if_dedicated ident (rp_script_abs rp i)) of
         (Some path_off, Some abs_off) \<Rightarrow>
           map_option (map_option (\<lambda>offs. (path_off, abs_off) # offs))
             (dedicated_script_offs ident rp ws is)
       | _ \<Rightarrow> Some None
     }"

definition apply_scripts_full ::
  "nat \<Rightarrow> string_arena \<Rightarrow> string_reps \<Rightarrow> workspace \<Rightarrow> workspace option" where
  "apply_scripts_full ident arena rp ws =
     (if ws_script_rows ws = [] then Some ws
      else do {
        fast \<leftarrow> dedicated_script_offs ident rp ws [0..<length (ws_script_rows ws)];
        case fast of
          Some offs \<Rightarrow>
            Some (ws\<lparr>ws_script_rows :=
                       map (\<lambda>(row, path_off, abs_off).
                              row\<lparr>sr_path_off := path_off, sr_abs_path_off := abs_off\<rparr>)
                         (zip (ws_script_rows ws) offs),
                     ws_ingest_script_keys := [], ws_ingest_script_abs := []\<rparr>)
        | None \<Rightarrow> apply_scripts arena ws
      })"

text \<open>A staged ordinal with its representation, and the remapped strings of a schema.\<close>

definition ord_offset :: "nat \<Rightarrow> string_arena \<Rightarrow> shared_str \<Rightarrow> str_off option" where
  "ord_offset ident arena ord =
     (case str_off_if_dedicated ident ord of
        Some off \<Rightarrow> Some off
      | None \<Rightarrow> do { s \<leftarrow> as_str ord; offset_len arena s })"

definition shared_get :: "nat \<Rightarrow> string_arena \<Rightarrow> string \<Rightarrow> shared_str option" where
  "shared_get ident arena s =
     (if s = [] then Some empty_str
      else do { off \<leftarrow> offset_len arena s;
                Some (from_arena_slice ident (sa_buf arena) (fst off) (snd off)) })"

definition remap_shared :: "nat \<Rightarrow> string_arena \<Rightarrow> shared_str \<Rightarrow> shared_str option" where
  "remap_shared ident arena s =
     (case str_off_if_dedicated ident s of
        Some off \<Rightarrow> Some (shared_at ident arena off)
      | None \<Rightarrow> do { t \<leftarrow> as_str s; shared_get ident arena t })"

subsection \<open>A freshly allocated arena\<close>

fun slice_of :: "nat \<Rightarrow> shared_str \<Rightarrow> bool" where
  "slice_of ident (SSlice i buf start len) = (i = ident)"
| "slice_of ident _ = False"

lemma str_off_if_dedicated_fresh: "\<not> slice_of ident x \<Longrightarrow> str_off_if_dedicated ident x = None"
  by (cases x) (auto simp: str_off_if_dedicated_def)

lemma str_off_if_dedicated_Some:
  "str_off_if_dedicated ident x = Some off \<longleftrightarrow> (\<exists>buf. x = SSlice ident buf (fst off) (snd off))"
  by (cases x) (auto simp: str_off_if_dedicated_def)

lemma apply_object_entries_fresh:
  assumes "\<And>i. \<not> slice_of ident (rp_key rp i)"
  shows "apply_object_entries_full ident arena rp ws = apply_object_entries arena ws"
  using assms
  by (cases "ws_object_entries ws")
    (simp_all add: apply_object_entries_full_def apply_object_entries_def
      str_off_if_dedicated_fresh)

lemma apply_scripts_fresh:
  assumes "\<And>i. \<not> slice_of ident (rp_script_key rp i)"
  shows "apply_scripts_full ident arena rp ws = apply_scripts arena ws"
proof (cases "ws_script_rows ws")
  case Nil
  then show ?thesis by (simp add: apply_scripts_full_def apply_scripts_def)
next
  case (Cons r rs)
  then have upt: "[0..<length (ws_script_rows ws)] = 0 # [1..<length (ws_script_rows ws)]"
    using upt_conv_Cons [of 0 "length (ws_script_rows ws)"] by (simp del: upt_Suc)
  show ?thesis
  proof (cases "ws_ingest_script_keys ws = [] \<or> ws_ingest_script_abs ws = []")
    case True
    then have "apply_script_row arena ws 0 = None"
      by (auto simp: apply_script_row_def nth_opt_def split: Option.bind_splits)
    then have "those (map (apply_script_row arena ws) [0..<length (ws_script_rows ws)]) = None"
      unfolding those_eq_None using Cons by force
    with True Cons upt show ?thesis
      by (auto simp: apply_scripts_full_def apply_scripts_def nth_opt_def)
  next
    case False
    with Cons upt assms show ?thesis
      by (simp add: apply_scripts_full_def nth_opt_def str_off_if_dedicated_fresh split: option.splits)
  qed
qed

subsection \<open>Dedicated slices\<close>

text \<open>A slice of the buffer of the arena, in range and on UTF-8 boundaries.\<close>

definition dedicated_text :: "nat \<Rightarrow> string_arena \<Rightarrow> shared_str \<Rightarrow> string \<Rightarrow> bool" where
  "dedicated_text ident arena x s \<longleftrightarrow>
     (case x of
        SSlice i buf start len \<Rightarrow>
          i = ident \<and> buf = sa_buf arena \<and> len > 0 \<and> as_str x = Some s
      | _ \<Rightarrow> False)"

lemma dedicated_textD:
  assumes "dedicated_text ident arena x s"
  obtains off where "str_off_if_dedicated ident x = Some off" "str_at arena off = Some s"
    "as_str (shared_at ident arena off) = Some s"
  using assms
  by (cases x) (auto simp: dedicated_text_def str_off_if_dedicated_def str_at_def slice_bytes_def
      shared_at_def from_arena_slice_def as_str_def split: if_splits)

text \<open>
  Remapping keeps the text, on either branch; \<open>arena_get\<close> is the lookup of \<open>Layout\<close>.
\<close>

lemma shared_get_text: "Option.bind (shared_get ident arena s) as_str = arena_get arena s"
  by (auto simp: shared_get_def arena_get_def offset_len_def empty_str_def as_str_def str_at_def
      slice_bytes_def from_arena_slice_def split: option.splits)

lemma remap_shared_text:
  assumes "dedicated_text ident arena x s \<or> (\<not> slice_of ident x \<and> as_str x = Some s)"
    and "arena_get arena s = Some s"
  shows "Option.bind (remap_shared ident arena x) as_str = Some s"
  using assms(1)
proof
  assume "dedicated_text ident arena x s"
  then show ?thesis by (rule dedicated_textD) (simp add: remap_shared_def)
next
  assume "\<not> slice_of ident x \<and> as_str x = Some s"
  then have "Option.bind (remap_shared ident arena x) as_str = Option.bind (shared_get ident arena s) as_str"
    by (simp add: remap_shared_def str_off_if_dedicated_fresh)
  with assms(2) show ?thesis by (simp add: shared_get_text)
qed

text \<open>What the fast and the slow pass over the object entries agree on.\<close>

definition same_up_to_key_off ::
  "string_arena \<Rightarrow> object_entry list \<Rightarrow> object_entry list \<Rightarrow> bool" where
  "same_up_to_key_off arena xs ys \<longleftrightarrow>
     list_all2 (\<lambda>x y. x\<lparr>oe_key_off := str_off_EMPTY\<rparr> = y\<lparr>oe_key_off := str_off_EMPTY\<rparr>
       \<and> str_at arena (oe_key_off x) = str_at arena (oe_key_off y)) xs ys"

text \<open>
  A fast item and a slow item of the two loops over one entry: the offsets read the key and the
  database the slow item names, and these are known to the arena.
\<close>

fun items_match ::
  "nat \<Rightarrow> string_arena \<Rightarrow> object_entry \<times> str_off \<times> str_off \<Rightarrow> object_entry \<times> string \<times> string \<Rightarrow> bool" where
  "items_match ident arena (obj, key_off, db_off) (obj', key, db) \<longleftrightarrow>
     obj = obj' \<and> str_at arena key_off = Some key \<and> arena_get arena key = Some key
     \<and> as_str (shared_at ident arena db_off) = Some db \<and> arena_get arena db = Some db"

lemma fast_entries_loop_agrees:
  assumes "list_all2 (items_match ident arena) fs ss"
  shows "rel_option (rel_prod (=) (same_up_to_key_off arena))
    (fast_entries_loop ident arena ws fs) (apply_entries_loop arena ws ss)"
  using assms
proof (induction fs ss arbitrary: ws rule: list_all2_induct)
  case Nil
  then show ?case by (simp add: same_up_to_key_off_def)
next
  case (Cons f fs s ss)
  obtain obj key_off db_off key db where fs: "f = (obj, key_off, db_off)" "s = (obj, key, db)"
    and at: "str_at arena key_off = Some key" "arena_get arena key = Some key"
      "as_str (shared_at ident arena db_off) = Some db" "arena_get arena db = Some db"
    using Cons.hyps(1) by (cases f; cases s) auto
  from at(2) obtain off where off: "offset_len arena key = Some off" "str_at arena off = Some key"
    by (auto simp: arena_get_def split: Option.bind_splits)
  show ?case
  proof (cases "intern_database ws db")
    case None
    with fs at show ?thesis by simp
  next
    case (Some r)
    obtain ws' did where r: "r = (ws', did)" by (cases r)
    from Cons.IH [of ws'] show ?thesis
      using fs at off Some r
      by (cases "fast_entries_loop ident arena ws' fs"; cases "apply_entries_loop arena ws' ss")
        (auto simp: same_up_to_key_off_def)
  qed
qed

lemma dedicated_entry_offs_match:
  assumes "length keys = length objs"
    and "\<forall>j < length objs. dedicated_text ident arena (rp_key rp (i + j)) (keys ! j)"
    and "\<forall>obj \<in> set objs. dedicated_text ident arena (rp_database rp (oe_db_id obj)) (name obj)"
    and "\<forall>k \<in> set keys. arena_get arena k = Some k"
    and "\<forall>obj \<in> set objs. arena_get arena (name obj) = Some (name obj)"
  shows "\<exists>offs. dedicated_entry_offs ident rp i objs = Some offs
    \<and> list_all2 (items_match ident arena) (zip objs offs) (zip objs (zip keys (map name objs)))"
  using assms
proof (induction objs arbitrary: i keys)
  case Nil
  then show ?case by simp
next
  case (Cons obj objs)
  then obtain k ks where keys: "keys = k # ks" by (cases keys) auto
  from Cons.prems(2) keys have "dedicated_text ident arena (rp_key rp i) k" by force
  then obtain key_off where k: "str_off_if_dedicated ident (rp_key rp i) = Some key_off"
    "str_at arena key_off = Some k" by (rule dedicated_textD)
  from Cons.prems(3) have "dedicated_text ident arena (rp_database rp (oe_db_id obj)) (name obj)"
    by simp
  then obtain db_off where d: "str_off_if_dedicated ident (rp_database rp (oe_db_id obj)) = Some db_off"
    "as_str (shared_at ident arena db_off) = Some (name obj)" by (rule dedicated_textD)
  have "\<forall>j < length objs. dedicated_text ident arena (rp_key rp (Suc i + j)) (ks ! j)"
    using Cons.prems(2) keys by force
  with Cons.IH [of ks "Suc i"] Cons.prems keys obtain offs where
    "dedicated_entry_offs ident rp (Suc i) objs = Some offs"
    "list_all2 (items_match ident arena) (zip objs offs) (zip objs (zip ks (map name objs)))"
    by auto
  with k d keys Cons.prems(4,5) show ?case by simp
qed

lemma entry_keys_length: "entry_keys ws = Some keys \<Longrightarrow> length keys = object_count ws"
  unfolding entry_keys_def those_eq_Some by (drule arg_cong [of _ _ length]) simp

text \<open>
  On dedicated slices the fast pass and the lookup agree: the same databases and the same entries,
  up to offsets that read the same key.
\<close>

lemma apply_object_entries_dedicated:
  assumes keys: "entry_keys ws = Some keys"
    and key_reps: "\<forall>i < object_count ws. dedicated_text ident arena (rp_key rp i) (keys ! i)"
    and db_reps: "\<forall>obj \<in> set (ws_object_entries ws). dedicated_text ident arena
      (rp_database rp (oe_db_id obj)) (database_name ws (oe_db_id obj))"
    and known: "\<forall>k \<in> set keys. arena_get arena k = Some k"
      "\<forall>obj \<in> set (ws_object_entries ws).
         arena_get arena (database_name ws (oe_db_id obj)) = Some (database_name ws (oe_db_id obj))"
  shows "rel_option (\<lambda>w w'. same_up_to_key_off arena (ws_object_entries w) (ws_object_entries w')
      \<and> w\<lparr>ws_object_entries := []\<rparr> = w'\<lparr>ws_object_entries := []\<rparr>)
    (apply_object_entries_full ident arena rp ws) (apply_object_entries arena ws)"
proof (cases "ws_object_entries ws = []")
  case True
  then show ?thesis
    by (simp add: apply_object_entries_full_def apply_object_entries_def same_up_to_key_off_def)
next
  case False
  let ?objs = "ws_object_entries ws" and ?name = "\<lambda>obj. database_name ws (oe_db_id obj)"
  from keys have "length keys = length ?objs"
    by (simp add: entry_keys_length object_count_def)
  with key_reps db_reps known dedicated_entry_offs_match [of keys ?objs ident arena rp 0 ?name]
  obtain offs where offs: "dedicated_entry_offs ident rp 0 ?objs = Some offs"
    and all: "list_all2 (items_match ident arena) (zip ?objs offs)
      (zip ?objs (zip keys (map ?name ?objs)))"
    by (auto simp: object_count_def)
  from fast_entries_loop_agrees [OF all, of "ws\<lparr>ws_database_names := [[]]\<rparr>"] False keys offs
  show ?thesis
    by (cases "fast_entries_loop ident arena (ws\<lparr>ws_database_names := [[]]\<rparr>) (zip ?objs offs)";
        cases "apply_entries_loop arena (ws\<lparr>ws_database_names := [[]]\<rparr>)
          (zip ?objs (zip keys (map ?name ?objs)))")
      (auto simp: apply_object_entries_full_def apply_object_entries_def Let_def)
qed

end
