(* ===== verification/Intern_Correct.thy ===== *)
theory Intern_Correct
  imports Layout_Correct Layout_Fast Scan_Correct
begin

section \<open>Interning keeps every string of the workspace\<close>

text \<open>
  Between the scan and the plan \<open>populate\<close> moves every string of the workspace into one arena and
  replaces it by an offset (\<open>domain/arena/ws_register.rs\<close>, \<open>ws_apply\<close>, \<open>ws_git.rs\<close>,
  \<open>ws_intern.rs\<close>). Each pass looks its strings up again and panics on a missing one. Here: on a
  staged workspace whose strings are UTF-8 and take less than 4 GiB together no pass panics, and
  every key, path, database, schema and ordinal reads back as before.
\<close>

subsection \<open>Database names\<close>

definition names_wf :: "string list \<Rightarrow> bool" where
  "names_wf ns \<longleftrightarrow> ns \<noteq> [] \<and> hd ns = [] \<and> distinct (map to_lowercase ns)"

lemma names_wf_inj:
  "names_wf ns \<Longrightarrow> a \<in> set ns \<Longrightarrow> b \<in> set ns \<Longrightarrow> to_lowercase a = to_lowercase b \<Longrightarrow> a = b"
  by (auto simp: names_wf_def distinct_map inj_on_def)

lemma names_wf_append:
  assumes "names_wf ns" and "\<forall>d \<in> set ns. to_lowercase d \<noteq> to_lowercase name"
  shows "names_wf (ns @ [name])"
  using assms by (auto simp: names_wf_def)

text \<open>
  Interning a name of the old list into a new list that draws on it: the name is found, whatever its
  letter case, or appended; the list never outgrows the old one.
\<close>

lemma intern_database_known:
  assumes old: "names_wf olds" "length olds < 2 ^ 16" and new: "names_wf (ws_database_names w)"
    "set (ws_database_names w) \<subseteq> set olds" and db: "db \<in> set olds"
  shows "\<exists>ns i. intern_database w db = Some (w\<lparr>ws_database_names := ns\<rparr>, i) \<and> names_wf ns
    \<and> set ns \<subseteq> set olds \<and> prefix (ws_database_names w) ns \<and> i < length ns \<and> ns ! i = db"
proof (cases "db = []")
  case True
  then have "intern_database w db = Some (w\<lparr>ws_database_names := ws_database_names w\<rparr>, 0)"
    by (simp add: intern_database_def)
  moreover have "ws_database_names w ! 0 = db" "0 < length (ws_database_names w)"
    using new(1) True by (auto simp: names_wf_def hd_conv_nth)
  ultimately show ?thesis using new by blast
next
  case False
  let ?names = "ws_database_names w"
  have dist: "distinct ?names" "distinct olds" using old(1) new(1) by (auto simp: names_wf_def distinct_map)
  have le: "length ?names \<le> length olds"
    using dist new(2) by (metis card_mono distinct_card finite_set)
  show ?thesis
  proof (cases "position (\<lambda>d. eq_ignore_ascii_case d db) ?names")
    case (Some i)
    from position_Some [OF Some] have i: "i < length ?names" "to_lowercase (?names ! i) = to_lowercase db"
      by (auto simp: eq_ignore_ascii_case_def)
    then have "?names ! i = db" using names_wf_inj [OF old(1)] new(2) db by (meson nth_mem subsetD)
    moreover have "intern_database w db = Some (w\<lparr>ws_database_names := ?names\<rparr>, i)"
      using False Some i le old(2) by (simp add: intern_database_def)
    ultimately show ?thesis using i(1) new by blast
  next
    case None
    then have miss: "\<forall>d \<in> set ?names. to_lowercase d \<noteq> to_lowercase db"
      by (simp add: position_None eq_ignore_ascii_case_def)
    then have "set ?names \<subset> set olds" using new(2) db by auto
    then have "length ?names < length olds"
      using dist by (metis distinct_card finite_set psubset_card_mono)
    then have "intern_database w db = Some (w\<lparr>ws_database_names := ?names @ [db]\<rparr>, length ?names)"
      using False None old(2) by (simp add: intern_database_def Let_def)
    moreover have "names_wf (?names @ [db])" by (rule names_wf_append [OF new(1) miss])
    ultimately show ?thesis using new(2) db by fastforce
  qed
qed

subsection \<open>Strings of the arena\<close>

lemma arena_get_offset:
  assumes "arena_get arena s = Some s"
  obtains off where "offset_len arena s = Some off" "str_at arena off = Some s" "s \<noteq> [] \<Longrightarrow> snd off \<noteq> 0"
proof -
  from assms obtain off where off: "offset_len arena s = Some off" "str_at arena off = Some s"
    by (auto simp: arena_get_def split: Option.bind_splits)
  then have "s \<noteq> [] \<Longrightarrow> snd off \<noteq> 0"
    by (auto simp: str_at_def slice_bytes_def split: if_splits)
  with off show ?thesis by (rule that)
qed

lemma registered_strings_known:
  assumes "sum_list (map length ss) < 2 ^ 32" and "s \<in> set ss" and "is_utf8 s"
  shows "arena_get (finish_builder (foldl register builder_with_capacity ss)) s = Some s"
  using ar.foldl_resolves [OF builder_wf_empty, of ss s] assms
  by (simp add: arena_get_def builder_size_def builder_with_capacity_def)

subsection \<open>Object entries\<close>

text \<open>An entry after interning, against the entry, key and database it came from.\<close>

fun entry_interned :: "string_arena \<Rightarrow> string list \<Rightarrow> object_entry \<times> string \<times> string \<Rightarrow> object_entry \<Rightarrow> bool" where
  "entry_interned arena ns (obj, key, db) obj' \<longleftrightarrow>
     str_at arena (oe_key_off obj') = Some key \<and> oe_db_id obj' < length ns \<and> ns ! oe_db_id obj' = db
     \<and> oe_script_id obj' = oe_script_id obj \<and> oe_checksum obj' = oe_checksum obj
     \<and> oe_flags obj' = oe_flags obj"

lemma entry_interned_mono:
  "entry_interned arena ns item obj' \<Longrightarrow> prefix ns ns' \<Longrightarrow> entry_interned arena ns' item obj'"
  by (cases item) (auto simp: prefix_def nth_append)

lemma apply_entries_loop_ok:
  assumes old: "names_wf olds" "length olds < 2 ^ 16"
    and items: "\<forall>(obj, key, db) \<in> set items.
      arena_get arena key = Some key \<and> arena_get arena db = Some db \<and> db \<in> set olds"
    and new: "names_wf (ws_database_names w)" "set (ws_database_names w) \<subseteq> set olds"
  shows "\<exists>ns objs. apply_entries_loop arena w items = Some (w\<lparr>ws_database_names := ns\<rparr>, objs)
    \<and> names_wf ns \<and> set ns \<subseteq> set olds \<and> prefix (ws_database_names w) ns
    \<and> list_all2 (entry_interned arena ns) items objs"
  using items new
proof (induction items arbitrary: w)
  case Nil
  then show ?case
    by (intro exI [of _ "ws_database_names w"] exI [of _ "[]"]) simp
next
  case (Cons item items)
  obtain obj key db where item: "item = (obj, key, db)" by (cases item) auto
  with Cons.prems(1) have known: "arena_get arena key = Some key" "arena_get arena db = Some db" "db \<in> set olds"
    by auto
  obtain off where off: "offset_len arena key = Some off" "str_at arena off = Some key"
    using arena_get_offset [OF known(1)] by metis
  from intern_database_known [OF old Cons.prems(2,3) known(3)] obtain n1 i where
    I: "intern_database w db = Some (w\<lparr>ws_database_names := n1\<rparr>, i)" "names_wf n1" "set n1 \<subseteq> set olds"
    "prefix (ws_database_names w) n1" "i < length n1" "n1 ! i = db" by blast
  from Cons.IH [of "w\<lparr>ws_database_names := n1\<rparr>"] Cons.prems(1) I(2,3) obtain ns objs where
    R: "apply_entries_loop arena (w\<lparr>ws_database_names := n1\<rparr>) items = Some (w\<lparr>ws_database_names := ns\<rparr>, objs)"
    "names_wf ns" "set ns \<subseteq> set olds" "prefix n1 ns" "list_all2 (entry_interned arena ns) items objs"
    by auto
  let ?obj = "obj\<lparr>oe_db_id := i, oe_key_off := off\<rparr>"
  have "entry_interned arena n1 item ?obj" using I(5,6) off(2) by (simp add: item)
  then have E: "entry_interned arena ns item ?obj" using R(4) by (rule entry_interned_mono)
  have L: "apply_entries_loop arena w (item # items) = Some (w\<lparr>ws_database_names := ns\<rparr>, ?obj # objs)"
    using known off(1) I(1) R(1) by (simp add: item)
  show ?case
  proof (intro exI conjI)
    show "list_all2 (entry_interned arena ns) (item # items) (?obj # objs)" using E R(5) by simp
  qed (fact L R(2,3) prefix_order.trans [OF I(4) R(4)])+
qed

lemma names_wf_Nil: "names_wf ns \<Longrightarrow> [] \<in> set ns"
  by (cases ns) (auto simp: names_wf_def)

lemma database_name_in: "names_wf (ws_database_names ws) \<Longrightarrow> database_name ws i \<in> set (ws_database_names ws)"
  by (simp add: database_name_def nth_opt_def names_wf_Nil)

lemma apply_object_entries_ok:
  assumes names: "names_wf (ws_database_names ws)" "length (ws_database_names ws) < 2 ^ 16"
    and keys: "length (ws_object_keys ws) = object_count ws" "ws_ingest_keys ws = []"
    and known: "\<forall>k \<in> set (ws_object_keys ws). arena_get arena k = Some k"
      "\<forall>e \<in> set (ws_object_entries ws).
        arena_get arena (database_name ws (oe_db_id e)) = Some (database_name ws (oe_db_id e))"
  shows "\<exists>ns objs. apply_object_entries arena ws
      = Some (ws\<lparr>ws_database_names := ns, ws_object_entries := objs, ws_ingest_keys := []\<rparr>)
    \<and> list_all2 (entry_interned arena ns) (zip (ws_object_entries ws) (zip (ws_object_keys ws)
        (map (\<lambda>e. database_name ws (oe_db_id e)) (ws_object_entries ws)))) objs"
proof (cases "ws_object_entries ws = []")
  case True
  with keys have "ws = ws\<lparr>ws_database_names := ws_database_names ws, ws_object_entries := [], ws_ingest_keys := []\<rparr>"
    by simp
  then have "apply_object_entries arena ws
      = Some (ws\<lparr>ws_database_names := ws_database_names ws, ws_object_entries := [], ws_ingest_keys := []\<rparr>)"
    unfolding apply_object_entries_def using True by simp
  with True show ?thesis by (intro exI [of _ "ws_database_names ws"] exI [of _ "[]"]) simp
next
  case False
  let ?items = "zip (ws_object_entries ws) (zip (ws_object_keys ws)
    (map (\<lambda>e. database_name ws (oe_db_id e)) (ws_object_entries ws)))"
  have fresh: "names_wf [[]]" "set [[]] \<subseteq> set (ws_database_names ws)"
    using names_wf_Nil [OF names(1)] by (auto simp: names_wf_def)
  have "\<forall>(obj, key, db) \<in> set ?items. arena_get arena key = Some key \<and> arena_get arena db = Some db
      \<and> db \<in> set (ws_database_names ws)"
  proof clarify
    fix obj key db assume "(obj, key, db) \<in> set ?items"
    from set_zip_rightD [OF this] have "key \<in> set (ws_object_keys ws)"
      "db \<in> (\<lambda>e. database_name ws (oe_db_id e)) ` set (ws_object_entries ws)"
      by (auto dest: set_zip_leftD set_zip_rightD)
    with known database_name_in [OF names(1)]
    show "arena_get arena key = Some key \<and> arena_get arena db = Some db \<and> db \<in> set (ws_database_names ws)"
      by auto
  qed
  from apply_entries_loop_ok [OF names this, of "ws\<lparr>ws_database_names := [[]]\<rparr>"] fresh obtain ns objs where
    "apply_entries_loop arena (ws\<lparr>ws_database_names := [[]]\<rparr>) ?items = Some (ws\<lparr>ws_database_names := ns\<rparr>, objs)"
    "list_all2 (entry_interned arena ns) ?items objs"
    by auto
  with False entry_keys_ready [OF keys(1)] show ?thesis
    by (intro exI [of _ ns] exI [of _ objs]) (simp add: apply_object_entries_def Let_def)
qed

subsection \<open>Scripts, transitions and schemas\<close>

text \<open>A script row after interning, against the key and the absolute path it came with.\<close>

definition row_interned :: "string_arena \<Rightarrow> script_row \<Rightarrow> string \<Rightarrow> string \<Rightarrow> script_row \<Rightarrow> bool" where
  "row_interned arena row key apath row' \<longleftrightarrow>
     str_at arena (sr_path_off row') = Some key \<and> str_at arena (sr_abs_path_off row') = Some apath
     \<and> (key \<noteq> [] \<longrightarrow> snd (sr_path_off row') \<noteq> 0) \<and> (apath \<noteq> [] \<longrightarrow> snd (sr_abs_path_off row') \<noteq> 0)
     \<and> sr_kind row' = sr_kind row"

lemma apply_scripts_ok:
  assumes wf: "scripts_wf ws"
    and known: "\<forall>k \<in> set (ws_ingest_script_keys ws) \<union> set (ws_ingest_script_abs ws). arena_get arena k = Some k"
  shows "\<exists>rows. apply_scripts arena ws
      = Some (ws\<lparr>ws_script_rows := rows, ws_ingest_script_keys := [], ws_ingest_script_abs := []\<rparr>)
    \<and> length rows = length (ws_script_rows ws)
    \<and> (\<forall>i < length rows. row_interned arena (ws_script_rows ws ! i) (ws_ingest_script_keys ws ! i)
          (ws_ingest_script_abs ws ! i) (rows ! i))"
proof -
  let ?n = "length (ws_script_rows ws)"
  from wf have len: "length (ws_ingest_script_keys ws) = ?n" "length (ws_ingest_script_abs ws) = ?n"
    by (auto simp: scripts_wf_def)
  have row: "\<exists>row'. apply_script_row arena ws i = Some row' \<and> row_interned arena (ws_script_rows ws ! i)
      (ws_ingest_script_keys ws ! i) (ws_ingest_script_abs ws ! i) row'" if i: "i < ?n" for i
  proof -
    have "arena_get arena (ws_ingest_script_keys ws ! i) = Some (ws_ingest_script_keys ws ! i)"
      "arena_get arena (ws_ingest_script_abs ws ! i) = Some (ws_ingest_script_abs ws ! i)"
      using known len i by auto
    then obtain o1 o2 where "offset_len arena (ws_ingest_script_keys ws ! i) = Some o1"
      "str_at arena o1 = Some (ws_ingest_script_keys ws ! i)" "ws_ingest_script_keys ws ! i \<noteq> [] \<Longrightarrow> snd o1 \<noteq> 0"
      "offset_len arena (ws_ingest_script_abs ws ! i) = Some o2"
      "str_at arena o2 = Some (ws_ingest_script_abs ws ! i)" "ws_ingest_script_abs ws ! i \<noteq> [] \<Longrightarrow> snd o2 \<noteq> 0"
      by (meson arena_get_offset)
    then show ?thesis
      using len i by (simp add: apply_script_row_def nth_opt_def row_interned_def)
  qed
  then obtain f where f: "\<forall>i < ?n. apply_script_row arena ws i = Some (f i) \<and> row_interned arena (ws_script_rows ws ! i)
      (ws_ingest_script_keys ws ! i) (ws_ingest_script_abs ws ! i) (f i)" by metis
  then have those: "those (map (apply_script_row arena ws) [0..<?n]) = Some (map f [0..<?n])"
    by (simp add: those_eq_Some)
  have "apply_scripts arena ws = Some (ws\<lparr>ws_script_rows := map f [0..<?n], ws_ingest_script_keys := [],
      ws_ingest_script_abs := []\<rparr>)"
  proof (cases "ws_script_rows ws = []")
    case True
    with len have "ws = ws\<lparr>ws_script_rows := [], ws_ingest_script_keys := [], ws_ingest_script_abs := []\<rparr>"
      by simp
    then show ?thesis unfolding apply_scripts_def using True by simp
  next
    case False
    then show ?thesis by (simp add: apply_scripts_def those)
  qed
  with f show ?thesis by (intro exI [of _ "map f [0..<?n]"]) simp
qed

text \<open>The text of an ordinal once the arena is in place.\<close>

definition ord_text :: "string_arena \<Rightarrow> transition_entry \<Rightarrow> string option" where
  "ord_text arena e = (case te_staging_ord e of Some s \<Rightarrow> Some s | None \<Rightarrow> str_at arena (te_ord_off e))"

lemma apply_transition_ok:
  assumes "\<forall>s \<in> set_option (te_staging_ord e). arena_get arena s = Some s"
  shows "\<exists>e'. apply_transition arena e = Some e' \<and> ord_text arena e' = ord_text arena e
    \<and> te_script_id e' = te_script_id e \<and> te_staging_ord e' = None"
proof (cases "te_staging_ord e")
  case None
  then show ?thesis by (simp add: apply_transition_def)
next
  case (Some s)
  with assms obtain off where "offset_len arena s = Some off" "str_at arena off = Some s"
    by (metis arena_get_offset option.set_intros)
  with Some show ?thesis by (simp add: apply_transition_def ord_text_def)
qed

lemma those_map_total:
  assumes "\<forall>x \<in> set xs. \<exists>y. f x = Some y \<and> P x y"
  shows "\<exists>ys. those (map f xs) = Some ys \<and> list_all2 P xs ys"
  using assms by (induction xs) auto

definition transitions_kept ::
  "string_arena \<Rightarrow> (nat \<times> transition_entry list) list \<Rightarrow> (nat \<times> transition_entry list) list \<Rightarrow> bool" where
  "transitions_kept arena = list_all2 (\<lambda>(r, es) (r', es').
     r = r' \<and> list_all2 (\<lambda>e e'. ord_text arena e' = ord_text arena e \<and> te_script_id e' = te_script_id e
       \<and> te_staging_ord e' = None) es es')"

lemma apply_interned_transitions_ok:
  assumes "\<forall>s \<in> set (transition_strings ws). arena_get arena s = Some s"
  shows "\<exists>trs. apply_interned_transitions arena ws = Some (ws\<lparr>ws_transitions_by_row := trs\<rparr>)
    \<and> transitions_kept arena (ws_transitions_by_row ws) trs"
proof -
  have "\<forall>x \<in> set (ws_transitions_by_row ws).
      \<exists>y. (\<lambda>(row_id, es). map_option (Pair row_id) (those (map (apply_transition arena) es))) x = Some y
      \<and> (\<lambda>(r, es) (r', es'). r = r' \<and> list_all2 (\<lambda>e e'. ord_text arena e' = ord_text arena e
           \<and> te_script_id e' = te_script_id e \<and> te_staging_ord e' = None) es es') x y"
  proof
    fix x assume x: "x \<in> set (ws_transitions_by_row ws)"
    obtain r es where p: "x = (r, es)" by (cases x)
    have "\<forall>e \<in> set es. \<exists>e'. apply_transition arena e = Some e' \<and> (ord_text arena e' = ord_text arena e
        \<and> te_script_id e' = te_script_id e \<and> te_staging_ord e' = None)"
    proof
      fix e assume "e \<in> set es"
      with x p assms have "\<forall>s \<in> set_option (te_staging_ord e). arena_get arena s = Some s"
        by (fastforce simp: transition_strings_def opt_list_def)
      from apply_transition_ok [OF this] show "\<exists>e'. apply_transition arena e = Some e'
        \<and> (ord_text arena e' = ord_text arena e \<and> te_script_id e' = te_script_id e \<and> te_staging_ord e' = None)" .
    qed
    from those_map_total [OF this] obtain es' where
      "those (map (apply_transition arena) es) = Some es'"
      "list_all2 (\<lambda>e e'. ord_text arena e' = ord_text arena e \<and> te_script_id e' = te_script_id e
         \<and> te_staging_ord e' = None) es es'" by blast
    with p show "\<exists>y. (\<lambda>(row_id, es). map_option (Pair row_id) (those (map (apply_transition arena) es))) x = Some y
      \<and> (\<lambda>(r, es) (r', es'). r = r' \<and> list_all2 (\<lambda>e e'. ord_text arena e' = ord_text arena e
           \<and> te_script_id e' = te_script_id e \<and> te_staging_ord e' = None) es es') x y" by simp
  qed
  from those_map_total [OF this] show ?thesis
    by (auto simp: apply_interned_transitions_def transitions_kept_def)
qed

lemma apply_schemas_ok:
  assumes "\<forall>s \<in> set (schema_strings ws). arena_get arena s = Some s"
  shows "apply_schemas arena ws = Some ws"
proof -
  have "those (map (\<lambda>s. do {
               d \<leftarrow> arena_get arena (se_database s);
               n \<leftarrow> arena_get arena (se_name s);
               z \<leftarrow> arena_get arena (se_normalized s);
               Some (s\<lparr>se_database := d, se_name := n, se_normalized := z\<rparr>) }) (ws_schemas ws))
      = Some (ws_schemas ws)"
    unfolding those_eq_Some using assms by (auto simp: schema_strings_def)
  then show ?thesis by (simp add: apply_schemas_def)
qed

lemma apply_git_loop_ok:
  assumes "\<forall>(sid, st) \<in> set staging. \<forall>s \<in> set (opt_list (st_hash st) @ opt_list (st_author st) @ opt_list (st_date st)).
      arena_get arena s = Some s"
  shows "\<exists>m'. apply_git_loop arena m staging = Some m'"
  using assms
proof (induction staging arbitrary: m)
  case (Cons x staging)
  obtain sid st where x: "x = (sid, st)" by (cases x)
  have off: "\<exists>off. git_offset arena s old = Some off"
    if "\<forall>t \<in> set (opt_list s). arena_get arena t = Some t" for s old
    using that by (cases s) (auto simp: git_offset_def opt_list_def elim: arena_get_offset)
  from Cons.prems x have "\<forall>t \<in> set (opt_list (st_hash st)). arena_get arena t = Some t"
    "\<forall>t \<in> set (opt_list (st_author st)). arena_get arena t = Some t"
    "\<forall>t \<in> set (opt_list (st_date st)). arena_get arena t = Some t" by auto
  then obtain h a d where "git_offset arena (st_hash st) (sg_hash_off (case m sid of Some g \<Rightarrow> g | None \<Rightarrow> script_git_default)) = Some h"
    "git_offset arena (st_author st) (sg_author_off (case m sid of Some g \<Rightarrow> g | None \<Rightarrow> script_git_default)) = Some a"
    "git_offset arena (st_date st) (sg_date_off (case m sid of Some g \<Rightarrow> g | None \<Rightarrow> script_git_default)) = Some d"
    using off by metis
  with Cons x show ?case by (simp add: Let_def)
qed simp

subsection \<open>The whole pass\<close>

text \<open>A workspace as the scan leaves it: keys and scripts staged, no string interned.\<close>

definition staged_wf :: "workspace \<Rightarrow> bool" where
  "staged_wf ws \<longleftrightarrow>
     length (ws_object_keys ws) = object_count ws \<and> ws_ingest_keys ws = []
     \<and> names_wf (ws_database_names ws) \<and> length (ws_database_names ws) < 2 ^ 16
     \<and> scripts_wf ws \<and> length (ws_script_rows ws) < 2 ^ 32
     \<and> [] \<notin> set (ws_ingest_script_keys ws) \<and> [] \<notin> set (ws_ingest_script_abs ws)
     \<and> (\<forall>e \<in> set (ws_object_entries ws). 0 < oe_script_id e \<and> oe_script_id e \<le> length (ws_script_rows ws))
     \<and> (\<forall>(r, es) \<in> set (ws_transitions_by_row ws). \<forall>e \<in> set es. te_staging_ord e \<noteq> None)"

lemma staged_script_path:
  assumes "scripts_wf ws"
  shows "script_path ws sid = (if sid = 0 then None else nth_opt (ws_ingest_script_keys ws) (sid - 1))"
    and "script_abs_path ws sid = (if sid = 0 then None else nth_opt (ws_ingest_script_abs ws) (sid - 1))"
proof -
  have "sr_path_off (ws_script_rows ws ! i) = str_off_EMPTY \<and> sr_abs_path_off (ws_script_rows ws ! i) = str_off_EMPTY"
    if "i < length (ws_script_rows ws)" for i
    using assms that by (simp add: scripts_wf_def)
  with assms show "script_path ws sid = (if sid = 0 then None else nth_opt (ws_ingest_script_keys ws) (sid - 1))"
    and "script_abs_path ws sid = (if sid = 0 then None else nth_opt (ws_ingest_script_abs ws) (sid - 1))"
    by (auto simp: script_path_def script_abs_path_def nth_opt_def str_off_EMPTY_def scripts_wf_def)
qed

lemma as_u32_Suc: "i < n \<Longrightarrow> n < 2 ^ 32 \<Longrightarrow> as_u32 (i + 1) = Suc i"
  by simp

lemma registered_strings_staged:
  assumes wf: "staged_wf ws"
  shows "\<exists>ss. registered_strings ws = Some ss
    \<and> set (ws_object_keys ws) \<union> (\<lambda>e. database_name ws (oe_db_id e)) ` set (ws_object_entries ws)
      \<union> set (ws_ingest_script_keys ws) \<union> set (ws_ingest_script_abs ws) \<union> set (git_strings ws)
      \<union> set (transition_strings ws) \<union> set (schema_strings ws) \<subseteq> set ss"
proof -
  let ?objs = "ws_object_entries ws" and ?keys = "ws_object_keys ws" and ?n = "length (ws_script_rows ws)"
  have sw: "scripts_wf ws" and small: "?n < 2 ^ 32" and klen: "length ?keys = object_count ws"
    and len: "length (ws_ingest_script_keys ws) = ?n" "length (ws_ingest_script_abs ws) = ?n"
    using wf by (auto simp: staged_wf_def scripts_wf_def)
  have obj: "object_strings ws i = Some [?keys ! i, database_name ws (oe_db_id (?objs ! i)),
      ws_ingest_script_keys ws ! (oe_script_id (?objs ! i) - 1)]" if i: "i < object_count ws" for i
  proof -
    have "?objs ! i \<in> set ?objs" using i by (simp add: object_count_def)
    then have sid: "0 < oe_script_id (?objs ! i)" "oe_script_id (?objs ! i) \<le> ?n"
      using wf by (auto simp: staged_wf_def)
    then have "nth_opt (ws_ingest_script_keys ws) (oe_script_id (?objs ! i) - 1)
        = Some (ws_ingest_script_keys ws ! (oe_script_id (?objs ! i) - 1))"
      unfolding nth_opt_def using len by simp
    with i sid entry_key_ready [OF klen i] show ?thesis
      unfolding object_strings_def staged_script_path [OF sw] by (simp add: object_count_def nth_opt_def)
  qed
  have scr: "script_strings ws i = Some [ws_ingest_script_keys ws ! i, ws_ingest_script_abs ws ! i]" if "i < ?n" for i
    using that len small unfolding script_strings_def staged_script_path [OF sw] as_u32_Suc [OF that small]
    by (simp add: nth_opt_def)
  define os where "os = map (\<lambda>i. [?keys ! i, database_name ws (oe_db_id (?objs ! i)),
    ws_ingest_script_keys ws ! (oe_script_id (?objs ! i) - 1)]) [0..<object_count ws]"
  define scs where "scs = map (\<lambda>i. [ws_ingest_script_keys ws ! i, ws_ingest_script_abs ws ! i]) [0..<?n]"
  have reg: "registered_strings ws = Some (concat os @ concat scs @ git_strings ws @ transition_strings ws @ schema_strings ws)"
  proof -
    have "those (map (object_strings ws) [0..<object_count ws]) = Some os"
      "those (map (script_strings ws) [0..<?n]) = Some scs"
      unfolding those_eq_Some os_def scs_def using obj scr by auto
    then show ?thesis by (simp add: registered_strings_def)
  qed
  have "set ?keys \<union> (\<lambda>e. database_name ws (oe_db_id e)) ` set ?objs \<subseteq> set (concat os)"
    using klen by (fastforce simp: os_def in_set_conv_nth object_count_def)
  moreover have "set (ws_ingest_script_keys ws) \<union> set (ws_ingest_script_abs ws) \<subseteq> set (concat scs)"
    using len by (fastforce simp: scs_def in_set_conv_nth)
  ultimately show ?thesis using reg by auto
qed

text \<open>Every string of the workspace reads as before, through the accessors of \<open>Workspace\<close>.\<close>

definition texts_kept :: "workspace \<Rightarrow> workspace \<Rightarrow> bool" where
  "texts_kept ws ws' \<longleftrightarrow>
     ws_object_keys ws' = ws_object_keys ws
     \<and> length (ws_script_rows ws') = length (ws_script_rows ws)
     \<and> map (\<lambda>e. database_name ws' (oe_db_id e)) (ws_object_entries ws')
         = map (\<lambda>e. database_name ws (oe_db_id e)) (ws_object_entries ws)
     \<and> map oe_script_id (ws_object_entries ws') = map oe_script_id (ws_object_entries ws)
     \<and> map oe_checksum (ws_object_entries ws') = map oe_checksum (ws_object_entries ws)
     \<and> (\<forall>sid. script_path ws' sid = script_path ws sid \<and> script_abs_path ws' sid = script_abs_path ws sid)
     \<and> ws_schemas ws' = ws_schemas ws
     \<and> map (\<lambda>(r, es). (r, map (\<lambda>e. (transition_ord ws' e, te_script_id e)) es)) (ws_transitions_by_row ws')
         = map (\<lambda>(r, es). (r, map (\<lambda>e. (transition_ord ws e, te_script_id e)) es)) (ws_transitions_by_row ws)"

lemma interned_entries_texts:
  assumes "list_all2 (entry_interned arena ns) (zip objs (zip keys (map name objs))) objs'"
    and "length keys = length objs"
  shows "map (\<lambda>e. ns ! oe_db_id e) objs' = map name objs" and "map oe_script_id objs' = map oe_script_id objs"
    and "map oe_checksum objs' = map oe_checksum objs" and "\<forall>e \<in> set objs'. oe_db_id e < length ns"
    and "map (\<lambda>e. str_at arena (oe_key_off e)) objs' = map Some keys"
proof -
  have len: "length objs' = length objs" using list_all2_lengthD [OF assms(1)] assms(2) by simp
  have at: "entry_interned arena ns (objs ! i, keys ! i, name (objs ! i)) (objs' ! i)" if "i < length objs" for i
    using list_all2_nthD [OF assms(1), of i] that assms(2) by simp
  then show "map (\<lambda>e. ns ! oe_db_id e) objs' = map name objs" "map oe_script_id objs' = map oe_script_id objs"
    "map oe_checksum objs' = map oe_checksum objs" "map (\<lambda>e. str_at arena (oe_key_off e)) objs' = map Some keys"
    using len assms(2) by (auto intro!: nth_equalityI)
  show "\<forall>e \<in> set objs'. oe_db_id e < length ns" using at len by (auto simp: in_set_conv_nth)
qed

lemma kept_transitions_texts:
  assumes "transitions_kept arena trs trs'" and "\<forall>(r, es) \<in> set trs. \<forall>e \<in> set es. te_staging_ord e \<noteq> None"
    and "ws_layout_arena ws' = Some arena"
  shows "map (\<lambda>(r, es). (r, map (\<lambda>e. (transition_ord ws' e, te_script_id e)) es)) trs'
    = map (\<lambda>(r, es). (r, map (\<lambda>e. (transition_ord ws e, te_script_id e)) es)) trs"
  using assms(1) [unfolded transitions_kept_def] assms(2)
proof (induction trs trs' rule: list_all2_induct)
  case (Cons x xs y ys)
  obtain r es es' where xy: "x = (r, es)" "y = (r, es')" and all: "list_all2 (\<lambda>e e'. ord_text arena e' = ord_text arena e
      \<and> te_script_id e' = te_script_id e \<and> te_staging_ord e' = None) es es'"
    using Cons.hyps(1) by (cases x; cases y) auto
  have "\<forall>e \<in> set es. te_staging_ord e \<noteq> None" using Cons.prems xy by auto
  with all have "map (\<lambda>e. (transition_ord ws' e, te_script_id e)) es' = map (\<lambda>e. (transition_ord ws e, te_script_id e)) es"
  proof (induction es es' rule: list_all2_induct)
    case (Cons e es e' es')
    then have "ord_text arena e' = transition_ord ws e" "transition_ord ws' e' = ord_text arena e'"
      using assms(3) by (auto simp: ord_text_def transition_ord_def ws_str_at_def)
    with Cons show ?case by simp
  qed simp
  with Cons xy show ?case by simp
qed simp

lemma interned_script_paths:
  assumes "length rows = n" "length keys = n" "length abss = n"
    and "\<forall>i < n. row_interned arena (old ! i) (keys ! i) (abss ! i) (rows ! i)" and "[] \<notin> set keys" "[] \<notin> set abss"
    and "ws_script_rows ws' = rows" "ws_layout_arena ws' = Some arena"
  shows "script_path ws' sid = (if sid = 0 then None else nth_opt keys (sid - 1))"
    and "script_abs_path ws' sid = (if sid = 0 then None else nth_opt abss (sid - 1))"
proof -
  have "keys ! i \<noteq> []" "abss ! i \<noteq> []" if "i < n" for i
    using assms(2,3,5,6) that by (metis nth_mem)+
  with assms show "script_path ws' sid = (if sid = 0 then None else nth_opt keys (sid - 1))"
    and "script_abs_path ws' sid = (if sid = 0 then None else nth_opt abss (sid - 1))"
    by (auto simp: script_path_def script_abs_path_def nth_opt_def row_interned_def ws_str_at_def)
qed

definition workspace_strings :: "workspace \<Rightarrow> string set" where
  "workspace_strings ws =
     set (ws_object_keys ws) \<union> (\<lambda>e. database_name ws (oe_db_id e)) ` set (ws_object_entries ws)
     \<union> set (ws_ingest_script_keys ws) \<union> set (ws_ingest_script_abs ws) \<union> set (git_strings ws)
     \<union> set (transition_strings ws) \<union> set (schema_strings ws)"

lemma apply_workspace_strings_ok:
  assumes wf: "staged_wf ws" and known: "\<forall>s \<in> workspace_strings ws. arena_get arena s = Some s"
  shows "\<exists>ns objs rows trs. apply_workspace_strings arena ws = Some (invalidate_transition_paths
      (ws\<lparr>ws_database_names := ns, ws_object_entries := objs, ws_ingest_keys := [], ws_script_rows := rows,
          ws_ingest_script_keys := [], ws_ingest_script_abs := [], ws_transitions_by_row := trs\<rparr>))
    \<and> list_all2 (entry_interned arena ns) (zip (ws_object_entries ws) (zip (ws_object_keys ws)
        (map (\<lambda>e. database_name ws (oe_db_id e)) (ws_object_entries ws)))) objs
    \<and> length rows = length (ws_script_rows ws)
    \<and> (\<forall>i < length rows. row_interned arena (ws_script_rows ws ! i) (ws_ingest_script_keys ws ! i)
          (ws_ingest_script_abs ws ! i) (rows ! i))
    \<and> transitions_kept arena (ws_transitions_by_row ws) trs"
proof -
  from wf have st: "names_wf (ws_database_names ws)" "length (ws_database_names ws) < 2 ^ 16"
    "length (ws_object_keys ws) = object_count ws" "ws_ingest_keys ws = []" "scripts_wf ws"
    by (auto simp: staged_wf_def)
  obtain ns objs where A: "apply_object_entries arena ws
      = Some (ws\<lparr>ws_database_names := ns, ws_object_entries := objs, ws_ingest_keys := []\<rparr>)"
    and Ae: "list_all2 (entry_interned arena ns) (zip (ws_object_entries ws) (zip (ws_object_keys ws)
        (map (\<lambda>e. database_name ws (oe_db_id e)) (ws_object_entries ws)))) objs"
    using apply_object_entries_ok [OF st(1-4), of arena] known by (auto simp: workspace_strings_def)
  let ?w1 = "ws\<lparr>ws_database_names := ns, ws_object_entries := objs, ws_ingest_keys := []\<rparr>"
  have "scripts_wf ?w1" using st(5) by (simp add: scripts_wf_def)
  from apply_scripts_ok [OF this, of arena] known obtain rows where
    B: "apply_scripts arena ?w1 = Some (?w1\<lparr>ws_script_rows := rows, ws_ingest_script_keys := [], ws_ingest_script_abs := []\<rparr>)"
    and Be: "length rows = length (ws_script_rows ws)" "\<forall>i < length rows. row_interned arena (ws_script_rows ws ! i)
      (ws_ingest_script_keys ws ! i) (ws_ingest_script_abs ws ! i) (rows ! i)"
    by (auto simp: workspace_strings_def)
  let ?w2 = "?w1\<lparr>ws_script_rows := rows, ws_ingest_script_keys := [], ws_ingest_script_abs := []\<rparr>"
  have "transition_strings ?w2 = transition_strings ws" by (simp add: transition_strings_def)
  with apply_interned_transitions_ok [of ?w2 arena] known obtain trs where
    C: "apply_interned_transitions arena ?w2 = Some (?w2\<lparr>ws_transitions_by_row := trs\<rparr>)"
    and Ce: "transitions_kept arena (ws_transitions_by_row ws) trs"
    by (auto simp: workspace_strings_def)
  have "schema_strings (invalidate_transition_paths (?w2\<lparr>ws_transitions_by_row := trs\<rparr>)) = schema_strings ws"
    by (simp add: schema_strings_def invalidate_transition_paths_def)
  then have D: "apply_schemas arena (invalidate_transition_paths (?w2\<lparr>ws_transitions_by_row := trs\<rparr>))
      = Some (invalidate_transition_paths (?w2\<lparr>ws_transitions_by_row := trs\<rparr>))"
    using known by (intro apply_schemas_ok) (simp add: workspace_strings_def)
  have "apply_workspace_strings arena ws = Some (invalidate_transition_paths (?w2\<lparr>ws_transitions_by_row := trs\<rparr>))"
    unfolding apply_workspace_strings_def by (simp add: A B C D)
  with Ae Be Ce show ?thesis
    by (intro exI [of _ ns] exI [of _ objs] exI [of _ rows] exI [of _ trs]) simp
qed

text \<open>A workspace with the interned entries, rows and transitions and the arena keeps every text.\<close>

lemma interned_texts_kept:
  assumes wf: "staged_wf ws"
    and objs: "list_all2 (entry_interned arena (ws_database_names v)) (zip (ws_object_entries ws) (zip (ws_object_keys ws)
        (map (\<lambda>e. database_name ws (oe_db_id e)) (ws_object_entries ws)))) (ws_object_entries v)"
    and rows: "length (ws_script_rows v) = length (ws_script_rows ws)"
      "\<forall>i < length (ws_script_rows ws). row_interned arena (ws_script_rows ws ! i) (ws_ingest_script_keys ws ! i)
          (ws_ingest_script_abs ws ! i) (ws_script_rows v ! i)"
    and trs: "transitions_kept arena (ws_transitions_by_row ws) (ws_transitions_by_row v)"
    and v: "ws_layout_arena v = Some arena" "ws_schemas v = ws_schemas ws" "ws_object_keys v = ws_object_keys ws"
  shows "texts_kept ws v" and "map (\<lambda>e. str_at arena (oe_key_off e)) (ws_object_entries v) = map Some (ws_object_keys ws)"
proof -
  from wf have st: "length (ws_object_keys ws) = length (ws_object_entries ws)" "scripts_wf ws"
    "[] \<notin> set (ws_ingest_script_keys ws)" "[] \<notin> set (ws_ingest_script_abs ws)"
    and len: "length (ws_ingest_script_keys ws) = length (ws_script_rows ws)" "length (ws_ingest_script_abs ws) = length (ws_script_rows ws)"
    and staged: "\<forall>(r, es) \<in> set (ws_transitions_by_row ws). \<forall>e \<in> set es. te_staging_ord e \<noteq> None"
    by (auto simp: staged_wf_def object_count_def scripts_wf_def)
  note E = interned_entries_texts [OF objs st(1)]
  have "script_path v sid = script_path ws sid" "script_abs_path v sid = script_abs_path ws sid" for sid
    using interned_script_paths [OF rows(1) len rows(2) st(3,4) refl v(1)] staged_script_path [OF st(2)] by simp_all
  moreover have "map (\<lambda>e. database_name v (oe_db_id e)) (ws_object_entries v)
      = map (\<lambda>e. database_name ws (oe_db_id e)) (ws_object_entries ws)"
    unfolding E(1) [symmetric] using E(4) by (auto simp: database_name_def nth_opt_def)
  ultimately show "texts_kept ws v"
    using E(2,3) kept_transitions_texts [OF trs staged v(1), of ws] by (simp add: texts_kept_def v rows(1))
  show "map (\<lambda>e. str_at arena (oe_key_off e)) (ws_object_entries v) = map Some (ws_object_keys ws)" by (rule E(5))
qed

lemma install_layout_arena_ok:
  assumes wf: "staged_wf ws" and known: "\<forall>s \<in> workspace_strings ws. arena_get arena s = Some s"
  shows "\<exists>ws'. install_layout_arena fp ws arena = Some ws' \<and> texts_kept ws ws' \<and> ws_layout_arena ws' = Some arena
    \<and> ws_script_git_staging ws' = []"
proof -
  from apply_workspace_strings_ok [OF assms] obtain ns objs rows trs where
    ap: "apply_workspace_strings arena ws = Some (invalidate_transition_paths
      (ws\<lparr>ws_database_names := ns, ws_object_entries := objs, ws_ingest_keys := [], ws_script_rows := rows,
          ws_ingest_script_keys := [], ws_ingest_script_abs := [], ws_transitions_by_row := trs\<rparr>))"
    and I: "list_all2 (entry_interned arena ns) (zip (ws_object_entries ws) (zip (ws_object_keys ws)
        (map (\<lambda>e. database_name ws (oe_db_id e)) (ws_object_entries ws)))) objs" "length rows = length (ws_script_rows ws)"
      "\<forall>i < length (ws_script_rows ws). row_interned arena (ws_script_rows ws ! i) (ws_ingest_script_keys ws ! i)
          (ws_ingest_script_abs ws ! i) (rows ! i)" "transitions_kept arena (ws_transitions_by_row ws) trs" by auto
  define w where "w = (invalidate_transition_paths
      (ws\<lparr>ws_database_names := ns, ws_object_entries := objs, ws_ingest_keys := [], ws_script_rows := rows,
          ws_ingest_script_keys := [], ws_ingest_script_abs := [], ws_transitions_by_row := trs\<rparr>))\<lparr>ws_layout_arena := Some arena\<rparr>"
  have w: "ws_script_rows w = rows" "ws_layout_arena w = Some arena" "ws_object_entries w = objs" "ws_database_names w = ns"
    "ws_transitions_by_row w = trs" "ws_schemas w = ws_schemas ws" "ws_script_git_staging w = ws_script_git_staging ws"
    "ws_script_git w = ws_script_git ws" "ws_object_keys w = ws_object_keys ws"
    by (simp_all add: w_def invalidate_transition_paths_def)
  note K = interned_texts_kept [OF wf, where arena = arena]
  have kw: "texts_kept ws w" "map (\<lambda>e. str_at arena (oe_key_off e)) objs = map Some (ws_object_keys ws)"
    using K [of w] I by (simp_all add: w)
  have sw: "scripts_wf ws" "length (ws_script_rows ws) < 2 ^ 32" using wf by (simp_all add: staged_wf_def)
  have "those (map (\<lambda>i. script_path w (as_u32 (i + 1))) [0..<length (ws_script_rows w)]) = Some (ws_ingest_script_keys ws)"
    unfolding those_eq_Some using kw(1) sw
    by (auto intro!: nth_equalityI simp: texts_kept_def staged_script_path(1) [OF sw(1)] nth_opt_def scripts_wf_def)
  then have idx: "rebuild_script_key_index w
      = Some (w\<lparr>ws_script_key_index := index_rows (\<lambda>k. k) 0 (ws_ingest_script_keys ws) Map.empty\<rparr>)"
    by (simp add: rebuild_script_key_index_def)
  let ?w2 = "w\<lparr>ws_script_key_index := index_rows (\<lambda>k. k) 0 (ws_ingest_script_keys ws) Map.empty\<rparr>"
  have "those (map (\<lambda>obj. ws_str_at ?w2 (oe_key_off obj)) (ws_object_entries ?w2)) = Some (ws_object_keys ws)"
    unfolding those_eq_Some using kw(2) w by (simp add: ws_str_at_def)
  then have inst: "install_layout_arena fp ws arena
      = apply_script_git_offs (rebuild_fp_index fp (?w2\<lparr>ws_object_keys := ws_object_keys ws\<rparr>))"
    unfolding install_layout_arena_def ap using idx by (simp add: w_def [symmetric])
  obtain m where m: "apply_git_loop arena (ws_script_git ws) (ws_script_git_staging ws) = Some m"
    using apply_git_loop_ok [of "ws_script_git_staging ws" arena "ws_script_git ws"] known
    by (fastforce simp: workspace_strings_def git_strings_def)
  define v where "v = (rebuild_fp_index fp (?w2\<lparr>ws_object_keys := ws_object_keys ws\<rparr>))
    \<lparr>ws_script_git := m, ws_script_git_staging := []\<rparr>"
  have "install_layout_arena fp ws arena = Some v"
    unfolding inst by (simp add: apply_script_git_offs_def rebuild_fp_index_def w m v_def)
  moreover have "texts_kept ws v" using K [of v] I by (simp add: v_def rebuild_fp_index_def w)
  moreover have "ws_layout_arena v = Some arena" "ws_script_git_staging v = []" by (simp_all add: v_def rebuild_fp_index_def w)
  ultimately show ?thesis by blast
qed

text \<open>The theorem on \<open>intern_workspace_strings\<close>: the arena is built from the workspace itself.\<close>

lemma intern_workspace_ok:
  assumes wf: "staged_wf ws" and reg: "registered_strings ws = Some ss"
    and size: "sum_list (map length ss) < 2 ^ 32" and utf: "\<forall>s \<in> set ss. is_utf8 s"
  shows "\<exists>ws' arena. intern_workspace_strings fp ws = Some ws' \<and> texts_kept ws ws' \<and> ws_layout_arena ws' = Some arena
    \<and> ws_script_git_staging ws' = [] \<and> (\<forall>s \<in> workspace_strings ws. arena_get arena s = Some s)"
proof -
  have "workspace_strings ws \<subseteq> set ss"
    using registered_strings_staged [OF wf] reg by (simp add: workspace_strings_def)
  then have known: "\<forall>s \<in> workspace_strings ws. arena_get (finish_builder (foldl register builder_with_capacity ss)) s = Some s"
    using registered_strings_known [OF size] utf by blast
  from install_layout_arena_ok [OF wf known, of fp] obtain ws' where
    "install_layout_arena fp ws (finish_builder (foldl register builder_with_capacity ss)) = Some ws'" "texts_kept ws ws'"
    "ws_layout_arena ws' = Some (finish_builder (foldl register builder_with_capacity ss))" "ws_script_git_staging ws' = []"
    by auto
  with known show ?thesis
    by (intro exI [of _ ws'] exI [of _ "finish_builder (foldl register builder_with_capacity ss)"])
      (simp add: intern_workspace_strings_def register_workspace_strings_def reg)
qed

end
