(* ===== verification/Configuration.thy ===== *)
theory Configuration
  imports Scan
begin

section \<open>Configuration\<close>

text \<open>
  \<open>crates/core/src/config\<close>: the run parameters, typed TOML, process environment overrides,
  validation, and the discovery of catalog databases. The process environment is a function from
  names to values (\<open>getenv\<close>), the parsed TOML document a record, the SQL root a directory tree
  as in \<open>Scan\<close>. Durations are milliseconds; the floating-point form \<open>1.5s\<close> of a duration
  is read by the parameter \<open>secs_f64\<close>. Parsing the TOML text belongs to the \<open>toml\<close> crate.
\<close>

record config_cold =
  cfg_server :: string
  cfg_port :: string
  cfg_db_auth :: string
  cfg_user :: string
  cfg_password :: string
  cfg_session_socket :: string
  cfg_session_token :: string
  cfg_l1_cache_dir :: string
  cfg_command_timeout :: nat
  cfg_lock_timeout :: nat
  cfg_encrypt :: bool
  cfg_trust_server_certificate :: bool

record config = config_cold +
  cfg_sql_root :: string
  cfg_sql_base :: string
  cfg_report_dir :: string
  cfg_log_level :: string
  cfg_database :: string
  cfg_slo_max_cli_wall_ms :: int
  cfg_report_sync :: bool
  cfg_skip_git :: bool
  cfg_inspect_full :: bool
  cfg_catalog_cache :: bool
  cfg_allow_adopt :: bool

definition config_default :: config where
  "config_default =
     \<lparr>cfg_server = [], cfg_port = ''1433'', cfg_db_auth = ''sql'', cfg_user = [], cfg_password = [],
      cfg_session_socket = [], cfg_session_token = [], cfg_l1_cache_dir = ''.rmig/cache'',
      cfg_command_timeout = 30000, cfg_lock_timeout = 60000, cfg_encrypt = True,
      cfg_trust_server_certificate = False,
      cfg_sql_root = [], cfg_sql_base = [], cfg_report_dir = [], cfg_log_level = ''info'',
      cfg_database = [], cfg_slo_max_cli_wall_ms = 150, cfg_report_sync = False, cfg_skip_git = False,
      cfg_inspect_full = False, cfg_catalog_cache = True, cfg_allow_adopt = False\<rparr>"

subsection \<open>Typed TOML\<close>

record toml_config =
  tc_server :: "string option"
  tc_port :: "nat option"
  tc_auth :: "string option"
  tc_encrypt :: "bool option"
  tc_trust_server_certificate :: "bool option"
  tc_sql_root :: "string option"
  tc_sql_base :: "string option"
  tc_report_dir :: "string option"
  tc_l1_cache_dir :: "string option"
  tc_log_level :: "string option"
  tc_report_sync :: "bool option"
  tc_skip_git :: "bool option"
  tc_inspect_full :: "bool option"
  tc_catalog_cache :: "bool option"
  tc_allow_adopt :: "bool option"
  tc_command_timeout :: "string option"
  tc_lock_timeout :: "string option"
  tc_slo_max_cli_wall_ms :: "int option"
  tc_socket :: "string option"

text \<open>
  \<open>reject_secrets\<close> on the untyped document: \<open>doc section\<close> lists the keys of a section that is a
  table.
\<close>

fun first_secret :: "(string \<Rightarrow> string list option) \<Rightarrow> (string \<times> string) list \<Rightarrow> (string \<times> string) option" where
  "first_secret doc [] = None"
| "first_secret doc ((section, key) # rest) =
     (if (case doc section of Some keys \<Rightarrow> key \<in> set keys | None \<Rightarrow> False) then Some (section, key)
      else first_secret doc rest)"

definition reject_secrets :: "(string \<Rightarrow> string list option) \<Rightarrow> unit result" where
  "reject_secrets doc =
     (case first_secret doc [(''database'', ''user''), (''database'', ''password''), (''session'', ''token'')] of
        None \<Rightarrow> Inr ()
      | Some (section, key) \<Rightarrow>
          Inl (Config (section @ ''.'' @ key @ '' is not allowed in TOML; set ''
            @ (if key = ''user'' then ''RM_DB_USER'' else if key = ''password'' then ''RM_DB_PASSWORD''
               else ''RMIG_SESSION_TOKEN'')
            @ '' in the process environment'')))"

subsection \<open>Environment values\<close>

definition parse_bool :: "string \<Rightarrow> bool" where
  "parse_bool s =
     (let value = trim s in
      value = ''1'' \<or> list_ex (\<lambda>e. eq_ignore_ascii_case value e) [''true'', ''yes'', ''on'', ''y'', ''enabled''])"

definition recognized_bool :: "string \<Rightarrow> bool" where
  "recognized_bool s =
     (let value = trim s in
      parse_bool value \<or> value = ''0''
      \<or> list_ex (\<lambda>e. eq_ignore_ascii_case value e) [''false'', ''no'', ''off'', ''n'', ''disabled''])"

definition validate_boolean_value :: "string \<Rightarrow> string \<Rightarrow> unit result" where
  "validate_boolean_value name value =
     (if recognized_bool value then Inr ()
      else Inl (Config (name @ '' has invalid boolean value '' @ debug_str value @ ''; use true or false'')))"

definition BOOL_NAMES :: "string list" where
  "BOOL_NAMES = [''RM_REPORT_SYNC'', ''RM_SKIP_GIT'', ''RMIG_INSPECT_FULL'', ''RMIG_CATALOG_CACHE'',
     ''RMIG_ALLOW_ADOPT'', ''RM_DB_ENCRYPT'', ''RM_DB_TRUST_SERVER_CERTIFICATE'']"

text \<open>\<open>getenv_os\<close> is \<open>std::env::var_os\<close>; \<open>getenv\<close> is \<open>std::env::var\<close>, absent when not UTF-8.\<close>

fun validate_boolean_loop :: "(string \<Rightarrow> bytes option) \<Rightarrow> string list \<Rightarrow> unit result" where
  "validate_boolean_loop getenv_os [] = Inr ()"
| "validate_boolean_loop getenv_os (name # names) =
     (case getenv_os name of
        None \<Rightarrow> validate_boolean_loop getenv_os names
      | Some raw \<Rightarrow>
          if \<not> is_utf8 raw then Inl (Config (name @ '' must be a UTF-8 boolean value''))
          else bind_result (validate_boolean_value name raw) (\<lambda>_. validate_boolean_loop getenv_os names))"

definition validate_boolean_envs :: "(string \<Rightarrow> bytes option) \<Rightarrow> unit result" where
  "validate_boolean_envs getenv_os = validate_boolean_loop getenv_os BOOL_NAMES"

definition env_var :: "(string \<Rightarrow> bytes option) \<Rightarrow> string \<Rightarrow> string option" where
  "env_var getenv_os name = (case getenv_os name of Some raw \<Rightarrow> if is_utf8 raw then Some raw else None | None \<Rightarrow> None)"

text \<open>\<open>str::parse\<close> to an unsigned integer below a bound: an optional plus sign and digits.\<close>

definition parse_unsigned :: "nat \<Rightarrow> string \<Rightarrow> nat option" where
  "parse_unsigned bound s =
     (let ds = (case s of c # cs \<Rightarrow> if c = CHR ''+'' then cs else s | [] \<Rightarrow> [])
      in if ds \<noteq> [] \<and> (\<forall>c \<in> set ds. is_ascii_digit c) \<and> decimal_value ds < bound
         then Some (decimal_value ds) else None)"

definition parse_i64 :: "string \<Rightarrow> int option" where
  "parse_i64 s =
     (let neg = (case s of c # _ \<Rightarrow> c = CHR ''-'' | [] \<Rightarrow> False);
          ds = (case s of c # cs \<Rightarrow> if c = CHR ''-'' \<or> c = CHR ''+'' then cs else s | [] \<Rightarrow> []);
          v = (if neg then - int (decimal_value ds) else int (decimal_value ds))
      in if ds \<noteq> [] \<and> (\<forall>c \<in> set ds. is_ascii_digit c) \<and> - (2 ^ 63) \<le> v \<and> v < 2 ^ 63
         then Some v else None)"

definition parse_duration :: "(string \<Rightarrow> nat option) \<Rightarrow> string \<Rightarrow> nat result" where
  "parse_duration secs_f64 s =
     (if s = [] then Inl (Config ''empty duration'')
      else case parse_unsigned (2 ^ 64) s of
        Some secs \<Rightarrow> Inr (1000 * secs)
      | None \<Rightarrow>
          (let t = trim s in
           if ends_with t ''s'' then
             (case secs_f64 (butlast t) of Some d \<Rightarrow> Inr d | None \<Rightarrow> Inl (Config t))
           else Inl (Config (''invalid duration: '' @ t))))"

definition set_timeout :: "(string \<Rightarrow> nat option) \<Rightarrow> string \<Rightarrow> nat \<Rightarrow> nat" where
  "set_timeout secs_f64 raw slot = (case parse_duration secs_f64 raw of Inr d \<Rightarrow> d | Inl e \<Rightarrow> slot)"

definition bool_to_string :: "bool \<Rightarrow> string" where
  "bool_to_string b = (if b then ''true'' else ''false'')"

definition or_else :: "'a option \<Rightarrow> 'a option \<Rightarrow> 'a option" where
  "or_else a b = (case a of Some x \<Rightarrow> Some x | None \<Rightarrow> b)"

definition env_or :: "(string \<Rightarrow> string option) \<Rightarrow> string \<Rightarrow> string option \<Rightarrow> string \<Rightarrow> string" where
  "env_or getenv name file d = (case or_else (getenv name) file of Some v \<Rightarrow> v | None \<Rightarrow> d)"

definition env_bool :: "(string \<Rightarrow> string option) \<Rightarrow> string \<Rightarrow> bool option \<Rightarrow> bool \<Rightarrow> bool" where
  "env_bool getenv name file d =
     (case or_else (getenv name) (map_option bool_to_string file) of Some v \<Rightarrow> parse_bool v | None \<Rightarrow> d)"

definition apply_tls :: "(string \<Rightarrow> string option) \<Rightarrow> toml_config \<Rightarrow> config \<Rightarrow> config" where
  "apply_tls getenv tc cfg =
     cfg\<lparr>cfg_encrypt := env_bool getenv ''RM_DB_ENCRYPT'' (tc_encrypt tc) (cfg_encrypt cfg),
         cfg_trust_server_certificate :=
           env_bool getenv ''RM_DB_TRUST_SERVER_CERTIFICATE'' (tc_trust_server_certificate tc)
             (cfg_trust_server_certificate cfg)\<rparr>"

definition slo_limit :: "string \<Rightarrow> int \<Rightarrow> int" where
  "slo_limit raw d = (case parse_i64 raw of Some n \<Rightarrow> if n > 0 then n else d | None \<Rightarrow> d)"

definition build_config ::
  "(string \<Rightarrow> nat option) \<Rightarrow> (string \<Rightarrow> string option) \<Rightarrow> toml_config \<Rightarrow> config" where
  "build_config secs_f64 getenv tc =
     (let d = config_default;
          cfg = d\<lparr>
            cfg_sql_root := env_or getenv ''RM_SQL_ROOT'' (tc_sql_root tc) [],
            cfg_sql_base := env_or getenv ''RM_SQL_BASE'' (tc_sql_base tc) [],
            cfg_report_dir := env_or getenv ''RM_REPORT_DIR'' (tc_report_dir tc) [],
            cfg_l1_cache_dir := env_or getenv ''RMIG_L1_CACHE_DIR'' (tc_l1_cache_dir tc) (cfg_l1_cache_dir d),
            cfg_report_sync := env_bool getenv ''RM_REPORT_SYNC'' (tc_report_sync tc) (cfg_report_sync d),
            cfg_log_level := env_or getenv ''RM_LOG_LEVEL'' (tc_log_level tc) (cfg_log_level d),
            cfg_server := env_or getenv ''RM_DB_SERVER'' (tc_server tc) [],
            cfg_port := env_or getenv ''RM_DB_PORT'' (map_option nat_to_string (tc_port tc)) (cfg_port d),
            cfg_database := [],
            cfg_db_auth := env_or getenv ''RM_DB_AUTH'' (tc_auth tc) (cfg_db_auth d),
            cfg_user := env_or getenv ''RM_DB_USER'' None [],
            cfg_password := env_or getenv ''RM_DB_PASSWORD'' None [],
            cfg_skip_git := env_bool getenv ''RM_SKIP_GIT'' (tc_skip_git tc) (cfg_skip_git d),
            cfg_inspect_full := env_bool getenv ''RMIG_INSPECT_FULL'' (tc_inspect_full tc) (cfg_inspect_full d),
            cfg_catalog_cache := env_bool getenv ''RMIG_CATALOG_CACHE'' (tc_catalog_cache tc) (cfg_catalog_cache d),
            cfg_allow_adopt := env_bool getenv ''RMIG_ALLOW_ADOPT'' (tc_allow_adopt tc) (cfg_allow_adopt d),
            cfg_session_socket := env_or getenv ''RMIG_SESSION'' (tc_socket tc) [],
            cfg_session_token := env_or getenv ''RMIG_SESSION_TOKEN'' None [],
            cfg_lock_timeout := set_timeout secs_f64 (env_or getenv ''RM_LOCK_TIMEOUT'' (tc_lock_timeout tc) []) (cfg_lock_timeout d),
            cfg_command_timeout := set_timeout secs_f64 (env_or getenv ''RM_COMMAND_TIMEOUT'' (tc_command_timeout tc) []) (cfg_command_timeout d)\<rparr>;
          cfg' = apply_tls getenv tc cfg
      in cfg'\<lparr>cfg_slo_max_cli_wall_ms :=
           slo_limit (env_or getenv ''RMIG_SLO_MAX_CLI_WALL_MS'' (map_option int_to_string (tc_slo_max_cli_wall_ms tc)) [])
             (cfg_slo_max_cli_wall_ms cfg')\<rparr>)"

subsection \<open>Catalog databases\<close>

text \<open>
  \<open>catalog_database_dir_has_schema\<close> and \<open>discover_catalog_databases\<close> on the node at
  \<open>sql_root\<close>; the entries of a directory come in the order \<open>read_dir\<close> lists them.
  Directory names are taken to be UTF-8, where \<open>to_string_lossy\<close> changes nothing.
\<close>

fun is_dir_node :: "fs_node \<Rightarrow> bool" where
  "is_dir_node (FsDir kids) = True"
| "is_dir_node (FsBadDir msg) = True"
| "is_dir_node _ = False"

definition catalog_database_dir_has_schema :: "string \<Rightarrow> fs_node \<Rightarrow> bool result" where
  "catalog_database_dir_has_schema path node =
     (case node of
        FsDir kids \<Rightarrow> Inr (\<exists>(name, kid) \<in> set kids. is_dir_node kid)
      | FsBadDir msg \<Rightarrow> Inl (Config (''cannot read catalog candidate '' @ path @ '': '' @ msg))
      | _ \<Rightarrow> Inr False)"

fun catalog_names :: "string \<Rightarrow> (string \<times> fs_node) list \<Rightarrow> string list result" where
  "catalog_names root [] = Inr []"
| "catalog_names root ((name, node) # rest) =
     (if \<not> is_dir_node node \<or> starts_with name ''.'' then catalog_names root rest
      else
        bind_result (catalog_database_dir_has_schema (root @ ''/'' @ name) node) (\<lambda>has.
        bind_result (catalog_names root rest) (\<lambda>names. Inr (if has then name # names else names))))"

definition discover_catalog_databases :: "string \<Rightarrow> fs_node option \<Rightarrow> string list result" where
  "discover_catalog_databases root node =
     (case node of
        Some (FsDir kids) \<Rightarrow>
          bind_result (catalog_names root kids) (\<lambda>names.
            if names = [] then
              Inl (Config (''no catalog databases under '' @ root @ '' (expected <sql_root>/<database>/<schema>/...)''))
            else Inr (sort names))
      | Some (FsBadDir msg) \<Rightarrow> Inl (Io msg)
      | _ \<Rightarrow> Inl (Config (''RM_SQL_ROOT is not a directory: '' @ root)))"

subsection \<open>Validation\<close>

text \<open>\<open>char::is_control\<close>: the C0 controls, DEL, and the C1 controls, which take two bytes.\<close>

fun has_control :: "string \<Rightarrow> bool" where
  "has_control [] = False"
| "has_control (c # cs) =
     ((of_char c :: nat) < 32 \<or> (of_char c :: nat) = 127
      \<or> ((of_char c :: nat) = 194 \<and> (case cs of b # _ \<Rightarrow> 128 \<le> (of_char b :: nat) \<and> (of_char b :: nat) < 160 | [] \<Rightarrow> False))
      \<or> has_control cs)"

definition reject_control_chars :: "string \<Rightarrow> string \<Rightarrow> unit result" where
  "reject_control_chars field value =
     (if has_control value then Inl (Config (field @ '' contains control characters'')) else Inr ())"

definition normalize_catalog_paths :: "fs_node option \<Rightarrow> config \<Rightarrow> config result" where
  "normalize_catalog_paths root cfg =
     (let cfg1 = (if cfg_sql_base cfg = [] then cfg\<lparr>cfg_sql_base := cfg_sql_root cfg\<rparr> else cfg) in
      bind_result (discover_catalog_databases (cfg_sql_root cfg1) root) (\<lambda>dbs.
        Inr (if cfg_database cfg1 = [] \<and> length dbs = 1 then cfg1\<lparr>cfg_database := dbs ! 0\<rparr> else cfg1)))"

definition valid_port :: "string \<Rightarrow> bool" where
  "valid_port p \<longleftrightarrow> (case parse_unsigned (2 ^ 16) p of Some n \<Rightarrow> n \<ge> 1 | None \<Rightarrow> False)"

definition validate_config :: "(string \<Rightarrow> bytes option) \<Rightarrow> fs_node option \<Rightarrow> config \<Rightarrow> config result" where
  "validate_config getenv_os root cfg =
     bind_result (validate_boolean_envs getenv_os) (\<lambda>_.
       let missing = (if cfg_server cfg = [] then [''RM_DB_SERVER''] else [])
                     @ (if cfg_sql_root cfg = [] then [''RM_SQL_ROOT''] else []);
           missing_secrets = (if cfg_user cfg = [] then [''RM_DB_USER''] else [])
                     @ (if cfg_password cfg = [] then [''RM_DB_PASSWORD''] else [])
       in if missing_secrets \<noteq> [] then
            Inl (Config (''missing required process environment variable(s): '' @ join_with '', '' missing_secrets
              @ ''; SQL credentials are not read from config.toml''))
          else if cfg_session_socket cfg \<noteq> [] \<and> cfg_session_token cfg = [] then
            Inl (Config (''RMIG_SESSION_TOKEN is required in the process environment when using rmigd; ''
              @ ''the token is not read from config.toml''))
          else if missing \<noteq> [] then
            Inl (Config (''missing required variables: '' @ join_with '', '' missing))
          else
            bind_result (reject_control_chars ''RM_DB_SERVER'' (cfg_server cfg)) (\<lambda>_.
            bind_result (reject_control_chars ''database name'' (cfg_database cfg)) (\<lambda>_.
            if cfg_port cfg \<noteq> [] \<and> \<not> valid_port (cfg_port cfg) then
              Inl (Config (''RM_DB_PORT is not a valid TCP port (1-65535): '' @ cfg_port cfg))
            else normalize_catalog_paths root cfg)))"

definition validate_daemon_config :: "(string \<Rightarrow> bytes option) \<Rightarrow> fs_node option \<Rightarrow> config \<Rightarrow> config result" where
  "validate_daemon_config getenv_os root cfg =
     bind_result (validate_config getenv_os root cfg) (\<lambda>cfg'.
       if cfg_session_token cfg' = [] then
         Inl (Config (''RMIG_SESSION_TOKEN is required in the process environment for rmigd; ''
           @ ''the token is not read from config.toml''))
       else Inr cfg')"

subsection \<open>Properties\<close>

lemma reject_control_chars_Inr: "reject_control_chars f v = Inr u \<longleftrightarrow> \<not> has_control v"
  by (simp add: reject_control_chars_def)

text \<open>What is left undecided by the environment and the file keeps the secure default.\<close>

lemma build_config_tls:
  "cfg_encrypt (build_config sf getenv tc) = env_bool getenv ''RM_DB_ENCRYPT'' (tc_encrypt tc) True"
  "cfg_trust_server_certificate (build_config sf getenv tc) =
     env_bool getenv ''RM_DB_TRUST_SERVER_CERTIFICATE'' (tc_trust_server_certificate tc) False"
  by (simp_all add: build_config_def apply_tls_def config_default_def Let_def)

lemma build_config_secrets:
  "cfg_user (build_config sf getenv tc) = (case getenv ''RM_DB_USER'' of Some v \<Rightarrow> v | None \<Rightarrow> [])"
  "cfg_password (build_config sf getenv tc) = (case getenv ''RM_DB_PASSWORD'' of Some v \<Rightarrow> v | None \<Rightarrow> [])"
  "cfg_session_token (build_config sf getenv tc) = (case getenv ''RMIG_SESSION_TOKEN'' of Some v \<Rightarrow> v | None \<Rightarrow> [])"
  by (simp_all add: build_config_def apply_tls_def env_or_def or_else_def Let_def split: option.splits)

lemma validate_boolean_loop_Inr:
  "validate_boolean_loop getenv_os names = Inr u \<longleftrightarrow>
     (\<forall>n \<in> set names. \<forall>v. getenv_os n = Some v \<longrightarrow> is_utf8 v \<and> recognized_bool v)"
  by (induction names)
    (auto simp: validate_boolean_value_def result_simps split: option.splits if_splits)

lemma catalog_names_Inr:
  "catalog_names root kids = Inr names \<Longrightarrow>
     (\<forall>n \<in> set names. \<exists>sub. (n, FsDir sub) \<in> set kids \<and> \<not> starts_with n ''.'' \<and> (\<exists>(m, kid) \<in> set sub. is_dir_node kid))"
proof (induction root kids arbitrary: names rule: catalog_names.induct)
  case (2 root name node rest)
  show ?case
  proof (cases "\<not> is_dir_node node \<or> starts_with name ''.''")
    case True
    with 2 show ?thesis by fastforce
  next
    case False
    with "2.prems" obtain has ns where
      H: "catalog_database_dir_has_schema (root @ ''/'' @ name) node = Inr has"
      and N: "catalog_names root rest = Inr ns" "names = (if has then name # ns else ns)"
      by (auto simp: result_simps)
    have "\<exists>sub. node = FsDir sub \<and> (\<exists>(m, kid) \<in> set sub. is_dir_node kid)" if has
      using H that False by (auto simp: catalog_database_dir_has_schema_def split: fs_node.splits)
    with "2.IH"(2) [OF False N(1)] N(2) False show ?thesis
      by (auto split: if_splits) blast+
  qed
qed simp

lemma normalized_config:
  assumes "normalize_catalog_paths root cfg = Inr cfg'"
  obtains dbs sb d where "discover_catalog_databases (cfg_sql_root cfg) root = Inr dbs"
    "cfg' = cfg\<lparr>cfg_sql_base := sb, cfg_database := d\<rparr>"
    "d = cfg_database cfg \<or> cfg_database cfg = [] \<and> dbs = [d]"
proof -
  define cfg1 where "cfg1 = (if cfg_sql_base cfg = [] then cfg\<lparr>cfg_sql_base := cfg_sql_root cfg\<rparr> else cfg)"
  have c1: "cfg_sql_root cfg1 = cfg_sql_root cfg" "cfg_database cfg1 = cfg_database cfg"
    "cfg1\<lparr>cfg_database := d\<rparr> = cfg\<lparr>cfg_sql_base := cfg_sql_base cfg1, cfg_database := d\<rparr>" for d
    by (simp_all add: cfg1_def)
  from assms obtain dbs where dbs: "discover_catalog_databases (cfg_sql_root cfg) root = Inr dbs"
    and c': "cfg' = (if cfg_database cfg = [] \<and> length dbs = 1 then cfg1\<lparr>cfg_database := dbs ! 0\<rparr> else cfg1)"
    unfolding normalize_catalog_paths_def Let_def cfg1_def [symmetric] c1 by (auto simp: result_simps)
  show thesis
  proof (cases "cfg_database cfg = [] \<and> length dbs = 1")
    case True
    then obtain x where "dbs = [x]" by (auto simp: length_Suc_conv)
    with True c' c1(3) [of x] show thesis by (intro that [OF dbs, of x "cfg_sql_base cfg1"]) auto
  next
    case False
    then have "cfg' = cfg1" using c' by argo
    also have "\<dots> = cfg1\<lparr>cfg_database := cfg_database cfg1\<rparr>" by (cases cfg1) simp
    also have "\<dots> = cfg\<lparr>cfg_sql_base := cfg_sql_base cfg1, cfg_database := cfg_database cfg\<rparr>"
      unfolding c1(2) by (rule c1(3))
    finally have "cfg' = cfg\<lparr>cfg_sql_base := cfg_sql_base cfg1, cfg_database := cfg_database cfg\<rparr>" .
    then show thesis by (rule that [OF dbs]) simp
  qed
qed

text \<open>
  C19: A configuration that passes validation names a server, a SQL root, a user and a password, has a
  token whenever it uses a session socket, a valid port or none, no control characters in its server
  or database name, and only booleans the parser recognises in the environment; validation changes
  nothing but the base path and the single discovered database.
\<close>

theorem validated_config_is_complete:
  assumes "validate_config getenv_os root cfg = Inr cfg'"
  shows "cfg_server cfg' \<noteq> [] \<and> cfg_sql_root cfg' \<noteq> [] \<and> cfg_user cfg' \<noteq> [] \<and> cfg_password cfg' \<noteq> []
    \<and> (cfg_session_socket cfg' = [] \<or> cfg_session_token cfg' \<noteq> [])
    \<and> (cfg_port cfg' = [] \<or> valid_port (cfg_port cfg'))
    \<and> \<not> has_control (cfg_server cfg')
    \<and> (\<forall>n \<in> set BOOL_NAMES. \<forall>v. getenv_os n = Some v \<longrightarrow> is_utf8 v \<and> recognized_bool v)
    \<and> cfg' = cfg\<lparr>cfg_sql_base := cfg_sql_base cfg', cfg_database := cfg_database cfg'\<rparr>
    \<and> (\<exists>dbs. discover_catalog_databases (cfg_sql_root cfg) root = Inr dbs
         \<and> (cfg_database cfg' = cfg_database cfg \<or> cfg_database cfg = [] \<and> dbs = [cfg_database cfg']))"
proof -
  from assms have bools: "validate_boolean_loop getenv_os BOOL_NAMES = Inr ()"
    and secrets: "cfg_user cfg \<noteq> []" "cfg_password cfg \<noteq> []"
    and token: "cfg_session_socket cfg = [] \<or> cfg_session_token cfg \<noteq> []"
    and names: "cfg_server cfg \<noteq> []" "cfg_sql_root cfg \<noteq> []"
    and ctrl: "\<not> has_control (cfg_server cfg)"
    and port: "cfg_port cfg = [] \<or> valid_port (cfg_port cfg)"
    and paths: "normalize_catalog_paths root cfg = Inr cfg'"
    by (auto simp: validate_config_def validate_boolean_envs_def reject_control_chars_Inr Let_def result_simps
        split: if_splits)
  from paths obtain dbs sb d where dbs: "discover_catalog_databases (cfg_sql_root cfg) root = Inr dbs"
    and upd: "cfg' = cfg\<lparr>cfg_sql_base := sb, cfg_database := d\<rparr>"
    and db: "d = cfg_database cfg \<or> cfg_database cfg = [] \<and> dbs = [d]"
    by (rule normalized_config)
  show ?thesis
    unfolding upd using bools secrets token names ctrl port dbs db
    by (simp add: validate_boolean_loop_Inr)
qed

definition sample_config :: config where
  "sample_config = config_default\<lparr>cfg_server := ''srv'', cfg_sql_root := ''sql'', cfg_user := ''sa'',
     cfg_password := ''pw'', cfg_port := []\<rparr>"

definition sample_root :: fs_node where
  "sample_root = FsDir [(''sales'', FsDir [(''dbo'', FsDir [])]), (''.git'', FsDir []), (''readme'', FsFile [])]"

lemma sample_discovered: "discover_catalog_databases ''sql'' (Some sample_root) = Inr [''sales'']"
  by code_simp

lemma sample_validated:
  "validate_config (\<lambda>n. None) (Some sample_root) sample_config =
     Inr (sample_config\<lparr>cfg_sql_base := ''sql'', cfg_database := ''sales''\<rparr>)"
proof -
  have "normalize_catalog_paths (Some sample_root) sample_config =
      Inr (sample_config\<lparr>cfg_sql_base := ''sql'', cfg_database := ''sales''\<rparr>)"
    by (simp add: normalize_catalog_paths_def sample_config_def config_default_def sample_discovered)
  then show ?thesis
    by (simp add: validate_config_def validate_boolean_envs_def BOOL_NAMES_def reject_control_chars_def
        sample_config_def config_default_def)
qed

theorem validated_config_is_complete_witness:
  "cfg_server (sample_config\<lparr>cfg_sql_base := ''sql'', cfg_database := ''sales''\<rparr>) \<noteq> []
   \<and> \<not> has_control (cfg_server (sample_config\<lparr>cfg_sql_base := ''sql'', cfg_database := ''sales''\<rparr>))"
  using validated_config_is_complete [OF sample_validated] by blast

text \<open>
  Every discovered catalog database is a directory directly below the SQL root, not hidden, with
  at least one directory of its own, and the names come sorted and at least one.
\<close>

theorem discovered_databases_are_catalog_directories:
  assumes "discover_catalog_databases root node = Inr dbs"
  shows "\<exists>kids. node = Some (FsDir kids) \<and> dbs \<noteq> [] \<and> sorted dbs
    \<and> (\<forall>n \<in> set dbs. \<exists>sub. (n, FsDir sub) \<in> set kids \<and> \<not> starts_with n ''.''
         \<and> (\<exists>(m, kid) \<in> set sub. is_dir_node kid))"
proof -
  from assms obtain kids names where "node = Some (FsDir kids)" "catalog_names root kids = Inr names"
    "names \<noteq> []" "dbs = sort names"
    by (auto simp: discover_catalog_databases_def result_simps split: option.splits fs_node.splits if_splits)
  with catalog_names_Inr [of root kids names] show ?thesis
    by (auto simp flip: set_empty)
qed

theorem discovered_databases_are_catalog_directories_witness:
  "\<exists>kids. Some sample_root = Some (FsDir kids) \<and> [''sales''] \<noteq> [] \<and> sorted [''sales'']
    \<and> (\<forall>n \<in> set [''sales'']. \<exists>sub. (n, FsDir sub) \<in> set kids \<and> \<not> starts_with n ''.''
         \<and> (\<exists>(m, kid) \<in> set sub. is_dir_node kid))"
  by (rule discovered_databases_are_catalog_directories [OF sample_discovered])


end
