(* ===== verification/Git.thy ===== *)
theory Git
  imports Scan Configuration
begin

section \<open>Git metadata and changed paths\<close>

text \<open>
  \<open>crates/core/src/git\<close> (diff, log, repository root), the resolution of changed paths of
  \<open>gate/changed_paths\<close> and \<open>gate/changed_paths_ci.rs\<close>, and the preload of commit metadata of
  \<open>scan/git_preload.rs\<close> with \<open>scan::populate\<close>. The record \<open>host\<close> stands for the outside:
  the process environment, the \<open>git\<close> program over a repository state of type \<open>'g\<close> (its output when
  it exits with success), the file system's \<open>canonicalize\<close>, \<open>exists\<close> and
  \<open>read_to_string\<close>, and the JSON reader of the pull request event. Paths are those of Unix.
\<close>

record 'g host =
  ho_getenv :: "string \<Rightarrow> string option"
  ho_git :: "'g \<Rightarrow> string list \<Rightarrow> bytes option"
  ho_git_fetch :: "'g \<Rightarrow> string list \<Rightarrow> 'g"
  ho_canonical :: "string \<Rightarrow> string list option"
  ho_exists :: "string \<Rightarrow> bool"
  ho_read_to_string :: "string \<Rightarrow> string option"
  ho_pr_base_sha :: "string \<Rightarrow> string option"

subsection \<open>Standard library text functions\<close>

text \<open>\<open>String::from_utf8_lossy\<close>: each maximal invalid part becomes one replacement character.\<close>

definition byte_at :: "bytes \<Rightarrow> nat \<Rightarrow> char" where
  "byte_at s i = (if i < length s then s ! i else CHR 0x00)"

definition utf8_error_len :: "bytes \<Rightarrow> nat" where
  "utf8_error_len s =
     (let a = byte_at s 0; b = byte_at s 1; c = byte_at s 2 in
      if in_range 224 224 a \<and> in_range 160 191 b \<or> in_range 225 236 a \<and> in_range 128 191 b
         \<or> in_range 237 237 a \<and> in_range 128 159 b \<or> in_range 238 239 a \<and> in_range 128 191 b
      then 2
      else if in_range 240 240 a \<and> in_range 144 191 b \<or> in_range 241 243 a \<and> in_range 128 191 b
         \<or> in_range 244 244 a \<and> in_range 128 143 b
      then (if in_range 128 191 c then 3 else 2)
      else 1)"

lemma utf8_error_len_pos: "utf8_error_len s > 0"
  by (simp add: utf8_error_len_def Let_def)

function from_utf8_lossy :: "bytes \<Rightarrow> string" where
  "from_utf8_lossy s =
     (if s = [] then []
      else if utf8_step s > 0 then take (utf8_step s) s @ from_utf8_lossy (drop (utf8_step s) s)
      else [CHR 0xEF, CHR 0xBF, CHR 0xBD] @ from_utf8_lossy (drop (utf8_error_len s) s))"
  by pat_completeness auto
termination
  by (relation "measure length") (auto simp: utf8_error_len_pos)

declare from_utf8_lossy.simps [simp del]

text \<open>\<open>str::lines\<close>: an optional carriage return before a line feed belongs to the line ending.\<close>

definition strip_cr :: "string \<Rightarrow> string" where
  "strip_cr l = (if l \<noteq> [] \<and> last l = CR then butlast l else l)"

definition str_lines :: "string \<Rightarrow> string list" where
  "str_lines s =
     (let ps = split_on LF s in map strip_cr (butlast ps) @ (if last ps = [] then [] else [last ps]))"

definition slashed :: "string \<Rightarrow> string" where
  "slashed s = replace_char (CHR 0x5C) ''/'' s"

subsection \<open>Repository root\<close>

definition path_of_components :: "string list \<Rightarrow> string" where
  "path_of_components cs = ''/'' @ join_with ''/'' cs"

text \<open>The loop of \<open>find_repo_root\<close> over the canonical path, last component first.\<close>

fun repo_root_loop :: "'g host \<Rightarrow> string list \<Rightarrow> string list option" where
  "repo_root_loop h [] = (if ho_exists h (path_of_components [''.git'']) then Some [] else None)"
| "repo_root_loop h (c # cs) =
     (if ho_exists h (path_of_components (rev (''.git'' # c # cs))) then Some (rev (c # cs))
      else repo_root_loop h cs)"

definition find_repo_root :: "'g host \<Rightarrow> string \<Rightarrow> string list option" where
  "find_repo_root h start = Option.bind (ho_canonical h start) (\<lambda>dir. repo_root_loop h (rev dir))"

text \<open>\<open>to_string_lossy\<close> of a path.\<close>

definition path_lossy :: "string list \<Rightarrow> string" where
  "path_lossy cs = from_utf8_lossy (path_of_components cs)"

definition has_git_repo :: "'g host \<Rightarrow> string \<Rightarrow> bool" where
  "has_git_repo h start \<longleftrightarrow> find_repo_root h start \<noteq> None"

definition sql_prefix_in_repo :: "'g host \<Rightarrow> string list \<Rightarrow> string \<Rightarrow> string option" where
  "sql_prefix_in_repo h repo_root sql_root =
     do {
       sql \<leftarrow> ho_canonical h sql_root;
       if prefix repo_root sql then
         (let rel = drop (length repo_root) sql in
          if rel = [] then None
          else
            (let s = slashed (from_utf8_lossy (join_with ''/'' rel)) in
             Some (if ends_with s ''/'' then s else s @ ''/'')))
       else None
     }"

definition sql_path_prefix :: "'g host \<Rightarrow> string \<Rightarrow> string option" where
  "sql_path_prefix h sql_root =
     do { repo \<leftarrow> find_repo_root h sql_root; sql_prefix_in_repo h repo sql_root }"

subsection \<open>Diffs\<close>

definition parse_name_only :: "string \<Rightarrow> string list" where
  "parse_name_only stdout = filter (\<lambda>l. l \<noteq> []) (map (\<lambda>l. slashed (trim l)) (str_lines stdout))"

definition diff_name_only :: "'g host \<Rightarrow> 'g \<Rightarrow> string \<Rightarrow> string \<Rightarrow> string \<Rightarrow> string list option" where
  "diff_name_only h g repo base head =
     (if starts_with base ''-'' \<or> starts_with head ''-'' then None
      else do {
        out \<leftarrow> ho_git h g [''-C'', repo, ''diff'', ''--name-only'', base, head];
        Some (parse_name_only (from_utf8_lossy out))
      })"

definition changed_paths_from_git :: "'g host \<Rightarrow> 'g \<Rightarrow> string \<Rightarrow> string \<Rightarrow> string list option" where
  "changed_paths_from_git h g repo base_ref = diff_name_only h g repo base_ref ''HEAD''"

definition merge_base :: "'g host \<Rightarrow> 'g \<Rightarrow> string \<Rightarrow> string \<Rightarrow> string \<Rightarrow> string option" where
  "merge_base h g repo head other =
     (if starts_with head ''-'' \<or> starts_with other ''-'' then None
      else do {
        out \<leftarrow> ho_git h g [''-C'', repo, ''merge-base'', head, other];
        let s = trim (from_utf8_lossy out);
        if s = [] then None else Some s
      })"

definition diff_since_merge_base :: "'g host \<Rightarrow> 'g \<Rightarrow> string \<Rightarrow> string \<Rightarrow> string list option" where
  "diff_since_merge_base h g repo remote =
     do { base \<leftarrow> merge_base h g repo ''HEAD'' remote; diff_name_only h g repo base ''HEAD'' }"

fun first_some :: "('a \<Rightarrow> 'b option) \<Rightarrow> 'a list \<Rightarrow> 'b option" where
  "first_some f [] = None"
| "first_some f (x # xs) = (case f x of Some y \<Rightarrow> Some y | None \<Rightarrow> first_some f xs)"

definition merge_base_paths :: "'g host \<Rightarrow> 'g \<Rightarrow> string \<Rightarrow> string list option" where
  "merge_base_paths h g sql_root =
     do {
       root \<leftarrow> find_repo_root h sql_root;
       first_some (diff_since_merge_base h g (path_lossy root))
         [''origin/main'', ''origin/master'', ''main'', ''master'']
     }"

subsection \<open>Changed paths\<close>

record changed_paths_result =
  cp_paths :: "string list"
  cp_full_inspect :: bool
  cp_source :: string

definition full :: "string \<Rightarrow> changed_paths_result" where
  "full source = \<lparr>cp_paths = [], cp_full_inspect = True, cp_source = source\<rparr>"

definition normalize_one_path :: "string \<Rightarrow> string \<Rightarrow> string option" where
  "normalize_one_path pre raw =
     (let p = slashed (trim raw);
          q = (case strip_prefix pre p of
                 Some s \<Rightarrow> s
               | None \<Rightarrow> (case strip_prefix ''sql/'' p of Some s \<Rightarrow> s | None \<Rightarrow> p))
      in if q = [] then None else Some q)"

definition normalize_git_paths :: "'g host \<Rightarrow> string \<Rightarrow> string list \<Rightarrow> string list" where
  "normalize_git_paths h sql_root paths =
     (let pre = unwrap_or (do { root \<leftarrow> find_repo_root h sql_root; sql_prefix_in_repo h root sql_root }) ''sql/''
      in List.map_filter (normalize_one_path pre) paths)"

definition git_paths_result :: "'g host \<Rightarrow> string \<Rightarrow> string list \<Rightarrow> string \<Rightarrow> changed_paths_result" where
  "git_paths_result h sql_root paths source =
     \<lparr>cp_paths = normalize_git_paths h sql_root paths, cp_full_inspect = False, cp_source = source\<rparr>"

definition parse_csv_paths :: "string \<Rightarrow> string list option" where
  "parse_csv_paths raw =
     (let paths = filter (\<lambda>s. s \<noteq> []) (map (\<lambda>s. slashed (trim s)) (split_on (CHR '','') raw)) in
      if paths = [] then None else Some paths)"

definition changed_paths_from_env :: "'g host \<Rightarrow> string list option" where
  "changed_paths_from_env h =
     (case Option.bind (ho_getenv h ''RMIG_GATE_CHANGED_FILES'') parse_csv_paths of
        Some ps \<Rightarrow> Some ps
      | None \<Rightarrow> Option.bind (ho_getenv h ''RMIG_CHANGED_FILES'') parse_csv_paths)"

definition github_pr_paths :: "'g host \<Rightarrow> 'g \<Rightarrow> string \<Rightarrow> string list option" where
  "github_pr_paths h g repo_root =
     (if ho_getenv h ''GITHUB_EVENT_NAME'' \<noteq> Some ''pull_request'' then None
      else do {
        path \<leftarrow> ho_getenv h ''GITHUB_EVENT_PATH'';
        data \<leftarrow> ho_read_to_string h path;
        raw \<leftarrow> ho_pr_base_sha h data;
        if trim raw = [] then None else diff_name_only h g repo_root (trim raw) ''HEAD''
      })"

definition gitlab_mr_paths :: "'g host \<Rightarrow> 'g \<Rightarrow> string \<Rightarrow> string list option" where
  "gitlab_mr_paths h g repo_root =
     do {
       iid \<leftarrow> ho_getenv h ''CI_MERGE_REQUEST_IID'';
       if iid = [] then None
       else do {
         base \<leftarrow> ho_getenv h ''CI_MERGE_REQUEST_DIFF_BASE_SHA'';
         head \<leftarrow> ho_getenv h ''CI_COMMIT_SHA'';
         if trim base = [] \<or> trim head = [] then None
         else diff_name_only h g repo_root (trim base) (trim head)
       }
     }"

definition azure_pr_paths :: "'g host \<Rightarrow> 'g \<Rightarrow> string \<Rightarrow> string list option \<times> 'g" where
  "azure_pr_paths h g repo_root =
     (case ho_getenv h ''SYSTEM_PULLREQUEST_TARGETBRANCH'' of
        None \<Rightarrow> (None, g)
      | Some s \<Rightarrow>
          if trim s = [] then (None, g)
          else
            (let target = unwrap_or (strip_prefix ''refs/heads/'' (trim s)) (trim s);
                 remote = ''origin/'' @ target;
                 g' = ho_git_fetch h g [''-C'', repo_root, ''fetch'', ''origin'', target @ '':'' @ target, ''--depth=1'']
             in case merge_base h g' repo_root ''HEAD'' remote of
                  Some base \<Rightarrow> (diff_name_only h g' repo_root base ''HEAD'', g')
                | None \<Rightarrow> (changed_paths_from_git h g' repo_root remote, g')))"

definition try_ci_changed_paths :: "'g host \<Rightarrow> 'g \<Rightarrow> string \<Rightarrow> (string list \<times> string) option \<times> 'g" where
  "try_ci_changed_paths h g repo_root =
     (case github_pr_paths h g repo_root of
        Some ps \<Rightarrow> (Some (ps, ''ci-github-pr''), g)
      | None \<Rightarrow>
     case gitlab_mr_paths h g repo_root of
        Some ps \<Rightarrow> (Some (ps, ''ci-gitlab-mr''), g)
      | None \<Rightarrow>
     case azure_pr_paths h g repo_root of
        (Some ps, g') \<Rightarrow> (Some (ps, ''ci-ado-pr''), g')
      | (None, g') \<Rightarrow> (None, g'))"

definition changed_since_base :: "'g host \<Rightarrow> 'g \<Rightarrow> string \<Rightarrow> string \<Rightarrow> changed_paths_result" where
  "changed_since_base h g sql_root base =
     (case find_repo_root h sql_root of
        Some root \<Rightarrow>
          (case changed_paths_from_git h g (path_lossy root) base of
             Some paths \<Rightarrow> git_paths_result h sql_root paths ''env-git-base''
           | None \<Rightarrow> full ''env-git-base-failed'')
      | None \<Rightarrow> full ''env-git-base-no-git'')"

definition changed_at_head :: "'g host \<Rightarrow> 'g \<Rightarrow> string \<Rightarrow> string \<Rightarrow> changed_paths_result" where
  "changed_at_head h g sql_root repo_root =
     (case changed_paths_from_git h g repo_root ''HEAD'' of
        Some (p # ps) \<Rightarrow> git_paths_result h sql_root (p # ps) ''git-head''
      | _ \<Rightarrow>
          (case changed_paths_from_git h g repo_root ''HEAD~1'' of
             Some (p # ps) \<Rightarrow> git_paths_result h sql_root (p # ps) ''git-head-parent''
           | _ \<Rightarrow> \<lparr>cp_paths = [], cp_full_inspect = False, cp_source = ''git-head''\<rparr>))"

definition changed_in_repo :: "'g host \<Rightarrow> 'g \<Rightarrow> string \<Rightarrow> changed_paths_result \<times> 'g" where
  "changed_in_repo h g sql_root =
     (case find_repo_root h sql_root of
        None \<Rightarrow> (full ''no-git'', g)
      | Some root \<Rightarrow>
          (let repo_root = path_lossy root in
           case try_ci_changed_paths h g repo_root of
             (Some (paths, source), g') \<Rightarrow> (git_paths_result h sql_root paths source, g')
           | (None, g') \<Rightarrow>
               (case merge_base_paths h g' sql_root of
                  Some (p # ps) \<Rightarrow> (git_paths_result h sql_root (p # ps) ''git-merge-base'', g')
                | _ \<Rightarrow> (changed_at_head h g' sql_root repo_root, g'))))"

definition resolve_changed_paths :: "'g host \<Rightarrow> 'g \<Rightarrow> string \<Rightarrow> changed_paths_result \<times> 'g" where
  "resolve_changed_paths h g sql_root =
     (if ho_getenv h ''RMIG_INSPECT_FULL'' = Some ''1'' then (full ''env-full-inspect'', g)
      else case changed_paths_from_env h of
        Some paths \<Rightarrow> (git_paths_result h sql_root paths ''env-changed-files'', g)
      | None \<Rightarrow>
          (case ho_getenv h ''RMIG_GATE_GIT_BASE'' of
             Some b \<Rightarrow> if trim b \<noteq> [] then (changed_since_base h g sql_root (trim b), g) else changed_in_repo h g sql_root
           | None \<Rightarrow> changed_in_repo h g sql_root))"

subsection \<open>Commit metadata\<close>

record git_meta =
  gm_hash :: string
  gm_author :: string
  gm_date :: string

definition FIELD_SEP :: char where "FIELD_SEP = CHR 0x1F"
definition COMMIT_PREFIX :: string where "COMMIT_PREFIX = ''COMMIT'' @ [FIELD_SEP]"

definition batched_git_log :: "'g host \<Rightarrow> 'g \<Rightarrow> string \<Rightarrow> bytes option" where
  "batched_git_log h g root =
     ho_git h g [''-C'', root, ''log'', ''--name-only'', ''--format=COMMIT%x1f%H%x1f%an%x1f%aI'']"

definition parse_commit_line :: "string \<Rightarrow> git_meta option" where
  "parse_commit_line line =
     do {
       rest \<leftarrow> strip_prefix COMMIT_PREFIX line;
       (hash, rest2) \<leftarrow> split_once FIELD_SEP rest;
       (author, date) \<leftarrow> split_once FIELD_SEP rest2;
       if hash = [] then None else Some \<lparr>gm_hash = hash, gm_author = author, gm_date = date\<rparr>
     }"

definition normalize_git_path :: "string \<Rightarrow> string" where
  "normalize_git_path p = slashed p"

text \<open>\<open>Path::parent\<close> and \<open>file_name\<close> of an absolute path without dot components or trailing slash.\<close>

definition path_file_name :: "string \<Rightarrow> string option" where
  "path_file_name p = (let n = rev (takeWhile (\<lambda>c. c \<noteq> CHR ''/'') (rev p)) in if n = [] then None else Some n)"

definition path_parent :: "string \<Rightarrow> string option" where
  "path_parent p =
     (case path_file_name p of
        None \<Rightarrow> None
      | Some n \<Rightarrow>
          (let d = rev (dropWhile (\<lambda>c. c = CHR ''/'') (rev (take (length p - length n) p))) in
           Some (if d = [] \<and> starts_with p ''/'' then ''/'' else d)))"

definition git_info_file :: "'g host \<Rightarrow> 'g \<Rightarrow> string \<Rightarrow> git_meta option" where
  "git_info_file h g abs_path =
     do {
       dir \<leftarrow> path_parent abs_path;
       name \<leftarrow> path_file_name abs_path;
       out \<leftarrow> ho_git h g [''-C'', dir, ''log'', ''-1'', ''--format=%H%n%an%n%aI'', ''--'', name];
       case str_lines (trim (from_utf8_lossy out)) of
         a # b # c # _ \<Rightarrow> Some \<lparr>gm_hash = a, gm_author = b, gm_date = c\<rparr>
       | _ \<Rightarrow> None
     }"

subsection \<open>Preloading commit metadata\<close>

definition staging_default :: script_git_staging where
  "staging_default = \<lparr>st_hash = None, st_author = None, st_date = None\<rparr>"

definition apply_meta :: "nat \<Rightarrow> git_meta \<Rightarrow> workspace \<Rightarrow> workspace" where
  "apply_meta sid meta ws =
     ws\<lparr>ws_script_git_staging :=
          AList.update sid
            ((unwrap_or (map_of (ws_script_git_staging ws) sid) staging_default)
               \<lparr>st_hash := Some (gm_hash meta), st_author := Some (gm_author meta), st_date := Some (gm_date meta)\<rparr>)
            (ws_script_git_staging ws)\<rparr>"

text \<open>The targets map script paths to script keys; a script's key is the text of its path.\<close>

definition build_targets :: "workspace \<Rightarrow> (string \<times> string) list option" where
  "build_targets ws =
     do {
       paths \<leftarrow> those (map (script_path ws) (map Suc [0..<as_u32 (length (ws_script_rows ws))]));
       Some (foldl (\<lambda>m p. AList.update p p m) [] paths)
     }"

definition layout_key_for_git_line :: "string \<Rightarrow> string option \<Rightarrow> string" where
  "layout_key_for_git_line line pre =
     (let p = normalize_git_path line in
      case pre of None \<Rightarrow> p | Some q \<Rightarrow> (case strip_prefix q p of Some rest \<Rightarrow> rest | None \<Rightarrow> p))"

fun apply_batched_lines ::
  "string option \<Rightarrow> git_meta option \<Rightarrow> string list \<Rightarrow> (string \<times> string) list \<Rightarrow> workspace
    \<Rightarrow> (string \<times> string) list \<times> workspace" where
  "apply_batched_lines pre cur [] remaining ws = (remaining, ws)"
| "apply_batched_lines pre cur (raw # lines) remaining ws =
     (let line = trim raw in
      if line = [] then apply_batched_lines pre cur lines remaining ws
      else case parse_commit_line line of
        Some meta \<Rightarrow> apply_batched_lines pre (Some meta) lines remaining ws
      | None \<Rightarrow>
          (let rel = layout_key_for_git_line line pre in
           case map_of remaining rel of
             None \<Rightarrow> apply_batched_lines pre cur lines remaining ws
           | Some key \<Rightarrow>
               (let remaining' = AList.delete rel remaining in
                case (cur, ws_script_key_index ws key) of
                  (Some meta, Some sid) \<Rightarrow> apply_batched_lines pre cur lines remaining' (apply_meta sid meta ws)
                | _ \<Rightarrow> apply_batched_lines pre cur lines remaining' ws)))"

definition apply_batched ::
  "bytes \<Rightarrow> string option \<Rightarrow> (string \<times> string) list \<Rightarrow> workspace \<Rightarrow> (string \<times> string) list \<times> workspace" where
  "apply_batched out pre remaining ws = apply_batched_lines pre None (str_lines (from_utf8_lossy out)) remaining ws"

fun preload_remaining :: "'g host \<Rightarrow> 'g \<Rightarrow> (string \<times> string) list \<Rightarrow> workspace \<Rightarrow> workspace option" where
  "preload_remaining h g [] ws = Some ws"
| "preload_remaining h g ((p, key) # rest) ws =
     (case ws_script_key_index ws key of
        None \<Rightarrow> preload_remaining h g rest ws
      | Some sid \<Rightarrow> do {
          apath \<leftarrow> script_abs_path ws sid;
          preload_remaining h g rest
            (case git_info_file h g apath of Some meta \<Rightarrow> apply_meta sid meta ws | None \<Rightarrow> ws)
        })"

definition preload :: "'g host \<Rightarrow> 'g \<Rightarrow> workspace \<Rightarrow> string \<Rightarrow> workspace option" where
  "preload h g ws sql_root =
     (if \<not> has_git_repo h sql_root then Some ws
      else case ho_canonical h sql_root of
        None \<Rightarrow> Some ws
      | Some root \<Rightarrow> do {
          targets \<leftarrow> build_targets ws;
          if targets = [] then Some ws
          else
            (let (remaining, ws1) =
               (case batched_git_log h g (path_lossy root) of
                  Some out \<Rightarrow> apply_batched out (sql_path_prefix h sql_root) targets ws
                | None \<Rightarrow> (targets, ws))
             in preload_remaining h g remaining ws1)
        })"

text \<open>\<open>scan::populate\<close>, without the elapsed time it returns.\<close>

definition populate ::
  "(bytes \<Rightarrow> digest) \<Rightarrow> (string \<Rightarrow> nat) \<Rightarrow> nat option \<Rightarrow> 'g host \<Rightarrow> 'g \<Rightarrow> workspace \<Rightarrow> string \<Rightarrow> (string \<times> fs_node) list \<Rightarrow> bool
    \<Rightarrow> workspace result option" where
  "populate sha fp parallelism h g ws root tree skip_git =
     (case scan_root sha fp parallelism ws root tree of
        None \<Rightarrow> None
      | Some (Inl e) \<Rightarrow> Some (Inl e)
      | Some (Inr ws1) \<Rightarrow> do {
          ws2 \<leftarrow> (if skip_git then Some ws1 else preload h g ws1 root);
          ws3 \<leftarrow> intern_workspace_strings fp ws2;
          ws4 \<leftarrow> rebuild_path_caches ws3;
          ws5 \<leftarrow> (if skip_git then Some ws4 else apply_script_git_offs ws4);
          d \<leftarrow> layout_digest sha ws5;
          Some (Inr (ws5\<lparr>ws_layout_digest := d\<rparr>))
        })"

end
