(* ===== verification/Populate_Correct.thy ===== *)
theory Populate_Correct
  imports Intern_Correct Git
begin

section \<open>From the scan to the interned workspace\<close>

text \<open>
  The scan hands its workspace to the interning pass of \<open>populate\<close>. The locale \<open>scan_invariant\<close>
  states which steps a scan is made of; a property that each step keeps holds of every workspace the
  scan finalizes. It is interpreted with what the interning pass needs of database names and paths.
\<close>

subsection \<open>The steps of a scan\<close>

locale scan_invariant =
  fixes holds :: "workspace \<Rightarrow> bool"
  assumes insert_script: "holds ws \<Longrightarrow> insert_script ws s = Some (ws', sid) \<Longrightarrow> sc_key s \<noteq> [] \<Longrightarrow>
      sc_abs_path s \<noteq> [] \<Longrightarrow> holds ws'"
    and stage: "holds ws \<Longrightarrow> push_transition_staging ws a b c d = Inr ws' \<Longrightarrow> holds ws'"
    and invalidate: "holds ws \<Longrightarrow> holds (invalidate_transition_paths ws)"
    and intern: "holds ws \<Longrightarrow> intern_database ws db = Some (ws', i) \<Longrightarrow> holds ws'"
    and push: "holds ws \<Longrightarrow> push_object ws key obj = Inr ws' \<Longrightarrow> holds ws'"
begin

lemma ingest_keeps:
  assumes "ingest sha ws rel apath data = Some (Inr ws')" and "holds ws" and "apath \<noteq> []"
  shows "holds ws'"
proof -
  from assms(1) obtain meta where meta: "parse_meta rel = Inr meta"
    by (auto simp: ingest_def outcome_simps)
  show ?thesis
  proof (cases meta)
    case None
    with assms(1,2) meta show ?thesis by (simp add: ingest_def outcome_simps)
  next
    case (Some m)
    with assms(1) meta obtain bs where 2: "parse_meta rel = Inr (Some m)" "data = Inr bs"
      by (auto simp: ingest_def outcome_simps split: sum.splits)
    then have "tm_path m = rel" "rel \<noteq> []"
      by (auto simp: parse_meta_def Let_def bind_result_Inr split: if_splits option.splits)
    then have key: "script_key_from_path (tm_path m) \<noteq> []"
      by (cases rel) (simp_all add: script_key_from_path_def replace_char_def)
    from assms(1) 2 obtain w sid where
      w: "insert_script ws \<lparr>sc_key = script_key_from_path (tm_path m), sc_kind = TransitionScript,
            sc_abs_path = apath, sc_checksum = Some (content_checksum sha bs)\<rparr> = Some (w, sid)"
      and rest: "ws' = w \<or> (\<exists>w2. push_transition_staging w (hd (split_on (CHR ''/'') rel))
        (tm_table_key m) (tm_ordinal m) (script_key_from_path (tm_path m)) = Inr w2 \<and> ws' = invalidate_transition_paths w2)"
      by (auto simp: ingest_def outcome_simps Let_def split: if_splits)
    have "holds w" using insert_script [OF assms(2) w] key assms(3) by simp
    with rest show ?thesis using stage invalidate by blast
  qed
qed

lemma push_check_keeps:
  assumes "push_check ws rel apath = Some ws'" and "holds ws" and "apath \<noteq> []" and "is_check_path rel"
  shows "holds ws'"
proof -
  from assms(4) have "rel \<noteq> []" by (auto simp: is_check_path_def)
  then have "script_key_from_path rel \<noteq> []"
    by (cases rel) (simp_all add: script_key_from_path_def replace_char_def)
  with assms show ?thesis by (auto simp: push_check_def dest: insert_script)
qed

lemma scan_entries_keeps:
  "scan_entries sha root entries ws = Some (Inr (ws', items)) \<Longrightarrow> holds ws \<Longrightarrow>
     holds ws' \<and> (\<forall>(rel, apath, data) \<in> set items. apath \<noteq> [])"
proof (induction entries arbitrary: ws items)
  case (Cons e entries)
  obtain comps data where e: "e = (comps, data)" by (cases e)
  from Cons.prems(1) e obtain rel where rel: "relative_sql_path comps = Inr rel"
    by (auto simp: outcome_simps)
  have apath: "absolute_path root rel \<noteq> []" by (simp add: absolute_path_def)
  show ?case
  proof (cases "classify rel")
    case TransitionFile
    with Cons.prems(1) e rel obtain w where "ingest sha ws rel (absolute_path root rel) data = Some (Inr w)"
      "scan_entries sha root entries w = Some (Inr (ws', items))"
      by (auto simp: outcome_simps Let_def)
    with Cons ingest_keeps apath show ?thesis by blast
  next
    case CheckFile
    then have "is_check_path rel" by (auto simp: classify_def split: if_splits)
    moreover from CheckFile Cons.prems(1) e rel obtain w where "push_check ws rel (absolute_path root rel) = Some w"
      "scan_entries sha root entries w = Some (Inr (ws', items))"
      by (auto simp: outcome_simps Let_def)
    ultimately show ?thesis using Cons push_check_keeps apath by blast
  next
    case ObjectFile
    with Cons.prems(1) e rel obtain items' where "scan_entries sha root entries ws = Some (Inr (ws', items'))"
      "items = (rel, absolute_path root rel, data) # items'"
      by (auto simp: outcome_simps Let_def)
    with Cons.IH Cons.prems(2) apath show ?thesis by fastforce
  qed
qed simp

lemma insert_parsed_object_keeps:
  assumes "insert_parsed_object ws parsed rel schemas = Some (Inr (ws', sm))" and "holds ws"
    and "\<And>k ob s. parsed = Some (k, ob, s) \<Longrightarrow> sc_key s \<noteq> [] \<and> sc_abs_path s \<noteq> []"
  shows "holds ws'"
proof (cases parsed)
  case None
  with assms show ?thesis by (simp add: insert_parsed_object_def)
next
  case (Some p)
  obtain k ob s where p: "p = (k, ob, s)" by (cases p)
  from assms(1) Some p obtain w sid w2 i where W: "insert_script ws s = Some (w, sid)"
    "intern_database w (hd (split_on (CHR ''/'') rel)) = Some (w2, i)"
    "push_object w2 k (ob\<lparr>oe_script_id := sid, oe_db_id := i\<rparr>) = Inr ws'"
    by (auto simp: insert_parsed_object_def outcome_simps Let_def split: if_splits)
  have "holds w" using insert_script [OF assms(2) W(1)] assms(3) Some p by simp
  from push [OF intern [OF this W(2)] W(3)] show ?thesis .
qed

lemma merge_objects_keeps:
  "merge_objects l ws schemas = Some (Inr (ws', sm)) \<Longrightarrow> holds ws \<Longrightarrow>
   \<forall>(it, parsed) \<in> set l. \<forall>k ob s. parsed = Some (k, ob, s) \<longrightarrow> sc_key s \<noteq> [] \<and> sc_abs_path s \<noteq> [] \<Longrightarrow> holds ws'"
proof (induction l arbitrary: ws schemas)
  case (Cons x l)
  obtain rel apath data parsed where x: "x = ((rel, apath, data), parsed)" by (cases x) auto
  from Cons.prems(1) x obtain w sm' where w: "insert_parsed_object ws parsed rel schemas = Some (Inr (w, sm'))"
    and rest: "merge_objects l w sm' = Some (Inr (ws', sm))"
    by (auto simp: outcome_simps)
  have "holds w" using Cons.prems(3) x by (intro insert_parsed_object_keeps [OF w Cons.prems(2)]) auto
  with Cons.IH [OF rest] Cons.prems(3) show ?case by auto
qed simp

end

subsection \<open>Names and paths along the scan\<close>

definition texts_ok :: "workspace \<Rightarrow> bool" where
  "texts_ok ws \<longleftrightarrow>
     names_wf (ws_database_names ws) \<and> length (ws_database_names ws) < 2 ^ 16
     \<and> [] \<notin> set (ws_ingest_script_keys ws) \<and> [] \<notin> set (ws_ingest_script_abs ws)"

lemma intern_database_names_wf:
  assumes "intern_database ws db = Some (ws', i)" and "names_wf (ws_database_names ws)"
    and "length (ws_database_names ws) < 2 ^ 16"
  shows "names_wf (ws_database_names ws') \<and> length (ws_database_names ws') < 2 ^ 16"
proof (cases "db = [] \<or> position (\<lambda>d. eq_ignore_ascii_case d db) (ws_database_names ws) \<noteq> None")
  case True
  with assms show ?thesis by (auto simp: intern_database_def split: if_splits option.splits)
next
  case False
  then have "\<forall>d \<in> set (ws_database_names ws). to_lowercase d \<noteq> to_lowercase db"
    by (simp add: position_None eq_ignore_ascii_case_def)
  from names_wf_append [OF assms(2) this] False assms(1) show ?thesis
    by (auto simp: intern_database_def Let_def split: if_splits)
qed

lemma insert_script_texts:
  assumes "insert_script ws s = Some (ws', sid)"
  shows "ws_database_names ws' = ws_database_names ws"
    and "set (ws_ingest_script_keys ws') \<subseteq> insert (sc_key s) (set (ws_ingest_script_keys ws))"
    and "set (ws_ingest_script_abs ws') \<subseteq> insert (sc_abs_path s) (set (ws_ingest_script_abs ws))"
proof -
  show "ws_database_names ws' = ws_database_names ws" by (rule insert_script_frame(6) [OF assms])
  show "set (ws_ingest_script_keys ws') \<subseteq> insert (sc_key s) (set (ws_ingest_script_keys ws))"
    "set (ws_ingest_script_abs ws') \<subseteq> insert (sc_abs_path s) (set (ws_ingest_script_abs ws))"
    using assms by (auto simp: insert_script_def Let_def into_parts_def dest!: set_update_subset_insert [THEN subsetD]
        split: option.splits if_splits)
qed

interpretation si: scan_invariant texts_ok
proof
  fix ws ws' s sid
  assume ok: "texts_ok ws" and ins: "insert_script ws s = Some (ws', sid)" and "sc_key s \<noteq> []" "sc_abs_path s \<noteq> []"
  with insert_script_texts [OF ins] show "texts_ok ws'" unfolding texts_ok_def by auto
next
  fix ws ws' db i
  assume "texts_ok ws" "intern_database ws db = Some (ws', i)"
  then show "texts_ok ws'"
    using intern_database_names_wf [of ws db ws' i] intern_database_frame [of ws db ws' i] by (auto simp: texts_ok_def)
qed (auto simp: texts_ok_def invalidate_transition_paths_def push_object_def Let_def dest: push_transition_staging_frame
    split: if_splits)

text \<open>
  The staged transitions linked to their rows by \<open>compact_transitions\<close>: rows and scripts exist, the
  ordinals are still staged.
\<close>

definition transitions_wf :: "nat \<Rightarrow> nat \<Rightarrow> (nat \<times> transition_entry list) list \<Rightarrow> bool" where
  "transitions_wf n m trs \<longleftrightarrow> (\<forall>(r, es) \<in> set trs. 0 < r \<and> r \<le> n
     \<and> (\<forall>e \<in> set es. te_staging_ord e \<noteq> None \<and> 0 < te_script_id e \<and> te_script_id e \<le> m))"

lemma index_rows_range:
  "index_rows f i ks idx x = Some v \<Longrightarrow> i + length ks < 2 ^ 32 \<Longrightarrow> idx x = Some v \<or> (0 < v \<and> v \<le> i + length ks)"
proof (induction ks arbitrary: i idx)
  case (Cons k ks)
  from Cons.prems(2) have e: "as_u32 (i + 1) = Suc i" by simp
  from Cons.prems(1) have "index_rows f (Suc i) ks (idx(f k \<mapsto> Suc i)) x = Some v"
    unfolding index_rows.simps e .
  from Cons.IH [OF this] Cons.prems(2) show ?case by (auto split: if_splits)
qed simp

lemma link_staged_wf:
  assumes "\<forall>k r. index k = Some r \<longrightarrow> 0 < r \<and> r \<le> m" and "e \<in> set (link_staged index entries)"
  shows "te_staging_ord e \<noteq> None \<and> 0 < te_script_id e \<and> te_script_id e \<le> m"
  using assms by (force simp: link_staged_def List.map_filter_def new_staging_transition_def)

lemma transitions_wf_update:
  assumes old: "transitions_wf n m trs" and ids: "\<forall>k r. index k = Some r \<longrightarrow> 0 < r \<and> r \<le> m" and r: "0 < r" "r \<le> n"
  shows "transitions_wf n m (AList.update r (link_staged index entries) trs)"
proof -
  have sub: "set (AList.update r v trs) \<subseteq> insert (r, v) (set trs)" for v
    by (induction trs) auto
  have new: "\<forall>e \<in> set (link_staged index entries). te_staging_ord e \<noteq> None \<and> 0 < te_script_id e \<and> te_script_id e \<le> m"
    by (rule ballI, rule link_staged_wf [OF ids])
  show ?thesis unfolding transitions_wf_def
  proof (rule ballI)
    fix x assume "x \<in> set (AList.update r (link_staged index entries) trs)"
    then have "x \<in> insert (r, link_staged index entries) (set trs)" by (rule subsetD [OF sub])
    then have "x = (r, link_staged index entries) \<or> x \<in> set trs" unfolding insert_iff .
    then show "case x of (r, es) \<Rightarrow> 0 < r \<and> r \<le> n
       \<and> (\<forall>e \<in> set es. te_staging_ord e \<noteq> None \<and> 0 < te_script_id e \<and> te_script_id e \<le> m)"
    proof
      assume "x = (r, link_staged index entries)"
      then show ?thesis using r new by simp
    next
      assume "x \<in> set trs"
      then show ?thesis using old unfolding transitions_wf_def by (rule bspec [rotated])
    qed
  qed
qed

lemma compact_staged_keeps:
  assumes rows: "\<forall>k r. db_rows k = Some r \<longrightarrow> r \<le> n"
  shows "compact_staged fp db_rows ws staged = Some ws' \<Longrightarrow> texts_ok ws \<Longrightarrow> scripts_wf ws \<Longrightarrow>
   transitions_wf n (length (ws_script_rows ws)) (ws_transitions_by_row ws) \<Longrightarrow>
   texts_ok ws' \<and> transitions_wf n (length (ws_script_rows ws)) (ws_transitions_by_row ws')"
proof (induction staged arbitrary: ws)
  case (Cons x staged)
  obtain db key entries where x: "x = ((db, key), entries)" by (cases x) auto
  from Cons.prems(1) x obtain w i where I: "intern_database ws db = Some (w, i)"
    and rest: "compact_staged fp db_rows w staged = Some ws' \<or>
      (\<exists>r. db_rows (i, fp key) = Some r \<and> r \<noteq> 0 \<and>
      compact_staged fp db_rows (w\<lparr>ws_transitions_by_row := AList.update r
        (link_staged (ws_script_key_index w) entries) (ws_transitions_by_row w)\<rparr>) staged = Some ws')"
    by (auto simp: Let_def split: Option.bind_splits option.splits if_splits)
  obtain names where w: "w = ws\<lparr>ws_database_names := names\<rparr>" using intern_database_frame [OF I] by blast
  have ok: "texts_ok w" by (rule si.intern [OF Cons.prems(2) I])
  have sw: "scripts_wf (w\<lparr>ws_transitions_by_row := t\<rparr>)" "scripts_wf w" for t
    using Cons.prems(3) by (simp_all add: w scripts_wf_def)
  have ids: "\<forall>k r. ws_script_key_index w k = Some r \<longrightarrow> 0 < r \<and> r \<le> length (ws_script_rows ws)"
    using sw(2) by (simp add: w scripts_wf_def)
  from rest show ?case
  proof
    assume "compact_staged fp db_rows w staged = Some ws'"
    from Cons.IH [OF this ok sw(2)] Cons.prems(4) show ?thesis by (simp add: w)
  next
    assume "\<exists>r. db_rows (i, fp key) = Some r \<and> r \<noteq> 0 \<and>
      compact_staged fp db_rows (w\<lparr>ws_transitions_by_row := AList.update r
        (link_staged (ws_script_key_index w) entries) (ws_transitions_by_row w)\<rparr>) staged = Some ws'"
    then obtain r where r: "db_rows (i, fp key) = Some r" "r \<noteq> 0"
      and c: "compact_staged fp db_rows (w\<lparr>ws_transitions_by_row := AList.update r
        (link_staged (ws_script_key_index w) entries) (ws_transitions_by_row w)\<rparr>) staged = Some ws'" by blast
    have "texts_ok (w\<lparr>ws_transitions_by_row := t\<rparr>)" for t using ok by (simp add: texts_ok_def)
    moreover have "transitions_wf n (length (ws_script_rows ws)) (AList.update r
        (link_staged (ws_script_key_index w) entries) (ws_transitions_by_row w))"
      using Cons.prems(4) r rows by (intro transitions_wf_update ids) (auto simp: w)
    ultimately show ?thesis using Cons.IH [OF c _ sw(1)] by (simp add: w)
  qed
qed simp

lemma compact_transitions_keeps:
  assumes "compact_transitions fp ws = Some ws'" and "texts_ok ws" and "scripts_wf ws" and small: "object_count ws < 2 ^ 32"
  shows "texts_ok ws' \<and> transitions_wf (object_count ws) (length (ws_script_rows ws)) (ws_transitions_by_row ws')"
proof -
  let ?v = "ws\<lparr>ws_transitions_staging := [], ws_transitions_by_row := []\<rparr>"
  from assms(1) obtain keys where keys: "entry_keys ws = Some keys"
    and c: "compact_staged fp (index_rows (\<lambda>(db, k). (db, fp k)) 0 (zip (map oe_db_id (ws_object_entries ws)) keys) Map.empty)
      ?v (ws_transitions_staging ws) = Some ws'"
    by (auto simp: compact_transitions_def Let_def split: Option.bind_splits)
  have len: "length (zip (map oe_db_id (ws_object_entries ws)) keys) = object_count ws"
    using entry_keys_length [OF keys] by (simp add: object_count_def)
  have "\<forall>k r. index_rows (\<lambda>(db, k). (db, fp k)) 0 (zip (map oe_db_id (ws_object_entries ws)) keys) Map.empty k = Some r
      \<longrightarrow> r \<le> object_count ws"
    using index_rows_range [where i = 0 and idx = Map.empty and ks = "zip (map oe_db_id (ws_object_entries ws)) keys"] len small
    by fastforce
  from compact_staged_keeps [OF this c] assms(2,3) show ?thesis
    by (simp add: texts_ok_def scripts_wf_def transitions_wf_def)
qed

lemma settle_layout_staged:
  assumes set: "settle_layout fp v = Some ws" and "texts_ok v" and sw: "scripts_wf v" and small: "object_count v < 2 ^ 32"
  shows "texts_ok ws" and "transitions_wf (object_count v) (length (ws_script_rows v)) (ws_transitions_by_row ws)"
    and "scripts_wf ws" and "ws_ingest_keys ws = []"
proof -
  from set obtain u where u: "compact_transitions fp v = Some u"
    and reb: "rebuild_path_caches (invalidate_catalog_facts (clear_scan_staging u)) = Some ws"
    by (auto simp: settle_layout_def split: Option.bind_splits)
  have tu: "texts_ok u" "transitions_wf (object_count v) (length (ws_script_rows v)) (ws_transitions_by_row u)"
    using compact_transitions_keeps [OF u assms(2) sw small] by auto
  from compact_transitions_frame [OF u] obtain names trs where
    u': "u = v\<lparr>ws_transitions_staging := [], ws_database_names := names, ws_transitions_by_row := trs\<rparr>" by blast
  from rebuild_path_caches_Some [OF reb] obtain a b c where
    ws: "ws = (invalidate_catalog_facts (clear_scan_staging u))\<lparr>ws_transition_path_cache := a,
      ws_has_transition_paths_row := b, ws_object_path_cache := c\<rparr>" by blast
  have "scripts_wf u" using sw by (simp add: u' scripts_wf_def)
  then show "scripts_wf ws"
    by (auto simp: ws scripts_wf_def invalidate_catalog_facts_def clear_scan_staging_def clear_object_staging_def
        str_off_EMPTY_def Let_def)
  show "texts_ok ws" "transitions_wf (object_count v) (length (ws_script_rows v)) (ws_transitions_by_row ws)"
    "ws_ingest_keys ws = []"
    using tu by (auto simp: ws texts_ok_def invalidate_catalog_facts_def clear_scan_staging_def
        clear_object_staging_def Let_def)
qed

text \<open>The workspace a scan hands over is ready to be interned.\<close>

lemma finalized_staged_wf:
  assumes inv: "scan_inv w" and texts: "texts_ok w" and size: "scan_size w < 2 ^ 32" "object_count w < 2 ^ 32"
    and fin: "finalize_object_layout fp w = Some ws"
  shows "staged_wf ws \<and> transitions_wf (object_count ws) (length (ws_script_rows ws)) (ws_transitions_by_row ws)"
proof -
  from inv have sw: "scripts_wf w" and ow: "objects_wf w" by (auto simp: scan_inv_def)
  have "\<not> entries_are_interned (ws_object_entries w)"
    using ow by (auto simp: entries_are_interned_def objects_wf_def str_off_EMPTY_def)
  with fin obtain f where f: "finalize_sorted_entries fp (ws_object_entries w) (ws_ingest_keys w) = Some f"
    and ap: "apply_finalized_entries fp (w\<lparr>ws_object_entries := [], ws_ingest_keys := []\<rparr>) f = Some ws"
    by (auto simp: finalize_object_layout_def split: Option.bind_splits)
  let ?v = "w\<lparr>ws_object_entries := [], ws_ingest_keys := []\<rparr>\<lparr>ws_object_rows := fin_rows f, ws_key_index := fin_key_index f,
      ws_fp_index := fin_fp_index f, ws_object_entries := fin_entries f, ws_object_keys := fin_keys f\<rparr>"
  from ap have set: "settle_layout fp ?v = Some ws" by (simp add: apply_finalized_entries_def)
  note F = finalize_sorted_entries_Some [OF f]
  have "texts_ok ?v" "scripts_wf ?v" using texts sw by (simp_all add: texts_ok_def scripts_wf_def)
  moreover have cnt: "object_count ?v = object_count w" using F(2) by (simp add: object_count_def)
  ultimately have T: "texts_ok ws" "transitions_wf (object_count ?v) (length (ws_script_rows ?v)) (ws_transitions_by_row ws)"
    "scripts_wf ws" "ws_ingest_keys ws = []"
    using settle_layout_staged [OF set] size(2) by simp_all
  note S = settle_layout_Some [OF set]
  have "mset (fin_entries f) = mset (ws_object_entries w)"
    using F(1,2,4,5) by (metis map_snd_zip mset_map)
  then have "set (fin_entries f) = set (ws_object_entries w)" by (metis set_mset_mset)
  then have "\<forall>e \<in> set (ws_object_entries ws). 0 < oe_script_id e \<and> oe_script_id e \<le> length (ws_script_rows ws)"
    using ow S(1,5) by (auto simp: objects_wf_def)
  moreover have "length (ws_script_rows ws) < 2 ^ 32" using size S(5) by (simp add: scan_size_def)
  moreover from T(2) have "\<forall>(r, es) \<in> set (ws_transitions_by_row ws). \<forall>e \<in> set es. te_staging_ord e \<noteq> None"
    by (fastforce simp: transitions_wf_def)
  moreover have "object_count ?v = object_count ws" "length (ws_script_rows ?v) = length (ws_script_rows ws)"
    using S(1,5) by (simp_all add: object_count_def)
  ultimately show ?thesis
    using T F(1,2) S(1,2) unfolding staged_wf_def texts_ok_def by (simp add: object_count_def)
qed

lemma parsed_scripts_named:
  assumes "parse_objects sha par items = Inr parsed" and "par \<noteq> Some 0"
    and "\<forall>(rel, apath, data) \<in> set items. apath \<noteq> []"
  shows "\<forall>(it, p) \<in> set (zip items parsed). \<forall>k ob s. p = Some (k, ob, s) \<longrightarrow> sc_key s \<noteq> [] \<and> sc_abs_path s \<noteq> []"
proof clarify
  fix rel apath data k ob s
  assume at: "((rel, apath, data), Some (k, ob, s)) \<in> set (zip items parsed)"
  from assms(1,2) have "map (parse_item sha) items = map Inr parsed"
    by (simp add: parse_objects_seq collect_results_Inr)
  with at have "parse_item sha (rel, apath, data) = Inr (Some (k, ob, s))"
    by (metis (no_types, lifting) in_set_zip length_map nth_map fst_conv snd_conv)
  then have parse: "parse_object sha rel apath data = Inr (Some (k, ob, s))" by (simp add: parse_item_def)
  have "apath \<noteq> []" using assms(3) set_zip_leftD [OF at] by auto
  moreover from parse have "rel \<noteq> []" "sc_key s = script_key_from_path rel" "sc_abs_path s = apath"
    by (auto elim!: parse_object_Some)
  moreover from this have "script_key_from_path rel \<noteq> []"
    by (cases rel) (simp_all add: script_key_from_path_def replace_char_def)
  ultimately show "sc_key s \<noteq> [] \<and> sc_abs_path s \<noteq> []" by simp
qed

lemma scan_root_staged_wf:
  assumes scan: "scan_root sha fp par ws0 root tree = Some (Inr ws)"
    and "walk_sql tree = Inr entries" and "length entries < 2 ^ 31 - 1" and par: "par \<noteq> Some 0"
    and names: "names_wf (ws_database_names ws0)"
  shows "staged_wf ws \<and> transitions_wf (object_count ws) (length (ws_script_rows ws)) (ws_transitions_by_row ws)"
proof (rule scan_root_parts [OF assms(1-4)])
  fix w1 items parsed w2 schemas
  assume ent: "scan_entries sha root entries ((reset_layout ws0)\<lparr>ws_root := root\<rparr>) = Some (Inr (w1, items))"
    and parse: "parse_objects sha par items = Inr parsed"
    and mrg: "merge_objects (zip items parsed) w1 [] = Some (Inr (w2, schemas))"
    and fin: "finalize_object_layout fp (w2\<lparr>ws_schemas := sort_key se_name (map snd schemas)\<rparr>) = Some ws"
    and inv: "scan_inv w2" "scan_size w2 < 2 ^ 32" "object_count w2 < 2 ^ 32"
  have "texts_ok ((reset_layout ws0)\<lparr>ws_root := root\<rparr>)"
    using names by (cases "ws_database_names ws0")
      (simp_all add: texts_ok_def names_wf_def reset_layout_def invalidate_transition_paths_def invalidate_catalog_facts_def)
  from si.scan_entries_keeps [OF ent this] have w1: "texts_ok w1" "\<forall>(rel, apath, data) \<in> set items. apath \<noteq> []" by auto
  have "texts_ok w2"
    by (rule si.merge_objects_keeps [OF mrg w1(1) parsed_scripts_named [OF parse par w1(2)]])
  with inv fin show "staged_wf ws \<and> transitions_wf (object_count ws) (length (ws_script_rows ws)) (ws_transitions_by_row ws)"
    by (intro finalized_staged_wf [OF _ _ _ _ fin])
      (simp_all add: texts_ok_def scan_inv_def scan_size_def scripts_wf_def objects_wf_def object_ids_def object_count_def)
qed

end
