(* ===== verification/Populate_Total.thy ===== *)
theory Populate_Total
  imports Populate_Correct Git
begin

text \<open>
  \<open>scan::populate\<close> (\<open>scan/mod.rs\<close>) as a whole: scan, git preload, interning, path caches, layout digest.
  Every step after the scan is a lookup that panics when its string is not in the arena; the theorem here is
  that none does, and that the stored workspace still says what the files say, as long as every script lies
  under the directory of the database its object is filed under.
\<close>

subsection \<open>The git preload\<close>

lemma apply_batched_frame:
  assumes "apply_batched_lines pre cur lines remaining ws = (rem', ws')"
  shows "\<exists>g. ws' = ws\<lparr>ws_script_git_staging := g\<rparr>"
  using assms
proof (induction pre cur lines remaining ws rule: apply_batched_lines.induct)
  case (1 pre cur remaining ws)
  then show ?case by (intro exI [of _ "ws_script_git_staging ws"]) simp
next
  case (2 pre cur raw lines remaining ws)
  show ?case
  proof (cases "trim raw = []")
    case True
    with 2 show ?thesis by simp
  next
    case line: False
    show ?thesis
    proof (cases "parse_commit_line (trim raw)")
      case (Some meta)
      with 2 line show ?thesis by simp
    next
      case None
      with 2 line show ?thesis
        by (auto simp: Let_def apply_meta_def split: option.splits)
    qed
  qed
qed

lemma preload_remaining_ok:
  assumes wf: "scripts_wf ws"
  shows "\<exists>g'. preload_remaining h g targets ws = Some (ws\<lparr>ws_script_git_staging := g'\<rparr>)"
  using wf
proof (induction targets arbitrary: ws)
  case Nil
  show ?case by (intro exI [of _ "ws_script_git_staging ws"]) simp
next
  case (Cons x rest)
  obtain p key where x: "x = (p, key)" by (cases x)
  show ?case
  proof (cases "ws_script_key_index ws key")
    case None
    with Cons x show ?thesis by simp
  next
    case (Some sid)
    with Cons.prems have sid: "0 < sid" "sid \<le> length (ws_script_rows ws)" by (auto simp: scripts_wf_def)
    then have "sid - 1 < length (ws_ingest_script_abs ws)" using Cons.prems by (auto simp: scripts_wf_def)
    then obtain apath where ap: "script_abs_path ws sid = Some apath"
      using sid(1) by (simp add: staged_script_path(2) [OF Cons.prems] nth_opt_def)
    define w where "w = (case git_info_file h g apath of Some meta \<Rightarrow> apply_meta sid meta ws | None \<Rightarrow> ws)"
    have "\<exists>g1. w = ws\<lparr>ws_script_git_staging := g1\<rparr>"
      by (cases "git_info_file h g apath")
        (auto simp: w_def apply_meta_def intro: exI [of _ "ws_script_git_staging ws"])
    then obtain g1 where w: "w = ws\<lparr>ws_script_git_staging := g1\<rparr>" by blast
    then have "scripts_wf w" using Cons.prems by (simp add: scripts_wf_def)
    from Cons.IH [OF this] obtain g2 where "preload_remaining h g rest w = Some (w\<lparr>ws_script_git_staging := g2\<rparr>)" by blast
    with x Some ap w show ?thesis by (intro exI [of _ g2]) (simp add: w_def [symmetric])
  qed
qed

lemma those_total: "None \<notin> set xs \<Longrightarrow> \<exists>ys. those xs = Some ys"
  using those_eq_None [of xs] by auto

lemma build_targets_ok:
  assumes "scripts_wf ws" and "length (ws_script_rows ws) < 2 ^ 32"
  shows "\<exists>ts. build_targets ws = Some ts"
proof -
  have "None \<notin> set (map (script_path ws) (map Suc [0..<length (ws_script_rows ws)]))"
    using assms(1) by (auto simp: staged_script_path(1) [OF assms(1)] nth_opt_def scripts_wf_def)
  then obtain paths where "those (map (script_path ws) (map Suc [0..<length (ws_script_rows ws)])) = Some paths"
    using those_total by blast
  then show ?thesis using assms(2) by (simp add: build_targets_def)
qed

lemma preload_ok:
  assumes "scripts_wf ws" and "length (ws_script_rows ws) < 2 ^ 32"
  shows "\<exists>g'. preload h g ws root = Some (ws\<lparr>ws_script_git_staging := g'\<rparr>)"
proof -
  have same: "\<exists>g'. Some ws = Some (ws\<lparr>ws_script_git_staging := g'\<rparr>)"
    by (intro exI [of _ "ws_script_git_staging ws"]) simp
  obtain ts where ts: "build_targets ws = Some ts" using build_targets_ok [OF assms] by blast
  show ?thesis
  proof (cases "\<not> has_git_repo h root \<or> ho_canonical h root = None \<or> ts = []")
    case True
    with same ts show ?thesis by (auto simp: preload_def split: option.split)
  next
    case False
    then obtain canon where canon: "has_git_repo h root" "ho_canonical h root = Some canon" "ts \<noteq> []" by auto
    define r where "r = (case batched_git_log h g (path_lossy canon) of
        Some out \<Rightarrow> apply_batched out (sql_path_prefix h root) ts ws | None \<Rightarrow> (ts, ws))"
    obtain remaining w where rw: "r = (remaining, w)" by (cases r)
    have "\<exists>g1. w = ws\<lparr>ws_script_git_staging := g1\<rparr>"
    proof (cases "batched_git_log h g (path_lossy canon)")
      case None
      with rw r_def show ?thesis by (intro exI [of _ "ws_script_git_staging ws"]) simp
    next
      case (Some out)
      with rw r_def show ?thesis by (intro apply_batched_frame) (simp add: apply_batched_def)
    qed
    then obtain g1 where w: "w = ws\<lparr>ws_script_git_staging := g1\<rparr>" by blast
    then have "scripts_wf w" using assms(1) by (simp add: scripts_wf_def)
    from preload_remaining_ok [OF this, of h g remaining] obtain g2 where
      "preload_remaining h g remaining w = Some (w\<lparr>ws_script_git_staging := g2\<rparr>)" by blast
    with canon ts rw w show ?thesis by (intro exI [of _ g2]) (simp add: preload_def r_def [symmetric])
  qed
qed

lemma staged_wf_git [simp]: "staged_wf (ws\<lparr>ws_script_git_staging := g\<rparr>) = staged_wf ws"
  by (simp add: staged_wf_def scripts_wf_def object_count_def)

subsection \<open>The path caches of an interned workspace\<close>

lemma paths_by_row_loop_ok:
  assumes "\<forall>(r, es) \<in> set trs. 0 < r \<and> row_transition_paths ws r es \<noteq> None"
  shows "\<exists>out'. paths_by_row_loop ws trs out = Some out'"
  using assms
proof (induction trs arbitrary: out)
  case (Cons x trs)
  obtain r es where x: "x = (r, es)" by (cases x)
  with Cons.prems obtain paths where "0 < r" "row_transition_paths ws r es = Some paths" by auto
  with Cons x show ?case by simp
qed simp

lemma row_transition_paths_ok:
  assumes "r - 1 < object_count ws" and "\<forall>e \<in> set es. \<exists>ord p. transition_ord ws e = Some ord
      \<and> script_path ws (te_script_id e) = Some p
      \<and> from_arena ws (with_database_prefix (database_name ws (oe_db_id (ws_object_entries ws ! (r - 1)))) p) \<noteq> None"
  shows "row_transition_paths ws r es \<noteq> None"
proof -
  let ?db = "database_name ws (oe_db_id (ws_object_entries ws ! (r - 1)))"
  obtain rows where rows: "those (map (\<lambda>e. do { ord \<leftarrow> transition_ord ws e; path \<leftarrow> script_path ws (te_script_id e);
      Some (ord, with_database_prefix ?db path) }) es) = Some rows"
    and "list_all2 (\<lambda>e (ord, p). from_arena ws p \<noteq> None) es rows"
    using those_map_total [of es "\<lambda>e. do { ord \<leftarrow> transition_ord ws e; path \<leftarrow> script_path ws (te_script_id e);
      Some (ord, with_database_prefix ?db path) }" "\<lambda>e (ord, p). from_arena ws p \<noteq> None"] assms(2) by fastforce
  then have "\<forall>x \<in> set rows. from_arena ws (snd x) \<noteq> None"
    by (fastforce simp: list_all2_conv_all_nth in_set_conv_nth)
  then have "None \<notin> set (map (\<lambda>(ord, p). from_arena ws p) (sort_key fst rows))" by force
  from those_total [OF this] rows assms(1) show ?thesis
    by (auto simp: row_transition_paths_def nth_opt_def object_count_def Let_def)
qed

lemma rebuild_path_caches_ok:
  assumes objects: "\<forall>e \<in> set (ws_object_entries ws). \<exists>p. object_layout_path ws e = Some p \<and> from_arena ws p \<noteq> None"
    and rows: "\<forall>(r, es) \<in> set (ws_transitions_by_row ws). 0 < r \<and> row_transition_paths ws r es \<noteq> None"
  shows "\<exists>ws'. rebuild_path_caches ws = Some ws'"
proof -
  have "\<exists>w. rebuild_transition_path_cache ws = Some w"
    using paths_by_row_loop_ok [OF rows, of "[]"]
    by (cases "ws_layout_arena ws") (auto simp: rebuild_transition_path_cache_def paths_by_row_def)
  then obtain w where w: "rebuild_transition_path_cache ws = Some w" by blast
  from rebuild_transition_frame [OF w] obtain a b where
    f: "w = ws\<lparr>ws_transition_path_cache := a, ws_has_transition_paths_row := b\<rparr>" by blast
  have same: "object_layout_path w e = object_layout_path ws e" "from_arena w p = from_arena ws p" for e p
    by (simp_all add: f object_layout_path_def script_path_def database_name_def from_arena_def ws_str_at_def
        cong: if_cong)
  have "None \<notin> set (map (\<lambda>obj. do { p \<leftarrow> object_layout_path w obj; from_arena w p }) (ws_object_entries w))"
    using objects unfolding same by (force simp: f)
  from those_total [OF this] have "\<exists>ws'. rebuild_object_path_cache w = Some ws'"
    by (auto simp: rebuild_object_path_cache_def)
  with w show ?thesis by (simp add: rebuild_path_caches_def)
qed

text \<open>
  Every script lies under the directory of the database its object is filed under, in the casing the
  workspace keeps for that database.
\<close>

definition own_paths :: "workspace \<Rightarrow> bool" where
  "own_paths ws \<longleftrightarrow>
     (\<forall>e \<in> set (ws_object_entries ws). \<forall>p. script_path ws (oe_script_id e) = Some p
        \<longrightarrow> object_path_for_entry (database_name ws (oe_db_id e)) p = p)
     \<and> (\<forall>(r, es) \<in> set (ws_transitions_by_row ws). \<forall>e \<in> set es. \<forall>p. script_path ws (te_script_id e) = Some p
        \<longrightarrow> with_database_prefix (database_name ws (oe_db_id (ws_object_entries ws ! (r - 1)))) p = p)"

lemma kept_entry:
  assumes "texts_kept ws v" and "i < object_count v"
  shows "i < object_count ws"
    and "database_name v (oe_db_id (ws_object_entries v ! i)) = database_name ws (oe_db_id (ws_object_entries ws ! i))"
    and "oe_script_id (ws_object_entries v ! i) = oe_script_id (ws_object_entries ws ! i)"
proof -
  from assms(1) have d: "map (\<lambda>e. database_name v (oe_db_id e)) (ws_object_entries v)
        = map (\<lambda>e. database_name ws (oe_db_id e)) (ws_object_entries ws)"
    and s: "map oe_script_id (ws_object_entries v) = map oe_script_id (ws_object_entries ws)"
    by (simp_all add: texts_kept_def)
  from s have len: "length (ws_object_entries v) = length (ws_object_entries ws)" by (rule map_eq_imp_length_eq)
  with assms(2) show i: "i < object_count ws" by (simp add: object_count_def)
  show "database_name v (oe_db_id (ws_object_entries v ! i)) = database_name ws (oe_db_id (ws_object_entries ws ! i))"
    "oe_script_id (ws_object_entries v ! i) = oe_script_id (ws_object_entries ws ! i)"
    using arg_cong [OF d, of "\<lambda>xs. xs ! i"] arg_cong [OF s, of "\<lambda>xs. xs ! i"] i len by (simp_all add: object_count_def)
qed

lemma kept_transition:
  assumes "texts_kept ws v" and "(r, es') \<in> set (ws_transitions_by_row v)"
  obtains es where "(r, es) \<in> set (ws_transitions_by_row ws)"
    and "\<forall>e' \<in> set es'. \<exists>e \<in> set es. transition_ord v e' = transition_ord ws e \<and> te_script_id e' = te_script_id e"
proof -
  let ?f = "\<lambda>w (r, es). (r, map (\<lambda>e. (transition_ord w e, te_script_id e)) es)"
  have "map (?f v) (ws_transitions_by_row v) = map (?f ws) (ws_transitions_by_row ws)"
    using assms(1) by (simp add: texts_kept_def)
  then have "?f v ` set (ws_transitions_by_row v) = ?f ws ` set (ws_transitions_by_row ws)"
    by (metis (no_types, lifting) set_map)
  moreover have "?f v (r, es') \<in> ?f v ` set (ws_transitions_by_row v)" using assms(2) by (rule imageI)
  ultimately have "?f v (r, es') \<in> ?f ws ` set (ws_transitions_by_row ws)" by simp
  then obtain es where at: "(r, es) \<in> set (ws_transitions_by_row ws)"
    and m: "map (\<lambda>e. (transition_ord v e, te_script_id e)) es' = map (\<lambda>e. (transition_ord ws e, te_script_id e)) es"
    by auto
  have "\<exists>e \<in> set es. transition_ord v e' = transition_ord ws e \<and> te_script_id e' = te_script_id e" if "e' \<in> set es'" for e'
  proof -
    have "(transition_ord v e', te_script_id e') \<in> set (map (\<lambda>e. (transition_ord v e, te_script_id e)) es')"
      using that by simp
    then show ?thesis unfolding m by auto
  qed
  with at that show thesis by blast
qed

lemma interned_path:
  assumes sw: "scripts_wf ws" and kept: "texts_kept ws v" and arena: "ws_layout_arena v = Some a"
    and known: "\<forall>s \<in> workspace_strings ws. arena_get a s = Some s"
    and "0 < sid" "sid \<le> length (ws_script_rows ws)"
  obtains p where "script_path v sid = Some p" "script_path ws sid = Some p" "from_arena v p \<noteq> None"
proof -
  let ?p = "ws_ingest_script_keys ws ! (sid - 1)"
  have i: "sid - 1 < length (ws_ingest_script_keys ws)" using assms(5,6) sw by (auto simp: scripts_wf_def)
  then have p: "script_path ws sid = Some ?p"
    using assms(5) by (simp add: staged_script_path(1) [OF sw] nth_opt_def)
  have "?p \<in> workspace_strings ws" using i by (simp add: workspace_strings_def)
  with known have "arena_get a ?p \<noteq> None" by auto
  then have "from_arena v ?p \<noteq> None"
    by (auto simp: from_arena_def arena arena_get_def split: Option.bind_splits)
  with p kept that show thesis by (auto simp: texts_kept_def)
qed

lemma interned_row_paths:
  assumes sw: "scripts_wf ws" and kept: "texts_kept ws v" and arena: "ws_layout_arena v = Some a"
    and known: "\<forall>s \<in> workspace_strings ws. arena_get a s = Some s"
    and trs: "transitions_wf (object_count ws) (length (ws_script_rows ws)) (ws_transitions_by_row ws)"
    and own: "own_paths ws" and at': "(r, es') \<in> set (ws_transitions_by_row v)"
  shows "0 < r \<and> row_transition_paths v r es' \<noteq> None"
proof -
  from kept_transition [OF kept at'] obtain es where at: "(r, es) \<in> set (ws_transitions_by_row ws)"
    and sim: "\<forall>e' \<in> set es'. \<exists>e \<in> set es. transition_ord v e' = transition_ord ws e \<and> te_script_id e' = te_script_id e" .
  from trs at have r: "0 < r" "r \<le> object_count ws" and es: "\<forall>e \<in> set es. te_staging_ord e \<noteq> None \<and> 0 < te_script_id e
      \<and> te_script_id e \<le> length (ws_script_rows ws)" by (auto simp: transitions_wf_def)
  have "length (ws_object_entries v) = length (ws_object_entries ws)"
    using kept by (auto simp: texts_kept_def dest: map_eq_imp_length_eq)
  with r have r1: "r - 1 < object_count v" by (simp add: object_count_def)
  have "row_transition_paths v r es' \<noteq> None"
  proof (rule row_transition_paths_ok [OF r1], rule ballI)
    fix e' assume "e' \<in> set es'"
    with sim obtain e where e: "e \<in> set es" "transition_ord v e' = transition_ord ws e" "te_script_id e' = te_script_id e" by blast
    from es e(1) obtain ord where ord: "te_staging_ord e = Some ord" by blast
    from es e(1) have ids: "0 < te_script_id e" "te_script_id e \<le> length (ws_script_rows ws)" by auto
    obtain p where p: "script_path v (te_script_id e) = Some p"
      "script_path ws (te_script_id e) = Some p" "from_arena v p \<noteq> None"
      by (rule interned_path [OF sw kept arena known ids])
    have "with_database_prefix (database_name ws (oe_db_id (ws_object_entries ws ! (r - 1)))) p = p"
      using own at e(1) p(2) unfolding own_paths_def by blast
    with p e ord show "\<exists>ord p. transition_ord v e' = Some ord \<and> script_path v (te_script_id e') = Some p
      \<and> from_arena v (with_database_prefix (database_name v (oe_db_id (ws_object_entries v ! (r - 1)))) p) \<noteq> None"
      unfolding kept_entry(2) [OF kept r1] by (simp add: transition_ord_def)
  qed
  with r(1) show ?thesis by simp
qed

lemma interned_caches_ok:
  assumes wf: "staged_wf ws" and trs: "transitions_wf (object_count ws) (length (ws_script_rows ws)) (ws_transitions_by_row ws)"
    and own: "own_paths ws" and kept: "texts_kept ws v" and arena: "ws_layout_arena v = Some a"
    and known: "\<forall>s \<in> workspace_strings ws. arena_get a s = Some s"
  shows "\<exists>v'. rebuild_path_caches v = Some v'"
proof (rule rebuild_path_caches_ok)
  have sw: "scripts_wf ws" using wf by (simp add: staged_wf_def)
  show "\<forall>e \<in> set (ws_object_entries v). \<exists>p. object_layout_path v e = Some p \<and> from_arena v p \<noteq> None"
  proof
    fix e assume "e \<in> set (ws_object_entries v)"
    then obtain i where i: "i < object_count v" "e = ws_object_entries v ! i" by (auto simp: in_set_conv_nth object_count_def)
    note k = kept_entry [OF kept i(1)]
    have at: "ws_object_entries ws ! i \<in> set (ws_object_entries ws)" using k(1) by (simp add: object_count_def)
    then have ids: "0 < oe_script_id e" "oe_script_id e \<le> length (ws_script_rows ws)"
      using wf k(3) i(2) by (auto simp: staged_wf_def)
    obtain p where p: "script_path v (oe_script_id e) = Some p" "script_path ws (oe_script_id e) = Some p" "from_arena v p \<noteq> None"
      by (rule interned_path [OF sw kept arena known ids])
    have "object_path_for_entry (database_name v (oe_db_id e)) p = p"
      using own at p(2) k(2,3) i(2) by (auto simp: own_paths_def)
    with p show "\<exists>p. object_layout_path v e = Some p \<and> from_arena v p \<noteq> None" by (simp add: object_layout_path_def)
  qed
  show "\<forall>(r, es) \<in> set (ws_transitions_by_row v). 0 < r \<and> row_transition_paths v r es \<noteq> None"
    using interned_row_paths [OF sw kept arena known trs own] by blast
qed

subsection \<open>The whole of populate\<close>

lemma text_frame:
  "script_path (v\<lparr>ws_transition_path_cache := a, ws_has_transition_paths_row := b, ws_object_path_cache := c\<rparr>) = script_path v"
  "script_abs_path (v\<lparr>ws_transition_path_cache := a, ws_has_transition_paths_row := b, ws_object_path_cache := c\<rparr>) = script_abs_path v"
  "script_path (v\<lparr>ws_script_git := m\<rparr>) = script_path v"
  "script_abs_path (v\<lparr>ws_script_git := m\<rparr>) = script_abs_path v"
  "script_path (v\<lparr>ws_layout_digest := d\<rparr>) = script_path v"
  "script_abs_path (v\<lparr>ws_layout_digest := d\<rparr>) = script_abs_path v"
  "script_path (v\<lparr>ws_script_git_staging := g\<rparr>) = script_path v"
  "script_abs_path (v\<lparr>ws_script_git_staging := g\<rparr>) = script_abs_path v"
  by (simp_all add: fun_eq_iff script_path_def script_abs_path_def ws_str_at_def cong: if_cong)

lemma ord_frame:
  "transition_ord (v\<lparr>ws_transition_path_cache := a, ws_has_transition_paths_row := b, ws_object_path_cache := c\<rparr>) = transition_ord v"
  "transition_ord (v\<lparr>ws_script_git := m\<rparr>) = transition_ord v"
  "transition_ord (v\<lparr>ws_layout_digest := d\<rparr>) = transition_ord v"
  "transition_ord (v\<lparr>ws_script_git_staging := g\<rparr>) = transition_ord v"
  by (simp_all add: fun_eq_iff transition_ord_def ws_str_at_def split: option.split)

lemmas texts_frame = texts_kept_def text_frame ord_frame database_name_def

lemma texts_kept_frame:
  "texts_kept ws v \<Longrightarrow>
   texts_kept ws (v\<lparr>ws_transition_path_cache := a, ws_has_transition_paths_row := b, ws_object_path_cache := c\<rparr>)"
  "texts_kept ws v \<Longrightarrow> texts_kept ws (v\<lparr>ws_script_git := m, ws_script_git_staging := g\<rparr>)"
  "texts_kept ws v \<Longrightarrow> texts_kept ws (v\<lparr>ws_layout_digest := d\<rparr>)"
  "texts_kept (ws\<lparr>ws_script_git_staging := g\<rparr>) v \<Longrightarrow> texts_kept ws v"
  by (simp_all add: texts_frame)

lemma kept_digest:
  assumes "scripts_wf ws" and "texts_kept ws v"
  shows "layout_digest sha v = Some (sha (layout_preimage (ws_ingest_script_keys ws)))"
proof -
  have "map (\<lambda>i. script_path v (i + 1)) [0..<length (ws_script_rows v)] = map Some (ws_ingest_script_keys ws)"
    using assms by (intro nth_equalityI)
      (auto simp: texts_kept_def staged_script_path(1) [OF assms(1)] nth_opt_def scripts_wf_def)
  then show ?thesis by (simp add: layout_digest_def those_eq_Some [THEN iffD2])
qed

lemma store_scanned:
  assumes wf: "staged_wf ws" and trs: "transitions_wf (object_count ws) (length (ws_script_rows ws)) (ws_transitions_by_row ws)"
    and own: "own_paths ws" and reg: "registered_strings ws = Some ss"
    and size: "sum_list (map length ss) < 2 ^ 32" and utf: "\<forall>s \<in> set ss. is_utf8 s"
  obtains v w where "intern_workspace_strings fp ws = Some v" "rebuild_path_caches v = Some w" "texts_kept ws w"
    and "ws_script_git_staging w = []"
proof -
  from intern_workspace_ok [OF wf reg size utf, of fp] obtain v a where
    v: "intern_workspace_strings fp ws = Some v" "texts_kept ws v" "ws_layout_arena v = Some a" "ws_script_git_staging v = []"
      "\<forall>s \<in> workspace_strings ws. arena_get a s = Some s" by auto
  from interned_caches_ok [OF wf trs own v(2,3,5)] obtain w where w: "rebuild_path_caches v = Some w" by blast
  from rebuild_path_caches_Some [OF w] obtain b c d where
    f: "w = v\<lparr>ws_transition_path_cache := b, ws_has_transition_paths_row := c, ws_object_path_cache := d\<rparr>" by blast
  from v(2) have "texts_kept ws w" unfolding f by (rule texts_kept_frame)
  with v w f that show thesis by simp
qed

lemma apply_no_git: "ws_script_git_staging w = [] \<Longrightarrow> \<exists>m. apply_script_git_offs w = Some (w\<lparr>ws_script_git := m, ws_script_git_staging := []\<rparr>)"
  by (cases "ws_layout_arena w") (auto simp: apply_script_git_offs_def intro: exI [of _ "ws_script_git w"])

text \<open>
  C8: \<open>populate\<close> (\<open>scan/mod.rs\<close>) stores what was scanned: when the scan succeeds and every script lies under the
  directory of its database, the steps after it (git preload, interning into the arena, path caches,
  layout digest) all return, with or without git, none of their arena lookups panics, the stored workspace has
  the object keys, databases, script paths, schemas and transitions the scan found, and its digest is the hash
  of the scanned script paths. The strings registered must be UTF-8 and fit the arena's 32-bit offsets.
\<close>

theorem populate_stores_the_scan:
  assumes scan: "scan_root sha fp par ws0 root tree = Some (Inr ws)"
    and "walk_sql tree = Inr entries" and "length entries < 2 ^ 31 - 1" and "par \<noteq> Some 0"
    and "names_wf (ws_database_names ws0)" and own: "own_paths ws"
    and pre: "(if skip_git then Some ws else preload h g ws root) = Some ws2"
    and reg: "registered_strings ws2 = Some ss"
    and size: "sum_list (map length ss) < 2 ^ 32" and utf: "\<forall>s \<in> set ss. is_utf8 s"
  shows "\<exists>ws'. populate sha fp par h g ws0 root tree skip_git = Some (Inr ws') \<and> texts_kept ws ws'
    \<and> ws_layout_digest ws' = sha (layout_preimage (ws_ingest_script_keys ws))"
proof -
  have wf: "staged_wf ws" and trs: "transitions_wf (object_count ws) (length (ws_script_rows ws)) (ws_transitions_by_row ws)"
    using scan_root_staged_wf [OF assms(1-5)] by auto
  then have sw: "scripts_wf ws" "length (ws_script_rows ws) < 2 ^ 32" by (simp_all add: staged_wf_def)
  have "\<exists>g'. ws2 = ws\<lparr>ws_script_git_staging := g'\<rparr>"
  proof (cases skip_git)
    case True
    with pre show ?thesis by (intro exI [of _ "ws_script_git_staging ws"]) simp
  next
    case False
    with pre preload_ok [OF sw, of h g root] show ?thesis by auto
  qed
  then obtain g' where ws2: "ws2 = ws\<lparr>ws_script_git_staging := g'\<rparr>" by blast
  have wf2: "staged_wf ws2" and trs2: "transitions_wf (object_count ws2) (length (ws_script_rows ws2)) (ws_transitions_by_row ws2)"
    and own2: "own_paths ws2"
    using wf trs own by (simp_all add: ws2 object_count_def own_paths_def text_frame database_name_def)
  obtain v w where v: "intern_workspace_strings fp ws2 = Some v" "rebuild_path_caches v = Some w" "texts_kept ws2 w"
    "ws_script_git_staging w = []" by (rule store_scanned [OF wf2 trs2 own2 reg size utf])
  from v(3) have kept: "texts_kept ws w" unfolding ws2 by (rule texts_kept_frame)
  obtain m where m: "apply_script_git_offs w = Some (w\<lparr>ws_script_git := m, ws_script_git_staging := []\<rparr>)"
    using apply_no_git [OF v(4)] by blast
  define u where "u = (if skip_git then w else w\<lparr>ws_script_git := m, ws_script_git_staging := []\<rparr>)"
  have u: "texts_kept ws u" using kept texts_kept_frame(2) [OF kept] by (simp add: u_def)
  have "populate sha fp par h g ws0 root tree skip_git
      = Some (Inr (u\<lparr>ws_layout_digest := sha (layout_preimage (ws_ingest_script_keys ws))\<rparr>))"
    using v(1,2) pre m kept_digest [OF sw(1) u] by (cases skip_git) (simp_all add: populate_def scan u_def)
  with texts_kept_frame(3) [OF u] show ?thesis by simp
qed

text \<open>The tree of one view, scanned and stored.\<close>

definition bare_host :: "unit host" where
  "bare_host = \<lparr>ho_getenv = (\<lambda>n. None), ho_git = (\<lambda>g a. None), ho_git_fetch = (\<lambda>g a. g), ho_canonical = (\<lambda>p. None),
     ho_exists = (\<lambda>p. False), ho_read_to_string = (\<lambda>p. None), ho_pr_base_sha = (\<lambda>p. None)\<rparr>"

definition sample_strings :: "string list" where
  "sample_strings = [''dbo/views/v'', ''db'', ''db/dbo/views/V.sql'', ''db/dbo/views/V.sql'', ''/r/db/dbo/views/V.sql'',
     ''db'', ''dbo'', ''dbo'']"

lemma sample_strings_ok: "\<forall>s \<in> set sample_strings. is_utf8 s" "sum_list (map length sample_strings) < 100"
  by code_simp+

lemma sample_facts:
  "schema_part ''dbo/views/v'' = ''dbo''"
  "hd (split_on (CHR ''/'') ''db/dbo/views/V.sql'') = ''db''"
  "record_schema ''db'' ''dbo'' [] = [((''db'', ''dbo''), \<lparr>se_database = ''db'', se_name = ''dbo'', se_normalized = ''dbo''\<rparr>)]"
  "eq_ignore_ascii_case [] ''db'' = False"
  "object_path_for_entry ''db'' ''db/dbo/views/V.sql'' = ''db/dbo/views/V.sql''"
  by code_simp+

lemmas scan_eval = reset_layout_def workspace_default_def finalize_object_layout_def Let_def
  invalidate_catalog_facts_def invalidate_transition_paths_def entries_are_interned_def finalize_sorted_entries_def
  apply_finalized_entries_def settle_layout_def compact_transitions_def entry_keys_def object_count_def
  clear_object_staging_def clear_scan_staging_def rebuild_path_caches_def rebuild_transition_path_cache_def
  rebuild_object_path_cache_def intern_database_def push_object_def as_u16_def entry_key_def nth_opt_def

lemmas strings_eval = registered_strings_def object_count_def script_strings_def object_strings_def entry_key_def
  nth_opt_def git_strings_def transition_strings_def schema_strings_def database_name_def set_db_exists_def
  script_path_def script_abs_path_def str_off_EMPTY_def

lemma sample_scanned:
  "\<exists>ws. scan_root rev length None workspace_default ''/r'' sample_tree = Some (Inr ws)
     \<and> registered_strings ws = Some sample_strings \<and> own_paths ws"
  apply (simp add: scan_root_def Let_def sample_walk sample_entries sample_parse outcome_simps del: scan_entries.simps)
  apply (simp add: sample_item_def sample_parsed_def insert_parsed_object_def insert_script_def into_parts_def outcome_simps)
  apply (simp add: sample_facts outcome_simps scan_eval)
  apply (simp add: sample_strings_def own_paths_def sample_facts strings_eval)
  done

theorem populate_stores_the_scan_witness:
  "\<exists>ws ws'. scan_root rev length None workspace_default ''/r'' sample_tree = Some (Inr ws)
     \<and> populate rev length None bare_host () workspace_default ''/r'' sample_tree True = Some (Inr ws')
     \<and> texts_kept ws ws' \<and> ws_layout_digest ws' = rev (layout_preimage (ws_ingest_script_keys ws))"
proof -
  from sample_scanned obtain ws where ws: "scan_root rev length None workspace_default ''/r'' sample_tree = Some (Inr ws)"
    "registered_strings ws = Some sample_strings" "own_paths ws" by blast
  have names: "names_wf (ws_database_names workspace_default)" by (simp add: names_wf_def workspace_default_def)
  have "\<exists>ws'. populate rev length None bare_host () workspace_default ''/r'' sample_tree True = Some (Inr ws')
     \<and> texts_kept ws ws' \<and> ws_layout_digest ws' = rev (layout_preimage (ws_ingest_script_keys ws))"
    by (rule populate_stores_the_scan [OF ws(1) sample_walk _ _ names ws(3) _ ws(2)])
      (use sample_strings_ok in simp_all)
  with ws(1) show ?thesis by blast
qed

end
