(* ===== verification/Plan_Data.thy ===== *)
theory Plan_Data
  imports Layout
begin

section \<open>Catalog state, prior checksums and the plan document\<close>

text \<open>
  The data the planner works on: \<open>db/state.rs\<close> (what SQL Server reported),
  \<open>db/checksum_map.rs\<close> (what the audit history recorded), \<open>export/plan_json/types.rs\<close>,
  \<open>export/plan_side.rs\<close> and the materialization of \<open>export/materialize\<close>. Hash maps
  whose entries are iterated are association lists; a set is the list of its elements.
\<close>

subsection \<open>The catalog\<close>

record catalog_object =
  co_schema :: string
  co_kind :: string
  co_name :: string
  co_parent :: "string option"

record catalog_state =
  cat_schemas :: "string list"
  cat_objects :: "(string \<times> catalog_object) list"

definition catalog_object_new :: "string \<Rightarrow> string \<Rightarrow> string \<Rightarrow> string option \<Rightarrow> catalog_object" where
  "catalog_object_new schema kind name parent =
     \<lparr>co_schema = schema, co_kind = kind, co_name = name,
      co_parent = (case parent of Some p \<Rightarrow> if p = [] then None else Some p | None \<Rightarrow> None)\<rparr>"

definition catalog_object_parts :: "string \<Rightarrow> string \<Rightarrow> string \<Rightarrow> string option \<Rightarrow> catalog_object" where
  "catalog_object_parts schema kind name parent =
     \<lparr>co_schema = schema, co_kind = kind, co_name = name, co_parent = parent\<rparr>"

definition catalog_object_from_key :: "string \<Rightarrow> catalog_object" where
  "catalog_object_from_key key =
     \<lparr>co_schema = schema_part key, co_kind = kind_part key, co_name = name_part key, co_parent = None\<rparr>"

definition catalog_strings :: "catalog_state \<Rightarrow> string list" where
  "catalog_strings st =
     cat_schemas st
     @ concat (map (\<lambda>(k, ob). [co_schema ob, co_kind ob, co_name ob] @ opt_list (co_parent ob))
         (cat_objects st))"

definition intern_catalog_object :: "string_arena \<Rightarrow> catalog_object \<Rightarrow> catalog_object option" where
  "intern_catalog_object arena ob =
     do {
       s \<leftarrow> arena_get arena (co_schema ob);
       k \<leftarrow> arena_get arena (co_kind ob);
       n \<leftarrow> arena_get arena (co_name ob);
       p \<leftarrow> (case co_parent ob of None \<Rightarrow> Some None | Some q \<Rightarrow> map_option Some (arena_get arena q));
       Some \<lparr>co_schema = s, co_kind = k, co_name = n, co_parent = p\<rparr>
     }"

definition intern_catalog_state :: "catalog_state \<Rightarrow> catalog_state option" where
  "intern_catalog_state st =
     (if cat_objects st = [] \<and> cat_schemas st = [] then Some st
      else
        (let arena = finish_builder (foldl register builder_with_capacity (catalog_strings st)) in do {
          ss \<leftarrow> those (map (arena_get arena) (cat_schemas st));
          os \<leftarrow> those (map (\<lambda>(k, ob). map_option (Pair k) (intern_catalog_object arena ob)) (cat_objects st));
          Some \<lparr>cat_schemas = ss, cat_objects = os\<rparr>
        }))"

subsection \<open>Prior checksums\<close>

record checksum_map =
  cm_by_fp :: "(nat \<times> digest) list"
  cm_key_by_fp :: "(nat \<times> string) list"
  cm_drift :: "nat list"

definition checksum_map_new :: checksum_map where
  "checksum_map_new = \<lparr>cm_by_fp = [], cm_key_by_fp = [], cm_drift = []\<rparr>"

definition insert_normalized :: "(string \<Rightarrow> nat) \<Rightarrow> string \<Rightarrow> digest \<Rightarrow> checksum_map \<Rightarrow> checksum_map" where
  "insert_normalized fp key cs m =
     m\<lparr>cm_by_fp := AList.update (fp key) cs (cm_by_fp m),
       cm_key_by_fp := AList.update (fp key) key (cm_key_by_fp m)\<rparr>"

definition insert_key :: "(string \<Rightarrow> nat) \<Rightarrow> string \<Rightarrow> digest \<Rightarrow> checksum_map \<Rightarrow> checksum_map" where
  "insert_key fp key cs m =
     m\<lparr>cm_by_fp := AList.update (fp key) cs (cm_by_fp m),
       cm_key_by_fp := (if map_of (cm_key_by_fp m) (fp key) = None
                        then AList.update (fp key) key (cm_key_by_fp m) else cm_key_by_fp m)\<rparr>"

definition get_key :: "(string \<Rightarrow> nat) \<Rightarrow> checksum_map \<Rightarrow> string \<Rightarrow> digest option" where
  "get_key fp m key = map_of (cm_by_fp m) (fp key)"

definition mark_live_definition_drift :: "(string \<Rightarrow> nat) \<Rightarrow> string \<Rightarrow> checksum_map \<Rightarrow> checksum_map" where
  "mark_live_definition_drift fp key m = m\<lparr>cm_drift := List.insert (fp key) (cm_drift m)\<rparr>"

definition has_live_definition_drift :: "(string \<Rightarrow> nat) \<Rightarrow> checksum_map \<Rightarrow> string \<Rightarrow> bool" where
  "has_live_definition_drift fp m key \<longleftrightarrow> fp key \<in> set (cm_drift m)"

text \<open>
  The wire form written by \<open>Serialize\<close> and read by \<open>Deserialize\<close>, as (key, digest) pairs
  before and after the hexadecimal coding of the digest.
\<close>

definition checksum_map_wire :: "checksum_map \<Rightarrow> (string \<times> digest) list" where
  "checksum_map_wire m =
     map (\<lambda>(f, cs). (case map_of (cm_key_by_fp m) f of Some k \<Rightarrow> k | None \<Rightarrow> [], cs)) (cm_by_fp m)"

definition checksum_map_unwire :: "(string \<Rightarrow> nat) \<Rightarrow> (string \<times> digest) list \<Rightarrow> checksum_map" where
  "checksum_map_unwire fp wire = foldl (\<lambda>m (k, cs). insert_normalized fp k cs m) checksum_map_new wire"

subsection \<open>The plan document\<close>

record planned_schema =
  ps_action :: SchemaAction
  ps_name :: string

type_synonym plan_git_off = script_git

definition plan_git_is_empty :: "plan_git_off \<Rightarrow> bool" where
  "plan_git_is_empty g \<longleftrightarrow>
     snd (sg_hash_off g) = 0 \<and> snd (sg_author_off g) = 0 \<and> snd (sg_date_off g) = 0"

record planned_git =
  pg_hash :: string
  pg_author :: string
  pg_date :: string

record planned_object =
  po_normalized_key :: string
  po_object_path :: string
  po_schema_name :: string
  po_kind :: string
  po_object_name :: string
  po_database_name :: string
  po_parent_name :: string
  po_transition_paths :: "string list"
  po_git :: "planned_git option"
  po_checksum :: digest
  po_planned_action :: Action
  po_exists :: bool

record plan_summary =
  sum_schema_count :: nat
  sum_object_count :: nat
  sum_create_count :: nat
  sum_adopt_count :: nat
  sum_skip_count :: nat
  sum_changed_count :: nat
  sum_blocked_count :: nat

definition plan_summary_default :: plan_summary where
  "plan_summary_default =
     \<lparr>sum_schema_count = 0, sum_object_count = 0, sum_create_count = 0, sum_adopt_count = 0,
      sum_skip_count = 0, sum_changed_count = 0, sum_blocked_count = 0\<rparr>"

record migration_plan =
  mp_command :: string
  mp_planned_at :: string
  mp_blockers :: "string list"
  mp_schemas :: "planned_schema list"
  mp_rows :: "plan_row list"
  mp_plan_git :: "nat \<rightharpoonup> plan_git_off"
  mp_plan_transitions :: "nat \<rightharpoonup> str_off list"
  mp_objects :: "planned_object list"
  mp_summary :: plan_summary
  mp_blocked :: bool

definition migration_plan_default :: migration_plan where
  "migration_plan_default =
     \<lparr>mp_command = [], mp_planned_at = [], mp_blockers = [], mp_schemas = [], mp_rows = [],
      mp_plan_git = Map.empty, mp_plan_transitions = Map.empty, mp_objects = [],
      mp_summary = plan_summary_default, mp_blocked = False\<rparr>"

definition plan_git_off_from_script :: "workspace \<Rightarrow> nat \<Rightarrow> plan_git_off option" where
  "plan_git_off_from_script ws script_id =
     (case ws_script_git ws script_id of
        None \<Rightarrow> None
      | Some off \<Rightarrow> if plan_git_is_empty off then None else Some off)"

definition materialize_planned_git :: "workspace \<Rightarrow> plan_git_off \<Rightarrow> planned_git option" where
  "materialize_planned_git ws off =
     do {
       h \<leftarrow> ws_str_at ws (sg_hash_off off);
       a \<leftarrow> ws_str_at ws (sg_author_off off);
       d \<leftarrow> ws_str_at ws (sg_date_off off);
       Some \<lparr>pg_hash = h, pg_author = a, pg_date = d\<rparr>
     }"

definition materialize_transition_paths :: "workspace \<Rightarrow> str_off list \<Rightarrow> string list option" where
  "materialize_transition_paths ws offs = those (map (ws_str_at ws) offs)"

definition materialize_planned_object ::
  "workspace \<Rightarrow> nat \<Rightarrow> plan_row \<Rightarrow> (nat \<rightharpoonup> plan_git_off) \<Rightarrow> (nat \<rightharpoonup> str_off list) \<Rightarrow> planned_object option" where
  "materialize_planned_object ws i row gits trs =
     do {
       obj \<leftarrow> nth_opt (ws_object_entries ws) i;
       key \<leftarrow> entry_key ws i;
       path \<leftarrow> object_path_at ws i;
       parent \<leftarrow> parent_name ws (row_id_at i);
       git \<leftarrow> (case gits (as_u32 i) of None \<Rightarrow> Some None
              | Some off \<Rightarrow> map_option Some (materialize_planned_git ws off));
       paths \<leftarrow> (case trs (as_u32 i) of None \<Rightarrow> Some []
                | Some offs \<Rightarrow> materialize_transition_paths ws offs);
       Some \<lparr>po_normalized_key = key, po_object_path = path, po_schema_name = schema_part key,
             po_kind = kind_part key, po_object_name = name_part key,
             po_database_name = database_name ws (oe_db_id obj), po_parent_name = parent,
             po_transition_paths = paths, po_git = git, po_checksum = pr_checksum row,
             po_planned_action = planned_action row, po_exists = row_exists row\<rparr>
     }"

definition materialize_rows :: "workspace \<Rightarrow> migration_plan \<Rightarrow> planned_object list option" where
  "materialize_rows ws plan =
     those (map (\<lambda>i. materialize_planned_object ws i (mp_rows plan ! i) (mp_plan_git plan)
                   (mp_plan_transitions plan)) [0..<length (mp_rows plan)])"

definition ensure_objects_materialized :: "workspace \<Rightarrow> migration_plan \<Rightarrow> migration_plan option" where
  "ensure_objects_materialized ws plan =
     (if mp_rows plan = [] then Some plan
      else if length (mp_objects plan) = length (mp_rows plan) then Some plan
      else do {
        os \<leftarrow> materialize_rows ws plan;
        Some (plan\<lparr>mp_objects := os\<rparr>)
      })"

text \<open>\<open>WireMigrationPlan::new\<close>: the objects of the JSON document.\<close>

definition wire_objects :: "workspace \<Rightarrow> migration_plan \<Rightarrow> planned_object list option" where
  "wire_objects ws plan = (if mp_rows plan = [] then Some (mp_objects plan) else materialize_rows ws plan)"

subsection \<open>Filtering the transitions that were applied before\<close>

definition applied_unchanged ::
  "(string \<rightharpoonup> string) \<Rightarrow> (string \<rightharpoonup> string) \<Rightarrow> string \<Rightarrow> string list \<Rightarrow> bool \<times> string list" where
  "applied_unchanged applied current path tampered =
     (case applied path of
        None \<Rightarrow> (False, tampered)
      | Some recorded \<Rightarrow>
          (case current path of
             Some now \<Rightarrow>
               if recorded \<noteq> [] \<and> now \<noteq> recorded then (True, tampered @ [path]) else (True, tampered)
           | None \<Rightarrow> (True, tampered)))"

definition transition_checksums :: "(digest \<Rightarrow> string) \<Rightarrow> workspace \<Rightarrow> (string \<rightharpoonup> string) option" where
  "transition_checksums hex ws =
     do {
       pairs \<leftarrow> those (map (\<lambda>i. do {
                  row \<leftarrow> nth_opt (ws_script_rows ws) i;
                  if sr_kind row = TransitionScript
                  then (case script_checksum ws (i + 1) of
                          None \<Rightarrow> Some []
                        | Some cs \<Rightarrow> map_option (\<lambda>p. [(p, hex cs)]) (script_path ws (i + 1)))
                  else Some [] }) [0..<length (ws_script_rows ws)]);
       Some (foldl (\<lambda>m (p, h). m(p \<mapsto> h)) Map.empty (concat pairs))
     }"

text \<open>\<open>Vec::retain\<close> with the closure that collects the tampered paths.\<close>

fun retain_unapplied ::
  "(string \<rightharpoonup> string) \<Rightarrow> (string \<rightharpoonup> string) \<Rightarrow> ('a \<times> string) list \<Rightarrow> string list \<Rightarrow> 'a list \<times> string list" where
  "retain_unapplied applied current [] tampered = ([], tampered)"
| "retain_unapplied applied current ((x, p) # rest) tampered =
     (let (gone, tampered') = applied_unchanged applied current p tampered;
          (kept, tampered'') = retain_unapplied applied current rest tampered'
      in (if gone then kept else x # kept, tampered''))"

definition filter_row ::
  "workspace \<Rightarrow> (string \<rightharpoonup> string) \<Rightarrow> (string \<rightharpoonup> string) \<Rightarrow> nat \<times> plan_row
    \<Rightarrow> (nat \<rightharpoonup> str_off list) \<times> string list \<Rightarrow> ((nat \<rightharpoonup> str_off list) \<times> string list) option" where
  "filter_row ws applied current ir st =
     (let (i, row) = ir; (trs, tampered) = st in
      if planned_action row \<noteq> ReprocessChanged then Some st
      else case trs (as_u32 i) of
        None \<Rightarrow> Some st
      | Some offs \<Rightarrow> do {
          paths \<leftarrow> those (map (ws_str_at ws) offs);
          let (kept, tampered') = retain_unapplied applied current (zip offs paths) tampered
          in Some (trs(as_u32 i \<mapsto> kept), tampered')
        })"

fun filter_rows_loop ::
  "workspace \<Rightarrow> (string \<rightharpoonup> string) \<Rightarrow> (string \<rightharpoonup> string) \<Rightarrow> (nat \<times> plan_row) list
    \<Rightarrow> (nat \<rightharpoonup> str_off list) \<times> string list \<Rightarrow> ((nat \<rightharpoonup> str_off list) \<times> string list) option" where
  "filter_rows_loop ws applied current [] st = Some st"
| "filter_rows_loop ws applied current (ir # rest) st =
     do { st' \<leftarrow> filter_row ws applied current ir st; filter_rows_loop ws applied current rest st' }"

definition filter_rows ::
  "workspace \<Rightarrow> (string \<rightharpoonup> string) \<Rightarrow> (string \<rightharpoonup> string) \<Rightarrow> migration_plan
    \<Rightarrow> (migration_plan \<times> string list) option" where
  "filter_rows ws applied current plan =
     (let rows = List.enumerate 0 (mp_rows plan);
          need = (\<exists>(i, row) \<in> set rows. planned_action row = ReprocessChanged
                    \<and> (case mp_plan_transitions plan (as_u32 i) of Some v \<Rightarrow> v \<noteq> [] | None \<Rightarrow> False))
      in if \<not> need then Some (plan, [])
         else do {
           (trs, tampered) \<leftarrow> filter_rows_loop ws applied current rows (mp_plan_transitions plan, []);
           Some (plan\<lparr>mp_plan_transitions := trs, mp_objects := []\<rparr>, tampered)
         })"

fun filter_legacy_loop ::
  "(string \<rightharpoonup> string) \<Rightarrow> (string \<rightharpoonup> string) \<Rightarrow> planned_object list \<Rightarrow> string list
    \<Rightarrow> planned_object list \<times> string list" where
  "filter_legacy_loop applied current [] tampered = ([], tampered)"
| "filter_legacy_loop applied current (ob # rest) tampered =
     (let (ob', tampered') =
            (if po_planned_action ob \<noteq> ReprocessChanged \<or> po_transition_paths ob = [] then (ob, tampered)
             else (let (kept, t) = retain_unapplied applied current
                          (map (\<lambda>p. (p, p)) (po_transition_paths ob)) tampered
                   in (ob\<lparr>po_transition_paths := kept\<rparr>, t)));
          (rest', tampered'') = filter_legacy_loop applied current rest tampered'
      in (ob' # rest', tampered''))"

definition filter_legacy_objects ::
  "(string \<rightharpoonup> string) \<Rightarrow> (string \<rightharpoonup> string) \<Rightarrow> migration_plan \<Rightarrow> migration_plan \<times> string list" where
  "filter_legacy_objects applied current plan =
     (if \<exists>ob \<in> set (mp_objects plan). po_planned_action ob = ReprocessChanged \<and> po_transition_paths ob \<noteq> []
      then (let (os, tampered) = filter_legacy_loop applied current (mp_objects plan) []
            in (plan\<lparr>mp_objects := os\<rparr>, tampered))
      else (plan, []))"

text \<open>
  \<open>filter_applied_migrations_on_plan\<close>: the plan as left behind together with \<open>Ok(())\<close> or the
  sorted list of tampered paths.
\<close>

definition filter_applied_migrations_on_plan ::
  "(digest \<Rightarrow> string) \<Rightarrow> workspace \<Rightarrow> (string \<rightharpoonup> string) \<Rightarrow> migration_plan
    \<Rightarrow> (migration_plan \<times> (string list + unit)) option" where
  "filter_applied_migrations_on_plan hex ws applied plan =
     do {
       current \<leftarrow> transition_checksums hex ws;
       (plan', tampered) \<leftarrow> (if mp_rows plan = [] then Some (filter_legacy_objects applied current plan)
                            else filter_rows ws applied current plan);
       Some (plan', if tampered = [] then Inr () else Inl (sort tampered))
     }"

end
