(* ===== verification/Gate.thy ===== *)
theory Gate
  imports Plan_Data Configuration
begin

section \<open>The plan gate and the end-to-end reports\<close>

text \<open>
  \<open>crates/core/src/gate\<close>: the snapshot of a plan (\<open>snapshot.rs\<close>), the comparison with a committed
  baseline (\<open>compare/*.rs\<close>), the verdict (\<open>evaluate.rs\<close>) and the end-to-end reports with their
  comparison (\<open>e2e_report/**\<close>); with \<open>timings/phase.rs\<close> and \<open>driver/io_profile.rs\<close>, the data
  they carry, and the labels of \<open>db/plan_db_trace.rs\<close>. The keys of two snapshots are visited in an
  order Rust leaves open; here the baseline's keys come first. Floating-point arithmetic on the timing
  factor is the parameter \<open>f64_ops\<close>, hexadecimal text the parameter \<open>hex\<close>, JSON the parameters of
  the readers. An \<open>i64\<close> is an integer, and a sum of two is wrapped to 64 bits.
\<close>

definition wrap_i64 :: "int \<Rightarrow> int" where
  "wrap_i64 n = (n + 2 ^ 63) mod 2 ^ 64 - 2 ^ 63"

subsection \<open>Timings\<close>

record phase_timings =
  pt_connect_ms :: int
  pt_scan_ms :: int
  pt_inspect_ms :: int
  pt_checksums_ms :: int
  pt_ensure_ms :: int
  pt_parallel_wall_ms :: int
  pt_audit_ms :: int
  pt_diff_ms :: int
  pt_plan_wall_ms :: int
  pt_cli_wall_ms :: int
  pt_engine_ms :: int
  pt_apply_ms :: int
  pt_plan_db_query_calls :: int
  pt_plan_db_query_ms :: int
  pt_plan_db_checksums_batch_ms :: int
  pt_plan_db_catalog_ms :: int
  pt_plan_db_catalog_sql_ms :: int
  pt_plan_db_intern_catalog_ms :: int
  pt_plan_db_round_trips :: int
  pt_plan_db_path :: string
  pt_l1_cache_hit :: bool
  pt_plan_db_bootstrap :: bool
  pt_plan_db_catalog_queried :: bool
  pt_plan_db_history_empty :: bool
  pt_plan_db_checksums_skipped :: bool

definition finish_audit_ms :: "phase_timings \<Rightarrow> phase_timings" where
  "finish_audit_ms t = t\<lparr>pt_audit_ms := wrap_i64 (pt_ensure_ms t + pt_checksums_ms t)\<rparr>"

record io_profile =
  ip_query_ms :: int
  ip_query_calls :: int
  ip_exec_ms :: int
  ip_exec_calls :: int

datatype PlanDbPath = CacheHit | WarmSnapshot | GitDelta | ColdFull | Incremental

fun plan_db_path_as_str :: "PlanDbPath \<Rightarrow> string" where
  "plan_db_path_as_str CacheHit = ''cache_hit''"
| "plan_db_path_as_str WarmSnapshot = ''warm_snapshot''"
| "plan_db_path_as_str GitDelta = ''git_delta''"
| "plan_db_path_as_str ColdFull = ''cold_full''"
| "plan_db_path_as_str Incremental = ''incremental''"

definition path_label :: "PlanDbPath option \<Rightarrow> string" where
  "path_label p = unwrap_or (map_option plan_db_path_as_str p) ''unknown''"

definition plan_db_path_from_label :: "string \<Rightarrow> PlanDbPath option" where
  "plan_db_path_from_label label =
     (if label = ''cache_hit'' then Some CacheHit
      else if label = ''warm_snapshot'' then Some WarmSnapshot
      else if label = ''git_delta'' then Some GitDelta
      else if label = ''cold_full'' then Some ColdFull
      else if label = ''incremental'' then Some Incremental
      else None)"

definition plan_db_slo_exempt :: "string \<Rightarrow> bool \<Rightarrow> bool" where
  "plan_db_slo_exempt label l1_cache_hit \<longleftrightarrow> l1_cache_hit \<or> label = ''cold_full''"

definition trace_enabled :: "(string \<Rightarrow> string option) \<Rightarrow> bool" where
  "trace_enabled getenv \<longleftrightarrow> getenv ''RMIG_PLAN_DB_TRACE'' \<in> {Some ''1'', Some ''true'', Some ''yes''}"

definition max_parallel_wall_ms :: "(string \<Rightarrow> string option) \<Rightarrow> int" where
  "max_parallel_wall_ms getenv = unwrap_or (Option.bind (getenv ''RMIG_PLAN_DB_MAX_PAR_MS'') (\<lambda>s. parse_i64 (trim s))) 500"

subsection \<open>Snapshots\<close>

record snapshot_object =
  so_object_path :: string
  so_planned_action :: string
  so_checksum_hex :: string
  so_exists :: bool

record plan_snapshot =
  sn_objects :: "(string \<times> snapshot_object) list"
  sn_version :: string
  sn_blocked :: bool

definition SNAPSHOT_VERSION :: string where "SNAPSHOT_VERSION = ''2''"

definition snapshot_key :: "planned_object \<Rightarrow> string" where
  "snapshot_key obj =
     (if po_database_name obj = [] then po_normalized_key obj
      else po_database_name obj @ ''/'' @ po_normalized_key obj)"

definition snapshot_object_of :: "(digest \<Rightarrow> string) \<Rightarrow> planned_object \<Rightarrow> snapshot_object" where
  "snapshot_object_of hex obj =
     \<lparr>so_object_path = po_object_path obj, so_planned_action = action_str (po_planned_action obj),
      so_checksum_hex = hex (po_checksum obj), so_exists = po_exists obj\<rparr>"

definition snapshot_from_plan :: "(digest \<Rightarrow> string) \<Rightarrow> migration_plan \<Rightarrow> plan_snapshot" where
  "snapshot_from_plan hex plan =
     \<lparr>sn_objects = fold (\<lambda>obj. AList.update (snapshot_key obj) (snapshot_object_of hex obj)) (mp_objects plan) [],
      sn_version = SNAPSHOT_VERSION, sn_blocked = mp_blocked plan\<rparr>"

subsection \<open>Comparison with the baseline\<close>

record compare_result =
  cr_passed :: bool
  cr_messages :: "string list"
  cr_unexpected :: "string list"

definition diff_entry :: "snapshot_object option \<Rightarrow> snapshot_object option \<Rightarrow> string" where
  "diff_entry b c =
     (case (b, c) of
        (None, None) \<Rightarrow> []
      | (None, Some c) \<Rightarrow> so_planned_action c
      | (Some b, None) \<Rightarrow> so_planned_action b
      | (Some b, Some c) \<Rightarrow>
          if so_planned_action b \<noteq> so_planned_action c then so_planned_action c
          else if so_checksum_hex b \<noteq> so_checksum_hex c then ''checksum''
          else if so_exists b \<noteq> so_exists c then ''exists''
          else [])"

definition is_risky_action :: "string \<Rightarrow> bool" where
  "is_risky_action a \<longleftrightarrow> a = ''fail'' \<or> a = ''reprocess_changed_blocked''"

definition union_keys :: "(string \<times> 'a) list \<Rightarrow> (string \<times> 'b) list \<Rightarrow> string list" where
  "union_keys a b = map fst a @ filter (\<lambda>k. k \<notin> set (map fst a)) (map fst b)"

definition compare_key ::
  "plan_snapshot \<Rightarrow> plan_snapshot \<Rightarrow> string list \<Rightarrow> bool \<Rightarrow> string \<Rightarrow> compare_result \<Rightarrow> compare_result" where
  "compare_key baseline current delta_keys strict_unexpected key res =
     (if diff_entry (map_of (sn_objects baseline) key) (map_of (sn_objects current) key) = [] then res
      else if key \<in> set delta_keys then
        (case map_of (sn_objects current) key of
           Some c \<Rightarrow>
             if is_risky_action (so_planned_action c) then
               res\<lparr>cr_passed := False,
                   cr_messages := cr_messages res @ [''risky action for '' @ key @ '': '' @ so_planned_action c]\<rparr>
             else res
         | None \<Rightarrow> res)
      else if strict_unexpected then
        res\<lparr>cr_passed := False, cr_unexpected := cr_unexpected res @ [''unexpected plan change outside delta: '' @ key]\<rparr>
      else res)"

definition compare_snapshots :: "plan_snapshot \<Rightarrow> plan_snapshot \<Rightarrow> string list \<Rightarrow> bool \<Rightarrow> compare_result" where
  "compare_snapshots baseline current delta_keys strict_unexpected =
     (if sn_version baseline \<noteq> sn_version current then
        \<lparr>cr_passed = False, cr_messages = [''snapshot version mismatch: baseline='' @ sn_version baseline
           @ '' current='' @ sn_version current], cr_unexpected = []\<rparr>
      else
        (let res0 = (if sn_blocked current \<and> \<not> sn_blocked baseline
                     then \<lparr>cr_passed = False, cr_messages = [''plan became blocked''], cr_unexpected = []\<rparr>
                     else \<lparr>cr_passed = True, cr_messages = [], cr_unexpected = []\<rparr>);
             res = fold (compare_key baseline current delta_keys strict_unexpected)
                     (union_keys (sn_objects baseline) (sn_objects current)) res0
         in if \<not> cr_passed res \<and> cr_messages res = []
            then res\<lparr>cr_messages := [''incremental plan gate failed'']\<rparr> else res))"

subsection \<open>The verdict\<close>

record gate_input =
  gi_blocked :: bool
  gi_timings :: phase_timings
  gi_max_plan_wall_ms :: int
  gi_baseline :: plan_snapshot
  gi_current :: plan_snapshot
  gi_delta_keys :: "string list"

record gate_result =
  gr_passed :: bool
  gr_messages :: "string list"
  gr_compare :: compare_result
  gr_timings :: phase_timings
  gr_delta_key_count :: nat

definition evaluate_gate :: "gate_input \<Rightarrow> gate_result" where
  "evaluate_gate gi =
     (let cmp = compare_snapshots (gi_baseline gi) (gi_current gi) (gi_delta_keys gi) True;
          slow = (gi_max_plan_wall_ms gi > 0 \<and> pt_plan_wall_ms (gi_timings gi) \<ge> gi_max_plan_wall_ms gi)
      in \<lparr>gr_passed = (\<not> gi_blocked gi \<and> cr_passed cmp \<and> \<not> slow),
          gr_messages = (if gi_blocked gi then [''plan blocked''] else []) @ cr_messages cmp @ cr_unexpected cmp
            @ (if slow then [''plan wall SLO exceeded: '' @ int_to_string (pt_plan_wall_ms (gi_timings gi)) @ ''ms >= ''
                             @ int_to_string (gi_max_plan_wall_ms gi) @ ''ms''] else []),
          gr_compare = cmp, gr_timings = gi_timings gi, gr_delta_key_count = length (gi_delta_keys gi)\<rparr>)"

definition max_plan_wall_ms_from_env :: "(string \<Rightarrow> string option) \<Rightarrow> string + int" where
  "max_plan_wall_ms_from_env getenv =
     (case getenv ''RMIG_GATE_MAX_PLAN_WALL_MS'' of
        None \<Rightarrow> Inr 0
      | Some raw \<Rightarrow>
          if trim raw = [] then Inr 0
          else
            (let err = Inl (''RMIG_GATE_MAX_PLAN_WALL_MS must be a positive integer (ms), got '' @ debug_str raw) in
             case parse_i64 (trim raw) of Some n \<Rightarrow> if n > 0 then Inr n else err | None \<Rightarrow> err))"

subsection \<open>Parity of snapshots\<close>

definition field_line :: "string \<Rightarrow> string \<Rightarrow> string \<Rightarrow> string \<Rightarrow> string list" where
  "field_line key field e a =
     (if e \<noteq> a then [key @ '' '' @ field @ '': baseline='' @ e @ '' actual='' @ a] else [])"

definition bool_str :: "bool \<Rightarrow> string" where
  "bool_str b = (if b then ''true'' else ''false'')"

definition parity_object_fields :: "string \<Rightarrow> snapshot_object \<Rightarrow> snapshot_object \<Rightarrow> string list" where
  "parity_object_fields key e a =
     field_line key ''object_path'' (so_object_path e) (so_object_path a)
     @ field_line key ''planned_action'' (so_planned_action e) (so_planned_action a)
     @ field_line key ''checksum_hex'' (so_checksum_hex e) (so_checksum_hex a)
     @ field_line key ''exists'' (bool_str (so_exists e)) (bool_str (so_exists a))"

definition parity_key :: "plan_snapshot \<Rightarrow> plan_snapshot \<Rightarrow> string \<Rightarrow> string list" where
  "parity_key expected actual key =
     (case (map_of (sn_objects expected) key, map_of (sn_objects actual) key) of
        (None, Some _) \<Rightarrow> [''missing in baseline snapshot: '' @ key]
      | (Some _, None) \<Rightarrow> [''missing in actual snapshot: '' @ key]
      | (Some e, Some a) \<Rightarrow> parity_object_fields key e a
      | (None, None) \<Rightarrow> [])"

definition parity_messages :: "plan_snapshot \<Rightarrow> plan_snapshot \<Rightarrow> string list" where
  "parity_messages expected actual =
     (if sn_version expected \<noteq> sn_version actual
      then [''version: baseline='' @ sn_version expected @ '' actual='' @ sn_version actual] else [])
     @ (if sn_blocked expected \<noteq> sn_blocked actual
        then [''blocked: baseline='' @ bool_str (sn_blocked expected) @ '' actual='' @ bool_str (sn_blocked actual)] else [])
     @ concat (map (parity_key expected actual) (union_keys (sn_objects expected) (sn_objects actual)))"

subsection \<open>End-to-end reports\<close>

record e2e_workflow_timings =
  wt_setup_apply_ms :: int
  wt_plan_wall_ms :: int
  wt_plan_parallel_wall_ms :: int
  wt_plan_db_path :: string
  wt_migrate_wall_ms :: int
  wt_migrate_parallel_wall_ms :: int
  wt_total_ms :: int

record e2e_scenario_report =
  sr_scenario :: string
  sr_setup_steps :: "string list"
  sr_timings :: phase_timings
  sr_io :: io_profile
  sr_snapshot :: plan_snapshot
  sr_action_counts :: "(string \<times> int) list"

record e2e_apply_report =
  ar_scenario :: string
  ar_setup_steps :: "string list"
  ar_applied :: int
  ar_failed :: int
  ar_skipped :: int
  ar_errors :: "string list"
  ar_audit_object_rows :: int
  ar_audit_migration_rows :: int
  ar_catalog_meta_rows :: int
  ar_catalog_cache_rows :: int
  ar_timings :: e2e_workflow_timings

record e2e_gate_report =
  ge_scenario :: string
  ge_setup_steps :: "string list"
  ge_gate_pass :: bool
  ge_messages :: "string list"
  ge_snapshot :: plan_snapshot

record e2e_blocked_report =
  be_scenario :: string
  be_setup_steps :: "string list"
  be_exit_code :: int
  be_blocked :: bool
  be_blockers :: "string list"
  be_scaffold_paths :: "string list"
  be_timings :: e2e_workflow_timings

fun count_action :: "string \<Rightarrow> (string \<times> int) list \<Rightarrow> (string \<times> int) list" where
  "count_action a [] = [(a, 1)]"
| "count_action a ((b, n) # rest) = (if a = b then (b, n + 1) # rest else (b, n) # count_action a rest)"

definition action_counts_from_plan :: "migration_plan \<Rightarrow> (string \<times> int) list" where
  "action_counts_from_plan plan =
     (if mp_rows plan \<noteq> [] then fold count_action (map (\<lambda>r. action_str (planned_action r)) (mp_rows plan)) []
      else fold count_action (map (\<lambda>ob. action_str (po_planned_action ob)) (mp_objects plan)) [])"

definition build_e2e_report ::
  "(digest \<Rightarrow> string) \<Rightarrow> string \<Rightarrow> migration_plan \<Rightarrow> phase_timings \<Rightarrow> io_profile \<Rightarrow> e2e_scenario_report" where
  "build_e2e_report hex scenario plan timings io =
     \<lparr>sr_scenario = scenario, sr_setup_steps = [], sr_timings = timings, sr_io = io,
      sr_snapshot = snapshot_from_plan hex plan, sr_action_counts = action_counts_from_plan plan\<rparr>"

subsubsection \<open>Timing ceilings\<close>

record 'f f64_ops =
  fo_parse :: "string \<Rightarrow> 'f option"
  fo_three :: 'f
  fo_show :: "'f \<Rightarrow> string"
  fo_scaled_ceil :: "int \<Rightarrow> 'f \<Rightarrow> int"

definition timing_env :: "'f f64_ops \<Rightarrow> (string \<Rightarrow> string option) \<Rightarrow> 'f \<times> int" where
  "timing_env fo getenv =
     (unwrap_or (Option.bind (getenv ''RMIG_E2E_TIMING_FACTOR'') (fo_parse fo)) (fo_three fo),
      unwrap_or (Option.bind (getenv ''RMIG_E2E_TIMING_SLACK_MS'') parse_i64) 100)"

definition push_ceiling ::
  "'f f64_ops \<Rightarrow> (string \<Rightarrow> string option) \<Rightarrow> string \<Rightarrow> int \<Rightarrow> int \<Rightarrow> string list" where
  "push_ceiling fo getenv name baseline_ms actual_ms =
     (let (factor, slack_ms) = timing_env fo getenv;
          ceiling = wrap_i64 (fo_scaled_ceil fo baseline_ms factor + slack_ms)
      in if actual_ms > ceiling then
           [name @ '': actual='' @ int_to_string actual_ms @ ''ms > baseline='' @ int_to_string baseline_ms
            @ ''ms ceiling='' @ int_to_string ceiling @ ''ms (factor='' @ fo_show fo factor
            @ '', slack='' @ int_to_string slack_ms @ ''ms)'']
         else [])"

definition compare_timings ::
  "'f f64_ops \<Rightarrow> (string \<Rightarrow> string option) \<Rightarrow> phase_timings \<Rightarrow> phase_timings \<Rightarrow> string list" where
  "compare_timings fo getenv baseline actual =
     concat (map (\<lambda>(name, b, a). if b = 0 \<and> a = 0 then [] else push_ceiling fo getenv name b a)
       [(''parallel_wall_ms'', pt_parallel_wall_ms baseline, pt_parallel_wall_ms actual),
        (''diff_ms'', pt_diff_ms baseline, pt_diff_ms actual),
        (''plan_wall_ms'', pt_plan_wall_ms baseline, pt_plan_wall_ms actual)])"

definition SETUP_APPLY_MAX_MS :: int where "SETUP_APPLY_MAX_MS = 500"

definition compare_phase ::
  "'f f64_ops \<Rightarrow> (string \<Rightarrow> string option) \<Rightarrow> string \<times> int \<times> int \<Rightarrow> string list" where
  "compare_phase fo getenv phase =
     (let (name, b, a) = phase;
          (factor, slack_ms) = timing_env fo getenv;
          setup_apply_max = wrap_i64 (fo_scaled_ceil fo SETUP_APPLY_MAX_MS factor + slack_ms)
      in if b = 0 \<and> a = 0 then []
         else if b > 0 \<and> a = 0 then
           [name @ '': baseline='' @ int_to_string b @ ''ms actual=0ms (missing measurement)'']
         else if name = ''setup_apply_ms'' \<and> a > setup_apply_max then
           [''setup_apply_ms: actual='' @ int_to_string a @ ''ms exceeds hard max '' @ int_to_string setup_apply_max
            @ ''ms (warm baseline required; run apply_smoke_setup or e2e-all order)'']
         else push_ceiling fo getenv name b a)"

definition compare_workflow_timings ::
  "'f f64_ops \<Rightarrow> (string \<Rightarrow> string option) \<Rightarrow> e2e_workflow_timings \<Rightarrow> e2e_workflow_timings \<Rightarrow> string list" where
  "compare_workflow_timings fo getenv baseline actual =
     concat (map (compare_phase fo getenv)
       [(''setup_apply_ms'', wt_setup_apply_ms baseline, wt_setup_apply_ms actual),
        (''plan_parallel_wall_ms'', wt_plan_parallel_wall_ms baseline, wt_plan_parallel_wall_ms actual),
        (''plan_wall_ms'', wt_plan_wall_ms baseline, wt_plan_wall_ms actual),
        (''migrate_parallel_wall_ms'', wt_migrate_parallel_wall_ms baseline, wt_migrate_parallel_wall_ms actual),
        (''migrate_wall_ms'', wt_migrate_wall_ms baseline, wt_migrate_wall_ms actual),
        (''total_ms'', wt_total_ms baseline, wt_total_ms actual)])
     @ (if wt_plan_db_path baseline \<noteq> [] \<and> wt_plan_db_path baseline \<noteq> wt_plan_db_path actual
        then [''plan_db_path: baseline='' @ wt_plan_db_path baseline @ '' actual='' @ wt_plan_db_path actual] else [])"

subsubsection \<open>Comparing reports\<close>

text \<open>\<open>diff_field\<close>, the text of the values given by \<open>shown\<close>; \<open>{:?}\<close> of string lists and of maps.\<close>

definition diff_field :: "string \<Rightarrow> ('a \<Rightarrow> string) \<Rightarrow> 'a \<Rightarrow> 'a \<Rightarrow> string list" where
  "diff_field name shown b a = (if b \<noteq> a then [name @ '': baseline='' @ shown b @ '' actual='' @ shown a] else [])"

definition debug_strings :: "string list \<Rightarrow> string" where
  "debug_strings ss = ''['' @ join_with '', '' (map debug_str ss) @ '']''"

definition debug_counts :: "(string \<times> int) list \<Rightarrow> string" where
  "debug_counts cs = ''{'' @ join_with '', '' (map (\<lambda>(k, n). debug_str k @ '': '' @ int_to_string n) cs) @ ''}''"

definition same_map :: "(string \<times> 'a) list \<Rightarrow> (string \<times> 'a) list \<Rightarrow> bool" where
  "same_map a b \<longleftrightarrow> list_all (\<lambda>k. map_of a k = map_of b k) (union_keys a b)"

definition compare_e2e_gate_reports :: "e2e_gate_report \<Rightarrow> e2e_gate_report \<Rightarrow> string list" where
  "compare_e2e_gate_reports baseline actual =
     diff_field ''scenario'' id (ge_scenario baseline) (ge_scenario actual)
     @ diff_field ''gate_pass'' bool_str (ge_gate_pass baseline) (ge_gate_pass actual)
     @ diff_field ''messages'' debug_strings (ge_messages baseline) (ge_messages actual)
     @ parity_messages (ge_snapshot baseline) (ge_snapshot actual)"

definition compare_e2e_apply_reports ::
  "'f f64_ops \<Rightarrow> (string \<Rightarrow> string option) \<Rightarrow> e2e_apply_report \<Rightarrow> e2e_apply_report \<Rightarrow> string list" where
  "compare_e2e_apply_reports fo getenv baseline actual =
     diff_field ''scenario'' id (ar_scenario baseline) (ar_scenario actual)
     @ diff_field ''applied'' int_to_string (ar_applied baseline) (ar_applied actual)
     @ diff_field ''failed'' int_to_string (ar_failed baseline) (ar_failed actual)
     @ diff_field ''skipped'' int_to_string (ar_skipped baseline) (ar_skipped actual)
     @ diff_field ''audit_object_rows'' int_to_string (ar_audit_object_rows baseline) (ar_audit_object_rows actual)
     @ diff_field ''audit_migration_rows'' int_to_string (ar_audit_migration_rows baseline) (ar_audit_migration_rows actual)
     @ diff_field ''catalog_meta_rows'' int_to_string (ar_catalog_meta_rows baseline) (ar_catalog_meta_rows actual)
     @ diff_field ''catalog_cache_rows'' int_to_string (ar_catalog_cache_rows baseline) (ar_catalog_cache_rows actual)
     @ diff_field ''errors'' debug_strings (ar_errors baseline) (ar_errors actual)
     @ diff_field ''setup_steps'' debug_strings (ar_setup_steps baseline) (ar_setup_steps actual)
     @ (if wt_total_ms (ar_timings baseline) > 0 \<or> wt_total_ms (ar_timings actual) > 0
        then compare_workflow_timings fo getenv (ar_timings baseline) (ar_timings actual) else [])"

definition scaffold_identity :: "string \<Rightarrow> string" where
  "scaffold_identity path =
     (let name = last (split_on (CHR ''/'') path) in
      case split_once (CHR ''_'') name of
        Some (ord, rest1) \<Rightarrow>
          (case split_once (CHR ''_'') rest1 of
             Some (rv, rest) \<Rightarrow>
               if rv \<noteq> [] \<and> length rv \<le> 40 \<and> list_all is_ascii_hexdigit rv then ord @ ''_REV_'' @ rest else name
           | None \<Rightarrow> name)
      | None \<Rightarrow> name)"

definition scaffold_identities :: "string list \<Rightarrow> string list" where
  "scaffold_identities paths = sort (map scaffold_identity paths)"

definition compare_e2e_blocked_reports ::
  "'f f64_ops \<Rightarrow> (string \<Rightarrow> string option) \<Rightarrow> e2e_blocked_report \<Rightarrow> e2e_blocked_report \<Rightarrow> string list" where
  "compare_e2e_blocked_reports fo getenv baseline actual =
     diff_field ''scenario'' id (be_scenario baseline) (be_scenario actual)
     @ diff_field ''exit_code'' int_to_string (be_exit_code baseline) (be_exit_code actual)
     @ diff_field ''blocked'' bool_str (be_blocked baseline) (be_blocked actual)
     @ diff_field ''blockers'' debug_strings (be_blockers baseline) (be_blockers actual)
     @ diff_field ''scaffold_paths'' debug_strings (scaffold_identities (be_scaffold_paths baseline))
         (scaffold_identities (be_scaffold_paths actual))
     @ compare_workflow_timings fo getenv (be_timings baseline) (be_timings actual)"

definition compare_e2e_reports ::
  "'f f64_ops \<Rightarrow> (string \<Rightarrow> string option) \<Rightarrow> e2e_scenario_report \<Rightarrow> e2e_scenario_report \<Rightarrow> string list" where
  "compare_e2e_reports fo getenv baseline actual =
     diff_field ''scenario name'' id (sr_scenario baseline) (sr_scenario actual)
     @ (if \<not> same_map (sr_action_counts baseline) (sr_action_counts actual)
        then [''action_counts: baseline='' @ debug_counts (sr_action_counts baseline)
              @ '' actual='' @ debug_counts (sr_action_counts actual)] else [])
     @ diff_field ''setup_steps'' debug_strings (sr_setup_steps baseline) (sr_setup_steps actual)
     @ diff_field ''io.query_calls'' int_to_string (ip_query_calls (sr_io baseline)) (ip_query_calls (sr_io actual))
     @ diff_field ''timings.l1_cache_hit'' bool_str (pt_l1_cache_hit (sr_timings baseline)) (pt_l1_cache_hit (sr_timings actual))
     @ (if pt_plan_db_path (sr_timings baseline) \<noteq> []
           \<and> pt_plan_db_path (sr_timings baseline) \<noteq> pt_plan_db_path (sr_timings actual)
        then [''timings.plan_db_path: baseline='' @ pt_plan_db_path (sr_timings baseline)
              @ '' actual='' @ pt_plan_db_path (sr_timings actual)] else [])
     @ parity_messages (sr_snapshot baseline) (sr_snapshot actual)
     @ compare_timings fo getenv (sr_timings baseline) (sr_timings actual)"

subsubsection \<open>Reading reports\<close>

text \<open>
  The shape of a parsed JSON value as the readers inspect it: an object with the shapes of its
  fields, or something else. \<open>typed\<close> is the deserializer.
\<close>

datatype json_shape = JsonObject "string \<rightharpoonup> json_shape" | JsonOther

fun is_json_object :: "json_shape \<Rightarrow> bool" where
  "is_json_object (JsonObject fs) = True"
| "is_json_object JsonOther = False"

fun shape_field :: "json_shape \<Rightarrow> string \<Rightarrow> json_shape option" where
  "shape_field (JsonObject fs) f = fs f"
| "shape_field JsonOther f = None"

definition read_report_object ::
  "(string \<Rightarrow> string + 'v) \<Rightarrow> ('v \<Rightarrow> json_shape) \<Rightarrow> ('v \<Rightarrow> string + 'a) \<Rightarrow> string list \<Rightarrow> string \<Rightarrow> string + 'a" where
  "read_report_object parse shape typed object_fields data =
     bind_result (parse data) (\<lambda>value.
       if \<not> is_json_object (shape value) then Inl ''e2e report JSON must be an object''
       else
         (case filter (\<lambda>f. \<exists>nested \<in> set_option (shape_field (shape value) f). \<not> is_json_object nested) object_fields of
            f # _ \<Rightarrow> Inl (''e2e report field `'' @ f @ ''` must be an object'')
          | [] \<Rightarrow> typed value))"

definition read_e2e_report_json ::
  "(string \<Rightarrow> string + 'v) \<Rightarrow> ('v \<Rightarrow> json_shape) \<Rightarrow> ('v \<Rightarrow> string + e2e_scenario_report) \<Rightarrow> string
    \<Rightarrow> string + e2e_scenario_report" where
  "read_e2e_report_json parse shape typed =
     read_report_object parse shape typed [''timings'', ''io'', ''snapshot'', ''action_counts'']"

definition read_e2e_apply_json ::
  "(string \<Rightarrow> string + 'v) \<Rightarrow> ('v \<Rightarrow> json_shape) \<Rightarrow> ('v \<Rightarrow> string + e2e_apply_report) \<Rightarrow> string \<Rightarrow> string + e2e_apply_report" where
  "read_e2e_apply_json parse shape typed = read_report_object parse shape typed [''timings'']"

definition read_e2e_gate_json ::
  "(string \<Rightarrow> string + 'v) \<Rightarrow> ('v \<Rightarrow> json_shape) \<Rightarrow> ('v \<Rightarrow> string + e2e_gate_report) \<Rightarrow> string \<Rightarrow> string + e2e_gate_report" where
  "read_e2e_gate_json parse shape typed = read_report_object parse shape typed [''snapshot'']"

definition read_e2e_blocked_json ::
  "(string \<Rightarrow> string + 'v) \<Rightarrow> ('v \<Rightarrow> json_shape) \<Rightarrow> ('v \<Rightarrow> string + e2e_blocked_report) \<Rightarrow> string \<Rightarrow> string + e2e_blocked_report" where
  "read_e2e_blocked_json parse shape typed = read_report_object parse shape typed [''timings'']"

end
