(* ===== verification/Plan.thy ===== *)
theory Plan
  imports Plan_Data
begin

section \<open>Planning: from catalog and history to a decision per object\<close>

text \<open>
  \<open>crates/core/src/plan\<close>: the scenario of an object (\<open>scenario*.rs\<close>), stamping catalog
  and history facts onto the workspace (\<open>scope.rs\<close>) and the diff that fills the plan
  (\<open>diff*.rs\<close>). \<open>compute_diff_into\<close> returns a workspace and a plan; a panic of the source
  is \<open>None\<close> and the elapsed time it reports is left out.
\<close>

subsection \<open>Scenarios\<close>

datatype PlanScenario =
    ScCreate | ScAdopt | ScSkipUnchanged | TableReprocess | TableBlockedNoTransitions
  | TriggerUpdateModule | TriggerBlockedParentMissing | TriggerBlockedParentChanging
  | ModuleUpdate | Reprocess | StructuralChangeBlocked | LiveStructuralDriftBlocked

datatype CounterKind = CkCreate | CkAdopt | CkSkip | CkChanged

fun action :: "PlanScenario \<Rightarrow> Action" where
  "action ScCreate = CreateObject"
| "action ScAdopt = AdoptExisting"
| "action ScSkipUnchanged = SkipUnchanged"
| "action TableReprocess = ReprocessChanged"
| "action Reprocess = ReprocessChanged"
| "action StructuralChangeBlocked = Fail"
| "action LiveStructuralDriftBlocked = Fail"
| "action TableBlockedNoTransitions = ReprocessChangedBlocked"
| "action TriggerBlockedParentMissing = ReprocessChangedBlocked"
| "action TriggerBlockedParentChanging = ReprocessChangedBlocked"
| "action TriggerUpdateModule = UpdateExistingModule"
| "action ModuleUpdate = UpdateExistingModule"

definition with_git :: "PlanScenario \<Rightarrow> bool" where
  "with_git s \<longleftrightarrow> s \<noteq> ScSkipUnchanged"

fun blocked_delta :: "PlanScenario \<Rightarrow> nat" where
  "blocked_delta TableBlockedNoTransitions = 1"
| "blocked_delta StructuralChangeBlocked = 1"
| "blocked_delta LiveStructuralDriftBlocked = 1"
| "blocked_delta TriggerBlockedParentMissing = 1"
| "blocked_delta TriggerBlockedParentChanging = 1"
| "blocked_delta _ = 0"

fun counter_kind :: "PlanScenario \<Rightarrow> CounterKind" where
  "counter_kind ScCreate = CkCreate"
| "counter_kind ScAdopt = CkAdopt"
| "counter_kind ScSkipUnchanged = CkSkip"
| "counter_kind _ = CkChanged"

definition prior_digest_present :: "digest option list \<Rightarrow> nat \<Rightarrow> bool" where
  "prior_digest_present priors i =
     (case nth_opt priors i of Some (Some cs) \<Rightarrow> cs \<noteq> zero_digest | _ \<Rightarrow> False)"

record scenario_input =
  si_exists :: bool
  si_prior :: "digest option"
  si_checksum :: digest
  si_kind_code :: u8
  si_ws :: workspace
  si_prior_digests :: "digest option list"
  si_child_row_id :: nat
  si_has_transition_paths :: bool
  si_live_definition_drift :: bool

definition changed_default_scenario :: "u8 \<Rightarrow> PlanScenario" where
  "changed_default_scenario kc =
     (if is_module_kind_code kc then ModuleUpdate else StructuralChangeBlocked)"

definition resolve_changed_scenario ::
  "u8 \<Rightarrow> workspace \<Rightarrow> digest option list \<Rightarrow> nat \<Rightarrow> bool \<Rightarrow> PlanScenario" where
  "resolve_changed_scenario kc ws prior_digests child_row_id has_transition_paths =
     (if kc = KIND_TABLES then
        (if \<not> has_transition_paths then TableBlockedNoTransitions else TableReprocess)
      else if kc = KIND_TRIGGERS then
        (case map_of (ws_parent_by_row ws) child_row_id of
           None \<Rightarrow> changed_default_scenario kc
         | Some parent_row_id \<Rightarrow>
             if parent_row_id = 0 then TriggerBlockedParentMissing
             else
               (let parent_i = parent_row_id - 1 in
                if \<not> catalog_has_row ws parent_i then TriggerBlockedParentMissing
                else if \<not> prior_digest_present prior_digests parent_i
                then TriggerBlockedParentChanging
                else TriggerUpdateModule))
      else changed_default_scenario kc)"

definition resolve_plan_scenario :: "scenario_input \<Rightarrow> PlanScenario" where
  "resolve_plan_scenario inp =
     (if \<not> si_exists inp then ScCreate
      else if si_prior inp = None \<or> si_prior inp = Some zero_digest then ScAdopt
      else if si_live_definition_drift inp
      then (if is_module_kind_code (si_kind_code inp) then ModuleUpdate else LiveStructuralDriftBlocked)
      else if si_prior inp = Some (si_checksum inp) then ScSkipUnchanged
      else resolve_changed_scenario (si_kind_code inp) (si_ws inp) (si_prior_digests inp)
             (si_child_row_id inp) (si_has_transition_paths inp))"

text \<open>\<open>parent_table_label\<close> and \<open>apply_scenario\<close>, which returns the action and the blockers.\<close>

definition parent_table_label :: "workspace \<Rightarrow> nat \<Rightarrow> string option" where
  "parent_table_label ws child_row_id =
     (case map_of (ws_parent_by_row ws) child_row_id of
        None \<Rightarrow> Some ''?''
      | Some p \<Rightarrow>
          if p > 0 then do {
            ent \<leftarrow> nth_opt (ws_object_entries ws) (p - 1);
            k \<leftarrow> entry_key ws (p - 1);
            Some (name_part k)
          } else Some ''?'')"

definition apply_scenario ::
  "PlanScenario \<Rightarrow> workspace \<Rightarrow> nat \<Rightarrow> string list \<Rightarrow> (Action \<times> string list) option" where
  "apply_scenario sc ws child_row_id blockers =
     (let i = child_row_id - 1 in
      case sc of
        TableBlockedNoTransitions \<Rightarrow> do {
          k \<leftarrow> entry_key ws i;
          Some (action sc, blockers @ [''table '' @ k @ '' changed but has no non-scaffold transition scripts'']) }
      | StructuralChangeBlocked \<Rightarrow> do {
          k \<leftarrow> entry_key ws i;
          Some (action sc, blockers @ [k @ '' changed but this object kind has no safe in-place update path'']) }
      | LiveStructuralDriftBlocked \<Rightarrow> do {
          k \<leftarrow> entry_key ws i;
          Some (action sc, blockers @ [''live '' @ k @ '' differs from its last audited structural state'']) }
      | TriggerBlockedParentMissing \<Rightarrow> do {
          k \<leftarrow> entry_key ws i;
          p \<leftarrow> parent_table_label ws child_row_id;
          Some (action sc, blockers @ [''trigger '' @ k @ '' parent table '' @ p @ '' not found'']) }
      | TriggerBlockedParentChanging \<Rightarrow> do {
          k \<leftarrow> entry_key ws i;
          p \<leftarrow> parent_table_label ws child_row_id;
          Some (action sc, blockers @ [''trigger '' @ k @ '' parent table '' @ p @ '' is changing'']) }
      | _ \<Rightarrow> Some (action sc, blockers))"

subsection \<open>Stamping catalog and history facts\<close>

text \<open>\<open>Vec::resize\<close> and \<open>Vec::resize_with\<close>.\<close>

definition resize :: "nat \<Rightarrow> 'a \<Rightarrow> 'a list \<Rightarrow> 'a list" where
  "resize n d xs = take n xs @ replicate (n - length xs) d"

definition apply_catalog_row ::
  "(string \<Rightarrow> nat) \<Rightarrow> catalog_state \<Rightarrow> nat list \<Rightarrow> nat \<Rightarrow> workspace \<Rightarrow> workspace option" where
  "apply_catalog_row fp cat catalog_fp i ws =
     do {
       key \<leftarrow> entry_key ws i;
       obj \<leftarrow> nth_opt (ws_object_entries ws) i;
       let in_catalog = fp key \<in> set catalog_fp;
           ws1 = ws\<lparr>ws_object_entries := (ws_object_entries ws)[i := set_db_exists in_catalog obj]\<rparr>;
           ws2 = (if in_catalog then ws1\<lparr>ws_catalog_row := (ws_catalog_row ws1)[i := 1]\<rparr> else ws1)
       in Some (case Option.bind (map_of (cat_objects cat) key) co_parent of
            None \<Rightarrow> ws2
          | Some parent \<Rightarrow>
              (let parent_row_id = key_index ws2 (object_key_new (schema_part key) ''tables'' parent)
               in ws2\<lparr>ws_parent_by_row := AList.update (row_id_at i) parent_row_id (ws_parent_by_row ws2)\<rparr>))
     }"

fun apply_catalog_loop ::
  "(string \<Rightarrow> nat) \<Rightarrow> catalog_state \<Rightarrow> nat list \<Rightarrow> nat list \<Rightarrow> workspace \<Rightarrow> workspace option" where
  "apply_catalog_loop fp cat catalog_fp [] ws = Some ws"
| "apply_catalog_loop fp cat catalog_fp (i # is) ws =
     do {
       ws' \<leftarrow> apply_catalog_row fp cat catalog_fp i ws;
       apply_catalog_loop fp cat catalog_fp is ws'
     }"

definition apply_catalog :: "(string \<Rightarrow> nat) \<Rightarrow> catalog_state \<Rightarrow> workspace \<Rightarrow> workspace option" where
  "apply_catalog fp cat ws =
     (let n = object_count ws in
      apply_catalog_loop fp cat (map (\<lambda>(k, ob). fp k) (cat_objects cat)) [0..<n]
        (ws\<lparr>ws_catalog_row := resize n 0 (ws_catalog_row ws)\<rparr>))"

definition apply_catalog_if_needed :: "(string \<Rightarrow> nat) \<Rightarrow> catalog_state \<Rightarrow> workspace \<Rightarrow> workspace option" where
  "apply_catalog_if_needed fp cat ws =
     (if catalog_applied ws then Some ws else map_option mark_catalog_applied (apply_catalog fp cat ws))"

definition apply_checksums_if_needed ::
  "(string \<Rightarrow> nat) \<Rightarrow> checksum_map \<Rightarrow> workspace \<Rightarrow> workspace option" where
  "apply_checksums_if_needed fp checksums ws =
     (if checksums_applied ws then Some ws
      else do {
        keys \<leftarrow> entry_keys ws;
        let priors = resize (object_count ws) None (ws_prior_by_row ws);
            priors' = map2 (\<lambda>p k. case get_key fp checksums k of Some cs \<Rightarrow> Some cs | None \<Rightarrow> p) priors keys
        in Some (mark_checksums_applied (ws\<lparr>ws_prior_by_row := priors'\<rparr>))
      })"

subsection \<open>The diff\<close>

record diff_counters =
  dc_create :: nat
  dc_adopt :: nat
  dc_skip :: nat
  dc_changed :: nat
  dc_blocked :: nat

definition diff_counters_default :: diff_counters where
  "diff_counters_default = \<lparr>dc_create = 0, dc_adopt = 0, dc_skip = 0, dc_changed = 0, dc_blocked = 0\<rparr>"

record object_decision =
  od_action :: Action
  od_with_git :: bool
  od_exists :: bool

definition count_scenario :: "PlanScenario \<Rightarrow> diff_counters \<Rightarrow> diff_counters" where
  "count_scenario sc c =
     (let c' = (case counter_kind sc of
          CkCreate \<Rightarrow> c\<lparr>dc_create := dc_create c + 1\<rparr>
        | CkAdopt \<Rightarrow> c\<lparr>dc_adopt := dc_adopt c + 1\<rparr>
        | CkSkip \<Rightarrow> c\<lparr>dc_skip := dc_skip c + 1\<rparr>
        | CkChanged \<Rightarrow> c\<lparr>dc_changed := dc_changed c + 1\<rparr>)
      in c'\<lparr>dc_blocked := dc_blocked c' + blocked_delta sc\<rparr>)"

text \<open>The scenario that \<open>decide_object_at\<close> resolves for row \<open>i\<close>.\<close>

definition scenario_at :: "(string \<Rightarrow> nat) \<Rightarrow> workspace \<Rightarrow> checksum_map \<Rightarrow> u8 \<Rightarrow> nat \<Rightarrow> PlanScenario option" where
  "scenario_at fp ws checksums kc i =
     do {
       obj \<leftarrow> nth_opt (ws_object_entries ws) i;
       prior \<leftarrow> nth_opt (ws_prior_by_row ws) i;
       key \<leftarrow> entry_key ws i;
       Some (resolve_plan_scenario
         \<lparr>si_exists = db_exists obj, si_prior = prior, si_checksum = oe_checksum obj,
          si_kind_code = kc, si_ws = ws, si_prior_digests = ws_prior_by_row ws,
          si_child_row_id = row_id_at i,
          si_has_transition_paths = (kc = KIND_TABLES \<and> row_has_transition_paths ws i),
          si_live_definition_drift = has_live_definition_drift fp checksums key\<rparr>)
     }"

definition decide_object_at ::
  "(string \<Rightarrow> nat) \<Rightarrow> workspace \<Rightarrow> nat \<Rightarrow> u8 \<Rightarrow> checksum_map \<Rightarrow> diff_counters \<Rightarrow> migration_plan
    \<Rightarrow> (object_decision \<times> diff_counters \<times> migration_plan) option" where
  "decide_object_at fp ws i kc checksums counters plan =
     do {
       obj \<leftarrow> nth_opt (ws_object_entries ws) i;
       sc \<leftarrow> scenario_at fp ws checksums kc i;
       let counters' = count_scenario sc counters;
           plan' = (if blocked_delta sc > 0 then plan\<lparr>mp_blocked := True\<rparr> else plan)
       in do {
         (act, blockers) \<leftarrow> apply_scenario sc ws (row_id_at i) (mp_blockers plan');
         Some (\<lparr>od_action = act, od_with_git = with_git sc, od_exists = db_exists obj\<rparr>,
               counters', plan'\<lparr>mp_blockers := blockers\<rparr>)
       }
     }"

definition skip_fill_unchanged :: "object_entry \<Rightarrow> plan_row \<Rightarrow> object_decision \<Rightarrow> bool" where
  "skip_fill_unchanged obj row d \<longleftrightarrow>
     planned_action row = od_action d \<and> row_exists row = od_exists d \<and> pr_checksum row = oe_checksum obj"

definition fill_plan_row :: "workspace \<Rightarrow> nat \<Rightarrow> object_decision \<Rightarrow> migration_plan \<Rightarrow> migration_plan option" where
  "fill_plan_row ws i d plan =
     do {
       obj \<leftarrow> nth_opt (ws_object_entries ws) i;
       row \<leftarrow> nth_opt (mp_rows plan) i;
       if skip_fill_unchanged obj row d then Some plan
       else
         (let idx = as_u32 i;
              row' = (set_row_exists (od_exists d) (set_planned_action (od_action d) row))
                       \<lparr>pr_checksum := oe_checksum obj\<rparr>;
              git = (if od_with_git d then plan_git_off_from_script ws (oe_script_id obj) else None);
              trs = (if od_action d = ReprocessChanged
                     then Option.bind (ws_transition_path_cache ws) (\<lambda>m. map_of m (row_id_at i)) else None)
          in Some (plan\<lparr>mp_rows := (mp_rows plan)[i := row'],
                        mp_plan_git := (mp_plan_git plan)(idx := git),
                        mp_plan_transitions := (mp_plan_transitions plan)(idx := trs)\<rparr>))
     }"

definition empty_plan_row :: plan_row where
  "empty_plan_row = \<lparr>pr_action = as_repr SkipUnchanged, pr_flags = 0, pr_checksum = zero_digest\<rparr>"

definition ensure_plan_rows :: "nat \<Rightarrow> migration_plan \<Rightarrow> migration_plan" where
  "ensure_plan_rows n plan = plan\<lparr>mp_rows := resize n empty_plan_row (mp_rows plan), mp_objects := []\<rparr>"

text \<open>
  \<open>ensure_plan_schemas\<close> and the loop over \<open>ws.schemas\<close>: every slot is overwritten where it
  differs, so the list becomes one entry per workspace schema.
\<close>

definition plan_schema :: "catalog_state \<Rightarrow> schema_entry \<Rightarrow> planned_schema" where
  "plan_schema cat s =
     \<lparr>ps_action = (if se_normalized s \<in> set (cat_schemas cat) then Exists else CreateSchema),
      ps_name = se_name s\<rparr>"

text \<open>The body of the loop over the objects, and the loop.\<close>

definition diff_step ::
  "(string \<Rightarrow> nat) \<Rightarrow> workspace \<Rightarrow> checksum_map \<Rightarrow> nat \<Rightarrow> diff_counters \<times> migration_plan
    \<Rightarrow> (diff_counters \<times> migration_plan) option" where
  "diff_step fp ws checksums i st =
     do {
       row \<leftarrow> nth_opt (ws_object_rows ws) i;
       (d, counters, plan) \<leftarrow> decide_object_at fp ws i (row_kind_code row) checksums (fst st) (snd st);
       plan' \<leftarrow> fill_plan_row ws i d plan;
       Some (counters, plan')
     }"

fun diff_loop ::
  "(string \<Rightarrow> nat) \<Rightarrow> workspace \<Rightarrow> checksum_map \<Rightarrow> nat list \<Rightarrow> diff_counters \<times> migration_plan
    \<Rightarrow> (diff_counters \<times> migration_plan) option" where
  "diff_loop fp ws checksums [] st = Some st"
| "diff_loop fp ws checksums (i # is) st =
     do { st' \<leftarrow> diff_step fp ws checksums i st; diff_loop fp ws checksums is st' }"

definition prepare_diff ::
  "(string \<Rightarrow> nat) \<Rightarrow> workspace \<Rightarrow> catalog_state \<Rightarrow> checksum_map \<Rightarrow> workspace option" where
  "prepare_diff fp ws cat checksums =
     do {
       ws1 \<leftarrow> (if ws_object_entries ws \<noteq> []
                  \<and> (ws_object_rows ws = [] \<or> length (ws_object_rows ws) \<noteq> length (ws_object_entries ws))
               then finalize_object_layout fp ws else Some ws);
       ws2 \<leftarrow> apply_catalog_if_needed fp cat ws1;
       ws3 \<leftarrow> apply_checksums_if_needed fp checksums ws2;
       ensure_path_caches ws3
     }"

definition compute_diff_into ::
  "(string \<Rightarrow> nat) \<Rightarrow> workspace \<Rightarrow> catalog_state \<Rightarrow> checksum_map \<Rightarrow> migration_plan
    \<Rightarrow> (workspace \<times> migration_plan) option" where
  "compute_diff_into fp ws0 cat checksums plan0 =
     do {
       ws \<leftarrow> prepare_diff fp ws0 cat checksums;
       let n = object_count ws;
           plan1 = (ensure_plan_rows n (plan0\<lparr>mp_blocked := False, mp_blockers := []\<rparr>))
                     \<lparr>mp_schemas := map (plan_schema cat) (ws_schemas ws)\<rparr>
       in do {
         (c, plan2) \<leftarrow> diff_loop fp ws checksums [0..<n] (diff_counters_default, plan1);
         Some (ws, plan2\<lparr>mp_summary :=
           \<lparr>sum_schema_count = length (ws_schemas ws), sum_object_count = n,
            sum_create_count = dc_create c, sum_adopt_count = dc_adopt c, sum_skip_count = dc_skip c,
            sum_changed_count = dc_changed c, sum_blocked_count = dc_blocked c\<rparr>\<rparr>)
       }
     }"

definition compute_diff ::
  "(string \<Rightarrow> nat) \<Rightarrow> workspace \<Rightarrow> catalog_state \<Rightarrow> checksum_map \<Rightarrow> (workspace \<times> migration_plan) option" where
  "compute_diff fp ws cat checksums = compute_diff_into fp ws cat checksums migration_plan_default"

end
