(* ===== verification/Scope.thy ===== *)
theory Scope
  imports Git Plan
begin

section \<open>What has to be inspected\<close>

text \<open>
  \<open>gate/delta.rs\<close> (objects behind changed paths and the closure over trigger parents),
  \<open>plan/scope_build.rs\<close>, \<open>plan/scope_spot_check.rs\<close>, \<open>plan/git_scope.rs\<close> and the
  scope text of \<open>plan/scope.rs\<close>. A hash set is the list of its elements without repetition; a panic of
  the source is \<open>None\<close>. The record \<open>codec\<close> stands for the third-party encoders used here and in
  the database phase (\<open>serde_json\<close>, \<open>hex\<close>).
\<close>

record codec =
  jc_scope :: "(string \<times> string \<times> string) list \<Rightarrow> string"
  jc_strings :: "string list \<Rightarrow> string"
  jc_keys :: "string \<Rightarrow> string list option"
  jc_cache_rows :: "(string \<times> string \<times> string \<times> string \<times> string) list \<Rightarrow> string result"
  jc_l1_write :: "digest \<times> (string \<times> digest) list \<times> catalog_state \<Rightarrow> bytes result"
  jc_l1_read :: "bytes \<Rightarrow> (digest \<times> (string \<times> digest) list \<times> catalog_state) option"
  jc_unhex :: "string \<Rightarrow> bytes option"

subsection \<open>The delta\<close>

definition qualified_key :: "string \<Rightarrow> string \<Rightarrow> string" where
  "qualified_key path key =
     (let db = hd (split_on (CHR ''/'') path) in if db \<noteq> [] then db @ ''/'' @ key else key)"

definition suffix_related :: "string \<Rightarrow> string \<Rightarrow> bool" where
  "suffix_related path p \<longleftrightarrow> ends_with path p \<or> ends_with p path"

definition keys_for_path :: "(string \<times> string) list \<Rightarrow> (string \<times> string) list \<Rightarrow> string \<Rightarrow> string list" where
  "keys_for_path by_path trans_paths raw =
     (let p = slashed (trim raw) in
      if p = [] then []
      else case map_of by_path p of
        Some k \<Rightarrow> [qualified_key p k]
      | None \<Rightarrow>
          (case map_of trans_paths p of
             Some k \<Rightarrow> [qualified_key p k]
           | None \<Rightarrow>
               map (\<lambda>(path, key). qualified_key path key)
                 (filter (\<lambda>(path, key). suffix_related path p) by_path
                  @ filter (\<lambda>(path, key). suffix_related path p) trans_paths)))"

definition keys_for_changed_paths :: "workspace \<Rightarrow> string list \<Rightarrow> string list option" where
  "keys_for_changed_paths ws changed_paths =
     (if changed_paths = [] then Some []
      else do {
        by_path \<leftarrow> objects_by_path ws;
        trans_paths \<leftarrow> transition_paths_by_script ws;
        Some (foldl (\<lambda>keys k. List.insert k keys) [] (concat (map (keys_for_path by_path trans_paths) changed_paths)))
      })"

definition database_key :: "workspace \<Rightarrow> nat \<Rightarrow> string option" where
  "database_key ws i =
     do {
       obj \<leftarrow> nth_opt (ws_object_entries ws) i;
       k \<leftarrow> entry_key ws i;
       Some (database_name ws (oe_db_id obj) @ ''/'' @ k)
     }"

text \<open>One iteration of the loop of \<open>expand_delta_closure\<close> over the objects.\<close>

fun delta_pass :: "workspace \<Rightarrow> nat list \<Rightarrow> string list \<times> nat \<Rightarrow> (string list \<times> nat) option" where
  "delta_pass ws [] st = Some st"
| "delta_pass ws (i # is) (delta, added) =
     do {
       q \<leftarrow> database_key ws i;
       k \<leftarrow> entry_key ws i;
       if q \<notin> set delta \<or> kind_part k \<noteq> ''triggers'' then delta_pass ws is (delta, added)
       else case map_of (ws_parent_by_row ws) (row_id_at i) of
         None \<Rightarrow> delta_pass ws is (delta, added)
       | Some p \<Rightarrow>
           if p = 0 then delta_pass ws is (delta, added)
           else do {
             pq \<leftarrow> database_key ws (p - 1);
             if pq \<in> set delta then delta_pass ws is (delta, added)
             else delta_pass ws is (delta @ [pq], added + 1)
           }
     }"

definition object_universe :: "workspace \<Rightarrow> string set" where
  "object_universe ws = {q. \<exists>i < object_count ws. database_key ws i = Some q}"

lemma finite_object_universe [simp]: "finite (object_universe ws)"
proof -
  have "object_universe ws \<subseteq> (\<lambda>i. the (database_key ws i)) ` {..<object_count ws}"
    by (force simp: object_universe_def)
  then show ?thesis by (rule finite_subset) simp
qed

lemma database_key_universe: "database_key ws i = Some q \<Longrightarrow> q \<in> object_universe ws"
  by (auto simp: object_universe_def database_key_def object_count_def nth_opt_def split: Option.bind_splits if_splits)

lemma delta_pass_grows:
  "delta_pass ws is (delta, added) = Some (delta', added') \<Longrightarrow>
     \<exists>new. delta' = delta @ new \<and> set new \<subseteq> object_universe ws - set delta \<and> distinct new \<and> added' = added + length new"
proof (induction "is" arbitrary: delta added)
  case (Cons i "is")
  from Cons.prems obtain q k where qk: "database_key ws i = Some q" "entry_key ws i = Some k" by (auto split: Option.bind_splits)
  consider (skip) "delta_pass ws is (delta, added) = Some (delta', added')"
    | (add) p pq where "q \<in> set delta" "kind_part k = ''triggers''" "map_of (ws_parent_by_row ws) (row_id_at i) = Some p" "p \<noteq> 0"
        "database_key ws (p - 1) = Some pq" "pq \<notin> set delta"
        "delta_pass ws is (delta @ [pq], added + 1) = Some (delta', added')"
    using Cons.prems qk by (auto split: Option.bind_splits if_splits option.splits)
  then show ?case
  proof cases
    case skip
    then show ?thesis by (rule Cons.IH)
  next
    case add
    from Cons.IH [OF add(7)] obtain new where "delta' = (delta @ [pq]) @ new" "set new \<subseteq> object_universe ws - set (delta @ [pq])" "distinct new"
      "added' = added + 1 + length new" by auto
    with add database_key_universe [OF add(5)] show ?thesis by (intro exI [of _ "pq # new"]) auto
  qed
qed simp

function expand_delta_loop :: "workspace \<Rightarrow> string list \<Rightarrow> string list option" where
  "expand_delta_loop ws delta =
     (case delta_pass ws [0..<object_count ws] (delta, 0) of
        None \<Rightarrow> None
      | Some (delta', added) \<Rightarrow> if added = 0 then Some delta' else expand_delta_loop ws delta')"
  by pat_completeness auto
termination
proof (relation "measure (\<lambda>(ws, delta). card (object_universe ws - set delta))")
  fix ws delta x delta' added
  assume pass: "delta_pass ws [0..<object_count ws] (delta, 0) = Some x" "(delta', added) = x" "added \<noteq> 0"
  then obtain new where new: "delta' = delta @ new" "set new \<subseteq> object_universe ws - set delta" "new \<noteq> []"
    by (auto dest!: delta_pass_grows)
  then have "object_universe ws - set delta' \<subset> object_universe ws - set delta" by (cases new) auto
  then show "((ws, delta'), ws, delta) \<in> measure (\<lambda>(ws, delta). card (object_universe ws - set delta))"
    by (simp add: psubset_card_mono)
qed simp

declare expand_delta_loop.simps [simp del]

definition expand_delta_closure :: "workspace \<Rightarrow> string list \<Rightarrow> string list option" where
  "expand_delta_closure ws delta = (if delta = [] then Some [] else expand_delta_loop ws delta)"

subsection \<open>The scope\<close>

record inspect_scope =
  is_full_inspect :: bool
  is_hot_keys :: "string list"
  is_stable_objects :: "(string \<times> catalog_object) list"
  is_allow_l1_skip :: bool

definition scope_key_parts :: "string \<Rightarrow> (string \<times> string \<times> string) option" where
  "scope_key_parts key =
     (case split_on (CHR ''/'') key of a # b # c # _ \<Rightarrow> Some (a, b, c) | _ \<Rightarrow> None)"

text \<open>\<open>sort\<close> on triples: stable sorts by the last, the middle and the first component.\<close>

definition sort_parts :: "(string \<times> string \<times> string) list \<Rightarrow> (string \<times> string \<times> string) list" where
  "sort_parts ps = sort_key fst (sort_key (\<lambda>t. fst (snd t)) (sort_key (\<lambda>t. snd (snd t)) ps))"

definition build_scope_json :: "codec \<Rightarrow> inspect_scope \<Rightarrow> string" where
  "build_scope_json jc scope = jc_scope jc (sort_parts (List.map_filter scope_key_parts (is_hot_keys scope)))"

definition spot_check_count_from_env :: "(string \<Rightarrow> string option) \<Rightarrow> nat" where
  "spot_check_count_from_env getenv =
     unwrap_or (Option.bind (getenv ''RMIG_CATALOG_SPOTCHECK'') (parse_unsigned (2 ^ 64))) 8"

text \<open>\<open>u64::from_le_bytes\<close>.\<close>

definition from_le_bytes :: "bytes \<Rightarrow> nat" where
  "from_le_bytes bs = foldr (\<lambda>c n. of_char c + 256 * n) bs 0"

definition spot_check_rank :: "(bytes \<Rightarrow> digest) \<Rightarrow> string \<Rightarrow> string \<Rightarrow> nat" where
  "spot_check_rank sha key layout_digest_hex = from_le_bytes (take 8 (sha (layout_digest_hex @ [CHR 0x00] @ key)))"

definition promote_spot_check_keys ::
  "(bytes \<Rightarrow> digest) \<Rightarrow> (digest \<Rightarrow> string) \<Rightarrow> nat \<Rightarrow> digest \<Rightarrow> string list \<times> (string \<times> catalog_object) list
    \<Rightarrow> string list \<times> (string \<times> catalog_object) list" where
  "promote_spot_check_keys sha hex n ws_digest st =
     (case st of (hot, stab) \<Rightarrow>
        if n = 0 \<or> stab = [] then (hot, stab)
        else
          (let dg = hex ws_digest;
               keys = take (min n (length stab)) (sort_key (\<lambda>k. spot_check_rank sha k dg) (map fst stab))
           in (foldl (\<lambda>h k. List.insert k h) hot keys, foldl (\<lambda>m k. AList.delete k m) stab keys)))"

definition object_parent :: "workspace \<Rightarrow> nat \<Rightarrow> string option option" where
  "object_parent ws i =
     (case map_of (ws_parent_by_row ws) (row_id_at i) of
        Some p \<Rightarrow> if p > 0 then map_option Some (parent_name ws (row_id_at i)) else Some None
      | None \<Rightarrow> Some None)"

definition needs_inspection :: "(string \<Rightarrow> nat) \<Rightarrow> checksum_map \<Rightarrow> string list \<Rightarrow> u8 \<Rightarrow> string \<Rightarrow> string \<Rightarrow> digest \<Rightarrow> bool" where
  "needs_inspection fp checksums delta kc q k file_cs \<longleftrightarrow>
     is_module_kind_code kc \<or> q \<in> set delta
     \<or> (case get_key fp checksums k of None \<Rightarrow> True | Some cs \<Rightarrow> cs = zero_digest \<or> cs \<noteq> file_cs)"

fun classify_objects ::
  "(string \<Rightarrow> nat) \<Rightarrow> workspace \<Rightarrow> checksum_map \<Rightarrow> string list \<Rightarrow> nat list \<Rightarrow> string list \<times> (string \<times> catalog_object) list
    \<Rightarrow> (string list \<times> (string \<times> catalog_object) list) option" where
  "classify_objects fp ws checksums delta [] st = Some st"
| "classify_objects fp ws checksums delta (i # is) (hot, stab) =
     do {
       obj \<leftarrow> nth_opt (ws_object_entries ws) i;
       k \<leftarrow> entry_key ws i;
       q \<leftarrow> database_key ws i;
       row \<leftarrow> nth_opt (ws_object_rows ws) i;
       if needs_inspection fp checksums delta (row_kind_code row) q k (oe_checksum obj)
       then classify_objects fp ws checksums delta is (List.insert k hot, stab)
       else do {
         parent \<leftarrow> object_parent ws i;
         classify_objects fp ws checksums delta is
           (hot, AList.update k (catalog_object_parts (schema_part k) (kind_part k) (name_part k) parent) stab)
       }
     }"

definition build_inspect_scope ::
  "(bytes \<Rightarrow> digest) \<Rightarrow> (digest \<Rightarrow> string) \<Rightarrow> (string \<Rightarrow> nat) \<Rightarrow> nat \<Rightarrow> workspace \<Rightarrow> string list \<Rightarrow> bool \<Rightarrow> checksum_map
    \<Rightarrow> inspect_scope option" where
  "build_inspect_scope sha hex fp spot ws changed_paths full_inspect checksums =
     (if full_inspect then do {
        keys \<leftarrow> normalized_keys ws;
        Some \<lparr>is_full_inspect = True, is_hot_keys = foldl (\<lambda>h k. List.insert k h) [] keys,
              is_stable_objects = [], is_allow_l1_skip = False\<rparr>
      }
      else do {
        delta0 \<leftarrow> keys_for_changed_paths ws changed_paths;
        delta \<leftarrow> expand_delta_closure ws delta0;
        st \<leftarrow> classify_objects fp ws checksums delta [0..<object_count ws] ([], []);
        let (hot, stab) = promote_spot_check_keys sha hex spot (ws_layout_digest ws) st in
        if length hot = object_count ws
        then Some \<lparr>is_full_inspect = True, is_hot_keys = hot, is_stable_objects = [], is_allow_l1_skip = False\<rparr>
        else Some \<lparr>is_full_inspect = False, is_hot_keys = hot, is_stable_objects = stab,
                   is_allow_l1_skip = (hot = [])\<rparr>
      })"

definition build_scope_and_json ::
  "codec \<Rightarrow> (bytes \<Rightarrow> digest) \<Rightarrow> (digest \<Rightarrow> string) \<Rightarrow> (string \<Rightarrow> nat) \<Rightarrow> nat \<Rightarrow> workspace \<Rightarrow> string list \<Rightarrow> bool \<Rightarrow> checksum_map
    \<Rightarrow> (inspect_scope \<times> string) option" where
  "build_scope_and_json jc sha hex fp spot ws changed_paths full_inspect checksums =
     do {
       scope \<leftarrow> build_inspect_scope sha hex fp spot ws changed_paths full_inspect checksums;
       json \<leftarrow> (if full_inspect then object_scope_json ws else Some (build_scope_json jc scope));
       Some (scope, json)
     }"

fun delta_keys :: "workspace \<Rightarrow> string list \<Rightarrow> nat list \<Rightarrow> string list option" where
  "delta_keys ws delta [] = Some []"
| "delta_keys ws delta (i # is) =
     do {
       q \<leftarrow> database_key ws i;
       k \<leftarrow> entry_key ws i;
       ks \<leftarrow> delta_keys ws delta is;
       Some (if q \<in> set delta then k # ks else ks)
     }"

definition git_hot_scope_json :: "codec \<Rightarrow> workspace \<Rightarrow> string list \<Rightarrow> string option" where
  "git_hot_scope_json jc ws changed_paths =
     do {
       delta0 \<leftarrow> keys_for_changed_paths ws changed_paths;
       delta \<leftarrow> expand_delta_closure ws delta0;
       ks \<leftarrow> delta_keys ws delta [0..<object_count ws];
       Some (build_scope_json jc \<lparr>is_full_inspect = False, is_hot_keys = foldl (\<lambda>h k. List.insert k h) [] ks,
               is_stable_objects = [], is_allow_l1_skip = False\<rparr>)
     }"

end
