(* ===== verification/Driver.thy ===== *)
theory Driver
  imports Scan
begin

section \<open>The connection\<close>

text \<open>
  \<open>crates/core/src/driver\<close> (\<open>row.rs\<close>, \<open>timing.rs\<close>, \<open>db_client.rs\<close>) over a
  parameter \<open>env\<close> for what lies outside the program: SQL Server, the file system at the time a
  script is read back, SHA-256, and the third-party encoders of hexadecimal text and of JSON. The
  state of that outside is of an arbitrary type \<open>'w\<close> and every call may change it.
  The SQL constants of \<open>sql/mod.rs\<close> are named by the constructors of \<open>stmt\<close>;
  \<open>Text\<close> is SQL composed at run time or read from the repository, \<open>Joined\<close> the
  concatenation of texts and \<open>Replaced\<close> a text after \<open>str::replace\<close> calls.
  A call reports whether its reply arrived within the command timeout. Elapsed times are left out.
\<close>

datatype stmt =
    BOOTSTRAP_TABLES | BOOTSTRAP_INDEX | BOOTSTRAP_DRIFT | HISTORY_EMPTY | HISTORY_EXISTS
  | LOAD_CHECKSUMS | INSERT_HISTORY | LOAD_ALL_MIGRATIONS
  | SCOPED_HIT | SCOPE_HEADER | SCHEMA_ROWS | SYS_OBJECTS | TYPES | INDEXES | INDEX_PARENTS
  | COLUMNS_OPENJSON | CACHE_LOAD | CACHE_LOAD_RELAXED | CACHE_INVALIDATE | CACHE_SAVE_BATCH | ROWS_PROJECTION
  | PING
  | BEGIN_TX | ASSERT_OPEN_TX | COMMIT_TX | ROLLBACK | ROLLBACK_IF_OPEN
  | ACQUIRE | RELEASE | RELEASE_IF_HELD
  | Text string
  | Joined "stmt list"
  | Replaced stmt "(string \<times> string) list"

datatype cell = CellNull | CellStr string | CellBytes bytes

type_synonym row_data = "cell list"

record history_record =
  hr_normalized_key :: string
  hr_kind :: string
  hr_checksum :: string
  hr_git_hash :: string
  hr_git_author :: string
  hr_git_date :: string
  hr_event :: string
  hr_error_text :: string

record 'w env =
  ev_exec :: "'w \<Rightarrow> stmt \<Rightarrow> bool \<times> unit result \<times> 'w"
  ev_query :: "'w \<Rightarrow> stmt \<Rightarrow> string list \<Rightarrow> bool \<times> row_data list result \<times> 'w"
  ev_query_all :: "'w \<Rightarrow> stmt \<Rightarrow> string list \<Rightarrow> bool \<times> row_data list list result \<times> 'w"
  ev_read :: "'w \<Rightarrow> string \<Rightarrow> string + bytes"
  ev_remove_dir_all :: "'w \<Rightarrow> string \<Rightarrow> unit result \<times> 'w"
  ev_is_dir :: "'w \<Rightarrow> string \<Rightarrow> bool"
  ev_exists :: "'w \<Rightarrow> string \<Rightarrow> bool"
  ev_canonical :: "'w \<Rightarrow> string \<Rightarrow> string + string list"
  ev_read_dir :: "'w \<Rightarrow> string \<Rightarrow> string list option"
  ev_file_len :: "'w \<Rightarrow> string \<Rightarrow> nat option"
  ev_create_dir_all :: "'w \<Rightarrow> string \<Rightarrow> unit result \<times> 'w"
  ev_write :: "'w \<Rightarrow> string \<Rightarrow> bytes \<Rightarrow> unit result \<times> 'w"
  ev_rename :: "'w \<Rightarrow> string \<Rightarrow> string \<Rightarrow> unit result \<times> 'w"
  ev_sha :: "bytes \<Rightarrow> digest"
  ev_hex :: "digest \<Rightarrow> string"
  ev_to_json :: "history_record list \<Rightarrow> string result"

subsection \<open>Result rows\<close>

definition get_str :: "row_data \<Rightarrow> nat \<Rightarrow> string option" where
  "get_str row i = (case nth_opt row i of Some (CellStr s) \<Rightarrow> Some s | _ \<Rightarrow> None)"

definition get_bytes :: "row_data \<Rightarrow> nat \<Rightarrow> bytes option" where
  "get_bytes row i = (case nth_opt row i of Some (CellBytes b) \<Rightarrow> Some b | _ \<Rightarrow> None)"

text \<open>\<open>str::parse\<close> to a signed 32-bit integer: an optional sign, digits, in range.\<close>

definition parse_i32 :: "string \<Rightarrow> int option" where
  "parse_i32 s =
     (let neg = (case s of c # _ \<Rightarrow> c = CHR ''-'' | [] \<Rightarrow> False);
          ds = (case s of c # cs \<Rightarrow> if c = CHR ''-'' \<or> c = CHR ''+'' then cs else s | [] \<Rightarrow> []);
          n = int (decimal_value ds);
          v = (if neg then - n else n)
      in if ds \<noteq> [] \<and> (\<forall>c \<in> set ds. is_ascii_digit c) \<and> - (I32_MAX + 1) \<le> v \<and> v \<le> I32_MAX
         then Some v else None)"

definition get_i32 :: "row_data \<Rightarrow> nat \<Rightarrow> int option" where
  "get_i32 row i =
     (case get_str row i of
        Some s \<Rightarrow> parse_i32 (trim s)
      | None \<Rightarrow>
          (case get_bytes row i of
             None \<Rightarrow> None
           | Some b \<Rightarrow> if is_utf8 b then parse_i32 (trim b) else None))"

subsection \<open>The timed connection\<close>

text \<open>A duration is its whole number of milliseconds; \<open>duration_debug\<close> is its \<open>Debug\<close> form.\<close>

record 'w conn =
  cn_world :: 'w
  cn_live :: bool
  cn_timeout :: nat
  cn_exec_calls :: nat
  cn_query_calls :: nat

definition pad3 :: "nat \<Rightarrow> string" where
  "pad3 n = replicate (3 - length (nat_to_string n)) (CHR ''0'') @ nat_to_string n"

definition duration_debug :: "nat \<Rightarrow> string" where
  "duration_debug ms =
     (let secs = ms div 1000; frac = ms mod 1000 in
      if secs > 0 then
        nat_to_string secs
        @ (if frac = 0 then [] else ''.'' @ rev (dropWhile (\<lambda>c. c = CHR ''0'') (rev (pad3 frac))))
        @ ''s''
      else if ms > 0 then nat_to_string ms @ ''ms''
      else ''0ns'')"

definition timing_conn_new :: "'w \<Rightarrow> 'w conn" where
  "timing_conn_new w = \<lparr>cn_world = w, cn_live = True, cn_timeout = 0, cn_exec_calls = 0, cn_query_calls = 0\<rparr>"

definition set_command_timeout :: "nat \<Rightarrow> 'w conn \<Rightarrow> 'w conn" where
  "set_command_timeout t c = c\<lparr>cn_timeout := t\<rparr>"

definition unavailable :: error where
  "unavailable = Sql ''TimingConn client is temporarily unavailable''"

definition timeout_err :: "string \<Rightarrow> 'w conn \<Rightarrow> error \<times> 'w conn" where
  "timeout_err op c = (Sql (op @ '' timed out after '' @ duration_debug (cn_timeout c)), c\<lparr>cn_live := False\<rparr>)"

text \<open>\<open>run_bounded\<close>: a late reply counts only when a timeout is set.\<close>

definition run_bounded :: "nat \<Rightarrow> bool \<Rightarrow> 'a \<Rightarrow> 'a option" where
  "run_bounded timeout late r = (if timeout = 0 \<or> \<not> late then Some r else None)"

text \<open>\<open>DbClient::exec\<close> and \<open>query\<close> on the client itself, without timeout or counters.\<close>

definition client_exec :: "'w env \<Rightarrow> stmt \<Rightarrow> 'w conn \<Rightarrow> unit result \<times> 'w conn" where
  "client_exec ev s c =
     (let (late, r, w) = ev_exec ev (cn_world c) s in (r, c\<lparr>cn_world := w\<rparr>))"

definition client_query :: "'w env \<Rightarrow> stmt \<Rightarrow> string list \<Rightarrow> 'w conn \<Rightarrow> bool \<times> row_data list result \<times> 'w conn" where
  "client_query ev s ps c =
     (let (late, r, w) = ev_query ev (cn_world c) s ps in (late, r, c\<lparr>cn_world := w\<rparr>))"

definition conn_exec :: "'w env \<Rightarrow> stmt \<Rightarrow> 'w conn \<Rightarrow> unit result \<times> 'w conn" where
  "conn_exec ev s c =
     (if \<not> cn_live c then (Inl unavailable, c)
      else
        (let (late, r, w) = ev_exec ev (cn_world c) s;
             c1 = c\<lparr>cn_world := w\<rparr>;
             (r', c2) = (case run_bounded (cn_timeout c) late r of
                 Some r \<Rightarrow> (r, c1)
               | None \<Rightarrow> (let (e, c') = timeout_err ''exec'' c1 in (Inl e, c')))
         in (r', c2\<lparr>cn_exec_calls := cn_exec_calls c2 + 1\<rparr>)))"

definition conn_query :: "'w env \<Rightarrow> stmt \<Rightarrow> string list \<Rightarrow> 'w conn \<Rightarrow> row_data list result \<times> 'w conn" where
  "conn_query ev s ps c =
     (if \<not> cn_live c then (Inl unavailable, c)
      else
        (let (late, r, w) = ev_query ev (cn_world c) s ps;
             c1 = c\<lparr>cn_world := w\<rparr>;
             (r', c2) = (case run_bounded (cn_timeout c) late r of
                 Some r \<Rightarrow> (r, c1)
               | None \<Rightarrow> (let (e, c') = timeout_err ''query'' c1 in (Inl e, c')))
         in (r', c2\<lparr>cn_query_calls := cn_query_calls c2 + 1\<rparr>)))"

definition conn_query_all ::
  "'w env \<Rightarrow> stmt \<Rightarrow> string list \<Rightarrow> 'w conn \<Rightarrow> row_data list list result \<times> 'w conn" where
  "conn_query_all ev s ps c =
     (if \<not> cn_live c then (Inl unavailable, c)
      else
        (let (late, r, w) = ev_query_all ev (cn_world c) s ps;
             c1 = c\<lparr>cn_world := w\<rparr>;
             (r', c2) = (case run_bounded (cn_timeout c) late r of
                 Some r \<Rightarrow> (r, c1)
               | None \<Rightarrow> (let (e, c') = timeout_err ''query'' c1 in (Inl e, c')))
         in (r', c2\<lparr>cn_query_calls := cn_query_calls c2 + 1\<rparr>)))"

subsection \<open>Recording what the server is asked\<close>

text \<open>
  \<open>recording\<close> is the same environment over a state that also lists every call with its reply.
  It is the specification side of the statements about what is sent to the server.
\<close>

record call =
  cl_stmt :: stmt
  cl_params :: "string list"
  cl_late :: bool
  cl_ok :: bool

definition recording :: "'w env \<Rightarrow> ('w \<times> call list) env" where
  "recording ev =
     \<lparr>ev_exec = (\<lambda>(w, l) s. let (late, r, w') = ev_exec ev w s in
        (late, r, (w', l @ [\<lparr>cl_stmt = s, cl_params = [], cl_late = late, cl_ok = (\<not> isl r)\<rparr>]))),
      ev_query = (\<lambda>(w, l) s ps. let (late, r, w') = ev_query ev w s ps in
        (late, r, (w', l @ [\<lparr>cl_stmt = s, cl_params = ps, cl_late = late, cl_ok = (\<not> isl r)\<rparr>]))),
      ev_query_all = (\<lambda>(w, l) s ps. let (late, r, w') = ev_query_all ev w s ps in
        (late, r, (w', l @ [\<lparr>cl_stmt = s, cl_params = ps, cl_late = late, cl_ok = (\<not> isl r)\<rparr>]))),
      ev_read = (\<lambda>(w, l). ev_read ev w),
      ev_remove_dir_all = (\<lambda>(w, l) d. let (r, w') = ev_remove_dir_all ev w d in (r, (w', l))),
      ev_is_dir = (\<lambda>(w, l). ev_is_dir ev w),
      ev_exists = (\<lambda>(w, l). ev_exists ev w),
      ev_canonical = (\<lambda>(w, l). ev_canonical ev w),
      ev_read_dir = (\<lambda>(w, l). ev_read_dir ev w),
      ev_file_len = (\<lambda>(w, l). ev_file_len ev w),
      ev_create_dir_all = (\<lambda>(w, l) d. let (r, w') = ev_create_dir_all ev w d in (r, (w', l))),
      ev_write = (\<lambda>(w, l) f d. let (r, w') = ev_write ev w f d in (r, (w', l))),
      ev_rename = (\<lambda>(w, l) f g. let (r, w') = ev_rename ev w f g in (r, (w', l))),
      ev_sha = ev_sha ev, ev_hex = ev_hex ev, ev_to_json = ev_to_json ev\<rparr>"

text \<open>The call as the connection sees it: a late reply is a failure when a timeout is set.\<close>

definition succeeded :: "nat \<Rightarrow> call \<Rightarrow> bool" where
  "succeeded timeout cl \<longleftrightarrow> cl_ok cl \<and> (timeout = 0 \<or> \<not> cl_late cl)"

definition calls_of :: "('w \<times> call list) conn \<Rightarrow> call list" where
  "calls_of c = snd (cn_world c)"

lemma conn_exec_recorded:
  assumes "conn_exec (recording ev) s c = (r, c')"
  shows "if cn_live c
    then (\<exists>cl. calls_of c' = calls_of c @ [cl] \<and> cl_stmt cl = s \<and> cl_params cl = []
            \<and> (succeeded (cn_timeout c) cl \<longleftrightarrow> \<not> isl r))
    else c' = c \<and> isl r"
  using assms
  by (cases "cn_world c")
    (auto simp: conn_exec_def recording_def calls_of_def run_bounded_def timeout_err_def succeeded_def
       Let_def split: prod.splits if_splits)

lemma conn_query_recorded:
  assumes "conn_query (recording ev) s ps c = (r, c')"
  shows "if cn_live c
    then (\<exists>cl. calls_of c' = calls_of c @ [cl] \<and> cl_stmt cl = s \<and> cl_params cl = ps
            \<and> (succeeded (cn_timeout c) cl \<longleftrightarrow> \<not> isl r))
    else c' = c \<and> isl r"
  using assms
  by (cases "cn_world c")
    (auto simp: conn_query_def recording_def calls_of_def run_bounded_def timeout_err_def succeeded_def
       Let_def split: prod.splits if_splits)

lemma conn_query_all_recorded:
  assumes "conn_query_all (recording ev) s ps c = (r, c')"
  shows "if cn_live c
    then (\<exists>cl. calls_of c' = calls_of c @ [cl] \<and> cl_stmt cl = s \<and> cl_params cl = ps
            \<and> (succeeded (cn_timeout c) cl \<longleftrightarrow> \<not> isl r))
    else c' = c \<and> isl r"
  using assms
  by (cases "cn_world c")
    (auto simp: conn_query_all_def recording_def calls_of_def run_bounded_def timeout_err_def succeeded_def
       Let_def split: prod.splits if_splits)

lemma conn_exec_timeout: "conn_exec ev s c = (r, c') \<Longrightarrow> cn_timeout c' = cn_timeout c"
  by (auto simp: conn_exec_def timeout_err_def Let_def split: prod.splits if_splits option.splits)

lemma conn_query_timeout: "conn_query ev s ps c = (r, c') \<Longrightarrow> cn_timeout c' = cn_timeout c"
  by (auto simp: conn_query_def timeout_err_def Let_def split: prod.splits if_splits option.splits)

lemma conn_exec_ok_live: "conn_exec ev s c = (Inr u, c') \<Longrightarrow> cn_live c \<and> cn_live c'"
  by (auto simp: conn_exec_def timeout_err_def Let_def split: prod.splits if_splits option.splits)

lemma conn_query_ok_live: "conn_query ev s ps c = (Inr u, c') \<Longrightarrow> cn_live c \<and> cn_live c'"
  by (auto simp: conn_query_def timeout_err_def Let_def split: prod.splits if_splits option.splits)

lemma conn_dead: "\<not> cn_live c \<Longrightarrow> conn_exec ev s c = (Inl unavailable, c)"
  "\<not> cn_live c \<Longrightarrow> conn_query ev s ps c = (Inl unavailable, c)"
  by (simp_all add: conn_exec_def conn_query_def)

end
