(* ===== verification/Audit_History.thy ===== *)
theory Audit_History
  imports Driver Plan_Data
begin

section \<open>Audit history\<close>

text \<open>
  \<open>crates/core/src/audit\<close>: building and writing history records (\<open>history.rs\<close>), the
  process-local caches (\<open>load/cache.rs\<close>), the bootstrap of the audit tables
  (\<open>load/bootstrap.rs\<close>), reading recorded checksums (\<open>load/checksum.rs\<close>) and applied
  transitions (\<open>migrations.rs\<close>). The two static caches are the record \<open>audit_caches\<close>,
  passed explicitly. A locked mutex is the plain value: a poisoned one is recovered by the source.
\<close>

subsection \<open>Process-local caches\<close>

record audit_caches =
  ac_ensured_dbs :: "string list"
  ac_history_empty :: "string \<rightharpoonup> bool"

definition tables_ensured :: "audit_caches \<Rightarrow> string \<Rightarrow> bool" where
  "tables_ensured ac db_fp \<longleftrightarrow> db_fp \<in> set (ac_ensured_dbs ac)"

definition mark_tables_ensured :: "string \<Rightarrow> audit_caches \<Rightarrow> audit_caches" where
  "mark_tables_ensured db_fp ac = ac\<lparr>ac_ensured_dbs := List.insert db_fp (ac_ensured_dbs ac)\<rparr>"

definition history_known_empty :: "audit_caches \<Rightarrow> string \<Rightarrow> bool" where
  "history_known_empty ac db_fp \<longleftrightarrow> (case ac_history_empty ac db_fp of Some v \<Rightarrow> v | None \<Rightarrow> False)"

definition history_empty_cached :: "audit_caches \<Rightarrow> string \<Rightarrow> bool option" where
  "history_empty_cached ac db_fp = ac_history_empty ac db_fp"

definition history_known_nonempty :: "audit_caches \<Rightarrow> string \<Rightarrow> bool" where
  "history_known_nonempty ac db_fp \<longleftrightarrow> history_empty_cached ac db_fp = Some False"

definition cache_history_empty :: "string \<Rightarrow> bool \<Rightarrow> audit_caches \<Rightarrow> audit_caches" where
  "cache_history_empty db_fp v ac = ac\<lparr>ac_history_empty := (ac_history_empty ac)(db_fp \<mapsto> v)\<rparr>"

definition invalidate_audit_cache :: "string \<Rightarrow> audit_caches \<Rightarrow> audit_caches" where
  "invalidate_audit_cache db_fp ac = ac\<lparr>ac_history_empty := (ac_history_empty ac)(db_fp := None)\<rparr>"

definition invalidate_audit_cache_all :: "string \<Rightarrow> audit_caches \<Rightarrow> audit_caches" where
  "invalidate_audit_cache_all db_fp ac =
     (let ac' = invalidate_audit_cache db_fp ac in ac'\<lparr>ac_ensured_dbs := removeAll db_fp (ac_ensured_dbs ac')\<rparr>)"

definition db_fingerprint :: "string \<Rightarrow> string \<Rightarrow> string \<Rightarrow> string \<Rightarrow> string" where
  "db_fingerprint server port user database =
     nat_to_string (length server) @ ''~'' @ server @ ''~'' @ port @ ''~'' @ user @ ''~'' @ database"

subsection \<open>History records\<close>

definition record_event ::
  "'w env \<Rightarrow> string \<Rightarrow> digest \<Rightarrow> string \<Rightarrow> string \<Rightarrow> string \<Rightarrow> string \<Rightarrow> string \<Rightarrow> history_record" where
  "record_event ev key checksum git_hash git_author git_date record_kind event =
     \<lparr>hr_normalized_key = key, hr_kind = record_kind, hr_checksum = ev_hex ev checksum,
      hr_git_hash = git_hash, hr_git_author = git_author, hr_git_date = git_date,
      hr_event = event, hr_error_text = []\<rparr>"

definition ensure_history_index :: "'w env \<Rightarrow> 'w conn \<Rightarrow> unit result \<times> 'w conn" where
  "ensure_history_index ev c = conn_exec ev BOOTSTRAP_INDEX c"

definition flush_history :: "'w env \<Rightarrow> history_record list \<Rightarrow> 'w conn \<Rightarrow> unit result \<times> 'w conn" where
  "flush_history ev records c =
     (if records = [] then (Inr (), c)
      else case ev_to_json ev records of
        Inl e \<Rightarrow> (Inl e, c)
      | Inr payload \<Rightarrow>
          (case conn_query ev INSERT_HISTORY [payload] c of
             (Inl e, c') \<Rightarrow> (Inl e, c')
           | (Inr rows, c') \<Rightarrow> (Inr (), c')))"

subsection \<open>Bootstrap\<close>

definition ensure_tables ::
  "'w env \<Rightarrow> string \<Rightarrow> audit_caches \<times> 'w conn \<Rightarrow> unit result \<times> audit_caches \<times> 'w conn" where
  "ensure_tables ev db_fp st =
     (case st of (ac, c) \<Rightarrow>
        if \<not> cn_live c then (Inl unavailable, ac, c)
        else case client_exec ev BOOTSTRAP_TABLES c of
          (Inl e, c1) \<Rightarrow> (Inl e, ac, c1)
        | (Inr u, c1) \<Rightarrow>
            (case client_exec ev BOOTSTRAP_DRIFT c1 of
               (Inl e, c2) \<Rightarrow> (Inl e, ac, c2)
             | (Inr u, c2) \<Rightarrow> (Inr (), mark_tables_ensured db_fp ac, c2)))"

definition probe_audit_tables_exist :: "'w env \<Rightarrow> 'w conn \<Rightarrow> bool result \<times> 'w conn" where
  "probe_audit_tables_exist ev c =
     (case conn_query ev HISTORY_EXISTS [] c of
        (Inl e, c') \<Rightarrow> (Inl e, c')
      | (Inr rows, c') \<Rightarrow>
          (Inr ((case rows of [] \<Rightarrow> 0 | r # _ \<Rightarrow> (case get_i32 r 0 of Some n \<Rightarrow> n | None \<Rightarrow> 0)) \<noteq> 0), c'))"

definition sync_tables_ensured ::
  "'w env \<Rightarrow> string \<Rightarrow> audit_caches \<times> 'w conn \<Rightarrow> unit result \<times> audit_caches \<times> 'w conn" where
  "sync_tables_ensured ev db_fp st =
     (case st of (ac, c) \<Rightarrow>
        case probe_audit_tables_exist ev c of
          (Inl e, c') \<Rightarrow> (Inl e, ac, c')
        | (Inr ex, c') \<Rightarrow>
            (Inr (),
             (if ex then mark_tables_ensured db_fp ac
              else if tables_ensured ac db_fp then invalidate_audit_cache_all db_fp ac
              else ac), c'))"

subsection \<open>Recorded checksums\<close>

text \<open>\<open>hex::decode\<close> is the parameter \<open>unhex\<close>.\<close>

definition parse_history_checksum :: "(string \<Rightarrow> bytes option) \<Rightarrow> row_data \<Rightarrow> nat \<Rightarrow> digest option" where
  "parse_history_checksum unhex row i =
     (case get_bytes row i of
        Some b \<Rightarrow> if length b = 32 then Some b else None
      | None \<Rightarrow>
          (case get_str row i of
             None \<Rightarrow> None
           | Some s \<Rightarrow>
               (let t = trim s in
                if t = [] then Some zero_digest
                else case unhex t of
                  None \<Rightarrow> None
                | Some b \<Rightarrow> if length b = 32 then Some b else None)))"

definition corrupt_checksum :: "string \<Rightarrow> error" where
  "corrupt_checksum key = Checksum (''audit history checksum for '' @ key @ '' is undecodable; run repair-checksum'')"

definition checksum_row ::
  "(string \<Rightarrow> bytes option) \<Rightarrow> (string \<Rightarrow> nat) \<Rightarrow> bool \<Rightarrow> checksum_map \<Rightarrow> row_data \<Rightarrow> checksum_map result" where
  "checksum_row unhex fp allow_repair m row =
     (let key = unwrap_or (get_str row 0) [] in
      case parse_history_checksum unhex row 1 of
        Some arr \<Rightarrow>
          (let m' = insert_key fp key arr m in
           Inr (if arr \<noteq> zero_digest \<and> (case get_i32 row 2 of Some n \<Rightarrow> n \<noteq> 0 | None \<Rightarrow> False)
                then mark_live_definition_drift fp key m' else m'))
      | None \<Rightarrow>
          if allow_repair then Inr (insert_key fp key zero_digest m)
          else Inl (corrupt_checksum key))"

fun checksum_rows_loop ::
  "(string \<Rightarrow> bytes option) \<Rightarrow> (string \<Rightarrow> nat) \<Rightarrow> bool \<Rightarrow> row_data list \<Rightarrow> checksum_map \<Rightarrow> checksum_map result" where
  "checksum_rows_loop unhex fp allow_repair [] m = Inr m"
| "checksum_rows_loop unhex fp allow_repair (row # rows) m =
     bind_result (checksum_row unhex fp allow_repair m row) (checksum_rows_loop unhex fp allow_repair rows)"

definition checksum_map_from_rows_ws ::
  "(string \<Rightarrow> bytes option) \<Rightarrow> (string \<Rightarrow> nat) \<Rightarrow> row_data list \<Rightarrow> bool \<Rightarrow> checksum_map result" where
  "checksum_map_from_rows_ws unhex fp rows allow_repair =
     checksum_rows_loop unhex fp allow_repair rows checksum_map_new"

text \<open>\<open>serde_json::from_str\<close> on the key list is the parameter \<open>of_json\<close>.\<close>

definition empty_checksums_from_keys_json ::
  "(string \<Rightarrow> string list option) \<Rightarrow> (string \<Rightarrow> nat) \<Rightarrow> string \<Rightarrow> checksum_map" where
  "empty_checksums_from_keys_json of_json fp keys_json =
     foldl (\<lambda>m k. insert_key fp k zero_digest m) checksum_map_new (unwrap_or (of_json keys_json) [])"

subsection \<open>Applied transitions\<close>

definition applied_row :: "(string \<rightharpoonup> string) \<Rightarrow> row_data \<Rightarrow> (string \<rightharpoonup> string)" where
  "applied_row out row =
     (let key = unwrap_or (get_str row 0) [] in
      if key = [] then out else out(key \<mapsto> trim (unwrap_or (get_str row 1) [])))"

definition applied_of_rows :: "row_data list \<Rightarrow> (string \<rightharpoonup> string)" where
  "applied_of_rows rows = foldl applied_row Map.empty rows"

end
