(* ===== verification/Apply.thy ===== *)
theory Apply
  imports Audit_History Configuration Plan
begin

section \<open>Applying a plan\<close>

text \<open>
  \<open>crates/core/src/apply\<close>: schemas, table transitions, objects and modules, each script in one
  transaction with its history rows, and the metadata-only commands. Every operation passes the
  connection and the \<open>ApplyResult\<close> explicitly; a panic of the source is \<open>None\<close>. The process
  state \<open>audit_caches\<close> is threaded where the source touches the static caches.
\<close>

record apply_result =
  ar_applied :: nat
  ar_skipped :: nat
  ar_failed :: nat
  ar_errors :: "string list"
  ar_wrote_history :: bool

definition apply_result_default :: apply_result where
  "apply_result_default =
     \<lparr>ar_applied = 0, ar_skipped = 0, ar_failed = 0, ar_errors = [], ar_wrote_history = False\<rparr>"

definition push_error :: "string \<Rightarrow> apply_result \<Rightarrow> apply_result" where
  "push_error msg r = r\<lparr>ar_failed := ar_failed r + 1, ar_errors := ar_errors r @ [msg]\<rparr>"

definition inc_applied :: "apply_result \<Rightarrow> apply_result" where
  "inc_applied r = r\<lparr>ar_applied := ar_applied r + 1\<rparr>"

definition inc_skipped :: "apply_result \<Rightarrow> apply_result" where
  "inc_skipped r = r\<lparr>ar_skipped := ar_skipped r + 1\<rparr>"

subsection \<open>Kinds\<close>

definition kind_rank :: "string \<Rightarrow> int" where
  "kind_rank kind =
     (if kind = ''types'' then 0
      else if kind = ''sequences'' then 1
      else if kind = ''tables'' then 2
      else if kind = ''synonyms'' then 3
      else if kind = ''indexes'' then 4
      else if kind = ''views'' then 5
      else if kind = ''functions'' then 6
      else if kind = ''procedures'' then 7
      else if kind = ''triggers'' then 8
      else 99)"

text \<open>\<open>sort_by_key\<close> with the pair of rank and key: a stable sort by key, then by rank.\<close>

definition sort_tx_batch :: "planned_object list \<Rightarrow> planned_object list" where
  "sort_tx_batch batch = sort_key (\<lambda>ob. kind_rank (po_kind ob)) (sort_key po_normalized_key batch)"

subsection \<open>Transactions\<close>

definition rollback ::
  "'w env \<Rightarrow> string \<Rightarrow> string \<Rightarrow> 'w conn \<times> apply_result \<Rightarrow> 'w conn \<times> apply_result" where
  "rollback ev label err st =
     (case st of (c, r) \<Rightarrow>
        case conn_exec ev ROLLBACK c of
          (Inl re, c') \<Rightarrow>
            (c', push_error (label @ '': '' @ err)
                   (push_error (label @ '': rollback failed: '' @ error_to_string re) r))
        | (Inr u, c') \<Rightarrow> (c', push_error (label @ '': '' @ err) r))"

definition commit_history ::
  "'w env \<Rightarrow> history_record list \<Rightarrow> 'w conn \<times> apply_result \<Rightarrow> bool \<times> 'w conn \<times> apply_result" where
  "commit_history ev records st =
     (case st of (c, r) \<Rightarrow>
        if records = [] then (True, c, r)
        else case flush_history ev records c of
          (Inr u, c') \<Rightarrow> (True, c', r\<lparr>ar_wrote_history := True\<rparr>)
        | (Inl e, c') \<Rightarrow> (False, c', push_error (''history write failed: '' @ error_to_string e) r))"

definition apply_in_tx ::
  "'w env \<Rightarrow> string \<Rightarrow> history_record list \<Rightarrow> string \<Rightarrow> 'w conn \<times> apply_result \<Rightarrow> bool \<times> 'w conn \<times> apply_result" where
  "apply_in_tx ev body records label st =
     (case st of (c, r) \<Rightarrow>
        case conn_exec ev BEGIN_TX c of
          (Inl e, c1) \<Rightarrow> (False, rollback ev label (error_to_string e) (c1, r))
        | (Inr u, c1) \<Rightarrow>
        case conn_exec ev (Text body) c1 of
          (Inl e, c2) \<Rightarrow> (False, rollback ev label (error_to_string e) (c2, r))
        | (Inr u, c2) \<Rightarrow>
        case conn_exec ev ASSERT_OPEN_TX c2 of
          (Inl e, c3) \<Rightarrow> (False, rollback ev label (error_to_string e) (c3, r))
        | (Inr u, c3) \<Rightarrow>
        case (if records \<noteq> [] then flush_history ev records c3 else (Inr (), c3)) of
          (Inl e, c4) \<Rightarrow> (False, rollback ev label (''history write failed: '' @ error_to_string e) (c4, r))
        | (Inr u, c4) \<Rightarrow>
        case conn_exec ev COMMIT_TX c4 of
          (Inl e, c5) \<Rightarrow> (False, rollback ev label (''commit failed: '' @ error_to_string e) (c5, r))
        | (Inr u, c5) \<Rightarrow> (True, c5, r\<lparr>ar_wrote_history := True\<rparr>))"

subsection \<open>Reading scripts back\<close>

text \<open>
  \<open>ScriptRef\<close> is a script id: \<open>script_by_key\<close> looks it up; \<open>git_field\<close> prefers the
  staged value over the interned one.
\<close>

definition script_by_key :: "workspace \<Rightarrow> string \<Rightarrow> nat option" where
  "script_by_key ws key = ws_script_key_index ws key"

definition git_field ::
  "workspace \<Rightarrow> (script_git \<Rightarrow> str_off) \<Rightarrow> (script_git_staging \<Rightarrow> string option) \<Rightarrow> nat \<Rightarrow> string option" where
  "git_field ws off staging sid =
     (case Option.bind (map_of (ws_script_git_staging ws) sid) staging of
        Some s \<Rightarrow> Some s
      | None \<Rightarrow>
          (case ws_script_git ws sid of
             None \<Rightarrow> Some []
           | Some git \<Rightarrow> if snd (off git) = 0 then Some [] else ws_str_at ws (off git)))"

definition git_triple :: "workspace \<Rightarrow> nat \<Rightarrow> (string \<times> string \<times> string) option" where
  "git_triple ws sid =
     do {
       h \<leftarrow> git_field ws sg_hash_off st_hash sid;
       a \<leftarrow> git_field ws sg_author_off st_author sid;
       d \<leftarrow> git_field ws sg_date_off st_date sid;
       Some (h, a, d)
     }"

definition po_git_triple :: "planned_object \<Rightarrow> string \<times> string \<times> string" where
  "po_git_triple ob = (case po_git ob of Some g \<Rightarrow> (pg_hash g, pg_author g, pg_date g) | None \<Rightarrow> ([], [], []))"

definition verified_body ::
  "'w env \<Rightarrow> 'w \<Rightarrow> string \<Rightarrow> digest \<Rightarrow> string \<Rightarrow> string + string" where
  "verified_body ev w path expected label =
     (case ev_read ev w path of
        Inl e \<Rightarrow> Inl (label @ '': read failed: '' @ e)
      | Inr data \<Rightarrow>
          if content_checksum (ev_sha ev) data \<noteq> expected
          then Inl (label @ '': file changed after scan; aborting before execution'')
          else if is_utf8 data then Inr data
          else Inl (label @ '': script is not valid UTF-8''))"

text \<open>\<open>Iterator::find_map\<close> over the candidate paths.\<close>

definition find_by_candidates :: "workspace \<Rightarrow> string \<Rightarrow> string \<Rightarrow> nat option" where
  "find_by_candidates ws database path =
     List.fold (\<lambda>p acc. case acc of Some i \<Rightarrow> Some i | None \<Rightarrow> script_by_key ws (script_key_from_path p))
       (path_lookup_candidates database path) None"

fun find_script_by_object :: "workspace \<Rightarrow> string \<Rightarrow> nat list \<Rightarrow> nat option option" where
  "find_script_by_object ws key [] = Some None"
| "find_script_by_object ws key (sid # sids) =
     do {
       p \<leftarrow> script_path ws sid;
       if object_key_parse p = Some key then Some (Some sid) else find_script_by_object ws key sids
     }"

definition find_script :: "workspace \<Rightarrow> planned_object \<Rightarrow> nat option option" where
  "find_script ws ob =
     (case find_by_candidates ws (po_database_name ob) (po_object_path ob) of
        Some sid \<Rightarrow> Some (Some sid)
      | None \<Rightarrow> find_script_by_object ws (po_normalized_key ob) (map Suc [0..<as_u32 (length (ws_script_rows ws))]))"

definition read_script :: "'w env \<Rightarrow> 'w \<Rightarrow> workspace \<Rightarrow> planned_object \<Rightarrow> (string + string) option" where
  "read_script ev w ws ob =
     do {
       found \<leftarrow> find_script ws ob;
       case found of
         None \<Rightarrow> Some (Inl (po_normalized_key ob @ '': script not found''))
       | Some sid \<Rightarrow> do {
           apath \<leftarrow> script_abs_path ws sid;
           Some (verified_body ev w apath (unwrap_or (script_checksum ws sid) (po_checksum ob)) (po_normalized_key ob))
         }
     }"

subsection \<open>History rows\<close>

definition object_event :: "'w env \<Rightarrow> planned_object \<Rightarrow> string \<Rightarrow> history_record" where
  "object_event ev ob event =
     (case po_git_triple ob of (h, a, d) \<Rightarrow>
        record_event ev (po_normalized_key ob) (po_checksum ob) h a d ''object'' event)"

definition adopt_record :: "'w env \<Rightarrow> planned_object \<Rightarrow> history_record" where
  "adopt_record ev ob = object_event ev ob ''adopted''"

definition repair_record :: "'w env \<Rightarrow> planned_object \<Rightarrow> history_record" where
  "repair_record ev ob = object_event ev ob ''applied''"

definition table_transition_record :: "'w env \<Rightarrow> workspace \<Rightarrow> planned_object \<Rightarrow> str_off \<Rightarrow> history_record option" where
  "table_transition_record ev ws ob off =
     do {
       path \<leftarrow> ws_str_at ws off;
       let found = find_by_candidates ws (po_database_name ob) path;
           cs = unwrap_or (Option.bind found (script_checksum ws)) (po_checksum ob)
       in do {
         (h, a, d) \<leftarrow> (case found of Some sid \<Rightarrow> git_triple ws sid | None \<Rightarrow> Some (po_git_triple ob));
         Some (record_event ev path cs h a d ''migration'' ''applied'')
       }
     }"

definition create_table_transition_records ::
  "'w env \<Rightarrow> workspace \<Rightarrow> planned_object \<Rightarrow> history_record list option" where
  "create_table_transition_records ev ws ob =
     (if po_kind ob \<noteq> ''tables'' then Some []
      else
        (let row_id = key_index ws (po_normalized_key ob) in
         case Option.bind (ws_transition_path_cache ws) (\<lambda>m. map_of m row_id) of
           None \<Rightarrow> Some []
         | Some paths \<Rightarrow> those (map (table_transition_record ev ws ob) paths)))"

definition object_records :: "'w env \<Rightarrow> workspace \<Rightarrow> planned_object \<Rightarrow> history_record list option" where
  "object_records ev ws ob =
     (if po_planned_action ob = CreateObject
      then map_option (\<lambda>rs. object_event ev ob ''applied'' # rs) (create_table_transition_records ev ws ob)
      else Some [object_event ev ob ''applied''])"

subsection \<open>Schemas\<close>

fun apply_plan_schemas ::
  "'w env \<Rightarrow> planned_schema list \<Rightarrow> 'w conn \<times> apply_result \<Rightarrow> 'w conn \<times> apply_result" where
  "apply_plan_schemas ev [] st = st"
| "apply_plan_schemas ev (s # ss) (c, r) =
     (if ps_action s \<noteq> CreateSchema then apply_plan_schemas ev ss (c, inc_skipped r)
      else case build_create_schema_sql (ps_name s) of
        Inl e \<Rightarrow> (c, push_error (''invalid schema name '' @ ps_name s @ '': '' @ error_to_string e) r)
      | Inr q \<Rightarrow>
          (case conn_exec ev (Text q) c of
             (Inl e, c') \<Rightarrow> (c', push_error (''schema '' @ ps_name s @ '': '' @ error_to_string e) r)
           | (Inr u, c') \<Rightarrow> apply_plan_schemas ev ss (c', inc_applied r)))"

subsection \<open>Transitions\<close>

definition apply_one_transition ::
  "'w env \<Rightarrow> workspace \<Rightarrow> planned_object \<Rightarrow> string \<Rightarrow> bool \<Rightarrow> 'w conn \<times> apply_result \<Rightarrow> ('w conn \<times> apply_result) option" where
  "apply_one_transition ev ws ob path is_last st =
     (case st of (c, r) \<Rightarrow>
        case find_by_candidates ws (po_database_name ob) path of
          None \<Rightarrow> Some (c, push_error (path @ '': transition script not found'') r)
        | Some sid \<Rightarrow> do {
            let cs = unwrap_or (script_checksum ws sid) (po_checksum ob);
            apath \<leftarrow> script_abs_path ws sid;
            case verified_body ev (cn_world c) apath cs path of
              Inl msg \<Rightarrow> Some (c, push_error msg r)
            | Inr body \<Rightarrow> do {
                (h, a, d) \<leftarrow> git_triple ws sid;
                let recs = record_event ev path cs h a d ''migration'' ''applied''
                           # (if is_last then [object_event ev ob ''applied''] else []);
                case apply_in_tx ev body recs path (c, r) of
                  (True, c', r') \<Rightarrow> Some (c', inc_applied r')
                | (False, c', r') \<Rightarrow> Some (c', r')
              }
          })"

fun apply_object_transitions ::
  "'w env \<Rightarrow> workspace \<Rightarrow> planned_object \<Rightarrow> string list \<Rightarrow> 'w conn \<times> apply_result \<Rightarrow> ('w conn \<times> apply_result) option" where
  "apply_object_transitions ev ws ob [] st = Some st"
| "apply_object_transitions ev ws ob (p # ps) st =
     do {
       st' \<leftarrow> apply_one_transition ev ws ob p (ps = []) st;
       if ar_failed (snd st') > 0 then Some st' else apply_object_transitions ev ws ob ps st'
     }"

fun apply_transitions ::
  "'w env \<Rightarrow> workspace \<Rightarrow> planned_object list \<Rightarrow> 'w conn \<times> apply_result \<Rightarrow> ('w conn \<times> apply_result) option" where
  "apply_transitions ev ws [] st = Some st"
| "apply_transitions ev ws (ob # obs) st =
     (if po_planned_action ob \<noteq> ReprocessChanged \<or> po_transition_paths ob = [] then apply_transitions ev ws obs st
      else do {
        st' \<leftarrow> apply_object_transitions ev ws ob (po_transition_paths ob) st;
        if ar_failed (snd st') > 0 then Some st' else apply_transitions ev ws obs st'
      })"

subsection \<open>Objects and modules\<close>

definition exec_object ::
  "'w env \<Rightarrow> workspace \<Rightarrow> planned_object \<Rightarrow> 'w conn \<times> apply_result \<Rightarrow> ('w conn \<times> apply_result) option" where
  "exec_object ev ws ob st =
     (case st of (c, r) \<Rightarrow> do {
        body_or \<leftarrow> read_script ev (cn_world c) ws ob;
        case body_or of
          Inl msg \<Rightarrow> Some (c, push_error msg r)
        | Inr body \<Rightarrow> do {
            recs \<leftarrow> object_records ev ws ob;
            case apply_in_tx ev body recs (po_normalized_key ob) (c, r) of
              (True, c', r') \<Rightarrow> Some (c', inc_applied r')
            | (False, c', r') \<Rightarrow> Some (c', r')
          }
      })"

text \<open>
  One round of \<open>apply_modules\<close>: \<open>Inl\<close> is the early return after a failed rollback, \<open>Inr\<close>
  carries the objects to retry, whether one succeeded, and the last error of each failure.
\<close>

fun module_round ::
  "'w env \<Rightarrow> workspace \<Rightarrow> planned_object list \<Rightarrow> planned_object list \<times> bool \<times> string list \<Rightarrow> 'w conn \<times> apply_result
    \<Rightarrow> (('w conn \<times> apply_result) + (planned_object list \<times> bool \<times> string list) \<times> 'w conn \<times> apply_result) option" where
  "module_round ev ws [] acc st = Some (Inr (acc, st))"
| "module_round ev ws (ob # pending) (nxt, progress, final_errors) (c, r) =
     do {
       (c', r') \<leftarrow> exec_object ev ws ob (c, r);
       if ar_failed r' = ar_failed r then module_round ev ws pending (nxt, True, final_errors) (c', r')
       else
         (let k = length (ar_errors r);
              errors = drop k (ar_errors r');
              r1 = r'\<lparr>ar_errors := take k (ar_errors r'), ar_failed := ar_failed r\<rparr>
          in if \<exists>e \<in> set errors. str_contains e ''rollback failed''
             then Some (Inl (c', foldl (\<lambda>r e. push_error e r) r1 errors))
             else
               module_round ev ws pending
                 (nxt @ [ob], progress,
                  final_errors @ [if errors = [] then po_normalized_key ob @ '': module apply failed'' else last errors])
                 (c', r1))
     }"

lemma module_round_Cons_Inr:
  assumes "module_round ev ws (ob # pending) (nxt, progress, fe) st = Some (Inr res)"
  obtains nxt1 p1 fe1 st1 where "module_round ev ws pending (nxt1, p1, fe1) st1 = Some (Inr res)"
    "nxt1 = nxt \<and> p1 \<or> nxt1 = nxt @ [ob] \<and> p1 = progress"
  using assms by (cases st) (auto simp: Let_def split: Option.bind_splits if_splits)

lemma module_round_length:
  assumes "module_round ev ws pending (nxt, progress, fe) st = Some (Inr ((nxt', progress', fe'), st'))"
  shows "length nxt' \<le> length nxt + length pending \<and> (progress' \<and> \<not> progress \<longrightarrow> length nxt' < length nxt + length pending)"
  using assms
proof (induction pending arbitrary: nxt progress fe st)
  case (Cons ob pending)
  from module_round_Cons_Inr [OF Cons.prems] obtain nxt1 p1 fe1 st1 where
    "module_round ev ws pending (nxt1, p1, fe1) st1 = Some (Inr ((nxt', progress', fe'), st'))"
    and *: "nxt1 = nxt \<and> p1 \<or> nxt1 = nxt @ [ob] \<and> p1 = progress" .
  from Cons.IH [OF this(1)] * show ?case by auto
qed auto

function apply_modules ::
  "'w env \<Rightarrow> workspace \<Rightarrow> planned_object list \<Rightarrow> 'w conn \<times> apply_result \<Rightarrow> ('w conn \<times> apply_result) option" where
  "apply_modules ev ws pending st =
     (if pending = [] then Some st
      else case module_round ev ws pending ([], False, []) st of
        None \<Rightarrow> None
      | Some (Inl st') \<Rightarrow> Some st'
      | Some (Inr ((nxt, progress, final_errors), (c, r))) \<Rightarrow>
          if \<not> progress then Some (c, foldl (\<lambda>r e. push_error e r) r final_errors)
          else apply_modules ev ws nxt (c, r))"
  by pat_completeness auto
termination
  by (relation "measure (\<lambda>(ev, ws, pending, st). length pending)") (auto dest!: module_round_length)

declare apply_modules.simps [simp del]

fun flush_tx_loop ::
  "'w env \<Rightarrow> workspace \<Rightarrow> planned_object list \<Rightarrow> 'w conn \<times> apply_result \<Rightarrow> ('w conn \<times> apply_result) option" where
  "flush_tx_loop ev ws [] st = Some st"
| "flush_tx_loop ev ws (ob # obs) st =
     do {
       st' \<leftarrow> exec_object ev ws ob st;
       if ar_failed (snd st') > 0 then Some st' else flush_tx_loop ev ws obs st'
     }"

definition flush_tx ::
  "'w env \<Rightarrow> workspace \<Rightarrow> planned_object list \<Rightarrow> 'w conn \<times> apply_result \<Rightarrow> ('w conn \<times> apply_result) option" where
  "flush_tx ev ws batch st = (if batch = [] then Some st else flush_tx_loop ev ws (sort_tx_batch batch) st)"

definition should_apply :: "planned_object \<Rightarrow> bool" where
  "should_apply ob \<longleftrightarrow> po_planned_action ob = CreateObject \<or> po_planned_action ob = UpdateExistingModule"

definition should_count_skip :: "planned_object \<Rightarrow> bool" where
  "should_count_skip ob \<longleftrightarrow>
     po_planned_action ob = SkipUnchanged \<or> po_planned_action ob = ReprocessChanged
     \<or> po_planned_action ob = ReprocessChangedBlocked"

record batches =
  ba_tx :: "planned_object list"
  ba_module :: "planned_object list"
  ba_adopt :: "history_record list"

text \<open>The sorting of the plan's objects into batches; \<open>None\<close> in the first component is the early return.\<close>

fun collect_batches ::
  "'w env \<Rightarrow> planned_object list \<Rightarrow> batches \<Rightarrow> apply_result \<Rightarrow> batches option \<times> apply_result" where
  "collect_batches ev [] b r = (Some b, r)"
| "collect_batches ev (ob # obs) b r =
     (if po_planned_action ob = AdoptExisting
      then collect_batches ev obs (b\<lparr>ba_adopt := ba_adopt b @ [adopt_record ev ob]\<rparr>) (inc_skipped r)
      else if po_planned_action ob = ReprocessChanged \<and> po_transition_paths ob = [] \<and> po_kind ob \<noteq> ''tables''
      then (None, push_error (po_normalized_key ob
              @ '': changed object cannot be auto-applied (no transition script)'') r)
      else if should_apply ob
      then collect_batches ev obs
             (if is_transactional_kind (po_kind ob) then b\<lparr>ba_tx := ba_tx b @ [ob]\<rparr>
              else b\<lparr>ba_module := ba_module b @ [ob]\<rparr>) r
      else if should_count_skip ob then collect_batches ev obs b (inc_skipped r)
      else collect_batches ev obs b r)"

definition apply_objects ::
  "'w env \<Rightarrow> workspace \<Rightarrow> planned_object list \<Rightarrow> 'w conn \<times> apply_result \<Rightarrow> ('w conn \<times> apply_result) option" where
  "apply_objects ev ws objects st =
     (case st of (c, r) \<Rightarrow>
        case collect_batches ev objects \<lparr>ba_tx = [], ba_module = [], ba_adopt = []\<rparr> r of
          (None, r1) \<Rightarrow> Some (c, r1)
        | (Some b, r1) \<Rightarrow>
            (case commit_history ev (ba_adopt b) (c, r1) of
               (False, st1) \<Rightarrow> Some st1
             | (True, st1) \<Rightarrow> do {
                 st2 \<leftarrow> flush_tx ev ws (ba_tx b) st1;
                 if ar_failed (snd st2) > 0 then Some st2
                 else apply_modules ev ws (sort_tx_batch (ba_module b)) st2
               }))"

subsection \<open>The commands\<close>

definition config_fingerprint :: "config \<Rightarrow> string" where
  "config_fingerprint cfg = db_fingerprint (cfg_server cfg) (cfg_port cfg) (cfg_user cfg) (cfg_database cfg)"

definition missing_catalog_table :: "error \<Rightarrow> bool" where
  "missing_catalog_table err =
     (case err of
        Sql msg \<Rightarrow>
          (let m = to_lowercase msg in
           str_contains m ''catalog_cache'' \<or> str_contains m ''catalog_meta'' \<or> str_contains m ''invalid object name'')
      | _ \<Rightarrow> False)"

text \<open>\<open>db::invalidate\<close> and \<open>L1Cache::invalidate_all\<close>; \<open>finish\<close> only logs their failures.\<close>

definition invalidate_catalog_cache :: "'w env \<Rightarrow> bool \<Rightarrow> 'w conn \<Rightarrow> unit result \<times> 'w conn" where
  "invalidate_catalog_cache ev enabled c =
     (if \<not> enabled then (Inr (), c)
      else case conn_exec ev CACHE_INVALIDATE c of
        (Inl e, c') \<Rightarrow> if missing_catalog_table e then (Inr (), c') else (Inl e, c')
      | (Inr u, c') \<Rightarrow> (Inr (), c'))"

definition path_join :: "string \<Rightarrow> string \<Rightarrow> string" where
  "path_join a b = (if a = [] \<or> starts_with b ''/'' then b else if ends_with a ''/'' then a @ b else a @ ''/'' @ b)"

definition l1_invalidate_all :: "'w env \<Rightarrow> string \<Rightarrow> string \<Rightarrow> 'w conn \<Rightarrow> unit result \<times> 'w conn" where
  "l1_invalidate_all ev root fingerprint c =
     (let dir = path_join root fingerprint in
      if ev_is_dir ev (cn_world c) dir
      then (let (r, w) = ev_remove_dir_all ev (cn_world c) dir in (r, c\<lparr>cn_world := w\<rparr>))
      else (Inr (), c))"

definition finish ::
  "'w env \<Rightarrow> config \<Rightarrow> apply_result \<Rightarrow> audit_caches \<times> 'w conn \<Rightarrow> apply_result result \<times> audit_caches \<times> 'w conn" where
  "finish ev cfg r st =
     (case st of (ac, c) \<Rightarrow>
        (let fp = config_fingerprint cfg;
             ac' = (if ar_wrote_history r then cache_history_empty fp False (invalidate_audit_cache fp ac) else ac);
             c' = (if ar_applied r > 0
                   then snd (l1_invalidate_all ev (cfg_l1_cache_dir cfg) fp
                          (snd (invalidate_catalog_cache ev (cfg_catalog_cache cfg) c)))
                   else c)
         in (if ar_failed r > 0 then Inl (Sql (join_with ''; '' (ar_errors r))) else Inr r, ac', c')))"

definition run_phases ::
  "'w env \<Rightarrow> workspace \<Rightarrow> migration_plan \<Rightarrow> 'w conn \<Rightarrow> ('w conn \<times> apply_result) option" where
  "run_phases ev ws plan c =
     (let st1 = apply_plan_schemas ev (mp_schemas plan) (c, apply_result_default) in
      if ar_failed (snd st1) > 0 then Some st1
      else do {
        st2 \<leftarrow> apply_transitions ev ws (mp_objects plan) st1;
        if ar_failed (snd st2) > 0 then Some st2
        else apply_objects ev ws (mp_objects plan) st2
      })"

definition execute_plan ::
  "'w env \<Rightarrow> config \<Rightarrow> workspace \<Rightarrow> migration_plan \<Rightarrow> audit_caches \<times> 'w conn
    \<Rightarrow> (apply_result result \<times> migration_plan \<times> audit_caches \<times> 'w conn) option" where
  "execute_plan ev cfg ws plan0 st =
     (if mp_blocked plan0 then Some (Inl PlanBlocked, plan0, st)
      else do {
        plan \<leftarrow> ensure_objects_materialized ws plan0;
        case ensure_tables ev (config_fingerprint cfg) st of
          (Inl e, st1) \<Rightarrow> Some (Inl e, plan, st1)
        | (Inr u, (ac, c)) \<Rightarrow>
            (case ensure_history_index ev c of
               (Inl e, c1) \<Rightarrow> Some (Inl e, plan, (ac, c1))
             | (Inr u, c1) \<Rightarrow> do {
                 (c2, r) \<leftarrow> run_phases ev ws plan c1;
                 let (res, st2) = finish ev cfg r (ac, c2);
                 Some (res, plan, st2)
               })
      })"

datatype MetadataMode = MdBaseline | MdRepairChecksum

definition metadata_records :: "'w env \<Rightarrow> MetadataMode \<Rightarrow> planned_object \<Rightarrow> history_record list" where
  "metadata_records ev mode ob =
     (if po_planned_action ob = AdoptExisting then [adopt_record ev ob]
      else if po_planned_action ob \<in> {UpdateExistingModule, ReprocessChanged, ReprocessChangedBlocked, Fail}
              \<and> mode = MdRepairChecksum
      then [repair_record ev ob]
      else [])"

definition execute_metadata_plan ::
  "'w env \<Rightarrow> config \<Rightarrow> workspace \<Rightarrow> migration_plan \<Rightarrow> MetadataMode \<Rightarrow> audit_caches \<times> 'w conn
    \<Rightarrow> (apply_result result \<times> migration_plan \<times> audit_caches \<times> 'w conn) option" where
  "execute_metadata_plan ev cfg ws plan0 mode st =
     (if mp_blocked plan0 \<and> mode \<noteq> MdRepairChecksum then Some (Inl PlanBlocked, plan0, st)
      else do {
        plan \<leftarrow> ensure_objects_materialized ws plan0;
        case ensure_tables ev (config_fingerprint cfg) st of
          (Inl e, st1) \<Rightarrow> Some (Inl e, plan, st1)
        | (Inr u, (ac, c)) \<Rightarrow>
            (case ensure_history_index ev c of
               (Inl e, c1) \<Rightarrow> Some (Inl e, plan, (ac, c1))
             | (Inr u, c1) \<Rightarrow>
                 (let recs = concat (map (metadata_records ev mode) (mp_objects plan));
                      r0 = apply_result_default\<lparr>ar_skipped := length (mp_objects plan)\<rparr>;
                      (ok, c2, r) = commit_history ev recs (c1, r0);
                      (res, st2) = finish ev cfg r (ac, c2)
                  in Some (res, plan, st2)))
      })"

end
