(* ===== verification/Catalog.thy ===== *)
theory Catalog
  imports Scope Apply
begin

section \<open>Reading the catalog\<close>

text \<open>
  \<open>crates/core/src/db\<close>: the inspect statement (\<open>catalog.rs\<close>, \<open>batch.rs\<close>), merging its
  rows (\<open>catalog.rs\<close>, \<open>catalog_guard.rs\<close>), table columns (\<open>columns.rs\<close>), the catalog cache
  in the database (\<open>catalog_cache.rs\<close>, \<open>catalog_cache_save\<close>), the process-local inspect cache
  and warm snapshot, and the file cache (\<open>cache/l1.rs\<close>). Hash maps are association lists.
\<close>

subsection \<open>The inspect statement\<close>

definition catalog_section :: "string \<Rightarrow> stmt \<Rightarrow> stmt list" where
  "catalog_section name body = [Text ('', '' @ name @ '' AS (''), body, Text '')'']"

definition catalog_source :: "bool \<Rightarrow> string \<Rightarrow> stmt list" where
  "catalog_source first name =
     [Text (if first then '' '' else '' UNION ALL ''), ROWS_PROJECTION, Text ('' '' @ name)]"

fun catalog_sources :: "bool \<Rightarrow> string list \<Rightarrow> stmt list" where
  "catalog_sources first [] = []"
| "catalog_sources first (n # ns) = catalog_source first n @ catalog_sources False ns"

definition build_catalog_from_header :: "stmt \<Rightarrow> string list \<Rightarrow> bool \<Rightarrow> stmt" where
  "build_catalog_from_header header kinds skip_schema_rows =
     (let has_sys = list_ex (\<lambda>k. k \<noteq> ''types'' \<and> k \<noteq> ''indexes'') kinds;
          has_types = list_ex (\<lambda>k. k = ''types'') kinds;
          has_indexes = list_ex (\<lambda>k. k = ''indexes'') kinds
      in Joined ([header]
           @ (if skip_schema_rows then [] else catalog_section ''schema_rows'' SCHEMA_ROWS)
           @ (if has_sys then catalog_section ''sys_object_rows'' SYS_OBJECTS else [])
           @ (if has_types then catalog_section ''type_rows'' TYPES else [])
           @ (if has_indexes then catalog_section ''index_rows'' INDEXES else [])
           @ catalog_sources True
               ((if skip_schema_rows then [] else [''schema_rows''])
                @ (if has_sys then [''sys_object_rows''] else [])
                @ (if has_types then [''type_rows''] else [])
                @ (if has_indexes then [''index_rows''] else []))))"

definition build_catalog_sql_batch :: "string list \<Rightarrow> bool \<Rightarrow> stmt" where
  "build_catalog_sql_batch kinds skip_schema_rows =
     build_catalog_from_header (Replaced SCOPE_HEADER [(''@p2'', ''@p3''), (''@p1'', ''@p2'')]) kinds skip_schema_rows"

definition plan_db_batch_sql :: "string list \<Rightarrow> bool \<Rightarrow> bool \<Rightarrow> bool \<Rightarrow> bool \<Rightarrow> stmt" where
  "plan_db_batch_sql kinds bootstrap catalog skip_schema_rows relaxed_cache =
     Joined ((if bootstrap then [BOOTSTRAP_TABLES, Text [LF], BOOTSTRAP_DRIFT, Text [LF]] else [])
       @ (if relaxed_cache then [CACHE_LOAD_RELAXED, Text [LF]] else [])
       @ (if catalog then [build_catalog_sql_batch kinds skip_schema_rows] else []))"

subsection \<open>Merging rows\<close>

definition cell_str :: "row_data \<Rightarrow> nat \<Rightarrow> string" where
  "cell_str row i = unwrap_or (get_str row i) []"

definition looks_like_catalog_rows :: "row_data list \<Rightarrow> bool" where
  "looks_like_catalog_rows rows =
     (case rows of
        [] \<Rightarrow> False
      | r # _ \<Rightarrow> length r \<ge> 5 \<and> (get_str r 0 = Some ''object'' \<or> get_str r 0 = Some ''schema''))"

definition looks_like_cache_load_rows :: "row_data list \<Rightarrow> bool" where
  "looks_like_cache_load_rows rows =
     (case rows of
        [] \<Rightarrow> False
      | r # _ \<Rightarrow> length r \<ge> 5 \<and> (case get_str r 0 of Some k \<Rightarrow> CHR ''/'' \<in> set k | None \<Rightarrow> False))"

definition catalog_default :: catalog_state where
  "catalog_default = \<lparr>cat_schemas = [], cat_objects = []\<rparr>"

definition ensure_index_unambiguous ::
  "catalog_state \<Rightarrow> string \<Rightarrow> string \<Rightarrow> string option \<Rightarrow> unit result" where
  "ensure_index_unambiguous st key obj_kind parent =
     (if obj_kind \<noteq> ''indexes'' then Inr ()
      else case map_of (cat_objects st) key of
        None \<Rightarrow> Inr ()
      | Some prev \<Rightarrow>
          (let prev_parent = unwrap_or (co_parent prev) []; new_parent = unwrap_or parent [] in
           if prev_parent = new_parent then Inr ()
           else Inl (InvalidInput (''ambiguous index '' @ key @ '': exists on both '' @ [CHR 0x27] @ prev_parent @ [CHR 0x27]
                  @ '' and '' @ [CHR 0x27] @ new_parent @ [CHR 0x27]
                  @ ''; index names managed by the repository must be unique per schema''))))"

definition insert_object :: "string \<Rightarrow> catalog_object \<Rightarrow> catalog_state \<Rightarrow> catalog_state" where
  "insert_object key ob st = st\<lparr>cat_objects := AList.update key ob (cat_objects st)\<rparr>"

definition insert_schema :: "string \<Rightarrow> catalog_state \<Rightarrow> catalog_state" where
  "insert_schema s st = st\<lparr>cat_schemas := List.insert s (cat_schemas st)\<rparr>"

definition merge_catalog_row :: "catalog_state \<Rightarrow> row_data \<Rightarrow> catalog_state result" where
  "merge_catalog_row st row =
     (if cell_str row 0 = ''schema'' then Inr (insert_schema (to_lowercase (cell_str row 1)) st)
      else
        (let schema = cell_str row 1; obj_kind = cell_str row 2; name = cell_str row 3; parent = get_str row 4;
             key = object_key_new schema obj_kind name
         in bind_result (ensure_index_unambiguous st key obj_kind parent)
              (\<lambda>u. Inr (insert_object key (catalog_object_new schema obj_kind name parent) st))))"

fun merge_rows :: "catalog_state \<Rightarrow> row_data list \<Rightarrow> catalog_state result" where
  "merge_rows st [] = Inr st"
| "merge_rows st (row # rows) = bind_result (merge_catalog_row st row) (\<lambda>st'. merge_rows st' rows)"

fun merge_catalog_sets :: "catalog_state \<Rightarrow> row_data list list \<Rightarrow> catalog_state result" where
  "merge_catalog_sets st [] = Inr st"
| "merge_catalog_sets st (rs # sets) =
     (if looks_like_catalog_rows rs then bind_result (merge_rows st rs) (\<lambda>st'. merge_catalog_sets st' sets)
      else merge_catalog_sets st sets)"

subsection \<open>Columns\<close>

record table_column =
  tc_name :: string
  tc_type_name :: string
  tc_nullable :: bool

definition row_nullable :: "row_data \<Rightarrow> nat \<Rightarrow> bool" where
  "row_nullable row idx =
     (case get_str row idx of
        Some s \<Rightarrow> s = ''1'' \<or> s = ''true''
      | None \<Rightarrow> (case get_bytes row idx of Some b \<Rightarrow> b \<noteq> [] \<and> hd b \<noteq> CHR 0x00 | None \<Rightarrow> True))"

definition column_row :: "(string \<times> table_column list) list \<Rightarrow> row_data \<Rightarrow> (string \<times> table_column list) list" where
  "column_row out row =
     (let key = to_lowercase (cell_str row 0) @ ''/tables/'' @ to_lowercase (cell_str row 1);
          col = \<lparr>tc_name = to_lowercase (cell_str row 2), tc_type_name = to_lowercase (cell_str row 3),
                 tc_nullable = row_nullable row 7\<rparr>
      in AList.update key (unwrap_or (map_of out key) [] @ [col]) out)"

definition rows_into_map :: "row_data list \<Rightarrow> (string \<times> table_column list) list" where
  "rows_into_map rows = foldl column_row [] rows"

definition table_refs :: "workspace \<Rightarrow> (string \<times> string \<times> string) list option" where
  "table_refs ws =
     map_option (\<lambda>keys. map (\<lambda>k. (to_lowercase (schema_part k), ''tables'', to_lowercase (name_part k)))
                         (filter (\<lambda>k. kind_part k = ''tables'') keys))
       (entry_keys ws)"

definition load_table_columns ::
  "'w env \<Rightarrow> codec \<Rightarrow> workspace \<Rightarrow> 'w conn \<Rightarrow> ((string \<times> table_column list) list result \<times> 'w conn) option" where
  "load_table_columns ev jc ws c =
     do {
       refs \<leftarrow> table_refs ws;
       if refs = [] then Some (Inr [], c)
       else case conn_query ev COLUMNS_OPENJSON [jc_scope jc refs] c of
         (Inl e, c') \<Rightarrow> Some (Inl e, c')
       | (Inr rows, c') \<Rightarrow> Some (Inr (rows_into_map rows), c')
     }"

subsection \<open>The catalog cache in the database\<close>

definition merge_row :: "catalog_state \<Rightarrow> row_data \<Rightarrow> catalog_state" where
  "merge_row st row =
     (if cell_str row 2 = ''schema'' then insert_schema (to_lowercase (cell_str row 1)) st
      else insert_object (cell_str row 0)
             (catalog_object_new (cell_str row 1) (cell_str row 2) (cell_str row 3) (get_str row 4)) st)"

definition hydrate_schemas_from_objects :: "catalog_state \<Rightarrow> catalog_state" where
  "hydrate_schemas_from_objects st =
     foldl (\<lambda>s (k, ob). insert_schema (to_lowercase (co_schema ob)) s) st (cat_objects st)"

definition merge_load_rows :: "catalog_state \<Rightarrow> row_data list \<Rightarrow> catalog_state" where
  "merge_load_rows st rows = hydrate_schemas_from_objects (foldl merge_row st rows)"

definition try_load ::
  "'w env \<Rightarrow> digest \<Rightarrow> nat \<Rightarrow> 'w conn \<Rightarrow> (catalog_state option result \<times> 'w conn) option" where
  "try_load ev ws_digest n_objects c =
     (case conn_query ev CACHE_LOAD [ev_hex ev ws_digest, nat_to_string n_objects] c of
        (Inl e, c') \<Rightarrow> Some (if missing_catalog_table e then (Inr None, c') else (Inl e, c'))
      | (Inr rows, c') \<Rightarrow>
          if rows = [] then Some (Inr None, c')
          else
            (let st = foldl merge_row catalog_default rows in
             if length (cat_objects st) \<noteq> n_objects then Some (Inr None, c')
             else do {
               st' \<leftarrow> intern_catalog_state (hydrate_schemas_from_objects st);
               Some (Inr (Some st'), c')
             }))"

definition filter_for_layout :: "workspace \<Rightarrow> catalog_state \<Rightarrow> catalog_state option" where
  "filter_for_layout ws st =
     map_option (\<lambda>keys. foldl (\<lambda>out k. case map_of (cat_objects st) k of
                                   Some ob \<Rightarrow> insert_object k ob out | None \<Rightarrow> out) catalog_default keys)
       (entry_keys ws)"

definition marshal_rows :: "codec \<Rightarrow> catalog_state \<Rightarrow> string result" where
  "marshal_rows jc st =
     jc_cache_rows jc (map (\<lambda>(k, ob). (k, co_schema ob, co_kind ob, co_name ob, unwrap_or (co_parent ob) []))
       (cat_objects st))"

definition save_batched ::
  "'w env \<Rightarrow> codec \<Rightarrow> digest \<Rightarrow> workspace \<Rightarrow> catalog_state \<Rightarrow> 'w conn \<Rightarrow> (unit result \<times> 'w conn) option" where
  "save_batched ev jc ws_digest ws st c =
     (if object_count ws = 0 then Some (Inr (), c)
      else do {
        filtered \<leftarrow> filter_for_layout ws st;
        if length (cat_objects filtered) \<noteq> object_count ws then Some (Inr (), c)
        else case marshal_rows jc filtered of
          Inl e \<Rightarrow> Some (Inl e, c)
        | Inr payload \<Rightarrow>
            (case conn_query ev CACHE_SAVE_BATCH [payload, ev_hex ev ws_digest, nat_to_string (object_count ws)] c of
               (Inl e, c') \<Rightarrow> Some (if missing_catalog_table e then (Inr (), c') else (Inl e, c'))
             | (Inr rows, c') \<Rightarrow> Some (Inr (), c'))
      })"

definition parentless_index :: "catalog_object \<Rightarrow> bool" where
  "parentless_index ob \<longleftrightarrow> co_kind ob = ''indexes'' \<and> (case co_parent ob of None \<Rightarrow> True | Some p \<Rightarrow> p = [])"

definition hydrate_index_row :: "(string \<times> catalog_object) list \<Rightarrow> row_data \<Rightarrow> (string \<times> catalog_object) list" where
  "hydrate_index_row objs row =
     (let schema = to_lowercase (cell_str row 0); index = to_lowercase (cell_str row 1); parent = cell_str row 2 in
      if parent = [] then objs
      else map (\<lambda>(k, ob).
             if parentless_index ob \<and> eq_ignore_ascii_case (co_schema ob) schema \<and> eq_ignore_ascii_case (co_name ob) index
             then (k, ob\<lparr>co_parent := Some parent\<rparr>) else (k, ob)) objs)"

definition hydrate_index_parents_from_db ::
  "'w env \<Rightarrow> catalog_state \<Rightarrow> 'w conn \<Rightarrow> catalog_state result \<times> 'w conn" where
  "hydrate_index_parents_from_db ev st c =
     (if \<not> list_ex (\<lambda>(k, ob). parentless_index ob) (cat_objects st) then (Inr st, c)
      else case conn_query ev INDEX_PARENTS [] c of
        (Inl e, c') \<Rightarrow> (Inl e, c')
      | (Inr rows, c') \<Rightarrow> (Inr (st\<lparr>cat_objects := foldl hydrate_index_row (cat_objects st) rows\<rparr>), c'))"

fun workspace_catalog :: "workspace \<Rightarrow> nat list \<Rightarrow> catalog_state \<Rightarrow> catalog_state option" where
  "workspace_catalog ws [] st = Some st"
| "workspace_catalog ws (i # is) st =
     do {
       k \<leftarrow> entry_key ws i;
       parent \<leftarrow> object_parent ws i;
       workspace_catalog ws is
         (insert_object k (catalog_object_parts (schema_part k) (kind_part k) (name_part k) parent)
           (insert_schema (to_lowercase (schema_part k)) st))
     }"

definition save_workspace_snapshot ::
  "'w env \<Rightarrow> codec \<Rightarrow> digest \<Rightarrow> workspace \<Rightarrow> bool \<Rightarrow> 'w conn \<Rightarrow> (unit result \<times> 'w conn) option" where
  "save_workspace_snapshot ev jc ws_digest ws enabled c =
     (if \<not> enabled \<or> object_count ws = 0 then Some (Inr (), c)
      else do {
        st \<leftarrow> workspace_catalog ws [0..<object_count ws] catalog_default;
        case hydrate_index_parents_from_db ev st c of
          (Inl e, c') \<Rightarrow> Some (Inl e, c')
        | (Inr st', c') \<Rightarrow> save_batched ev jc ws_digest ws st' c'
      })"

subsection \<open>Process-local caches\<close>

text \<open>
  \<open>catalog_inspect_cache\<close> is keyed by \<open>cache_key\<close>, the fingerprint followed by a hash of
  fingerprint, digest and scope (\<open>DefaultHasher\<close> is the parameter \<open>hash\<close>); \<open>warm_snapshot\<close>
  holds one snapshot. Both live in the record \<open>caches\<close> beside the caches of the audit component.
\<close>

record snapshot =
  sn_server_database :: string
  sn_digest :: digest
  sn_checksums :: checksum_map
  sn_catalog :: catalog_state

record caches =
  ca_audit :: audit_caches
  ca_inspect :: "(string \<times> catalog_state) list"
  ca_snap :: "snapshot option"

definition cache_key :: "(string \<times> digest \<times> string \<Rightarrow> nat) \<Rightarrow> string \<Rightarrow> digest \<Rightarrow> string \<Rightarrow> string" where
  "cache_key hash db_fp ws_digest scope_json = db_fp @ '':'' @ nat_to_hex (hash (db_fp, ws_digest, scope_json))"

definition inspect_store ::
  "(string \<times> digest \<times> string \<Rightarrow> nat) \<Rightarrow> string \<Rightarrow> digest \<Rightarrow> string \<Rightarrow> catalog_state \<Rightarrow> caches \<Rightarrow> caches" where
  "inspect_store hash db_fp ws_digest scope_json st ca =
     ca\<lparr>ca_inspect := AList.update (cache_key hash db_fp ws_digest scope_json) st (ca_inspect ca)\<rparr>"

definition invalidate_db :: "string \<Rightarrow> caches \<Rightarrow> caches" where
  "invalidate_db db_fp ca = ca\<lparr>ca_inspect := filter (\<lambda>(k, st). \<not> starts_with k db_fp) (ca_inspect ca)\<rparr>"

definition try_get_unless_bypassed ::
  "(string \<times> digest \<times> string \<Rightarrow> nat) \<Rightarrow> bool \<Rightarrow> string \<Rightarrow> digest \<Rightarrow> string \<Rightarrow> caches \<Rightarrow> catalog_state option" where
  "try_get_unless_bypassed hash bypass db_fp ws_digest scope_json ca =
     (if bypass then None
      else case map_of (ca_inspect ca) (cache_key hash db_fp ws_digest scope_json) of
        None \<Rightarrow> None
      | Some st \<Rightarrow> if cat_objects st = [] \<and> cat_schemas st = [] then None else Some st)"

definition store_inspect_cache ::
  "(string \<times> digest \<times> string \<Rightarrow> nat) \<Rightarrow> string \<Rightarrow> digest \<Rightarrow> string \<Rightarrow> catalog_state \<Rightarrow> caches \<Rightarrow> caches" where
  "store_inspect_cache hash db_fp ws_digest scope_json loaded ca =
     (if cat_objects loaded = [] \<and> cat_schemas loaded = [] then ca
      else inspect_store hash db_fp ws_digest scope_json loaded ca)"

definition reuse_enabled :: "(string \<Rightarrow> string option) \<Rightarrow> bool" where
  "reuse_enabled getenv \<longleftrightarrow> getenv ''RMIG_INTEGRATION_WARM_SNAPSHOT'' \<in> {Some ''1'', Some ''true'', Some ''yes''}"

definition warm_store ::
  "(string \<Rightarrow> string option) \<Rightarrow> string \<Rightarrow> digest \<Rightarrow> checksum_map \<Rightarrow> catalog_state \<Rightarrow> caches \<Rightarrow> caches" where
  "warm_store getenv server_database dg checksums catalog ca =
     (if \<not> reuse_enabled getenv then ca
      else ca\<lparr>ca_snap := Some \<lparr>sn_server_database = server_database, sn_digest = dg,
                               sn_checksums = checksums, sn_catalog = catalog\<rparr>\<rparr>)"

definition warm_reuse ::
  "(string \<Rightarrow> string option) \<Rightarrow> string \<Rightarrow> digest \<Rightarrow> caches \<Rightarrow> (checksum_map \<times> catalog_state) option" where
  "warm_reuse getenv server_database dg ca =
     (if \<not> reuse_enabled getenv then None
      else case ca_snap ca of
        None \<Rightarrow> None
      | Some s \<Rightarrow>
          if sn_server_database s \<noteq> server_database \<or> sn_digest s \<noteq> dg then None
          else Some (sn_checksums s, sn_catalog s))"

definition warm_clear :: "caches \<Rightarrow> caches" where
  "warm_clear ca = ca\<lparr>ca_snap := None\<rparr>"

subsection \<open>The file cache\<close>

definition MAX_L1_CACHE_BYTES :: nat where "MAX_L1_CACHE_BYTES = 64 * 1024 * 1024"

definition l1_path :: "'w env \<Rightarrow> string \<Rightarrow> string \<Rightarrow> digest \<Rightarrow> string" where
  "l1_path ev root fingerprint dg = path_join (path_join root fingerprint) (ev_hex ev dg @ ''.json'')"

text \<open>\<open>ev_file_len\<close> is the length of a regular file, \<open>None\<close> for anything else.\<close>

definition l1_try_load ::
  "'w env \<Rightarrow> codec \<Rightarrow> (string \<Rightarrow> nat) \<Rightarrow> string \<Rightarrow> string \<Rightarrow> digest \<Rightarrow> 'w conn \<Rightarrow> (checksum_map \<times> catalog_state) option result" where
  "l1_try_load ev jc fp root fingerprint dg c =
     (let path = l1_path ev root fingerprint dg in
      case ev_file_len ev (cn_world c) path of
        None \<Rightarrow> Inr None
      | Some n \<Rightarrow>
          if n > MAX_L1_CACHE_BYTES then Inr None
          else case ev_read ev (cn_world c) path of
            Inl e \<Rightarrow> Inl (Io e)
          | Inr data \<Rightarrow>
              (case jc_l1_read jc data of
                 None \<Rightarrow> Inr None
               | Some (d, wire, catalog) \<Rightarrow>
                   if d \<noteq> dg then Inr None else Inr (Some (checksum_map_unwire fp wire, catalog))))"

definition l1_save ::
  "'w env \<Rightarrow> codec \<Rightarrow> nat \<Rightarrow> string \<Rightarrow> string \<Rightarrow> digest \<Rightarrow> checksum_map \<Rightarrow> catalog_state \<Rightarrow> 'w conn \<Rightarrow> unit result \<times> 'w conn" where
  "l1_save ev jc pid root fingerprint dg checksums catalog c =
     (case ev_create_dir_all ev (cn_world c) (path_join root fingerprint) of
        (Inl e, w) \<Rightarrow> (Inl e, c\<lparr>cn_world := w\<rparr>)
      | (Inr u, w) \<Rightarrow>
          (case jc_l1_write jc (dg, checksum_map_wire checksums, catalog) of
             Inl e \<Rightarrow> (Inl e, c\<lparr>cn_world := w\<rparr>)
           | Inr data \<Rightarrow>
               if length data > MAX_L1_CACHE_BYTES then (Inr (), c\<lparr>cn_world := w\<rparr>)
               else
                 (let tmp = path_join (path_join root fingerprint) (ev_hex ev dg @ ''.'' @ nat_to_string pid @ ''.tmp'') in
                  case ev_write ev w tmp data of
                    (Inl e, w1) \<Rightarrow> (Inl e, c\<lparr>cn_world := w1\<rparr>)
                  | (Inr u, w1) \<Rightarrow>
                      (let (r, w2) = ev_rename ev w1 tmp (l1_path ev root fingerprint dg) in (r, c\<lparr>cn_world := w2\<rparr>)))))"

end
