(* ===== verification/Plan_Db.thy ===== *)
theory Plan_Db
  imports Catalog
begin

section \<open>The database phase of planning\<close>

text \<open>
  \<open>db/plan_common\<close> and \<open>db/plan_snapshot.rs\<close>: loading recorded checksums and the catalog for a
  workspace. The connection and the process-local caches are passed explicitly as the state
  \<open>caches \<times> 'w conn\<close>; a panic is \<open>None\<close>. The trace of the source (timings, flags and
  round-trip counts, \<open>PlanDbTrace\<close>) is kept where it changes what is done, the flag
  \<open>checksums_skipped\<close>, and otherwise left out. The record \<open>db_params\<close> collects the
  parameters: the outside, the encoders, the key fingerprint, the hasher and the git host.
\<close>

record ('w, 'g) db_params =
  dp_env :: "'w env"
  dp_codec :: codec
  dp_fp :: "string \<Rightarrow> nat"
  dp_hash :: "string \<times> digest \<times> string \<Rightarrow> nat"
  dp_host :: "'g host"
  dp_pid :: nat

type_synonym 'w db_state = "caches \<times> 'w conn"

definition on_audit :: "(audit_caches \<Rightarrow> audit_caches) \<Rightarrow> caches \<Rightarrow> caches" where
  "on_audit f ca = ca\<lparr>ca_audit := f (ca_audit ca)\<rparr>"

subsection \<open>Recorded checksums\<close>

definition ensure_tables_plan :: "'w env \<Rightarrow> string \<Rightarrow> 'w db_state \<Rightarrow> unit result \<times> 'w db_state" where
  "ensure_tables_plan ev db_fp st =
     (case st of (ca, c) \<Rightarrow>
        case conn_exec ev BOOTSTRAP_TABLES c of
          (Inl e, c1) \<Rightarrow> (Inl e, ca, c1)
        | (Inr u, c1) \<Rightarrow>
            (case conn_exec ev BOOTSTRAP_DRIFT c1 of
               (Inl e, c2) \<Rightarrow> (Inl e, ca, c2)
             | (Inr u, c2) \<Rightarrow> (Inr (), on_audit (mark_tables_ensured db_fp) ca, c2)))"

definition history_table_exists :: "'w env \<Rightarrow> 'w conn \<Rightarrow> bool result \<times> 'w conn" where
  "history_table_exists ev c =
     (case conn_query ev HISTORY_EXISTS [] c of
        (Inl e, c') \<Rightarrow> (Inl e, c')
      | (Inr rows, c') \<Rightarrow>
          (Inr (unwrap_or (case rows of [] \<Rightarrow> None | r # _ \<Rightarrow> get_i32 r 0) 0 \<noteq> 0), c'))"

definition history_has_rows :: "row_data list \<Rightarrow> bool" where
  "history_has_rows rows =
     (case rows of
        [] \<Rightarrow> False
      | r # _ \<Rightarrow>
          (case get_str r 0 of Some s \<Rightarrow> trim s \<in> {''1'', ''true'', ''True''} | None \<Rightarrow> False)
          \<or> (case get_i32 r 0 of Some n \<Rightarrow> n \<noteq> 0 | None \<Rightarrow> False))"

definition probe_history_empty :: "'w env \<Rightarrow> string \<Rightarrow> 'w db_state \<Rightarrow> bool result \<times> 'w db_state" where
  "probe_history_empty ev db_fp st =
     (case st of (ca, c) \<Rightarrow>
        case conn_query ev HISTORY_EMPTY [] c of
          (Inl e, c') \<Rightarrow> (Inl e, ca, c')
        | (Inr rows, c') \<Rightarrow>
            (let ca1 = on_audit (mark_tables_ensured db_fp) ca;
                 emp = (\<not> history_has_rows rows);
                 ca2 = (if emp then ca1 else invalidate_db db_fp ca1)
             in (Inr emp, on_audit (cache_history_empty db_fp emp) ca2, c')))"

definition history_table_is_empty_plan ::
  "'w env \<Rightarrow> string \<Rightarrow> bool \<Rightarrow> 'w db_state \<Rightarrow> bool result \<times> 'w db_state" where
  "history_table_is_empty_plan ev db_fp allow_bootstrap st =
     (case st of (ca, c) \<Rightarrow>
        case history_empty_cached (ca_audit ca) db_fp of
          Some emp \<Rightarrow> (Inr emp, st)
        | None \<Rightarrow>
            if tables_ensured (ca_audit ca) db_fp then probe_history_empty ev db_fp st
            else if allow_bootstrap then
              (case ensure_tables_plan ev db_fp st of
                 (Inl e, st1) \<Rightarrow> (Inl e, st1)
               | (Inr u, st1) \<Rightarrow> probe_history_empty ev db_fp st1)
            else
              (case history_table_exists ev c of
                 (Inl e, c1) \<Rightarrow> (Inl e, ca, c1)
               | (Inr False, c1) \<Rightarrow> (Inr True, on_audit (cache_history_empty db_fp True) ca, c1)
               | (Inr True, c1) \<Rightarrow> probe_history_empty ev db_fp (ca, c1)))"

definition load_checksums_query_plan ::
  "'w env \<Rightarrow> codec \<Rightarrow> (string \<Rightarrow> nat) \<Rightarrow> string \<Rightarrow> bool \<Rightarrow> 'w db_state \<Rightarrow> checksum_map result \<times> 'w db_state" where
  "load_checksums_query_plan ev jc fp keys_json allow_repair st =
     (case st of (ca, c) \<Rightarrow>
        case conn_query ev LOAD_CHECKSUMS [keys_json] c of
          (Inl e, c') \<Rightarrow> (Inl e, ca, c')
        | (Inr rows, c') \<Rightarrow> (checksum_map_from_rows_ws (jc_unhex jc) fp rows allow_repair, ca, c'))"

definition load_checksums_plan ::
  "'w env \<Rightarrow> codec \<Rightarrow> (string \<Rightarrow> nat) \<Rightarrow> string \<Rightarrow> string \<Rightarrow> bool \<Rightarrow> bool \<Rightarrow> 'w db_state \<Rightarrow> checksum_map result \<times> 'w db_state" where
  "load_checksums_plan ev jc fp db_fp keys_json allow_bootstrap allow_repair st =
     (if keys_json = ''[]'' then (Inr checksum_map_new, st)
      else if history_known_nonempty (ca_audit (fst st)) db_fp
      then load_checksums_query_plan ev jc fp keys_json allow_repair st
      else case history_table_is_empty_plan ev db_fp allow_bootstrap st of
        (Inl e, st1) \<Rightarrow> (Inl e, st1)
      | (Inr True, st1) \<Rightarrow> (Inr (empty_checksums_from_keys_json (jc_keys jc) fp keys_json), st1)
      | (Inr False, st1) \<Rightarrow> load_checksums_query_plan ev jc fp keys_json allow_repair st1)"

text \<open>\<open>set_checksum_trace\<close>: the flag \<open>checksums_skipped\<close> of the body's trace.\<close>

definition checksums_skipped_flag :: "caches \<Rightarrow> string \<Rightarrow> string \<Rightarrow> bool" where
  "checksums_skipped_flag ca db_fp keys_json \<longleftrightarrow>
     keys_json \<noteq> ''[]'' \<and> history_empty_cached (ca_audit ca) db_fp = Some True"

subsection \<open>Helpers\<close>

definition try_fast_empty_catalog ::
  "'w env \<Rightarrow> string \<Rightarrow> 'w conn \<Rightarrow> catalog_state option result \<times> 'w conn" where
  "try_fast_empty_catalog ev scope_json c =
     (if scope_json = ''[]'' then (Inr (Some catalog_default), c)
      else case conn_query ev SCOPED_HIT [scope_json] c of
        (Inl e, c') \<Rightarrow> (Inl e, c')
      | (Inr rows, c') \<Rightarrow> (Inr (if rows = [] then Some catalog_default else None), c'))"

definition merge_stable_catalog :: "catalog_state \<Rightarrow> (string \<times> catalog_object) list \<Rightarrow> catalog_state" where
  "merge_stable_catalog st objs =
     foldl (\<lambda>s (k, ob). if map_of (cat_objects s) k = None then insert_object k ob s else s) st objs"

definition schemas_json :: "codec \<Rightarrow> workspace \<Rightarrow> string" where
  "schemas_json jc ws = jc_strings jc (map se_normalized (ws_schemas ws))"

definition kinds_for_git_delta :: "workspace \<Rightarrow> string list \<Rightarrow> string list option" where
  "kinds_for_git_delta ws changed_paths =
     do {
       delta0 \<leftarrow> keys_for_changed_paths ws changed_paths;
       delta \<leftarrow> expand_delta_closure ws delta0;
       ks \<leftarrow> delta_keys ws delta [0..<object_count ws];
       Some (map kind_part ks)
     }"

definition kinds_for_scope :: "workspace \<Rightarrow> inspect_scope \<Rightarrow> string list option" where
  "kinds_for_scope ws scope =
     map_option (\<lambda>keys. map kind_part (filter (\<lambda>k. is_full_inspect scope \<or> k \<in> set (is_hot_keys scope)) keys))
       (entry_keys ws)"

definition should_query_catalog :: "bool \<Rightarrow> inspect_scope \<Rightarrow> string \<Rightarrow> bool" where
  "should_query_catalog full_flag scope scope_json \<longleftrightarrow> scope_json \<noteq> ''[]'' \<and> (full_flag \<or> is_hot_keys scope \<noteq> [])"

subsection \<open>Context\<close>

record run_body_context =
  bc_cfg :: config
  bc_ws :: workspace
  bc_keys_json :: string
  bc_db_fp :: string
  bc_git :: changed_paths_result
  bc_full :: bool
  bc_git_delta :: bool
  bc_need_checksums :: bool
  bc_need_catalog :: bool
  bc_catalog_base :: "catalog_state option"
  bc_bootstrap_in_sql :: bool
  bc_bypass :: bool
  bc_allow_checksum_repair :: bool

definition dp_scope ::
  "('w, 'g) db_params \<Rightarrow> workspace \<Rightarrow> string list \<Rightarrow> bool \<Rightarrow> checksum_map \<Rightarrow> inspect_scope option" where
  "dp_scope dp ws paths full_flag checksums =
     build_inspect_scope (ev_sha (dp_env dp)) (ev_hex (dp_env dp)) (dp_fp dp)
       (spot_check_count_from_env (ho_getenv (dp_host dp))) ws paths full_flag checksums"

definition load_standard_checksums ::
  "('w, 'g) db_params \<Rightarrow> run_body_context \<Rightarrow> 'w db_state \<Rightarrow> checksum_map result \<times> 'w db_state" where
  "load_standard_checksums dp ctx st =
     (case (if bc_bootstrap_in_sql ctx \<and> \<not> tables_ensured (ca_audit (fst st)) (bc_db_fp ctx)
            then ensure_tables_plan (dp_env dp) (bc_db_fp ctx) st else (Inr (), st)) of
        (Inl e, st1) \<Rightarrow> (Inl e, st1)
      | (Inr u, st1) \<Rightarrow>
          load_checksums_plan (dp_env dp) (dp_codec dp) (dp_fp dp) (bc_db_fp ctx) (bc_keys_json ctx)
            (bc_bypass ctx) (bc_allow_checksum_repair ctx) st1)"

definition fast_empty_provable :: "string list \<Rightarrow> bool" where
  "fast_empty_provable kinds \<longleftrightarrow> \<not> list_ex (\<lambda>k. k = ''indexes'' \<or> k = ''types'') kinds"

definition query_catalog_sets ::
  "('w, 'g) db_params \<Rightarrow> stmt \<Rightarrow> string \<Rightarrow> string \<Rightarrow> catalog_state \<Rightarrow> 'w conn \<Rightarrow> catalog_state result \<times> 'w conn" where
  "query_catalog_sets dp sql scope_json schemas base c =
     (case conn_query_all (dp_env dp) sql [''[]'', scope_json, schemas] c of
        (Inl e, c') \<Rightarrow> (Inl e, c')
      | (Inr sets, c') \<Rightarrow> (merge_catalog_sets base sets, c'))"

definition stored ::
  "('w, 'g) db_params \<Rightarrow> run_body_context \<Rightarrow> string \<Rightarrow> catalog_state result \<times> 'w db_state \<Rightarrow> catalog_state result \<times> 'w db_state" where
  "stored dp ctx scope_json out =
     (case out of
        (Inl e, st) \<Rightarrow> (Inl e, st)
      | (Inr loaded, (ca, c)) \<Rightarrow>
          (Inr loaded,
           (store_inspect_cache (dp_hash dp) (bc_db_fp ctx) (ws_layout_digest (bc_ws ctx)) scope_json loaded ca, c)))"

definition load_full_catalog ::
  "('w, 'g) db_params \<Rightarrow> run_body_context \<Rightarrow> inspect_scope \<Rightarrow> string \<Rightarrow> string \<Rightarrow> 'w db_state
    \<Rightarrow> (catalog_state result \<times> 'w db_state) option" where
  "load_full_catalog dp ctx scope scope_json schemas st =
     (case st of (ca, c) \<Rightarrow> do {
        kinds \<leftarrow> kinds_for_scope (bc_ws ctx) scope;
        case (if fast_empty_provable kinds then try_fast_empty_catalog (dp_env dp) scope_json c else (Inr None, c)) of
          (Inl e, c1) \<Rightarrow> Some (Inl e, ca, c1)
        | (Inr (Some emp), c1) \<Rightarrow> Some (Inr emp, ca, c1)
        | (Inr None, c1) \<Rightarrow>
            (let (r, c2) = query_catalog_sets dp (plan_db_batch_sql kinds False True False False) scope_json schemas
                             catalog_default c1
             in Some (stored dp ctx scope_json (r, ca, c2)))
      })"

definition load_incremental_catalog ::
  "('w, 'g) db_params \<Rightarrow> run_body_context \<Rightarrow> bool \<Rightarrow> inspect_scope \<Rightarrow> string \<Rightarrow> string \<Rightarrow> 'w db_state
    \<Rightarrow> (catalog_state result \<times> 'w db_state) option" where
  "load_incremental_catalog dp ctx checksums_skipped scope scope_json schemas st =
     (let single_rt = bc_bootstrap_in_sql ctx \<and> checksums_skipped in
      case (if bc_bootstrap_in_sql ctx \<and> \<not> single_rt \<and> \<not> tables_ensured (ca_audit (fst st)) (bc_db_fp ctx)
            then ensure_tables_plan (dp_env dp) (bc_db_fp ctx) st else (Inr (), st)) of
        (Inl e, st1) \<Rightarrow> Some (Inl e, st1)
      | (Inr u, (ca, c)) \<Rightarrow> do {
          kinds \<leftarrow> kinds_for_scope (bc_ws ctx) scope;
          case conn_query_all (dp_env dp) (plan_db_batch_sql kinds single_rt True False False) [''[]'', scope_json, schemas] c of
            (Inl e, c1) \<Rightarrow> Some (Inl e, ca, c1)
          | (Inr sets, c1) \<Rightarrow>
              (let ca1 = (if single_rt then on_audit (mark_tables_ensured (bc_db_fp ctx)) ca else ca)
               in Some (stored dp ctx scope_json (merge_catalog_sets catalog_default sets, ca1, c1)))
        })"

record body_output =
  bo_checksums :: checksum_map
  bo_catalog :: catalog_state

definition inspect_standard ::
  "('w, 'g) db_params \<Rightarrow> run_body_context \<Rightarrow> checksum_map \<Rightarrow> bool \<Rightarrow> 'w db_state \<Rightarrow> (catalog_state result \<times> 'w db_state) option" where
  "inspect_standard dp ctx checksums checksums_skipped st =
     do {
       let whole = bc_full ctx \<or> bc_bypass ctx;
       scope \<leftarrow> dp_scope dp (bc_ws ctx) (cp_paths (bc_git ctx)) whole checksums;
       scope_json \<leftarrow> (if whole then object_scope_json (bc_ws ctx) else Some (build_scope_json (dp_codec dp) scope));
       let schemas = schemas_json (dp_codec dp) (bc_ws ctx);
       (r, st1) \<leftarrow>
         (if should_query_catalog (bc_full ctx) scope scope_json then
            (case try_get_unless_bypassed (dp_hash dp) (bc_bypass ctx) (bc_db_fp ctx) (ws_layout_digest (bc_ws ctx)) scope_json (fst st) of
               Some cached \<Rightarrow> Some (Inr cached, st)
             | None \<Rightarrow>
                 if bc_full ctx then load_full_catalog dp ctx scope scope_json schemas st
                 else load_incremental_catalog dp ctx checksums_skipped scope scope_json schemas st)
          else Some (Inr catalog_default, st));
       case r of
         Inl e \<Rightarrow> Some (Inl e, st1)
       | Inr loaded \<Rightarrow> do {
           final \<leftarrow> intern_catalog_state (merge_stable_catalog loaded (is_stable_objects scope));
           Some (Inr final, st1)
         }
     }"

definition run_standard_body ::
  "('w, 'g) db_params \<Rightarrow> run_body_context \<Rightarrow> 'w db_state \<Rightarrow> (body_output result \<times> 'w db_state) option" where
  "run_standard_body dp ctx st =
     (case (if bc_need_checksums ctx then load_standard_checksums dp ctx st else (Inr checksum_map_new, st)) of
        (Inl e, st1) \<Rightarrow> Some (Inl e, st1)
      | (Inr checksums, st1) \<Rightarrow>
          if bc_need_catalog ctx then do {
            (r, st2) \<leftarrow> inspect_standard dp ctx checksums
              (bc_need_checksums ctx \<and> checksums_skipped_flag (fst st1) (bc_db_fp ctx) (bc_keys_json ctx)) st1;
            Some (case r of Inl e \<Rightarrow> Inl e | Inr cat \<Rightarrow> Inr \<lparr>bo_checksums = checksums, bo_catalog = cat\<rparr>, st2)
          }
          else Some (Inr \<lparr>bo_checksums = checksums, bo_catalog = unwrap_or (bc_catalog_base ctx) catalog_default\<rparr>, st1))"

subsection \<open>The git-delta body\<close>

record git_delta_warmup =
  gw_checksums :: checksum_map
  gw_loaded :: catalog_state
  gw_partial_cache :: bool
  gw_relaxed :: bool

fun merge_cache_sets :: "row_data list list \<Rightarrow> catalog_state \<times> bool \<Rightarrow> catalog_state \<times> bool" where
  "merge_cache_sets [] acc = acc"
| "merge_cache_sets (rs # sets) (loaded, relaxed) =
     (if looks_like_cache_load_rows rs then merge_cache_sets sets (merge_load_rows loaded rs, True)
      else merge_cache_sets sets (loaded, relaxed))"

definition warmup_git_delta ::
  "('w, 'g) db_params \<Rightarrow> run_body_context \<Rightarrow> 'w db_state \<Rightarrow> (git_delta_warmup result \<times> 'w db_state) option" where
  "warmup_git_delta dp ctx st =
     (let want_cache = cfg_catalog_cache (bc_cfg ctx) \<and> tables_ensured (ca_audit (fst st)) (bc_db_fp ctx) in
      case (if bc_need_checksums ctx
            then load_checksums_plan (dp_env dp) (dp_codec dp) (dp_fp dp) (bc_db_fp ctx) (bc_keys_json ctx)
                   (bc_bypass ctx) (bc_allow_checksum_repair ctx) st
            else (Inr checksum_map_new, st)) of
        (Inl e, st1) \<Rightarrow> Some (Inl e, st1)
      | (Inr checksums, (ca, c)) \<Rightarrow>
          (let loaded0 = unwrap_or (bc_catalog_base ctx) catalog_default;
               (r, c1) = (if want_cache \<and> cat_objects loaded0 = [] then
                   (case conn_query_all (dp_env dp) (plan_db_batch_sql [] False False False True)
                           [bc_keys_json ctx, ''[]'', ''[]'', nat_to_string (object_count (bc_ws ctx))] c of
                      (Inl e, c') \<Rightarrow> (Inl e, c')
                    | (Inr sets, c') \<Rightarrow> (Inr (merge_cache_sets sets (loaded0, False)), c'))
                 else (Inr (loaded0, False), c))
           in case r of
                Inl e \<Rightarrow> Some (Inl e, ca, c1)
              | Inr (loaded, relaxed) \<Rightarrow>
                  if length (cat_objects loaded) = object_count (bc_ws ctx) then do {
                    l \<leftarrow> intern_catalog_state loaded;
                    Some (Inr \<lparr>gw_checksums = checksums, gw_loaded = l, gw_partial_cache = True, gw_relaxed = relaxed\<rparr>, ca, c1)
                  }
                  else Some (Inr \<lparr>gw_checksums = checksums, gw_loaded = catalog_default, gw_partial_cache = False,
                                  gw_relaxed = relaxed\<rparr>, ca, c1)))"

definition cache_covers_hot :: "bool \<Rightarrow> inspect_scope \<Rightarrow> catalog_state \<Rightarrow> bool" where
  "cache_covers_hot partial_cache scope loaded \<longleftrightarrow>
     partial_cache \<and> list_all (\<lambda>k. map_of (cat_objects loaded) k \<noteq> None) (is_hot_keys scope)"

definition query_partial_cache ::
  "('w, 'g) db_params \<Rightarrow> run_body_context \<Rightarrow> inspect_scope \<Rightarrow> string \<Rightarrow> string \<Rightarrow> catalog_state \<Rightarrow> 'w conn
    \<Rightarrow> (catalog_state result \<times> 'w conn) option" where
  "query_partial_cache dp ctx scope scope_json schemas loaded c =
     do {
       kinds \<leftarrow> kinds_for_scope (bc_ws ctx) scope;
       Some (query_catalog_sets dp (plan_db_batch_sql kinds False True True False) scope_json schemas loaded c)
     }"

definition query_delta_paths ::
  "('w, 'g) db_params \<Rightarrow> run_body_context \<Rightarrow> string \<Rightarrow> catalog_state \<Rightarrow> 'w conn \<Rightarrow> (catalog_state result \<times> 'w conn) option" where
  "query_delta_paths dp ctx schemas loaded c =
     do {
       hit_scope \<leftarrow> git_hot_scope_json (dp_codec dp) (bc_ws ctx) (cp_paths (bc_git ctx));
       kinds \<leftarrow> kinds_for_git_delta (bc_ws ctx) (cp_paths (bc_git ctx));
       Some (query_catalog_sets dp (plan_db_batch_sql kinds False True False False) hit_scope schemas loaded c)
     }"

definition load_git_delta_catalog ::
  "('w, 'g) db_params \<Rightarrow> run_body_context \<Rightarrow> git_delta_warmup \<Rightarrow> inspect_scope \<Rightarrow> string \<Rightarrow> string \<Rightarrow> 'w db_state
    \<Rightarrow> (catalog_state result \<times> 'w db_state) option" where
  "load_git_delta_catalog dp ctx warm scope scope_json schemas st =
     (case st of (ca, c) \<Rightarrow>
        case try_get_unless_bypassed (dp_hash dp) (bc_bypass ctx) (bc_db_fp ctx) (ws_layout_digest (bc_ws ctx)) scope_json ca of
          Some cached \<Rightarrow> Some (Inr cached, st)
        | None \<Rightarrow> do {
            (r, c1) \<leftarrow> (if gw_partial_cache warm
              then query_partial_cache dp ctx scope scope_json schemas (gw_loaded warm) c
              else query_delta_paths dp ctx schemas (gw_loaded warm) c);
            Some (stored dp ctx scope_json (r, ca, c1))
          })"

definition query_git_delta_catalog ::
  "('w, 'g) db_params \<Rightarrow> run_body_context \<Rightarrow> git_delta_warmup \<Rightarrow> 'w db_state \<Rightarrow> (catalog_state result \<times> 'w db_state) option" where
  "query_git_delta_catalog dp ctx warm st =
     do {
       let schemas = schemas_json (dp_codec dp) (bc_ws ctx);
       scope \<leftarrow> dp_scope dp (bc_ws ctx) (cp_paths (bc_git ctx)) (bc_bypass ctx) (gw_checksums warm);
       let scope_json = build_scope_json (dp_codec dp) scope;
       (r, st1) \<leftarrow>
         (if should_query_catalog False scope scope_json
             \<and> \<not> cache_covers_hot (gw_partial_cache warm \<and> \<not> gw_relaxed warm) scope (gw_loaded warm)
          then load_git_delta_catalog dp ctx warm scope scope_json schemas st
          else Some (Inr (gw_loaded warm), st));
       case r of
         Inl e \<Rightarrow> Some (Inl e, st1)
       | Inr loaded \<Rightarrow> do {
           final \<leftarrow> intern_catalog_state (merge_stable_catalog loaded (is_stable_objects scope));
           Some (Inr final, st1)
         }
     }"

definition run_git_delta_body ::
  "('w, 'g) db_params \<Rightarrow> run_body_context \<Rightarrow> 'w db_state \<Rightarrow> (body_output result \<times> 'w db_state) option" where
  "run_git_delta_body dp ctx st =
     do {
       (w, st1) \<leftarrow> warmup_git_delta dp ctx st;
       case w of
         Inl e \<Rightarrow> Some (Inl e, st1)
       | Inr warm \<Rightarrow> do {
           (r, st2) \<leftarrow> query_git_delta_catalog dp ctx warm st1;
           Some (case r of Inl e \<Rightarrow> Inl e | Inr cat \<Rightarrow> Inr \<lparr>bo_checksums = gw_checksums warm, bo_catalog = cat\<rparr>, st2)
         }
     }"

definition run_body ::
  "('w, 'g) db_params \<Rightarrow> run_body_context \<Rightarrow> 'w db_state \<Rightarrow> (body_output result \<times> 'w db_state) option" where
  "run_body dp ctx st = (if bc_git_delta ctx then run_git_delta_body dp ctx st else run_standard_body dp ctx st)"

subsection \<open>Setup and dispatch\<close>

record execute_setup =
  es_db_fp :: string
  es_git :: changed_paths_result
  es_full :: bool
  es_git_delta :: bool
  es_need_bootstrap :: bool
  es_need_checksums :: bool
  es_need_catalog :: bool
  es_defer_bootstrap :: bool
  es_catalog_base :: "catalog_state option"
  es_bypass :: bool
  es_allow_checksum_repair :: bool

definition has_modules :: "workspace \<Rightarrow> bool" where
  "has_modules ws \<longleftrightarrow> list_ex (\<lambda>r. is_module_kind_code (row_kind_code r)) (take (object_count ws) (ws_object_rows ws))"

definition prepare_execute ::
  "('w, 'g) db_params \<Rightarrow> 'g \<Rightarrow> config \<Rightarrow> workspace \<Rightarrow> string \<Rightarrow> bool \<Rightarrow> bool \<Rightarrow> 'w db_state
    \<Rightarrow> (execute_setup result \<times> 'g \<times> 'w db_state) option" where
  "prepare_execute dp g cfg ws keys_json bypass allow_checksum_repair st =
     (let db_fp = config_fingerprint cfg;
          ca0 = (if bypass then on_audit (invalidate_audit_cache db_fp) (fst st) else fst st)
      in case sync_tables_ensured (dp_env dp) db_fp (ca_audit ca0, snd st) of
           (Inl e, ac, c) \<Rightarrow> Some (Inl e, g, (ca0\<lparr>ca_audit := ac\<rparr>, c))
         | (Inr u, ac, c) \<Rightarrow>
             (let ca = ca0\<lparr>ca_audit := ac\<rparr>;
                  (git, g') = resolve_changed_paths (dp_host dp) g (cfg_sql_root cfg);
                  full_flag = cfg_inspect_full cfg \<or> cfg_skip_git cfg \<or> cp_full_inspect git;
                  git_delta = (\<not> full_flag \<and> cp_paths git \<noteq> [] \<and> \<not> bypass);
                  need_checksums = (keys_json \<noteq> ''[]'');
                  clean_git_tree = (cp_paths git = [] \<and> (cp_source git = ''git-head'' \<or> cp_source git = ''git-merge-base''));
                  try_cache = (\<not> has_modules ws \<and> \<not> bypass \<and> cfg_catalog_cache cfg \<and> tables_ensured (ca_audit ca) db_fp
                               \<and> cp_paths git = [] \<and> \<not> full_flag \<and> \<not> clean_git_tree)
              in do {
                (r, c1) \<leftarrow> (if try_cache then try_load (dp_env dp) (ws_layout_digest ws) (object_count ws) c
                            else Some (Inr None, c));
                case r of
                  Inl e \<Rightarrow> Some (Inl e, g', (ca, c1))
                | Inr base \<Rightarrow>
                    (let need_catalog = (base = None) in
                     Some (Inr \<lparr>es_db_fp = db_fp, es_git = git, es_full = full_flag, es_git_delta = git_delta,
                        es_need_bootstrap = bypass, es_need_checksums = need_checksums, es_need_catalog = need_catalog,
                        es_defer_bootstrap = (bypass \<and> need_catalog \<and> \<not> full_flag \<and> \<not> git_delta \<and> \<not> need_checksums),
                        es_catalog_base = base, es_bypass = bypass, es_allow_checksum_repair = allow_checksum_repair\<rparr>,
                       g', (ca, c1)))
              }))"

definition body_ctx :: "config \<Rightarrow> workspace \<Rightarrow> string \<Rightarrow> execute_setup \<Rightarrow> bool \<Rightarrow> run_body_context" where
  "body_ctx cfg ws keys_json es bootstrap_in_sql =
     \<lparr>bc_cfg = cfg, bc_ws = ws, bc_keys_json = keys_json, bc_db_fp = es_db_fp es, bc_git = es_git es,
      bc_full = es_full es, bc_git_delta = es_git_delta es, bc_need_checksums = es_need_checksums es,
      bc_need_catalog = es_need_catalog es, bc_catalog_base = es_catalog_base es,
      bc_bootstrap_in_sql = bootstrap_in_sql, bc_bypass = es_bypass es,
      bc_allow_checksum_repair = es_allow_checksum_repair es\<rparr>"

text \<open>
  \<open>bounded\<close> around \<open>ensure_tables\<close>: the two statements run on the client itself, so a late reply
  of either gives the timeout error and abandons what follows.
\<close>

definition client_exec_late :: "'w env \<Rightarrow> stmt \<Rightarrow> 'w conn \<Rightarrow> bool \<times> unit result \<times> 'w conn" where
  "client_exec_late ev s c =
     (let (late, r, w) = ev_exec ev (cn_world c) s in (late, r, c\<lparr>cn_world := w\<rparr>))"

definition bounded_ensure_tables ::
  "'w env \<Rightarrow> nat \<Rightarrow> string \<Rightarrow> audit_caches \<times> 'w conn \<Rightarrow> unit result \<times> audit_caches \<times> 'w conn" where
  "bounded_ensure_tables ev timeout db_fp st =
     (if timeout = 0 then ensure_tables ev db_fp st
      else
        (let late_err = Sql (''ensure tables timed out after '' @ duration_debug timeout) in
         case st of (ac, c) \<Rightarrow>
           if \<not> cn_live c then (Inl unavailable, ac, c)
           else case client_exec_late ev BOOTSTRAP_TABLES c of
             (True, r, c1) \<Rightarrow> (Inl late_err, ac, c1)
           | (False, Inl e, c1) \<Rightarrow> (Inl e, ac, c1)
           | (False, Inr u, c1) \<Rightarrow>
               (case client_exec_late ev BOOTSTRAP_DRIFT c1 of
                  (True, r, c2) \<Rightarrow> (Inl late_err, ac, c2)
                | (False, Inl e, c2) \<Rightarrow> (Inl e, ac, c2)
                | (False, Inr u, c2) \<Rightarrow> (Inr (), mark_tables_ensured db_fp ac, c2))))"

definition run_plan_body ::
  "('w, 'g) db_params \<Rightarrow> config \<Rightarrow> workspace \<Rightarrow> string \<Rightarrow> execute_setup \<Rightarrow> 'w db_state \<Rightarrow> (body_output result \<times> 'w db_state) option" where
  "run_plan_body dp cfg ws keys_json es st =
     (let direct = (cfg_session_socket cfg = []);
          defer = (es_defer_bootstrap es \<and> \<not> direct);
          ensure = (if direct then bounded_ensure_tables (dp_env dp) (cfg_command_timeout cfg) (es_db_fp es)
                    else ensure_tables (dp_env dp) (es_db_fp es))
      in case (if es_need_bootstrap es \<and> \<not> defer then ensure (ca_audit (fst st), snd st)
               else (Inr (), ca_audit (fst st), snd st)) of
           (Inl e, ac, c) \<Rightarrow> Some (Inl e, ((fst st)\<lparr>ca_audit := ac\<rparr>, c))
         | (Inr u, ac, c) \<Rightarrow> run_body dp (body_ctx cfg ws keys_json es defer) ((fst st)\<lparr>ca_audit := ac\<rparr>, c))"

subsection \<open>The phase\<close>

definition execute_db ::
  "('w, 'g) db_params \<Rightarrow> 'g \<Rightarrow> config \<Rightarrow> workspace \<Rightarrow> string \<Rightarrow> bool \<Rightarrow> bool \<Rightarrow> 'w db_state
    \<Rightarrow> (body_output result \<times> 'g \<times> 'w db_state) option" where
  "execute_db dp g cfg ws keys_json bypass allow_repair st =
     do {
       (s, g', st1) \<leftarrow> prepare_execute dp g cfg ws keys_json bypass allow_repair st;
       case s of
         Inl e \<Rightarrow> Some (Inl e, g', st1)
       | Inr es \<Rightarrow> do {
           (b, st2) \<leftarrow> run_plan_body dp cfg ws keys_json es st1;
           case b of
             Inl e \<Rightarrow> Some (Inl e, g', st2)
           | Inr body \<Rightarrow> do {
               (ca, c) \<leftarrow> (if cfg_catalog_cache cfg \<and> cat_objects (bo_catalog body) \<noteq> [] \<and> (es_need_catalog es \<or> es_git_delta es)
                 then map_option (\<lambda>(r, c'). (fst st2, c'))
                        (save_batched (dp_env dp) (dp_codec dp) (ws_layout_digest ws) ws (bo_catalog body) (snd st2))
                 else Some st2);
               let (r, c') = (if object_count ws = 0
                  then l1_save (dp_env dp) (dp_codec dp) (dp_pid dp) (cfg_l1_cache_dir cfg) (config_fingerprint cfg)
                         (ws_layout_digest ws) (bo_checksums body) (bo_catalog body) c
                  else (Inr (), c));
               Some (case r of Inl e \<Rightarrow> Inl e | Inr u \<Rightarrow> Inr body, g', (ca, c'))
             }
         }
     }"

definition run_plan_db_phase ::
  "('w, 'g) db_params \<Rightarrow> 'g \<Rightarrow> config \<Rightarrow> workspace \<Rightarrow> bool \<Rightarrow> bool \<Rightarrow> 'w db_state
    \<Rightarrow> (body_output result \<times> 'g \<times> 'w db_state) option" where
  "run_plan_db_phase dp g cfg ws bypass_cache allow_repair st =
     (let fp = config_fingerprint cfg; dg = ws_layout_digest ws;
          cacheable = (\<not> bypass_cache \<and> object_count ws = 0)
      in case (if cacheable then l1_try_load (dp_env dp) (dp_codec dp) (dp_fp dp) (cfg_l1_cache_dir cfg) fp dg (snd st)
               else Inr None) of
           Inl e \<Rightarrow> Some (Inl e, g, st)
         | Inr (Some (cs, cat)) \<Rightarrow> Some (Inr \<lparr>bo_checksums = cs, bo_catalog = cat\<rparr>, g, st)
         | Inr None \<Rightarrow>
             (case (if cacheable then warm_reuse (ho_getenv (dp_host dp)) fp dg (fst st) else None) of
                Some (cs, cat) \<Rightarrow>
                  (let (r, c') = l1_save (dp_env dp) (dp_codec dp) (dp_pid dp) (cfg_l1_cache_dir cfg) fp dg cs cat (snd st)
                   in Some (case r of Inl e \<Rightarrow> Inl e | Inr u \<Rightarrow> Inr \<lparr>bo_checksums = cs, bo_catalog = cat\<rparr>, g, (fst st, c')))
              | None \<Rightarrow> do {
                  keys_json \<leftarrow> normalized_keys_json ws;
                  execute_db dp g cfg ws keys_json bypass_cache allow_repair st
                }))"

end
