(* ===== verification/Timings.thy ===== *)
theory Timings
  imports Gate Plan_Db
begin

section \<open>Phase timings and the planning trace\<close>

text \<open>
  \<open>timings/mod.rs\<close>, \<open>timings/phase.rs\<close> (the wire form), \<open>db/plan_db_trace.rs\<close> with
  \<open>append.rs\<close>, \<open>db/plan_common/trace.rs\<close>, the trace parts of \<open>plan_common/checksums.rs\<close>,
  \<open>execute\<close> and \<open>plan_snapshot.rs\<close>, and the flow of timings through the engine
  (\<open>engine/run/plan_phase.rs\<close>, \<open>database.rs\<close>, \<open>merge.rs\<close>, \<open>run/mod.rs\<close>). Counters are
  \<open>i64\<close>: plain additions wrap, \<open>saturating_add\<close> stops at the bounds. Measured durations are
  arguments. The files and the JSON library the trace file is written with are the record
  \<open>trace_host\<close>.
\<close>

definition I64_MAX :: int where "I64_MAX = 2 ^ 63 - 1"
definition I64_MIN :: int where "I64_MIN = - (2 ^ 63)"

definition saturate_i64 :: "int \<Rightarrow> int" where
  "saturate_i64 n = max I64_MIN (min I64_MAX n)"

definition in_i64 :: "int \<Rightarrow> bool" where
  "in_i64 n \<longleftrightarrow> I64_MIN \<le> n \<and> n \<le> I64_MAX"

text \<open>\<open>Duration\<close> is seconds and nanoseconds; \<open>as_millis\<close> is a \<open>u128\<close>, cast to \<open>i64\<close>.\<close>

definition dur_ms :: "nat \<Rightarrow> nat \<Rightarrow> int" where
  "dur_ms secs nanos = wrap_i64 (int (secs * 1000 + nanos div 1000000))"

subsection \<open>The trace\<close>

record plan_db_timings =
  dt_cache_load_ms :: int
  dt_checksums_batch_ms :: int
  dt_catalog_ms :: int
  dt_catalog_sql_ms :: int
  dt_intern_catalog_ms :: int
  dt_query_calls :: int
  dt_query_ms :: int
  dt_round_trips :: int

record plan_db_flags =
  df_bootstrap :: bool
  df_scoped_hit :: bool
  df_catalog_queried :: bool
  df_history_empty :: bool
  df_checksums_skipped :: bool

record plan_db_trace =
  tr_path :: "PlanDbPath option"
  tr_timings :: plan_db_timings
  tr_flags :: plan_db_flags

definition plan_db_timings_default :: plan_db_timings where
  "plan_db_timings_default =
     \<lparr>dt_cache_load_ms = 0, dt_checksums_batch_ms = 0, dt_catalog_ms = 0, dt_catalog_sql_ms = 0,
      dt_intern_catalog_ms = 0, dt_query_calls = 0, dt_query_ms = 0, dt_round_trips = 0\<rparr>"

definition plan_db_flags_default :: plan_db_flags where
  "plan_db_flags_default =
     \<lparr>df_bootstrap = False, df_scoped_hit = False, df_catalog_queried = False,
      df_history_empty = False, df_checksums_skipped = False\<rparr>"

definition plan_db_trace_default :: plan_db_trace where
  "plan_db_trace_default =
     \<lparr>tr_path = None, tr_timings = plan_db_timings_default, tr_flags = plan_db_flags_default\<rparr>"

definition trace_path_label :: "plan_db_trace \<Rightarrow> string" where
  "trace_path_label tr = path_label (tr_path tr)"

definition keep_positive :: "int \<Rightarrow> int \<Rightarrow> int" where
  "keep_positive old new = (if new > 0 then new else old)"

definition merge_trace :: "plan_db_trace \<Rightarrow> plan_db_trace \<Rightarrow> plan_db_trace" where
  "merge_trace dst src =
     (let d = tr_timings dst; s = tr_timings src; f = tr_flags dst; g = tr_flags src in
      dst\<lparr>tr_timings := d\<lparr>
            dt_checksums_batch_ms := keep_positive (dt_checksums_batch_ms d) (dt_checksums_batch_ms s),
            dt_catalog_sql_ms := keep_positive (dt_catalog_sql_ms d) (dt_catalog_sql_ms s),
            dt_intern_catalog_ms := keep_positive (dt_intern_catalog_ms d) (dt_intern_catalog_ms s),
            dt_catalog_ms := keep_positive (dt_catalog_ms d) (dt_catalog_ms s),
            dt_round_trips := (if dt_round_trips s > dt_round_trips d then dt_round_trips s
                               else dt_round_trips d)\<rparr>,
          tr_flags := f\<lparr>
            df_scoped_hit := (df_scoped_hit f \<or> df_scoped_hit g),
            df_catalog_queried := (df_catalog_queried f \<or> df_catalog_queried g),
            df_history_empty := (df_history_empty f \<or> df_history_empty g),
            df_checksums_skipped := (df_checksums_skipped f \<or> df_checksums_skipped g)\<rparr>\<rparr>)"

definition set_checksum_trace :: "audit_caches \<Rightarrow> string \<Rightarrow> string \<Rightarrow> plan_db_trace \<Rightarrow> plan_db_trace" where
  "set_checksum_trace ac db_fp keys_json tr =
     (if keys_json = ''[]'' then tr
      else case history_empty_cached ac db_fp of
        None \<Rightarrow> tr
      | Some e \<Rightarrow>
          (let f = (tr_flags tr)\<lparr>df_history_empty := e\<rparr>
           in tr\<lparr>tr_flags := (if e then f\<lparr>df_checksums_skipped := True\<rparr> else f)\<rparr>))"

definition checksum_query_round_trips :: "audit_caches \<Rightarrow> string \<Rightarrow> string \<Rightarrow> int" where
  "checksum_query_round_trips ac db_fp keys_json =
     (if keys_json = ''[]'' then 0
      else if history_known_nonempty ac db_fp then 1
      else if history_known_empty ac db_fp then 1
      else 2)"

text \<open>The trace after \<open>prepare_execute\<close>, and the counters \<open>execute\<close> copies from the driver.\<close>

definition prepare_trace :: "execute_setup \<Rightarrow> int \<Rightarrow> plan_db_trace" where
  "prepare_trace es cache_load_ms =
     (let t = plan_db_timings_default\<lparr>dt_cache_load_ms := cache_load_ms,
            dt_round_trips := (if es_catalog_base es \<noteq> None then 1 else 0)\<rparr>
      in \<lparr>tr_path = Some (if es_full es then ColdFull
                          else if es_git_delta es then GitDelta else Incremental),
          tr_timings = t,
          tr_flags = plan_db_flags_default\<lparr>df_bootstrap := es_need_bootstrap es\<rparr>\<rparr>)"

definition record_io :: "io_profile \<Rightarrow> plan_db_trace \<Rightarrow> plan_db_trace" where
  "record_io io tr =
     tr\<lparr>tr_timings := (tr_timings tr)\<lparr>dt_query_calls := ip_query_calls io, dt_query_ms := ip_query_ms io\<rparr>\<rparr>"

text \<open>The counters of \<open>TimingConn\<close>, updated after every call.\<close>

definition io_profile_default :: io_profile where
  "io_profile_default = \<lparr>ip_query_ms = 0, ip_query_calls = 0, ip_exec_ms = 0, ip_exec_calls = 0\<rparr>"

definition count_exec :: "int \<Rightarrow> io_profile \<Rightarrow> io_profile" where
  "count_exec ms io = io\<lparr>ip_exec_ms := wrap_i64 (ip_exec_ms io + ms),
                        ip_exec_calls := wrap_i64 (ip_exec_calls io + 1)\<rparr>"

definition count_query :: "int \<Rightarrow> io_profile \<Rightarrow> io_profile" where
  "count_query ms io = io\<lparr>ip_query_ms := wrap_i64 (ip_query_ms io + ms),
                         ip_query_calls := wrap_i64 (ip_query_calls io + 1)\<rparr>"

subsection \<open>The result of the database phase\<close>

text \<open>\<open>PlanDbResult\<close> less the checksums and the catalog, which \<open>Plan_Db\<close> returns.\<close>

record plan_db_result =
  dr_ensure_ms :: int
  dr_checksums_ms :: int
  dr_inspect_ms :: int
  dr_parallel_wall_ms :: int
  dr_l1_hit :: bool
  dr_trace :: plan_db_trace

definition empty_result :: "bool \<Rightarrow> PlanDbPath \<Rightarrow> plan_db_result" where
  "empty_result l1_hit path =
     \<lparr>dr_ensure_ms = 0, dr_checksums_ms = 0, dr_inspect_ms = 0, dr_parallel_wall_ms = 0,
      dr_l1_hit = l1_hit, dr_trace = plan_db_trace_default\<lparr>tr_path := Some path\<rparr>\<rparr>"

subsection \<open>Timings of a run\<close>

definition phase_timings_default :: phase_timings where
  "phase_timings_default =
     \<lparr>pt_connect_ms = 0, pt_scan_ms = 0, pt_inspect_ms = 0, pt_checksums_ms = 0, pt_ensure_ms = 0,
      pt_parallel_wall_ms = 0, pt_audit_ms = 0, pt_diff_ms = 0, pt_plan_wall_ms = 0,
      pt_cli_wall_ms = 0, pt_engine_ms = 0, pt_apply_ms = 0, pt_plan_db_query_calls = 0,
      pt_plan_db_query_ms = 0, pt_plan_db_checksums_batch_ms = 0, pt_plan_db_catalog_ms = 0,
      pt_plan_db_catalog_sql_ms = 0, pt_plan_db_intern_catalog_ms = 0, pt_plan_db_round_trips = 0,
      pt_plan_db_path = [], pt_l1_cache_hit = False, pt_plan_db_bootstrap = False,
      pt_plan_db_catalog_queried = False, pt_plan_db_history_empty = False,
      pt_plan_db_checksums_skipped = False\<rparr>"

definition plan_phase_timings :: "plan_db_result \<Rightarrow> phase_timings \<Rightarrow> phase_timings" where
  "plan_phase_timings db t =
     (let tt = tr_timings (dr_trace db); tf = tr_flags (dr_trace db) in
      finish_audit_ms (t\<lparr>
        pt_ensure_ms := dr_ensure_ms db,
        pt_checksums_ms := dr_checksums_ms db,
        pt_inspect_ms := dr_inspect_ms db,
        pt_parallel_wall_ms :=
          (if dr_parallel_wall_ms db > 0 then dr_parallel_wall_ms db
           else max (dr_ensure_ms db) (wrap_i64 (dr_checksums_ms db + dr_inspect_ms db))),
        pt_l1_cache_hit := dr_l1_hit db,
        pt_plan_db_path := trace_path_label (dr_trace db),
        pt_plan_db_query_calls := dt_query_calls tt,
        pt_plan_db_query_ms := dt_query_ms tt,
        pt_plan_db_bootstrap := df_bootstrap tf,
        pt_plan_db_catalog_queried := df_catalog_queried tf,
        pt_plan_db_checksums_batch_ms := dt_checksums_batch_ms tt,
        pt_plan_db_catalog_ms := dt_catalog_ms tt,
        pt_plan_db_catalog_sql_ms := dt_catalog_sql_ms tt,
        pt_plan_db_intern_catalog_ms := dt_intern_catalog_ms tt,
        pt_plan_db_history_empty := df_history_empty tf,
        pt_plan_db_checksums_skipped := df_checksums_skipped tf,
        pt_plan_db_round_trips := dt_round_trips tt\<rparr>))"

text \<open>The end of \<open>run_command_for_database\<close> and of \<open>run_command\<close>.\<close>

definition finish_wall :: "int \<Rightarrow> phase_timings \<Rightarrow> phase_timings" where
  "finish_wall wall_ms t =
     t\<lparr>pt_plan_wall_ms := wall_ms, pt_engine_ms := saturate_i64 (wall_ms - pt_connect_ms t),
       pt_cli_wall_ms := wall_ms\<rparr>"

definition merge_timings :: "phase_timings \<Rightarrow> phase_timings \<Rightarrow> phase_timings" where
  "merge_timings dst src =
     dst\<lparr>pt_connect_ms := max (pt_connect_ms dst) (pt_connect_ms src),
         pt_ensure_ms := saturate_i64 (pt_ensure_ms dst + pt_ensure_ms src),
         pt_checksums_ms := saturate_i64 (pt_checksums_ms dst + pt_checksums_ms src),
         pt_inspect_ms := saturate_i64 (pt_inspect_ms dst + pt_inspect_ms src),
         pt_diff_ms := saturate_i64 (pt_diff_ms dst + pt_diff_ms src),
         pt_apply_ms := saturate_i64 (pt_apply_ms dst + pt_apply_ms src),
         pt_parallel_wall_ms := max (pt_parallel_wall_ms dst) (pt_parallel_wall_ms src),
         pt_plan_db_query_ms := saturate_i64 (pt_plan_db_query_ms dst + pt_plan_db_query_ms src),
         pt_plan_db_query_calls := saturate_i64 (pt_plan_db_query_calls dst + pt_plan_db_query_calls src),
         pt_l1_cache_hit := (if \<not> pt_l1_cache_hit src then False else pt_l1_cache_hit dst),
         pt_plan_db_path := (if pt_plan_db_path src \<noteq> [] then pt_plan_db_path src else pt_plan_db_path dst)\<rparr>"

definition initial_timings :: "int \<Rightarrow> phase_timings" where
  "initial_timings scan_ms = phase_timings_default\<lparr>pt_scan_ms := scan_ms, pt_l1_cache_hit := True\<rparr>"

text \<open>The timings \<open>run_command\<close> reports, from those of the databases it completed.\<close>

definition run_timings :: "int \<Rightarrow> int \<Rightarrow> phase_timings list \<Rightarrow> phase_timings" where
  "run_timings scan_ms wall_ms outs = finish_wall wall_ms (foldl merge_timings (initial_timings scan_ms) outs)"

end
