(* ===== verification/Timings_Wire.thy ===== *)
theory Timings_Wire
  imports Timings
begin

section \<open>The wire form of timings and the trace file\<close>

text \<open>
  How \<open>serde\<close> writes and reads a \<open>PhaseTimings\<close> under the attributes of \<open>timings/phase.rs\<close>:
  a zero, an empty string and a false flag are skipped, and an absent field is read as its default.
  Then the trace file of \<open>db/plan_db_trace/append.rs\<close>.
\<close>

subsection \<open>Fields\<close>

datatype wire_value = WInt int | WStr string | WBool bool

type_synonym wire_object = "(string \<times> wire_value) list"

definition int_field :: "string \<Rightarrow> int \<Rightarrow> wire_object" where
  "int_field name v = (if v = 0 then [] else [(name, WInt v)])"

definition str_field :: "string \<Rightarrow> string \<Rightarrow> wire_object" where
  "str_field name v = (if v = [] then [] else [(name, WStr v)])"

definition bool_field :: "string \<Rightarrow> bool \<Rightarrow> wire_object" where
  "bool_field name v = (if \<not> v then [] else [(name, WBool v)])"

text \<open>Reading a field: an absent one is the default, one of another type is an error.\<close>

definition wire_int :: "wire_object \<Rightarrow> string \<Rightarrow> int option" where
  "wire_int fs name = (case map_of fs name of
     None \<Rightarrow> Some 0
   | Some (WInt v) \<Rightarrow> if in_i64 v then Some v else None
   | Some _ \<Rightarrow> None)"

definition wire_str :: "wire_object \<Rightarrow> string \<Rightarrow> string option" where
  "wire_str fs name = (case map_of fs name of
     None \<Rightarrow> Some []
   | Some (WStr v) \<Rightarrow> Some v
   | Some _ \<Rightarrow> None)"

definition wire_bool :: "wire_object \<Rightarrow> string \<Rightarrow> bool option" where
  "wire_bool fs name = (case map_of fs name of
     None \<Rightarrow> Some False
   | Some (WBool v) \<Rightarrow> Some v
   | Some _ \<Rightarrow> None)"

definition phase_timings_to_wire :: "phase_timings \<Rightarrow> wire_object" where
  "phase_timings_to_wire t =
     int_field ''connect_ms'' (pt_connect_ms t)
     @ int_field ''scan_ms'' (pt_scan_ms t)
     @ int_field ''inspect_ms'' (pt_inspect_ms t)
     @ int_field ''checksums_ms'' (pt_checksums_ms t)
     @ int_field ''ensure_ms'' (pt_ensure_ms t)
     @ int_field ''parallel_wall_ms'' (pt_parallel_wall_ms t)
     @ int_field ''audit_ms'' (pt_audit_ms t)
     @ int_field ''diff_ms'' (pt_diff_ms t)
     @ int_field ''plan_wall_ms'' (pt_plan_wall_ms t)
     @ int_field ''cli_wall_ms'' (pt_cli_wall_ms t)
     @ int_field ''engine_ms'' (pt_engine_ms t)
     @ int_field ''apply_ms'' (pt_apply_ms t)
     @ int_field ''plan_db_query_calls'' (pt_plan_db_query_calls t)
     @ int_field ''plan_db_query_ms'' (pt_plan_db_query_ms t)
     @ int_field ''plan_db_checksums_batch_ms'' (pt_plan_db_checksums_batch_ms t)
     @ int_field ''plan_db_catalog_ms'' (pt_plan_db_catalog_ms t)
     @ int_field ''plan_db_catalog_sql_ms'' (pt_plan_db_catalog_sql_ms t)
     @ int_field ''plan_db_intern_catalog_ms'' (pt_plan_db_intern_catalog_ms t)
     @ int_field ''plan_db_round_trips'' (pt_plan_db_round_trips t)
     @ str_field ''plan_db_path'' (pt_plan_db_path t)
     @ bool_field ''l1_cache_hit'' (pt_l1_cache_hit t)
     @ bool_field ''plan_db_bootstrap'' (pt_plan_db_bootstrap t)
     @ bool_field ''plan_db_catalog_queried'' (pt_plan_db_catalog_queried t)
     @ bool_field ''plan_db_history_empty'' (pt_plan_db_history_empty t)
     @ bool_field ''plan_db_checksums_skipped'' (pt_plan_db_checksums_skipped t)"

definition phase_timings_from_wire :: "wire_object \<Rightarrow> phase_timings option" where
  "phase_timings_from_wire fs =
     do {
       connect_ms \<leftarrow> wire_int fs ''connect_ms'';
       scan_ms \<leftarrow> wire_int fs ''scan_ms'';
       inspect_ms \<leftarrow> wire_int fs ''inspect_ms'';
       checksums_ms \<leftarrow> wire_int fs ''checksums_ms'';
       ensure_ms \<leftarrow> wire_int fs ''ensure_ms'';
       parallel_wall_ms \<leftarrow> wire_int fs ''parallel_wall_ms'';
       audit_ms \<leftarrow> wire_int fs ''audit_ms'';
       diff_ms \<leftarrow> wire_int fs ''diff_ms'';
       plan_wall_ms \<leftarrow> wire_int fs ''plan_wall_ms'';
       cli_wall_ms \<leftarrow> wire_int fs ''cli_wall_ms'';
       engine_ms \<leftarrow> wire_int fs ''engine_ms'';
       apply_ms \<leftarrow> wire_int fs ''apply_ms'';
       plan_db_query_calls \<leftarrow> wire_int fs ''plan_db_query_calls'';
       plan_db_query_ms \<leftarrow> wire_int fs ''plan_db_query_ms'';
       plan_db_checksums_batch_ms \<leftarrow> wire_int fs ''plan_db_checksums_batch_ms'';
       plan_db_catalog_ms \<leftarrow> wire_int fs ''plan_db_catalog_ms'';
       plan_db_catalog_sql_ms \<leftarrow> wire_int fs ''plan_db_catalog_sql_ms'';
       plan_db_intern_catalog_ms \<leftarrow> wire_int fs ''plan_db_intern_catalog_ms'';
       plan_db_round_trips \<leftarrow> wire_int fs ''plan_db_round_trips'';
       plan_db_path \<leftarrow> wire_str fs ''plan_db_path'';
       l1_cache_hit \<leftarrow> wire_bool fs ''l1_cache_hit'';
       plan_db_bootstrap \<leftarrow> wire_bool fs ''plan_db_bootstrap'';
       plan_db_catalog_queried \<leftarrow> wire_bool fs ''plan_db_catalog_queried'';
       plan_db_history_empty \<leftarrow> wire_bool fs ''plan_db_history_empty'';
       plan_db_checksums_skipped \<leftarrow> wire_bool fs ''plan_db_checksums_skipped'';
       Some \<lparr>pt_connect_ms = connect_ms, pt_scan_ms = scan_ms, pt_inspect_ms = inspect_ms,
         pt_checksums_ms = checksums_ms, pt_ensure_ms = ensure_ms,
         pt_parallel_wall_ms = parallel_wall_ms, pt_audit_ms = audit_ms, pt_diff_ms = diff_ms,
         pt_plan_wall_ms = plan_wall_ms, pt_cli_wall_ms = cli_wall_ms, pt_engine_ms = engine_ms,
         pt_apply_ms = apply_ms, pt_plan_db_query_calls = plan_db_query_calls,
         pt_plan_db_query_ms = plan_db_query_ms,
         pt_plan_db_checksums_batch_ms = plan_db_checksums_batch_ms,
         pt_plan_db_catalog_ms = plan_db_catalog_ms,
         pt_plan_db_catalog_sql_ms = plan_db_catalog_sql_ms,
         pt_plan_db_intern_catalog_ms = plan_db_intern_catalog_ms,
         pt_plan_db_round_trips = plan_db_round_trips, pt_plan_db_path = plan_db_path,
         pt_l1_cache_hit = l1_cache_hit, pt_plan_db_bootstrap = plan_db_bootstrap,
         pt_plan_db_catalog_queried = plan_db_catalog_queried,
         pt_plan_db_history_empty = plan_db_history_empty,
         pt_plan_db_checksums_skipped = plan_db_checksums_skipped\<rparr>
     }"

text \<open>Every counter is an \<open>i64\<close>, the type of the source.\<close>

definition timings_in_range :: "phase_timings \<Rightarrow> bool" where
  "timings_in_range t \<longleftrightarrow>
     in_i64 (pt_connect_ms t) \<and> in_i64 (pt_scan_ms t) \<and> in_i64 (pt_inspect_ms t)
     \<and> in_i64 (pt_checksums_ms t) \<and> in_i64 (pt_ensure_ms t)
     \<and> in_i64 (pt_parallel_wall_ms t) \<and> in_i64 (pt_audit_ms t)
     \<and> in_i64 (pt_diff_ms t) \<and> in_i64 (pt_plan_wall_ms t)
     \<and> in_i64 (pt_cli_wall_ms t) \<and> in_i64 (pt_engine_ms t) \<and> in_i64 (pt_apply_ms t)
     \<and> in_i64 (pt_plan_db_query_calls t) \<and> in_i64 (pt_plan_db_query_ms t)
     \<and> in_i64 (pt_plan_db_checksums_batch_ms t) \<and> in_i64 (pt_plan_db_catalog_ms t)
     \<and> in_i64 (pt_plan_db_catalog_sql_ms t) \<and> in_i64 (pt_plan_db_intern_catalog_ms t)
     \<and> in_i64 (pt_plan_db_round_trips t)"

subsection \<open>Reading back what was written\<close>

lemma map_of_fields:
  "map_of (int_field n v @ fs) k = (if k = n \<and> v \<noteq> 0 then Some (WInt v) else map_of fs k)"
  "map_of (str_field n s @ fs) k = (if k = n \<and> s \<noteq> [] then Some (WStr s) else map_of fs k)"
  "map_of (bool_field n b @ fs) k = (if k = n \<and> b then Some (WBool b) else map_of fs k)"
  "map_of (bool_field n b) k = (if k = n \<and> b then Some (WBool b) else None)"
  by (auto simp: int_field_def str_field_def bool_field_def)

text \<open>One rule per reader and kind of field: the field is the one asked for, or is passed over.\<close>

lemma wire_int_fields:
  "in_i64 v \<Longrightarrow> wire_int (int_field n v @ fs) m = (if m = n \<and> v \<noteq> 0 then Some v else wire_int fs m)"
  "m \<noteq> n \<Longrightarrow> wire_int (str_field n s @ fs) m = wire_int fs m"
  "m \<noteq> n \<Longrightarrow> wire_int (bool_field n b @ fs) m = wire_int fs m"
  "m \<noteq> n \<Longrightarrow> wire_int (bool_field n b) m = Some 0"
  by (auto simp: wire_int_def map_of_fields simp del: map_of_append)

lemma wire_str_fields:
  "m \<noteq> n \<Longrightarrow> wire_str (int_field n v @ fs) m = wire_str fs m"
  "wire_str (str_field n s @ fs) m = (if m = n \<and> s \<noteq> [] then Some s else wire_str fs m)"
  "m \<noteq> n \<Longrightarrow> wire_str (bool_field n b @ fs) m = wire_str fs m"
  "m \<noteq> n \<Longrightarrow> wire_str (bool_field n b) m = Some []"
  by (auto simp: wire_str_def map_of_fields simp del: map_of_append)

lemma wire_bool_fields:
  "m \<noteq> n \<Longrightarrow> wire_bool (int_field n v @ fs) m = wire_bool fs m"
  "m \<noteq> n \<Longrightarrow> wire_bool (str_field n s @ fs) m = wire_bool fs m"
  "wire_bool (bool_field n b @ fs) m = (if m = n \<and> b then Some b else wire_bool fs m)"
  "wire_bool (bool_field n b) m = (if m = n \<and> b then Some b else Some False)"
  by (auto simp: wire_bool_def map_of_fields simp del: map_of_append)

lemma field_or_default:
  "(if v \<noteq> 0 then Some v else Some 0) = Some (v :: int)"
  "(if s \<noteq> [] then Some s else Some []) = Some (s :: string)"
  "(if b then Some b else Some False) = Some b"
  by auto

lemma phase_timings_read_ints:
  assumes "timings_in_range t"
  shows
    "wire_int (phase_timings_to_wire t) ''connect_ms'' = Some (pt_connect_ms t)"
    and "wire_int (phase_timings_to_wire t) ''scan_ms'' = Some (pt_scan_ms t)"
    and "wire_int (phase_timings_to_wire t) ''inspect_ms'' = Some (pt_inspect_ms t)"
    and "wire_int (phase_timings_to_wire t) ''checksums_ms'' = Some (pt_checksums_ms t)"
    and "wire_int (phase_timings_to_wire t) ''ensure_ms'' = Some (pt_ensure_ms t)"
    and "wire_int (phase_timings_to_wire t) ''parallel_wall_ms'' = Some (pt_parallel_wall_ms t)"
    and "wire_int (phase_timings_to_wire t) ''audit_ms'' = Some (pt_audit_ms t)"
    and "wire_int (phase_timings_to_wire t) ''diff_ms'' = Some (pt_diff_ms t)"
    and "wire_int (phase_timings_to_wire t) ''plan_wall_ms'' = Some (pt_plan_wall_ms t)"
    and "wire_int (phase_timings_to_wire t) ''cli_wall_ms'' = Some (pt_cli_wall_ms t)"
    and "wire_int (phase_timings_to_wire t) ''engine_ms'' = Some (pt_engine_ms t)"
    and "wire_int (phase_timings_to_wire t) ''apply_ms'' = Some (pt_apply_ms t)"
    and "wire_int (phase_timings_to_wire t) ''plan_db_query_calls'' = Some (pt_plan_db_query_calls t)"
    and "wire_int (phase_timings_to_wire t) ''plan_db_query_ms'' = Some (pt_plan_db_query_ms t)"
    and "wire_int (phase_timings_to_wire t) ''plan_db_checksums_batch_ms'' = Some (pt_plan_db_checksums_batch_ms t)"
    and "wire_int (phase_timings_to_wire t) ''plan_db_catalog_ms'' = Some (pt_plan_db_catalog_ms t)"
    and "wire_int (phase_timings_to_wire t) ''plan_db_catalog_sql_ms'' = Some (pt_plan_db_catalog_sql_ms t)"
    and "wire_int (phase_timings_to_wire t) ''plan_db_intern_catalog_ms'' = Some (pt_plan_db_intern_catalog_ms t)"
    and "wire_int (phase_timings_to_wire t) ''plan_db_round_trips'' = Some (pt_plan_db_round_trips t)"
  using assms unfolding timings_in_range_def
  by (simp_all add: phase_timings_to_wire_def wire_int_fields field_or_default)

lemma phase_timings_read_others:
  "wire_str (phase_timings_to_wire t) ''plan_db_path'' = Some (pt_plan_db_path t)"
  "wire_bool (phase_timings_to_wire t) ''l1_cache_hit'' = Some (pt_l1_cache_hit t)"
  "wire_bool (phase_timings_to_wire t) ''plan_db_bootstrap'' = Some (pt_plan_db_bootstrap t)"
  "wire_bool (phase_timings_to_wire t) ''plan_db_catalog_queried'' = Some (pt_plan_db_catalog_queried t)"
  "wire_bool (phase_timings_to_wire t) ''plan_db_history_empty'' = Some (pt_plan_db_history_empty t)"
  "wire_bool (phase_timings_to_wire t) ''plan_db_checksums_skipped'' = Some (pt_plan_db_checksums_skipped t)"
  by (simp_all add: phase_timings_to_wire_def wire_str_fields wire_bool_fields field_or_default)

lemma phase_timings_reads_back:
  assumes "timings_in_range t"
  shows "phase_timings_from_wire (phase_timings_to_wire t) = Some t"
  using phase_timings_read_ints [OF assms] phase_timings_read_others [of t]
  by (simp add: phase_timings_from_wire_def)

subsection \<open>The trace file\<close>

text \<open>
  The outside of \<open>maybe_append_trace\<close>: the environment, the file system in state \<open>'w\<close>, and the
  JSON library with values \<open>'j\<close>. The results of creating the directory and of writing the file are
  dropped by the source.
\<close>

record ('w, 'j) trace_host =
  th_getenv :: "string \<Rightarrow> string option"
  th_manifest_dir :: string
  th_is_file :: "'w \<Rightarrow> string \<Rightarrow> bool"
  th_read_to_string :: "'w \<Rightarrow> string \<Rightarrow> string option"
  th_create_dir_all :: "'w \<Rightarrow> string \<Rightarrow> 'w"
  th_write :: "'w \<Rightarrow> string \<Rightarrow> string \<Rightarrow> 'w"
  th_from_str :: "string \<Rightarrow> 'j list option"
  th_object :: "wire_object \<Rightarrow> 'j"
  th_to_string_pretty :: "'j list \<Rightarrow> string option"

definition trace_entry :: "string \<Rightarrow> plan_db_trace \<Rightarrow> int \<Rightarrow> wire_object" where
  "trace_entry label tr wall_ms =
     (let t = tr_timings tr; f = tr_flags tr in
      [(''label'', WStr label),
       (''parallel_wall_ms'', WInt wall_ms),
       (''path'', WStr (trace_path_label tr)),
       (''cache_load_ms'', WInt (dt_cache_load_ms t)),
       (''checksums_batch_ms'', WInt (dt_checksums_batch_ms t)),
       (''catalog_ms'', WInt (dt_catalog_ms t)),
       (''catalog_sql_ms'', WInt (dt_catalog_sql_ms t)),
       (''intern_catalog_ms'', WInt (dt_intern_catalog_ms t)),
       (''query_calls'', WInt (dt_query_calls t)),
       (''query_ms'', WInt (dt_query_ms t)),
       (''round_trips'', WInt (dt_round_trips t)),
       (''bootstrap'', WBool (df_bootstrap f)),
       (''scoped_hit'', WBool (df_scoped_hit f)),
       (''catalog_queried'', WBool (df_catalog_queried f)),
       (''history_empty'', WBool (df_history_empty f)),
       (''checksums_skipped'', WBool (df_checksums_skipped f))])"

definition trace_dir :: "('w, 'j) trace_host \<Rightarrow> string" where
  "trace_dir th =
     path_join (unwrap_or (th_getenv th ''RMIG_REPO_ROOT'') (path_join (th_manifest_dir th) ''../..''))
       ''ops/perf/artifacts''"

definition trace_entries :: "('w, 'j) trace_host \<Rightarrow> 'w \<Rightarrow> string \<Rightarrow> 'j list" where
  "trace_entries th w path =
     (if th_is_file th w path
      then unwrap_or (Option.bind (th_read_to_string th w path) (th_from_str th)) []
      else [])"

definition maybe_append_trace ::
  "('w, 'j) trace_host \<Rightarrow> string \<Rightarrow> plan_db_trace \<Rightarrow> int \<Rightarrow> 'w \<Rightarrow> 'w" where
  "maybe_append_trace th label tr wall_ms w =
     (if \<not> trace_enabled (th_getenv th) then w
      else
        (let w1 = th_create_dir_all th w (trace_dir th);
             path = path_join (trace_dir th) ''plan_db_trace.json'';
             entries = trace_entries th w1 path @ [th_object th (trace_entry label tr wall_ms)]
         in case th_to_string_pretty th entries of
              Some data \<Rightarrow> th_write th w1 path data
            | None \<Rightarrow> w1))"

end
