(* ===== verification/Timings_Correct.thy ===== *)
theory Timings_Correct
  imports Timings_Wire
begin

section \<open>What the reported timings mean\<close>

text \<open>
  The counters a run reports, and where they fall short of what the phases measured: the merge of
  the databases drops the audit time and the round trips, and the round trips of a checksum load
  are counted after the load has filled the cache the count looks at. Then the trace file: appending
  keeps the earlier entries as long as the file can be read.
\<close>

subsection \<open>Arithmetic\<close>

lemma wrap_i64_id: "in_i64 n \<Longrightarrow> wrap_i64 n = n"
  by (simp add: in_i64_def wrap_i64_def I64_MIN_def I64_MAX_def)

lemma wrap_i64_in: "in_i64 (wrap_i64 n)"
proof -
  have "0 \<le> (n + 2 ^ 63) mod 2 ^ 64" "(n + 2 ^ 63) mod 2 ^ 64 < 2 ^ 64"
    by (rule pos_mod_sign, simp) (rule pos_mod_bound, simp)
  then show ?thesis
    unfolding in_i64_def wrap_i64_def I64_MIN_def I64_MAX_def by simp
qed

lemma saturate_i64_id: "in_i64 n \<Longrightarrow> saturate_i64 n = n"
  by (auto simp: in_i64_def saturate_i64_def)

lemma saturate_i64_in: "in_i64 (saturate_i64 n)"
  by (auto simp: in_i64_def saturate_i64_def I64_MIN_def I64_MAX_def)

text \<open>A duration below 292 million years is reported exactly, cut to milliseconds.\<close>

lemma dur_ms_exact:
  assumes "secs * 1000 + nanos div 1000000 < 2 ^ 63"
  shows "dur_ms secs nanos = int (secs * 1000 + nanos div 1000000)"
proof -
  have "int (secs * 1000 + nanos div 1000000) < int (2 ^ 63)"
    using assms by (simp only: of_nat_less_iff)
  then show ?thesis
    unfolding dur_ms_def by (intro wrap_i64_id) (simp add: in_i64_def I64_MIN_def I64_MAX_def)
qed

text \<open>A chain of saturating additions of non-negative numbers is the sum, cut at the maximum.\<close>

lemma saturating_sum:
  assumes "0 \<le> a" "a \<le> I64_MAX" "list_all (\<lambda>n. 0 \<le> n) ns"
  shows "foldl (\<lambda>s n. saturate_i64 (s + n)) a ns = min I64_MAX (a + sum_list ns)"
  using assms
proof (induction ns arbitrary: a)
  case Nil
  then show ?case by (simp add: min_def)
next
  case (Cons n ns)
  have step: "saturate_i64 (a + n) = min I64_MAX (a + n)"
    using Cons.prems by (simp add: saturate_i64_def I64_MIN_def)
  have "0 \<le> sum_list ns" using Cons.prems(3) by (auto simp: list_all_iff intro: sum_list_nonneg)
  then have "min I64_MAX (min I64_MAX (a + n) + sum_list ns) = min I64_MAX (a + (n + sum_list ns))"
    using Cons.prems by (simp add: min_def I64_MAX_def)
  moreover have "0 \<le> min I64_MAX (a + n)" using Cons.prems by (simp add: I64_MAX_def)
  ultimately show ?case
    using Cons.IH [of "min I64_MAX (a + n)"] Cons.prems step by simp
qed

subsection \<open>The merged timings of a run\<close>

text \<open>Folding the merge over the databases, field by field.\<close>

lemma foldl_field:
  assumes "\<And>d s. get (f d s) = g (get d) (sel s)"
  shows "get (foldl f d ss) = foldl g (get d) (map sel ss)"
  by (induction ss arbitrary: d) (simp_all add: assms)

lemma foldl_untouched:
  assumes "\<And>d s. get (f d s) = get d"
  shows "get (foldl f d ss) = get d"
  by (induction ss arbitrary: d) (simp_all add: assms)

lemma merged_sums:
  "pt_ensure_ms (foldl merge_timings d ss) = foldl (\<lambda>a n. saturate_i64 (a + n)) (pt_ensure_ms d) (map pt_ensure_ms ss)"
  "pt_checksums_ms (foldl merge_timings d ss) = foldl (\<lambda>a n. saturate_i64 (a + n)) (pt_checksums_ms d) (map pt_checksums_ms ss)"
  "pt_inspect_ms (foldl merge_timings d ss) = foldl (\<lambda>a n. saturate_i64 (a + n)) (pt_inspect_ms d) (map pt_inspect_ms ss)"
  "pt_apply_ms (foldl merge_timings d ss) = foldl (\<lambda>a n. saturate_i64 (a + n)) (pt_apply_ms d) (map pt_apply_ms ss)"
  "pt_connect_ms (foldl merge_timings d ss) = foldl max (pt_connect_ms d) (map pt_connect_ms ss)"
  "pt_parallel_wall_ms (foldl merge_timings d ss) = foldl max (pt_parallel_wall_ms d) (map pt_parallel_wall_ms ss)"
  by (rule foldl_field, simp add: merge_timings_def)+

lemma merged_untouched:
  "pt_scan_ms (foldl merge_timings d ss) = pt_scan_ms d"
  "pt_audit_ms (foldl merge_timings d ss) = pt_audit_ms d"
  "pt_plan_db_round_trips (foldl merge_timings d ss) = pt_plan_db_round_trips d"
  "pt_plan_db_catalog_ms (foldl merge_timings d ss) = pt_plan_db_catalog_ms d"
  "pt_plan_db_bootstrap (foldl merge_timings d ss) = pt_plan_db_bootstrap d"
  "pt_plan_db_catalog_queried (foldl merge_timings d ss) = pt_plan_db_catalog_queried d"
  by (rule foldl_untouched, simp add: merge_timings_def)+

lemma merged_cache_hit:
  "pt_l1_cache_hit (foldl merge_timings d ss) \<longleftrightarrow> pt_l1_cache_hit d \<and> list_all pt_l1_cache_hit ss"
  by (induction ss arbitrary: d) (auto simp: merge_timings_def)

text \<open>
  The timings a run reports: the longest connect and parallel phase of a database, the sums of the
  phases cut at the largest counter, a cache hit only if every database had one. What every database
  measured as audit time and round trips is not reported at all.
\<close>

theorem run_timings_report:
  assumes "list_all (\<lambda>t. 0 \<le> pt_ensure_ms t) outs"
  shows "pt_ensure_ms (run_timings scan_ms wall_ms outs) = min I64_MAX (sum_list (map pt_ensure_ms outs))"
    and "pt_connect_ms (run_timings scan_ms wall_ms outs) = foldl max 0 (map pt_connect_ms outs)"
    and "pt_l1_cache_hit (run_timings scan_ms wall_ms outs) \<longleftrightarrow> list_all pt_l1_cache_hit outs"
    and "pt_engine_ms (run_timings scan_ms wall_ms outs)
      = saturate_i64 (wall_ms - foldl max 0 (map pt_connect_ms outs))"
proof -
  have "list_all (\<lambda>n. 0 \<le> n) (map pt_ensure_ms outs)"
    using assms by (simp add: list_all_iff)
  then show "pt_ensure_ms (run_timings scan_ms wall_ms outs) = min I64_MAX (sum_list (map pt_ensure_ms outs))"
    by (simp add: run_timings_def finish_wall_def merged_sums initial_timings_def
        phase_timings_default_def saturating_sum I64_MAX_def)
qed (simp_all add: run_timings_def finish_wall_def merged_sums merged_cache_hit initial_timings_def
    phase_timings_default_def)

theorem run_drops_audit_time:
  "pt_audit_ms (run_timings scan_ms wall_ms outs) = 0
   \<and> pt_plan_db_round_trips (run_timings scan_ms wall_ms outs) = 0
   \<and> pt_plan_db_catalog_ms (run_timings scan_ms wall_ms outs) = 0
   \<and> \<not> pt_plan_db_bootstrap (run_timings scan_ms wall_ms outs)
   \<and> pt_audit_ms (plan_phase_timings db t)
       = wrap_i64 (pt_ensure_ms (plan_phase_timings db t) + pt_checksums_ms (plan_phase_timings db t))"
  by (simp add: run_timings_def finish_wall_def merged_untouched initial_timings_def
      phase_timings_default_def plan_phase_timings_def finish_audit_ms_def Let_def)

subsection \<open>Round trips of a checksum load\<close>

lemma cached_after_probe:
  "probe_history_empty ev db_fp st = (Inr e, st') \<Longrightarrow>
     history_empty_cached (ca_audit (fst st')) db_fp = Some e"
  by (auto simp: probe_history_empty_def Let_def on_audit_def cache_history_empty_def
      history_empty_cached_def split: prod.splits sum.splits if_splits)

lemma cached_after_history_check:
  "history_table_is_empty_plan ev db_fp allow st = (Inr e, st') \<Longrightarrow>
     history_empty_cached (ca_audit (fst st')) db_fp = Some e"
  by (auto simp: history_table_is_empty_plan_def dest: cached_after_probe
      simp: on_audit_def cache_history_empty_def history_empty_cached_def
      split: prod.splits sum.splits option.splits if_splits bool.splits)

lemma cached_after_load:
  assumes "load_checksums_plan ev jc fp db_fp keys_json allow repair st = (Inr cm, st')"
    and "keys_json \<noteq> ''[]''"
  shows "history_empty_cached (ca_audit (fst st')) db_fp \<noteq> None"
  using assms
  by (auto simp: load_checksums_plan_def load_checksums_query_plan_def history_known_nonempty_def
      dest!: cached_after_history_check split: prod.splits sum.splits if_splits bool.splits)

text \<open>
  The source counts the round trips of a checksum load when the load is over. By then the state of
  the history is cached, so the count is one, also when the load probed the history and then read
  it; the branch that counts two is never taken.
\<close>

theorem checksum_load_counts_one_round_trip:
  assumes "load_checksums_plan ev jc fp db_fp keys_json allow repair st = (Inr cm, st')"
    and "keys_json \<noteq> ''[]''"
  shows "checksum_query_round_trips (ca_audit (fst st')) db_fp keys_json = 1"
  using cached_after_load [OF assms] assms(2)
  by (auto simp: checksum_query_round_trips_def history_known_nonempty_def history_known_empty_def
      history_empty_cached_def split: option.splits)

subsection \<open>The trace file\<close>

text \<open>The documented behaviour of the files and of the JSON library that the trace relies on.\<close>

definition trace_host_lawful :: "('w, 'j) trace_host \<Rightarrow> string \<Rightarrow> bool" where
  "trace_host_lawful th path \<longleftrightarrow>
     (\<forall>w data. th_is_file th (th_write th w path data) path
        \<and> th_read_to_string th (th_write th w path data) path = Some data)
     \<and> (\<forall>w dir. th_is_file th (th_create_dir_all th w dir) path = th_is_file th w path
        \<and> th_read_to_string th (th_create_dir_all th w dir) path = th_read_to_string th w path)
     \<and> (\<forall>es. \<exists>data. th_to_string_pretty th es = Some data \<and> th_from_str th data = Some es)"

lemma maybe_append_trace_entries:
  assumes "trace_host_lawful th path" and "path = path_join (trace_dir th) ''plan_db_trace.json''"
  shows "trace_entries th (maybe_append_trace th label tr wall_ms w) path
    = trace_entries th w path
      @ (if trace_enabled (th_getenv th) then [th_object th (trace_entry label tr wall_ms)] else [])"
proof (cases "trace_enabled (th_getenv th)")
  case True
  let ?w1 = "th_create_dir_all th w (trace_dir th)"
  have same: "trace_entries th ?w1 path = trace_entries th w path"
    using assms(1) by (simp add: trace_entries_def trace_host_lawful_def)
  obtain data where data: "th_to_string_pretty th (trace_entries th w path
      @ [th_object th (trace_entry label tr wall_ms)]) = Some data"
    "th_from_str th data = Some (trace_entries th w path @ [th_object th (trace_entry label tr wall_ms)])"
    using assms(1) unfolding trace_host_lawful_def by meson
  then have "maybe_append_trace th label tr wall_ms w = th_write th ?w1 path data"
    using True same assms(2) by (simp add: maybe_append_trace_def Let_def)
  then show ?thesis
    using True assms(1) data by (simp add: trace_entries_def trace_host_lawful_def unwrap_or_def)
qed (simp add: maybe_append_trace_def)

end
