(* ===== verification/Scaffold.thy ===== *)
theory Scaffold
  imports Plan_Db
begin

section \<open>Scaffolding transitions\<close>

text \<open>
  \<open>crates/core/src/scaffold\<close>: reading the columns of a \<open>CREATE TABLE\<close> script
  (\<open>column_parser\<close>), the generated \<open>ALTER TABLE\<close> or commented scaffold (\<open>auto.rs\<close>,
  \<open>content.rs\<close>), the checked migration directory (\<open>dir.rs\<close>) and \<open>ensure\<close>. Case
  conversion is that of ASCII letters.
\<close>

subsection \<open>The column parser\<close>

record parsed_column =
  pc_name :: string
  pc_type_name :: string
  pc_nullable :: bool

text \<open>\<open>str::rfind\<close> of a non-empty pattern.\<close>

definition str_rfind :: "string \<Rightarrow> string \<Rightarrow> nat option" where
  "str_rfind p s = map_option (\<lambda>i. length s - length p - i) (str_find (rev p) (rev s))"

definition cut_comment :: "string \<Rightarrow> string" where
  "cut_comment line = (case str_find ''--'' line of Some i \<Rightarrow> take i line | None \<Rightarrow> line)"

definition strip_line_comments :: "string \<Rightarrow> string" where
  "strip_line_comments sql = join_with [LF] (map cut_comment (str_lines sql))"

definition extract_column_body :: "string \<Rightarrow> string" where
  "extract_column_body sql =
     (let upper = replace_char LF '' '' (to_uppercase (strip_line_comments sql)) in
      case str_find ''('' upper of
        None \<Rightarrow> []
      | Some i \<Rightarrow>
          (let body = drop (i + 1) upper in
           case str_rfind '')'' body of None \<Rightarrow> [] | Some l \<Rightarrow> trim (take l body)))"

text \<open>The scan of \<open>split_columns\<close>: the depth, the current part and the rest.\<close>

fun split_columns_from :: "int \<Rightarrow> string \<Rightarrow> string \<Rightarrow> string list" where
  "split_columns_from depth cur [] = (if cur = [] then [] else [trim cur])"
| "split_columns_from depth cur (c # cs) =
     (if c = CHR ''('' then split_columns_from (depth + 1) (cur @ [c]) cs
      else if c = CHR '')'' then split_columns_from (depth - 1) (cur @ [c]) cs
      else if c = CHR '','' \<and> depth = 0 then trim cur # split_columns_from depth [] cs
      else split_columns_from depth (cur @ [c]) cs)"

definition split_columns :: "string \<Rightarrow> string list" where
  "split_columns body = split_columns_from 0 [] body"

text \<open>\<open>str::split_whitespace\<close>.\<close>

definition split_whitespace :: "string \<Rightarrow> string list" where
  "split_whitespace s =
     filter (\<lambda>w. w \<noteq> []) (split_on (CHR '' '') (map (\<lambda>c. if is_space c then CHR '' '' else c) s))"

definition parse_name_rest :: "string \<Rightarrow> (string \<times> string) option" where
  "parse_name_rest def =
     (case split_once (CHR '']'') def of
        Some (n, r) \<Rightarrow> Some (to_lowercase (trim (dropWhile (\<lambda>c. c = CHR ''['') n)), trim r)
      | None \<Rightarrow>
          (case split_whitespace def of
             [] \<Rightarrow> None
           | n # ws \<Rightarrow> Some (to_lowercase n, join_with '' '' ws)))"

definition split_type_null :: "string \<Rightarrow> string \<times> string" where
  "split_type_null rest =
     (let upper = to_uppercase rest in
      case str_rfind ''NOT NULL'' upper of
        Some i \<Rightarrow> (trim (take i rest), trim (drop i rest))
      | None \<Rightarrow>
          (case str_rfind ''NULL'' upper of
             Some i \<Rightarrow> (trim (take i rest), trim (drop i rest))
           | None \<Rightarrow> (rest, [])))"

definition parse_column_def :: "string \<Rightarrow> parsed_column option" where
  "parse_column_def raw =
     (let def = trim raw; upper = to_uppercase def in
      if def = [] \<or> starts_with upper ''CONSTRAINT'' \<or> starts_with upper ''PRIMARY'' then None
      else do {
        (name, rest) \<leftarrow> parse_name_rest def;
        if starts_with (to_uppercase rest) ''AS '' then None
        else
          (let (type_part, null_part) = split_type_null rest in
           Some \<lparr>pc_name = name, pc_type_name = trim type_part,
                 pc_nullable = (\<not> str_contains (to_uppercase null_part) ''NOT NULL'')\<rparr>)
      })"

definition parse_table_columns :: "string \<Rightarrow> parsed_column list" where
  "parse_table_columns sql =
     (let body = extract_column_body sql in
      if body = [] then [] else List.map_filter parse_column_def (split_columns body))"

definition new_columns :: "parsed_column list \<Rightarrow> string list \<Rightarrow> parsed_column list" where
  "new_columns file_cols db_names = filter (\<lambda>c. pc_name c \<notin> set db_names) file_cols"

definition has_dropped_columns :: "parsed_column list \<Rightarrow> string list \<Rightarrow> bool" where
  "has_dropped_columns file_cols db_names \<longleftrightarrow> list_ex (\<lambda>n. n \<notin> set (map pc_name file_cols)) db_names"

subsection \<open>Generated content\<close>

definition validate_type_literal :: "string \<Rightarrow> unit result" where
  "validate_type_literal typ =
     (if typ = [] \<or> length typ > 128
      then Inl (InvalidInput (''invalid type literal length: '' @ debug_str typ))
      else if \<not> list_all (\<lambda>c. (of_char c :: nat) < 128
                 \<and> c \<notin> {CHR '';'', LF, CR, CHR ''['', CHR '']'', CHR 0x27, CHR 0x22}) typ
      then Inl (InvalidInput (''invalid type literal: '' @ debug_str typ))
      else Inr ())"

definition add_column_sql :: "string \<Rightarrow> string \<Rightarrow> parsed_column \<Rightarrow> string result" where
  "add_column_sql schema_id table_id col =
     bind_result (validate_path_component (pc_name col)) (\<lambda>u.
     bind_result (validate_type_literal (pc_type_name col)) (\<lambda>u.
     bind_result (bracket_ident (pc_name col)) (\<lambda>col_id.
       Inr (''ALTER TABLE '' @ schema_id @ ''.'' @ table_id @ '' ADD '' @ col_id @ '' '' @ pc_type_name col @ '' ''
            @ (if pc_nullable col then ''NULL'' else ''NOT NULL'') @ '';'' @ [LF]))))"

definition auto_add_sql :: "string \<Rightarrow> string \<Rightarrow> parsed_column list \<Rightarrow> string result" where
  "auto_add_sql schema table added =
     bind_result (bracket_ident schema) (\<lambda>schema_id.
     bind_result (bracket_ident table) (\<lambda>table_id.
     bind_result (collect_results (map (add_column_sql schema_id table_id) added)) (\<lambda>stmts.
       Inr (''-- Auto-generated migration for '' @ schema_id @ ''.'' @ table_id @ [LF]
            @ ''-- Added columns: '' @ nat_to_string (length added) @ [LF]
            @ ''-- Review this migration before running.'' @ [LF, LF]
            @ concat stmts))))"

definition SCAFFOLD_MARK :: string where
  "SCAFFOLD_MARK = ''-- rmig: transition-scaffold''"

definition scaffold_content :: "string \<Rightarrow> string \<Rightarrow> table_column list \<Rightarrow> string" where
  "scaffold_content schema table columns =
     SCAFFOLD_MARK @ [LF]
     @ ''-- Table: ['' @ schema @ ''].['' @ table @ '']'' @ [LF]
     @ ''-- Replace this scaffold with the actual migration SQL.'' @ [LF]
     @ ''-- Schema: '' @ schema @ [LF]
     @ ''-- Table: '' @ table @ [LF]
     @ ''-- Press Ctrl+C to stop migration.'' @ [LF]
     @ (if columns = [] then []
        else ''-- Detected columns:'' @ [LF]
          @ concat (map (\<lambda>col. ''--   '' @ tc_name col @ '' '' @ tc_type_name col
              @ (if tc_nullable col then '' NULL'' else '' NOT NULL'') @ [LF]) columns))"

definition try_auto_migration ::
  "'w env \<Rightarrow> 'w \<Rightarrow> planned_object \<Rightarrow> string \<Rightarrow> table_column list \<Rightarrow> string \<Rightarrow> string \<Rightarrow> (string \<times> string) option" where
  "try_auto_migration ev w obj file_content db_columns commit dir =
     (case validate_filename_token commit of
        Inl e \<Rightarrow> None
      | Inr u \<Rightarrow>
          (let file_cols = parse_table_columns file_content;
               db_names = map tc_name db_columns;
               added = new_columns file_cols db_names
           in if file_cols = [] \<or> added = [] \<or> has_dropped_columns file_cols db_names then None
              else case auto_add_sql (po_schema_name obj) (po_object_name obj) added of
                Inl e \<Rightarrow> None
              | Inr sql \<Rightarrow>
                  (let file_name = ''001_'' @ commit @ ''_auto_add_columns.sql'' in
                   if ev_exists ev w (path_join dir file_name) then None else Some (sql, file_name))))"

definition fallback_scaffold :: "planned_object \<Rightarrow> table_column list \<Rightarrow> string \<Rightarrow> string \<times> string" where
  "fallback_scaffold obj db_columns commit0 =
     (let commit = (case validate_filename_token commit0 of Inr u \<Rightarrow> commit0 | Inl e \<Rightarrow> ''0000000'') in
      (''001_'' @ commit @ ''_describe_change.sql'',
       scaffold_content (po_schema_name obj) (po_object_name obj) db_columns))"

subsection \<open>The migration directory\<close>

definition migration_components :: "string \<Rightarrow> string \<Rightarrow> string \<Rightarrow> string list" where
  "migration_components db schema table = [db, schema, ''tables'', ''_migrations'', table]"

definition migration_dir :: "string \<Rightarrow> string \<Rightarrow> string \<Rightarrow> string \<Rightarrow> string" where
  "migration_dir base db schema table = foldl path_join base (migration_components db schema table)"

text \<open>The deepest existing ancestor; the loop ends at the base, which exists.\<close>

fun deepest_existing :: "'w env \<Rightarrow> 'w \<Rightarrow> string \<Rightarrow> string list \<Rightarrow> string" where
  "deepest_existing ev w base [] = base"
| "deepest_existing ev w base (c # cs) =
     (let p = foldl path_join base (rev (c # cs)) in if ev_exists ev w p then p else deepest_existing ev w base cs)"

definition migration_dir_checked ::
  "'w env \<Rightarrow> string \<Rightarrow> string \<Rightarrow> string \<Rightarrow> string \<Rightarrow> 'w \<Rightarrow> string result \<times> 'w" where
  "migration_dir_checked ev base db schema table w =
     (case bind_result (validate_path_component db) (\<lambda>u.
           bind_result (validate_path_component schema) (\<lambda>u. validate_path_component table)) of
        Inl e \<Rightarrow> (Inl e, w)
      | Inr u \<Rightarrow>
          (let dir = migration_dir base db schema table in
           if \<not> ev_exists ev w base then (Inr dir, w)
           else case ev_canonical ev w base of
             Inl e \<Rightarrow> (Inl (Io e), w)
           | Inr base_canon \<Rightarrow>
               (case ev_canonical ev w (deepest_existing ev w base (rev (migration_components db schema table))) of
                  Inl e \<Rightarrow> (Inl (Io e), w)
                | Inr existing \<Rightarrow>
                    if \<not> prefix base_canon existing then (Inl (InvalidInput ''migration path escapes sql_base''), w)
                    else case ev_create_dir_all ev w dir of
                      (Inl e, w1) \<Rightarrow> (Inl e, w1)
                    | (Inr u, w1) \<Rightarrow>
                        (case ev_canonical ev w1 dir of
                           Inl e \<Rightarrow> (Inl (Io e), w1)
                         | Inr dir_canon \<Rightarrow>
                             if \<not> prefix base_canon dir_canon
                             then (Inl (InvalidInput (''migration path escapes sql_base: '' @ path_lossy dir_canon)), w1)
                             else (Inr (path_of_components dir_canon), w1)))))"

definition is_scaffold_text :: "bytes \<Rightarrow> bool" where
  "is_scaffold_text data =
     (let line = hd (split_on LF data);
          text = (if is_utf8 line then line else [])
      in starts_with (rev (dropWhile (\<lambda>c. c = CR) (rev text))) SCAFFOLD_MARK)"

definition has_non_scaffold_sql :: "'w env \<Rightarrow> 'w \<Rightarrow> string \<Rightarrow> bool" where
  "has_non_scaffold_sql ev w dir =
     (case ev_read_dir ev w dir of
        None \<Rightarrow> False
      | Some names \<Rightarrow>
          list_ex (\<lambda>n. extension n = Some ''sql''
             \<and> (case ev_read ev w (path_join dir n) of Inl e \<Rightarrow> False | Inr data \<Rightarrow> \<not> is_scaffold_text data)) names)"

definition write_file :: "'w env \<Rightarrow> string \<Rightarrow> string \<Rightarrow> string \<Rightarrow> 'w \<Rightarrow> unit result \<times> 'w" where
  "write_file ev dir file_name content w =
     (case ev_create_dir_all ev w dir of
        (Inl e, w1) \<Rightarrow> (Inl e, w1)
      | (Inr u, w1) \<Rightarrow> ev_write ev w1 (path_join dir file_name) content)"

subsection \<open>Creating scaffolds\<close>

definition short_hash :: "'g host \<Rightarrow> 'g \<Rightarrow> string" where
  "short_hash h g =
     (case ho_git h g [''rev-parse'', ''--short'', ''HEAD''] of
        Some out \<Rightarrow> trim (from_utf8_lossy out)
      | None \<Rightarrow> ''0000000'')"

definition pick_content ::
  "'w env \<Rightarrow> 'w \<Rightarrow> workspace \<Rightarrow> planned_object \<Rightarrow> table_column list \<Rightarrow> string \<Rightarrow> string \<Rightarrow> (string \<times> string) option" where
  "pick_content ev w ws obj cols commit mig_dir =
     (case object_by_key ws (po_normalized_key obj) of
        None \<Rightarrow> Some (fallback_scaffold obj cols commit)
      | Some entry \<Rightarrow> do {
          apath \<leftarrow> script_abs_path ws (oe_script_id entry);
          Some (case ev_read ev w apath of
            Inl e \<Rightarrow> fallback_scaffold obj cols commit
          | Inr data \<Rightarrow>
              if \<not> is_utf8 data then fallback_scaffold obj cols commit
              else case try_auto_migration ev w obj data cols commit mig_dir of
                Some (content, name) \<Rightarrow> (name, content)
              | None \<Rightarrow> fallback_scaffold obj cols commit)
        })"

fun ensure_objects ::
  "'w env \<Rightarrow> config \<Rightarrow> workspace \<Rightarrow> (string \<times> table_column list) list \<Rightarrow> string \<Rightarrow> planned_object list \<Rightarrow> bool \<times> 'w
    \<Rightarrow> (bool result \<times> 'w) option" where
  "ensure_objects ev cfg ws columns commit [] (created, w) = Some (Inr created, w)"
| "ensure_objects ev cfg ws columns commit (obj # objs) (created, w) =
     (if po_planned_action obj \<noteq> ReprocessChangedBlocked \<or> po_database_name obj = []
      then ensure_objects ev cfg ws columns commit objs (created, w)
      else case migration_dir_checked ev (cfg_sql_base cfg) (po_database_name obj) (po_schema_name obj) (po_object_name obj) w of
        (Inl e, w1) \<Rightarrow> Some (Inl e, w1)
      | (Inr mig_dir, w1) \<Rightarrow>
          if has_non_scaffold_sql ev w1 mig_dir then ensure_objects ev cfg ws columns commit objs (created, w1)
          else do {
            (file_name, content) \<leftarrow> pick_content ev w1 ws obj (unwrap_or (map_of columns (po_normalized_key obj)) []) commit mig_dir;
            if ev_exists ev w1 (path_join mig_dir file_name) then ensure_objects ev cfg ws columns commit objs (created, w1)
            else case write_file ev mig_dir file_name content w1 of
              (Inl e, w2) \<Rightarrow> Some (Inl e, w2)
            | (Inr u, w2) \<Rightarrow> ensure_objects ev cfg ws columns commit objs (True, w2)
          })"

definition ensure ::
  "'w env \<Rightarrow> 'g host \<Rightarrow> 'g \<Rightarrow> config \<Rightarrow> workspace \<Rightarrow> migration_plan \<Rightarrow> (string \<times> table_column list) list \<Rightarrow> 'w
    \<Rightarrow> (bool result \<times> 'w) option" where
  "ensure ev h g cfg ws plan columns w =
     ensure_objects ev cfg ws columns (short_hash h g) (mp_objects plan) (False, w)"

end
