(* ===== verification/Engine.thy ===== *)
theory Engine
  imports Scaffold
begin

section \<open>The engine\<close>

text \<open>
  \<open>crates/core/src/engine\<close> (the commands, the locked body, the loop over databases),
  \<open>lock/mod.rs\<close> (acquiring and releasing the advisory lock) and \<open>config/ensure_db.rs\<close>
  (creating missing catalog databases). The outside is the record \<open>engine\<close>: the database phase's
  parameters, opening connections (\<open>driver::connect\<close> and \<open>connect_session_or_direct\<close>, which
  leave the session in the state \<open>'w\<close>), the connection to \<open>master\<close>, the directory at
  \<open>sql_root\<close>, and the clock. Phase timings are left out. A panic is \<open>None\<close>.
\<close>

record ('w, 'g) engine =
  en_db :: "('w, 'g) db_params"
  en_probe :: "config \<Rightarrow> 'w \<Rightarrow> unit result \<times> 'w"
  en_connect :: "config \<Rightarrow> 'w \<Rightarrow> unit result \<times> 'w"
  en_connect_session :: "config \<Rightarrow> 'w \<Rightarrow> unit result \<times> 'w"
  en_master :: "config \<Rightarrow> 'w \<Rightarrow> unit result \<times> 'w"
  en_master_exec :: "string \<Rightarrow> 'w \<Rightarrow> bool \<times> unit result \<times> 'w"
  en_parallelism :: "nat option"
  en_kids :: "(string \<times> fs_node) list"
  en_rfc3339 :: "int \<Rightarrow> string option"
  en_now :: string

subsection \<open>The advisory lock\<close>

definition acquire :: "'w env \<Rightarrow> config \<Rightarrow> 'w conn \<Rightarrow> unit result \<times> 'w conn" where
  "acquire ev cfg c =
     (case conn_query ev ACQUIRE [int_to_string (lock_timeout_millis_i32 (cfg_lock_timeout cfg))] c of
        (Inl e, c') \<Rightarrow> (Inl e, c')
      | (Inr rows, c') \<Rightarrow>
          (classify_applock (unwrap_or (case rows of [] \<Rightarrow> None | r # _ \<Rightarrow> get_i32 r 0) (-1)), c'))"

definition release :: "'w env \<Rightarrow> 'w conn \<Rightarrow> unit result \<times> 'w conn" where
  "release ev c =
     (case conn_query ev RELEASE [] c of (Inl e, c') \<Rightarrow> (Inl e, c') | (Inr rows, c') \<Rightarrow> (Inr (), c'))"

definition release_after_body :: "'w env \<Rightarrow> 'a result \<Rightarrow> 'w conn \<Rightarrow> 'a result \<times> 'w conn" where
  "release_after_body ev body_result c = (body_result, snd (release ev c))"

subsection \<open>Commands\<close>

datatype Command = CmdPlan | CmdMigrate | CmdValidate | CmdBaseline | CmdRepairChecksum | CmdVersion

fun command_label :: "Command \<Rightarrow> string" where
  "command_label CmdPlan = ''plan''"
| "command_label CmdMigrate = ''migrate''"
| "command_label CmdValidate = ''validate''"
| "command_label CmdBaseline = ''baseline''"
| "command_label CmdRepairChecksum = ''repair-checksum''"
| "command_label CmdVersion = ''version''"

definition command_mutates :: "Command \<Rightarrow> bool" where
  "command_mutates cmd \<longleftrightarrow> cmd \<in> {CmdMigrate, CmdBaseline, CmdRepairChecksum}"

record run_output =
  ro_exit_code :: int
  ro_plan :: "migration_plan option"

definition default_log_filter :: "string \<Rightarrow> string" where
  "default_log_filter log_level =
     (let level = (if trim log_level = [] then ''info'' else trim log_level) in
      if CHR ''='' \<in> set level \<or> CHR '','' \<in> set level then level
      else ''warn,migrator_core='' @ level @ '',rmig='' @ level @ '',rmigd='' @ level)"

definition resolved_planned_at :: "(string \<Rightarrow> string option) \<Rightarrow> (int \<Rightarrow> string option) \<Rightarrow> string \<Rightarrow> string" where
  "resolved_planned_at getenv rfc3339 now =
     (case getenv ''RMIG_PLANNED_AT'' of
        Some (c # cs) \<Rightarrow> c # cs
      | _ \<Rightarrow>
          unwrap_or (Option.bind (getenv ''SOURCE_DATE_EPOCH'') (\<lambda>epoch. Option.bind (parse_i64 (trim epoch)) rfc3339)) now)"

subsection \<open>Planning\<close>

definition plan_phase ::
  "('w, 'g) engine \<Rightarrow> Command \<Rightarrow> config \<Rightarrow> 'g \<Rightarrow> workspace \<Rightarrow> 'w db_state
    \<Rightarrow> ((migration_plan \<times> workspace) result \<times> 'g \<times> 'w db_state) option" where
  "plan_phase en cmd cfg g ws st =
     (let dp = en_db en; getenv = ho_getenv (dp_host dp) in do {
        (r, g', st1) \<leftarrow> run_plan_db_phase dp g cfg ws (command_mutates cmd) (cmd = CmdRepairChecksum) st;
        case r of
          Inl e \<Rightarrow> Some (Inl e, g', st1)
        | Inr db \<Rightarrow> do {
            let ca = warm_store getenv (config_fingerprint cfg) (ws_layout_digest ws) (bo_checksums db) (bo_catalog db) (fst st1);
            (ws', plan0) \<leftarrow> compute_diff (dp_fp dp) ws (bo_catalog db) (bo_checksums db);
            let plan = plan0\<lparr>mp_command := command_label cmd,
                             mp_planned_at := resolved_planned_at getenv (en_rfc3339 en) (en_now en)\<rparr>;
            plan' \<leftarrow> (if mp_rows plan \<noteq> [] then ensure_objects_materialized ws' plan else Some plan);
            Some (Inr (plan', ws'), g', (ca, snd st1))
          }
      })"

subsection \<open>Applying\<close>

definition ensure_adopt_allowed :: "config \<Rightarrow> workspace \<Rightarrow> migration_plan \<Rightarrow> (unit result \<times> migration_plan) option" where
  "ensure_adopt_allowed cfg ws plan =
     (if cfg_allow_adopt cfg then Some (Inr (), plan)
      else do {
        plan' \<leftarrow> ensure_objects_materialized ws plan;
        Some (if list_ex (\<lambda>ob. po_planned_action ob = AdoptExisting) (mp_objects plan') then Inl PlanBlocked else Inr (), plan')
      })"

definition needs_history :: "migration_plan \<Rightarrow> bool" where
  "needs_history plan \<longleftrightarrow>
     list_ex (\<lambda>ob. po_planned_action ob = ReprocessChanged \<and> po_transition_paths ob \<noteq> []) (mp_objects plan)"

definition tampered_error :: "string list \<Rightarrow> error" where
  "tampered_error tampered =
     InvalidInput (''applied transition script(s) modified after apply: '' @ join_with '', '' tampered
       @ ''; restore the original contents or add a new transition'')"

definition filter_applied ::
  "'w env \<Rightarrow> workspace \<Rightarrow> nat \<Rightarrow> migration_plan \<Rightarrow> 'w conn \<Rightarrow> (unit result \<times> migration_plan \<times> 'w conn) option" where
  "filter_applied ev ws timeout plan c =
     (if \<not> needs_history plan then Some (Inr (), plan, c)
      else if \<not> cn_live c then Some (Inl unavailable, plan, c)
      else case client_query ev LOAD_ALL_MIGRATIONS [] c of
        (late, r, c') \<Rightarrow>
          if timeout \<noteq> 0 \<and> late
          then Some (Inl (Sql (''history load timed out after '' @ duration_debug timeout)), plan, c')
          else case r of
            Inl e \<Rightarrow> Some (Inl e, plan, c')
          | Inr rows \<Rightarrow> do {
              (plan', t) \<leftarrow> filter_applied_migrations_on_plan (ev_hex ev) ws (applied_of_rows rows) plan;
              Some (case t of Inr u \<Rightarrow> Inr () | Inl tampered \<Rightarrow> Inl (tampered_error tampered), plan', c')
            })"

definition handle_blocked_migrate ::
  "('w, 'g) db_params \<Rightarrow> 'g \<Rightarrow> config \<Rightarrow> workspace \<Rightarrow> migration_plan \<Rightarrow> 'w conn \<Rightarrow> (unit result \<times> 'w conn) option" where
  "handle_blocked_migrate dp g cfg ws plan c =
     do {
       (r, c1) \<leftarrow> load_table_columns (dp_env dp) (dp_codec dp) ws c;
       case r of
         Inl e \<Rightarrow> Some (Inl e, c1)
       | Inr columns \<Rightarrow> do {
           (r2, w) \<leftarrow> ensure (dp_env dp) (dp_host dp) g cfg ws plan columns (cn_world c1);
           Some (case r2 of Inl e \<Rightarrow> Inl e | Inr created \<Rightarrow> Inl PlanBlocked, c1\<lparr>cn_world := w\<rparr>)
         }
     }"

definition after_apply ::
  "('w, 'g) db_params \<Rightarrow> config \<Rightarrow> workspace \<Rightarrow> apply_result \<Rightarrow> 'w db_state \<Rightarrow> 'w db_state option" where
  "after_apply dp cfg ws r st =
     (if ar_failed r = 0 \<and> ar_applied r > 0
      then map_option (\<lambda>(x, c'). (warm_clear (fst st), c'))
             (save_workspace_snapshot (dp_env dp) (dp_codec dp) (ws_layout_digest ws) ws (cfg_catalog_cache cfg) (snd st))
      else Some st)"

definition metadata_mode :: "Command \<Rightarrow> MetadataMode" where
  "metadata_mode cmd = (if cmd = CmdBaseline then MdBaseline else MdRepairChecksum)"

definition apply_migrate ::
  "('w, 'g) db_params \<Rightarrow> config \<Rightarrow> 'g \<Rightarrow> workspace \<Rightarrow> migration_plan \<Rightarrow> 'w db_state
    \<Rightarrow> (unit result \<times> migration_plan \<times> 'w db_state) option" where
  "apply_migrate dp cfg g ws plan st =
     (case st of (ca, c) \<Rightarrow>
        if mp_blocked plan then do {
          (r, c1) \<leftarrow> handle_blocked_migrate dp g cfg ws plan c;
          Some (r, plan, (ca, c1))
        }
        else do {
          (adopt, plan1) \<leftarrow> ensure_adopt_allowed cfg ws plan;
          case adopt of
            Inl e \<Rightarrow> Some (Inl e, plan1, st)
          | Inr u \<Rightarrow> do {
              (flt, plan2, c1) \<leftarrow> filter_applied (dp_env dp) ws (cfg_command_timeout cfg) plan1 c;
              case flt of
                Inl e \<Rightarrow> Some (Inl e, plan2, (ca, c1))
              | Inr u \<Rightarrow> do {
                  (r, plan3, (ac, c2)) \<leftarrow> execute_plan (dp_env dp) cfg ws plan2 (ca_audit ca, c1);
                  let st2 = (ca\<lparr>ca_audit := ac\<rparr>, c2);
                  case r of
                    Inl e \<Rightarrow> Some (Inl e, plan3, st2)
                  | Inr res \<Rightarrow> map_option (\<lambda>st3. (Inr (), plan3, st3)) (after_apply dp cfg ws res st2)
                }
            }
        })"

definition apply_metadata ::
  "('w, 'g) db_params \<Rightarrow> Command \<Rightarrow> config \<Rightarrow> workspace \<Rightarrow> migration_plan \<Rightarrow> 'w db_state
    \<Rightarrow> (unit result \<times> migration_plan \<times> 'w db_state) option" where
  "apply_metadata dp cmd cfg ws plan st =
     do {
       (r, plan1, (ac, c)) \<leftarrow> execute_metadata_plan (dp_env dp) cfg ws plan (metadata_mode cmd) (ca_audit (fst st), snd st);
       Some (case r of Inl e \<Rightarrow> Inl e | Inr res \<Rightarrow> Inr (), plan1, ((fst st)\<lparr>ca_audit := ac\<rparr>, c))
     }"

definition apply_plan ::
  "('w, 'g) db_params \<Rightarrow> Command \<Rightarrow> config \<Rightarrow> 'g \<Rightarrow> workspace \<Rightarrow> migration_plan \<Rightarrow> 'w db_state
    \<Rightarrow> (unit result \<times> migration_plan \<times> 'w db_state) option" where
  "apply_plan dp cmd cfg g ws plan st =
     (case cmd of
        CmdMigrate \<Rightarrow> apply_migrate dp cfg g ws plan st
      | CmdBaseline \<Rightarrow> apply_metadata dp cmd cfg ws plan st
      | CmdRepairChecksum \<Rightarrow> apply_metadata dp cmd cfg ws plan st
      | _ \<Rightarrow> Some (Inr (), plan, st))"

definition locked_body ::
  "('w, 'g) engine \<Rightarrow> Command \<Rightarrow> config \<Rightarrow> 'g \<Rightarrow> workspace \<Rightarrow> 'w db_state
    \<Rightarrow> ((migration_plan \<times> int) result \<times> 'g \<times> 'w db_state) option" where
  "locked_body en cmd cfg g ws st =
     do {
       (p, g1, st1) \<leftarrow> plan_phase en cmd cfg g ws st;
       case p of
         Inl e \<Rightarrow> Some (Inl e, g1, st1)
       | Inr (plan, ws1) \<Rightarrow> do {
           (r, plan1, st2) \<leftarrow> apply_plan (en_db en) cmd cfg g1 ws1 plan st1;
           Some (case r of
               Inl e \<Rightarrow> if e = PlanBlocked \<and> cmd = CmdMigrate then Inr (plan1, EXIT_PLAN_BLOCKED) else Inl e
             | Inr u \<Rightarrow> Inr (plan1, 0), g1, st2)
         }
     }"

definition run_locked ::
  "('w, 'g) engine \<Rightarrow> Command \<Rightarrow> config \<Rightarrow> 'g \<Rightarrow> workspace \<Rightarrow> 'w db_state
    \<Rightarrow> ((migration_plan \<times> int) result \<times> 'g \<times> 'w db_state) option" where
  "run_locked en cmd cfg g ws st =
     (let ev = dp_env (en_db en) in
      case acquire ev cfg (snd st) of
        (Inl e, c1) \<Rightarrow> Some (Inl e, g, (fst st, c1))
      | (Inr u, c1) \<Rightarrow> do {
          (body_result, g1, (ca, c2)) \<leftarrow> locked_body en cmd cfg g ws (fst st, c1);
          let (r, c3) = release_after_body ev body_result c2;
          Some (r, g1, (ca, c3))
        })"

subsection \<open>One database\<close>

definition run_command_for_database ::
  "('w, 'g) engine \<Rightarrow> Command \<Rightarrow> config \<Rightarrow> 'g \<Rightarrow> workspace \<Rightarrow> bool \<Rightarrow> caches \<times> 'w
    \<Rightarrow> (run_output result \<times> 'g \<times> caches \<times> 'w) option" where
  "run_command_for_database en cmd cfg g ws multi_db st =
     (case (if multi_db then en_connect en cfg (snd st) else en_connect_session en cfg (snd st)) of
        (Inl e, w) \<Rightarrow> Some (Inl e, g, fst st, w)
      | (Inr u, w) \<Rightarrow>
          (let st0 = (fst st, set_command_timeout (cfg_command_timeout cfg) (timing_conn_new w)) in
           if command_mutates cmd then do {
             (r, g1, (ca, c)) \<leftarrow> run_locked en cmd cfg g ws st0;
             Some (case r of Inl e \<Rightarrow> Inl e | Inr (plan, code) \<Rightarrow> Inr \<lparr>ro_exit_code = code, ro_plan = Some plan\<rparr>,
                   g1, ca, cn_world c)
           }
           else do {
             (r, g1, (ca, c)) \<leftarrow> plan_phase en cmd cfg g ws st0;
             Some (case r of
                 Inl e \<Rightarrow> Inl e
               | Inr (plan, ws1) \<Rightarrow>
                   Inr \<lparr>ro_exit_code = (if cmd = CmdValidate \<and> mp_blocked plan then EXIT_PLAN_BLOCKED else 0),
                        ro_plan = Some plan\<rparr>,
               g1, ca, cn_world c)
           }))"

subsection \<open>Catalog databases\<close>

definition is_missing_db_error :: "string \<Rightarrow> bool" where
  "is_missing_db_error msg \<longleftrightarrow> str_contains (to_lowercase msg) ''cannot open database''"

definition target_database_exists :: "('w, 'g) engine \<Rightarrow> config \<Rightarrow> string \<Rightarrow> 'w \<Rightarrow> bool result \<times> 'w" where
  "target_database_exists en cfg db w =
     (case en_probe en (cfg\<lparr>cfg_database := db\<rparr>) w of
        (Inr u, w') \<Rightarrow> (Inr True, w')
      | (Inl e, w') \<Rightarrow> (if is_missing_db_error (error_to_string e) then Inr False else Inl e, w'))"

definition with_create_database_timeout :: "nat \<Rightarrow> string \<Rightarrow> bool \<times> unit result \<Rightarrow> unit result" where
  "with_create_database_timeout timeout db lr =
     (case lr of (late, r) \<Rightarrow>
        if timeout = 0 \<or> \<not> late then r
        else Inl (Sql (''CREATE DATABASE '' @ db @ '' timed out after '' @ duration_debug timeout)))"

definition create_database_if_missing :: "('w, 'g) engine \<Rightarrow> config \<Rightarrow> string \<Rightarrow> 'w \<Rightarrow> unit result \<times> 'w" where
  "create_database_if_missing en cfg db w =
     (case create_database_sql db of
        Inl e \<Rightarrow> (Inl e, w)
      | Inr sql \<Rightarrow>
          (case en_master_exec en sql w of
             (late, r, w') \<Rightarrow> (with_create_database_timeout (cfg_command_timeout cfg) db (late, r), w')))"

text \<open>The flag says whether the connection to \<open>master\<close> is open already.\<close>

definition ensure_database_from_master ::
  "('w, 'g) engine \<Rightarrow> config \<Rightarrow> string \<Rightarrow> bool \<times> 'w \<Rightarrow> unit result \<times> bool \<times> 'w" where
  "ensure_database_from_master en cfg db st =
     (case (if fst st then (Inr (), snd st) else en_master en (cfg\<lparr>cfg_database := ''master''\<rparr>) (snd st)) of
        (Inl e, w) \<Rightarrow> (Inl e, fst st, w)
      | (Inr u, w) \<Rightarrow> (let (r, w') = create_database_if_missing en cfg db w in (r, True, w')))"

fun ensure_databases_loop ::
  "('w, 'g) engine \<Rightarrow> config \<Rightarrow> string list \<Rightarrow> bool \<times> 'w \<Rightarrow> unit result \<times> 'w" where
  "ensure_databases_loop en cfg [] (m, w) = (Inr (), w)"
| "ensure_databases_loop en cfg (db # dbs) (m, w) =
     (case target_database_exists en cfg db w of
        (Inl e, w1) \<Rightarrow> (Inl e, w1)
      | (Inr True, w1) \<Rightarrow> ensure_databases_loop en cfg dbs (m, w1)
      | (Inr False, w1) \<Rightarrow>
          (case ensure_database_from_master en cfg db (m, w1) of
             (Inl e, m2, w2) \<Rightarrow> (Inl e, w2)
           | (Inr u, m2, w2) \<Rightarrow> ensure_databases_loop en cfg dbs (m2, w2)))"

definition ensure_catalog_databases_exist ::
  "('w, 'g) engine \<Rightarrow> config \<Rightarrow> string list \<Rightarrow> 'w \<Rightarrow> unit result \<times> 'w" where
  "ensure_catalog_databases_exist en cfg names w =
     (case collect_results (map bracket_ident names) of
        Inl e \<Rightarrow> (Inl e, w)
      | Inr ids \<Rightarrow> ensure_databases_loop en cfg names (False, w))"

subsection \<open>All databases\<close>

definition saturating_add_usize :: "nat \<Rightarrow> nat \<Rightarrow> nat" where
  "saturating_add_usize a b = min (a + b) (2 ^ 64 - 1)"

definition merge_summary :: "plan_summary \<Rightarrow> plan_summary \<Rightarrow> plan_summary" where
  "merge_summary a b =
     \<lparr>sum_schema_count = saturating_add_usize (sum_schema_count a) (sum_schema_count b),
      sum_object_count = saturating_add_usize (sum_object_count a) (sum_object_count b),
      sum_create_count = saturating_add_usize (sum_create_count a) (sum_create_count b),
      sum_adopt_count = saturating_add_usize (sum_adopt_count a) (sum_adopt_count b),
      sum_skip_count = saturating_add_usize (sum_skip_count a) (sum_skip_count b),
      sum_changed_count = saturating_add_usize (sum_changed_count a) (sum_changed_count b),
      sum_blocked_count = saturating_add_usize (sum_blocked_count a) (sum_blocked_count b)\<rparr>"

text \<open>The entries of a row-indexed map moved behind the rows of another plan.\<close>

definition shifted :: "nat \<Rightarrow> (nat \<rightharpoonup> 'a) \<Rightarrow> nat \<rightharpoonup> 'a" where
  "shifted off m = (\<lambda>i. if i < off then None else m (i - off))"

definition merge_plan_into :: "migration_plan \<Rightarrow> migration_plan \<Rightarrow> migration_plan" where
  "merge_plan_into dst src =
     (let row_offset = as_u32 (length (mp_rows dst)) in
      \<lparr>mp_command = (if mp_command dst = [] then mp_command src else mp_command dst),
       mp_planned_at = (if mp_planned_at dst = [] then mp_planned_at src else mp_planned_at dst),
       mp_blockers = mp_blockers dst @ mp_blockers src,
       mp_schemas = mp_schemas dst @ mp_schemas src,
       mp_rows = mp_rows dst @ mp_rows src,
       mp_plan_git = mp_plan_git dst ++ shifted row_offset (mp_plan_git src),
       mp_plan_transitions = mp_plan_transitions dst ++ shifted row_offset (mp_plan_transitions src),
       mp_objects = mp_objects dst @ mp_objects src,
       mp_summary = merge_summary (mp_summary dst) (mp_summary src),
       mp_blocked = (mp_blocked dst \<or> mp_blocked src)\<rparr>)"

definition merge_plan :: "migration_plan option \<Rightarrow> migration_plan \<Rightarrow> migration_plan option" where
  "merge_plan dst src = (case dst of None \<Rightarrow> Some src | Some d \<Rightarrow> Some (merge_plan_into d src))"

definition missing_databases_error :: "string list \<Rightarrow> error" where
  "missing_databases_error dbs =
     Config (''catalog database(s) named by the repository do not exist on the server: '' @ join_with '', '' dbs)"

record run_state =
  rs_exit :: int
  rs_plan :: "migration_plan option"
  rs_missing :: "string list"

definition db_config :: "config \<Rightarrow> string \<Rightarrow> config" where
  "db_config cfg db = cfg\<lparr>cfg_database := db\<rparr>"

definition probe_catalog ::
  "('w, 'g) engine \<Rightarrow> Command \<Rightarrow> config \<Rightarrow> bool \<Rightarrow> string \<Rightarrow> 'w \<Rightarrow> bool result \<times> 'w" where
  "probe_catalog en cmd cfg multi db w =
     (if multi \<and> \<not> command_mutates cmd then target_database_exists en cfg db w else (Inr True, w))"

definition merge_output :: "run_state \<Rightarrow> run_output \<Rightarrow> run_state" where
  "merge_output rs out =
     rs\<lparr>rs_exit := max (rs_exit rs) (ro_exit_code out),
        rs_plan := (case ro_plan out of None \<Rightarrow> rs_plan rs | Some plan \<Rightarrow> merge_plan (rs_plan rs) plan)\<rparr>"

fun run_databases ::
  "('w, 'g) engine \<Rightarrow> Command \<Rightarrow> config \<Rightarrow> workspace \<Rightarrow> bool \<Rightarrow> string list \<Rightarrow> run_state \<Rightarrow> 'g \<times> caches \<times> 'w
    \<Rightarrow> (run_state result \<times> 'g \<times> caches \<times> 'w) option" where
  "run_databases en cmd cfg ws_full multi [] rs (g, ca, w) = Some (Inr rs, g, ca, w)"
| "run_databases en cmd cfg ws_full multi (db # dbs) rs (g, ca, w) =
     do {
       ws \<leftarrow> for_catalog_database (dp_fp (en_db en)) ws_full db;
       if object_count ws = 0 \<and> multi then run_databases en cmd cfg ws_full multi dbs rs (g, ca, w)
       else case probe_catalog en cmd cfg multi db w of
         (Inl e, w1) \<Rightarrow> Some (Inl e, g, ca, w1)
       | (Inr False, w1) \<Rightarrow>
           run_databases en cmd cfg ws_full multi dbs (rs\<lparr>rs_missing := rs_missing rs @ [db]\<rparr>) (g, ca, w1)
       | (Inr True, w1) \<Rightarrow> do {
           (r, st1) \<leftarrow> run_command_for_database en cmd (db_config cfg db) g ws multi (ca, w1);
           case r of
             Inr out \<Rightarrow> run_databases en cmd cfg ws_full multi dbs (merge_output rs out) st1
           | Inl e \<Rightarrow>
               if multi
               then run_databases en cmd cfg ws_full multi dbs (rs\<lparr>rs_exit := max (rs_exit rs) (exit_code e)\<rparr>) st1
               else Some (Inl e, st1)
         }
     }"

definition command_databases :: "('w, 'g) engine \<Rightarrow> config \<Rightarrow> string list result" where
  "command_databases en cfg =
     (if cfg_database cfg \<noteq> [] then Inr [cfg_database cfg]
      else discover_catalog_databases (cfg_sql_root cfg) (Some (FsDir (en_kids en))))"

definition scan_workspace :: "('w, 'g) engine \<Rightarrow> config \<Rightarrow> 'g \<Rightarrow> workspace result option" where
  "scan_workspace en cfg g =
     populate (ev_sha (dp_env (en_db en))) (dp_fp (en_db en)) (en_parallelism en) (dp_host (en_db en)) g
       workspace_default (cfg_sql_root cfg) (en_kids en) (cfg_skip_git cfg)"

definition finish_run :: "run_state result \<Rightarrow> run_output result" where
  "finish_run r =
     (case r of
        Inl e \<Rightarrow> Inl e
      | Inr rs \<Rightarrow>
          if rs_missing rs \<noteq> [] then Inl (missing_databases_error (rs_missing rs))
          else Inr \<lparr>ro_exit_code = rs_exit rs, ro_plan = rs_plan rs\<rparr>)"

definition run_command ::
  "('w, 'g) engine \<Rightarrow> Command \<Rightarrow> config \<Rightarrow> 'g \<times> caches \<times> 'w \<Rightarrow> (run_output result \<times> 'g \<times> caches \<times> 'w) option" where
  "run_command en cmd cfg st =
     (if cmd = CmdVersion then Some (Inr \<lparr>ro_exit_code = 0, ro_plan = None\<rparr>, st)
      else case command_databases en cfg of
        Inl e \<Rightarrow> Some (Inl e, st)
      | Inr databases \<Rightarrow>
          (case st of (g, ca, w) \<Rightarrow>
             case (if command_mutates cmd then ensure_catalog_databases_exist en cfg databases w else (Inr (), w)) of
               (Inl e, w1) \<Rightarrow> Some (Inl e, g, ca, w1)
             | (Inr u, w1) \<Rightarrow>
                 (case scan_workspace en cfg g of
                    None \<Rightarrow> None
                  | Some (Inl e) \<Rightarrow> Some (Inl e, g, ca, w1)
                  | Some (Inr ws_full) \<Rightarrow>
                      map_option (\<lambda>(r, st'). (finish_run r, st'))
                        (run_databases en cmd cfg ws_full (length databases > 1) databases
                          \<lparr>rs_exit = 0, rs_plan = None, rs_missing = []\<rparr> (g, ca, w1)))))"

end
