(* ===== verification/Cli.thy ===== *)
theory Cli
  imports Engine
begin

section \<open>The command line and its reports\<close>

text \<open>
  \<open>crates/cli/src\<close> (arguments, dispatch, exit code), \<open>export/report.rs\<close> and
  \<open>export/plan_json/io.rs\<close> (the report files), \<open>engine/io.rs\<close> (standard output),
  \<open>buildinfo/mod.rs\<close> and the loading of the TOML file. The outside is the record \<open>process\<close>:
  the engine, the process environment, the TOML parser, the serializers, removing and syncing files, and
  the signal that may cut a run short. What is printed is the list of \<open>print\<close> events, the final
  newline of a line left out. Log output is left out.
\<close>

subsection \<open>Arguments\<close>

datatype ParsedArgs = Help | Run string "string option" bool

definition HELP_HINT :: string where
  "HELP_HINT = ''Run '' @ [CHR 0x27] @ ''rmig'' @ [CHR 0x27] @ '' or '' @ [CHR 0x27] @ ''rmig --help'' @ [CHR 0x27] @ '' for usage.''"

fun parse_args_loop :: "string list \<Rightarrow> string \<times> string option \<times> bool \<Rightarrow> ParsedArgs result" where
  "parse_args_loop [] (cmd, config_file, json) =
     Inr (if cmd = [] then Help else Run cmd config_file json)"
| "parse_args_loop (a # args) (cmd, config_file, json) =
     (if a = ''--config'' then
        (case args of
           v # rest \<Rightarrow>
             if starts_with v ''-'' then Inl (InvalidInput (''--config requires a path argument'' @ [LF, LF] @ HELP_HINT))
             else parse_args_loop rest (cmd, Some v, json)
         | [] \<Rightarrow> Inl (InvalidInput (''--config requires a path argument'' @ [LF, LF] @ HELP_HINT)))
      else if a = ''--json'' then parse_args_loop args (cmd, config_file, True)
      else if a = ''-h'' \<or> a = ''--help'' then Inr Help
      else if starts_with a ''-'' then Inl (InvalidInput (''unknown flag: '' @ a @ [LF, LF] @ HELP_HINT))
      else if cmd \<noteq> [] then Inl (InvalidInput (''unexpected arg: '' @ a))
      else parse_args_loop args (a, config_file, json))"

definition parse_args :: "string list \<Rightarrow> ParsedArgs result" where
  "parse_args args = parse_args_loop args ([], None, False)"

definition parse_command :: "string \<Rightarrow> Command result" where
  "parse_command cmd =
     (if cmd = ''plan'' then Inr CmdPlan
      else if cmd = ''migrate'' then Inr CmdMigrate
      else if cmd = ''validate'' then Inr CmdValidate
      else if cmd = ''baseline'' then Inr CmdBaseline
      else if cmd = ''repair-checksum'' then Inr CmdRepairChecksum
      else Inl (InvalidInput (''unknown command: '' @ cmd @ [LF, LF] @ HELP_HINT)))"

subsection \<open>Build metadata\<close>

text \<open>\<open>RMIG_VERSION\<close> and \<open>RMIG_COMMIT\<close> of the build are arguments.\<close>

definition version :: "string option \<Rightarrow> string" where
  "version rmig_version =
     (case rmig_version of Some v \<Rightarrow> if trim v \<noteq> [] then trim v else ''0.0.0-dev'' | None \<Rightarrow> ''0.0.0-dev'')"

definition commit :: "string option \<Rightarrow> string" where
  "commit rmig_commit =
     (case rmig_commit of
        Some c \<Rightarrow> if trim c \<noteq> [] \<and> trim c \<noteq> ''unknown'' then trim c else ''unknown''
      | None \<Rightarrow> ''unknown'')"

definition author :: string where "author = ''Aleksey Gredyaev''"

definition summary :: "string option \<Rightarrow> string option \<Rightarrow> string" where
  "summary v c = ''rmig '' @ version v @ '' '' @ commit c @ '' by '' @ author"

subsection \<open>The plan document\<close>

text \<open>\<open>PlanWire\<close>: the fields of the document, in the order they are emitted.\<close>

record plan_wire =
  pw_command :: string
  pw_planned_at :: string
  pw_blocked :: bool
  pw_blockers :: "string list"
  pw_schemas :: "planned_schema list"
  pw_objects :: "planned_object list"
  pw_summary :: plan_summary

definition plan_wire_new :: "migration_plan \<Rightarrow> planned_object list \<Rightarrow> plan_wire" where
  "plan_wire_new inner objects =
     \<lparr>pw_command = mp_command inner, pw_planned_at = mp_planned_at inner, pw_blocked = mp_blocked inner,
      pw_blockers = mp_blockers inner, pw_schemas = mp_schemas inner, pw_objects = objects,
      pw_summary = mp_summary inner\<rparr>"

definition write_plan_json ::
  "(plan_wire \<Rightarrow> string result) \<Rightarrow> migration_plan \<Rightarrow> workspace option \<Rightarrow> string result option" where
  "write_plan_json ser plan ws =
     (let fully_materialized = (mp_rows plan \<noteq> [] \<and> length (mp_objects plan) = length (mp_rows plan))
      in do {
        doc \<leftarrow> (if mp_rows plan \<noteq> [] \<and> \<not> fully_materialized then
            (case ws of
               None \<Rightarrow> Some (Inl (InvalidInput ''write_plan_json: workspace required for slim plan rows''))
             | Some w \<Rightarrow> map_option (\<lambda>objs. Inr (plan_wire_new plan objs)) (wire_objects w plan))
          else Some (Inr (plan_wire_new plan (mp_objects plan))));
        Some (bind_result doc (\<lambda>d. bind_result (ser d) (\<lambda>v. Inr (v @ [LF]))))
      })"

record run_finished =
  rf_command :: string
  rf_result :: string
  rf_exit_code :: int

subsection \<open>The outside\<close>

datatype print = Stdout string | Stderr string

record ('w, 'g) process =
  pr_engine :: "('w, 'g) engine"
  pr_getenv_os :: "string \<Rightarrow> bytes option"
  pr_secs_f64 :: "string \<Rightarrow> nat option"
  pr_toml_parse :: "string \<Rightarrow> string + string"
  pr_toml_sections :: "string \<Rightarrow> string \<Rightarrow> string list option"
  pr_toml_typed :: "string \<Rightarrow> string + toml_config"
  pr_root :: "fs_node option"
  pr_ser_plan :: "plan_wire \<Rightarrow> string result"
  pr_ser_report :: "run_finished \<Rightarrow> string result"
  pr_ser_version :: "(string \<times> string) list \<Rightarrow> string + string"
  pr_remove_file :: "'w \<Rightarrow> string \<Rightarrow> (bool \<times> string + unit) \<times> 'w"
  pr_sync :: "'w \<Rightarrow> string \<Rightarrow> unit result \<times> 'w"
  pr_interrupt :: "(string \<times> 'w) option"
  pr_timings :: string
  pr_version :: "string option"
  pr_commit :: "string option"

text \<open>
  \<open>pr_toml_parse\<close> gives an error message or the parsed document, \<open>pr_toml_sections\<close> the keys of a
  section of it, \<open>pr_toml_typed\<close> its typed form; \<open>pr_remove_file\<close> says of a failure whether the
  file was missing; \<open>pr_interrupt\<close> is a signal with the outside as the dropped run left it.
\<close>

text \<open>What the command line threads through: the engine's state and the counter of temporary files.\<close>

type_synonym ('w, 'g) cli_state = "('g \<times> caches \<times> 'w) \<times> nat"

definition on_world :: "('w \<Rightarrow> 'r \<times> 'w) \<Rightarrow> ('w, 'g) cli_state \<Rightarrow> 'r \<times> ('w, 'g) cli_state" where
  "on_world f st = (case st of ((g, ca, w), n) \<Rightarrow> case f w of (r, w') \<Rightarrow> (r, (g, ca, w'), n))"

subsection \<open>The TOML file\<close>

definition toml_default :: toml_config where
  "toml_default =
     \<lparr>tc_server = None, tc_port = None, tc_auth = None, tc_encrypt = None, tc_trust_server_certificate = None,
      tc_sql_root = None, tc_sql_base = None, tc_report_dir = None, tc_l1_cache_dir = None, tc_log_level = None,
      tc_report_sync = None, tc_skip_git = None, tc_inspect_full = None, tc_catalog_cache = None, tc_allow_adopt = None,
      tc_command_timeout = None, tc_lock_timeout = None, tc_slo_max_cli_wall_ms = None, tc_socket = None\<rparr>"

definition load_toml_config_inner :: "('w, 'g) process \<Rightarrow> string \<Rightarrow> bool \<Rightarrow> 'w \<Rightarrow> toml_config result" where
  "load_toml_config_inner pr path required w =
     (let ev = dp_env (en_db (pr_engine pr)) in
      if \<not> ev_exists ev w path \<and> \<not> required then Inr toml_default
      else case ev_read ev w path of
        Inl e \<Rightarrow> Inl (Config (''config file unreadable: '' @ path @ '': '' @ e))
      | Inr data \<Rightarrow>
          if \<not> is_utf8 data
          then Inl (Config (''config file unreadable: '' @ path @ '': stream did not contain valid UTF-8''))
          else case pr_toml_parse pr data of
            Inl e \<Rightarrow> Inl (Config (''invalid TOML config '' @ path @ '': '' @ e))
          | Inr doc \<Rightarrow>
              bind_result (reject_secrets (pr_toml_sections pr doc)) (\<lambda>_.
                case pr_toml_typed pr doc of
                  Inl e \<Rightarrow> Inl (Config (''invalid config '' @ path @ '': '' @ e))
                | Inr tc \<Rightarrow> Inr tc))"

subsection \<open>Report files\<close>

text \<open>
  \<open>Path::with_extension\<close> on a file name: the text before the last dot, unless that dot is the first
  character.
\<close>

definition file_stem :: "string \<Rightarrow> string" where
  "file_stem name = (case str_rfind ''.'' name of None \<Rightarrow> name | Some i \<Rightarrow> if i = 0 then name else take i name)"

definition write_atomic ::
  "('w, 'g) process \<Rightarrow> string \<Rightarrow> string \<Rightarrow> bool \<Rightarrow> string result \<Rightarrow> ('w, 'g) cli_state \<Rightarrow> unit result \<times> ('w, 'g) cli_state" where
  "write_atomic pr dir name sync content st =
     (let ev = dp_env (en_db (pr_engine pr));
          tmp = path_join dir (file_stem name @ ''.tmp.'' @ nat_to_string (dp_pid (en_db (pr_engine pr))) @ ''.'' @ nat_to_string (snd st));
          st0 = (fst st, snd st + 1)
      in case on_world (\<lambda>w. ev_write ev w tmp (case content of Inr c \<Rightarrow> c | Inl e \<Rightarrow> [])) st0 of
           (Inl e, st1) \<Rightarrow> (Inl e, st1)
         | (Inr u, st1) \<Rightarrow>
             (case content of
                Inl e \<Rightarrow> (Inl e, st1)
              | Inr c \<Rightarrow>
                  (case (if sync then on_world (\<lambda>w. pr_sync pr w tmp) st1 else (Inr (), st1)) of
                     (Inl e, st2) \<Rightarrow> (Inl e, st2)
                   | (Inr u, st2) \<Rightarrow>
                       (case on_world (\<lambda>w. pr_sync pr w tmp) st2 of
                          (Inl e, st3) \<Rightarrow> (Inl e, st3)
                        | (Inr u, st3) \<Rightarrow> on_world (\<lambda>w. ev_rename ev w tmp (path_join dir name)) st3))))"

definition write_plan_report ::
  "('w, 'g) process \<Rightarrow> string \<Rightarrow> migration_plan option \<Rightarrow> workspace option \<Rightarrow> ('w, 'g) cli_state
    \<Rightarrow> (unit result \<times> ('w, 'g) cli_state) option" where
  "write_plan_report pr dir plan ws st =
     (case plan of
        Some p \<Rightarrow> map_option (\<lambda>doc. write_atomic pr dir ''.plan.json'' False doc st) (write_plan_json (pr_ser_plan pr) p ws)
      | None \<Rightarrow>
          Some (case on_world (\<lambda>w. pr_remove_file pr w (path_join dir ''.plan.json'')) st of
              (Inl (not_found, e), st1) \<Rightarrow> (if not_found then Inr () else Inl (Io e), st1)
            | (Inr u, st1) \<Rightarrow> (Inr (), st1)))"

definition write_reports ::
  "('w, 'g) process \<Rightarrow> config \<Rightarrow> string \<Rightarrow> migration_plan option \<Rightarrow> workspace option \<Rightarrow> int \<Rightarrow> ('w, 'g) cli_state
    \<Rightarrow> (unit result \<times> ('w, 'g) cli_state) option" where
  "write_reports pr cfg command plan ws exit st =
     (let dir = cfg_report_dir cfg; ev = dp_env (en_db (pr_engine pr)) in
      if dir = [] then Some (Inr (), st)
      else case on_world (\<lambda>w. ev_create_dir_all ev w dir) st of
        (Inl e, st1) \<Rightarrow> Some (Inl e, st1)
      | (Inr u, st1) \<Rightarrow> do {
          (r, st2) \<leftarrow> write_plan_report pr dir plan ws st1;
          case r of
            Inl e \<Rightarrow> Some (Inl e, st2)
          | Inr u \<Rightarrow>
              (let report = \<lparr>rf_command = command, rf_result = (if exit = 0 then ''success'' else ''failure''),
                             rf_exit_code = exit\<rparr>
               in Some (write_atomic pr dir ''.report.json'' (cfg_report_sync cfg)
                    (bind_result (pr_ser_report pr report) (\<lambda>v. Inr (v @ [LF]))) st2))
        })"

subsection \<open>Dispatch\<close>

definition print_version :: "('w, 'g) process \<Rightarrow> bool \<Rightarrow> print list result" where
  "print_version pr json =
     (if json then
        (case pr_ser_version pr [(''version'', version (pr_version pr)), (''commit'', commit (pr_commit pr)), (''author'', author)] of
           Inl e \<Rightarrow> Inl (InvalidInput e)
         | Inr v \<Rightarrow> Inr [Stdout v])
      else Inr [Stdout (summary (pr_version pr) (pr_commit pr))])"

definition blocked_lines :: "migration_plan option \<Rightarrow> print list" where
  "blocked_lines plan =
     (case plan of None \<Rightarrow> [] | Some p \<Rightarrow> map (\<lambda>b. Stderr (''rmig: blocked: '' @ b)) (mp_blockers p))
     @ [Stderr (''rmig: plan is blocked; run '' @ [CHR 0x27] @ ''rmig plan --json'' @ [CHR 0x27] @ '' for details'')]"

definition json_lines :: "('w, 'g) process \<Rightarrow> Command \<Rightarrow> run_output \<Rightarrow> print list result option" where
  "json_lines pr command out =
     (case (if command = CmdPlan then ro_plan out else None) of
        None \<Rightarrow> Some (Inr [if command = CmdPlan then Stderr (pr_timings pr) else Stdout (pr_timings pr)])
      | Some plan \<Rightarrow> do {
          doc \<leftarrow> write_plan_json (pr_ser_plan pr) plan None;
          Some (bind_result doc (\<lambda>d. Inr [Stdout d, Stderr (pr_timings pr)]))
        })"

text \<open>The run up to the configuration that the engine gets.\<close>

definition command_config :: "('w, 'g) process \<Rightarrow> string option \<Rightarrow> 'w \<Rightarrow> config result" where
  "command_config pr config_file w =
     bind_result (case config_file of Some path \<Rightarrow> load_toml_config_inner pr path True w
                  | None \<Rightarrow> load_toml_config_inner pr ''config.toml'' False w) (\<lambda>tc.
       validate_config (pr_getenv_os pr) (pr_root pr) (build_config (pr_secs_f64 pr) (env_var (pr_getenv_os pr)) tc))"

definition finish_ok ::
  "('w, 'g) process \<Rightarrow> config \<Rightarrow> string \<Rightarrow> Command \<Rightarrow> bool \<Rightarrow> run_output \<Rightarrow> ('w, 'g) cli_state
    \<Rightarrow> (int result \<times> print list \<times> ('w, 'g) cli_state) option" where
  "finish_ok pr cfg cmd command json out st =
     do {
       lines \<leftarrow> (if json then json_lines pr command out else Some (Inr []));
       case lines of
         Inl e \<Rightarrow> Some (Inl e, [], st)
       | Inr ls \<Rightarrow> do {
           let ps = ls @ (if ro_exit_code out = EXIT_PLAN_BLOCKED \<and> \<not> json then blocked_lines (ro_plan out) else []);
           (r, st1) \<leftarrow> write_reports pr cfg cmd (ro_plan out) None (ro_exit_code out) st;
           Some (case r of Inl e \<Rightarrow> Inl e | Inr u \<Rightarrow> Inr (ro_exit_code out), ps, st1)
         }
     }"

definition finish_err ::
  "('w, 'g) process \<Rightarrow> config \<Rightarrow> string \<Rightarrow> error \<Rightarrow> ('w, 'g) cli_state
    \<Rightarrow> (int result \<times> print list \<times> ('w, 'g) cli_state) option" where
  "finish_err pr cfg cmd e st =
     do {
       (r, st1) \<leftarrow> write_reports pr cfg cmd None None (exit_code e) st;
       Some (Inl e, case r of
           Inl werr \<Rightarrow> [Stderr (''warning: failed to write failure report: '' @ error_to_string werr)]
         | Inr u \<Rightarrow> [], st1)
     }"

definition run_command_line ::
  "('w, 'g) process \<Rightarrow> string \<Rightarrow> string option \<Rightarrow> bool \<Rightarrow> ('w, 'g) cli_state
    \<Rightarrow> (int result \<times> print list \<times> ('w, 'g) cli_state) option" where
  "run_command_line pr cmd config_file json st =
     (if cmd = ''version'' then Some (case print_version pr json of Inl e \<Rightarrow> (Inl e, [], st) | Inr ps \<Rightarrow> (Inr 0, ps, st))
      else case parse_command cmd of
        Inl e \<Rightarrow> Some (Inl e, [], st)
      | Inr command \<Rightarrow>
          (case command_config pr config_file (snd (snd (fst st))) of
             Inl e \<Rightarrow> Some (Inl e, [], st)
           | Inr cfg \<Rightarrow>
               (case pr_interrupt pr of
                  Some (sig, w) \<Rightarrow> do {
                    (r, st1) \<leftarrow> write_reports pr cfg cmd None None 130 ((fst (fst st), fst (snd (fst st)), w), snd st);
                    Some (Inr 130, [Stderr (''rmig: interrupted by '' @ sig @ ''; aborted at a safe statement boundary'')], st1)
                  }
                | None \<Rightarrow> do {
                    (outcome, est) \<leftarrow> run_command (pr_engine pr) command cfg (fst st);
                    case outcome of
                      Inr out \<Rightarrow> finish_ok pr cfg cmd command json out (est, snd st)
                    | Inl e \<Rightarrow> finish_err pr cfg cmd e (est, snd st)
                  })))"

definition cli_run ::
  "('w, 'g) process \<Rightarrow> string list \<Rightarrow> string \<Rightarrow> ('w, 'g) cli_state \<Rightarrow> (int result \<times> print list \<times> ('w, 'g) cli_state) option" where
  "cli_run pr args help_text st =
     (case parse_args args of
        Inl e \<Rightarrow> Some (Inl e, [], st)
      | Inr Help \<Rightarrow> Some (Inr 0, [Stdout help_text], st)
      | Inr (Run cmd config_file json) \<Rightarrow> run_command_line pr cmd config_file json st)"

definition exit_byte :: "int \<Rightarrow> nat" where
  "exit_byte code = nat (code mod 256)"

definition cli_main ::
  "('w, 'g) process \<Rightarrow> string list \<Rightarrow> string \<Rightarrow> ('w, 'g) cli_state \<Rightarrow> (nat \<times> print list \<times> ('w, 'g) cli_state) option" where
  "cli_main pr args help_text st =
     map_option (\<lambda>(r, ps, st'). case r of
         Inr code \<Rightarrow> (exit_byte code, ps, st')
       | Inl e \<Rightarrow> (exit_byte (exit_code e), ps @ [Stderr (''rmig: '' @ error_to_string e)], st'))
       (cli_run pr args help_text st)"

end
