(* ===== verification/Report_Files.thy ===== *)
theory Report_Files
  imports Gate Cli
begin

section \<open>Report files, build metadata and checksums on the wire\<close>

text \<open>
  The writers of the gate (\<open>gate/e2e_report/io.rs\<close>, \<open>gate/compare/snapshot_io.rs\<close>), the JSON form
  of the build metadata (\<open>buildinfo/mod.rs\<close>), the build script \<open>core/build.rs\<close> that resolves it,
  and \<open>export/checksum_json.rs\<close>. The file system, the JSON library, \<open>git\<close> and the Base64 codec
  are arguments.
\<close>

subsection \<open>Writing a report\<close>

text \<open>
  \<open>Path::parent\<close> on paths without \<open>.\<close> components: the path less its last component and the
  slashes around it, the root for a path directly below it.
\<close>

definition strip_slashes :: "string \<Rightarrow> string" where
  "strip_slashes p = rev (dropWhile (\<lambda>c. c = CHR ''/'') (rev p))"

definition parent_dir :: "string \<Rightarrow> string option" where
  "parent_dir path =
     (let p = strip_slashes path; d = strip_slashes (rev (dropWhile (\<lambda>c. c \<noteq> CHR ''/'') (rev p)))
      in if p = [] then None
         else if d = [] \<and> starts_with p ''/'' then Some ''/''
         else Some d)"

record 'w file_ops =
  fo_create_dir_all :: "'w \<Rightarrow> string \<Rightarrow> (string + unit) \<times> 'w"
  fo_write :: "'w \<Rightarrow> string \<Rightarrow> string \<Rightarrow> (string + unit) \<times> 'w"

definition write_json_file ::
  "'w file_ops \<Rightarrow> ('r \<Rightarrow> string + string) \<Rightarrow> string \<Rightarrow> 'r \<Rightarrow> 'w \<Rightarrow> (string + unit) \<times> 'w" where
  "write_json_file fo pretty path rep w =
     (case pretty rep of
        Inl e \<Rightarrow> (Inl e, w)
      | Inr data \<Rightarrow>
          (case (case parent_dir path of
                   None \<Rightarrow> (Inr (), w)
                 | Some parent \<Rightarrow> fo_create_dir_all fo w parent) of
             (Inl e, w1) \<Rightarrow> (Inl e, w1)
           | (Inr u, w1) \<Rightarrow> fo_write fo w1 path (data @ [LF])))"

definition write_e2e_report_file ::
  "'w file_ops \<Rightarrow> (e2e_scenario_report \<Rightarrow> string + string) \<Rightarrow> string \<Rightarrow> e2e_scenario_report \<Rightarrow> 'w
    \<Rightarrow> (string + unit) \<times> 'w" where
  "write_e2e_report_file fo pretty path rep = write_json_file fo pretty path rep"

definition write_e2e_apply_file ::
  "'w file_ops \<Rightarrow> (e2e_apply_report \<Rightarrow> string + string) \<Rightarrow> string \<Rightarrow> e2e_apply_report \<Rightarrow> 'w
    \<Rightarrow> (string + unit) \<times> 'w" where
  "write_e2e_apply_file fo pretty path rep = write_json_file fo pretty path rep"

definition write_e2e_gate_file ::
  "'w file_ops \<Rightarrow> (e2e_gate_report \<Rightarrow> string + string) \<Rightarrow> string \<Rightarrow> e2e_gate_report \<Rightarrow> 'w
    \<Rightarrow> (string + unit) \<times> 'w" where
  "write_e2e_gate_file fo pretty path rep = write_json_file fo pretty path rep"

definition write_e2e_blocked_file ::
  "'w file_ops \<Rightarrow> (e2e_blocked_report \<Rightarrow> string + string) \<Rightarrow> string \<Rightarrow> e2e_blocked_report \<Rightarrow> 'w
    \<Rightarrow> (string + unit) \<times> 'w" where
  "write_e2e_blocked_file fo pretty path rep = write_json_file fo pretty path rep"

definition read_snapshot_json :: "(string \<Rightarrow> string + plan_snapshot) \<Rightarrow> string \<Rightarrow> string + plan_snapshot" where
  "read_snapshot_json from_str data = from_str data"

definition write_snapshot_file ::
  "'w file_ops \<Rightarrow> (plan_snapshot \<Rightarrow> string + string) \<Rightarrow> string \<Rightarrow> plan_snapshot \<Rightarrow> 'w
    \<Rightarrow> (string + unit) \<times> 'w" where
  "write_snapshot_file fo pretty path snap w =
     (case pretty snap of
        Inl e \<Rightarrow> (Inl e, w)
      | Inr data \<Rightarrow>
          (case (case parent_dir path of
                   None \<Rightarrow> (Inr (), w)
                 | Some parent \<Rightarrow> fo_create_dir_all fo w parent) of
             (Inl e, w1) \<Rightarrow> (Inl e, w1)
           | (Inr u, w1) \<Rightarrow> fo_write fo w1 path (data @ [LF])))"

subsection \<open>Build metadata\<close>

text \<open>\<open>to_writer\<close> and \<open>write_all\<close> append to a writer or fail with a message.\<close>

definition buildinfo_write_json ::
  "('w \<Rightarrow> (string \<times> string) list \<Rightarrow> (string + unit) \<times> 'w) \<Rightarrow> ('w \<Rightarrow> string \<Rightarrow> (string + unit) \<times> 'w)
    \<Rightarrow> string option \<Rightarrow> string option \<Rightarrow> 'w \<Rightarrow> unit result \<times> 'w" where
  "buildinfo_write_json to_writer write_all v c w =
     (case to_writer w [(''version'', version v), (''commit'', commit c), (''author'', author)] of
        (Inl e, w1) \<Rightarrow> (Inl (InvalidInput e), w1)
      | (Inr u, w1) \<Rightarrow>
          (case write_all w1 [LF] of
             (Inl e, w2) \<Rightarrow> (Inl (InvalidInput e), w2)
           | (Inr u, w2) \<Rightarrow> (Inr (), w2)))"

text \<open>The build script: the lines it prints for \<open>cargo\<close>.\<close>

record git_output =
  go_success :: bool
  go_stdout :: bytes

definition git_short_head :: "git_output option \<Rightarrow> string option" where
  "git_short_head out =
     (case out of
        None \<Rightarrow> None
      | Some o' \<Rightarrow>
          if \<not> go_success o' then None
          else if \<not> is_utf8 (go_stdout o') then None
          else (let hash = trim (go_stdout o') in if hash = [] then None else Some hash))"

definition build_version :: "string option \<Rightarrow> string" where
  "build_version file =
     (let v = trim (unwrap_or file ''0.0.0-dev'') in if v = [] then ''0.0.0-dev'' else v)"

definition build_main ::
  "string option \<Rightarrow> (string \<Rightarrow> string option) \<Rightarrow> (string \<Rightarrow> git_output option) \<Rightarrow> string list" where
  "build_main manifest_dir read_to_string git =
     (let repo_root = path_join (unwrap_or manifest_dir ''.'') ''../..'';
          version_path = path_join repo_root ''VERSION''
      in [''cargo:rerun-if-changed='' @ version_path,
          ''cargo:rustc-env=RMIG_VERSION='' @ build_version (read_to_string version_path),
          ''cargo:rustc-env=RMIG_COMMIT='' @ unwrap_or (git_short_head (git repo_root)) ''unknown''])"

subsection \<open>Checksums on the wire\<close>

definition checksum_serialize :: "(bytes \<Rightarrow> string) \<Rightarrow> digest \<Rightarrow> string" where
  "checksum_serialize encode cs = encode cs"

definition checksum_deserialize :: "(string \<Rightarrow> string + bytes) \<Rightarrow> string \<Rightarrow> string + digest" where
  "checksum_deserialize decode s =
     (case decode s of
        Inl e \<Rightarrow> Inl e
      | Inr raw \<Rightarrow> if length raw = 32 then Inr raw else Inl ''checksum must be 32 bytes'')"

subsection \<open>Lemmas\<close>

text \<open>A report is on disk, complete and ended by a newline, when its writer succeeds.\<close>

lemma write_json_file_ok:
  assumes "write_json_file fo pretty path rep w = (Inr u, w')"
  obtains data w1 where "pretty rep = Inr data" "fo_write fo w1 path (data @ [LF]) = (Inr u, w')"
  using assms by (auto simp: write_json_file_def split: sum.splits prod.splits option.splits)

text \<open>A failure leaves the old file: nothing was written, or the write itself failed.\<close>

lemma write_json_file_error:
  assumes "write_json_file fo pretty path rep w = (Inl e, w')"
  shows "pretty rep = Inl e \<and> w' = w
    \<or> (\<exists>parent. parent_dir path = Some parent \<and> fo_create_dir_all fo w parent = (Inl e, w'))
    \<or> (\<exists>data w1. pretty rep = Inr data \<and> fo_write fo w1 path (data @ [LF]) = (Inl e, w'))"
  using assms by (auto simp: write_json_file_def split: sum.splits prod.splits option.splits)

lemma write_snapshot_is_write_json: "write_snapshot_file = write_json_file"
  by (intro ext) (simp add: write_snapshot_file_def write_json_file_def)

lemma strip_slashes_id: "p \<noteq> [] \<Longrightarrow> last p \<noteq> CHR ''/'' \<Longrightarrow> strip_slashes p = p"
  by (cases p rule: rev_cases) (simp_all add: strip_slashes_def)

lemma parent_dir_join:
  assumes "CHR ''/'' \<notin> set name" and "name \<noteq> []" and "dir \<noteq> []" and "last dir \<noteq> CHR ''/''"
  shows "parent_dir (dir @ ''/'' @ name) = Some dir"
proof -
  have "last name \<noteq> CHR ''/''" using assms(1,2) last_in_set by fastforce
  then have p: "strip_slashes (dir @ ''/'' @ name) = dir @ ''/'' @ name"
    using assms(2) by (intro strip_slashes_id) auto
  have d: "dropWhile (\<lambda>c. c \<noteq> CHR ''/'') (rev (dir @ ''/'' @ name)) = CHR ''/'' # rev dir"
    using assms(1) by (auto simp: dropWhile_append3)
  have "strip_slashes (rev (CHR ''/'' # rev dir)) = dir"
    using strip_slashes_id [OF assms(3,4)] by (simp add: strip_slashes_def)
  then show ?thesis
    using assms(3) unfolding parent_dir_def p d Let_def by simp
qed

lemma dropWhile_is_space_idem: "dropWhile is_space (dropWhile is_space s) = dropWhile is_space s"
  by (induction s) auto

lemma trim_end_start: "s = [] \<or> \<not> is_space (hd s) \<Longrightarrow> trim_start (trim_end s) = trim_end s"
proof (cases "dropWhile is_space (rev s)")
  case Nil
  show ?thesis unfolding trim_end_def trim_start_def Nil by simp
next
  case (Cons c cs)
  assume s: "s = [] \<or> \<not> is_space (hd s)"
  have "suffix (c # cs) (rev s)"
    using Cons suffix_dropWhile by metis
  then have "prefix (rev (c # cs)) s"
    by (metis rev_rev_ident suffix_to_prefix)
  then have "hd (rev (c # cs)) = hd s" "s \<noteq> []"
    by (auto simp: prefix_def hd_append)
  with s have "\<not> is_space (hd (rev (c # cs)))" by simp
  then show ?thesis
    using Cons by (simp add: trim_end_def trim_start_def) (metis dropWhile_eq_self_iff)
qed

lemma trim_trim: "trim (trim s) = trim s"
proof -
  have "trim_start s = [] \<or> \<not> is_space (hd (trim_start s))"
    unfolding trim_start_def by (metis hd_dropWhile)
  then have "trim_start (trim_end (trim_start s)) = trim_end (trim_start s)"
    by (rule trim_end_start)
  then show ?thesis
    by (simp add: trim_def) (simp add: trim_end_def dropWhile_is_space_idem)
qed

text \<open>
  What the build script resolves is what the program reports: the trimmed contents of the
  \<open>VERSION\<close> file, and the commit, each with its fallback.
\<close>

lemma reported_version: "version (Some (build_version file)) = build_version file"
proof -
  have "trim ''0.0.0-dev'' = ''0.0.0-dev''" by (simp add: trim_def trim_end_def trim_start_def is_space_def)
  then show ?thesis by (simp add: version_def build_version_def Let_def trim_trim)
qed

lemma reported_commit:
  "commit (Some (unwrap_or (git_short_head out) ''unknown'')) = unwrap_or (git_short_head out) ''unknown''"
proof (cases "git_short_head out")
  case None
  have "trim ''unknown'' = ''unknown''" by (simp add: trim_def trim_end_def trim_start_def is_space_def)
  with None show ?thesis by (simp add: commit_def unwrap_or_def)
next
  case (Some h)
  then have "trim h = h" "h \<noteq> []"
    by (auto simp: git_short_head_def Let_def trim_trim split: option.splits if_splits)
  with Some show ?thesis by (simp add: commit_def unwrap_or_def)
qed

text \<open>A checksum reads back from the wire; one of another length is refused.\<close>

lemma checksum_wire_roundtrip:
  assumes "\<And>bs. decode (encode bs) = Inr bs" and "length cs = 32"
  shows "checksum_deserialize decode (checksum_serialize encode cs) = Inr cs"
  using assms by (simp add: checksum_deserialize_def checksum_serialize_def)

lemma checksum_wire_length:
  "checksum_deserialize decode s = Inr cs \<Longrightarrow> length cs = 32"
  by (auto simp: checksum_deserialize_def split: sum.splits if_splits)

end
