(* ===== verification/Accessors.thy ===== *)
theory Accessors
  imports Layout_Fast Shared_Key Git Apply
begin

section \<open>Reading entries and scripts through their representation\<close>

text \<open>
  The accessors of \<open>domain/arena_resolve.rs\<close>, \<open>domain/object/access.rs\<close> and
  \<open>domain/script_resolve/\<close> on the representation of the source: interned strings are slices of the layout
  arena, whose buffer has identity \<open>ident\<close>, staged ones are given by \<open>string_reps\<close>. The lemmas show that
  each reads the text \<open>Workspace\<close> and \<open>Domain_Key\<close> compute, and panics exactly when those do.
\<close>

subsection \<open>Strings of the layout arena\<close>

definition layout_arena :: "workspace \<Rightarrow> string_arena option" where
  "layout_arena ws = (case ws_layout_arena ws of Some arena \<Rightarrow> Some arena | None \<Rightarrow> None)"

definition ws_shared_at :: "nat \<Rightarrow> workspace \<Rightarrow> str_off \<Rightarrow> shared_str option" where
  "ws_shared_at ident ws off = do { arena \<leftarrow> layout_arena ws; Some (shared_at ident arena off) }"

definition ws_object_key :: "nat \<Rightarrow> workspace \<Rightarrow> str_off \<Rightarrow> object_key option" where
  "ws_object_key ident ws key_off = map_option object_key_from (ws_shared_at ident ws key_off)"

subsection \<open>Rows and entries\<close>

definition database_count :: "workspace \<Rightarrow> nat" where
  "database_count ws = length (ws_database_names ws)"

definition ws_row :: "workspace \<Rightarrow> nat \<Rightarrow> object_row option" where
  "ws_row ws i = nth_opt (ws_object_rows ws) i"

definition entry_database_name :: "object_entry \<Rightarrow> workspace \<Rightarrow> string" where
  "entry_database_name e ws = database_name ws (oe_db_id e)"

text \<open>The key of the entry at index \<open>i\<close>, which \<open>entry_key\<close> must find, in its representation.\<close>

definition entry_object_key :: "string_reps \<Rightarrow> object_entry \<Rightarrow> workspace \<Rightarrow> nat \<Rightarrow> object_key option" where
  "entry_object_key rp e ws i = map_option (\<lambda>k. ObjectKey (rp_key rp i)) (entry_key ws i)"

definition entry_key_str :: "string_reps \<Rightarrow> object_entry \<Rightarrow> workspace \<Rightarrow> nat \<Rightarrow> string option" where
  "entry_key_str rp e ws i = Option.bind (entry_object_key rp e ws i) object_key_as_str"

definition entry_schema_part :: "string_reps \<Rightarrow> object_entry \<Rightarrow> workspace \<Rightarrow> nat \<Rightarrow> string option" where
  "entry_schema_part rp e ws i = map_option (\<lambda>s. key_part s 0) (entry_key_str rp e ws i)"

definition entry_kind_part :: "string_reps \<Rightarrow> object_entry \<Rightarrow> workspace \<Rightarrow> nat \<Rightarrow> string option" where
  "entry_kind_part rp e ws i = map_option (\<lambda>s. key_part s 1) (entry_key_str rp e ws i)"

definition entry_name_part :: "string_reps \<Rightarrow> object_entry \<Rightarrow> workspace \<Rightarrow> nat \<Rightarrow> string option" where
  "entry_name_part rp e ws i = map_option (\<lambda>s. key_part s 2) (entry_key_str rp e ws i)"

definition entry_schema_shared :: "nat \<Rightarrow> string_reps \<Rightarrow> object_entry \<Rightarrow> workspace \<Rightarrow> nat \<Rightarrow> shared_str option" where
  "entry_schema_shared ident rp e ws i = Option.bind (entry_object_key rp e ws i) (schema_shared ident)"

definition entry_kind_shared :: "nat \<Rightarrow> string_reps \<Rightarrow> object_entry \<Rightarrow> workspace \<Rightarrow> nat \<Rightarrow> shared_str option" where
  "entry_kind_shared ident rp e ws i = Option.bind (entry_object_key rp e ws i) (kind_shared ident)"

definition entry_name_shared :: "nat \<Rightarrow> string_reps \<Rightarrow> object_entry \<Rightarrow> workspace \<Rightarrow> nat \<Rightarrow> shared_str option" where
  "entry_name_shared ident rp e ws i = Option.bind (entry_object_key rp e ws i) (name_shared ident)"

subsection \<open>Scripts\<close>

text \<open>An id below one or past the last row is an index out of range.\<close>

definition ws_script_row :: "workspace \<Rightarrow> nat \<Rightarrow> script_row option" where
  "ws_script_row ws sid = (if sid = 0 then None else nth_opt (ws_script_rows ws) (sid - 1))"

definition script_row_key :: "nat \<Rightarrow> string_reps \<Rightarrow> script_row \<Rightarrow> workspace \<Rightarrow> nat \<Rightarrow> script_key option" where
  "script_row_key ident rp row ws sid =
     (if snd (sr_path_off row) \<noteq> 0 then map_option script_key_from (ws_shared_at ident ws (sr_path_off row))
      else map_option (\<lambda>k. ScriptKey (rp_script_key rp (sid - 1))) (nth_opt (ws_ingest_script_keys ws) (sid - 1)))"

definition script_row_abs_path :: "nat \<Rightarrow> string_reps \<Rightarrow> script_row \<Rightarrow> workspace \<Rightarrow> nat \<Rightarrow> shared_str option" where
  "script_row_abs_path ident rp row ws sid =
     (if snd (sr_abs_path_off row) \<noteq> 0 then ws_shared_at ident ws (sr_abs_path_off row)
      else map_option (\<lambda>k. rp_script_abs rp (sid - 1)) (nth_opt (ws_ingest_script_abs ws) (sid - 1)))"

record script_ref =
  rf_ws :: workspace
  rf_id :: nat

definition ws_script :: "workspace \<Rightarrow> nat \<Rightarrow> script_ref" where
  "ws_script ws sid = \<lparr>rf_ws = ws, rf_id = sid\<rparr>"

definition ref_row :: "script_ref \<Rightarrow> script_row option" where
  "ref_row r = ws_script_row (rf_ws r) (rf_id r)"

definition ref_key :: "nat \<Rightarrow> string_reps \<Rightarrow> script_ref \<Rightarrow> script_key option" where
  "ref_key ident rp r = do { row \<leftarrow> ref_row r; script_row_key ident rp row (rf_ws r) (rf_id r) }"

definition ref_path_str :: "script_ref \<Rightarrow> string option" where
  "ref_path_str r = script_path (rf_ws r) (rf_id r)"

definition ref_abs_path :: "nat \<Rightarrow> string_reps \<Rightarrow> script_ref \<Rightarrow> shared_str option" where
  "ref_abs_path ident rp r = do { row \<leftarrow> ref_row r; script_row_abs_path ident rp row (rf_ws r) (rf_id r) }"

definition ref_kind :: "script_ref \<Rightarrow> ScriptKind option" where
  "ref_kind r = map_option sr_kind (ref_row r)"

definition ref_checksum :: "script_ref \<Rightarrow> digest option" where
  "ref_checksum r = script_checksum (rf_ws r) (rf_id r)"

definition ref_git_hash :: "script_ref \<Rightarrow> string option" where
  "ref_git_hash r = git_field (rf_ws r) sg_hash_off st_hash (rf_id r)"

definition ref_git_author :: "script_ref \<Rightarrow> string option" where
  "ref_git_author r = git_field (rf_ws r) sg_author_off st_author (rf_id r)"

definition ref_git_date :: "script_ref \<Rightarrow> string option" where
  "ref_git_date r = git_field (rf_ws r) sg_date_off st_date (rf_id r)"

definition entry_script_path :: "object_entry \<Rightarrow> workspace \<Rightarrow> string option" where
  "entry_script_path e ws = ref_path_str (ws_script ws (oe_script_id e))"

definition scripts_iter :: "workspace \<Rightarrow> script_ref list" where
  "scripts_iter ws = map (ws_script ws) [1..<as_u32 (length (ws_script_rows ws)) + 1]"

definition ensure_script_git_staging :: "workspace \<Rightarrow> nat \<Rightarrow> workspace" where
  "ensure_script_git_staging ws sid =
     (case map_of (ws_script_git_staging ws) sid of
        Some st \<Rightarrow> ws
      | None \<Rightarrow> ws\<lparr>ws_script_git_staging := AList.update sid staging_default (ws_script_git_staging ws)\<rparr>)"

subsection \<open>The representation reads the text\<close>

definition reps_ok :: "string_reps \<Rightarrow> workspace \<Rightarrow> bool" where
  "reps_ok rp ws \<longleftrightarrow>
     (\<forall>i k. entry_key ws i = Some k \<longrightarrow> shared_wf (rp_key rp i) \<and> as_str (rp_key rp i) = Some k)
     \<and> (\<forall>i k. nth_opt (ws_ingest_script_keys ws) i = Some k \<longrightarrow> as_str (rp_script_key rp i) = Some k)
     \<and> (\<forall>i k. nth_opt (ws_ingest_script_abs ws) i = Some k \<longrightarrow> as_str (rp_script_abs rp i) = Some k)"

lemma shared_at_text: "as_str (shared_at ident arena off) = str_at arena off"
  by (cases off) (auto simp: shared_at_def from_arena_slice_def empty_str_def as_str_def str_at_def slice_bytes_def)

lemma ws_shared_at_text: "Option.bind (ws_shared_at ident ws off) as_str = ws_str_at ws off"
  by (cases "ws_layout_arena ws") (simp_all add: ws_shared_at_def layout_arena_def ws_str_at_def shared_at_text)

lemma ws_object_key_text: "Option.bind (ws_object_key ident ws off) object_key_as_str = ws_str_at ws off"
  unfolding ws_shared_at_text [symmetric, of ws off ident]
  by (cases "ws_shared_at ident ws off")
    (simp_all add: ws_object_key_def object_key_from_def object_key_as_str_def shared_deref_def)

lemma entry_accessors_text:
  assumes "reps_ok rp ws"
  shows "entry_key_str rp e ws i = entry_key ws i"
    and "entry_schema_part rp e ws i = map_option schema_part (entry_key ws i)"
    and "entry_kind_part rp e ws i = map_option kind_part (entry_key ws i)"
    and "entry_name_part rp e ws i = map_option name_part (entry_key ws i)"
    and "Option.bind (entry_schema_shared ident rp e ws i) as_str = map_option schema_part (entry_key ws i)"
    and "Option.bind (entry_kind_shared ident rp e ws i) as_str = map_option kind_part (entry_key ws i)"
    and "Option.bind (entry_name_shared ident rp e ws i) as_str = map_option name_part (entry_key ws i)"
proof -
  show key: "entry_key_str rp e ws i = entry_key ws i"
    using assms by (cases "entry_key ws i")
      (auto simp: entry_key_str_def entry_object_key_def reps_ok_def object_key_as_str_def shared_deref_def)
  then show "entry_schema_part rp e ws i = map_option schema_part (entry_key ws i)"
    and "entry_kind_part rp e ws i = map_option kind_part (entry_key ws i)"
    and "entry_name_part rp e ws i = map_option name_part (entry_key ws i)"
    by (auto simp: entry_schema_part_def entry_kind_part_def entry_name_part_def schema_part_def kind_part_def
        name_part_def intro!: option.map_cong)
  have rep: "shared_wf (ok_inner (ObjectKey (rp_key rp i)))" "object_key_as_str (ObjectKey (rp_key rp i)) = Some k"
    if "entry_key ws i = Some k" for k
    using assms that by (simp_all add: reps_ok_def object_key_as_str_def shared_deref_def)
  show "Option.bind (entry_schema_shared ident rp e ws i) as_str = map_option schema_part (entry_key ws i)"
    and "Option.bind (entry_kind_shared ident rp e ws i) as_str = map_option kind_part (entry_key ws i)"
    and "Option.bind (entry_name_shared ident rp e ws i) as_str = map_option name_part (entry_key ws i)"
    using key_segments_text [OF rep]
    by (cases "entry_key ws i"; simp add: entry_schema_shared_def entry_kind_shared_def entry_name_shared_def
        entry_object_key_def)+
qed

lemma row_text:
  assumes "reps_ok rp ws"
  shows "Option.bind (script_row_key ident rp row ws sid) script_key_as_str
      = (if snd (sr_path_off row) \<noteq> 0 then ws_str_at ws (sr_path_off row) else nth_opt (ws_ingest_script_keys ws) (sid - 1))"
    and "Option.bind (script_row_abs_path ident rp row ws sid) as_str
      = (if snd (sr_abs_path_off row) \<noteq> 0 then ws_str_at ws (sr_abs_path_off row) else nth_opt (ws_ingest_script_abs ws) (sid - 1))"
proof -
  have "Option.bind (map_option script_key_from x) script_key_as_str = Option.bind x as_str" for x
    by (cases x) (simp_all add: script_key_from_def script_key_as_str_def shared_deref_def)
  with assms show "Option.bind (script_row_key ident rp row ws sid) script_key_as_str
      = (if snd (sr_path_off row) \<noteq> 0 then ws_str_at ws (sr_path_off row) else nth_opt (ws_ingest_script_keys ws) (sid - 1))"
    by (cases "nth_opt (ws_ingest_script_keys ws) (sid - 1)")
      (auto simp: script_row_key_def ws_shared_at_text reps_ok_def script_key_as_str_def shared_deref_def)
  show "Option.bind (script_row_abs_path ident rp row ws sid) as_str
      = (if snd (sr_abs_path_off row) \<noteq> 0 then ws_str_at ws (sr_abs_path_off row) else nth_opt (ws_ingest_script_abs ws) (sid - 1))"
    using assms by (cases "nth_opt (ws_ingest_script_abs ws) (sid - 1)")
      (auto simp: script_row_abs_path_def ws_shared_at_text reps_ok_def)
qed

lemma script_accessors_text:
  assumes "reps_ok rp ws"
  shows "Option.bind (ref_key ident rp (ws_script ws sid)) script_key_as_str = ref_path_str (ws_script ws sid)"
    and "Option.bind (ref_abs_path ident rp (ws_script ws sid)) as_str = script_abs_path ws sid"
proof -
  let ?row = "ws_script_row ws sid"
  show "Option.bind (ref_key ident rp (ws_script ws sid)) script_key_as_str = ref_path_str (ws_script ws sid)"
    using row_text(1) [OF assms, where ident = ident and sid = sid]
    by (cases ?row) (auto simp: ref_key_def ref_path_str_def ref_row_def ws_script_def ws_script_row_def script_path_def
        split: if_splits)
  show "Option.bind (ref_abs_path ident rp (ws_script ws sid)) as_str = script_abs_path ws sid"
    using row_text(2) [OF assms, where ident = ident and sid = sid]
    by (cases ?row) (auto simp: ref_abs_path_def ref_row_def ws_script_def ws_script_row_def script_abs_path_def
        split: if_splits)
qed

text \<open>The git fields of a script as one, and the staging record the git preload fills.\<close>

lemma ref_git_triple:
  "git_triple ws sid = do { h \<leftarrow> ref_git_hash (ws_script ws sid); a \<leftarrow> ref_git_author (ws_script ws sid);
     d \<leftarrow> ref_git_date (ws_script ws sid); Some (h, a, d) }"
  by (simp add: git_triple_def ref_git_hash_def ref_git_author_def ref_git_date_def ws_script_def)

lemma apply_meta_ensures:
  "map_of (ws_script_git_staging (apply_meta sid meta ws)) sid
   = Some ((the (map_of (ws_script_git_staging (ensure_script_git_staging ws sid)) sid))
       \<lparr>st_hash := Some (gm_hash meta), st_author := Some (gm_author meta), st_date := Some (gm_date meta)\<rparr>)"
  by (cases "map_of (ws_script_git_staging ws) sid")
    (simp_all add: apply_meta_def ensure_script_git_staging_def unwrap_or_def update_conv')

end
