(* ===== verification/Dev_Bench.thy ===== *)
theory Dev_Bench
  imports Layout_Fast Plan_Data Intern_Correct Apply
begin

section \<open>The synthetic workspaces of the benchmarks\<close>

text \<open>
  \<open>crates/core-dev/src/bench\<close>: the two-phase construction of a workspace of \<open>n\<close> objects. All
  strings are first registered in one arena (\<open>common/build.rs\<close>), then the workspace, the catalog
  and the checksums are built from slices of it (\<open>skip.rs\<close>, \<open>table.rs\<close>) and the layout is
  installed on the same arena (\<open>common/mod.rs\<close>). A lookup of a string the first phase did not
  register is a panic; the lemmas show that there is none. The reused text buffers of the source
  are the strings written into them.
\<close>

subsection \<open>Registering the strings\<close>

definition bench_new :: "nat \<Rightarrow> nat \<Rightarrow> arena_builder" where
  "bench_new n extra_unique = builder_with_capacity"

definition bench_register :: "arena_builder \<Rightarrow> string \<Rightarrow> arena_builder" where
  "bench_register b s = register b s"

definition register_static_schema :: "arena_builder \<Rightarrow> arena_builder" where
  "register_static_schema b = bench_register (bench_register b ''testdb'') ''schema''"

definition register_obj_name :: "arena_builder \<Rightarrow> nat \<Rightarrow> arena_builder" where
  "register_obj_name b i = bench_register b (''obj_'' @ nat_to_string i)"

definition skip_key :: "string \<Rightarrow> nat \<Rightarrow> string" where
  "skip_key kind i = ''schema/'' @ kind @ ''/obj_'' @ nat_to_string i"

definition skip_path :: "string \<Rightarrow> nat \<Rightarrow> string" where
  "skip_path kind i = ''testdb/schema/'' @ kind @ ''/obj_'' @ nat_to_string i @ ''.sql''"

definition register_skip_heavy_row :: "arena_builder \<Rightarrow> nat \<Rightarrow> string \<Rightarrow> arena_builder" where
  "register_skip_heavy_row b i kind =
     bench_register (bench_register (register_obj_name b i) (skip_key kind i)) (skip_path kind i)"

definition table_key :: "nat \<Rightarrow> string" where
  "table_key i = ''schema/tables/t_'' @ nat_to_string i"

definition table_path :: "nat \<Rightarrow> string" where
  "table_path i = ''testdb/schema/tables/t_'' @ nat_to_string i @ ''.sql''"

definition register_table_row :: "arena_builder \<Rightarrow> nat \<Rightarrow> arena_builder" where
  "register_table_row b i =
     bench_register (bench_register (bench_register b (''t_'' @ nat_to_string i)) (table_key i)) (table_path i)"

definition register_table_transition :: "arena_builder \<Rightarrow> nat \<Rightarrow> string \<Rightarrow> arena_builder" where
  "register_table_transition b i ord =
     bench_register b (''testdb/schema/tables/t_'' @ nat_to_string i @ ''/_migrations/'' @ ord @ ''_t_''
       @ nat_to_string i @ ''.sql'')"

definition bench_finish :: "arena_builder \<Rightarrow> string_arena" where
  "bench_finish b = finish_builder b"

subsection \<open>Building a workspace on the arena\<close>

definition checksum_for :: "nat \<Rightarrow> digest" where
  "checksum_for i = replicate 32 (char_of (i mod 255 + 1))"

definition bench_schema :: "workspace \<Rightarrow> string_arena \<Rightarrow> (workspace \<times> string \<times> string) option" where
  "bench_schema ws arena =
     do {
       schema_s \<leftarrow> arena_get arena ''schema'';
       db_s \<leftarrow> arena_get arena ''testdb'';
       Some (ws\<lparr>ws_schemas := ws_schemas ws
               @ [\<lparr>se_database = db_s, se_name = schema_s, se_normalized = schema_s\<rparr>]\<rparr>, schema_s, db_s)
     }"

definition insert_object_script :: "workspace \<Rightarrow> string \<Rightarrow> digest \<Rightarrow> (workspace \<times> nat) option" where
  "insert_object_script ws path cs =
     insert_script ws \<lparr>sc_key = path, sc_kind = ObjectScript, sc_abs_path = path, sc_checksum = Some cs\<rparr>"

definition with_staging_key :: "string \<Rightarrow> nat \<Rightarrow> digest \<Rightarrow> bool \<Rightarrow> nat \<Rightarrow> string \<times> object_entry" where
  "with_staging_key key script_id cs ex db_id =
     (key, \<lparr>oe_checksum = cs, oe_key_off = str_off_EMPTY, oe_script_id = script_id, oe_db_id = db_id,
            oe_flags = (if ex then 0 OR OBJECT_FLAG_DB_EXISTS else 0)\<rparr>)"

definition bench_entry :: "string \<Rightarrow> nat \<Rightarrow> digest \<Rightarrow> nat \<Rightarrow> string \<times> object_entry" where
  "bench_entry key script_id cs db_id = with_staging_key key script_id cs True db_id"

definition finalize_bench_ws ::
  "(string \<Rightarrow> nat) \<Rightarrow> workspace \<Rightarrow> (string \<times> object_entry) list \<Rightarrow> string_arena \<Rightarrow> workspace option" where
  "finalize_bench_ws fp ws pairs arena =
     do {
       ws1 \<leftarrow> adopt_dense_entries fp ws pairs;
       ws2 \<leftarrow> install_layout_arena fp ws1 arena;
       rebuild_path_caches ws2
     }"

text \<open>What a loop carries: the workspace, the entries so far, the catalog objects and the checksums.\<close>

record bench_state =
  bs_ws :: workspace
  bs_entries :: "(string \<times> object_entry) list"
  bs_objects :: "(string \<times> catalog_object) list"
  bs_checksums :: checksum_map

definition bench_catalog :: "bench_state \<Rightarrow> catalog_state" where
  "bench_catalog st = \<lparr>cat_schemas = [''schema''], cat_objects = bs_objects st\<rparr>"

definition skip_kinds :: "string list" where
  "skip_kinds = [''views'', ''procedures'', ''functions'', ''tables'']"

definition skip_kind :: "nat \<Rightarrow> string" where
  "skip_kind i = skip_kinds ! (i mod 4)"

definition skip_arena :: "nat \<Rightarrow> string_arena" where
  "skip_arena n =
     bench_finish (foldl (\<lambda>b i. register_skip_heavy_row b i (skip_kind i))
       (foldl bench_register (register_static_schema (bench_new n (length skip_kinds))) skip_kinds) [0..<n])"

definition skip_row ::
  "(string \<Rightarrow> nat) \<Rightarrow> string_arena \<Rightarrow> nat \<Rightarrow> bench_state \<Rightarrow> nat \<Rightarrow> bench_state option" where
  "skip_row fp arena db_id st i =
     do {
       key \<leftarrow> arena_get arena (skip_key (skip_kind i) i);
       path \<leftarrow> arena_get arena (skip_path (skip_kind i) i);
       (ws, script_id) \<leftarrow> insert_object_script (bs_ws st) path (checksum_for i);
       Some (st\<lparr>bs_ws := ws,
               bs_checksums := insert_key fp key (checksum_for i) (bs_checksums st),
               bs_entries := bs_entries st @ [bench_entry key script_id (checksum_for i) db_id],
               bs_objects := AList.update key (catalog_object_from_key key) (bs_objects st)\<rparr>)
     }"

fun foldl_opt :: "('s \<Rightarrow> 'a \<Rightarrow> 's option) \<Rightarrow> 's \<Rightarrow> 'a list \<Rightarrow> 's option" where
  "foldl_opt f s [] = Some s"
| "foldl_opt f s (x # xs) = Option.bind (f s x) (\<lambda>s'. foldl_opt f s' xs)"

definition skip_heavy_workspace ::
  "(string \<Rightarrow> nat) \<Rightarrow> nat \<Rightarrow> (workspace \<times> catalog_state \<times> checksum_map) option" where
  "skip_heavy_workspace fp n =
     (let arena = skip_arena n in
      do {
        (ws, schema_s, db_s) \<leftarrow> bench_schema workspace_default arena;
        (ws, db_id) \<leftarrow> intern_database ws db_s;
        st \<leftarrow> foldl_opt (skip_row fp arena db_id)
               \<lparr>bs_ws = ws, bs_entries = [], bs_objects = [], bs_checksums = checksum_map_new\<rparr> [0..<n];
        ws' \<leftarrow> finalize_bench_ws fp (bs_ws st) (bs_entries st) arena;
        Some (ws', bench_catalog st, bs_checksums st)
      })"

definition table_arena :: "nat \<Rightarrow> string_arena" where
  "table_arena n =
     bench_finish (foldl (\<lambda>b i. register_table_transition
         (register_table_transition (register_table_row b i) i ''001'') i ''002'')
       (foldl bench_register (register_static_schema (bench_new n (n * 2 + 4))) [''tables'', ''001'', ''002'']) [0..<n])"

definition transition_path :: "nat \<Rightarrow> string \<Rightarrow> string \<Rightarrow> string" where
  "transition_path i ord key =
     ''testdb/schema/tables/t_'' @ nat_to_string i @ ''/_migrations/'' @ ord @ ''_'' @ name_part key @ ''.sql''"

text \<open>The script and the staged transition of one ordinal; a duplicate ordinal would be a panic.\<close>

definition table_transition :: "string_arena \<Rightarrow> nat \<Rightarrow> string \<Rightarrow> workspace \<Rightarrow> string \<Rightarrow> workspace option" where
  "table_transition arena i key ws ord =
     do {
       path \<leftarrow> arena_get arena (transition_path i ord key);
       (ws1, sid) \<leftarrow> insert_script ws \<lparr>sc_key = path, sc_kind = TransitionScript, sc_abs_path = path,
                        sc_checksum = Some (replicate 32 (hd ord))\<rparr>;
       case push_transition_staging ws1 ''testdb'' key ord path of Inl e \<Rightarrow> None | Inr ws2 \<Rightarrow> Some ws2
     }"

definition table_row ::
  "(string \<Rightarrow> nat) \<Rightarrow> string_arena \<Rightarrow> nat \<Rightarrow> string list \<Rightarrow> bench_state \<Rightarrow> nat \<Rightarrow> bench_state option" where
  "table_row fp arena db_id ords st i =
     do {
       key \<leftarrow> arena_get arena (table_key i);
       path \<leftarrow> arena_get arena (table_path i);
       (ws, script_id) \<leftarrow> insert_object_script (bs_ws st) path (checksum_for (i + 1));
       ws' \<leftarrow> foldl_opt (table_transition arena i key) ws ords;
       Some (st\<lparr>bs_ws := ws',
               bs_entries := bs_entries st @ [bench_entry key script_id (checksum_for (i + 1)) db_id],
               bs_objects := AList.update key (catalog_object_from_key key) (bs_objects st),
               bs_checksums := insert_key fp key (checksum_for i) (bs_checksums st)\<rparr>)
     }"

definition table_heavy_workspace ::
  "(string \<Rightarrow> nat) \<Rightarrow> nat \<Rightarrow> (workspace \<times> catalog_state \<times> checksum_map) option" where
  "table_heavy_workspace fp n =
     (let arena = table_arena n in
      do {
        (ws, schema_s, db_s) \<leftarrow> bench_schema workspace_default arena;
        (ws, db_id) \<leftarrow> intern_database ws db_s;
        ord_001 \<leftarrow> arena_get arena ''001'';
        ord_002 \<leftarrow> arena_get arena ''002'';
        st \<leftarrow> foldl_opt (table_row fp arena db_id [ord_001, ord_002])
               \<lparr>bs_ws = ws, bs_entries = [], bs_objects = [], bs_checksums = checksum_map_new\<rparr> [0..<n];
        ws' \<leftarrow> finalize_bench_ws fp (bs_ws st) (bs_entries st) arena;
        Some (ws', bench_catalog st, bs_checksums st)
      })"

subsection \<open>The scanned fixture\<close>

text \<open>
  \<open>bench/scan.rs\<close>: a tree of \<open>n\<close> views written below a root that did not exist, and scanned. A failing
  scan is a panic.
\<close>

definition fixture_tree :: "nat \<Rightarrow> (string \<times> fs_node) list" where
  "fixture_tree n =
     [(''testdb'', FsDir [(''schema'', FsDir [(''views'', FsDir (map (\<lambda>i.
        (''obj_'' @ nat_to_string i @ ''.sql'',
         FsFile (''CREATE VIEW [schema].[obj_'' @ nat_to_string i @ ''] AS SELECT 1 AS x'' @ [LF]))) [0..<n]))])])]"

definition scan_fixture_workspace ::
  "(bytes \<Rightarrow> digest) \<Rightarrow> (string \<Rightarrow> nat) \<Rightarrow> nat option \<Rightarrow> string \<Rightarrow> nat \<Rightarrow> workspace option" where
  "scan_fixture_workspace sha fp parallelism root n =
     (case scan_root sha fp parallelism workspace_default root (fixture_tree n) of
        Some (Inr ws) \<Rightarrow> Some ws | _ \<Rightarrow> None)"

definition temp_scan_root :: "string \<Rightarrow> nat \<Rightarrow> ('w \<Rightarrow> string \<Rightarrow> 'w) \<Rightarrow> string \<Rightarrow> 'w \<Rightarrow> string \<times> 'w" where
  "temp_scan_root temp_dir pid remove_dir_all pre w =
     (let dir = path_join temp_dir (''rmig_scan_bench_'' @ pre @ ''_'' @ nat_to_string pid)
      in (dir, remove_dir_all w dir))"

subsection \<open>Every lookup succeeds\<close>

fun ascii :: "string \<Rightarrow> bool" where
  "ascii [] = True"
| "ascii (c # s) = (\<not> digit7 c \<and> ascii s)"

lemma in_range_digit7: "in_range 0 127 c \<longleftrightarrow> \<not> digit7 c"
  by (cases c) (auto simp: in_range_def of_char_def)

lemma ascii_append [simp]: "ascii (s @ t) = (ascii s \<and> ascii t)"
  by (induction s) auto

lemma ascii_set: "\<forall>c \<in> set s. in_range 0 127 c \<Longrightarrow> ascii s"
  by (induction s) (auto simp: in_range_digit7)

lemma ascii_nat [simp]: "ascii (nat_to_string n)"
  by (rule ascii_set) (auto dest!: nat_to_string_digits simp: is_ascii_digit_def in_range_def)

lemma ascii_utf8: "ascii s \<Longrightarrow> is_utf8 s"
proof (induction s)
  case (Cons c s)
  then have "in_range 0 127 c" by (simp add: in_range_digit7)
  then have "utf8_step (c # s) = 1" by (cases s) (auto simp: in_range_def)
  with Cons show ?case by (simp add: is_utf8.simps [of "c # s"])
qed simp

lemma foldl_rows:
  assumes "\<And>b i. f b i = foldl register b (g i)"
  shows "foldl f b is = foldl register b (concat (map g is))"
  by (induction "is" arbitrary: b) (simp_all add: assms)

definition skip_row_strings :: "nat \<Rightarrow> string list" where
  "skip_row_strings i = [''obj_'' @ nat_to_string i, skip_key (skip_kind i) i, skip_path (skip_kind i) i]"

definition skip_strings :: "nat \<Rightarrow> string list" where
  "skip_strings n = [''testdb'', ''schema''] @ skip_kinds @ concat (map skip_row_strings [0..<n])"

lemma skip_arena_strings: "skip_arena n = finish_builder (foldl register builder_with_capacity (skip_strings n))"
proof -
  have "foldl (\<lambda>b i. register_skip_heavy_row b i (skip_kind i)) b is = foldl register b (concat (map skip_row_strings is))" for b "is"
    by (rule foldl_rows) (simp add: register_skip_heavy_row_def register_obj_name_def bench_register_def skip_row_strings_def)
  then show ?thesis
    by (simp add: skip_arena_def skip_strings_def bench_finish_def register_static_schema_def bench_new_def bench_register_def
        skip_kinds_def)
qed

definition table_row_strings :: "nat \<Rightarrow> string list" where
  "table_row_strings i = [''t_'' @ nat_to_string i, table_key i, table_path i,
     transition_path i ''001'' (table_key i), transition_path i ''002'' (table_key i)]"

definition table_strings :: "nat \<Rightarrow> string list" where
  "table_strings n = [''testdb'', ''schema'', ''tables'', ''001'', ''002''] @ concat (map table_row_strings [0..<n])"

lemma table_name_part: "name_part (table_key i) = ''t_'' @ nat_to_string i"
proof -
  have "CHR ''/'' \<notin> set (''t_'' @ nat_to_string i)"
    using nat_to_string_digits [of "CHR ''/''" i] by (auto simp: is_ascii_digit_def)
  then have "split_on (CHR ''/'') (table_key i) = [''schema'', ''tables'', ''t_'' @ nat_to_string i]"
    using split_on_key [of "''schema''" "''tables''" "''t_'' @ nat_to_string i"] by (simp add: table_key_def del: split_on.simps)
  then show ?thesis by (simp add: name_part_def key_part_def)
qed

lemma table_arena_strings: "table_arena n = finish_builder (foldl register builder_with_capacity (table_strings n))"
proof -
  have "foldl (\<lambda>b i. register_table_transition (register_table_transition (register_table_row b i) i ''001'') i ''002'') b is
      = foldl register b (concat (map table_row_strings is))" for b "is"
    by (rule foldl_rows)
      (simp add: register_table_row_def register_table_transition_def bench_register_def table_row_strings_def
        transition_path_def table_name_part)
  then show ?thesis
    by (simp add: table_arena_def table_strings_def bench_finish_def register_static_schema_def bench_new_def bench_register_def)
qed

lemma ascii_skip_kind: "ascii (skip_kind i)"
proof -
  have "skip_kind i \<in> set skip_kinds" unfolding skip_kind_def by (rule nth_mem) (simp add: skip_kinds_def)
  then show ?thesis by (auto simp: skip_kinds_def)
qed

lemma ascii_rows: "list_all ascii (skip_row_strings i)" "list_all ascii (table_row_strings i)"
proof -
  show "list_all ascii (skip_row_strings i)"
    by (simp add: skip_row_strings_def skip_key_def skip_path_def ascii_skip_kind)
  have "ascii (transition_path i ord (table_key i))" if "ascii ord" for ord
    using that unfolding transition_path_def table_name_part by simp
  then have "ascii (transition_path i ''001'' (table_key i))" "ascii (transition_path i ''002'' (table_key i))"
    by simp_all
  moreover have "ascii (table_key i)" "ascii (table_path i)" by (simp_all add: table_key_def table_path_def)
  ultimately show "list_all ascii (table_row_strings i)" by (simp add: table_row_strings_def)
qed

lemma bench_strings_utf8: "s \<in> set (skip_strings n) \<or> s \<in> set (table_strings n) \<Longrightarrow> is_utf8 s"
proof (rule ascii_utf8)
  assume "s \<in> set (skip_strings n) \<or> s \<in> set (table_strings n)"
  then have "s \<in> set [''testdb'', ''schema'', ''views'', ''procedures'', ''functions'', ''tables'', ''001'', ''002'']
      \<or> (\<exists>i. s \<in> set (skip_row_strings i) \<or> s \<in> set (table_row_strings i))"
    by (auto simp: skip_strings_def table_strings_def skip_kinds_def)
  then show "ascii s"
  proof
    assume "s \<in> set [''testdb'', ''schema'', ''views'', ''procedures'', ''functions'', ''tables'', ''001'', ''002'']"
    moreover have "list_all ascii [''testdb'', ''schema'', ''views'', ''procedures'', ''functions'', ''tables'', ''001'', ''002'']"
      by simp
    ultimately show ?thesis unfolding list_all_iff by (rule bspec [rotated])
  next
    assume "\<exists>i. s \<in> set (skip_row_strings i) \<or> s \<in> set (table_row_strings i)"
    with ascii_rows show ?thesis by (auto simp: list_all_iff)
  qed
qed

lemma bench_row_strings:
  "i < n \<Longrightarrow> s \<in> set (skip_row_strings i) \<Longrightarrow> s \<in> set (skip_strings n)"
  "i < n \<Longrightarrow> s \<in> set (table_row_strings i) \<Longrightarrow> s \<in> set (table_strings n)"
  by (force simp: skip_strings_def table_strings_def)+

lemma skip_lookups:
  assumes "sum_list (map length (skip_strings n)) < 2 ^ 32" and "i < n"
  shows "arena_get (skip_arena n) (skip_key (skip_kind i) i) = Some (skip_key (skip_kind i) i)"
    and "arena_get (skip_arena n) (skip_path (skip_kind i) i) = Some (skip_path (skip_kind i) i)"
    and "bench_schema ws (skip_arena n) \<noteq> None"
proof -
  have known: "arena_get (skip_arena n) s = Some s" if "s \<in> set (skip_strings n)" for s
    unfolding skip_arena_strings using assms(1) that bench_strings_utf8 by (intro registered_strings_known) auto
  show "arena_get (skip_arena n) (skip_key (skip_kind i) i) = Some (skip_key (skip_kind i) i)"
    and "arena_get (skip_arena n) (skip_path (skip_kind i) i) = Some (skip_path (skip_kind i) i)"
    by (rule known, rule bench_row_strings [OF assms(2)], simp add: skip_row_strings_def)+
  show "bench_schema ws (skip_arena n) \<noteq> None"
    using known [of "''testdb''"] known [of "''schema''"] by (simp add: bench_schema_def skip_strings_def)
qed

lemma table_lookups:
  assumes "sum_list (map length (table_strings n)) < 2 ^ 32" and "i < n" and "ord \<in> {''001'', ''002''}"
  shows "arena_get (table_arena n) (table_key i) = Some (table_key i)"
    and "arena_get (table_arena n) (table_path i) = Some (table_path i)"
    and "arena_get (table_arena n) ord = Some ord"
    and "arena_get (table_arena n) (transition_path i ord (table_key i)) = Some (transition_path i ord (table_key i))"
proof -
  have known: "arena_get (table_arena n) s = Some s" if "s \<in> set (table_strings n)" for s
    unfolding table_arena_strings using assms(1) that bench_strings_utf8 by (intro registered_strings_known) auto
  show "arena_get (table_arena n) ord = Some ord"
    using assms(3) by (intro known) (auto simp: table_strings_def)
  have row: "arena_get (table_arena n) s = Some s" if "s \<in> set (table_row_strings i)" for s
    by (rule known, rule bench_row_strings(2) [OF assms(2) that])
  show "arena_get (table_arena n) (table_key i) = Some (table_key i)"
    and "arena_get (table_arena n) (table_path i) = Some (table_path i)"
    and "arena_get (table_arena n) (transition_path i ord (table_key i)) = Some (transition_path i ord (table_key i))"
    using assms(3) by (auto intro!: row simp: table_row_strings_def)
qed

end
