(* ===== verification/Dev_Perf.thy ===== *)
theory Dev_Perf
  imports Report_Files Timings_Correct "HOL-Library.Product_Lexorder"
begin

section \<open>Footprint baselines and profiles\<close>

text \<open>
  \<open>crates/core-dev/src/perf\<close> and \<open>pprof\<close>: the committed baseline of struct sizes, the layout report, and
  the profiles written next to benchmarks. What the compiler decides (sizes, alignments, offsets) and the
  profiler with its reports are parameters.
\<close>

subsection \<open>Struct sizes\<close>

definition BASELINE_VERSION :: nat where "BASELINE_VERSION = 1"
definition THRESHOLD_BYTES :: nat where "THRESHOLD_BYTES = 40"

record struct_size_entry =
  ss_package :: string
  ss_type_name :: string
  ss_bytes :: nat

definition size_entry :: "string \<Rightarrow> string \<Rightarrow> nat \<Rightarrow> struct_size_entry" where
  "size_entry package type_name n = \<lparr>ss_package = package, ss_type_name = type_name, ss_bytes = n\<rparr>"

definition measured_types :: "(string \<times> string) list" where
  "measured_types =
     [(''export'', ''MigrationPlan''), (''export'', ''PlanRow''), (''export'', ''PlannedObject''), (''export'', ''PlanSummary''),
      (''domain'', ''Workspace''), (''domain'', ''WorkspaceCold''), (''domain'', ''ObjectEntry''), (''domain'', ''ObjectRow''),
      (''domain'', ''ScriptRow''), (''gate'', ''PlanSnapshot''), (''gate'', ''SnapshotObject''), (''config'', ''Config''),
      (''config'', ''ConfigCold''), (''export'', ''PlanGitOff''), (''timings'', ''PhaseTimings'')]"

text \<open>\<open>size_of\<close> gives the size of a type of the repository by its name.\<close>

definition size_order :: "struct_size_entry \<Rightarrow> int \<times> string \<times> string" where
  "size_order e = (- int (ss_bytes e), ss_package e, ss_type_name e)"

definition collect_struct_sizes :: "(string \<Rightarrow> nat) \<Rightarrow> struct_size_entry list" where
  "collect_struct_sizes size_of =
     sort_key size_order (filter (\<lambda>e. THRESHOLD_BYTES \<le> ss_bytes e)
       (map (\<lambda>(package, name). size_entry package name (size_of name)) measured_types))"

record footprint_baseline =
  fb_version :: nat
  fb_rustc_version :: string
  fb_target :: string
  fb_threshold_bytes :: nat
  fb_struct_sizes :: "struct_size_entry list"

definition current_baseline :: "string \<Rightarrow> string \<Rightarrow> (string \<Rightarrow> nat) \<Rightarrow> footprint_baseline" where
  "current_baseline rustc target size_of =
     \<lparr>fb_version = BASELINE_VERSION, fb_rustc_version = rustc, fb_target = target,
      fb_threshold_bytes = THRESHOLD_BYTES, fb_struct_sizes = collect_struct_sizes size_of\<rparr>"

definition struct_sizes_json :: "(footprint_baseline \<Rightarrow> string + string) \<Rightarrow> footprint_baseline \<Rightarrow> string + string" where
  "struct_sizes_json pretty b = pretty b"

definition write_struct_sizes_json ::
  "'w file_ops \<Rightarrow> (footprint_baseline \<Rightarrow> string + string) \<Rightarrow> string \<Rightarrow> footprint_baseline \<Rightarrow> 'w \<Rightarrow> (string + unit) \<times> 'w" where
  "write_struct_sizes_json fo pretty path b w =
     (case (case parent_dir path of None \<Rightarrow> (Inr (), w) | Some parent \<Rightarrow> fo_create_dir_all fo w parent) of
        (Inl e, w1) \<Rightarrow> (Inl e, w1)
      | (Inr u, w1) \<Rightarrow>
          (case struct_sizes_json pretty b of
             Inl e \<Rightarrow> (Inl e, w1)
           | Inr json \<Rightarrow> fo_write fo w1 path (json @ [LF])))"

subsection \<open>The layout report\<close>

record type_layout =
  tl_size :: "string \<Rightarrow> nat"
  tl_align :: "string \<Rightarrow> nat"
  tl_offset :: "string \<Rightarrow> string \<Rightarrow> nat"

definition approx_sign :: string where
  "approx_sign = [CHR 0xE2, CHR 0x89, CHR 0x88]"

definition size_field :: "type_layout \<Rightarrow> string \<Rightarrow> string" where
  "size_field lay t = t @ '': size='' @ nat_to_string (tl_size lay t)"

definition size_align :: "type_layout \<Rightarrow> string \<Rightarrow> string" where
  "size_align lay t = size_field lay t @ '' align='' @ nat_to_string (tl_align lay t)"

definition offset_line :: "type_layout \<Rightarrow> string \<Rightarrow> string" where
  "offset_line lay f = ''  '' @ f @ '' @'' @ nat_to_string (tl_offset lay ''ObjectEntry'' f)"

definition layout_report_lines :: "type_layout \<Rightarrow> string list" where
  "layout_report_lines lay = sort (
     [size_align lay ''ObjectEntry'',
      offset_line lay ''key_off'', offset_line lay ''script_id'', offset_line lay ''checksum'', offset_line lay ''flags'',
      offset_line lay ''db_id'',
      size_align lay ''ObjectRow'',
      join_with '' '' (map (size_field lay) [''ParentRef'', ''CatalogObject'', ''SchemaEntry'']),
      join_with '' '' (map (size_field lay) [''SharedStr'', ''ObjectKey'', ''ScriptKey'']),
      size_align lay ''Workspace'' @ '' (hot shell; cold in Box)'',
      size_align lay ''WorkspaceCold'' @ '' (one Box/plan; heap = maps + arena + vecs)'',
      ''  HashMap headers x10 '' @ approx_sign @ nat_to_string (10 * tl_size lay ''HashMap<u32, u32>'') @ '' B (empty)'',
      ''  Vec headers x9 '' @ approx_sign @ nat_to_string (9 * tl_size lay ''Vec<u8>'') @ '' B'',
      ''  root String + digest + metrics '' @ approx_sign
        @ nat_to_string (tl_size lay ''String'' + 32 + 2 * tl_size lay ''usize'') @ '' B'',
      join_with '' '' (map (size_field lay) [''PlannedObject'', ''PlannedGit'', ''ScriptRow'', ''Config'']),
      size_field lay ''MigrationPlan''])"

subsection \<open>Profiles\<close>

text \<open>
  The profiler: a guard samples until its report is built. A report is the list of sampled stacks with
  their counts; a stack is a list of frames, a frame the names of the symbols inlined into it.
\<close>

record ('w, 'g, 'r, 'f) profiler =
  pf_env :: "string \<Rightarrow> string option"
  pf_new :: "'w \<Rightarrow> int \<Rightarrow> (string + 'g) \<times> 'w"
  pf_report :: "'w \<Rightarrow> 'g \<Rightarrow> (string + 'r) \<times> 'w"
  pf_data :: "'r \<Rightarrow> (string list list \<times> int) list"
  pf_flamegraph :: "'w \<Rightarrow> 'r \<Rightarrow> 'f \<Rightarrow> (string + unit) \<times> 'w"
  pf_flamegraph_opts :: "'w \<Rightarrow> 'r \<Rightarrow> 'f \<Rightarrow> (string + unit) \<times> 'w"
  pf_create_dir_all :: "'w \<Rightarrow> string \<Rightarrow> (string + unit) \<times> 'w"
  pf_create :: "'w \<Rightarrow> string \<Rightarrow> (string + 'f) \<times> 'w"
  pf_writeln :: "'w \<Rightarrow> 'f \<Rightarrow> string \<Rightarrow> (string + unit) \<times> 'w"
  pf_eprintln :: "'w \<Rightarrow> string \<Rightarrow> 'w"

record 'g pprof_guard =
  pg_guard :: "'g option"
  pg_out :: string

definition pprof_enabled :: "(string \<Rightarrow> string option) \<Rightarrow> bool" where
  "pprof_enabled getenv =
     (case getenv ''RMIG_PPROF'' of Some v \<Rightarrow> v = ''1'' \<or> eq_ignore_ascii_case v ''true'' | None \<Rightarrow> False)"

definition pprof_guard_new ::
  "('w, 'g, 'r, 'f) profiler \<Rightarrow> string \<Rightarrow> 'w \<Rightarrow> 'g pprof_guard \<times> 'w" where
  "pprof_guard_new pf name w =
     (let out = path_join ''ops/perf/artifacts'' (''rust_'' @ name @ ''_flamegraph.svg'') in
      if pprof_enabled (pf_env pf) then
        (case pf_new pf w 100 of
           (Inl e, w1) \<Rightarrow> (\<lparr>pg_guard = None, pg_out = out\<rparr>, w1)
         | (Inr g, w1) \<Rightarrow> (\<lparr>pg_guard = Some g, pg_out = out\<rparr>, w1))
      else (\<lparr>pg_guard = None, pg_out = out\<rparr>, w))"

text \<open>\<open>Drop\<close>: failures are ignored.\<close>

definition pprof_guard_drop :: "('w, 'g, 'r, 'f) profiler \<Rightarrow> 'g pprof_guard \<Rightarrow> 'w \<Rightarrow> 'w" where
  "pprof_guard_drop pf pg w =
     (case pg_guard pg of
        None \<Rightarrow> w
      | Some g \<Rightarrow>
          (case pf_report pf w g of
             (Inl e, w1) \<Rightarrow> w1
           | (Inr report, w1) \<Rightarrow>
               (let w2 = (case parent_dir (pg_out pg) of None \<Rightarrow> w1 | Some parent \<Rightarrow> snd (pf_create_dir_all pf w1 parent)) in
                case pf_create pf w2 (pg_out pg) of
                  (Inl e, w3) \<Rightarrow> w3
                | (Inr file, w3) \<Rightarrow>
                    pf_eprintln pf (snd (pf_flamegraph pf w3 report file)) (''wrote flamegraph: '' @ pg_out pg))))"

record 'g criterion_profiler =
  cp_frequency :: int
  cp_guard :: "'g option"

definition criterion_new :: "int \<Rightarrow> 'g criterion_profiler" where
  "criterion_new frequency = \<lparr>cp_frequency = frequency, cp_guard = None\<rparr>"

definition start_profiling ::
  "('w, 'g, 'r, 'f) profiler \<Rightarrow> 'g criterion_profiler \<Rightarrow> 'w \<Rightarrow> 'g criterion_profiler \<times> 'w" where
  "start_profiling pf cp w =
     (case pf_new pf w (cp_frequency cp) of
        (Inr g, w1) \<Rightarrow> (cp\<lparr>cp_guard := Some g\<rparr>, w1)
      | (Inl e, w1) \<Rightarrow> (cp, pf_eprintln pf w1 (''pprof ProfilerGuard::new failed: '' @ e)))"

definition stop_profiling ::
  "('w, 'g, 'r, 'f) profiler \<Rightarrow> string \<Rightarrow> 'g criterion_profiler \<Rightarrow> 'w \<Rightarrow> 'g criterion_profiler \<times> 'w" where
  "stop_profiling pf dir cp w =
     (case cp_guard cp of
        None \<Rightarrow> (cp, w)
      | Some g \<Rightarrow>
          (cp\<lparr>cp_guard := None\<rparr>,
           (case pf_create_dir_all pf w dir of
              (Inl e, w1) \<Rightarrow> pf_eprintln pf w1 (''create profile dir '' @ dir @ '' failed: '' @ e)
            | (Inr u, w1) \<Rightarrow>
                (let output = path_join dir ''flamegraph.svg'' in
                 case pf_create pf w1 output of
                   (Inl e, w2) \<Rightarrow> pf_eprintln pf w2 (''create '' @ output @ '' failed: '' @ e)
                 | (Inr file, w2) \<Rightarrow>
                     (case pf_report pf w2 g of
                        (Inl e, w3) \<Rightarrow> pf_eprintln pf w3 (''pprof report build failed: '' @ e)
                      | (Inr report, w3) \<Rightarrow>
                          (case pf_flamegraph_opts pf w3 report file of
                             (Inl e, w4) \<Rightarrow> pf_eprintln pf w4 (''write '' @ output @ '' failed: '' @ e)
                           | (Inr u, w4) \<Rightarrow> w4))))))"

subsection \<open>The top frames of a report\<close>

text \<open>The name a frame is counted under: its first symbol, when it has one.\<close>

definition frame_name :: "string list \<Rightarrow> string option" where
  "frame_name syms = (case syms of [] \<Rightarrow> None | name # rest \<Rightarrow> Some (if name = [] then ''<unknown>'' else name))"

definition add_count :: "string \<Rightarrow> int \<Rightarrow> (string \<times> int) list \<Rightarrow> (string \<times> int) list" where
  "add_count name cnt m = AList.update name (wrap_i64 (unwrap_or (map_of m name) 0 + cnt)) m"

fun credit_frames ::
  "int \<Rightarrow> string list list \<Rightarrow> string list \<Rightarrow> (string \<times> int) list \<Rightarrow> (string \<times> int) list" where
  "credit_frames cnt [] seen m = m"
| "credit_frames cnt (syms # frames) seen m =
     (case frame_name syms of
        None \<Rightarrow> credit_frames cnt frames seen m
      | Some name \<Rightarrow>
          if name \<in> set seen then credit_frames cnt frames seen m
          else credit_frames cnt frames (name # seen) (add_count name cnt m))"

definition credit_stack :: "(string \<times> int) list \<times> int \<Rightarrow> string list list \<times> int \<Rightarrow> (string \<times> int) list \<times> int" where
  "credit_stack acc stack =
     (credit_frames (snd stack) (fst stack) [] (fst acc), wrap_i64 (snd acc + snd stack))"

definition count_frames :: "(string list list \<times> int) list \<Rightarrow> (string \<times> int) list \<times> int" where
  "count_frames data = foldl credit_stack ([], 0) data"

definition pad_left :: "nat \<Rightarrow> string \<Rightarrow> string" where
  "pad_left n s = replicate (n - length s) (CHR '' '') @ s"

text \<open>
  \<open>order\<close> is the order in which the hash map yields its entries, \<open>percent\<close> the formatted percentage
  (a floating-point computation).
\<close>

definition top_frame_lines ::
  "((string \<times> int) list \<Rightarrow> (string \<times> int) list) \<Rightarrow> (int \<Rightarrow> int \<Rightarrow> string) \<Rightarrow> string
    \<Rightarrow> (string list list \<times> int) list \<Rightarrow> string list" where
  "top_frame_lines order percent meta data =
     (let (by_fn, total) = count_frames data; entries = sort_key (\<lambda>(name, c). - c) (order by_fn)
      in [''# '' @ meta, ''# total samples: '' @ int_to_string total,
          ''# top frames (inclusive; each stack frame credited once per sample)'', []]
         @ map (\<lambda>(name, c). pad_left 8 (int_to_string c) @ ''  '' @ pad_left 5 (percent c total) @ ''%  '' @ name)
             (take 40 entries))"

fun write_lines :: "('w, 'g, 'r, 'f) profiler \<Rightarrow> 'f \<Rightarrow> string list \<Rightarrow> 'w \<Rightarrow> (string + unit) \<times> 'w" where
  "write_lines pf file [] w = (Inr (), w)"
| "write_lines pf file (line # rest) w =
     (case pf_writeln pf w file line of
        (Inl e, w1) \<Rightarrow> (Inl e, w1)
      | (Inr u, w1) \<Rightarrow> write_lines pf file rest w1)"

definition write_text_top_frames ::
  "('w, 'g, 'r, 'f) profiler \<Rightarrow> ((string \<times> int) list \<Rightarrow> (string \<times> int) list) \<Rightarrow> (int \<Rightarrow> int \<Rightarrow> string)
    \<Rightarrow> 'r \<Rightarrow> string \<Rightarrow> string \<Rightarrow> 'w \<Rightarrow> (string + unit) \<times> 'w" where
  "write_text_top_frames pf order percent report path meta w =
     (case pf_create pf w path of
        (Inl e, w1) \<Rightarrow> (Inl e, w1)
      | (Inr file, w1) \<Rightarrow> write_lines pf file (top_frame_lines order percent meta (pf_data pf report)) w1)"

definition create_parent :: "('w, 'g, 'r, 'f) profiler \<Rightarrow> string \<Rightarrow> 'w \<Rightarrow> (string + unit) \<times> 'w" where
  "create_parent pf path w =
     (case parent_dir path of None \<Rightarrow> (Inr (), w) | Some parent \<Rightarrow> pf_create_dir_all pf w parent)"

definition write_load_profile ::
  "('w, 'g, 'r, 'f) profiler \<Rightarrow> ((string \<times> int) list \<Rightarrow> (string \<times> int) list) \<Rightarrow> (int \<Rightarrow> int \<Rightarrow> string)
    \<Rightarrow> 'g \<Rightarrow> string \<Rightarrow> string \<Rightarrow> string \<Rightarrow> 'w \<Rightarrow> (string + unit) \<times> 'w" where
  "write_load_profile pf order percent g svg_path txt_path meta w =
     (case pf_report pf w g of
        (Inl e, w1) \<Rightarrow> (Inl (''pprof report build: '' @ e), w1)
      | (Inr report, w1) \<Rightarrow>
     (case create_parent pf svg_path w1 of
        (Inl e, w2) \<Rightarrow> (Inl e, w2)
      | (Inr u, w2) \<Rightarrow>
     (case pf_create pf w2 svg_path of
        (Inl e, w3) \<Rightarrow> (Inl e, w3)
      | (Inr file, w3) \<Rightarrow>
     (case pf_flamegraph pf w3 report file of
        (Inl e, w4) \<Rightarrow> (Inl (''flamegraph: '' @ e), w4)
      | (Inr u, w4) \<Rightarrow>
     (case create_parent pf txt_path w4 of
        (Inl e, w5) \<Rightarrow> (Inl e, w5)
      | (Inr u, w5) \<Rightarrow> write_text_top_frames pf order percent report txt_path meta w5)))))"

subsection \<open>Lemmas\<close>

lemma collect_struct_sizes_exact:
  "e \<in> set (collect_struct_sizes size_of) \<longleftrightarrow>
   (\<exists>(package, name) \<in> set measured_types. e = size_entry package name (size_of name) \<and> THRESHOLD_BYTES \<le> size_of name)"
  by (auto simp: collect_struct_sizes_def size_entry_def)

lemma collect_struct_sizes_descending:
  "sorted_wrt (\<lambda>a b. ss_bytes b \<le> ss_bytes a) (collect_struct_sizes size_of)"
proof -
  have "sorted (map size_order (collect_struct_sizes size_of))"
    by (simp add: collect_struct_sizes_def)
  then have "sorted_wrt (\<lambda>a b. size_order a \<le> size_order b) (collect_struct_sizes size_of)"
    by (simp add: sorted_map)
  then show ?thesis
    by (rule sorted_wrt_mono_rel [rotated]) (auto simp: size_order_def)
qed

text \<open>A guard that does not sample leaves no trace, and sampling is off unless asked for.\<close>

lemma pprof_off:
  assumes "\<not> pprof_enabled (pf_env pf)" and "pprof_guard_new pf name w = (g, w1)"
  shows "pprof_guard_drop pf g w1 = w"
  using assms by (auto simp: pprof_guard_new_def pprof_guard_drop_def Let_def)

lemma stop_releases_guard: "stop_profiling pf dir cp w = (cp', w') \<Longrightarrow> cp_guard cp' = None"
  by (auto simp: stop_profiling_def split: option.splits)

text \<open>
  The credit of a name: a stack counts once, however often the name occurs in it, so no function has
  more than the samples there are.
\<close>

definition in_stack :: "string \<Rightarrow> string list list \<Rightarrow> bool" where
  "in_stack name frames \<longleftrightarrow> Some name \<in> frame_name ` set frames"

lemma credit_frames_counts:
  "unwrap_or (map_of (credit_frames cnt frames seen m) name) 0
   = (if in_stack name frames \<and> name \<notin> set seen then wrap_i64 (unwrap_or (map_of m name) 0 + cnt)
      else unwrap_or (map_of m name) 0)"
proof (induction cnt frames seen m rule: credit_frames.induct)
  case (1 cnt seen m)
  show ?case by (simp add: in_stack_def)
next
  case (2 cnt syms frames seen m)
  show ?case
  proof (cases "frame_name syms")
    case None
    with 2 show ?thesis by (simp add: in_stack_def)
  next
    case (Some n)
    show ?thesis
    proof (cases "n \<in> set seen")
      case True
      with 2 Some show ?thesis by (auto simp: in_stack_def)
    next
      case False
      with 2(3) [OF Some False] Some show ?thesis
        by (auto simp: in_stack_def add_count_def update_conv' unwrap_or_def)
    qed
  qed
qed

lemma count_frames_fold:
  assumes "\<forall>(frames, c) \<in> set data. 0 \<le> c" and "0 \<le> t" and "t + sum_list (map snd data) < 2 ^ 63"
    and "0 \<le> unwrap_or (map_of m name) 0" and "unwrap_or (map_of m name) 0 \<le> t"
  shows "unwrap_or (map_of (fst (foldl credit_stack (m, t) data)) name) 0
      = unwrap_or (map_of m name) 0 + sum_list (map snd (filter (\<lambda>(frames, c). in_stack name frames) data))
    \<and> snd (foldl credit_stack (m, t) data) = t + sum_list (map snd data)"
  using assms
proof (induction data arbitrary: m t)
  case Nil
  then show ?case by simp
next
  case (Cons x data)
  obtain frames c where x: "x = (frames, c)" by (cases x)
  have c: "0 \<le> c" and rest: "\<forall>(frames, c) \<in> set data. 0 \<le> c" using Cons.prems(1) x by auto
  have nonneg: "0 \<le> sum_list (map snd data)" using rest by (intro sum_list_nonneg) auto
  let ?v = "unwrap_or (map_of m name) 0"
  let ?m = "credit_frames c frames [] m"
  have small: "t + c < 2 ^ 63" using Cons.prems(3) x nonneg by simp
  have wrap: "wrap_i64 n = n" if "0 \<le> n" "n < 2 ^ 63" for n
    using that by (intro wrap_i64_id) (simp add: in_i64_def I64_MIN_def I64_MAX_def)
  have v: "unwrap_or (map_of ?m name) 0 = ?v + (if in_stack name frames then c else 0)"
    using Cons.prems(4,5) c small wrap [of "?v + c"] by (simp add: credit_frames_counts)
  have tt: "wrap_i64 (t + c) = t + c" using wrap [of "t + c"] Cons.prems(2) c small by simp
  have fold: "foldl credit_stack (m, t) (x # data) = foldl credit_stack (?m, t + c) data"
    by (simp add: credit_stack_def x tt)
  have "unwrap_or (map_of (fst (foldl credit_stack (?m, t + c) data)) name) 0
      = unwrap_or (map_of ?m name) 0 + sum_list (map snd (filter (\<lambda>(frames, c). in_stack name frames) data))
    \<and> snd (foldl credit_stack (?m, t + c) data) = t + c + sum_list (map snd data)"
    using Cons.prems c by (intro Cons.IH rest) (auto simp: v x)
  then show ?case unfolding fold v by (simp add: x)
qed

lemma credit_within_total:
  assumes "\<forall>(frames, c) \<in> set data. 0 \<le> c" and "sum_list (map snd data) < 2 ^ 63"
    and "count_frames data = (by_fn, samples)" and "map_of by_fn name = Some c"
  shows "c = sum_list (map snd (filter (\<lambda>(frames, c). in_stack name frames) data))"
    and "samples = sum_list (map snd data)" and "c \<le> samples"
proof -
  have *: "c = sum_list (map snd (filter (\<lambda>(frames, c). in_stack name frames) data)) \<and> samples = sum_list (map snd data)"
    using count_frames_fold [OF assms(1), of 0 "[]" name] assms(2-4) by (simp add: count_frames_def unwrap_or_def)
  then show "c = sum_list (map snd (filter (\<lambda>(frames, c). in_stack name frames) data))"
    and "samples = sum_list (map snd data)" by simp_all
  have "sum_list (map snd (filter P data)) \<le> sum_list (map snd data)" for P :: "string list list \<times> int \<Rightarrow> bool"
    using assms(1) by (induction data) auto
  with * show "c \<le> samples" by simp
qed

end
