(* ===== verification/Plan_Correct.thy ===== *)
theory Plan_Correct
  imports Plan Layout_Correct
begin

section \<open>Correctness of the planner\<close>

text \<open>
  What the plan of \<open>compute_diff\<close> promises: the decision of every object, the agreement of
  rows, blockers and counters, and that tables are reprocessed only through transition scripts.
  The sample workspace at the end holds a changed table without transition scripts and a new view.
\<close>

subsection \<open>Scenarios\<close>

lemma blocked_delta_cases: "blocked_delta sc = 0 \<or> blocked_delta sc = 1"
  by (cases sc) simp_all

lemma blocked_is_changed: "blocked_delta sc = 1 \<Longrightarrow> counter_kind sc = CkChanged"
  by (cases sc) simp_all

lemma blocked_iff_action:
  "blocked_delta sc = 1 \<longleftrightarrow> action sc \<in> {ReprocessChangedBlocked, Fail}"
  by (cases sc) simp_all

lemmas resolve_defs = resolve_plan_scenario_def resolve_changed_scenario_def changed_default_scenario_def

lemma trigger_is_module: "is_module_kind_code KIND_TRIGGERS"
  by (simp add: is_module_kind_code_def)

lemma tables_not_module: "\<not> is_module_kind_code KIND_TABLES"
  by (simp add: is_module_kind_code_def kind_defs)

lemma tables_not_triggers: "KIND_TABLES \<noteq> KIND_TRIGGERS"
  by (simp add: kind_defs)

lemma resolve_action_cases:
  fixes inp :: scenario_input
  defines "a \<equiv> action (resolve_plan_scenario inp)"
    and "audited \<equiv> si_exists inp \<and> si_prior inp \<noteq> None \<and> si_prior inp \<noteq> Some zero_digest"
    and "modified \<equiv> si_live_definition_drift inp \<or> si_prior inp \<noteq> Some (si_checksum inp)"
  shows "a = CreateObject \<longleftrightarrow> \<not> si_exists inp"
    and "a = AdoptExisting \<longleftrightarrow> si_exists inp \<and> (si_prior inp = None \<or> si_prior inp = Some zero_digest)"
    and "a = SkipUnchanged \<longleftrightarrow> audited \<and> \<not> modified"
    and "a = ReprocessChanged \<longleftrightarrow> audited \<and> \<not> si_live_definition_drift inp
           \<and> si_prior inp \<noteq> Some (si_checksum inp)
           \<and> si_kind_code inp = KIND_TABLES \<and> si_has_transition_paths inp"
    and "a = UpdateExistingModule \<Longrightarrow> audited \<and> modified \<and> is_module_kind_code (si_kind_code inp)"
    and "a = Fail \<longleftrightarrow> audited \<and> modified \<and> \<not> is_module_kind_code (si_kind_code inp)
           \<and> (si_live_definition_drift inp \<or> si_kind_code inp \<noteq> KIND_TABLES)"
  unfolding a_def audited_def modified_def
  using tables_not_module trigger_is_module tables_not_triggers
  by (auto simp: resolve_defs Let_def split: option.splits if_splits)

lemma length_resize: "length (resize n d xs) = n"
  by (simp add: resize_def)

lemma apply_scenario_Some:
  assumes "apply_scenario sc ws r bs = Some (a, bs')"
  shows "a = action sc" and "\<exists>msgs. bs' = bs @ msgs \<and> length msgs = blocked_delta sc"
  using assms by (cases sc; auto simp: apply_scenario_def Let_def split: Option.bind_splits)+


text \<open>What the diff decides for row \<open>i\<close>.\<close>

definition decided :: "(string \<Rightarrow> nat) \<Rightarrow> workspace \<Rightarrow> checksum_map \<Rightarrow> nat \<Rightarrow> PlanScenario" where
  "decided fp ws checksums i =
     the (scenario_at fp ws checksums (row_kind_code (ws_object_rows ws ! i)) i)"

definition row_decided ::
  "(string \<Rightarrow> nat) \<Rightarrow> workspace \<Rightarrow> checksum_map \<Rightarrow> migration_plan \<Rightarrow> nat \<Rightarrow> bool" where
  "row_decided fp ws checksums plan i \<longleftrightarrow>
     (let row = mp_rows plan ! i; obj = ws_object_entries ws ! i in
      planned_action row = action (decided fp ws checksums i)
      \<and> row_exists row = db_exists obj \<and> pr_checksum row = oe_checksum obj)"

definition transitions_decided ::
  "(string \<Rightarrow> nat) \<Rightarrow> workspace \<Rightarrow> checksum_map \<Rightarrow> migration_plan \<Rightarrow> nat \<Rightarrow> bool" where
  "transitions_decided fp ws checksums plan i \<longleftrightarrow>
     mp_plan_transitions plan i =
       (if action (decided fp ws checksums i) = ReprocessChanged
        then Option.bind (ws_transition_path_cache ws) (\<lambda>m. map_of m (row_id_at i)) else None)"

lemma scenario_exists:
  "scenario_at fp ws cs kc i = Some sc \<Longrightarrow> sc = ScCreate \<longleftrightarrow> \<not> db_exists (ws_object_entries ws ! i)"
  by (auto simp: scenario_at_def nth_opt_Some resolve_defs Let_def
      split: Option.bind_splits option.splits if_splits)

lemma empty_plan_row_reads [simp]:
  "planned_action empty_plan_row = SkipUnchanged" "\<not> row_exists empty_plan_row"
  by (simp_all add: empty_plan_row_def planned_action_def row_exists_def from_repr_def)

lemma diff_step_Some:
  assumes "diff_step fp ws cs i (c, plan) = Some (c', plan')" and "i < 2 ^ 32"
  defines "sc \<equiv> decided fp ws cs i"
  shows "i < length (ws_object_entries ws)" and "i < length (mp_rows plan)"
    and "c' = count_scenario sc c"
    and "mp_blocked plan' \<longleftrightarrow> mp_blocked plan \<or> blocked_delta sc = 1"
    and "length (mp_blockers plan') = length (mp_blockers plan) + blocked_delta sc"
    and "length (mp_rows plan') = length (mp_rows plan)"
    and "mp_schemas plan' = mp_schemas plan"
    and "\<forall>j. j \<noteq> i \<longrightarrow> mp_rows plan' ! j = mp_rows plan ! j \<and> mp_plan_transitions plan' j = mp_plan_transitions plan j"
    and "row_decided fp ws cs plan' i"
    and "mp_rows plan ! i = empty_plan_row \<Longrightarrow> transitions_decided fp ws cs plan' i"
proof -
  from assms(1) obtain d p1 row where
    row: "nth_opt (ws_object_rows ws) i = Some row"
    and dec: "decide_object_at fp ws i (row_kind_code row) cs c plan = Some (d, c', p1)"
    and fill: "fill_plan_row ws i d p1 = Some plan'"
    by (auto simp: diff_step_def split: Option.bind_splits)
  from row have row_i: "row = ws_object_rows ws ! i" by (simp add: nth_opt_Some)
  from dec obtain s where s: "scenario_at fp ws cs (row_kind_code row) i = Some s"
    by (auto simp: decide_object_at_def split: Option.bind_splits)
  then have sc: "s = sc" by (simp add: sc_def decided_def row_i)
  show i_obj: "i < length (ws_object_entries ws)"
    using s by (auto simp: scenario_at_def nth_opt_Some split: Option.bind_splits)
  show c': "c' = count_scenario sc c"
    using dec s sc by (auto simp: decide_object_at_def Let_def split: Option.bind_splits)
  from dec s sc obtain bs where
    app: "apply_scenario sc ws (row_id_at i) (mp_blockers plan) = Some (od_action d, bs)"
    and d: "od_with_git d = with_git sc" "od_exists d = db_exists (ws_object_entries ws ! i)"
    and p1: "p1 = (if blocked_delta sc > 0 then plan\<lparr>mp_blocked := True\<rparr> else plan)\<lparr>mp_blockers := bs\<rparr>"
    by (auto simp: decide_object_at_def Let_def nth_opt_Some split: Option.bind_splits if_splits)
  note msgs = apply_scenario_Some [OF app]
  from fill have len: "i < length (mp_rows p1)"
    by (auto simp: fill_plan_row_def nth_opt_Some split: Option.bind_splits)
  then show "i < length (mp_rows plan)" by (simp add: p1 split: if_splits)
  have frame: "mp_blocked plan' = mp_blocked p1" "mp_blockers plan' = mp_blockers p1"
    "length (mp_rows plan') = length (mp_rows p1)" "mp_schemas plan' = mp_schemas p1"
    "\<forall>j. j \<noteq> i \<longrightarrow> mp_rows plan' ! j = mp_rows p1 ! j \<and> mp_plan_transitions plan' j = mp_plan_transitions p1 j"
    using fill \<open>i < 2 ^ 32\<close>
    by (auto simp: fill_plan_row_def Let_def as_u32_def split: Option.bind_splits if_splits)
  show "mp_blocked plan' \<longleftrightarrow> mp_blocked plan \<or> blocked_delta sc = 1"
    using frame(1) blocked_delta_cases [of sc] by (auto simp: p1)
  show "length (mp_blockers plan') = length (mp_blockers plan) + blocked_delta sc"
    using frame(2) msgs(2) by (auto simp: p1)
  show "length (mp_rows plan') = length (mp_rows plan)" "mp_schemas plan' = mp_schemas plan"
    "\<forall>j. j \<noteq> i \<longrightarrow> mp_rows plan' ! j = mp_rows plan ! j \<and> mp_plan_transitions plan' j = mp_plan_transitions plan j"
    using frame by (auto simp: p1)
  show "row_decided fp ws cs plan' i"
    using fill len d msgs(1)
    by (auto simp: fill_plan_row_def Let_def nth_opt_Some row_decided_def skip_fill_unchanged_def
        sc_def split: Option.bind_splits if_splits)
  show "transitions_decided fp ws cs plan' i" if fresh: "mp_rows plan ! i = empty_plan_row"
  proof -
    have "\<not> skip_fill_unchanged (ws_object_entries ws ! i) (mp_rows p1 ! i) d"
      using fresh scenario_exists [OF s] d(2) msgs(1) sc
      by (cases "sc") (auto simp: p1 skip_fill_unchanged_def)
    then show ?thesis
      using fill msgs(1) \<open>i < 2 ^ 32\<close>
      by (auto simp: fill_plan_row_def Let_def nth_opt_Some transitions_decided_def sc_def as_u32_def
          split: Option.bind_splits if_splits)
  qed
qed


lemma diff_loop_Some:
  assumes "diff_loop fp ws cs is (c, plan) = Some (c', plan')"
    and "distinct is" and "\<forall>i \<in> set is. i < 2 ^ 32"
  shows "c' = foldl (\<lambda>c i. count_scenario (decided fp ws cs i) c) c is
    \<and> (mp_blocked plan' \<longleftrightarrow> mp_blocked plan \<or> (\<exists>i \<in> set is. blocked_delta (decided fp ws cs i) = 1))
    \<and> length (mp_blockers plan') = length (mp_blockers plan) + sum_list (map (\<lambda>i. blocked_delta (decided fp ws cs i)) is)
    \<and> length (mp_rows plan') = length (mp_rows plan) \<and> mp_schemas plan' = mp_schemas plan
    \<and> (\<forall>j. j \<notin> set is \<longrightarrow> mp_rows plan' ! j = mp_rows plan ! j \<and> mp_plan_transitions plan' j = mp_plan_transitions plan j)
    \<and> (\<forall>i \<in> set is. row_decided fp ws cs plan' i)
    \<and> (\<forall>i \<in> set is. mp_rows plan ! i = empty_plan_row \<longrightarrow> transitions_decided fp ws cs plan' i)"
  using assms
proof (induction "is" arbitrary: c plan)
  case Nil
  then show ?case by simp
next
  case (Cons i "is")
  from Cons.prems obtain c1 p1 where
    step: "diff_step fp ws cs i (c, plan) = Some (c1, p1)"
    and rest: "diff_loop fp ws cs is (c1, p1) = Some (c', plan')"
    by (auto split: Option.bind_splits)
  note st = diff_step_Some [OF step]
  from Cons.prems have i: "i < 2 ^ 32" "i \<notin> set is" by auto
  note IH = Cons.IH [OF rest]
  have row: "row_decided fp ws cs plan' i"
    using st(9) [OF i(1)] IH i(2) Cons.prems by (auto simp: row_decided_def)
  have trs: "mp_rows plan ! i = empty_plan_row \<longrightarrow> transitions_decided fp ws cs plan' i"
    using st(10) [OF i(1)] IH i(2) Cons.prems by (auto simp: transitions_decided_def)
  have old: "mp_rows p1 ! j = mp_rows plan ! j" if "j \<in> set is" for j
    using st(8) [OF i(1)] i(2) that by auto
  show ?case
    using st(3-8) [OF i(1)] IH row trs old Cons.prems by auto
qed

lemma count_scenario_total:
  "dc_create (count_scenario sc c) + dc_adopt (count_scenario sc c) + dc_skip (count_scenario sc c)
     + dc_changed (count_scenario sc c) = dc_create c + dc_adopt c + dc_skip c + dc_changed c + 1"
  "dc_blocked (count_scenario sc c) = dc_blocked c + blocked_delta sc"
  "dc_blocked c \<le> dc_changed c \<Longrightarrow> dc_blocked (count_scenario sc c) \<le> dc_changed (count_scenario sc c)"
  by (cases sc; simp add: count_scenario_def)+

lemma count_scenario_foldl:
  fixes c :: diff_counters and "is" :: "nat list" and f :: "nat \<Rightarrow> PlanScenario"
  defines "r \<equiv> foldl (\<lambda>c i. count_scenario (f i) c) c is"
  shows "dc_create r + dc_adopt r + dc_skip r + dc_changed r
      = dc_create c + dc_adopt c + dc_skip c + dc_changed c + length is"
    and "dc_blocked r = dc_blocked c + sum_list (map (\<lambda>i. blocked_delta (f i)) is)"
    and "dc_blocked c \<le> dc_changed c \<Longrightarrow> dc_blocked r \<le> dc_changed r"
  unfolding r_def
proof (induction "is" arbitrary: c)
  case (Cons i "is")
  { case 1 show ?case using Cons(1) [of "count_scenario (f i) c"] count_scenario_total(1) [of "f i" c] by simp }
  { case 2 show ?case using Cons(2) [of "count_scenario (f i) c"] count_scenario_total(2) [of "f i" c] by simp }
  { case 3 then show ?case using Cons(3) [of "count_scenario (f i) c"] count_scenario_total(3) [of c "f i"] by simp }
qed simp_all

lemma entry_key_frame:
  "entry_key (ws\<lparr>ws_object_entries := es\<rparr>) = entry_key ws"
  "entry_key (ws\<lparr>ws_catalog_row := cr\<rparr>) = entry_key ws"
  "entry_key (ws\<lparr>ws_parent_by_row := pr\<rparr>) = entry_key ws"
  "entry_key (ws\<lparr>ws_catalog_flags := fl\<rparr>) = entry_key ws"
  "entry_key (ws\<lparr>ws_prior_by_row := ps\<rparr>) = entry_key ws"
  "entry_key (ws\<lparr>ws_transition_path_cache := a\<rparr>) = entry_key ws"
  "entry_key (ws\<lparr>ws_has_transition_paths_row := b\<rparr>) = entry_key ws"
  "entry_key (ws\<lparr>ws_object_path_cache := c\<rparr>) = entry_key ws"
  by (rule ext, simp add: entry_key_def)+

lemma apply_catalog_row_Some:
  assumes "apply_catalog_row fp cat cfp i ws = Some ws'"
  shows "i < object_count ws \<and> entry_key ws i \<noteq> None
    \<and> (\<exists>pr. ws' = ws\<lparr>ws_object_entries := (ws_object_entries ws)
          [i := set_db_exists (fp (the (entry_key ws i)) \<in> set cfp) (ws_object_entries ws ! i)],
        ws_catalog_row := (if fp (the (entry_key ws i)) \<in> set cfp then (ws_catalog_row ws)[i := 1] else ws_catalog_row ws),
        ws_parent_by_row := pr\<rparr>)"
proof -
  from assms obtain key obj where key: "entry_key ws i = Some key"
    and obj: "nth_opt (ws_object_entries ws) i = Some obj"
    by (auto simp: apply_catalog_row_def split: Option.bind_splits)
  from obj have i: "i < length (ws_object_entries ws)" "obj = ws_object_entries ws ! i"
    by (auto simp: nth_opt_Some)
  define pr where "pr = (case Option.bind (map_of (cat_objects cat) key) co_parent of
      None \<Rightarrow> ws_parent_by_row ws
    | Some parent \<Rightarrow> AList.update (row_id_at i)
        (key_index ws (object_key_new (schema_part key) ''tables'' parent)) (ws_parent_by_row ws))"
  have "apply_catalog_row fp cat cfp i ws = Some (ws\<lparr>ws_object_entries := (ws_object_entries ws)
        [i := set_db_exists (fp key \<in> set cfp) obj],
      ws_catalog_row := (if fp key \<in> set cfp then (ws_catalog_row ws)[i := 1] else ws_catalog_row ws),
      ws_parent_by_row := pr\<rparr>)"
    unfolding pr_def apply_catalog_row_def key obj
    by (cases "fp key \<in> set cfp"; cases "Option.bind (map_of (cat_objects cat) key) co_parent")
      (simp_all add: Let_def key_index_def)
  with assms have "ws' = ws\<lparr>ws_object_entries := (ws_object_entries ws)
        [i := set_db_exists (fp (the (entry_key ws i)) \<in> set cfp) (ws_object_entries ws ! i)],
      ws_catalog_row := (if fp (the (entry_key ws i)) \<in> set cfp then (ws_catalog_row ws)[i := 1] else ws_catalog_row ws),
      ws_parent_by_row := pr\<rparr>"
    using key i by simp
  with key i show ?thesis
    unfolding object_count_def by blast
qed

lemma apply_catalog_loop_Some:
  assumes "apply_catalog_loop fp cat cfp is ws = Some ws'" and "distinct is"
  shows "\<exists>es cr pr. ws' = ws\<lparr>ws_object_entries := es, ws_catalog_row := cr, ws_parent_by_row := pr\<rparr>
    \<and> length es = object_count ws
    \<and> (\<forall>j. es ! j = (if j \<in> set is
         then set_db_exists (fp (the (entry_key ws j)) \<in> set cfp) (ws_object_entries ws ! j)
         else ws_object_entries ws ! j))"
  using assms
proof (induction "is" arbitrary: ws)
  case Nil
  then have "ws' = ws\<lparr>ws_object_entries := ws_object_entries ws, ws_catalog_row := ws_catalog_row ws,
      ws_parent_by_row := ws_parent_by_row ws\<rparr>"
    by simp
  then show ?case
    unfolding object_count_def by fastforce
next
  case (Cons i "is")
  from Cons.prems(1) obtain w where row: "apply_catalog_row fp cat cfp i ws = Some w"
    and rest: "apply_catalog_loop fp cat cfp is w = Some ws'"
    by (auto split: Option.bind_splits)
  from apply_catalog_row_Some [OF row] obtain cr pr where i: "i < object_count ws" and
    w: "w = ws\<lparr>ws_object_entries := (ws_object_entries ws)
          [i := set_db_exists (fp (the (entry_key ws i)) \<in> set cfp) (ws_object_entries ws ! i)],
        ws_catalog_row := cr, ws_parent_by_row := pr\<rparr>"
    by auto
  from Cons.IH [OF rest] Cons.prems(2) obtain es cr' pr' where
    "ws' = w\<lparr>ws_object_entries := es, ws_catalog_row := cr', ws_parent_by_row := pr'\<rparr>"
    "length es = object_count w"
    "\<forall>j. es ! j = (if j \<in> set is
         then set_db_exists (fp (the (entry_key w j)) \<in> set cfp) (ws_object_entries w ! j)
         else ws_object_entries w ! j)"
    by auto
  with i Cons.prems(2) show ?case
    by (auto simp: w entry_key_frame object_count_def nth_list_update
        intro!: exI [of _ es] exI [of _ cr'] exI [of _ pr'])
qed


lemma prepare_diff_ready:
  assumes ready: "layout_ready ws" and prep: "prepare_diff fp ws cat cs = Some ws'"
  shows "ws_object_rows ws' = ws_object_rows ws" and "ws_object_keys ws' = ws_object_keys ws"
    and "ws_schemas ws' = ws_schemas ws" and "object_count ws' = object_count ws"
    and "\<And>i. i < object_count ws \<Longrightarrow> ws_object_entries ws' ! i =
      set_db_exists (fp (ws_object_keys ws ! i) \<in> fp ` fst ` set (cat_objects cat)) (ws_object_entries ws ! i)"
    and "ws_prior_by_row ws' = map (get_key fp cs) (ws_object_keys ws)"
proof -
  let ?n = "object_count ws"
  from ready have flags: "\<not> catalog_applied ws" "\<not> checksums_applied ws" "ws_prior_by_row ws = []"
    and len: "length (ws_object_rows ws) = ?n" "length (ws_object_keys ws) = ?n"
    by (auto simp: layout_ready_def)
  from prep len obtain w2 w3 where
    cat: "apply_catalog_if_needed fp cat ws = Some w2"
    and chk: "apply_checksums_if_needed fp cs w2 = Some w3" and ens: "ensure_path_caches w3 = Some ws'"
    by (auto simp: prepare_diff_def object_count_def split: Option.bind_splits if_splits)
  from cat flags obtain w1 where w1: "apply_catalog fp cat ws = Some w1" "w2 = mark_catalog_applied w1"
    by (auto simp: apply_catalog_if_needed_def)
  from apply_catalog_loop_Some [OF w1(1) [unfolded apply_catalog_def Let_def]]
  obtain es cr pr where es: "w1 = ws\<lparr>ws_object_entries := es, ws_catalog_row := cr, ws_parent_by_row := pr\<rparr>"
    "length es = ?n" "\<And>j. j < ?n \<Longrightarrow> es ! j =
       set_db_exists (fp (the (entry_key ws j)) \<in> set (map (\<lambda>(k, ob). fp k) (cat_objects cat))) (ws_object_entries ws ! j)"
    by (auto simp: entry_key_frame object_count_def)
  have keys2: "entry_keys w2 = Some (ws_object_keys ws)"
    using len es(2) entry_keys_ready [of w2] by (simp add: w1(2) es(1) mark_catalog_applied_def object_count_def)
  have "\<not> checksums_applied w2"
    using flags(2) unfolding w1(2) checksums_after_catalog by (simp add: es(1) checksums_applied_def)
  moreover have "map2 (\<lambda>p k. case get_key fp cs k of Some c \<Rightarrow> Some c | None \<Rightarrow> p) (replicate ?n None) (ws_object_keys ws)
      = map (get_key fp cs) (ws_object_keys ws)"
    using len by (intro nth_equalityI) (auto split: option.splits)
  moreover have "resize (object_count w2) None (ws_prior_by_row w2) = replicate ?n None"
    using es(2) by (simp add: w1(2) es(1) mark_catalog_applied_def resize_def object_count_def flags)
  ultimately have w3: "w3 = mark_checksums_applied (w2\<lparr>ws_prior_by_row := map (get_key fp cs) (ws_object_keys ws)\<rparr>)"
    using chk keys2 by (simp add: apply_checksums_if_needed_def Let_def)
  from ensure_path_caches_Some [OF ens] obtain a b c where
    ws': "ws' = w3\<lparr>ws_transition_path_cache := a, ws_has_transition_paths_row := b, ws_object_path_cache := c\<rparr>" by auto
  note all = ws' w3 w1(2) es(1) mark_catalog_applied_def mark_checksums_applied_def object_count_def
  show "ws_object_rows ws' = ws_object_rows ws" "ws_object_keys ws' = ws_object_keys ws"
    "ws_schemas ws' = ws_schemas ws" "ws_prior_by_row ws' = map (get_key fp cs) (ws_object_keys ws)"
    by (simp_all add: all)
  show "object_count ws' = object_count ws"
    using es(2) by (simp add: all)
  show "ws_object_entries ws' ! i =
      set_db_exists (fp (ws_object_keys ws ! i) \<in> fp ` fst ` set (cat_objects cat)) (ws_object_entries ws ! i)"
    if "i < object_count ws" for i
  proof -
    have "(\<lambda>(k, ob). fp k) = fp \<circ> (fst :: string \<times> catalog_object \<Rightarrow> _)" by auto
    with es(3) [OF that] len that show ?thesis
      by (simp add: all entry_key_ready image_comp)
  qed
qed


lemma compute_diff_parts:
  assumes "compute_diff fp ws0 cat cs = Some (ws, plan)" and "object_count ws \<le> 2 ^ 32"
  defines "n \<equiv> object_count ws"
  shows "prepare_diff fp ws0 cat cs = Some ws" and "length (mp_rows plan) = n"
    and "mp_schemas plan = map (plan_schema cat) (ws_schemas ws)"
    and "\<And>i. i < n \<Longrightarrow> row_decided fp ws cs plan i \<and> transitions_decided fp ws cs plan i"
    and "mp_blocked plan \<longleftrightarrow> (\<exists>i < n. blocked_delta (decided fp ws cs i) = 1)"
    and "length (mp_blockers plan) = sum_list (map (\<lambda>i. blocked_delta (decided fp ws cs i)) [0..<n])"
    and "mp_summary plan = (let c = foldl (\<lambda>c i. count_scenario (decided fp ws cs i) c) diff_counters_default [0..<n] in
      \<lparr>sum_schema_count = length (ws_schemas ws), sum_object_count = n,
       sum_create_count = dc_create c, sum_adopt_count = dc_adopt c, sum_skip_count = dc_skip c,
       sum_changed_count = dc_changed c, sum_blocked_count = dc_blocked c\<rparr>)"
proof -
  let ?p1 = "(ensure_plan_rows n (migration_plan_default\<lparr>mp_blocked := False, mp_blockers := []\<rparr>))
    \<lparr>mp_schemas := map (plan_schema cat) (ws_schemas ws)\<rparr>"
  from assms(1) show prep: "prepare_diff fp ws0 cat cs = Some ws"
    by (auto simp: compute_diff_def compute_diff_into_def Let_def split: Option.bind_splits)
  from assms(1) prep obtain c plan2 where
    loop: "diff_loop fp ws cs [0..<n] (diff_counters_default, ?p1) = Some (c, plan2)"
    and plan: "plan = plan2\<lparr>mp_summary :=
       \<lparr>sum_schema_count = length (ws_schemas ws), sum_object_count = n,
        sum_create_count = dc_create c, sum_adopt_count = dc_adopt c, sum_skip_count = dc_skip c,
        sum_changed_count = dc_changed c, sum_blocked_count = dc_blocked c\<rparr>\<rparr>"
    by (auto simp: compute_diff_def compute_diff_into_def Let_def n_def split: Option.bind_splits)
  have small: "\<forall>i \<in> set [0..<n]. i < 2 ^ 32"
    using assms(2) by (simp add: n_def)
  note D = diff_loop_Some [OF loop distinct_upt small]
  have fresh: "mp_rows ?p1 = replicate n empty_plan_row" "\<not> mp_blocked ?p1" "mp_blockers ?p1 = []"
    by (simp_all add: ensure_plan_rows_def migration_plan_default_def resize_def)
  show "length (mp_rows plan) = n" "mp_schemas plan = map (plan_schema cat) (ws_schemas ws)"
    using D fresh by (simp_all add: plan)
  show "row_decided fp ws cs plan i \<and> transitions_decided fp ws cs plan i" if "i < n" for i
    using D fresh that by (simp add: plan row_decided_def transitions_decided_def)
  show "mp_blocked plan \<longleftrightarrow> (\<exists>i < n. blocked_delta (decided fp ws cs i) = 1)"
    using D fresh by (auto simp: plan)
  show "length (mp_blockers plan) = sum_list (map (\<lambda>i. blocked_delta (decided fp ws cs i)) [0..<n])"
    using D fresh by (simp add: plan)
  show "mp_summary plan = (let c = foldl (\<lambda>c i. count_scenario (decided fp ws cs i) c) diff_counters_default [0..<n] in
      \<lparr>sum_schema_count = length (ws_schemas ws), sum_object_count = n,
       sum_create_count = dc_create c, sum_adopt_count = dc_adopt c, sum_skip_count = dc_skip c,
       sum_changed_count = dc_changed c, sum_blocked_count = dc_blocked c\<rparr>)"
    using D by (simp add: plan Let_def)
qed

definition audited :: "scenario_input \<Rightarrow> bool" where
  "audited inp \<longleftrightarrow> si_exists inp \<and> si_prior inp \<noteq> None \<and> si_prior inp \<noteq> Some zero_digest"

text \<open>The parent table of a trigger is unknown to the catalog, or known and audited.\<close>

definition trigger_parent_ready :: "scenario_input \<Rightarrow> bool" where
  "trigger_parent_ready inp \<longleftrightarrow>
     (case map_of (ws_parent_by_row (si_ws inp)) (si_child_row_id inp) of
        None \<Rightarrow> True
      | Some p \<Rightarrow> p \<noteq> 0 \<and> catalog_has_row (si_ws inp) (p - 1) \<and> prior_digest_present (si_prior_digests inp) (p - 1))"


lemma counter_kind_action:
  "counter_kind sc = CkCreate \<longleftrightarrow> action sc = CreateObject"
  "counter_kind sc = CkAdopt \<longleftrightarrow> action sc = AdoptExisting"
  "counter_kind sc = CkSkip \<longleftrightarrow> action sc = SkipUnchanged"
  by (cases sc; simp)+

lemma count_scenario_each:
  "dc_create (count_scenario sc c) = dc_create c + (if action sc = CreateObject then 1 else 0)"
  "dc_adopt (count_scenario sc c) = dc_adopt c + (if action sc = AdoptExisting then 1 else 0)"
  "dc_skip (count_scenario sc c) = dc_skip c + (if action sc = SkipUnchanged then 1 else 0)"
  "dc_blocked (count_scenario sc c) = dc_blocked c + (if action sc \<in> {ReprocessChangedBlocked, Fail} then 1 else 0)"
  by (cases sc; simp add: count_scenario_def)+

lemma count_scenario_filters:
  fixes f :: "nat \<Rightarrow> PlanScenario" and "is" :: "nat list"
  shows "dc_create (foldl (\<lambda>c i. count_scenario (f i) c) c is) = dc_create c + length (filter (\<lambda>i. action (f i) = CreateObject) is)"
    and "dc_adopt (foldl (\<lambda>c i. count_scenario (f i) c) c is) = dc_adopt c + length (filter (\<lambda>i. action (f i) = AdoptExisting) is)"
    and "dc_skip (foldl (\<lambda>c i. count_scenario (f i) c) c is) = dc_skip c + length (filter (\<lambda>i. action (f i) = SkipUnchanged) is)"
    and "dc_blocked (foldl (\<lambda>c i. count_scenario (f i) c) c is) = dc_blocked c + length (filter (\<lambda>i. action (f i) \<in> {ReprocessChangedBlocked, Fail}) is)"
  by (induction "is" arbitrary: c) (simp_all add: count_scenario_each)

text \<open>The number of rows planned with an action of \<open>A\<close>.\<close>

definition rows_with :: "Action set \<Rightarrow> migration_plan \<Rightarrow> nat" where
  "rows_with A plan = length (filter (\<lambda>r. planned_action r \<in> A) (mp_rows plan))"

lemma rows_with_decided:
  assumes "length (mp_rows plan) = n" and "\<And>i. i < n \<Longrightarrow> row_decided fp ws cs plan i"
  shows "rows_with A plan = length (filter (\<lambda>i. action (decided fp ws cs i) \<in> A) [0..<n])"
proof -
  have "mp_rows plan = map (\<lambda>i. mp_rows plan ! i) [0..<n]"
    using assms(1) by (intro nth_equalityI) simp_all
  then have "rows_with A plan = length (filter (\<lambda>i. planned_action (mp_rows plan ! i) \<in> A) [0..<n])"
    unfolding rows_with_def by (metis (no_types, lifting) comp_apply filter_cong filter_map length_map)
  also have "\<dots> = length (filter (\<lambda>i. action (decided fp ws cs i) \<in> A) [0..<n])"
    using assms(2) by (intro arg_cong [where f = length] filter_cong) (auto simp: row_decided_def Let_def)
  finally show ?thesis .
qed

lemma summary_rows:
  assumes "compute_diff fp ws0 cat cs = Some (ws, plan)" and "object_count ws \<le> 2 ^ 32"
  shows "sum_object_count (mp_summary plan) = length (mp_rows plan)"
    and "sum_create_count (mp_summary plan) = rows_with {CreateObject} plan"
    and "sum_adopt_count (mp_summary plan) = rows_with {AdoptExisting} plan"
    and "sum_skip_count (mp_summary plan) = rows_with {SkipUnchanged} plan"
    and "sum_blocked_count (mp_summary plan) = rows_with {ReprocessChangedBlocked, Fail} plan"
    and "sum_create_count (mp_summary plan) + sum_adopt_count (mp_summary plan)
      + sum_skip_count (mp_summary plan) + sum_changed_count (mp_summary plan) = length (mp_rows plan)"
proof -
  note P = compute_diff_parts [OF assms]
  have rows: "rows_with A plan = length (filter (\<lambda>i. action (decided fp ws cs i) \<in> A) [0..<object_count ws])" for A
    using P(2,4) by (intro rows_with_decided) auto
  show "sum_object_count (mp_summary plan) = length (mp_rows plan)"
    "sum_create_count (mp_summary plan) = rows_with {CreateObject} plan"
    "sum_adopt_count (mp_summary plan) = rows_with {AdoptExisting} plan"
    "sum_skip_count (mp_summary plan) = rows_with {SkipUnchanged} plan"
    "sum_blocked_count (mp_summary plan) = rows_with {ReprocessChangedBlocked, Fail} plan"
    using P(2,7) by (simp_all add: rows Let_def count_scenario_filters diff_counters_default_def)
  show "sum_create_count (mp_summary plan) + sum_adopt_count (mp_summary plan)
      + sum_skip_count (mp_summary plan) + sum_changed_count (mp_summary plan) = length (mp_rows plan)"
    using P(2,7) count_scenario_foldl(1) [where c = diff_counters_default and f = "decided fp ws cs"]
    by (simp add: Let_def diff_counters_default_def)
qed

lemma blocked_blockers:
  assumes "compute_diff fp ws0 cat cs = Some (ws, plan)" and "object_count ws \<le> 2 ^ 32"
  shows "mp_blocked plan \<longleftrightarrow> mp_blockers plan \<noteq> []"
    and "mp_blocked plan \<longleftrightarrow> (\<exists>r \<in> set (mp_rows plan). planned_action r \<in> {ReprocessChangedBlocked, Fail})"
    and "length (mp_blockers plan) = sum_blocked_count (mp_summary plan)"
proof -
  note P = compute_diff_parts [OF assms]
  have len: "length (mp_blockers plan) = sum_blocked_count (mp_summary plan)"
    using P(6,7) count_scenario_foldl(2) [where c = diff_counters_default and f = "decided fp ws cs"]
    by (simp add: Let_def diff_counters_default_def)
  have rows: "sum_blocked_count (mp_summary plan) = rows_with {ReprocessChangedBlocked, Fail} plan"
    using summary_rows(5) [OF assms] .
  have blk: "mp_blocked plan \<longleftrightarrow> (\<exists>i \<in> set [0..<object_count ws]. action (decided fp ws cs i) \<in> {ReprocessChangedBlocked, Fail})"
    unfolding P(5) blocked_iff_action by auto
  have rw: "rows_with {ReprocessChangedBlocked, Fail} plan > 0 \<longleftrightarrow> mp_blocked plan"
  proof -
    have "rows_with {ReprocessChangedBlocked, Fail} plan
        = length (filter (\<lambda>i. action (decided fp ws cs i) \<in> {ReprocessChangedBlocked, Fail}) [0..<object_count ws])"
      using P(2,4) by (intro rows_with_decided) auto
    then show ?thesis unfolding blk filter_ne_Nil [symmetric] by (rule arg_cong)
  qed
  show "length (mp_blockers plan) = sum_blocked_count (mp_summary plan)" by (rule len)
  show "mp_blocked plan \<longleftrightarrow> mp_blockers plan \<noteq> []"
    using rw rows len by (metis length_greater_0_conv)
  show "mp_blocked plan \<longleftrightarrow> (\<exists>r \<in> set (mp_rows plan). planned_action r \<in> {ReprocessChangedBlocked, Fail})"
    using rw unfolding rows_with_def filter_ne_Nil by simp
qed


text \<open>
  C4: The summary of a computed plan counts its rows: one counter per action, the blocked counter
  for the two refusing actions, and the four buckets add up to the number of objects.
\<close>

theorem plan_summary_counts_rows:
  assumes "compute_diff fp ws0 cat cs = Some (ws, plan)" and "object_count ws \<le> 2 ^ 32"
  defines "s \<equiv> mp_summary plan"
  shows "sum_object_count s = length (mp_rows plan)
    \<and> sum_create_count s = rows_with {CreateObject} plan
    \<and> sum_adopt_count s = rows_with {AdoptExisting} plan
    \<and> sum_skip_count s = rows_with {SkipUnchanged} plan
    \<and> sum_blocked_count s = rows_with {ReprocessChangedBlocked, Fail} plan
    \<and> sum_create_count s + sum_adopt_count s + sum_skip_count s + sum_changed_count s = length (mp_rows plan)"
  using summary_rows [OF assms(1,2)] unfolding s_def by simp

text \<open>
  C3: A computed plan is marked blocked exactly when it has a blocker message, exactly when some row
  is planned as blocked or failed, and it has one message per blocked row.
\<close>

theorem plan_blocked_iff_blockers:
  assumes "compute_diff fp ws0 cat cs = Some (ws, plan)" and "object_count ws \<le> 2 ^ 32"
  shows "(mp_blocked plan \<longleftrightarrow> mp_blockers plan \<noteq> [])
    \<and> (mp_blocked plan \<longleftrightarrow> (\<exists>r \<in> set (mp_rows plan). planned_action r \<in> {ReprocessChangedBlocked, Fail}))
    \<and> length (mp_blockers plan) = sum_blocked_count (mp_summary plan)"
  using blocked_blockers [OF assms] by simp

subsubsection \<open>The plan reflects the catalog and the history\<close>

lemma decided_ready:
  assumes ready: "layout_ready ws0" and prep: "prepare_diff fp ws0 cat cs = Some ws"
    and i: "i < object_count ws0" and inj: "inj_on fp (set (ws_object_keys ws0) \<union> fst ` set (cat_objects cat))"
  defines "k \<equiv> ws_object_keys ws0 ! i"
  shows "db_exists (ws_object_entries ws ! i) \<longleftrightarrow> k \<in> fst ` set (cat_objects cat)"
    and "oe_checksum (ws_object_entries ws ! i) = oe_checksum (ws_object_entries ws0 ! i)"
    and "\<exists>inp. decided fp ws cs i = resolve_plan_scenario inp \<and> (si_exists inp \<longleftrightarrow> k \<in> fst ` set (cat_objects cat))
      \<and> si_prior inp = get_key fp cs k \<and> si_checksum inp = oe_checksum (ws_object_entries ws0 ! i)
      \<and> si_kind_code inp = kind_code (kind_part k)
      \<and> si_live_definition_drift inp = has_live_definition_drift fp cs k
      \<and> (si_has_transition_paths inp \<longleftrightarrow> kind_code (kind_part k) = KIND_TABLES \<and> row_has_transition_paths ws i)"
proof -
  note R = prepare_diff_ready [OF ready prep]
  from ready have len: "length (ws_object_keys ws0) = object_count ws0" and
    kc: "row_kind_code (ws_object_rows ws0 ! i) = kind_code (kind_part k)"
    using i by (auto simp: layout_ready_def k_def)
  have "k \<in> set (ws_object_keys ws0)" using i len by (simp add: k_def)
  with inj have mem: "fp k \<in> fp ` fst ` set (cat_objects cat) \<longleftrightarrow> k \<in> fst ` set (cat_objects cat)"
    by (subst inj_on_image_mem_iff [OF inj]) auto
  show ex: "db_exists (ws_object_entries ws ! i) \<longleftrightarrow> k \<in> fst ` set (cat_objects cat)"
    using R(5) [OF i] mem by (simp add: k_def)
  show cks: "oe_checksum (ws_object_entries ws ! i) = oe_checksum (ws_object_entries ws0 ! i)"
    using R(5) [OF i] by simp
  have "nth_opt (ws_object_entries ws) i = Some (ws_object_entries ws ! i)"
    "nth_opt (ws_prior_by_row ws) i = Some (get_key fp cs k)" "entry_key ws i = Some k"
    using R(2,4,6) i len by (simp_all add: nth_opt_def object_count_def k_def entry_key_def)
  note rd = this
  define inp where "inp = \<lparr>si_exists = (k \<in> fst ` set (cat_objects cat)), si_prior = get_key fp cs k,
    si_checksum = oe_checksum (ws_object_entries ws0 ! i), si_kind_code = kind_code (kind_part k), si_ws = ws,
    si_prior_digests = ws_prior_by_row ws, si_child_row_id = row_id_at i,
    si_has_transition_paths = (kind_code (kind_part k) = KIND_TABLES \<and> row_has_transition_paths ws i),
    si_live_definition_drift = has_live_definition_drift fp cs k\<rparr>"
  have "decided fp ws cs i = resolve_plan_scenario inp"
    using rd ex cks kc R(1) by (simp add: decided_def scenario_at_def inp_def)
  moreover have "si_exists inp \<longleftrightarrow> k \<in> fst ` set (cat_objects cat)" "si_prior inp = get_key fp cs k"
    "si_checksum inp = oe_checksum (ws_object_entries ws0 ! i)" "si_kind_code inp = kind_code (kind_part k)"
    "si_live_definition_drift inp = has_live_definition_drift fp cs k"
    "si_has_transition_paths inp \<longleftrightarrow> kind_code (kind_part k) = KIND_TABLES \<and> row_has_transition_paths ws i"
    by (simp_all add: inp_def)
  ultimately show "\<exists>inp. decided fp ws cs i = resolve_plan_scenario inp \<and> (si_exists inp \<longleftrightarrow> k \<in> fst ` set (cat_objects cat))
      \<and> si_prior inp = get_key fp cs k \<and> si_checksum inp = oe_checksum (ws_object_entries ws0 ! i)
      \<and> si_kind_code inp = kind_code (kind_part k)
      \<and> si_live_definition_drift inp = has_live_definition_drift fp cs k
      \<and> (si_has_transition_paths inp \<longleftrightarrow> kind_code (kind_part k) = KIND_TABLES \<and> row_has_transition_paths ws i)"
    by blast
qed

text \<open>
  C2: End to end, on a finalized layout with distinct key fingerprints, row \<open>i\<close> of the plan
  records the file's checksum and whether the catalog has the object, and its action follows from
  catalog membership, the recorded checksum and live drift.
\<close>

theorem plan_reflects_catalog_and_history:
  assumes "layout_ready ws0" and "compute_diff fp ws0 cat cs = Some (ws, plan)"
    and "inj_on fp (set (ws_object_keys ws0) \<union> fst ` set (cat_objects cat))"
    and "i < object_count ws0"
  defines "k \<equiv> ws_object_keys ws0 ! i" and "row \<equiv> mp_rows plan ! i"
    and "current \<equiv> oe_checksum (ws_object_entries ws0 ! i)"
    and "in_catalog \<equiv> ws_object_keys ws0 ! i \<in> fst ` set (cat_objects cat)"
  shows "pr_checksum row = current \<and> row_exists row = in_catalog
    \<and> (planned_action row = CreateObject \<longleftrightarrow> \<not> in_catalog)
    \<and> (planned_action row = AdoptExisting \<longleftrightarrow> in_catalog \<and> get_key fp cs k \<in> {None, Some zero_digest})
    \<and> (planned_action row = SkipUnchanged \<longleftrightarrow> in_catalog \<and> current \<noteq> zero_digest
         \<and> get_key fp cs k = Some current \<and> \<not> has_live_definition_drift fp cs k)
    \<and> (planned_action row = ReprocessChanged \<longrightarrow> kind_part k = ''tables'' \<and> row_has_transition_paths ws i)
    \<and> (planned_action row = UpdateExistingModule \<longrightarrow> is_module_kind_code (kind_code (kind_part k)))"
proof -
  from assms(2) have prep: "prepare_diff fp ws0 cat cs = Some ws"
    by (auto simp: compute_diff_def compute_diff_into_def Let_def split: Option.bind_splits)
  note R = prepare_diff_ready [OF assms(1) prep]
  from assms(1) R(4) have small: "object_count ws \<le> 2 ^ 32" by (simp add: layout_ready_def)
  from assms(4) R(4) have "i < object_count ws" by simp
  with compute_diff_parts(4) [OF assms(2) small] have row: "row_decided fp ws cs plan i" by blast
  note D = decided_ready [OF assms(1) prep assms(4,3)]
  from D(3) [folded in_catalog_def, folded k_def current_def] obtain inp where inp: "decided fp ws cs i = resolve_plan_scenario inp"
    "si_exists inp \<longleftrightarrow> in_catalog" "si_prior inp = get_key fp cs k" "si_checksum inp = current"
    "si_kind_code inp = kind_code (kind_part k)" "si_live_definition_drift inp = has_live_definition_drift fp cs k"
    "si_has_transition_paths inp \<longleftrightarrow> kind_code (kind_part k) = KIND_TABLES \<and> row_has_transition_paths ws i"
    by (elim exE conjE) (rule that)
  note tab = kind_code_tables [of "kind_part k"]
  have act: "planned_action row = action (resolve_plan_scenario inp)" "row_exists row = in_catalog" "pr_checksum row = current"
    using row D(1,2) by (simp_all add: row_decided_def Let_def row_def inp(1) in_catalog_def current_def)
  note C = resolve_action_cases [of inp, unfolded inp(2-6)]
  show ?thesis
    unfolding act
  proof (intro conjI impI)
    show "action (resolve_plan_scenario inp) = AdoptExisting \<longleftrightarrow> in_catalog \<and> get_key fp cs k \<in> {None, Some zero_digest}"
      using C(2) by simp
    show "action (resolve_plan_scenario inp) = SkipUnchanged \<longleftrightarrow> in_catalog \<and> current \<noteq> zero_digest
         \<and> get_key fp cs k = Some current \<and> \<not> has_live_definition_drift fp cs k"
      using C(3) by auto
  qed (use C(1,4,5) inp(7) tab in simp_all)
qed

subsection \<open>Transition scripts of reprocessed tables\<close>

lemma prepare_diff_flags_ok:
  assumes ready: "layout_ready ws" and prep: "prepare_diff fp ws cat cs = Some ws'" and ok: "path_flags_ok ws"
  shows "path_flags_ok ws'"
proof -
  from ready have len: "length (ws_object_rows ws) = object_count ws"
    and flags: "\<not> catalog_applied ws" and small: "object_count ws < 2 ^ 32"
    by (auto simp: layout_ready_def)
  from prep len obtain w2 w3 where
    cat: "apply_catalog_if_needed fp cat ws = Some w2"
    and chk: "apply_checksums_if_needed fp cs w2 = Some w3" and ens: "ensure_path_caches w3 = Some ws'"
    by (auto simp: prepare_diff_def object_count_def split: Option.bind_splits if_splits)
  from cat flags obtain w1 where w1: "apply_catalog fp cat ws = Some w1" "w2 = mark_catalog_applied w1"
    by (auto simp: apply_catalog_if_needed_def)
  from apply_catalog_loop_Some [OF w1(1) [unfolded apply_catalog_def Let_def]]
  obtain es cr pr where es: "w1 = ws\<lparr>ws_object_entries := es, ws_catalog_row := cr, ws_parent_by_row := pr\<rparr>"
    "length es = object_count ws"
    by (auto simp: object_count_def)
  have ok2: "path_flags_ok w2"
    using ok es(2) by (simp add: w1(2) es(1) path_flags_ok_frame)
  have n2: "object_count w2 = object_count ws"
    using es(2) by (simp add: w1(2) es(1) object_count_def mark_catalog_applied_def)
  from chk consider "w3 = w2" | ps where "w3 = mark_checksums_applied (w2\<lparr>ws_prior_by_row := ps\<rparr>)"
    by (auto simp: apply_checksums_if_needed_def Let_def split: if_splits Option.bind_splits)
  then have ok3: "path_flags_ok w3 \<and> object_count w3 = object_count w2"
    using ok2 by cases (simp_all only: path_flags_ok_frame, simp_all add: object_count_def mark_checksums_applied_def)
  from ensure_path_flags_ok [OF ens] ok3 n2 small show ?thesis by simp
qed

text \<open>
  C5: A row is planned for reprocessing only together with a non-empty list of transition scripts,
  and a row with any other action carries none.
\<close>

theorem reprocessed_tables_have_transitions:
  assumes "layout_ready ws0" and "path_flags_ok ws0" and "compute_diff fp ws0 cat cs = Some (ws, plan)"
    and "i < object_count ws0"
  shows "(planned_action (mp_rows plan ! i) = ReprocessChanged \<longrightarrow>
           (\<exists>ps. mp_plan_transitions plan i = Some ps \<and> ps \<noteq> []))
    \<and> (planned_action (mp_rows plan ! i) \<noteq> ReprocessChanged \<longrightarrow> mp_plan_transitions plan i = None)"
proof -
  from assms(3) have prep: "prepare_diff fp ws0 cat cs = Some ws"
    by (auto simp: compute_diff_def compute_diff_into_def Let_def split: Option.bind_splits)
  note R = prepare_diff_ready [OF assms(1) prep]
  from assms(1) R(4) have small: "object_count ws \<le> 2 ^ 32" by (simp add: layout_ready_def)
  from assms(4) R(4) have i: "i < object_count ws" by simp
  with compute_diff_parts(4) [OF assms(3) small]
  have row: "row_decided fp ws cs plan i" and trs: "transitions_decided fp ws cs plan i" by blast+
  have act: "planned_action (mp_rows plan ! i) = action (decided fp ws cs i)"
    using row by (simp add: row_decided_def Let_def)
  have flag: "row_has_transition_paths ws i" if "action (decided fp ws cs i) = ReprocessChanged"
  proof -
    from assms(1,4) R have "\<exists>obj prior key. nth_opt (ws_object_entries ws) i = Some obj
        \<and> nth_opt (ws_prior_by_row ws) i = Some prior \<and> entry_key ws i = Some key"
      by (auto simp: layout_ready_def nth_opt_def object_count_def entry_key_def)
    with that show ?thesis
      by (auto simp: decided_def scenario_at_def resolve_action_cases(4))
  qed
  have "path_flags_ok ws" by (rule prepare_diff_flags_ok [OF assms(1) prep assms(2)])
  with flag i have "action (decided fp ws cs i) = ReprocessChanged \<Longrightarrow>
      \<exists>ps. Option.bind (ws_transition_path_cache ws) (\<lambda>m. map_of m (row_id_at i)) = Some ps \<and> ps \<noteq> []"
    by (simp add: path_flags_ok_def)
  with trs act show ?thesis by (auto simp: transitions_decided_def)
qed

subsection \<open>A sample plan\<close>

definition sample_fp :: "string \<Rightarrow> nat" where
  "sample_fp s = foldl (\<lambda>n c. 256 * n + of_char c) 0 s"

definition sample_entry :: "digest \<Rightarrow> nat \<Rightarrow> object_entry" where
  "sample_entry cs sid = \<lparr>oe_checksum = cs, oe_key_off = (0, 0), oe_script_id = sid, oe_db_id = 1, oe_flags = 0\<rparr>"

definition sample_ws :: workspace where
  "sample_ws = workspace_default
     \<lparr>ws_database_names := [[], ''db''],
      ws_object_entries := [sample_entry ''new'' 1, sample_entry ''v'' 2],
      ws_object_keys := [''dbo/tables/t'', ''dbo/views/v''],
      ws_object_rows := [\<lparr>row_schema_id = 1, row_kind_code = 3\<rparr>, \<lparr>row_schema_id = 1, row_kind_code = 6\<rparr>]\<rparr>"

definition sample_catalog :: catalog_state where
  "sample_catalog = \<lparr>cat_schemas = [''dbo''],
     cat_objects = [(''dbo/tables/t'', catalog_object_from_key ''dbo/tables/t'')]\<rparr>"

definition sample_history :: checksum_map where
  "sample_history = insert_key length ''dbo/tables/t'' ''old'' checksum_map_new"

definition sample_stamped :: workspace where
  "sample_stamped = sample_ws\<lparr>
     ws_object_entries := [set_db_exists True (sample_entry ''new'' 1), set_db_exists False (sample_entry ''v'' 2)],
     ws_catalog_row := [1, 0], ws_catalog_flags := 3, ws_prior_by_row := [Some ''old'', None]\<rparr>"

definition sample_plan :: migration_plan where
  "sample_plan = migration_plan_default\<lparr>
     mp_blockers := [''table dbo/tables/t changed but has no non-scaffold transition scripts''],
     mp_rows := [\<lparr>pr_action = 5, pr_flags = 1, pr_checksum = ''new''\<rparr>, \<lparr>pr_action = 0, pr_flags = 0, pr_checksum = ''v''\<rparr>],
     mp_summary := \<lparr>sum_schema_count = 0, sum_object_count = 2, sum_create_count = 1, sum_adopt_count = 0,
       sum_skip_count = 0, sum_changed_count = 1, sum_blocked_count = 1\<rparr>,
     mp_blocked := True\<rparr>"

lemma sample_kinds:
  "kind_code (kind_part ''dbo/tables/t'') = 3" "kind_code (kind_part ''dbo/views/v'') = 6"
  by code_simp+

lemma all_less_two: "(\<forall>i < Suc (Suc 0). P i) \<longleftrightarrow> P 0 \<and> P (Suc 0)"
  by (auto simp: less_Suc_eq)

lemma sample_ready: "layout_ready sample_ws"
  by (simp add: layout_ready_def sample_ws_def workspace_default_def object_count_def all_less_two sample_kinds
      catalog_applied_def checksums_applied_def)

lemma sample_prepare: "prepare_diff length sample_ws sample_catalog sample_history = Some sample_stamped"
  by (simp add: prepare_diff_def sample_stamped_def sample_ws_def workspace_default_def sample_catalog_def sample_history_def
    apply_catalog_if_needed_def apply_checksums_if_needed_def apply_catalog_def apply_catalog_row_def
   catalog_applied_def checksums_applied_def object_count_def entry_key_def entry_keys_def Let_def resize_def
   upt_rec nth_opt_def mark_catalog_applied_def mark_checksums_applied_def CATALOG_APPLIED_def CHECKSUMS_APPLIED_def
   catalog_object_from_key_def insert_key_def checksum_map_new_def get_key_def ensure_path_caches_def rebuild_path_caches_def
   rebuild_transition_path_cache_def rebuild_object_path_cache_def)

lemma sample_not_zero: "''old'' \<noteq> zero_digest"
proof
  assume "''old'' = zero_digest"
  then have "length ''old'' = length zero_digest" by (rule arg_cong)
  then show False by (simp add: zero_digest_def)
qed

lemma sample_scenarios:
  "scenario_at length sample_stamped sample_history 3 0 = Some TableBlockedNoTransitions"
  "scenario_at length sample_stamped sample_history 6 (Suc 0) = Some ScCreate"
  by (simp_all add: scenario_at_def sample_stamped_def sample_ws_def workspace_default_def sample_history_def nth_opt_def entry_key_def
     resolve_defs sample_not_zero sample_entry_def set_db_exists_def db_exists_def OBJECT_FLAG_DB_EXISTS_def
     has_live_definition_drift_def insert_key_def checksum_map_new_def KIND_TABLES_def row_has_transition_paths_def)

lemma sample_stamped_sel:
  "ws_object_entries sample_stamped = [set_db_exists True (sample_entry ''new'' 1), set_db_exists False (sample_entry ''v'' 2)]"
  "ws_object_keys sample_stamped = [''dbo/tables/t'', ''dbo/views/v'']"
  "ws_object_rows sample_stamped = [\<lparr>row_schema_id = 1, row_kind_code = 3\<rparr>, \<lparr>row_schema_id = 1, row_kind_code = 6\<rparr>]"
  "ws_schemas sample_stamped = []" "ws_script_git sample_stamped = Map.empty" "ws_transition_path_cache sample_stamped = None"
  by (simp_all add: sample_stamped_def sample_ws_def workspace_default_def)

lemma sample_computes: "compute_diff length sample_ws sample_catalog sample_history = Some (sample_stamped, sample_plan)"
  by (simp add: compute_diff_def compute_diff_into_def sample_prepare Let_def object_count_def sample_stamped_sel
    upt_rec sample_plan_def diff_step_def decide_object_at_def sample_scenarios nth_opt_def apply_scenario_def
    migration_plan_default_def ensure_plan_rows_def resize_def empty_plan_row_def row_id_at_def as_u32_def entry_key_def fill_plan_row_def
    count_scenario_def diff_counters_default_def skip_fill_unchanged_def planned_action_def from_repr_def sample_entry_def
    set_planned_action_def set_row_exists_def PLAN_FLAG_EXISTS_def set_db_exists_def db_exists_def OBJECT_FLAG_DB_EXISTS_def
    with_git_def plan_git_off_from_script_def row_exists_def numeral_2_eq_2 fun_upd_idem)

lemma short_digest_nonzero: "length d \<noteq> 32 \<Longrightarrow> d \<noteq> zero_digest"
  by (auto simp: zero_digest_def)


theorem plan_blocked_iff_blockers_witness:
  "mp_blocked sample_plan \<and> length (mp_blockers sample_plan) = 1"
  using plan_blocked_iff_blockers [OF sample_computes]
  by (simp add: object_count_def sample_stamped_sel sample_plan_def)

theorem plan_summary_counts_rows_witness:
  "sum_create_count (mp_summary sample_plan) = rows_with {CreateObject} sample_plan
   \<and> sum_blocked_count (mp_summary sample_plan) = rows_with {ReprocessChangedBlocked, Fail} sample_plan"
  using plan_summary_counts_rows [OF sample_computes]
  by (simp add: object_count_def sample_stamped_sel)

theorem plan_reflects_catalog_and_history_witness:
  "planned_action (mp_rows sample_plan ! 1) = CreateObject"
  using plan_reflects_catalog_and_history [OF sample_ready sample_computes, of 1]
  by (simp add: sample_ws_def sample_catalog_def object_count_def)

theorem reprocessed_tables_have_transitions_witness:
  "planned_action (mp_rows sample_plan ! 0) \<noteq> ReprocessChanged \<and> mp_plan_transitions sample_plan 0 = None"
  using reprocessed_tables_have_transitions [OF sample_ready _ sample_computes, of 0]
  by (simp add: sample_ws_def workspace_default_def object_count_def path_flags_ok_def row_has_transition_paths_def
      nth_opt_def sample_plan_def planned_action_def from_repr_def)

end
