(* ===== verification/Transactions.thy ===== *)
theory Transactions
  imports Apply
begin

section \<open>Scripts and history in one transaction\<close>

text \<open>
  What \<open>apply\<close> relies on of SQL Server (\<open>tx_server\<close>), the abstract machine of
  durable changes (\<open>durable_step\<close>) and the proof that every operation of \<open>Apply\<close>, from
  \<open>apply_in_tx\<close> up to \<open>execute_plan\<close>, only makes such changes, whichever call fails.
\<close>

text \<open>The five calls of \<open>apply_in_tx\<close>, each made only when the ones before succeeded.\<close>

lemma apply_in_tx_cases:
  assumes ap: "apply_in_tx ev body recs label (c, r) = (ok, st')"
    and e1: "conn_exec ev BEGIN_TX c = (x1, c1)"
    and e2: "conn_exec ev (Text body) c1 = (x2, c2)"
    and e3: "conn_exec ev ASSERT_OPEN_TX c2 = (x3, c3)"
    and e4: "(if recs \<noteq> [] then flush_history ev recs c3 else (Inr (), c3)) = (x4, c4)"
    and e5: "conn_exec ev COMMIT_TX c4 = (x5, c5)"
  obtains (tx_begin) err where "isl x1" "\<not> ok" "st' = rollback ev label err (c1, r)"
  | (tx_body) err where "\<not> isl x1" "isl x2" "\<not> ok" "st' = rollback ev label err (c2, r)"
  | (tx_assert) err where "\<not> isl x1" "\<not> isl x2" "isl x3" "\<not> ok" "st' = rollback ev label err (c3, r)"
  | (tx_history) err where "\<not> isl x1" "\<not> isl x2" "\<not> isl x3" "isl x4" "\<not> ok" "st' = rollback ev label err (c4, r)"
  | (tx_commit) err where "\<not> isl x1" "\<not> isl x2" "\<not> isl x3" "\<not> isl x4" "isl x5" "\<not> ok" "st' = rollback ev label err (c5, r)"
  | (tx_applied) "\<not> isl x1" "\<not> isl x2" "\<not> isl x3" "\<not> isl x4" "\<not> isl x5" "ok" "st' = (c5, r\<lparr>ar_wrote_history := True\<rparr>)"
proof (cases x1)
  case (Inl e)
  with ap e1 show thesis by (intro tx_begin) (auto simp: apply_in_tx_def)
next
  case I1: (Inr u1)
  show thesis
  proof (cases x2)
    case (Inl e)
    with ap e1 e2 I1 show thesis by (intro tx_body) (auto simp: apply_in_tx_def)
  next
    case I2: (Inr u2)
    show thesis
    proof (cases x3)
      case (Inl e)
      with ap e1 e2 e3 I1 I2 show thesis by (intro tx_assert) (auto simp: apply_in_tx_def)
    next
      case I3: (Inr u3)
      show thesis
      proof (cases x4)
        case (Inl e)
        with ap e1 e2 e3 e4 I1 I2 I3 show thesis by (intro tx_history) (auto simp: apply_in_tx_def)
      next
        case I4: (Inr u4)
        show thesis
        proof (cases x5)
          case (Inl e)
          with ap e1 e2 e3 e4 e5 I1 I2 I3 I4 show thesis by (intro tx_commit) (auto simp: apply_in_tx_def)
        next
          case (Inr u5)
          with ap e1 e2 e3 e4 e5 I1 I2 I3 I4 show thesis by (intro tx_applied) (auto simp: apply_in_tx_def)
        qed
      qed
    qed
  qed
qed

text \<open>
  What is assumed of SQL Server: \<open>committed w\<close> is the durable state, a schema and the list of
  history payloads; \<open>working w\<close> is the state the open transaction sees; \<open>depth w\<close> is
  \<open>@@TRANCOUNT\<close>; \<open>effect b\<close> is what a batch does to the schema.
\<close>

record ('w, 's) server =
  committed :: "'w \<Rightarrow> 's \<times> string list"
  working :: "'w \<Rightarrow> 's \<times> string list"
  depth :: "'w \<Rightarrow> nat"
  effect :: "string \<Rightarrow> 's \<Rightarrow> 's"
  escaping :: "string \<Rightarrow> bool"

definition exec_law :: "('w, 's) server \<Rightarrow> stmt \<Rightarrow> 'w \<Rightarrow> bool \<Rightarrow> 'w \<Rightarrow> bool" where
  "exec_law sv s w ok w' =
     (case s of
        BEGIN_TX \<Rightarrow> depth sv w = 0 \<longrightarrow>
          committed sv w' = committed sv w \<and> (ok \<longrightarrow> depth sv w' = 1 \<and> working sv w' = committed sv w)
      | Text b \<Rightarrow>
          (depth sv w = 0 \<longrightarrow> depth sv w' = 0
               \<and> (committed sv w' = committed sv w
                  \<or> committed sv w' = (effect sv b (fst (committed sv w)), snd (committed sv w))))
          \<and> (depth sv w = 1 \<longrightarrow> snd (committed sv w') = snd (committed sv w)
               \<and> (\<not> escaping sv b \<longrightarrow> committed sv w' = committed sv w)
               \<and> (ok \<and> depth sv w' = 1 \<longrightarrow> committed sv w' = committed sv w
                    \<and> working sv w' = (effect sv b (fst (working sv w)), snd (working sv w))))
      | ASSERT_OPEN_TX \<Rightarrow>
          committed sv w' = committed sv w
          \<and> (ok \<longrightarrow> depth sv w = 1 \<and> depth sv w' = 1 \<and> working sv w' = working sv w)
      | COMMIT_TX \<Rightarrow> depth sv w = 1 \<longrightarrow>
          (committed sv w' = committed sv w \<or> committed sv w' = working sv w)
          \<and> (ok \<longrightarrow> committed sv w' = working sv w \<and> depth sv w' = 0)
      | ROLLBACK \<Rightarrow> committed sv w' = committed sv w \<and> (ok \<longrightarrow> depth sv w' = 0)
      | _ \<Rightarrow> committed sv w' = committed sv w \<and> depth sv w' = depth sv w)"

definition insert_law :: "('w, 's) server \<Rightarrow> string \<Rightarrow> 'w \<Rightarrow> bool \<Rightarrow> 'w \<Rightarrow> bool" where
  "insert_law sv p w ok w' \<longleftrightarrow>
     (depth sv w = 0 \<longrightarrow> depth sv w' = 0
        \<and> (committed sv w' = committed sv w
           \<or> committed sv w' = (fst (committed sv w), snd (committed sv w) @ [p])))
     \<and> (depth sv w = 1 \<longrightarrow> committed sv w' = committed sv w
        \<and> (ok \<longrightarrow> depth sv w' = 1 \<and> working sv w' = (fst (working sv w), snd (working sv w) @ [p])))"

definition tx_server :: "'w env \<Rightarrow> ('w, 's) server \<Rightarrow> bool" where
  "tx_server ev sv \<longleftrightarrow>
     (\<forall>w s late r w'. ev_exec ev w s = (late, r, w') \<longrightarrow> exec_law sv s w (\<not> isl r) w')
     \<and> (\<forall>w p late r w'. ev_query ev w INSERT_HISTORY [p] = (late, r, w') \<longrightarrow> insert_law sv p w (\<not> isl r) w')
     \<and> (\<forall>w d r w'. ev_remove_dir_all ev w d = (r, w') \<longrightarrow> committed sv w' = committed sv w \<and> depth sv w' = depth sv w)"

text \<open>
  A change of the durable state that keeps scripts and history together: a planned script takes
  effect together with its history rows, adoption rows are recorded, a planned schema is created,
  or a planned script that ends the transaction on its own leaves its effect without rows.
\<close>

datatype lone_step = AdoptionRows "history_record list" | SchemaBatch string

inductive durable_step ::
  "'w env \<Rightarrow> ('w, 's) server \<Rightarrow> (string \<times> history_record list) set \<Rightarrow> lone_step set
    \<Rightarrow> 's \<times> string list \<Rightarrow> 's \<times> string list \<Rightarrow> bool"
  for ev sv U A where
  script: "(b, recs) \<in> U \<Longrightarrow> ev_to_json ev recs = Inr p \<Longrightarrow> durable_step ev sv U A (s, h) (effect sv b s, h @ [p])"
| adopt: "AdoptionRows recs \<in> A \<Longrightarrow> ev_to_json ev recs = Inr p \<Longrightarrow> durable_step ev sv U A (s, h) (s, h @ [p])"
| schema: "SchemaBatch q \<in> A \<Longrightarrow> durable_step ev sv U A (s, h) (effect sv q s, h)"
| escape: "(b, recs) \<in> U \<Longrightarrow> escaping sv b \<Longrightarrow> durable_step ev sv U A (s, h) (s', h)"

abbreviation durable_steps where "durable_steps ev sv U A \<equiv> (durable_step ev sv U A)\<^sup>*\<^sup>*"

lemma durable_steps_mono:
  assumes "durable_steps ev sv U A d d'" "U \<subseteq> U'" "A \<subseteq> A'"
  shows "durable_steps ev sv U' A' d d'"
  using assms(1)
proof (induction rule: rtranclp_induct)
  case (step y z)
  from step(2) assms(2,3) have "durable_step ev sv U' A' y z"
    by cases (auto intro: durable_step.intros)
  with step(3) show ?case by (rule rtranclp.rtrancl_into_rtrancl)
qed simp

definition idle :: "('w, 's) server \<Rightarrow> 'w conn \<Rightarrow> bool" where
  "idle sv c \<longleftrightarrow> (cn_live c \<longrightarrow> depth sv (cn_world c) = 0)"

lemma conn_exec_law:
  assumes "tx_server ev sv" "conn_exec ev s c = (x, c')"
  shows "if cn_live c then exec_law sv s (cn_world c) (\<not> isl x) (cn_world c') \<and> (\<not> isl x \<longrightarrow> cn_live c') 
    else c' = c \<and> isl x"
proof (cases "cn_live c")
  case True
  obtain late r w' where e: "ev_exec ev (cn_world c) s = (late, r, w')" by (metis prod_cases3)
  from assms(1) e have law: "exec_law sv s (cn_world c) (\<not> isl r) w'" by (auto simp: tx_server_def)
  moreover have "exec_law sv s (cn_world c) False w'"
    using law by (auto simp: exec_law_def split: stmt.splits)
  ultimately show ?thesis
    using assms(2) True e
    by (auto simp: conn_exec_def run_bounded_def timeout_err_def split: if_splits)
qed (use assms in \<open>auto simp: conn_exec_def\<close>)

lemma flush_history_law:
  assumes "tx_server ev sv" "flush_history ev records c = (x, c')" "records \<noteq> []"
  shows "(\<exists>p. ev_to_json ev records = Inr p \<and> cn_live c \<and> insert_law sv p (cn_world c) (\<not> isl x) (cn_world c')
            \<and> (\<not> isl x \<longrightarrow> cn_live c')) \<or> c' = c \<and> isl x"
proof (cases "ev_to_json ev records")
  case (Inr p)
  show ?thesis
  proof (cases "cn_live c")
    case True
    obtain late r w' where e: "ev_query ev (cn_world c) INSERT_HISTORY [p] = (late, r, w')" by (metis prod_cases3)
    from assms(1) e have law: "insert_law sv p (cn_world c) (\<not> isl r) w'" by (auto simp: tx_server_def)
    moreover have "insert_law sv p (cn_world c) False w'"
      using law by (auto simp: insert_law_def)
    ultimately show ?thesis
      using assms(2,3) True e Inr
      by (auto simp: flush_history_def conn_query_def run_bounded_def timeout_err_def split: if_splits sum.splits)
  qed (use assms Inr in \<open>auto simp: flush_history_def conn_query_def split: sum.splits\<close>)
qed (use assms in \<open>auto simp: flush_history_def\<close>)

text \<open>How a failed or successful transaction changes the result.\<close>

definition errors_added :: "apply_result \<Rightarrow> apply_result \<Rightarrow> string list \<Rightarrow> bool" where
  "errors_added r r' es \<longleftrightarrow> es \<noteq> [] \<and> r' = r\<lparr>ar_failed := ar_failed r + length es, ar_errors := ar_errors r @ es\<rparr>"

lemma rollback_law:
  assumes "tx_server ev sv" "rollback ev label err (c, r) = (c', r')"
  shows "committed sv (cn_world c') = committed sv (cn_world c)
    \<and> (\<exists>es. errors_added r r' es \<and> (idle sv c' \<or> (\<exists>e \<in> set es. str_contains e ''rollback failed'')))"
proof -
  obtain x c1 where e: "conn_exec ev ROLLBACK c = (x, c1)" by fastforce
  note L = conn_exec_law [OF assms(1) e]
  have cm: "committed sv (cn_world c1) = committed sv (cn_world c)"
    using L by (auto simp: exec_law_def split: if_splits)
  show ?thesis
  proof (cases x)
    case (Inl re)
    have "str_contains (label @ '': rollback failed: '' @ m) ''rollback failed''" for m
      unfolding str_contains_def sublist_def by (rule exI [of _ "label @ '': ''"], rule exI [of _ "'': '' @ m"]) simp
    with Inl assms(2) e cm show ?thesis
      by (auto simp: rollback_def push_error_def errors_added_def
          intro!: exI [of _ "[label @ '': rollback failed: '' @ error_to_string re, label @ '': '' @ err]"])
  next
    case (Inr u)
    with L have "idle sv c1" by (auto simp: exec_law_def idle_def split: if_splits)
    with Inr assms(2) e cm show ?thesis
      by (auto simp: rollback_def push_error_def errors_added_def intro!: exI [of _ "[label @ '': '' @ err]"])
  qed
qed

definition unit_outcome ::
  "'w env \<Rightarrow> ('w, 's) server \<Rightarrow> (string \<times> history_record list) set \<Rightarrow> bool \<Rightarrow> 'w conn \<times> apply_result \<Rightarrow> 'w conn \<times> apply_result \<Rightarrow> bool" where
  "unit_outcome ev sv U ok st st' \<longleftrightarrow>
     durable_steps ev sv U {} (committed sv (cn_world (fst st))) (committed sv (cn_world (fst st')))
     \<and> (if ok then idle sv (fst st') \<and> ar_failed (snd st') = ar_failed (snd st) \<and> ar_errors (snd st') = ar_errors (snd st)
          \<and> (\<exists>(b, recs) \<in> U. \<exists>p. ev_to_json ev recs = Inr p
               \<and> committed sv (cn_world (fst st')) =
                   (effect sv b (fst (committed sv (cn_world (fst st)))), snd (committed sv (cn_world (fst st))) @ [p]))
        else \<exists>es. errors_added (snd st) (snd st') es
               \<and> (idle sv (fst st') \<or> (\<exists>e \<in> set es. str_contains e ''rollback failed'')))"

lemma apply_in_tx_unit:
  assumes sv: "tx_server ev sv" and idle: "idle sv c" and recs: "records \<noteq> []"
    and ap: "apply_in_tx ev body records label (c, r) = (ok, st')"
  shows "unit_outcome ev sv {(body, records)} ok (c, r) st'"
proof -
  let ?U = "{(body, records)}"
  define d where "d = committed sv (cn_world c)"
  obtain x1 c1 where e1: "conn_exec ev BEGIN_TX c = (x1, c1)" by fastforce
  obtain x2 c2 where e2: "conn_exec ev (Text body) c1 = (x2, c2)" by fastforce
  obtain x3 c3 where e3: "conn_exec ev ASSERT_OPEN_TX c2 = (x3, c3)" by fastforce
  obtain x4 c4 where e4: "flush_history ev records c3 = (x4, c4)" by fastforce
  obtain x5 c5 where e5: "conn_exec ev COMMIT_TX c4 = (x5, c5)" by fastforce
  note L1 = conn_exec_law [OF sv e1] and L2 = conn_exec_law [OF sv e2] and L3 = conn_exec_law [OF sv e3]
    and L4 = flush_history_law [OF sv e4 recs] and L5 = conn_exec_law [OF sv e5]
  have fail: ?thesis if "\<not> ok" "st' = rollback ev label err (ck, r)"
    "durable_steps ev sv ?U {} d (committed sv (cn_world ck))" for err ck
    using that(1,3) rollback_law [OF sv, of label err ck r "fst st'" "snd st'"] that(2) [symmetric]
    by (simp add: unit_outcome_def d_def)
  have keep: "durable_steps ev sv ?U {} d (committed sv w)"
    if "snd (committed sv w) = snd d" "escaping sv body \<or> committed sv w = d" for w
    using that durable_step.escape [of body records ?U sv ev "{}" "fst d" "snd d" "fst (committed sv w)"]
    by (metis insertI1 prod.collapse r_into_rtranclp rtranclp.rtrancl_refl)
  have b1: "committed sv (cn_world c1) = d"
    "\<not> isl x1 \<Longrightarrow> cn_live c1 \<and> depth sv (cn_world c1) = 1 \<and> working sv (cn_world c1) = d"
    using L1 idle by (auto simp: exec_law_def idle_def d_def split: if_splits)
  then have h2: "\<not> isl x1 \<Longrightarrow> snd (committed sv (cn_world c2)) = snd d"
    "\<not> isl x1 \<Longrightarrow> escaping sv body \<or> committed sv (cn_world c2) = d" "\<not> isl x1 \<Longrightarrow> \<not> isl x2 \<Longrightarrow> cn_live c2"
    using L2 by (auto simp: exec_law_def split: if_splits)
  have b3: "cn_live c2 \<Longrightarrow> committed sv (cn_world c3) = committed sv (cn_world c2)"
    "\<not> isl x3 \<Longrightarrow> cn_live c3 \<and> depth sv (cn_world c2) = 1 \<and> depth sv (cn_world c3) = 1
       \<and> working sv (cn_world c3) = working sv (cn_world c2)"
    using L3 by (auto simp: exec_law_def split: if_splits)
  have b2: "\<not> isl x1 \<Longrightarrow> \<not> isl x2 \<Longrightarrow> \<not> isl x3 \<Longrightarrow>
      committed sv (cn_world c2) = d \<and> working sv (cn_world c2) = (effect sv body (fst d), snd d)"
    using L2 b1 b3(2) by (auto simp: exec_law_def split: if_splits)
  have b4: "\<not> isl x1 \<Longrightarrow> \<not> isl x2 \<Longrightarrow> \<not> isl x3 \<Longrightarrow> committed sv (cn_world c4) = d
      \<and> (\<not> isl x4 \<longrightarrow> (\<exists>p. ev_to_json ev records = Inr p \<and> cn_live c4 \<and> depth sv (cn_world c4) = 1
           \<and> working sv (cn_world c4) = (effect sv body (fst d), snd d @ [p])))"
    using L4 b2 b3 h2 by (auto simp: insert_law_def)
  have fin: "durable_steps ev sv ?U {} d (effect sv body (fst d), snd d @ [p])" if "ev_to_json ev records = Inr p" for p
    using that durable_step.script [of body records ?U ev p sv "{}" "fst d" "snd d"] by auto
  have "(if records \<noteq> [] then flush_history ev records c3 else (Inr (), c3)) = (x4, c4)" using e4 recs by simp
  from ap e1 e2 e3 this e5 show ?thesis
  proof (cases rule: apply_in_tx_cases)
    case (tx_begin err)
    then show ?thesis using b1 by (intro fail) auto
  next
    case (tx_body err)
    then show ?thesis using keep h2 by (intro fail) auto
  next
    case (tx_assert err)
    then show ?thesis using keep h2 b3(1) by (intro fail) auto
  next
    case (tx_history err)
    then show ?thesis using b4 by (intro fail) auto
  next
    case (tx_commit err)
    then obtain p where p: "ev_to_json ev records = Inr p" "cn_live c4" "depth sv (cn_world c4) = 1"
      "working sv (cn_world c4) = (effect sv body (fst d), snd d @ [p])" "committed sv (cn_world c4) = d" using b4 by auto
    then have "committed sv (cn_world c5) = d \<or> committed sv (cn_world c5) = (effect sv body (fst d), snd d @ [p])"
      using L5 by (auto simp: exec_law_def)
    with tx_commit fin [OF p(1)] show ?thesis by (intro fail) auto
  next
    case tx_applied
    then obtain p where p: "ev_to_json ev records = Inr p" "cn_live c4" "depth sv (cn_world c4) = 1"
      "working sv (cn_world c4) = (effect sv body (fst d), snd d @ [p])" using b4 by auto
    with L5 tx_applied(5) have "committed sv (cn_world c5) = (effect sv body (fst d), snd d @ [p])" "idle sv c5"
      by (auto simp: exec_law_def idle_def)
    with tx_applied fin [OF p(1)] p(1) show ?thesis by (simp add: unit_outcome_def d_def)
  qed
qed

definition object_units :: "'w env \<Rightarrow> workspace \<Rightarrow> planned_object \<Rightarrow> (string \<times> history_record list) set" where
  "object_units ev ws ob =
     {(b, recs). object_records ev ws ob = Some recs
        \<and> (\<exists>sid. find_script ws ob = Some (Some sid)
             \<and> content_checksum (ev_sha ev) b = unwrap_or (script_checksum ws sid) (po_checksum ob))}"

definition path_units :: "'w env \<Rightarrow> workspace \<Rightarrow> planned_object \<Rightarrow> string \<Rightarrow> (string \<times> history_record list) set" where
  "path_units ev ws ob path =
     {(b, recs). \<exists>sid h a d rest.
        find_by_candidates ws (po_database_name ob) path = Some sid
        \<and> content_checksum (ev_sha ev) b = unwrap_or (script_checksum ws sid) (po_checksum ob)
        \<and> (rest = [] \<or> rest = [object_event ev ob ''applied''])
        \<and> recs = record_event ev path (unwrap_or (script_checksum ws sid) (po_checksum ob)) h a d
              ''migration'' ''applied'' # rest}"

definition transition_units :: "'w env \<Rightarrow> workspace \<Rightarrow> planned_object \<Rightarrow> (string \<times> history_record list) set" where
  "transition_units ev ws ob = (\<Union>path \<in> set (po_transition_paths ob). path_units ev ws ob path)"

lemma verified_body_Inr:
  "verified_body ev w path expected label = Inr body \<Longrightarrow>
     ev_read ev w path = Inr body \<and> content_checksum (ev_sha ev) body = expected \<and> is_utf8 body"
  by (auto simp: verified_body_def split: sum.splits if_splits)

lemma unit_outcome_mono: "unit_outcome ev sv U ok st st' \<Longrightarrow> U \<subseteq> U' \<Longrightarrow> unit_outcome ev sv U' ok st st'"
  by (cases ok) (auto simp: unit_outcome_def intro: durable_steps_mono)

lemma unit_outcome_error:
  "idle sv c \<Longrightarrow> unit_outcome ev sv U False (c, r) (c, push_error msg r)"
  by (auto simp: unit_outcome_def errors_added_def push_error_def intro!: exI [of _ "[msg]"])

lemma unit_outcome_applied:
  "unit_outcome ev sv U True st (c', r') \<Longrightarrow> unit_outcome ev sv U True st (c', inc_applied r')"
  by (simp add: unit_outcome_def inc_applied_def)

lemma object_records_not_Nil: "object_records ev ws ob = Some recs \<Longrightarrow> recs \<noteq> []"
  by (auto simp: object_records_def split: if_splits)

lemma exec_object_unit:
  assumes sv: "tx_server ev sv" and idle: "idle sv c" and ex: "exec_object ev ws ob (c, r) = Some st'"
  shows "\<exists>ok. unit_outcome ev sv (object_units ev ws ob) ok (c, r) st'"
proof -
  from ex obtain body_or where rd: "read_script ev (cn_world c) ws ob = Some body_or"
    by (auto simp: exec_object_def split: Option.bind_splits)
  show ?thesis
  proof (cases body_or)
    case (Inl msg)
    with ex rd show ?thesis by (auto simp: exec_object_def intro: unit_outcome_error idle)
  next
    case (Inr body)
    with ex rd obtain recs ok c' r' where recs: "object_records ev ws ob = Some recs"
      and ap: "apply_in_tx ev body recs (po_normalized_key ob) (c, r) = (ok, c', r')"
      and st': "st' = (if ok then (c', inc_applied r') else (c', r'))"
      by (auto simp: exec_object_def split: Option.bind_splits bool.splits prod.splits)
    from rd Inr obtain sid where "find_script ws ob = Some (Some sid)"
      "content_checksum (ev_sha ev) body = unwrap_or (script_checksum ws sid) (po_checksum ob)"
      by (auto simp: read_script_def dest!: verified_body_Inr split: Option.bind_splits option.splits)
    with recs have "{(body, recs)} \<subseteq> object_units ev ws ob"
      by (auto simp: object_units_def)
    with apply_in_tx_unit [OF sv idle object_records_not_Nil [OF recs] ap]
    have "unit_outcome ev sv (object_units ev ws ob) ok (c, r) (c', r')" by (rule unit_outcome_mono)
    with st' show ?thesis by (auto split: if_splits intro: unit_outcome_applied)
  qed
qed

lemma apply_one_transition_unit:
  assumes sv: "tx_server ev sv" and idle: "idle sv c"
    and ex: "apply_one_transition ev ws ob path is_last (c, r) = Some st'"
  shows "\<exists>ok. unit_outcome ev sv (path_units ev ws ob path) ok (c, r) st'"
proof (cases "find_by_candidates ws (po_database_name ob) path")
  case None
  with ex show ?thesis by (auto simp: apply_one_transition_def intro: unit_outcome_error idle)
next
  case (Some sid)
  let ?cs = "unwrap_or (script_checksum ws sid) (po_checksum ob)"
  from ex Some obtain apath where ap: "script_abs_path ws sid = Some apath"
    by (auto simp: apply_one_transition_def Let_def split: Option.bind_splits)
  show ?thesis
  proof (cases "verified_body ev (cn_world c) apath ?cs path")
    case (Inl msg)
    with ex Some ap show ?thesis by (auto simp: apply_one_transition_def intro: unit_outcome_error idle)
  next
    case (Inr body)
    with ex Some ap obtain h a d ok c' r' where
      tx: "apply_in_tx ev body (record_event ev path ?cs h a d ''migration'' ''applied''
             # (if is_last then [object_event ev ob ''applied''] else [])) path (c, r) = (ok, c', r')"
      and st': "st' = (if ok then (c', inc_applied r') else (c', r'))"
      by (auto simp: apply_one_transition_def Let_def split: Option.bind_splits bool.splits prod.splits)
    let ?rest = "if is_last then [object_event ev ob ''applied''] else []"
    have "(body, record_event ev path ?cs h a d ''migration'' ''applied'' # ?rest) \<in> path_units ev ws ob path"
      unfolding path_units_def using verified_body_Inr [OF Inr] Some
      by (intro CollectI case_prodI exI [of _ sid] exI [of _ h] exI [of _ a] exI [of _ d]
          exI [of _ ?rest] conjI) auto
    then have "{(body, record_event ev path ?cs h a d ''migration'' ''applied'' # ?rest)} \<subseteq> path_units ev ws ob path" by blast
    with apply_in_tx_unit [OF sv idle _ tx]
    have "unit_outcome ev sv (path_units ev ws ob path) ok (c, r) (c', r')" by (auto intro: unit_outcome_mono)
    with st' show ?thesis by (auto split: if_splits intro: unit_outcome_applied)
  qed
qed

text \<open>A phase that stops at the first failure.\<close>

definition phase_outcome ::
  "'w env \<Rightarrow> ('w, 's) server \<Rightarrow> (string \<times> history_record list) set \<Rightarrow> lone_step set \<Rightarrow> 'w conn \<times> apply_result \<Rightarrow> 'w conn \<times> apply_result \<Rightarrow> bool" where
  "phase_outcome ev sv U A st st' \<longleftrightarrow>
     durable_steps ev sv U A (committed sv (cn_world (fst st))) (committed sv (cn_world (fst st')))
     \<and> (ar_failed (snd st') = 0 \<longrightarrow> idle sv (fst st'))"

lemma phase_outcome_unit:
  "unit_outcome ev sv U ok st st' \<Longrightarrow> ar_failed (snd st) = 0 \<Longrightarrow> phase_outcome ev sv U A st st'"
  by (auto simp: unit_outcome_def phase_outcome_def errors_added_def split: if_splits intro: durable_steps_mono)

lemma phase_outcome_trans:
  "phase_outcome ev sv U A st st1 \<Longrightarrow> phase_outcome ev sv U A st1 st2 \<Longrightarrow> phase_outcome ev sv U A st st2"
  by (auto simp: phase_outcome_def)

lemma phase_outcome_mono:
  "phase_outcome ev sv U A st st' \<Longrightarrow> U \<subseteq> U' \<Longrightarrow> A \<subseteq> A' \<Longrightarrow> phase_outcome ev sv U' A' st st'"
  by (auto simp: phase_outcome_def intro: durable_steps_mono)

lemma phase_outcome_refl: "idle sv (fst st) \<Longrightarrow> phase_outcome ev sv U A st st"
  by (simp add: phase_outcome_def)

lemma flush_tx_loop_phase:
  assumes sv: "tx_server ev sv"
  shows "flush_tx_loop ev ws obs st = Some st' \<Longrightarrow> idle sv (fst st) \<Longrightarrow> ar_failed (snd st) = 0 \<Longrightarrow>
    phase_outcome ev sv (\<Union>ob \<in> set obs. object_units ev ws ob) {} st st'"
proof (induction obs arbitrary: st)
  case (Cons ob obs)
  from Cons.prems obtain st1 where ex: "exec_object ev ws ob st = Some st1"
    and rest: "if ar_failed (snd st1) > 0 then st' = st1 else flush_tx_loop ev ws obs st1 = Some st'"
    by (auto split: Option.bind_splits if_splits)
  from exec_object_unit [OF sv, of "fst st" ws ob "snd st" st1] ex Cons.prems(2)
  obtain ok where "unit_outcome ev sv (object_units ev ws ob) ok st st1" by auto
  from phase_outcome_unit [OF this Cons.prems(3)]
  have one: "phase_outcome ev sv (\<Union>ob \<in> set (ob # obs). object_units ev ws ob) {} st st1"
    by (rule phase_outcome_mono) auto
  show ?case
  proof (cases "ar_failed (snd st1) > 0")
    case False
    with rest one Cons.IH [of st1] have "phase_outcome ev sv (\<Union>ob \<in> set obs. object_units ev ws ob) {} st1 st'"
      by (auto simp: phase_outcome_def)
    then have "phase_outcome ev sv (\<Union>ob \<in> set (ob # obs). object_units ev ws ob) {} st1 st'"
      by (rule phase_outcome_mono) auto
    with one show ?thesis by (rule phase_outcome_trans)
  qed (use rest one in simp)
qed (auto intro: phase_outcome_refl)

lemma apply_object_transitions_phase:
  assumes sv: "tx_server ev sv"
  shows "apply_object_transitions ev ws ob ps st = Some st' \<Longrightarrow> set ps \<subseteq> set (po_transition_paths ob) \<Longrightarrow>
    idle sv (fst st) \<Longrightarrow> ar_failed (snd st) = 0 \<Longrightarrow> phase_outcome ev sv (transition_units ev ws ob) {} st st'"
proof (induction ps arbitrary: st)
  case (Cons p ps)
  from Cons.prems obtain st1 where ex: "apply_one_transition ev ws ob p (ps = []) st = Some st1"
    and rest: "if ar_failed (snd st1) > 0 then st' = st1 else apply_object_transitions ev ws ob ps st1 = Some st'"
    by (auto split: Option.bind_splits if_splits)
  from apply_one_transition_unit [OF sv, of "fst st" ws ob p "ps = []" "snd st" st1] ex Cons.prems(2,3)
  obtain ok where "unit_outcome ev sv (path_units ev ws ob p) ok st st1" by auto
  then have "unit_outcome ev sv (transition_units ev ws ob) ok st st1"
    by (rule unit_outcome_mono) (use Cons.prems(2) in \<open>auto simp: transition_units_def\<close>)
  from phase_outcome_unit [OF this Cons.prems(4)]
  have one: "phase_outcome ev sv (transition_units ev ws ob) {} st st1" .
  with rest Cons.IH [of st1] Cons.prems(2) show ?case
    by (cases "ar_failed (snd st1) > 0") (auto simp: phase_outcome_def)
qed (auto intro: phase_outcome_refl)

lemma apply_transitions_phase:
  assumes sv: "tx_server ev sv"
  shows "apply_transitions ev ws obs st = Some st' \<Longrightarrow> idle sv (fst st) \<Longrightarrow> ar_failed (snd st) = 0 \<Longrightarrow>
    phase_outcome ev sv (\<Union>ob \<in> {ob \<in> set obs. po_planned_action ob = ReprocessChanged}. transition_units ev ws ob) {} st st'"
proof (induction obs arbitrary: st)
  case (Cons ob obs)
  show ?case
  proof (cases "po_planned_action ob \<noteq> ReprocessChanged \<or> po_transition_paths ob = []")
    case True
    with Cons have "phase_outcome ev sv (\<Union>ob \<in> {ob \<in> set obs. po_planned_action ob = ReprocessChanged}. transition_units ev ws ob) {} st st'" by auto
    then show ?thesis by (rule phase_outcome_mono) auto
  next
    case False
    with Cons.prems obtain st1 where ex: "apply_object_transitions ev ws ob (po_transition_paths ob) st = Some st1"
      and rest: "if ar_failed (snd st1) > 0 then st' = st1 else apply_transitions ev ws obs st1 = Some st'"
      by (auto split: Option.bind_splits if_splits)
    from apply_object_transitions_phase [OF sv ex _ Cons.prems(2,3)]
    have one: "phase_outcome ev sv (\<Union>ob \<in> {ob' \<in> set (ob # obs). po_planned_action ob' = ReprocessChanged}. transition_units ev ws ob) {} st st1"
      using False by (auto elim!: phase_outcome_mono)
    show ?thesis
    proof (cases "ar_failed (snd st1) > 0")
      case False
      with rest one Cons.IH [of st1] have "phase_outcome ev sv (\<Union>ob \<in> {ob \<in> set obs. po_planned_action ob = ReprocessChanged}. transition_units ev ws ob) {} st1 st'"
        by (auto simp: phase_outcome_def)
      then have "phase_outcome ev sv (\<Union>ob \<in> {ob' \<in> set (ob # obs). po_planned_action ob' = ReprocessChanged}. transition_units ev ws ob) {} st1 st'"
        by (rule phase_outcome_mono) auto
      with one show ?thesis by (rule phase_outcome_trans)
    qed (use rest one in simp)
  qed
qed (auto intro: phase_outcome_refl)

lemma push_errors_fields:
  "ar_failed (foldl (\<lambda>r e. push_error e r) r es) = ar_failed r + length es"
  "ar_errors (foldl (\<lambda>r e. push_error e r) r es) = ar_errors r @ es"
  by (induction es arbitrary: r) (simp_all add: push_error_def)

lemma module_round_durable:
  assumes sv: "tx_server ev sv"
  shows "module_round ev ws pending acc st = Some res \<Longrightarrow> idle sv (fst st) \<Longrightarrow>
    durable_steps ev sv (\<Union>ob \<in> set pending. object_units ev ws ob) {} (committed sv (cn_world (fst st)))
        (committed sv (cn_world (case res of Inl (c, r) \<Rightarrow> c | Inr (acc', c, r) \<Rightarrow> c)))
    \<and> (case res of Inl st' \<Rightarrow> True | Inr (acc', c, r) \<Rightarrow> idle sv c \<and> ar_failed r = ar_failed (snd st))"
proof (induction pending arbitrary: acc st)
  case (Cons ob pending)
  obtain nxt progress fe where acc: "acc = (nxt, progress, fe)" by (cases acc)
  obtain c r where st: "st = (c, r)" by (cases st)
  let ?U = "\<Union>ob \<in> set (ob # pending). object_units ev ws ob"
  from Cons.prems obtain c1 r1 where ex: "exec_object ev ws ob (c, r) = Some (c1, r1)"
    unfolding acc st by (auto split: Option.bind_splits)
  from exec_object_unit [OF sv _ ex] Cons.prems(2) st obtain ok
    where un: "unit_outcome ev sv (object_units ev ws ob) ok (c, r) (c1, r1)" by auto
  then have one: "durable_steps ev sv ?U {} (committed sv (cn_world c)) (committed sv (cn_world c1))"
    by (auto simp: unit_outcome_def intro: durable_steps_mono)
  have rest: ?case if mr: "module_round ev ws pending acc1 (c1, r2) = Some res" and "idle sv c1"
    and "ar_failed r2 = ar_failed r" for acc1 r2
  proof -
    from Cons.IH [OF mr] that(2,3) have
      "durable_steps ev sv (\<Union>ob \<in> set pending. object_units ev ws ob) {} (committed sv (cn_world c1))
        (committed sv (cn_world (case res of Inl (c, r) \<Rightarrow> c | Inr (acc', c, r) \<Rightarrow> c)))"
      and fin: "case res of Inl st' \<Rightarrow> True | Inr (acc', c, r') \<Rightarrow> idle sv c \<and> ar_failed r' = ar_failed r"
      by (auto split: sum.splits prod.splits)
    from durable_steps_mono [OF this(1), of ?U "{}"] one fin st show ?thesis by (auto split: sum.splits prod.splits)
  qed
  show ?case
  proof (cases ok)
    case True
    with un have "idle sv c1" "ar_failed r1 = ar_failed r" by (auto simp: unit_outcome_def)
    with Cons.prems(1) [unfolded acc st] ex show ?thesis by (intro rest [of "(nxt, True, fe)" r1]) auto
  next
    case False
    with un obtain es where es: "errors_added r r1 es" "idle sv c1 \<or> (\<exists>e \<in> set es. str_contains e ''rollback failed'')"
      by (auto simp: unit_outcome_def)
    then have r1: "ar_failed r1 \<noteq> ar_failed r" "drop (length (ar_errors r)) (ar_errors r1) = es"
      by (auto simp: errors_added_def)
    show ?thesis
    proof (cases "\<exists>e \<in> set es. str_contains e ''rollback failed''")
      case True
      with Cons.prems(1) ex r1 one show ?thesis unfolding acc st by (auto simp: Let_def)
    next
      case F: False
      with es(2) have "idle sv c1" by blast
      moreover have "\<exists>acc1 r2. module_round ev ws pending acc1 (c1, r2) = Some res \<and> ar_failed r2 = ar_failed r"
        using F Cons.prems(1) [unfolded acc st] ex r1 by (auto simp: Let_def intro!: exI)
      ultimately show ?thesis using rest by blast
    qed
  qed
qed auto

lemma module_round_subset:
  "module_round ev ws pending (nxt, progress, fe) st = Some (Inr ((nxt', progress', fe'), st')) \<Longrightarrow>
     set nxt' \<subseteq> set nxt \<union> set pending"
proof (induction pending arbitrary: nxt progress fe st)
  case (Cons ob pending)
  from module_round_Cons_Inr [OF Cons.prems] obtain nxt1 p1 fe1 st1 where
    "module_round ev ws pending (nxt1, p1, fe1) st1 = Some (Inr ((nxt', progress', fe'), st'))"
    and *: "nxt1 = nxt \<and> p1 \<or> nxt1 = nxt @ [ob] \<and> p1 = progress" .
  from Cons.IH [OF this(1)] * show ?case by auto
qed simp

lemma apply_modules_durable:
  "tx_server ev sv \<Longrightarrow> apply_modules ev ws pending st = Some st' \<Longrightarrow> idle sv (fst st) \<Longrightarrow>
    durable_steps ev sv (\<Union>ob \<in> set pending. object_units ev ws ob) {} (committed sv (cn_world (fst st)))
      (committed sv (cn_world (fst st')))"
proof (induction ev ws pending st rule: apply_modules.induct)
  case (1 ev ws pending st)
  note sv = "1.prems"(1) and am = "1.prems"(2)
  show ?case
  proof (cases "pending = []")
    case True
    with am show ?thesis by (simp add: apply_modules.simps)
  next
    case False
    from am False obtain res where mr: "module_round ev ws pending ([], False, []) st = Some res"
      by (auto simp: apply_modules.simps [of ev ws pending st] split: option.splits)
    note D = module_round_durable [OF sv mr "1.prems"(3)]
    show ?thesis
    proof (cases res)
      case (Inl a)
      with am False mr D show ?thesis by (auto simp: apply_modules.simps [of ev ws pending st] split: prod.splits)
    next
      case (Inr b)
      obtain nxt progress fe c r where b: "b = ((nxt, progress, fe), (c, r))" by (cases b) auto
      show ?thesis
      proof (cases progress)
        case True
        with am False mr Inr b have "apply_modules ev ws nxt (c, r) = Some st'"
          by (simp add: apply_modules.simps [of ev ws pending st])
        moreover have "idle sv c" using D Inr b by simp
        ultimately have "durable_steps ev sv (\<Union>ob \<in> set nxt. object_units ev ws ob) {} (committed sv (cn_world c))
            (committed sv (cn_world (fst st')))"
          using "1.IH" [OF False mr, of b "(nxt, progress, fe)" "(c, r)" nxt "(progress, fe)" progress fe c r] sv Inr b True by simp
        moreover have "set nxt \<subseteq> set pending" using module_round_subset [OF mr [unfolded Inr b]] by simp
        ultimately have "durable_steps ev sv (\<Union>ob \<in> set pending. object_units ev ws ob) {} (committed sv (cn_world c))
            (committed sv (cn_world (fst st')))"
          by (auto intro: durable_steps_mono)
        with D Inr b show ?thesis by auto
      next
        case F: False
        with am False mr Inr b have "st' = (c, foldl (\<lambda>r e. push_error e r) r fe)"
          by (simp add: apply_modules.simps [of ev ws pending st])
        with D Inr b show ?thesis by simp
      qed
    qed
  qed
qed

definition schema_batches :: "planned_schema list \<Rightarrow> lone_step set" where
  "schema_batches ss =
     {SchemaBatch q | q s. s \<in> set ss \<and> ps_action s = CreateSchema \<and> build_create_schema_sql (ps_name s) = Inr q}"

lemma apply_plan_schemas_phase:
  "tx_server ev sv \<Longrightarrow> idle sv (fst st) \<Longrightarrow> schema_batches ss \<subseteq> A \<Longrightarrow> phase_outcome ev sv {} A st (apply_plan_schemas ev ss st)"
proof (induction ev ss st rule: apply_plan_schemas.induct)
  case (2 ev s ss c r)
  note sv = "2.prems"(1)
  have A: "schema_batches ss \<subseteq> A" using "2.prems"(3) by (auto simp: schema_batches_def)
  show ?case
  proof (cases "ps_action s \<noteq> CreateSchema")
    case True
    with 2 A show ?thesis by (auto simp: phase_outcome_def)
  next
    case C: False
    show ?thesis
    proof (cases "build_create_schema_sql (ps_name s)")
      case (Inl e)
      with C 2 show ?thesis by (simp add: phase_outcome_def push_error_def)
    next
      case (Inr q)
      obtain x c1 where e: "conn_exec ev (Text q) c = (x, c1)" by fastforce
      have q: "SchemaBatch q \<in> A" using "2.prems"(3) C Inr by (auto simp: schema_batches_def)
      have "idle sv c1" and D: "durable_steps ev sv {} A (committed sv (cn_world c)) (committed sv (cn_world c1))"
        using conn_exec_law [OF sv e] "2.prems"(2)
          durable_step.schema [OF q, of ev sv "{}" "fst (committed sv (cn_world c))" "snd (committed sv (cn_world c))"]
        by (auto simp: idle_def exec_law_def split: if_splits)
      then have one: "phase_outcome ev sv {} A (c, r) (c1, f r)" for f by (simp add: phase_outcome_def)
      show ?thesis
      proof (cases x)
        case (Inr u)
        with C e \<open>build_create_schema_sql (ps_name s) = Inr q\<close> "2.IH"(2) [of q x c1 u] sv A \<open>idle sv c1\<close>
        have "phase_outcome ev sv {} A (c1, inc_applied r) (apply_plan_schemas ev (s # ss) (c, r))" by simp
        with one [of inc_applied] show ?thesis by (rule phase_outcome_trans)
      qed (use C e \<open>build_create_schema_sql (ps_name s) = Inr q\<close> one in simp)
    qed
  qed
qed (auto intro: phase_outcome_refl)

definition planned_units :: "'w env \<Rightarrow> workspace \<Rightarrow> planned_object list \<Rightarrow> (string \<times> history_record list) set" where
  "planned_units ev ws obs =
     (\<Union>ob \<in> {ob \<in> set obs. should_apply ob}. object_units ev ws ob)
     \<union> (\<Union>ob \<in> {ob \<in> set obs. po_planned_action ob = ReprocessChanged}. transition_units ev ws ob)"

definition lone_steps :: "'w env \<Rightarrow> migration_plan \<Rightarrow> lone_step set" where
  "lone_steps ev plan =
     insert (AdoptionRows (map (adopt_record ev) (filter (\<lambda>ob. po_planned_action ob = AdoptExisting) (mp_objects plan))))
       (schema_batches (mp_schemas plan))"

lemma collect_batches_fields:
  assumes "collect_batches ev obs b r = (bo, r')"
  shows "case bo of
      None \<Rightarrow> ar_failed r' = ar_failed r + 1
    | Some b' \<Rightarrow> ar_failed r' = ar_failed r \<and> ar_errors r' = ar_errors r \<and> ar_applied r' = ar_applied r
        \<and> ba_tx b' = ba_tx b @ filter (\<lambda>ob. should_apply ob \<and> is_transactional_kind (po_kind ob)) obs
        \<and> ba_module b' = ba_module b @ filter (\<lambda>ob. should_apply ob \<and> \<not> is_transactional_kind (po_kind ob)) obs
        \<and> ba_adopt b' = ba_adopt b @ map (adopt_record ev) (filter (\<lambda>ob. po_planned_action ob = AdoptExisting) obs)"
  using assms
proof (induction ev obs b r rule: collect_batches.induct)
  case (2 ev ob obs b r)
  have neg: "should_apply ob \<Longrightarrow> po_planned_action ob \<noteq> AdoptExisting \<and> po_planned_action ob \<noteq> ReprocessChanged"
    by (auto simp: should_apply_def)
  consider (adopt) "po_planned_action ob = AdoptExisting"
    | (stop) "po_planned_action ob = ReprocessChanged" "po_transition_paths ob = []" "po_kind ob \<noteq> ''tables''"
    | (run) "should_apply ob"
    | (skip) "po_planned_action ob \<noteq> AdoptExisting" "\<not> should_apply ob"
        "\<not> (po_planned_action ob = ReprocessChanged \<and> po_transition_paths ob = [] \<and> po_kind ob \<noteq> ''tables'')"
    by blast
  then show ?case
  proof cases
    case adopt
    then have "\<not> should_apply ob" using neg by blast
    with adopt "2.IH"(1) "2.prems" show ?thesis by (cases bo) (auto simp: inc_skipped_def)
  next
    case stop
    with "2.prems" show ?thesis by (auto simp: push_error_def)
  next
    case run
    with neg "2.IH"(2) "2.prems" show ?thesis by (cases bo) auto
  next
    case skip
    with "2.IH"(3,4) "2.prems" show ?thesis by (cases bo; cases "should_count_skip ob") (auto simp: inc_skipped_def)
  qed
qed auto

lemma set_sort_tx_batch [simp]: "set (sort_tx_batch b) = set b"
  by (simp add: sort_tx_batch_def)

lemma commit_history_phase:
  assumes sv: "tx_server ev sv" and idle: "idle sv c" and ch: "commit_history ev recs (c, r) = (ok, st')"
    and A: "recs \<noteq> [] \<Longrightarrow> AdoptionRows recs \<in> A"
  shows "phase_outcome ev sv U A (c, r) st' \<and> idle sv (fst st')
    \<and> (ok \<longrightarrow> ar_failed (snd st') = ar_failed r) \<and> (\<not> ok \<longrightarrow> ar_failed (snd st') > 0)"
proof (cases "recs = []")
  case True
  with ch idle show ?thesis by (auto simp: commit_history_def intro!: phase_outcome_refl)
next
  case False
  obtain x c1 where e: "flush_history ev recs c = (x, c1)" by fastforce
  have D: "durable_steps ev sv U A (committed sv (cn_world c)) (committed sv (cn_world c1)) \<and> idle sv c1"
    using flush_history_law [OF sv e False]
  proof
    assume "\<exists>p. ev_to_json ev recs = Inr p \<and> cn_live c \<and> insert_law sv p (cn_world c) (\<not> isl x) (cn_world c1)
            \<and> (\<not> isl x \<longrightarrow> cn_live c1)"
    then obtain p where p: "ev_to_json ev recs = Inr p" "depth sv (cn_world c1) = 0"
      "committed sv (cn_world c1) = committed sv (cn_world c)
       \<or> committed sv (cn_world c1) = (fst (committed sv (cn_world c)), snd (committed sv (cn_world c)) @ [p])"
      using idle by (auto simp: insert_law_def idle_def)
    from durable_step.adopt [OF A [OF False] p(1), of sv U "fst (committed sv (cn_world c))" "snd (committed sv (cn_world c))"] p
    show ?thesis by (auto simp: idle_def)
  next
    assume "c1 = c \<and> isl x" with idle show ?thesis by simp
  qed
  with ch False e show ?thesis
    by (cases x) (auto simp: commit_history_def phase_outcome_def push_error_def)
qed

lemma apply_objects_phase:
  assumes sv: "tx_server ev sv" and idle: "idle sv (fst st)" and f: "ar_failed (snd st) = 0"
    and A: "AdoptionRows (map (adopt_record ev) (filter (\<lambda>ob. po_planned_action ob = AdoptExisting) obs)) \<in> A"
    and ao: "apply_objects ev ws obs st = Some st'"
  shows "durable_steps ev sv (planned_units ev ws obs) A
    (committed sv (cn_world (fst st))) (committed sv (cn_world (fst st')))"
proof -
  obtain c r where st: "st = (c, r)" by (cases st)
  let ?U = "planned_units ev ws obs" and ?A = A
  obtain bo r1 where cb: "collect_batches ev obs \<lparr>ba_tx = [], ba_module = [], ba_adopt = []\<rparr> r = (bo, r1)" by fastforce
  note F = collect_batches_fields [OF cb]
  show ?thesis
  proof (cases bo)
    case None
    with ao cb st show ?thesis by (auto simp: apply_objects_def)
  next
    case (Some b)
    obtain ok st1 where ch: "commit_history ev (ba_adopt b) (c, r1) = (ok, st1)" by (metis surj_pair)
    have P: "phase_outcome ev sv ?U ?A (c, r1) st1 \<and> idle sv (fst st1)
        \<and> (ok \<longrightarrow> ar_failed (snd st1) = ar_failed r1) \<and> (\<not> ok \<longrightarrow> ar_failed (snd st1) > 0)"
      using idle F Some st by (intro commit_history_phase [OF sv _ ch]) (auto simp: A)
    then have one: "durable_steps ev sv ?U ?A (committed sv (cn_world c)) (committed sv (cn_world (fst st1)))"
      by (simp add: phase_outcome_def)
    show ?thesis
    proof (cases ok)
      case False
      with ao cb st Some ch one show ?thesis by (auto simp: apply_objects_def)
    next
      case True
      with ao cb st Some ch obtain st2 where fl: "flush_tx ev ws (ba_tx b) st1 = Some st2"
        and rest: "if ar_failed (snd st2) > 0 then st' = st2
                   else apply_modules ev ws (sort_tx_batch (ba_module b)) st2 = Some st'"
        by (auto simp: apply_objects_def split: Option.bind_splits if_splits)
      have sub: "(\<Union>ob \<in> set (ba_tx b). object_units ev ws ob) \<subseteq> ?U" "(\<Union>ob \<in> set (ba_module b). object_units ev ws ob) \<subseteq> ?U"
        using F Some by (auto simp: planned_units_def)
      have "phase_outcome ev sv (\<Union>ob \<in> set (ba_tx b). object_units ev ws ob) {} st1 st2"
        using fl P True F f st Some flush_tx_loop_phase [OF sv, of ws "sort_tx_batch (ba_tx b)" st1 st2]
        by (auto simp: flush_tx_def split: if_splits intro!: phase_outcome_refl)
      with sub(1) have two: "phase_outcome ev sv ?U ?A st1 st2" by (auto elim: phase_outcome_mono)
      show ?thesis
      proof (cases "ar_failed (snd st2) > 0")
        case True
        with rest one two st show ?thesis by (auto simp: phase_outcome_def)
      next
        case False
        with rest two have "durable_steps ev sv (\<Union>ob \<in> set (ba_module b). object_units ev ws ob) {}
            (committed sv (cn_world (fst st2))) (committed sv (cn_world (fst st')))"
          using apply_modules_durable [OF sv, of ws "sort_tx_batch (ba_module b)" st2 st']
          by (auto simp: phase_outcome_def)
        then have "durable_steps ev sv ?U ?A (committed sv (cn_world (fst st2))) (committed sv (cn_world (fst st')))"
          using sub(2) by (auto intro: durable_steps_mono)
        with one two st show ?thesis by (auto simp: phase_outcome_def)
      qed
    qed
  qed
qed

lemma run_phases_durable:
  assumes sv: "tx_server ev sv" and idle: "idle sv c" and rp: "run_phases ev ws plan c = Some (c', r')"
  shows "durable_steps ev sv (planned_units ev ws (mp_objects plan)) (lone_steps ev plan)
    (committed sv (cn_world c)) (committed sv (cn_world c'))"
proof -
  let ?U = "planned_units ev ws (mp_objects plan)" and ?A = "lone_steps ev plan"
  define st1 where "st1 = apply_plan_schemas ev (mp_schemas plan) (c, apply_result_default)"
  have p1: "phase_outcome ev sv ?U ?A (c, apply_result_default) st1"
    unfolding st1_def
    by (rule phase_outcome_mono [OF apply_plan_schemas_phase [OF sv, of _ _ ?A]]) (use idle in \<open>auto simp: lone_steps_def\<close>)
  show ?thesis
  proof (cases "ar_failed (snd st1) > 0")
    case True
    with rp p1 show ?thesis by (simp add: run_phases_def st1_def [symmetric] phase_outcome_def)
  next
    case False
    with rp obtain st2 where tr: "apply_transitions ev ws (mp_objects plan) st1 = Some st2"
      and rest: "if ar_failed (snd st2) > 0 then (c', r') = st2 else apply_objects ev ws (mp_objects plan) st2 = Some (c', r')"
      by (auto simp: run_phases_def st1_def [symmetric] Let_def split: Option.bind_splits if_splits)
    from apply_transitions_phase [OF sv tr] p1 False
    have p2: "phase_outcome ev sv ?U ?A st1 st2"
      by (auto simp: phase_outcome_def planned_units_def elim: durable_steps_mono)
    show ?thesis
    proof (cases "ar_failed (snd st2) > 0")
      case True
      with rest p1 p2 show ?thesis by (auto simp: phase_outcome_def)
    next
      case F: False
      with rest p2 apply_objects_phase [OF sv, of st2 "mp_objects plan" ?A ws "(c', r')"] p1
      show ?thesis by (auto simp: phase_outcome_def lone_steps_def)
    qed
  qed
qed

lemma client_exec_law:
  "tx_server ev sv \<Longrightarrow> client_exec ev s c = (x, c') \<Longrightarrow>
     exec_law sv s (cn_world c) (\<not> isl x) (cn_world c') \<and> cn_live c' = cn_live c"
  by (auto simp: client_exec_def tx_server_def split: prod.splits)

lemma ensure_tables_frame:
  assumes sv: "tx_server ev sv" and e: "ensure_tables ev fp (ac, c) = (x, ac', c')"
  shows "committed sv (cn_world c') = committed sv (cn_world c) \<and> (idle sv c \<longrightarrow> idle sv c')"
proof -
  obtain x1 c1 where e1: "client_exec ev BOOTSTRAP_TABLES c = (x1, c1)" by fastforce
  obtain x2 c2 where e2: "client_exec ev BOOTSTRAP_DRIFT c1 = (x2, c2)" by fastforce
  from e e1 e2 client_exec_law [OF sv e1] client_exec_law [OF sv e2] show ?thesis
    by (auto simp: ensure_tables_def exec_law_def idle_def split: if_splits sum.splits)
qed

lemma history_index_frame:
  assumes sv: "tx_server ev sv" and e: "ensure_history_index ev c = (x, c')"
  shows "committed sv (cn_world c') = committed sv (cn_world c) \<and> (idle sv c \<longrightarrow> \<not> isl x \<longrightarrow> idle sv c')"
  using conn_exec_law [OF sv e [unfolded ensure_history_index_def]]
  by (auto simp: exec_law_def idle_def split: if_splits)

lemma finish_frame:
  assumes sv: "tx_server ev sv" and e: "finish ev cfg r (ac, c) = (x, ac', c')"
  shows "committed sv (cn_world c') = committed sv (cn_world c)"
proof -
  obtain x1 c1 where e1: "conn_exec ev CACHE_INVALIDATE c = (x1, c1)" by fastforce
  have i: "committed sv (cn_world (snd (invalidate_catalog_cache ev b c))) = committed sv (cn_world c)" for b
    using conn_exec_law [OF sv e1] e1
    by (auto simp: invalidate_catalog_cache_def exec_law_def split: if_splits sum.splits)
  have l: "committed sv (cn_world (snd (l1_invalidate_all ev root fp ck))) = committed sv (cn_world ck)" for root fp ck
    using sv by (auto simp: l1_invalidate_all_def tx_server_def Let_def split: prod.splits)
  from e i l show ?thesis by (auto simp: finish_def Let_def split: if_splits)
qed

lemma execute_plan_durable:
  assumes sv: "tx_server ev sv" and idle: "idle sv c"
    and ex: "execute_plan ev cfg ws plan0 (ac, c) = Some (res, plan, ac', c')"
  shows "durable_steps ev sv (planned_units ev ws (mp_objects plan)) (lone_steps ev plan)
    (committed sv (cn_world c)) (committed sv (cn_world c'))"
proof (cases "mp_blocked plan0")
  case True
  with ex show ?thesis by (simp add: execute_plan_def)
next
  case False
  with ex have pl: "ensure_objects_materialized ws plan0 = Some plan"
    by (auto simp: execute_plan_def split: Option.bind_splits prod.splits sum.splits)
  obtain x1 ac1 c1 where e1: "ensure_tables ev (config_fingerprint cfg) (ac, c) = (x1, ac1, c1)" by (metis prod_cases3)
  obtain x2 c2 where e2: "ensure_history_index ev c1 = (x2, c2)" by fastforce
  note F1 = ensure_tables_frame [OF sv e1] and F2 = history_index_frame [OF sv e2]
  show ?thesis
  proof (cases "isl x1 \<or> isl x2")
    case True
    with ex False pl e1 e2 F1 F2 show ?thesis by (cases x1; cases x2) (auto simp: execute_plan_def)
  next
    case F: False
    with ex False pl e1 e2 obtain c3 r where rp: "run_phases ev ws plan c2 = Some (c3, r)"
      and fi: "finish ev cfg r (ac1, c3) = (res, ac', c')"
      by (cases x1; cases x2) (auto simp: execute_plan_def Let_def split: Option.bind_splits prod.splits)
    have "idle sv c2" using F F1 F2 idle by (cases x1; cases x2) auto
    from run_phases_durable [OF sv this rp] finish_frame [OF sv fi] F1 F2 show ?thesis by simp
  qed
qed

end
