(* ===== verification/Apply_Correct.thy ===== *)
theory Apply_Correct
  imports Transactions
begin

section \<open>What applying achieves\<close>

text \<open>
  Three groups of lemmas on the operations of \<open>Apply\<close>: what is recorded when a run succeeds, what
  the counters count, and that retrying modules ends with all of them applied.
\<close>

subsection \<open>What a successful run has recorded\<close>

definition unit_recorded ::
  "'w env \<Rightarrow> ('w, 's) server \<Rightarrow> (string \<times> history_record list) set \<Rightarrow> 'w \<Rightarrow> bool" where
  "unit_recorded ev sv U w \<longleftrightarrow>
     (\<exists>(b, recs) \<in> U. \<exists>p. ev_to_json ev recs = Inr p \<and> p \<in> set (snd (committed sv w)))"

lemma durable_steps_rows: "durable_steps ev sv U A d d' \<Longrightarrow> set (snd d) \<subseteq> set (snd d')"
  by (induction rule: rtranclp_induct) (auto elim!: durable_step.cases)

lemma unit_recorded_keep:
  "unit_recorded ev sv U w \<Longrightarrow> durable_steps ev sv V A (committed sv w) (committed sv w') \<Longrightarrow> unit_recorded ev sv U w'"
  by (fastforce simp: unit_recorded_def dest: durable_steps_rows)

lemma unit_outcome_recorded:
  assumes "unit_outcome ev sv U ok st st'" "ar_failed (snd st') = ar_failed (snd st)"
  shows "unit_recorded ev sv U (cn_world (fst st'))"
proof (cases ok)
  case True
  with assms(1) show ?thesis by (fastforce simp: unit_outcome_def unit_recorded_def)
qed (use assms in \<open>auto simp: unit_outcome_def errors_added_def\<close>)

lemma flush_tx_loop_recorded:
  assumes sv: "tx_server ev sv"
  shows "flush_tx_loop ev ws obs st = Some st' \<Longrightarrow> idle sv (fst st) \<Longrightarrow> ar_failed (snd st) = 0 \<Longrightarrow>
    ar_failed (snd st') = 0 \<Longrightarrow> ob \<in> set obs \<Longrightarrow> unit_recorded ev sv (object_units ev ws ob) (cn_world (fst st'))"
proof (induction obs arbitrary: st)
  case (Cons o1 obs)
  from Cons.prems obtain st1 where ex: "exec_object ev ws o1 st = Some st1" and f: "ar_failed (snd st1) = 0"
    and rest: "flush_tx_loop ev ws obs st1 = Some st'"
    by (auto split: Option.bind_splits if_splits)
  from exec_object_unit [OF sv, of "fst st" ws o1 "snd st" st1] ex Cons.prems(2)
  obtain ok where u: "unit_outcome ev sv (object_units ev ws o1) ok st st1" by auto
  from phase_outcome_unit [OF u Cons.prems(3)] f have i: "idle sv (fst st1)" by (simp add: phase_outcome_def)
  show ?case
  proof (cases "ob \<in> set obs")
    case False
    with Cons.prems(5) unit_outcome_recorded [OF u] f Cons.prems(3)
    have "unit_recorded ev sv (object_units ev ws ob) (cn_world (fst st1))" by auto
    moreover have "durable_steps ev sv (\<Union>ob \<in> set obs. object_units ev ws ob) {} (committed sv (cn_world (fst st1))) (committed sv (cn_world (fst st')))"
      using flush_tx_loop_phase [OF sv rest i f] by (simp add: phase_outcome_def)
    ultimately show ?thesis by (rule unit_recorded_keep)
  qed (use Cons.IH [OF rest i f] Cons.prems in auto)
qed simp

lemma module_round_recorded:
  assumes sv: "tx_server ev sv"
  shows "module_round ev ws pending acc st = Some (Inr ((nxt, progress, fe), c', r')) \<Longrightarrow> idle sv (fst st) \<Longrightarrow>
    set (fst acc) \<subseteq> set nxt \<and> (\<forall>ob \<in> set pending. ob \<in> set nxt \<or> unit_recorded ev sv (object_units ev ws ob) (cn_world c'))"
proof (induction pending arbitrary: acc st)
  case (Cons o1 pending)
  obtain nx pr fe0 where acc: "acc = (nx, pr, fe0)" by (cases acc)
  obtain c r where st: "st = (c, r)" by (cases st)
  from Cons.prems obtain c1 r1 where ex: "exec_object ev ws o1 (c, r) = Some (c1, r1)"
    unfolding acc st by (auto split: Option.bind_splits)
  from exec_object_unit [OF sv _ ex] Cons.prems(2) st obtain ok
    where un: "unit_outcome ev sv (object_units ev ws o1) ok (c, r) (c1, r1)" by auto
  show ?case
  proof (cases "ar_failed r1 = ar_failed r")
    case True
    with un have i: "idle sv c1" by (auto simp: unit_outcome_def errors_added_def split: if_splits)
    from True Cons.prems(1) ex have mr: "module_round ev ws pending (nx, True, fe0) (c1, r1) = Some (Inr ((nxt, progress, fe), c', r'))"
      unfolding acc st by simp
    from unit_outcome_recorded [OF un] True have "unit_recorded ev sv (object_units ev ws o1) (cn_world c1)" by simp
    moreover from module_round_durable [OF sv mr] i
    have "durable_steps ev sv (\<Union>ob \<in> set pending. object_units ev ws ob) {} (committed sv (cn_world c1)) (committed sv (cn_world c'))" by simp
    ultimately have "unit_recorded ev sv (object_units ev ws o1) (cn_world c')" by (rule unit_recorded_keep)
    with Cons.IH [OF mr] i acc show ?thesis by auto
  next
    case False
    with un obtain es where es: "errors_added r r1 es" "idle sv c1 \<or> (\<exists>e \<in> set es. str_contains e ''rollback failed'')"
      by (auto simp: unit_outcome_def split: if_splits)
    then have d: "drop (length (ar_errors r)) (ar_errors r1) = es" by (auto simp: errors_added_def)
    from False Cons.prems(1) ex d have "\<not> (\<exists>e \<in> set es. str_contains e ''rollback failed'')"
      and "\<exists>fe1 r2. module_round ev ws pending (nx @ [o1], pr, fe1) (c1, r2) = Some (Inr ((nxt, progress, fe), c', r'))"
      unfolding acc st by (auto simp: Let_def split: if_splits)
    then obtain fe1 r2 where mr: "module_round ev ws pending (nx @ [o1], pr, fe1) (c1, r2) = Some (Inr ((nxt, progress, fe), c', r'))"
      and i: "idle sv c1" using es(2) by blast
    from Cons.IH [OF mr] i acc show ?thesis by auto
  qed
qed simp

lemma module_round_errors_length:
  "module_round ev ws pending (nx, pr, fe0) st = Some (Inr ((nxt, progress, fe), st')) \<Longrightarrow>
     length nx = length fe0 \<Longrightarrow> length nxt = length fe"
  by (induction ev ws pending "(nx, pr, fe0)" st arbitrary: nx pr fe0 rule: module_round.induct)
    (auto simp: Let_def split: Option.bind_splits if_splits)

lemma module_round_Inl_failed:
  "module_round ev ws pending acc st = Some (Inl st') \<Longrightarrow> ar_failed (snd st') > 0"
  by (induction ev ws pending acc st rule: module_round.induct)
    (auto simp: Let_def push_errors_fields split: Option.bind_splits if_splits)

lemma apply_modules_recorded:
  "tx_server ev sv \<Longrightarrow> apply_modules ev ws pending st = Some st' \<Longrightarrow> idle sv (fst st) \<Longrightarrow>
    ar_failed (snd st) = 0 \<Longrightarrow> ar_failed (snd st') = 0 \<Longrightarrow> ob \<in> set pending \<Longrightarrow>
    unit_recorded ev sv (object_units ev ws ob) (cn_world (fst st'))"
proof (induction ev ws pending st rule: apply_modules.induct)
  case (1 ev ws pending st)
  note sv = "1.prems"(1) and am = "1.prems"(2)
  have ne: "pending \<noteq> []" using "1.prems"(6) by auto
  show ?case
  proof (cases "module_round ev ws pending ([], False, []) st")
    case None
    with am ne show ?thesis by (simp add: apply_modules.simps [of ev ws pending st])
  next
    case mr: (Some res)
    show ?thesis
    proof (cases res)
      case (Inl a)
      with am ne mr have "a = st'" by (simp add: apply_modules.simps [of ev ws pending st])
      with module_round_Inl_failed [OF mr [unfolded Inl]] "1.prems"(5) show ?thesis by simp
    next
      case (Inr b)
      obtain nxt progress fe c r where b: "b = ((nxt, progress, fe), (c, r))" by (cases b) auto
      note D = module_round_durable [OF sv mr "1.prems"(3)]
      note R = module_round_recorded [OF sv mr [unfolded Inr b] "1.prems"(3)]
      from D Inr b "1.prems"(4) have cr: "idle sv c" "ar_failed r = 0" by auto
      show ?thesis
      proof (cases progress)
        case True
        with am ne mr Inr b have am': "apply_modules ev ws nxt (c, r) = Some st'"
          by (simp add: apply_modules.simps [of ev ws pending st])
        show ?thesis
        proof (cases "ob \<in> set nxt")
          case i: True
          show ?thesis
            using "1.IH" [OF ne mr, of b "(nxt, progress, fe)" "(c, r)" nxt "(progress, fe)" progress fe c r]
              sv Inr b True am' cr i "1.prems"(5) by simp
        next
          case False
          with R "1.prems"(6) have "unit_recorded ev sv (object_units ev ws ob) (cn_world c)" by auto
          with apply_modules_durable [OF sv am'] cr show ?thesis by (auto intro: unit_recorded_keep)
        qed
      next
        case F: False
        with am ne mr Inr b have st': "st' = (c, foldl (\<lambda>r e. push_error e r) r fe)"
          by (simp add: apply_modules.simps [of ev ws pending st])
        with "1.prems"(5) have "fe = []" by (simp add: push_errors_fields)
        with module_round_errors_length [OF mr [unfolded Inr b]] have "nxt = []" by simp
        with R "1.prems"(6) st' show ?thesis by auto
      qed
    qed
  qed
qed

lemma apply_object_transitions_recorded:
  assumes sv: "tx_server ev sv"
  shows "apply_object_transitions ev ws ob ps st = Some st' \<Longrightarrow> set ps \<subseteq> set (po_transition_paths ob) \<Longrightarrow>
    idle sv (fst st) \<Longrightarrow> ar_failed (snd st) = 0 \<Longrightarrow> ar_failed (snd st') = 0 \<Longrightarrow> path \<in> set ps \<Longrightarrow>
    unit_recorded ev sv (path_units ev ws ob path) (cn_world (fst st'))"
proof (induction ps arbitrary: st)
  case (Cons p ps)
  from Cons.prems obtain st1 where ex: "apply_one_transition ev ws ob p (ps = []) st = Some st1"
    and f: "ar_failed (snd st1) = 0" and rest: "apply_object_transitions ev ws ob ps st1 = Some st'"
    by (auto split: Option.bind_splits if_splits)
  from apply_one_transition_unit [OF sv, of "fst st" ws ob p "ps = []" "snd st" st1] ex Cons.prems(3)
  obtain ok where u: "unit_outcome ev sv (path_units ev ws ob p) ok st st1" by auto
  from phase_outcome_unit [OF u Cons.prems(4)] f have i: "idle sv (fst st1)" by (simp add: phase_outcome_def)
  from Cons.prems(2) have sub: "set ps \<subseteq> set (po_transition_paths ob)" by simp
  show ?case
  proof (cases "path \<in> set ps")
    case False
    with Cons.prems(6) unit_outcome_recorded [OF u] f Cons.prems(4)
    have "unit_recorded ev sv (path_units ev ws ob path) (cn_world (fst st1))" by auto
    with apply_object_transitions_phase [OF sv rest sub i f] show ?thesis
      by (auto simp: phase_outcome_def intro: unit_recorded_keep)
  qed (use Cons.IH [OF rest sub i f] Cons.prems in auto)
qed simp

lemma apply_transitions_recorded:
  assumes sv: "tx_server ev sv"
  shows "apply_transitions ev ws obs st = Some st' \<Longrightarrow> idle sv (fst st) \<Longrightarrow> ar_failed (snd st) = 0 \<Longrightarrow>
    ar_failed (snd st') = 0 \<Longrightarrow> ob \<in> set obs \<Longrightarrow> po_planned_action ob = ReprocessChanged \<Longrightarrow>
    path \<in> set (po_transition_paths ob) \<Longrightarrow> unit_recorded ev sv (path_units ev ws ob path) (cn_world (fst st'))"
proof (induction obs arbitrary: st)
  case (Cons o1 obs)
  show ?case
  proof (cases "po_planned_action o1 \<noteq> ReprocessChanged \<or> po_transition_paths o1 = []")
    case True
    with Cons.prems have "apply_transitions ev ws obs st = Some st'" "ob \<in> set obs" by auto
    from Cons.IH [OF this(1) _ _ _ this(2)] Cons.prems show ?thesis by simp
  next
    case False
    with Cons.prems obtain st1 where ex: "apply_object_transitions ev ws o1 (po_transition_paths o1) st = Some st1"
      and f: "ar_failed (snd st1) = 0" and rest: "apply_transitions ev ws obs st1 = Some st'"
      by (auto split: Option.bind_splits if_splits)
    from apply_object_transitions_phase [OF sv ex subset_refl Cons.prems(2,3)] f
    have i: "idle sv (fst st1)" by (simp add: phase_outcome_def)
    show ?thesis
    proof (cases "ob \<in> set obs")
      case F: False
      with Cons.prems(5,7) apply_object_transitions_recorded [OF sv ex subset_refl Cons.prems(2,3) f]
      have "unit_recorded ev sv (path_units ev ws ob path) (cn_world (fst st1))" by auto
      with apply_transitions_phase [OF sv rest i f] show ?thesis
        by (auto simp: phase_outcome_def intro: unit_recorded_keep)
    qed (use Cons.IH [OF rest i f] Cons.prems in auto)
  qed
qed simp

lemma apply_objects_recorded:
  assumes sv: "tx_server ev sv" and idle: "idle sv (fst st)" and f: "ar_failed (snd st) = 0"
    and ao: "apply_objects ev ws obs st = Some st'" and ok: "ar_failed (snd st') = 0"
    and ob: "ob \<in> set obs" "should_apply ob"
  shows "unit_recorded ev sv (object_units ev ws ob) (cn_world (fst st'))"
proof -
  obtain c r where st: "st = (c, r)" by (cases st)
  obtain bo r1 where cb: "collect_batches ev obs \<lparr>ba_tx = [], ba_module = [], ba_adopt = []\<rparr> r = (bo, r1)" by fastforce
  note F = collect_batches_fields [OF cb]
  from F ao cb st ok obtain b where b: "bo = Some b" by (cases bo) (auto simp: apply_objects_def)
  obtain k st1 where ch: "commit_history ev (ba_adopt b) (c, r1) = (k, st1)" by (metis surj_pair)
  have P: "phase_outcome ev sv {} UNIV (c, r1) st1 \<and> idle sv (fst st1)
      \<and> (k \<longrightarrow> ar_failed (snd st1) = ar_failed r1) \<and> (\<not> k \<longrightarrow> ar_failed (snd st1) > 0)"
    using idle st by (intro commit_history_phase [OF sv _ ch]) auto
  with ao cb st b ch ok have k: k by (cases k) (auto simp: apply_objects_def)
  with P F b f st have st1: "idle sv (fst st1)" "ar_failed (snd st1) = 0" by auto
  from ao cb st b ch k ok obtain st2 where fl: "flush_tx ev ws (ba_tx b) st1 = Some st2" and f2: "ar_failed (snd st2) = 0"
    and am: "apply_modules ev ws (sort_tx_batch (ba_module b)) st2 = Some st'"
    by (auto simp: apply_objects_def split: Option.bind_splits if_splits)
  have i2: "idle sv (fst st2)"
    using fl st1 f2 flush_tx_loop_phase [OF sv, of ws "sort_tx_batch (ba_tx b)" st1 st2]
    by (auto simp: flush_tx_def phase_outcome_def split: if_splits)
  consider "ob \<in> set (ba_tx b)" | "ob \<in> set (ba_module b)" using F b ob by auto
  then show ?thesis
  proof cases
    case 1
    with fl have "flush_tx_loop ev ws (sort_tx_batch (ba_tx b)) st1 = Some st2" by (cases "ba_tx b") (simp_all add: flush_tx_def)
    from flush_tx_loop_recorded [OF sv this st1 f2] 1
    have "unit_recorded ev sv (object_units ev ws ob) (cn_world (fst st2))" by simp
    with apply_modules_durable [OF sv am i2] show ?thesis by (auto intro: unit_recorded_keep)
  next
    case 2
    with apply_modules_recorded [OF sv am i2 f2 ok] show ?thesis by simp
  qed
qed

lemma execute_plan_phases:
  assumes sv: "tx_server ev sv" and idle: "idle sv c"
    and ex: "execute_plan ev cfg ws plan0 (ac, c) = Some (Inr res, plan, ac', c')"
  obtains c1 st1 st2 c3 where "idle sv c1" "st1 = apply_plan_schemas ev (mp_schemas plan) (c1, apply_result_default)"
    "ar_failed (snd st1) = 0" "idle sv (fst st1)"
    "apply_transitions ev ws (mp_objects plan) st1 = Some st2" "ar_failed (snd st2) = 0" "idle sv (fst st2)"
    "apply_objects ev ws (mp_objects plan) st2 = Some (c3, res)" "ar_failed res = 0"
    "committed sv (cn_world c') = committed sv (cn_world c3)"
proof -
  from ex have bl: "\<not> mp_blocked plan0" by (auto simp: execute_plan_def)
  with ex have pl: "ensure_objects_materialized ws plan0 = Some plan"
    by (auto simp: execute_plan_def split: Option.bind_splits prod.splits sum.splits)
  obtain x1 ac1 c1 where e1: "ensure_tables ev (config_fingerprint cfg) (ac, c) = (x1, ac1, c1)" by (metis prod_cases3)
  obtain x2 c2 where e2: "ensure_history_index ev c1 = (x2, c2)" by fastforce
  note F1 = ensure_tables_frame [OF sv e1] and F2 = history_index_frame [OF sv e2]
  from ex bl pl e1 e2 obtain c3 r where rp: "run_phases ev ws plan c2 = Some (c3, r)"
    and fi: "finish ev cfg r (ac1, c3) = (Inr res, ac', c')" and i2: "idle sv c2"
    using F1 F2 idle
    by (cases x1; cases x2) (auto simp: execute_plan_def Let_def split: Option.bind_splits prod.splits)
  from fi have r: "res = r" "ar_failed r = 0" by (auto simp: finish_def Let_def split: if_splits)
  define st1 where "st1 = apply_plan_schemas ev (mp_schemas plan) (c2, apply_result_default)"
  from apply_plan_schemas_phase [OF sv, of "(c2, apply_result_default)" "mp_schemas plan" UNIV] i2
  have p1: "phase_outcome ev sv {} UNIV (c2, apply_result_default) st1" by (simp add: st1_def)
  from rp r(2) obtain st2 where s: "ar_failed (snd st1) = 0" "apply_transitions ev ws (mp_objects plan) st1 = Some st2"
    "ar_failed (snd st2) = 0" "apply_objects ev ws (mp_objects plan) st2 = Some (c3, r)"
    by (auto simp: run_phases_def st1_def [symmetric] Let_def split: Option.bind_splits if_splits)
  from p1 s(1) have i1: "idle sv (fst st1)" by (simp add: phase_outcome_def)
  from apply_transitions_phase [OF sv s(2) i1 s(1)] s(3) have "idle sv (fst st2)" by (simp add: phase_outcome_def)
  from that [OF i2 st1_def s(1) i1 s(2,3) this] s(4) r finish_frame [OF sv fi] show thesis by simp
qed

lemma execute_plan_recorded:
  assumes sv: "tx_server ev sv" and idle: "idle sv c"
    and ex: "execute_plan ev cfg ws plan0 (ac, c) = Some (Inr res, plan, ac', c')"
  shows "(\<forall>ob \<in> set (mp_objects plan). should_apply ob \<longrightarrow> unit_recorded ev sv (object_units ev ws ob) (cn_world c'))
    \<and> (\<forall>ob \<in> set (mp_objects plan). po_planned_action ob = ReprocessChanged \<longrightarrow>
         (\<forall>path \<in> set (po_transition_paths ob). unit_recorded ev sv (path_units ev ws ob path) (cn_world c')))"
proof -
  from execute_plan_phases [OF assms] obtain c1 st1 st2 c3 where p: "ar_failed (snd st1) = 0" "idle sv (fst st1)"
    "apply_transitions ev ws (mp_objects plan) st1 = Some st2" "ar_failed (snd st2) = 0" "idle sv (fst st2)"
    "apply_objects ev ws (mp_objects plan) st2 = Some (c3, res)" "ar_failed res = 0"
    "committed sv (cn_world c') = committed sv (cn_world c3)" by metis
  have eq: "unit_recorded ev sv U (cn_world c') = unit_recorded ev sv U (cn_world c3)" for U
    using p(8) by (simp add: unit_recorded_def)
  have keep: "unit_recorded ev sv U (cn_world (fst st2)) \<Longrightarrow> unit_recorded ev sv U (cn_world c3)" for U
    using apply_objects_phase [OF sv p(5,4) _ p(6), of UNIV] by (auto intro: unit_recorded_keep)
  from apply_objects_recorded [OF sv p(5,4,6)] p(7) apply_transitions_recorded [OF sv p(3,2,1,4)]
  show ?thesis unfolding eq by (auto intro!: keep)
qed

subsection \<open>What the counters count\<close>

lemma rollback_fields:
  "rollback ev label err (c, r) = (c', r') \<Longrightarrow>
     ar_failed r' > ar_failed r \<and> ar_applied r' = ar_applied r \<and> ar_skipped r' = ar_skipped r"
  by (auto simp: rollback_def push_error_def split: prod.splits sum.splits)

lemma apply_in_tx_counts:
  assumes "apply_in_tx ev body recs label (c, r) = (ok, c', r')"
  shows "(ok \<longleftrightarrow> ar_failed r' = ar_failed r) \<and> ar_failed r' \<ge> ar_failed r
    \<and> ar_applied r' = ar_applied r \<and> ar_skipped r' = ar_skipped r"
  using assms
  by (auto simp: apply_in_tx_def split: sum.splits prod.splits dest!: rollback_fields [OF sym]
      intro: less_imp_le dest: rollback_fields)

definition counted :: "nat \<Rightarrow> nat \<Rightarrow> apply_result \<Rightarrow> apply_result \<Rightarrow> bool" where
  "counted n k r r' \<longleftrightarrow> ar_applied r' = ar_applied r + n \<and> ar_skipped r' = ar_skipped r + k"

lemma exec_object_counts:
  assumes "exec_object ev ws ob (c, r) = Some (c', r')"
  shows "ar_failed r' \<ge> ar_failed r \<and> counted (if ar_failed r' = ar_failed r then 1 else 0) 0 r r'"
proof -
  from assms obtain body_or where rd: "read_script ev (cn_world c) ws ob = Some body_or"
    by (auto simp: exec_object_def split: Option.bind_splits)
  show ?thesis
  proof (cases body_or)
    case (Inl msg)
    with assms rd show ?thesis by (auto simp: exec_object_def push_error_def counted_def)
  next
    case (Inr body)
    with assms rd obtain recs ok c1 r1 where ap: "apply_in_tx ev body recs (po_normalized_key ob) (c, r) = (ok, c1, r1)"
      and st': "r' = (if ok then inc_applied r1 else r1)"
      by (auto simp: exec_object_def split: Option.bind_splits bool.splits prod.splits)
    from apply_in_tx_counts [OF ap] st' show ?thesis
      by (cases ok) (auto simp: inc_applied_def counted_def)
  qed
qed

lemma apply_one_transition_counts:
  assumes "apply_one_transition ev ws ob path l (c, r) = Some (c', r')"
  shows "ar_failed r' \<ge> ar_failed r \<and> counted (if ar_failed r' = ar_failed r then 1 else 0) 0 r r'"
proof (cases "find_by_candidates ws (po_database_name ob) path")
  case None
  with assms show ?thesis by (auto simp: apply_one_transition_def push_error_def counted_def)
next
  case (Some sid)
  let ?cs = "unwrap_or (script_checksum ws sid) (po_checksum ob)"
  from assms Some obtain apath where ap: "script_abs_path ws sid = Some apath"
    by (auto simp: apply_one_transition_def Let_def split: Option.bind_splits)
  show ?thesis
  proof (cases "verified_body ev (cn_world c) apath ?cs path")
    case (Inl msg)
    with assms Some ap show ?thesis by (auto simp: apply_one_transition_def push_error_def counted_def)
  next
    case (Inr body)
    with assms Some ap obtain recs ok c1 r1 where tx: "apply_in_tx ev body recs path (c, r) = (ok, c1, r1)"
      and st': "r' = (if ok then inc_applied r1 else r1)"
      by (auto simp: apply_one_transition_def Let_def split: Option.bind_splits bool.splits prod.splits)
    from apply_in_tx_counts [OF tx] st' show ?thesis by (cases ok) (auto simp: inc_applied_def counted_def)
  qed
qed

lemma flush_tx_loop_counts:
  "flush_tx_loop ev ws obs st = Some st' \<Longrightarrow> ar_failed (snd st') = 0 \<Longrightarrow> counted (length obs) 0 (snd st) (snd st')"
proof (induction obs arbitrary: st)
  case (Cons ob obs)
  obtain c r where st: "st = (c, r)" by (cases st)
  from Cons.prems st obtain c1 r1 where ex: "exec_object ev ws ob (c, r) = Some (c1, r1)" "ar_failed r1 = 0"
    and rest: "flush_tx_loop ev ws obs (c1, r1) = Some st'" by (auto split: Option.bind_splits if_splits)
  from exec_object_counts [OF ex(1)] ex(2) Cons.IH [OF rest] Cons.prems(2) st show ?case by (auto simp: counted_def)
qed (simp add: counted_def)

lemma apply_object_transitions_counts:
  "apply_object_transitions ev ws ob ps st = Some st' \<Longrightarrow> ar_failed (snd st') = 0 \<Longrightarrow> counted (length ps) 0 (snd st) (snd st')"
proof (induction ps arbitrary: st)
  case (Cons p ps)
  obtain c r where st: "st = (c, r)" by (cases st)
  from Cons.prems st obtain c1 r1 where ex: "apply_one_transition ev ws ob p (ps = []) (c, r) = Some (c1, r1)" "ar_failed r1 = 0"
    and rest: "apply_object_transitions ev ws ob ps (c1, r1) = Some st'" by (auto split: Option.bind_splits if_splits)
  from apply_one_transition_counts [OF ex(1)] ex(2) Cons.IH [OF rest] Cons.prems(2) st show ?case by (auto simp: counted_def)
qed (simp add: counted_def)

definition transition_count :: "planned_object list \<Rightarrow> nat" where
  "transition_count obs =
     sum_list (map (\<lambda>ob. length (po_transition_paths ob)) (filter (\<lambda>ob. po_planned_action ob = ReprocessChanged) obs))"

lemma apply_transitions_counts:
  "apply_transitions ev ws obs st = Some st' \<Longrightarrow> ar_failed (snd st') = 0 \<Longrightarrow> counted (transition_count obs) 0 (snd st) (snd st')"
proof (induction obs arbitrary: st)
  case (Cons ob obs)
  show ?case
  proof (cases "po_planned_action ob \<noteq> ReprocessChanged \<or> po_transition_paths ob = []")
    case True
    with Cons.prems Cons.IH [of st] show ?thesis by (auto simp: transition_count_def)
  next
    case False
    with Cons.prems obtain st1 where ex: "apply_object_transitions ev ws ob (po_transition_paths ob) st = Some st1"
      and f: "ar_failed (snd st1) = 0" and rest: "apply_transitions ev ws obs st1 = Some st'"
      by (auto split: Option.bind_splits if_splits)
    from apply_object_transitions_counts [OF ex f] Cons.IH [OF rest Cons.prems(2)] False show ?thesis
      by (auto simp: counted_def transition_count_def)
  qed
qed (simp add: counted_def transition_count_def)

lemma apply_plan_schemas_counts:
  "ar_failed (snd (apply_plan_schemas ev ss st)) = 0 \<Longrightarrow>
     counted (length (filter (\<lambda>s. ps_action s = CreateSchema) ss)) (length (filter (\<lambda>s. ps_action s \<noteq> CreateSchema) ss))
       (snd st) (snd (apply_plan_schemas ev ss st))"
  by (induction ev ss st rule: apply_plan_schemas.induct)
    (auto simp: counted_def inc_skipped_def inc_applied_def push_error_def split: sum.splits prod.splits)

lemma module_round_counts:
  "module_round ev ws pending acc (c, r) = Some (Inr ((nxt, progress, fe), c', r')) \<Longrightarrow>
     counted (length (fst acc) + length pending - length nxt) 0 r r' \<and> length nxt \<le> length (fst acc) + length pending
     \<and> length (fst acc) \<le> length nxt \<and> ar_failed r' = ar_failed r"
proof (induction pending arbitrary: acc c r)
  case (Cons ob pending)
  obtain nx pr fe0 where acc: "acc = (nx, pr, fe0)" by (cases acc)
  from Cons.prems obtain c1 r1 where ex: "exec_object ev ws ob (c, r) = Some (c1, r1)"
    unfolding acc by (auto split: Option.bind_splits)
  note E = exec_object_counts [OF ex]
  show ?case
  proof (cases "ar_failed r1 = ar_failed r")
    case True
    with Cons.prems ex acc have "module_round ev ws pending (nx, True, fe0) (c1, r1) = Some (Inr ((nxt, progress, fe), c', r'))" by simp
    from Cons.IH [OF this] True E acc show ?thesis by (auto simp: counted_def)
  next
    case False
    with Cons.prems ex acc obtain fe1 where
      "module_round ev ws pending (nx @ [ob], pr, fe1)
         (c1, r1\<lparr>ar_errors := take (length (ar_errors r)) (ar_errors r1), ar_failed := ar_failed r\<rparr>)
       = Some (Inr ((nxt, progress, fe), c', r'))"
      by (auto simp: Let_def split: if_splits)
    from Cons.IH [OF this] False E acc show ?thesis by (auto simp: counted_def)
  qed
qed (auto simp: counted_def)

lemma apply_modules_counts:
  "apply_modules ev ws pending st = Some st' \<Longrightarrow> ar_failed (snd st') = 0 \<Longrightarrow> counted (length pending) 0 (snd st) (snd st')"
proof (induction ev ws pending st rule: apply_modules.induct)
  case (1 ev ws pending st)
  show ?case
  proof (cases "pending = []")
    case True
    with "1.prems" show ?thesis by (simp add: apply_modules.simps [of ev ws "[]" st] counted_def)
  next
    case ne: False
    with "1.prems" obtain nxt progress fe c r where
      mr: "module_round ev ws pending ([], False, []) st = Some (Inr ((nxt, progress, fe), (c, r)))"
      and rest: "if \<not> progress then st' = (c, foldl (\<lambda>r e. push_error e r) r fe) else apply_modules ev ws nxt (c, r) = Some st'"
      by (auto simp: apply_modules.simps [of ev ws pending st] split: option.splits sum.splits prod.splits if_splits
          dest!: module_round_Inl_failed)
    have M: "counted (length pending - length nxt) 0 (snd st) r \<and> length nxt \<le> length pending"
      using module_round_counts [of ev ws pending "([], False, [])" "fst st" "snd st"] mr by simp
    show ?thesis
    proof (cases progress)
      case True
      with rest have am: "apply_modules ev ws nxt (c, r) = Some st'" by simp
      from "1.IH" [OF ne mr, of "((nxt, progress, fe), (c, r))" "(nxt, progress, fe)" "(c, r)" nxt "(progress, fe)" progress fe c r]
        True am "1.prems"(2) M show ?thesis by (auto simp: counted_def)
    next
      case False
      with rest "1.prems"(2) have "fe = []" "st' = (c, r)" by (auto simp: push_errors_fields)
      with module_round_errors_length [OF mr] M show ?thesis by (auto simp: counted_def)
    qed
  qed
qed

lemma collect_batches_skipped:
  "collect_batches ev obs b r = (Some b', r') \<Longrightarrow>
     counted 0 (length (filter (\<lambda>ob. po_planned_action ob = AdoptExisting \<or> should_count_skip ob) obs)) r r'"
proof (induction ev obs b r rule: collect_batches.induct)
  case (2 ev ob obs b r)
  then show ?case
    by (cases "po_planned_action ob")
      (auto simp: counted_def inc_skipped_def should_apply_def should_count_skip_def split: if_splits)
qed (simp add: counted_def)

lemma length_sort_tx_batch [simp]: "length (sort_tx_batch b) = length b"
  by (simp add: sort_tx_batch_def)

lemma filter_split_length:
  "length (filter (\<lambda>x. P x \<and> Q x) xs) + length (filter (\<lambda>x. P x \<and> \<not> Q x) xs) = length (filter P xs)"
  by (induction xs) auto

lemma commit_history_counts:
  "commit_history ev recs (c, r) = (ok, c', r') \<Longrightarrow> counted 0 0 r r' \<and> (\<not> ok \<longrightarrow> ar_failed r' > 0)"
  by (auto simp: commit_history_def counted_def push_error_def split: if_splits sum.splits prod.splits)

lemma apply_objects_counts:
  assumes ao: "apply_objects ev ws obs st = Some st'" and ok: "ar_failed (snd st') = 0"
  shows "counted (length (filter should_apply obs))
    (length (filter (\<lambda>ob. po_planned_action ob = AdoptExisting \<or> should_count_skip ob) obs)) (snd st) (snd st')"
proof -
  obtain c r where st: "st = (c, r)" by (cases st)
  obtain bo r1 where cb: "collect_batches ev obs \<lparr>ba_tx = [], ba_module = [], ba_adopt = []\<rparr> r = (bo, r1)" by fastforce
  note F = collect_batches_fields [OF cb]
  from F ao cb st ok obtain b where b: "bo = Some b" by (cases bo) (auto simp: apply_objects_def)
  obtain k c1 r2 where ch: "commit_history ev (ba_adopt b) (c, r1) = (k, c1, r2)" by (metis prod_cases3)
  note H = commit_history_counts [OF ch]
  with ao cb st b ch ok have k: k by (cases k) (auto simp: apply_objects_def)
  from ao cb st b ch k ok obtain st2 where fl: "flush_tx ev ws (ba_tx b) (c1, r2) = Some st2" and f2: "ar_failed (snd st2) = 0"
    and am: "apply_modules ev ws (sort_tx_batch (ba_module b)) st2 = Some st'"
    by (auto simp: apply_objects_def split: Option.bind_splits if_splits)
  have T: "counted (length (ba_tx b)) 0 r2 (snd st2)"
    using fl f2 flush_tx_loop_counts [of ev ws "sort_tx_batch (ba_tx b)" "(c1, r2)" st2]
    by (auto simp: flush_tx_def counted_def split: if_splits)
  from apply_modules_counts [OF am ok] T H collect_batches_skipped [OF cb [unfolded b]] F b st
    filter_split_length [of should_apply "\<lambda>ob. is_transactional_kind (po_kind ob)" obs]
  show ?thesis by (auto simp: counted_def)
qed

lemma run_phases_counts:
  assumes "run_phases ev ws plan c = Some (c', r)" "ar_failed r = 0"
  shows "ar_applied r = length (filter (\<lambda>s. ps_action s = CreateSchema) (mp_schemas plan)) + transition_count (mp_objects plan)
           + length (filter should_apply (mp_objects plan))
    \<and> ar_skipped r = length (filter (\<lambda>s. ps_action s \<noteq> CreateSchema) (mp_schemas plan))
           + length (filter (\<lambda>ob. po_planned_action ob = AdoptExisting \<or> should_count_skip ob) (mp_objects plan))"
proof -
  define st1 where "st1 = apply_plan_schemas ev (mp_schemas plan) (c, apply_result_default)"
  from assms obtain st2 where s: "ar_failed (snd st1) = 0" "apply_transitions ev ws (mp_objects plan) st1 = Some st2"
    "ar_failed (snd st2) = 0" "apply_objects ev ws (mp_objects plan) st2 = Some (c', r)"
    by (auto simp: run_phases_def st1_def [symmetric] Let_def split: Option.bind_splits if_splits)
  from apply_plan_schemas_counts [OF s(1) [unfolded st1_def]] apply_transitions_counts [OF s(2,3)] apply_objects_counts [OF s(4)]
    assms(2) show ?thesis by (auto simp: counted_def st1_def apply_result_default_def)
qed

subsection \<open>Retrying modules\<close>

text \<open>
  A server that executes a batch inside a transaction exactly when the batches it needs are
  present, and otherwise answers every call at once.
\<close>

definition same_files :: "'w env \<Rightarrow> 'w \<Rightarrow> 'w \<Rightarrow> bool" where
  "same_files ev w w' \<longleftrightarrow> ev_read ev w' = ev_read ev w"

definition answers :: "'w env \<Rightarrow> 'w \<Rightarrow> stmt \<Rightarrow> bool" where
  "answers ev w s \<longleftrightarrow> (\<exists>w'. ev_exec ev w s = (False, Inr (), w') \<and> same_files ev w w')"

definition dependency_server ::
  "'w env \<Rightarrow> ('w, 's) server \<Rightarrow> ('s \<Rightarrow> string set) \<Rightarrow> (string \<Rightarrow> string set) \<Rightarrow> bool" where
  "dependency_server ev sv present needs \<longleftrightarrow>
     (\<forall>w. depth sv w = 0 \<longrightarrow> answers ev w BEGIN_TX)
     \<and> (\<forall>w b. depth sv w = 1 \<longrightarrow>
          (\<exists>r w'. ev_exec ev w (Text b) = (False, r, w') \<and> same_files ev w w' \<and> (\<not> isl r \<longrightarrow> depth sv w' = 1)
             \<and> (\<not> isl r \<longleftrightarrow> needs b \<subseteq> present (fst (working sv w)))))
     \<and> (\<forall>w. depth sv w = 1 \<longrightarrow> answers ev w ASSERT_OPEN_TX \<and> answers ev w COMMIT_TX)
     \<and> (\<forall>w p. depth sv w = 1 \<longrightarrow>
          (\<exists>rows w'. ev_query ev w INSERT_HISTORY [p] = (False, Inr rows, w') \<and> same_files ev w w'))
     \<and> (\<forall>w. answers ev w ROLLBACK)
     \<and> (\<forall>b s. present (effect sv b s) = insert b (present s) \<and> \<not> escaping sv b)
     \<and> (\<forall>recs. \<not> isl (ev_to_json ev recs))"

lemma dependency_serverD:
  assumes "dependency_server ev sv present needs"
  shows "depth sv w = 0 \<Longrightarrow> answers ev w BEGIN_TX"
    and "depth sv w = 1 \<Longrightarrow> answers ev w ASSERT_OPEN_TX"
    and "depth sv w = 1 \<Longrightarrow> answers ev w COMMIT_TX"
    and "answers ev w ROLLBACK"
    and "present (effect sv b s) = insert b (present s)" and "\<not> escaping sv b"
    and "\<exists>p. ev_to_json ev recs = Inr p"
  using assms by (auto simp: dependency_server_def) (metis isl_def sum.exhaust)

lemma conn_exec_answers:
  assumes "answers ev (cn_world c) s" "cn_live c"
  obtains c' where "conn_exec ev s c = (Inr (), c')" "cn_live c'" "same_files ev (cn_world c) (cn_world c')"
  using assms by (auto simp: answers_def conn_exec_def run_bounded_def)

definition ready :: "('w, 's) server \<Rightarrow> 'w conn \<Rightarrow> bool" where
  "ready sv c \<longleftrightarrow> cn_live c \<and> depth sv (cn_world c) = 0"

lemma same_files_trans: "same_files ev w1 w2 \<Longrightarrow> same_files ev w2 w3 \<Longrightarrow> same_files ev w1 w3"
  by (simp add: same_files_def)

lemma apply_in_tx_dependency:
  assumes sv: "tx_server ev sv" and dep: "dependency_server ev sv present needs" and c: "ready sv c"
    and recs: "recs \<noteq> []"
  obtains (applied) c' where "needs b \<subseteq> present (fst (committed sv (cn_world c)))"
      "apply_in_tx ev b recs label (c, r) = (True, c', r\<lparr>ar_wrote_history := True\<rparr>)" "ready sv c'"
      "same_files ev (cn_world c) (cn_world c')"
      "present (fst (committed sv (cn_world c'))) = insert b (present (fst (committed sv (cn_world c))))"
  | (refused) c' e where "\<not> needs b \<subseteq> present (fst (committed sv (cn_world c)))"
      "apply_in_tx ev b recs label (c, r) = (False, c', push_error (label @ '': '' @ error_to_string e) r)" "ready sv c'"
      "same_files ev (cn_world c) (cn_world c')" "committed sv (cn_world c') = committed sv (cn_world c)"
      "\<exists>w1 w2. ev_exec ev w1 (Text b) = (False, Inl e, w2)"
proof -
  note D = dependency_serverD [OF dep]
  from c have c0: "cn_live c" "depth sv (cn_world c) = 0" by (auto simp: ready_def)
  obtain c1 where e1: "conn_exec ev BEGIN_TX c = (Inr (), c1)" and l1: "cn_live c1" and f1: "same_files ev (cn_world c) (cn_world c1)"
    by (rule conn_exec_answers [OF D(1) [OF c0(2)] c0(1)])
  from conn_exec_law [OF sv e1] c0 have w1: "depth sv (cn_world c1) = 1" "working sv (cn_world c1) = committed sv (cn_world c)"
    "committed sv (cn_world c1) = committed sv (cn_world c)"
    by (auto simp: exec_law_def)
  from dep w1(1) obtain x w2 where x: "ev_exec ev (cn_world c1) (Text b) = (False, x, w2)" "same_files ev (cn_world c1) w2"
    "\<not> isl x \<longrightarrow> depth sv w2 = 1" "\<not> isl x \<longleftrightarrow> needs b \<subseteq> present (fst (working sv (cn_world c1)))"
    unfolding dependency_server_def by blast
  define c2 where "c2 = c1\<lparr>cn_world := w2, cn_exec_calls := cn_exec_calls c1 + 1\<rparr>"
  from x(1) l1 have e2: "conn_exec ev (Text b) c1 = (x, c2)" by (simp add: conn_exec_def run_bounded_def c2_def)
  have c2: "cn_live c2" "cn_world c2 = w2" using l1 by (simp_all add: c2_def)
  note L2 = conn_exec_law [OF sv e2]
  show thesis
  proof (cases x)
    case (Inl e)
    obtain c3 where e3: "conn_exec ev ROLLBACK c2 = (Inr (), c3)" and l3: "cn_live c3" and f3: "same_files ev (cn_world c2) (cn_world c3)"
      by (rule conn_exec_answers [OF D(4) c2(1)])
    from conn_exec_law [OF sv e3] c2 have w3: "depth sv (cn_world c3) = 0" "committed sv (cn_world c3) = committed sv w2"
      by (auto simp: exec_law_def)
    from L2 l1 w1 D(6) c2(2) have "committed sv w2 = committed sv (cn_world c)" by (auto simp: exec_law_def)
    with w3 have cm: "committed sv (cn_world c3) = committed sv (cn_world c)" by simp
    have ap: "apply_in_tx ev b recs label (c, r) = (False, c3, push_error (label @ '': '' @ error_to_string e) r)"
      using e1 e2 e3 Inl by (simp add: apply_in_tx_def rollback_def)
    from refused [OF _ ap _ _ cm] x Inl w1(2) w3 l3 f1 f3 c2(2) show thesis by (auto simp: ready_def same_files_def)
  next
    case (Inr u)
    with x(3) c2(2) have d2: "depth sv (cn_world c2) = 1" by simp
    obtain c3 where e3: "conn_exec ev ASSERT_OPEN_TX c2 = (Inr (), c3)" and l3: "cn_live c3"
      and f3: "same_files ev (cn_world c2) (cn_world c3)"
      by (rule conn_exec_answers [OF D(2) [OF d2] c2(1)])
    from conn_exec_law [OF sv e3] c2 have w3: "depth sv (cn_world c3) = 1" "working sv (cn_world c3) = working sv w2"
      by (auto simp: exec_law_def)
    obtain p where p: "ev_to_json ev recs = Inr p" using D(7) by blast
    from dep w3(1) obtain rows w4 where q: "ev_query ev (cn_world c3) INSERT_HISTORY [p] = (False, Inr rows, w4)"
      "same_files ev (cn_world c3) w4" unfolding dependency_server_def by blast
    define c4 where "c4 = c3\<lparr>cn_world := w4, cn_query_calls := cn_query_calls c3 + 1\<rparr>"
    from q(1) l3 recs p have e4: "flush_history ev recs c3 = (Inr (), c4)"
      by (simp add: flush_history_def conn_query_def run_bounded_def c4_def)
    have c4: "cn_live c4" "cn_world c4 = w4" using l3 by (simp_all add: c4_def)
    from flush_history_law [OF sv e4 recs] p w3 c4 have w4: "depth sv (cn_world c4) = 1"
      "working sv (cn_world c4) = (fst (working sv w2), snd (working sv w2) @ [p])"
      by (auto simp: insert_law_def)
    obtain c5 where e5: "conn_exec ev COMMIT_TX c4 = (Inr (), c5)" and l5: "cn_live c5"
      and f5: "same_files ev (cn_world c4) (cn_world c5)"
      by (rule conn_exec_answers [OF D(3) [OF w4(1)] c4(1)])
    from conn_exec_law [OF sv e5] c4 w4 have w5: "depth sv (cn_world c5) = 0" "committed sv (cn_world c5) = working sv w4"
      by (auto simp: exec_law_def)
    from L2 l1 w1 Inr d2 have "fst (working sv w2) = effect sv b (fst (committed sv (cn_world c)))"
      using c2(2) by (auto simp: exec_law_def)
    with w5(2) w4(2) c4(2) D(5) have pr: "present (fst (committed sv (cn_world c5))) = insert b (present (fst (committed sv (cn_world c))))"
      by simp
    have ap: "apply_in_tx ev b recs label (c, r) = (True, c5, r\<lparr>ar_wrote_history := True\<rparr>)"
      using e1 e2 e3 e4 e5 Inr recs by (simp add: apply_in_tx_def)
    from applied [OF _ ap _ _ pr] x Inr w1(2) w5(1) l5 f1 f3 q(2) f5 c2(2) c4(2) show thesis
      by (auto simp: ready_def same_files_def)
  qed
qed

lemma read_script_same_files: "same_files ev w w' \<Longrightarrow> read_script ev w' ws ob = read_script ev w ws ob"
proof -
  assume "same_files ev w w'"
  then have "verified_body ev w' = verified_body ev w" by (intro ext) (simp add: verified_body_def same_files_def)
  then show ?thesis unfolding read_script_def by (rule arg_cong)
qed

text \<open>The modules that wait: what each file holds, and that the records can be built.\<close>

definition modules_at :: "'w env \<Rightarrow> workspace \<Rightarrow> 'w \<Rightarrow> (planned_object \<Rightarrow> string) \<Rightarrow> planned_object list \<Rightarrow> bool" where
  "modules_at ev ws w body obs \<longleftrightarrow>
     (\<forall>ob \<in> set obs. read_script ev w ws ob = Some (Inr (body ob)) \<and> object_records ev ws ob \<noteq> None
        \<and> (\<forall>w1 e w2. ev_exec ev w1 (Text (body ob)) = (False, Inl e, w2) \<longrightarrow>
             \<not> str_contains (po_normalized_key ob @ '': '' @ error_to_string e) ''rollback failed''))"

lemma modules_at_same_files: "same_files ev w w' \<Longrightarrow> modules_at ev ws w body obs \<Longrightarrow> modules_at ev ws w' body obs"
  by (simp add: modules_at_def read_script_same_files)

lemma exec_object_dependency:
  assumes sv: "tx_server ev sv" and dep: "dependency_server ev sv present needs" and c: "ready sv c"
    and ob: "modules_at ev ws (cn_world c) body [ob]"
  obtains (applied) c' r' where "needs (body ob) \<subseteq> present (fst (committed sv (cn_world c)))"
      "exec_object ev ws ob (c, r) = Some (c', r')" "ready sv c'" "same_files ev (cn_world c) (cn_world c')"
      "present (fst (committed sv (cn_world c'))) = insert (body ob) (present (fst (committed sv (cn_world c))))"
      "ar_failed r' = ar_failed r"
  | (refused) c' msg where "\<not> needs (body ob) \<subseteq> present (fst (committed sv (cn_world c)))"
      "exec_object ev ws ob (c, r) = Some (c', push_error msg r)" "ready sv c'"
      "same_files ev (cn_world c) (cn_world c')" "committed sv (cn_world c') = committed sv (cn_world c)"
      "\<not> str_contains msg ''rollback failed''"
proof -
  from ob obtain recs where rd: "read_script ev (cn_world c) ws ob = Some (Inr (body ob))"
    and recs: "object_records ev ws ob = Some recs" by (auto simp: modules_at_def)
  from object_records_not_Nil [OF recs] have "recs \<noteq> []" .
  from sv dep c this show thesis
  proof (cases rule: apply_in_tx_dependency [where b = "body ob" and label = "po_normalized_key ob" and r = r])
    case (applied c')
    with rd recs show thesis
      by (intro that(1) [of c' "inc_applied (r\<lparr>ar_wrote_history := True\<rparr>)"]) (auto simp: exec_object_def inc_applied_def)
  next
    case (refused c' e)
    with rd recs ob show thesis
      by (intro that(2) [of c' "po_normalized_key ob @ '': '' @ error_to_string e"]) (auto simp: exec_object_def modules_at_def)
  qed
qed

abbreviation present_at where "present_at sv present c \<equiv> present (fst (committed sv (cn_world c)))"

lemma module_round_kept:
  "module_round ev ws pending (nx, pr, fe0) st = Some (Inr ((nxt, progress, fe), st')) \<Longrightarrow> set nx \<subseteq> set nxt"
proof (induction pending arbitrary: nx pr fe0 st)
  case (Cons ob pending)
  from module_round_Cons_Inr [OF Cons.prems] obtain nx1 p1 fe1 st1 where
    "module_round ev ws pending (nx1, p1, fe1) st1 = Some (Inr ((nxt, progress, fe), st'))"
    and *: "nx1 = nx \<and> p1 \<or> nx1 = nx @ [ob] \<and> p1 = pr" .
  from Cons.IH [OF this(1)] * show ?case by auto
qed simp

text \<open>A round ends: what it did not retry is present, and it makes progress when a module was ready.\<close>

lemma module_round_dependency:
  assumes sv: "tx_server ev sv" and dep: "dependency_server ev sv present needs"
  shows "ready sv c \<Longrightarrow> modules_at ev ws (cn_world c) body pending \<Longrightarrow>
    \<exists>nxt progress fe c' r'. module_round ev ws pending acc (c, r) = Some (Inr ((nxt, progress, fe), c', r'))
      \<and> ready sv c' \<and> same_files ev (cn_world c) (cn_world c') \<and> ar_failed r' = ar_failed r
      \<and> present_at sv present c \<subseteq> present_at sv present c'
      \<and> set nxt \<subseteq> set (fst acc) \<union> set pending
      \<and> (\<forall>ob \<in> set pending. ob \<in> set nxt \<or> body ob \<in> present_at sv present c')
      \<and> (fst (snd acc) \<or> (\<exists>ob \<in> set pending. needs (body ob) \<subseteq> present_at sv present c) \<longrightarrow> progress)"
proof (induction pending arbitrary: acc c r)
  case Nil
  then show ?case by (cases acc) (auto simp: same_files_def)
next
  case (Cons ob pending)
  obtain nx pr fe0 where acc: "acc = (nx, pr, fe0)" by (cases acc)
  from Cons.prems(2) have ob: "modules_at ev ws (cn_world c) body [ob]" and rest: "modules_at ev ws (cn_world c) body pending"
    by (auto simp: modules_at_def)
  from sv dep Cons.prems(1) ob show ?case
  proof (cases rule: exec_object_dependency [where r = r])
    case (applied c1 r1)
    from Cons.IH [OF applied(3) modules_at_same_files [OF applied(4) rest], of "(nx, True, fe0)" r1]
    obtain nxt progress fe c' r' where
      "module_round ev ws pending (nx, True, fe0) (c1, r1) = Some (Inr ((nxt, progress, fe), c', r'))"
      "ready sv c'" "same_files ev (cn_world c1) (cn_world c')" "ar_failed r' = ar_failed r1"
      "present_at sv present c1 \<subseteq> present_at sv present c'" "set nxt \<subseteq> set nx \<union> set pending"
      "\<forall>ob \<in> set pending. ob \<in> set nxt \<or> body ob \<in> present_at sv present c'" "progress" by auto
    with applied acc show ?thesis
      by (intro exI [of _ nxt] exI [of _ progress] exI [of _ fe] exI [of _ c'] exI [of _ r']) (auto simp: same_files_def)
  next
    case (refused c1 msg)
    let ?r1 = "(push_error msg r)\<lparr>ar_errors := take (length (ar_errors r)) (ar_errors (push_error msg r)), ar_failed := ar_failed r\<rparr>"
    let ?fe = "fe0 @ [msg]"
    have step: "module_round ev ws (ob # pending) acc (c, r) = module_round ev ws pending (nx @ [ob], pr, ?fe) (c1, ?r1)"
      using refused acc by (simp add: push_error_def Let_def)
    from Cons.IH [OF refused(3) modules_at_same_files [OF refused(4) rest], of "(nx @ [ob], pr, ?fe)" ?r1]
    obtain nxt progress fe c' r' where m:
      "module_round ev ws pending (nx @ [ob], pr, ?fe) (c1, ?r1) = Some (Inr ((nxt, progress, fe), c', r'))"
      "ready sv c'" "same_files ev (cn_world c1) (cn_world c')" "ar_failed r' = ar_failed r"
      "present_at sv present c1 \<subseteq> present_at sv present c'" "set nxt \<subseteq> set (nx @ [ob]) \<union> set pending"
      "\<forall>ob \<in> set pending. ob \<in> set nxt \<or> body ob \<in> present_at sv present c'"
      "pr \<or> (\<exists>ob \<in> set pending. needs (body ob) \<subseteq> present_at sv present c1) \<longrightarrow> progress" by auto
    have "ob \<in> set nxt"
      using module_round_kept [OF m(1)] by auto
    with m step refused acc show ?thesis
      by (intro exI [of _ nxt] exI [of _ progress] exI [of _ fe] exI [of _ c'] exI [of _ r']) (auto simp: same_files_def)
  qed
qed

lemma apply_modules_dependency:
  assumes sv: "tx_server ev sv" and dep: "dependency_server ev sv present needs"
    and rank: "\<And>b b'. b' \<in> needs b \<Longrightarrow> (rank b' :: nat) < rank b"
  shows "ready sv c \<Longrightarrow> modules_at ev ws (cn_world c) body pending \<Longrightarrow>
    (\<And>ob. ob \<in> set pending \<Longrightarrow> needs (body ob) \<subseteq> present_at sv present c \<union> body ` set pending) \<Longrightarrow>
    \<exists>c' r'. apply_modules ev ws pending (c, r) = Some (c', r') \<and> ready sv c' \<and> ar_failed r' = ar_failed r
      \<and> present_at sv present c \<union> body ` set pending \<subseteq> present_at sv present c'"
proof (induction "length pending" arbitrary: pending c r rule: less_induct)
  case less
  show ?case
  proof (cases "pending = []")
    case True
    with less.prems show ?thesis by (simp add: apply_modules.simps)
  next
    case False
    then obtain o0 where o0: "o0 \<in> set pending" "\<And>ob. ob \<in> set pending \<Longrightarrow> rank (body o0) \<le> rank (body ob)"
      using ex_has_least_nat [of "\<lambda>ob. ob \<in> set pending" "hd pending" "\<lambda>ob. rank (body ob)"] by auto
    have "needs (body o0) \<subseteq> present_at sv present c"
    proof
      fix b' assume b': "b' \<in> needs (body o0)"
      with less.prems(3) [OF o0(1)] have "b' \<in> present_at sv present c \<or> (\<exists>ob \<in> set pending. b' = body ob)" by auto
      with rank [OF b'] o0(2) show "b' \<in> present_at sv present c" by (auto dest: leD)
    qed
    with module_round_dependency [OF sv dep less.prems(1,2), of "([], False, [])" r] o0(1)
    obtain nxt fe c1 r1 where m:
      "module_round ev ws pending ([], False, []) (c, r) = Some (Inr ((nxt, True, fe), c1, r1))" "ready sv c1"
      "same_files ev (cn_world c) (cn_world c1)" "ar_failed r1 = ar_failed r"
      "present_at sv present c \<subseteq> present_at sv present c1" "set nxt \<subseteq> set pending"
      "\<forall>ob \<in> set pending. ob \<in> set nxt \<or> body ob \<in> present_at sv present c1" by auto
    have "length nxt < length pending" using module_round_length [OF m(1)] by simp
    moreover have "modules_at ev ws (cn_world c1) body nxt"
      using modules_at_same_files [OF m(3) less.prems(2)] m(6) by (auto simp: modules_at_def)
    moreover have "needs (body ob) \<subseteq> present_at sv present c1 \<union> body ` set nxt" if "ob \<in> set nxt" for ob
      using less.prems(3) [of ob] that m(5-7) by blast
    ultimately obtain c' r' where "apply_modules ev ws nxt (c1, r1) = Some (c', r')" "ready sv c'" "ar_failed r' = ar_failed r1"
      "present_at sv present c1 \<union> body ` set nxt \<subseteq> present_at sv present c'"
      using less.hyps m(2) by blast
    moreover from m(1) False have "apply_modules ev ws pending (c, r) = apply_modules ev ws nxt (c1, r1)"
      by (simp add: apply_modules.simps [of ev ws pending])
    ultimately show ?thesis using m(4,5,7) by (auto simp: image_subset_iff)
  qed
qed

end
