(* ===== verification/Apply_Calls.thy ===== *)
theory Apply_Calls
  imports Transactions
begin

section \<open>What applying sends to the server\<close>

text \<open>
  The locale \<open>call_frame\<close> carries a reflexive and transitive relation between connections through
  every operation of \<open>Apply\<close>; it is interpreted on the relation \<open>extends_calls\<close>, the list
  of calls grown by allowed statements only.
\<close>

text \<open>
  What every operation of the executor leaves of a relation between connections that the single
  calls keep: \<open>allowed\<close> says which statements may be sent.
\<close>

locale call_frame =
  fixes ev :: "'w env" and allowed :: "stmt \<Rightarrow> bool" and R :: "'w conn \<Rightarrow> 'w conn \<Rightarrow> bool"
  assumes R_refl: "R c c"
    and R_trans: "R c c1 \<Longrightarrow> R c1 c2 \<Longrightarrow> R c c2"
    and R_exec: "allowed s \<Longrightarrow> conn_exec ev s c = (x, c') \<Longrightarrow> R c c'"
    and R_query: "allowed s \<Longrightarrow> conn_query ev s ps c = (y, c') \<Longrightarrow> R c c'"
    and R_client: "allowed s \<Longrightarrow> client_exec ev s c = (x, c') \<Longrightarrow> R c c'"
    and R_remove: "ev_remove_dir_all ev (cn_world c) d = (x, w) \<Longrightarrow> R c (c\<lparr>cn_world := w\<rparr>)"
begin

lemma R_flush_history: "allowed INSERT_HISTORY \<Longrightarrow> flush_history ev recs c = (x, c') \<Longrightarrow> R c c'"
  using R_query [of INSERT_HISTORY _ c]
  by (auto simp: flush_history_def R_refl split: if_splits sum.splits prod.splits)

lemma R_rollback: "allowed ROLLBACK \<Longrightarrow> rollback ev label err (c, r) = (c', r') \<Longrightarrow> R c c'"
  using R_exec [of ROLLBACK c] by (auto simp: rollback_def split: sum.splits prod.splits)

lemma R_commit_history:
  "allowed INSERT_HISTORY \<Longrightarrow> commit_history ev recs (c, r) = (ok, c', r') \<Longrightarrow> R c c'"
  using R_flush_history [of recs c]
  by (auto simp: commit_history_def R_refl split: if_splits sum.splits prod.splits)

definition tx_allowed :: bool where
  "tx_allowed \<longleftrightarrow> allowed BEGIN_TX \<and> allowed ASSERT_OPEN_TX \<and> allowed INSERT_HISTORY \<and> allowed COMMIT_TX \<and> allowed ROLLBACK"

lemma R_apply_in_tx:
  assumes tx: "tx_allowed" and b: "allowed (Text body)" and e: "apply_in_tx ev body recs label (c, r) = (ok, c', r')"
  shows "R c c'"
proof -
  obtain x1 c1 where e1: "conn_exec ev BEGIN_TX c = (x1, c1)" by fastforce
  obtain x2 c2 where e2: "conn_exec ev (Text body) c1 = (x2, c2)" by fastforce
  obtain x3 c3 where e3: "conn_exec ev ASSERT_OPEN_TX c2 = (x3, c3)" by fastforce
  obtain x4 c4 where e4: "(if recs \<noteq> [] then flush_history ev recs c3 else (Inr (), c3)) = (x4, c4)" by fastforce
  obtain x5 c5 where e5: "conn_exec ev COMMIT_TX c4 = (x5, c5)" by fastforce
  have r1: "R c c1" using R_exec e1 tx by (auto simp: tx_allowed_def)
  have r2: "R c c2" using R_trans [OF r1 R_exec [OF b e2]] .
  have r3: "R c c3" using R_trans [OF r2 R_exec [OF _ e3]] tx by (auto simp: tx_allowed_def)
  have r4: "R c c4" using R_trans [OF r3] R_flush_history [of recs c3 x4 c4] e4 tx R_refl
    by (auto simp: tx_allowed_def split: if_splits)
  have r5: "R c c5" using R_trans [OF r4 R_exec [OF _ e5]] tx by (auto simp: tx_allowed_def)
  have rb: "R c c'" if "R c ck" "(c', r') = rollback ev label err (ck, r)" for err ck
    using R_trans [OF that(1)] R_rollback [OF _ that(2) [symmetric]] tx by (auto simp: tx_allowed_def)
  from e e1 e2 e3 e4 e5 show ?thesis
    using r5 rb [OF r1] rb [OF r2] rb [OF r3] rb [OF r4] rb [OF r5]
    by (cases rule: apply_in_tx_cases) auto
qed

definition script_allowed :: "workspace \<Rightarrow> planned_object \<Rightarrow> bool" where
  "script_allowed ws ob \<longleftrightarrow> (\<forall>w body. read_script ev w ws ob = Some (Inr body) \<longrightarrow> allowed (Text body))"

lemma R_exec_object:
  assumes tx: "tx_allowed" and b: "script_allowed ws ob"
    and e: "exec_object ev ws ob st = Some st'"
  shows "R (fst st) (fst st')"
proof -
  obtain c r where st: "st = (c, r)" by (cases st)
  from e [unfolded st] consider (msg) msg where "st' = (c, push_error msg r)"
    | (tx) body recs ok c' r' where "read_script ev (cn_world c) ws ob = Some (Inr body)"
        "apply_in_tx ev body recs (po_normalized_key ob) (c, r) = (ok, c', r')" "fst st' = c'"
    by (auto simp: exec_object_def split: Option.bind_splits sum.splits prod.splits bool.splits)
  then show ?thesis
  proof cases
    case tx
    with b have "allowed (Text body)" by (auto simp: script_allowed_def)
    from R_apply_in_tx [OF \<open>tx_allowed\<close> this tx(2)] tx(3) st show ?thesis by simp
  qed (simp add: st R_refl)
qed

lemma R_module_round:
  assumes tx: "tx_allowed"
  shows "module_round ev ws pending acc st = Some res \<Longrightarrow>
    \<forall>ob \<in> set pending. script_allowed ws ob \<Longrightarrow>
    R (fst st) (case res of Inl (c, r) \<Rightarrow> c | Inr (acc', c, r) \<Rightarrow> c)"
proof (induction pending arbitrary: acc st)
  case Nil
  then show ?case by (cases st) (auto simp: R_refl)
next
  case (Cons ob pending)
  obtain nxt progress fe where acc: "acc = (nxt, progress, fe)" by (cases acc)
  obtain c r where st: "st = (c, r)" by (cases st)
  from Cons.prems(1) obtain c1 r1 where ex: "exec_object ev ws ob (c, r) = Some (c1, r1)"
    unfolding acc st by (auto split: Option.bind_splits)
  then have one: "R c c1" using R_exec_object [OF tx _ ex] Cons.prems(2) by simp
  have rest: "R c (case res of Inl (c, r) \<Rightarrow> c | Inr (acc', c, r) \<Rightarrow> c)"
    if "module_round ev ws pending acc1 (c1, r2) = Some res" for acc1 r2
    using R_trans [OF one] Cons.IH [OF that] Cons.prems(2) by simp
  from Cons.prems(1) ex rest one show ?case unfolding acc st
    by (auto simp: Let_def split: if_splits)
qed

lemma R_apply_modules:
  assumes tx: "tx_allowed"
  shows "apply_modules ev ws pending st = Some st' \<Longrightarrow>
    \<forall>ob \<in> set pending. script_allowed ws ob \<Longrightarrow>
    R (fst st) (fst st')"
proof (induction pending arbitrary: st rule: length_induct)
  case (1 pending)
  note am = "1.prems"(1)
  show ?case
  proof (cases "pending = []")
    case True
    with am show ?thesis by (simp add: apply_modules.simps R_refl)
  next
    case False
    from am False obtain res where mr: "module_round ev ws pending ([], False, []) st = Some res"
      by (auto simp: apply_modules.simps [of ev ws pending st] split: option.splits)
    note D = R_module_round [OF tx mr] "1.prems"(2)
    show ?thesis
    proof (cases res)
      case (Inl a)
      with am False mr D show ?thesis by (auto simp: apply_modules.simps [of ev ws pending st] split: prod.splits)
    next
      case (Inr b)
      obtain nxt progress fe c r where b: "b = ((nxt, progress, fe), (c, r))" by (cases b) auto
      show ?thesis
      proof (cases progress)
        case True
        with am False mr Inr b have "apply_modules ev ws nxt (c, r) = Some st'"
          by (simp add: apply_modules.simps [of ev ws pending st])
        moreover have "set nxt \<subseteq> set pending" using module_round_subset [OF mr [unfolded Inr b]] by simp
        moreover have "length nxt < length pending" using module_round_length [OF mr [unfolded Inr b]] True by simp
        ultimately have "R c (fst st')" using "1.IH" "1.prems"(2) by fastforce
        with D Inr b show ?thesis using R_trans by simp
      next
        case F: False
        with am False mr Inr b have "st' = (c, foldl (\<lambda>r e. push_error e r) r fe)"
          by (simp add: apply_modules.simps [of ev ws pending st])
        with D Inr b show ?thesis by simp
      qed
    qed
  qed
qed

lemma R_flush_tx_loop:
  assumes tx: "tx_allowed"
  shows "flush_tx_loop ev ws obs st = Some st' \<Longrightarrow>
    \<forall>ob \<in> set obs. script_allowed ws ob \<Longrightarrow>
    R (fst st) (fst st')"
proof (induction obs arbitrary: st)
  case (Cons ob obs)
  then obtain st1 where ex: "exec_object ev ws ob st = Some st1"
    and rest: "st' = st1 \<or> flush_tx_loop ev ws obs st1 = Some st'"
    by (auto split: Option.bind_splits if_splits)
  have "R (fst st) (fst st1)" using R_exec_object [OF tx _ ex] Cons.prems(2) by simp
  with rest Cons.IH [of st1] Cons.prems(2) show ?case using R_trans by auto
qed (auto simp: R_refl)

lemma R_apply_objects:
  assumes tx: "tx_allowed" and e: "apply_objects ev ws obs st = Some st'"
    and b: "\<forall>ob \<in> set obs. should_apply ob \<longrightarrow> script_allowed ws ob"
  shows "R (fst st) (fst st')"
proof -
  obtain c r where st: "st = (c, r)" by (cases st)
  obtain bo r1 where cb: "collect_batches ev obs \<lparr>ba_tx = [], ba_module = [], ba_adopt = []\<rparr> r = (bo, r1)" by fastforce
  note F = collect_batches_fields [OF cb]
  show ?thesis
  proof (cases bo)
    case None
    with e cb st show ?thesis by (auto simp: apply_objects_def R_refl)
  next
    case (Some bt)
    obtain ok c1 r2 where ch: "commit_history ev (ba_adopt bt) (c, r1) = (ok, c1, r2)" by (metis prod_cases3)
    have one: "R c c1" using R_commit_history [OF _ ch] tx by (simp add: tx_allowed_def)
    show ?thesis
    proof (cases ok)
      case False
      with e cb st Some ch one show ?thesis by (auto simp: apply_objects_def)
    next
      case True
      with e cb st Some ch obtain st2 where fl: "flush_tx ev ws (ba_tx bt) (c1, r2) = Some st2"
        and rest: "st' = st2 \<or> apply_modules ev ws (sort_tx_batch (ba_module bt)) st2 = Some st'"
        by (auto simp: apply_objects_def split: Option.bind_splits if_splits)
      have two: "R c1 (fst st2)"
        using fl R_flush_tx_loop [OF tx, of ws "sort_tx_batch (ba_tx bt)" "(c1, r2)" st2] F Some b
        by (auto simp: flush_tx_def R_refl split: if_splits)
      have "R (fst st2) (fst st')"
        using rest R_apply_modules [OF tx, of ws "sort_tx_batch (ba_module bt)" st2 st'] F Some b
        by (auto simp: R_refl)
      with one two st R_trans show ?thesis by (metis fst_conv)
    qed
  qed
qed

definition transition_allowed :: "workspace \<Rightarrow> planned_object \<Rightarrow> bool" where
  "transition_allowed ws ob \<longleftrightarrow>
     (\<forall>path \<in> set (po_transition_paths ob). \<forall>sid apath w body.
          find_by_candidates ws (po_database_name ob) path = Some sid \<longrightarrow>
          script_abs_path ws sid = Some apath \<longrightarrow>
          verified_body ev w apath (unwrap_or (script_checksum ws sid) (po_checksum ob)) path = Inr body \<longrightarrow>
          allowed (Text body))"

lemma R_apply_one_transition:
  assumes tx: "tx_allowed" and b: "transition_allowed ws ob" and p: "path \<in> set (po_transition_paths ob)"
    and e: "apply_one_transition ev ws ob path is_last (c, r) = Some st'"
  shows "R c (fst st')"
proof -
  from e consider (msg) msg where "st' = (c, push_error msg r)"
    | (tx) sid apath body recs ok c' r' where "find_by_candidates ws (po_database_name ob) path = Some sid"
        "script_abs_path ws sid = Some apath"
        "verified_body ev (cn_world c) apath (unwrap_or (script_checksum ws sid) (po_checksum ob)) path = Inr body"
        "apply_in_tx ev body recs path (c, r) = (ok, c', r')" "fst st' = c'"
    by (auto simp: apply_one_transition_def Let_def
        split: Option.bind_splits sum.splits prod.splits bool.splits option.splits)
  then show ?thesis
  proof cases
    case tx
    with b p have "allowed (Text body)" by (auto simp: transition_allowed_def)
    from R_apply_in_tx [OF \<open>tx_allowed\<close> this tx(4)] tx(5) show ?thesis by simp
  qed (simp add: R_refl)
qed

lemma R_apply_object_transitions:
  assumes tx: "tx_allowed" and b: "transition_allowed ws ob"
  shows "apply_object_transitions ev ws ob ps st = Some st' \<Longrightarrow> set ps \<subseteq> set (po_transition_paths ob) \<Longrightarrow>
    R (fst st) (fst st')"
proof (induction ps arbitrary: st)
  case (Cons p ps)
  then obtain st1 where ex: "apply_one_transition ev ws ob p (ps = []) (fst st, snd st) = Some st1"
    and rest: "st' = st1 \<or> apply_object_transitions ev ws ob ps st1 = Some st'"
    by (auto split: Option.bind_splits if_splits)
  have "R (fst st) (fst st1)" using R_apply_one_transition [OF tx b _ ex] Cons.prems(2) by simp
  with rest Cons.IH [of st1] Cons.prems(2) show ?case using R_trans by auto
qed (auto simp: R_refl)

lemma R_apply_transitions:
  assumes tx: "tx_allowed"
  shows "apply_transitions ev ws obs st = Some st' \<Longrightarrow>
    \<forall>ob \<in> set obs. po_planned_action ob = ReprocessChanged \<longrightarrow> transition_allowed ws ob \<Longrightarrow> R (fst st) (fst st')"
proof (induction obs arbitrary: st)
  case (Cons ob obs)
  show ?case
  proof (cases "po_planned_action ob \<noteq> ReprocessChanged \<or> po_transition_paths ob = []")
    case False
    with Cons.prems obtain st1 where ex: "apply_object_transitions ev ws ob (po_transition_paths ob) st = Some st1"
      and rest: "st' = st1 \<or> apply_transitions ev ws obs st1 = Some st'"
      by (auto split: Option.bind_splits if_splits)
    have "R (fst st) (fst st1)" using R_apply_object_transitions [OF tx _ ex] False Cons.prems(2) by auto
    with rest Cons.IH [of st1] Cons.prems(2) show ?thesis using R_trans by auto
  qed (use Cons in auto)
qed (auto simp: R_refl)

lemma R_apply_plan_schemas:
  "\<forall>s \<in> set ss. \<forall>q. build_create_schema_sql (ps_name s) = Inr q \<longrightarrow> allowed (Text q) \<Longrightarrow>
     R (fst st) (fst (apply_plan_schemas ev ss st))"
proof (induction ss arbitrary: st)
  case (Cons s ss)
  obtain c r where st: "st = (c, r)" by (cases st)
  have ih: "R (fst st) (fst (apply_plan_schemas ev ss st))" for st using Cons by auto
  have x: "R c c1" if "build_create_schema_sql (ps_name s) = Inr q" "conn_exec ev (Text q) c = (x, c1)" for q x c1
    using R_exec [OF _ that(2)] that(1) Cons.prems by simp
  show ?case unfolding st
    using ih [of "(c, inc_skipped r)"] x R_trans [OF x ih [of "(c1, inc_applied r)" for c1, simplified]]
    by (auto simp: R_refl split: sum.splits prod.splits)
qed (simp add: R_refl)

text \<open>The SQL text the executor may send for the schemas, objects and transitions of a plan.\<close>

definition texts_allowed :: "workspace \<Rightarrow> migration_plan \<Rightarrow> bool" where
  "texts_allowed ws plan \<longleftrightarrow>
     (\<forall>s \<in> set (mp_schemas plan). \<forall>q. build_create_schema_sql (ps_name s) = Inr q \<longrightarrow> allowed (Text q))
     \<and> (\<forall>ob \<in> set (mp_objects plan). should_apply ob \<longrightarrow> script_allowed ws ob)
     \<and> (\<forall>ob \<in> set (mp_objects plan). po_planned_action ob = ReprocessChanged \<longrightarrow> transition_allowed ws ob)"

lemma R_run_phases:
  assumes tx: "tx_allowed" and t: "texts_allowed ws plan" and e: "run_phases ev ws plan c = Some (c', r')"
  shows "R c c'"
proof -
  define st1 where "st1 = apply_plan_schemas ev (mp_schemas plan) (c, apply_result_default)"
  have one: "R c (fst st1)"
    using R_apply_plan_schemas [of "mp_schemas plan" "(c, apply_result_default)"] t
    by (auto simp: st1_def texts_allowed_def)
  have two: "R (fst st1) (fst st2)" if "apply_transitions ev ws (mp_objects plan) st1 = Some st2" for st2
    using R_apply_transitions [OF tx that] t by (auto simp: texts_allowed_def)
  have three: "R (fst st2) c'" if "apply_objects ev ws (mp_objects plan) st2 = Some (c', r')" for st2
    using R_apply_objects [OF tx that] t by (auto simp: texts_allowed_def)
  show ?thesis
  proof (cases "ar_failed (snd st1) > 0")
    case True
    with e one show ?thesis by (simp add: run_phases_def st1_def [symmetric])
  next
    case False
    with e obtain st2 where tr: "apply_transitions ev ws (mp_objects plan) st1 = Some st2"
      and rest: "st2 = (c', r') \<or> apply_objects ev ws (mp_objects plan) st2 = Some (c', r')"
      by (auto simp: run_phases_def st1_def [symmetric] Let_def split: Option.bind_splits if_splits)
    from R_trans [OF one two [OF tr]] have "R c (fst st2)" .
    with rest three [of st2] R_trans [of c "fst st2" c'] show ?thesis by auto
  qed
qed

lemma R_ensure_tables:
  assumes "allowed BOOTSTRAP_TABLES" "allowed BOOTSTRAP_DRIFT" and e: "ensure_tables ev fp (ac, c) = (x, ac', c')"
  shows "R c c'"
proof -
  obtain x1 c1 where e1: "client_exec ev BOOTSTRAP_TABLES c = (x1, c1)" by fastforce
  obtain x2 c2 where e2: "client_exec ev BOOTSTRAP_DRIFT c1 = (x2, c2)" by fastforce
  have "R c c1" "R c c2" using R_client [OF assms(1) e1] R_trans R_client [OF assms(2) e2] by blast+
  with e e1 e2 R_refl show ?thesis by (auto simp: ensure_tables_def split: if_splits sum.splits)
qed

lemma R_finish:
  assumes "ar_applied r = 0 \<or> allowed CACHE_INVALIDATE" and e: "finish ev cfg r (ac, c) = (x, ac', c')"
  shows "R c c'"
proof -
  have i: "R c (snd (invalidate_catalog_cache ev b c))" if "allowed CACHE_INVALIDATE" for b
    using R_exec [OF that, of c] by (auto simp: invalidate_catalog_cache_def R_refl split: if_splits sum.splits prod.splits)
  have l: "R ck (snd (l1_invalidate_all ev root fp ck))" for root fp ck
    using R_remove [of ck] by (auto simp: l1_invalidate_all_def R_refl Let_def split: prod.splits)
  from e assms(1) i l R_trans R_refl show ?thesis by (auto simp: finish_def Let_def split: if_splits) blast+
qed

lemma R_execute_plan:
  assumes tx: "tx_allowed" and boot: "allowed BOOTSTRAP_TABLES" "allowed BOOTSTRAP_DRIFT" "allowed BOOTSTRAP_INDEX"
    and inv: "allowed CACHE_INVALIDATE"
    and t: "\<And>plan. ensure_objects_materialized ws plan0 = Some plan \<Longrightarrow> texts_allowed ws plan"
    and e: "execute_plan ev cfg ws plan0 (ac, c) = Some (res, plan, ac', c')"
  shows "R c c'"
proof (cases "mp_blocked plan0")
  case True
  with e show ?thesis by (simp add: execute_plan_def R_refl)
next
  case False
  with e have pl: "ensure_objects_materialized ws plan0 = Some plan"
    by (auto simp: execute_plan_def split: Option.bind_splits prod.splits sum.splits)
  obtain x1 ac1 c1 where e1: "ensure_tables ev (config_fingerprint cfg) (ac, c) = (x1, ac1, c1)" by (metis prod_cases3)
  obtain x2 c2 where e2: "ensure_history_index ev c1 = (x2, c2)" by fastforce
  have r1: "R c c1" using R_ensure_tables boot e1 by blast
  have r2: "R c c2" using R_trans [OF r1] R_exec [OF boot(3)] e2 by (auto simp: ensure_history_index_def)
  show ?thesis
  proof (cases "isl x1 \<or> isl x2")
    case True
    with e False pl e1 e2 r1 r2 show ?thesis by (cases x1; cases x2) (auto simp: execute_plan_def)
  next
    case F: False
    with e False pl e1 e2 obtain c3 r where rp: "run_phases ev ws plan c2 = Some (c3, r)"
      and fi: "finish ev cfg r (ac1, c3) = (res, ac', c')"
      by (cases x1; cases x2) (auto simp: execute_plan_def Let_def split: Option.bind_splits prod.splits)
    from R_trans [OF r2 R_trans [OF R_run_phases [OF tx t [OF pl] rp] R_finish [OF _ fi]]] inv show ?thesis by blast
  qed
qed

lemma R_execute_metadata_plan:
  assumes boot: "allowed BOOTSTRAP_TABLES" "allowed BOOTSTRAP_DRIFT" "allowed BOOTSTRAP_INDEX"
    and ins: "allowed INSERT_HISTORY"
    and e: "execute_metadata_plan ev cfg ws plan0 mode (ac, c) = Some (res, plan, ac', c')"
  shows "R c c'"
proof (cases "mp_blocked plan0 \<and> mode \<noteq> MdRepairChecksum")
  case True
  with e show ?thesis by (simp add: execute_metadata_plan_def R_refl)
next
  case False
  then have pl: "ensure_objects_materialized ws plan0 = Some plan"
    using e by (auto simp: execute_metadata_plan_def Let_def split: Option.bind_splits prod.splits sum.splits if_splits)
  obtain x1 ac1 c1 where e1: "ensure_tables ev (config_fingerprint cfg) (ac, c) = (x1, ac1, c1)" by (metis prod_cases3)
  obtain x2 c2 where e2: "ensure_history_index ev c1 = (x2, c2)" by fastforce
  have r1: "R c c1" using R_ensure_tables boot e1 by blast
  have r2: "R c c2" using R_trans [OF r1] R_exec [OF boot(3)] e2 by (auto simp: ensure_history_index_def)
  show ?thesis
  proof (cases "isl x1 \<or> isl x2")
    case True
    with e False pl e1 e2 r1 r2 show ?thesis by (cases x1; cases x2) (auto simp: execute_metadata_plan_def)
  next
    case F: False
    let ?recs = "concat (map (metadata_records ev mode) (mp_objects plan))"
    let ?r0 = "apply_result_default\<lparr>ar_skipped := length (mp_objects plan)\<rparr>"
    obtain ok c3 r where ch: "commit_history ev ?recs (c2, ?r0) = (ok, c3, r)" by (metis prod_cases3)
    then have "ar_applied r = 0"
      by (auto simp: commit_history_def apply_result_default_def push_error_def split: if_splits sum.splits prod.splits)
    moreover from F e False pl e1 e2 ch have "finish ev cfg r (ac1, c3) = (res, ac', c')"
      by (cases x1; cases x2) (auto simp: execute_metadata_plan_def Let_def split: prod.splits)
    ultimately show ?thesis using R_trans [OF r2 R_trans [OF R_commit_history [OF ins ch] R_finish]] by blast
  qed
qed

end

definition extends_calls :: "(stmt \<Rightarrow> bool) \<Rightarrow> ('w \<times> call list) conn \<Rightarrow> ('w \<times> call list) conn \<Rightarrow> bool" where
  "extends_calls allowed c c' \<longleftrightarrow> (\<exists>cs. calls_of c' = calls_of c @ cs \<and> (\<forall>cl \<in> set cs. allowed (cl_stmt cl)))"

interpretation rec: call_frame "recording ev" allowed "extends_calls allowed"
  for ev :: "'w env" and allowed
proof
  fix c :: "('w \<times> call list) conn"
  show "extends_calls allowed c c" by (simp add: extends_calls_def)
next
  fix c c1 c2 :: "('w \<times> call list) conn"
  assume "extends_calls allowed c c1" "extends_calls allowed c1 c2"
  then show "extends_calls allowed c c2" by (auto simp: extends_calls_def)
next
  fix s and c c' :: "('w \<times> call list) conn" and x
  assume "allowed s" "conn_exec (recording ev) s c = (x, c')"
  then show "extends_calls allowed c c'"
    using conn_exec_recorded [of ev s c x c'] by (auto simp: extends_calls_def split: if_splits)
next
  fix s ps and c c' :: "('w \<times> call list) conn" and y
  assume "allowed s" "conn_query (recording ev) s ps c = (y, c')"
  then show "extends_calls allowed c c'"
    using conn_query_recorded [of ev s ps c y c'] by (auto simp: extends_calls_def split: if_splits)
next
  fix s and c c' :: "('w \<times> call list) conn" and x
  assume "allowed s" "client_exec (recording ev) s c = (x, c')"
  then show "extends_calls allowed c c'"
    by (cases "cn_world c")
      (auto simp: client_exec_def recording_def extends_calls_def calls_of_def split: prod.splits)
next
  fix c :: "('w \<times> call list) conn" and d x w
  assume "ev_remove_dir_all (recording ev) (cn_world c) d = (x, w)"
  then show "extends_calls allowed c (c\<lparr>cn_world := w\<rparr>)"
    by (cases "cn_world c") (auto simp: recording_def extends_calls_def calls_of_def split: prod.splits)
qed

definition control_statements :: "stmt set" where
  "control_statements =
     {BOOTSTRAP_TABLES, BOOTSTRAP_DRIFT, BOOTSTRAP_INDEX, BEGIN_TX, ASSERT_OPEN_TX, INSERT_HISTORY,
      COMMIT_TX, ROLLBACK, CACHE_INVALIDATE}"

definition planned_schema_sql :: "migration_plan \<Rightarrow> string \<Rightarrow> bool" where
  "planned_schema_sql plan q \<longleftrightarrow> (\<exists>s \<in> set (mp_schemas plan). build_create_schema_sql (ps_name s) = Inr q)"

definition verified_script :: "'w env \<Rightarrow> workspace \<Rightarrow> migration_plan \<Rightarrow> string \<Rightarrow> bool" where
  "verified_script ev ws plan b \<longleftrightarrow>
     (\<exists>ob \<in> set (mp_objects plan). \<exists>sid.
        (should_apply ob \<and> find_script ws ob = Some (Some sid)
         \<or> po_planned_action ob = ReprocessChanged
           \<and> (\<exists>path \<in> set (po_transition_paths ob). find_by_candidates ws (po_database_name ob) path = Some sid))
        \<and> content_checksum (ev_sha ev) b = unwrap_or (script_checksum ws sid) (po_checksum ob) \<and> is_utf8 b)"

lemma execute_plan_plan:
  "execute_plan ev cfg ws plan0 (ac, c) = Some (res, plan, ac', c') \<Longrightarrow> \<not> mp_blocked plan0 \<Longrightarrow>
     ensure_objects_materialized ws plan0 = Some plan"
  by (auto simp: execute_plan_def split: Option.bind_splits prod.splits sum.splits)

lemma sha_recording [simp]: "ev_sha (recording ev) = ev_sha ev"
  by (simp add: recording_def)

lemma execute_plan_calls:
  assumes "execute_plan (recording ev) cfg ws plan0 (ac, c) = Some (res, plan, ac', c')"
  shows "extends_calls (\<lambda>s. s \<in> control_statements \<or> (\<exists>b. s = Text b \<and> (planned_schema_sql plan b \<or> verified_script ev ws plan b))) c c'"
    (is "extends_calls ?al c c'")
proof (cases "mp_blocked plan0")
  case True
  with assms show ?thesis by (simp add: execute_plan_def rec.R_refl)
next
  case False
  from execute_plan_plan [OF assms False] have pl: "ensure_objects_materialized ws plan0 = Some plan" .
  have obj: "call_frame.script_allowed (recording ev) ?al ws ob" if "ob \<in> set (mp_objects plan)" "should_apply ob" for ob
    unfolding rec.script_allowed_def
  proof (intro allI impI disjI2)
    fix w body assume "read_script (recording ev) w ws ob = Some (Inr body)"
    then obtain sid where "find_script ws ob = Some (Some sid)" "is_utf8 body"
      "content_checksum (ev_sha ev) body = unwrap_or (script_checksum ws sid) (po_checksum ob)"
      by (auto simp: read_script_def dest!: verified_body_Inr split: Option.bind_splits option.splits)
    with that show "\<exists>b. Text body = Text b \<and> (planned_schema_sql plan b \<or> verified_script ev ws plan b)"
      by (auto simp: verified_script_def)
  qed
  have tr: "call_frame.transition_allowed (recording ev) ?al ws ob"
    if "ob \<in> set (mp_objects plan)" "po_planned_action ob = ReprocessChanged" for ob
    unfolding rec.transition_allowed_def
  proof (intro ballI allI impI disjI2)
    fix path sid apath w body
    assume p: "path \<in> set (po_transition_paths ob)" "find_by_candidates ws (po_database_name ob) path = Some sid"
      and "verified_body (recording ev) w apath (unwrap_or (script_checksum ws sid) (po_checksum ob)) path = Inr body"
    then have "content_checksum (ev_sha ev) body = unwrap_or (script_checksum ws sid) (po_checksum ob)" "is_utf8 body"
      by (auto dest!: verified_body_Inr)
    with p that have "verified_script ev ws plan body" unfolding verified_script_def by blast
    then show "\<exists>b. Text body = Text b \<and> (planned_schema_sql plan b \<or> verified_script ev ws plan b)" by blast
  qed
  have sch: "?al (Text q)" if "s \<in> set (mp_schemas plan)" "build_create_schema_sql (ps_name s) = Inr q" for s q
    using that by (auto simp: planned_schema_sql_def)
  have "call_frame.texts_allowed (recording ev) ?al ws plan"
    unfolding rec.texts_allowed_def using obj tr sch by blast
  with pl have t: "\<And>plan'. ensure_objects_materialized ws plan0 = Some plan' \<Longrightarrow> call_frame.texts_allowed (recording ev) ?al ws plan'"
    by simp
  show ?thesis
    by (rule rec.R_execute_plan [OF _ _ _ _ _ t assms]) (simp_all add: rec.tx_allowed_def control_statements_def)
qed

lemma execute_metadata_plan_calls:
  assumes "execute_metadata_plan (recording ev) cfg ws plan0 mode (ac, c) = Some (res, plan, ac', c')"
  shows "extends_calls (\<lambda>s. s \<in> {BOOTSTRAP_TABLES, BOOTSTRAP_DRIFT, BOOTSTRAP_INDEX, INSERT_HISTORY}) c c'"
  by (rule rec.R_execute_metadata_plan [OF _ _ _ _ assms]) simp_all

end
