(* ===== verification/Apply_Properties.thy ===== *)
theory Apply_Properties
  imports Apply_Correct Apply_Calls
begin

section \<open>Properties of applying\<close>

text \<open>A sample server with two views, one of which needs the other, and the properties of \<open>Apply\<close>.\<close>

subsection \<open>Order\<close>

definition runs_before :: "planned_object \<Rightarrow> planned_object \<Rightarrow> bool" where
  "runs_before a b \<longleftrightarrow> kind_rank (po_kind a) < kind_rank (po_kind b)
     \<or> kind_rank (po_kind a) = kind_rank (po_kind b) \<and> po_normalized_key a \<le> po_normalized_key b"

lemma insort_runs_before:
  "sorted_wrt runs_before ys \<Longrightarrow> (\<And>y. y \<in> set ys \<Longrightarrow> po_normalized_key x \<le> po_normalized_key y) \<Longrightarrow>
     sorted_wrt runs_before (insort_key (\<lambda>ob. kind_rank (po_kind ob)) x ys)"
proof (induction ys)
  case (Cons y ys)
  show ?case
  proof (cases "kind_rank (po_kind x) \<le> kind_rank (po_kind y)")
    case True
    have "runs_before x z" if "z \<in> set (y # ys)" for z
      using that True Cons.prems by (force simp: runs_before_def)
    with True Cons.prems show ?thesis by simp
  next
    case False
    then have "runs_before y z" if "z \<in> set (insort_key (\<lambda>ob. kind_rank (po_kind ob)) x ys)" for z
      using that Cons.prems by (auto simp: set_insort_key runs_before_def)
    with False Cons show ?thesis by simp
  qed
qed simp

lemma sort_key_runs_before:
  "sorted (map po_normalized_key xs) \<Longrightarrow> sorted_wrt runs_before (sort_key (\<lambda>ob. kind_rank (po_kind ob)) xs)"
  by (induction xs) (auto intro!: insort_runs_before)


subsection \<open>A sample server\<close>

record sim =
  sm_com :: "string list \<times> string list"
  sm_tx :: "(string list \<times> string list) option"

definition sim_needs :: "string \<Rightarrow> string list" where
  "sim_needs b = (if b = ''A'' then [''B''] else [])"

definition sim_exec :: "sim \<Rightarrow> stmt \<Rightarrow> bool \<times> unit result \<times> sim" where
  "sim_exec w s =
     (case s of
        BEGIN_TX \<Rightarrow> (case sm_tx w of None \<Rightarrow> (False, Inr (), w\<lparr>sm_tx := Some (sm_com w)\<rparr>) | Some t \<Rightarrow> (False, Inl (Sql ''open''), w))
      | Text b \<Rightarrow> (case sm_tx w of
            None \<Rightarrow> (False, Inr (), w\<lparr>sm_com := (b # fst (sm_com w), snd (sm_com w))\<rparr>)
          | Some t \<Rightarrow> if \<forall>d \<in> set (sim_needs b). d \<in> set (fst t)
              then (False, Inr (), w\<lparr>sm_tx := Some (b # fst t, snd t)\<rparr>) else (False, Inl (Sql ''missing''), w))
      | ASSERT_OPEN_TX \<Rightarrow> (case sm_tx w of None \<Rightarrow> (False, Inl (Sql ''closed''), w) | Some t \<Rightarrow> (False, Inr (), w))
      | COMMIT_TX \<Rightarrow> (case sm_tx w of None \<Rightarrow> (False, Inl (Sql ''closed''), w) | Some t \<Rightarrow> (False, Inr (), \<lparr>sm_com = t, sm_tx = None\<rparr>))
      | ROLLBACK \<Rightarrow> (False, Inr (), w\<lparr>sm_tx := None\<rparr>)
      | _ \<Rightarrow> (False, Inr (), w))"

definition sim_query :: "sim \<Rightarrow> stmt \<Rightarrow> string list \<Rightarrow> bool \<times> row_data list result \<times> sim" where
  "sim_query w s ps =
     (case sm_tx w of
        None \<Rightarrow> (False, Inr [], w\<lparr>sm_com := (fst (sm_com w), snd (sm_com w) @ ps)\<rparr>)
      | Some t \<Rightarrow> (False, Inr [], w\<lparr>sm_tx := Some (fst t, snd t @ ps)\<rparr>))"

definition sim_env :: "sim env" where
  "sim_env =
     \<lparr>ev_exec = sim_exec, ev_query = sim_query, ev_query_all = (\<lambda>w s ps. (False, Inr [], w)),
      ev_read = (\<lambda>w p. if p = ''/r/a.sql'' then Inr ''A'' else if p = ''/r/b.sql'' then Inr ''B'' else Inl ''no file''),
      ev_remove_dir_all = (\<lambda>w d. (Inr (), w)), ev_is_dir = (\<lambda>w d. False), ev_exists = (\<lambda>w d. False), ev_canonical = (\<lambda>w d. Inl ''no file''),
      ev_read_dir = (\<lambda>w d. None), ev_file_len = (\<lambda>w f. None),
      ev_create_dir_all = (\<lambda>w d. (Inr (), w)), ev_write = (\<lambda>w f d. (Inr (), w)), ev_rename = (\<lambda>w f g. (Inr (), w)),
      ev_sha = (\<lambda>d. d), ev_hex = (\<lambda>d. d), ev_to_json = (\<lambda>recs. Inr (concat (map hr_normalized_key recs)))\<rparr>"

definition sim_server :: "(sim, string list) server" where
  "sim_server =
     \<lparr>committed = sm_com, working = (\<lambda>w. case sm_tx w of None \<Rightarrow> sm_com w | Some t \<Rightarrow> t),
      depth = (\<lambda>w. if sm_tx w = None then 0 else 1), effect = (\<lambda>b s. b # s), escaping = (\<lambda>b. False)\<rparr>"

lemma sim_tx_server: "tx_server sim_env sim_server"
  unfolding tx_server_def
  by (intro conjI allI impI)
    (auto simp: sim_env_def sim_exec_def sim_query_def sim_server_def exec_law_def insert_law_def
      split: stmt.splits option.splits if_splits)

lemma sim_answers:
  "sm_tx w = None \<Longrightarrow> answers sim_env w BEGIN_TX"
  "sm_tx w = Some t \<Longrightarrow> answers sim_env w ASSERT_OPEN_TX"
  "sm_tx w = Some t \<Longrightarrow> answers sim_env w COMMIT_TX"
  "answers sim_env w ROLLBACK"
  by (simp_all add: answers_def sim_env_def sim_exec_def same_files_def)

lemma sim_runs:
  "\<exists>r w'. ev_exec sim_env w (Text b) = (False, r, w') \<and> same_files sim_env w w' \<and> (\<not> isl r \<longrightarrow> depth sim_server w' = 1)
      \<and> (\<not> isl r \<longleftrightarrow> set (sim_needs b) \<subseteq> set (fst (working sim_server w)))" if "depth sim_server w = 1"
  using that by (cases "sm_tx w") (simp_all add: sim_env_def sim_exec_def sim_server_def same_files_def subset_eq)

lemma sim_inserts:
  "\<exists>rows w'. ev_query sim_env w INSERT_HISTORY [p] = (False, Inr rows, w') \<and> same_files sim_env w w'"
  by (cases "sm_tx w") (simp_all add: sim_env_def sim_query_def same_files_def)

lemma sim_dependency_server: "dependency_server sim_env sim_server set (\<lambda>b. set (sim_needs b))"
proof -
  have d: "depth sim_server w = 0 \<longleftrightarrow> sm_tx w = None" "depth sim_server w = 1 \<longleftrightarrow> (\<exists>t. sm_tx w = Some t)" for w
    by (auto simp: sim_server_def)
  have e: "set (effect sim_server b s) = insert b (set s) \<and> \<not> escaping sim_server b" for b s
    by (simp add: sim_server_def)
  have j: "\<not> isl (ev_to_json sim_env recs)" for recs by (simp add: sim_env_def)
  have "\<forall>w. depth sim_server w = 0 \<longrightarrow> answers sim_env w BEGIN_TX" using sim_answers(1) by (simp add: d)
  moreover have "\<forall>w. depth sim_server w = 1 \<longrightarrow> answers sim_env w ASSERT_OPEN_TX \<and> answers sim_env w COMMIT_TX"
    unfolding d using sim_answers(2,3) by blast
  ultimately show ?thesis
    unfolding dependency_server_def using sim_runs sim_inserts e j sim_answers(4) by blast
qed

definition sim_object :: "string \<Rightarrow> string \<Rightarrow> string \<Rightarrow> planned_object" where
  "sim_object key path cs =
     \<lparr>po_normalized_key = key, po_object_path = path, po_schema_name = ''app'', po_kind = ''views'',
      po_object_name = key, po_database_name = [], po_parent_name = [], po_transition_paths = [],
      po_git = None, po_checksum = cs, po_planned_action = CreateObject, po_exists = False\<rparr>"

definition sim_ws :: workspace where
  "sim_ws = workspace_default
     \<lparr>ws_script_key_index := [''a.sql'' \<mapsto> 1, ''b.sql'' \<mapsto> 2],
      ws_script_rows := replicate 2 \<lparr>sr_path_off = (0, 0), sr_abs_path_off = (0, 0), sr_kind = ObjectScript\<rparr>,
      ws_ingest_script_keys := [''a.sql'', ''b.sql''],
      ws_ingest_script_abs := [''/r/a.sql'', ''/r/b.sql'']\<rparr>"

definition sim_a :: planned_object where "sim_a = sim_object ''app/views/a'' ''a.sql'' ''A''"
definition sim_b :: planned_object where "sim_b = sim_object ''app/views/b'' ''b.sql'' ''B''"

definition sim_plan :: migration_plan where
  "sim_plan = migration_plan_default
     \<lparr>mp_schemas := [\<lparr>ps_action = CreateSchema, ps_name = ''app''\<rparr>], mp_objects := [sim_a, sim_b]\<rparr>"

definition sim_start :: "sim conn" where
  "sim_start = timing_conn_new \<lparr>sm_com = ([], []), sm_tx = None\<rparr>"

definition sim_caches :: audit_caches where
  "sim_caches = \<lparr>ac_ensured_dbs = [], ac_history_empty = Map.empty\<rparr>"

lemma sim_bodies: "is_utf8 ''A''" "is_utf8 ''B''" "hashed_bytes ''A'' = ''A''" "hashed_bytes ''B'' = ''B''"
  by code_simp+

lemma sim_reads:
  "read_script sim_env w sim_ws sim_a = Some (Inr ''A'')" "read_script sim_env w sim_ws sim_b = Some (Inr ''B'')"
  by (simp_all add: read_script_def find_script_def find_by_candidates_def path_lookup_candidates_def sim_a_def sim_b_def
    sim_object_def script_by_key_def script_key_from_path_def replace_char_def sim_ws_def workspace_default_def script_abs_path_def nth_opt_def script_checksum_def unwrap_or_def
    verified_body_def sim_env_def content_checksum_def sim_bodies)

lemma sim_records: "object_records sim_env sim_ws sim_a = Some [object_event sim_env sim_a ''applied'']"
  "object_records sim_env sim_ws sim_b = Some [object_event sim_env sim_b ''applied'']"
  by (simp_all add: object_records_def create_table_transition_records_def sim_a_def sim_b_def sim_object_def)

lemma sim_sort: "sort_tx_batch [sim_a, sim_b] = [sim_a, sim_b]"
  by (simp add: sort_tx_batch_def sim_a_def sim_b_def sim_object_def less_eq_char_def)

definition sim_conn :: "sim \<Rightarrow> nat \<Rightarrow> nat \<Rightarrow> sim conn" where
  "sim_conn w n m = \<lparr>cn_world = w, cn_live = True, cn_timeout = 0, cn_exec_calls = n, cn_query_calls = m\<rparr>"

lemma sim_conn_exec: "conn_exec sim_env s (sim_conn w n m) = (fst (snd (sim_exec w s)), sim_conn (snd (snd (sim_exec w s))) (n + 1) m)"
  by (simp add: conn_exec_def sim_conn_def sim_env_def run_bounded_def split: prod.split)

lemma sim_conn_query: "conn_query sim_env s ps (sim_conn w n m) = (fst (snd (sim_query w s ps)), sim_conn (snd (snd (sim_query w s ps))) n (m + 1))"
  by (simp add: conn_query_def sim_conn_def sim_env_def run_bounded_def split: prod.split)

lemma sim_json: "ev_to_json sim_env recs = Inr (concat (map hr_normalized_key recs))"
  by (simp add: sim_env_def)

lemma sim_apply_in_tx:
  "apply_in_tx sim_env b (rc # recs) label (sim_conn \<lparr>sm_com = (s, h), sm_tx = None\<rparr> n m, r) =
     (if \<forall>d \<in> set (sim_needs b). d \<in> set s
      then (True, sim_conn \<lparr>sm_com = (b # s, h @ [concat (map hr_normalized_key (rc # recs))]), sm_tx = None\<rparr> (Suc (Suc (Suc (Suc n)))) (Suc m),
            r\<lparr>ar_wrote_history := True\<rparr>)
      else (False, sim_conn \<lparr>sm_com = (s, h), sm_tx = None\<rparr> (Suc (Suc (Suc n))) m, push_error (label @ '': missing'') r))"
  by (simp add: apply_in_tx_def sim_conn_exec sim_exec_def flush_history_def sim_conn_query sim_query_def rollback_def sim_json)

lemma sim_fields:
  "po_normalized_key sim_a = ''app/views/a''" "po_normalized_key sim_b = ''app/views/b''"
  "hr_normalized_key (object_event sim_env sim_a e) = ''app/views/a''" "hr_normalized_key (object_event sim_env sim_b e) = ''app/views/b''"
  "po_planned_action sim_a = CreateObject" "po_planned_action sim_b = CreateObject"
  "po_kind sim_a = ''views''" "po_kind sim_b = ''views''"
  by (simp_all add: sim_a_def sim_b_def sim_object_def object_event_def po_git_triple_def record_event_def)

lemma sim_exec_object:
  "exec_object sim_env sim_ws sim_a (sim_conn \<lparr>sm_com = (s, h), sm_tx = None\<rparr> n m, r) =
     (if ''B'' \<in> set s
      then Some (sim_conn \<lparr>sm_com = (''A'' # s, h @ [''app/views/a'']), sm_tx = None\<rparr> (Suc (Suc (Suc (Suc n)))) (Suc m),
            inc_applied (r\<lparr>ar_wrote_history := True\<rparr>))
      else Some (sim_conn \<lparr>sm_com = (s, h), sm_tx = None\<rparr> (Suc (Suc (Suc n))) m, push_error ''app/views/a: missing'' r))"
  "exec_object sim_env sim_ws sim_b (sim_conn \<lparr>sm_com = (s, h), sm_tx = None\<rparr> n m, r) =
     Some (sim_conn \<lparr>sm_com = (''B'' # s, h @ [''app/views/b'']), sm_tx = None\<rparr> (Suc (Suc (Suc (Suc n)))) (Suc m),
            inc_applied (r\<lparr>ar_wrote_history := True\<rparr>))"
  by (simp_all add: exec_object_def sim_reads sim_records sim_apply_in_tx sim_needs_def sim_fields)


lemma sim_message: "\<not> str_contains ''app/views/a: missing'' ''rollback failed''"
  by code_simp

definition sim_end :: "string \<Rightarrow> sim conn" where
  "sim_end q = sim_conn \<lparr>sm_com = ([''A'', ''B'', q], [''app/views/b'', ''app/views/a'']), sm_tx = None\<rparr> 13 (Suc (Suc 0))"

definition sim_result :: apply_result where
  "sim_result = \<lparr>ar_applied = 3, ar_skipped = 0, ar_failed = 0, ar_errors = [], ar_wrote_history = True\<rparr>"

lemma sim_modules:
  assumes "q \<noteq> ''B''"
  shows "apply_modules sim_env sim_ws [sim_a, sim_b]
     (sim_conn \<lparr>sm_com = ([q], []), sm_tx = None\<rparr> 2 0, apply_result_default\<lparr>ar_applied := 1\<rparr>) =
     Some (sim_end q, sim_result)"
  using assms
  by (simp add: apply_modules.simps sim_exec_object Let_def push_error_def inc_applied_def sim_fields
    sim_message apply_result_default_def sim_end_def sim_result_def)

definition sim_schema_sql :: string where
  "sim_schema_sql = (case build_create_schema_sql ''app'' of Inr q \<Rightarrow> q | Inl e \<Rightarrow> [])"

lemma sim_schema: "build_create_schema_sql ''app'' = Inr sim_schema_sql" "sim_schema_sql \<noteq> ''B''"
  by code_simp+

lemma sim_phases:
  "run_phases sim_env sim_ws sim_plan (sim_conn \<lparr>sm_com = ([], []), sm_tx = None\<rparr> 1 0) = Some (sim_end sim_schema_sql, sim_result)"
  using sim_modules [OF sim_schema(2)]
  by (simp add: run_phases_def sim_plan_def migration_plan_default_def sim_schema(1) sim_conn_exec sim_exec_def apply_result_default_def
     inc_applied_def sim_fields apply_objects_def should_apply_def is_transactional_kind_def commit_history_def flush_tx_def sim_sort numeral_2_eq_2)

lemma sim_run:
  "\<exists>ac c. execute_plan sim_env sample_config sim_ws sim_plan (sim_caches, sim_start) = Some (Inr sim_result, sim_plan, ac, c)"
proof -
  let ?c = "sim_conn \<lparr>sm_com = ([], []), sm_tx = None\<rparr>"
  have p: "\<not> mp_blocked sim_plan" "ensure_objects_materialized sim_ws sim_plan = Some sim_plan"
    by (simp_all add: sim_plan_def migration_plan_default_def ensure_objects_materialized_def)
  have t: "ensure_tables sim_env fp (sim_caches, sim_start) = (Inr (), mark_tables_ensured fp sim_caches, ?c 0 0)" for fp
    by (simp add: ensure_tables_def client_exec_def sim_start_def timing_conn_new_def sim_conn_def sim_env_def sim_exec_def)
  have i: "ensure_history_index sim_env (?c 0 0) = (Inr (), ?c 1 0)"
    by (simp add: ensure_history_index_def sim_conn_exec sim_exec_def)
  obtain ac c where f: "finish sim_env sample_config sim_result
      (mark_tables_ensured (config_fingerprint sample_config) sim_caches, sim_end sim_schema_sql) = (Inr sim_result, ac, c)"
    by (simp add: finish_def sim_result_def Let_def)
  show ?thesis by (simp add: execute_plan_def p t i sim_phases f del: One_nat_def)
qed

lemma sim_idle: "idle sim_server sim_start"
  by (simp add: idle_def sim_server_def sim_start_def timing_conn_new_def)

text \<open>
  C13: Whatever fails or times out during \<open>apply\<close>, the durable state only changes by steps that keep
  scripts and history together: a planned script with its checksum verified takes effect together with
  its history rows, adoption rows are recorded, or a planned schema is created; only a script that ends
  the transaction itself can leave an effect without its rows.
\<close>

theorem apply_keeps_scripts_and_history_together:
  assumes "tx_server ev sv" "idle sv c"
    and "execute_plan ev cfg ws plan0 (ac, c) = Some (res, plan, ac', c')"
  shows "durable_steps ev sv (planned_units ev ws (mp_objects plan)) (lone_steps ev plan)
    (committed sv (cn_world c)) (committed sv (cn_world c'))"
  using assms by (rule execute_plan_durable)

theorem apply_keeps_scripts_and_history_together_witness:
  "\<exists>ac' c'. execute_plan sim_env sample_config sim_ws sim_plan (sim_caches, sim_start) = Some (Inr sim_result, sim_plan, ac', c')
    \<and> durable_steps sim_env sim_server (planned_units sim_env sim_ws (mp_objects sim_plan)) (lone_steps sim_env sim_plan)
        (committed sim_server (cn_world sim_start)) (committed sim_server (cn_world c'))"
  using sim_run apply_keeps_scripts_and_history_together [OF sim_tx_server sim_idle] by blast

text \<open>
  C14: When \<open>apply\<close> reports success, the history rows of every created or updated object and of
  every transition script of the plan are durable.
\<close>

theorem successful_apply_records_every_script:
  assumes "tx_server ev sv" "idle sv c"
    and "execute_plan ev cfg ws plan0 (ac, c) = Some (Inr res, plan, ac', c')"
  shows "(\<forall>ob \<in> set (mp_objects plan). should_apply ob \<longrightarrow> unit_recorded ev sv (object_units ev ws ob) (cn_world c'))
    \<and> (\<forall>ob \<in> set (mp_objects plan). po_planned_action ob = ReprocessChanged \<longrightarrow>
         (\<forall>path \<in> set (po_transition_paths ob). unit_recorded ev sv (path_units ev ws ob path) (cn_world c')))"
  using assms by (rule execute_plan_recorded)

theorem successful_apply_records_every_script_witness:
  "\<exists>ac' c'. execute_plan sim_env sample_config sim_ws sim_plan (sim_caches, sim_start) = Some (Inr sim_result, sim_plan, ac', c')
    \<and> unit_recorded sim_env sim_server (object_units sim_env sim_ws sim_a) (cn_world c')"
proof -
  from sim_run obtain ac' c' where
    r: "execute_plan sim_env sample_config sim_ws sim_plan (sim_caches, sim_start) = Some (Inr sim_result, sim_plan, ac', c')" by blast
  have "sim_a \<in> set (mp_objects sim_plan)" "should_apply sim_a"
    by (simp_all add: sim_plan_def should_apply_def sim_fields)
  with successful_apply_records_every_script [OF sim_tx_server sim_idle r] r show ?thesis by blast
qed

text \<open>
  On success the counters are the plan's: \<open>applied\<close> is the number of created schemas, of
  transition scripts and of created or updated objects, each once however often a module was retried;
  \<open>skipped\<close> the number of existing schemas and of adopted, unchanged or reprocessed objects.
\<close>

theorem successful_apply_counts:
  assumes "execute_plan ev cfg ws plan0 (ac, c) = Some (Inr res, plan, ac', c')"
  shows "ar_failed res = 0
    \<and> ar_applied res = length (filter (\<lambda>s. ps_action s = CreateSchema) (mp_schemas plan)) + transition_count (mp_objects plan)
         + length (filter should_apply (mp_objects plan))
    \<and> ar_skipped res = length (filter (\<lambda>s. ps_action s \<noteq> CreateSchema) (mp_schemas plan))
         + length (filter (\<lambda>ob. po_planned_action ob = AdoptExisting \<or> should_count_skip ob) (mp_objects plan))"
proof -
  from assms have "\<not> mp_blocked plan0" by (auto simp: execute_plan_def)
  with assms obtain c1 c2 ac1 r where "run_phases ev ws plan c1 = Some (c2, r)" "finish ev cfg r (ac1, c2) = (Inr res, ac', c')"
    by (auto simp: execute_plan_def Let_def split: Option.bind_splits sum.splits prod.splits)
  moreover from this(2) have "res = r" "ar_failed r = 0" by (auto simp: finish_def Let_def split: if_splits)
  ultimately show ?thesis using run_phases_counts by simp
qed

theorem successful_apply_counts_witness: "ar_applied sim_result = 3 \<and> ar_skipped sim_result = 0"
proof -
  from sim_run obtain ac c where
    "execute_plan sim_env sample_config sim_ws sim_plan (sim_caches, sim_start) = Some (Inr sim_result, sim_plan, ac, c)" by blast
  from successful_apply_counts [OF this] show ?thesis
    by (simp add: sim_plan_def migration_plan_default_def transition_count_def sim_fields should_apply_def should_count_skip_def)
qed

text \<open>
  C16: Whatever order the modules come in, retrying applies them all: on a server that accepts a module
  exactly when the modules it needs are present, and with dependencies that have no cycle and are present
  or pending, \<open>apply_modules\<close> returns, reports no failure and leaves every pending module present.
\<close>

theorem module_retry_applies_all:
  assumes "tx_server ev sv" "dependency_server ev sv present needs"
    and "\<And>b b'. b' \<in> needs b \<Longrightarrow> (rank b' :: nat) < rank b"
    and "cn_live c" "depth sv (cn_world c) = 0" "modules_at ev ws (cn_world c) body pending"
    and "\<And>ob. ob \<in> set pending \<Longrightarrow> needs (body ob) \<subseteq> present_at sv present c \<union> body ` set pending"
  shows "\<exists>c' r'. apply_modules ev ws pending (c, r) = Some (c', r') \<and> ar_failed r' = ar_failed r
      \<and> body ` set pending \<subseteq> present_at sv present c'"
  using apply_modules_dependency [where rank = rank and r = r, OF assms(1,2,3) _ assms(6,7)] assms(4,5) by (auto simp: ready_def)

definition sim_body :: "planned_object \<Rightarrow> string" where
  "sim_body ob = (if ob = sim_a then ''A'' else ''B'')"

lemma sim_distinct: "sim_b \<noteq> sim_a"
  by (simp add: sim_a_def sim_b_def sim_object_def)

lemma sim_refusal: "ev_exec sim_env w (Text b) = (False, Inl e, w') \<Longrightarrow> b = ''A'' \<and> e = Sql ''missing''"
  by (auto simp: sim_env_def sim_exec_def sim_needs_def split: option.splits if_splits)

lemma sim_modules_at: "modules_at sim_env sim_ws w sim_body [sim_a, sim_b]"
  using sim_message by (auto simp: modules_at_def sim_reads sim_records sim_body_def sim_distinct sim_fields dest!: sim_refusal)

theorem module_retry_applies_all_witness:
  "\<exists>c' r'. apply_modules sim_env sim_ws [sim_a, sim_b] (sim_start, apply_result_default) = Some (c', r') \<and> ar_failed r' = 0
      \<and> {''A'', ''B''} \<subseteq> present_at sim_server set c'"
proof -
  have rank: "(if b' = ''A'' then 1 else 0 :: nat) < (if b = ''A'' then 1 else 0)" if "b' \<in> set (sim_needs b)" for b b'
    using that by (auto simp: sim_needs_def split: if_splits)
  have pend: "set (sim_needs (sim_body ob)) \<subseteq> present_at sim_server set sim_start \<union> sim_body ` set [sim_a, sim_b]"
    if "ob \<in> set [sim_a, sim_b]" for ob
    using that by (auto simp: sim_needs_def sim_body_def sim_distinct split: if_splits)
  have img: "sim_body ` set [sim_a, sim_b] = {''A'', ''B''}" by (auto simp: sim_body_def sim_distinct)
  have st: "cn_live sim_start" "depth sim_server (cn_world sim_start) = 0"
    by (simp_all add: sim_start_def timing_conn_new_def sim_server_def)
  show ?thesis
    using module_retry_applies_all [OF sim_tx_server sim_dependency_server rank st sim_modules_at pend, where r = apply_result_default]
    unfolding img by (simp add: apply_result_default_def)
qed

text \<open>
  C15: \<open>apply\<close> sends nothing but its own control statements, the creation of planned schemas and
  scripts of planned objects whose bytes have the checksum recorded at scan time; a blocked plan sends
  nothing at all.
\<close>

theorem apply_sends_only_planned_sql:
  assumes "execute_plan (recording ev) cfg ws plan0 (ac, c) = Some (res, plan, ac', c')"
  shows "\<exists>cs. calls_of c' = calls_of c @ cs \<and> (mp_blocked plan0 \<longrightarrow> cs = [])
    \<and> (\<forall>cl \<in> set cs. cl_stmt cl \<in> control_statements
         \<or> (\<exists>b. cl_stmt cl = Text b \<and> (planned_schema_sql plan b \<or> verified_script ev ws plan b)))"
proof (cases "mp_blocked plan0")
  case True
  with assms show ?thesis by (simp add: execute_plan_def)
next
  case False
  with execute_plan_calls [OF assms] show ?thesis by (auto simp: extends_calls_def)
qed

definition recorded_start :: "(sim \<times> call list) conn" where
  "recorded_start = timing_conn_new (\<lparr>sm_com = ([], []), sm_tx = None\<rparr>, [])"

definition schema_plan :: migration_plan where
  "schema_plan = migration_plan_default\<lparr>mp_schemas := [\<lparr>ps_action = CreateSchema, ps_name = ''app''\<rparr>]\<rparr>"

lemma sim_recorded_exec:
  "cn_live c \<Longrightarrow> cn_timeout c = 0 \<Longrightarrow> cn_world c = (w, l) \<Longrightarrow> sim_exec w s = (False, Inr (), w') \<Longrightarrow>
     conn_exec (recording sim_env) s c = (Inr (), c\<lparr>cn_world := (w', l @ [\<lparr>cl_stmt = s, cl_params = [], cl_late = False, cl_ok = True\<rparr>]),
       cn_exec_calls := cn_exec_calls c + 1\<rparr>)"
  by (simp add: conn_exec_def recording_def sim_env_def run_bounded_def)

lemma sim_recorded_tables:
  "cn_live c \<Longrightarrow> cn_world c = (w, l) \<Longrightarrow> \<exists>ac' c'. ensure_tables (recording sim_env) fp (ac, c) = (Inr (), ac', c')
     \<and> cn_live c' \<and> cn_timeout c' = cn_timeout c \<and> fst (cn_world c') = w"
  by (simp add: ensure_tables_def client_exec_def recording_def sim_env_def sim_exec_def)

theorem apply_sends_only_planned_sql_witness:
  "\<exists>c'. (\<exists>res ac'. execute_plan (recording sim_env) sample_config sim_ws schema_plan (sim_caches, recorded_start) = Some (res, schema_plan, ac', c'))
    \<and> (\<exists>cs. calls_of c' = calls_of recorded_start @ cs
         \<and> (\<forall>cl \<in> set cs. cl_stmt cl \<in> control_statements
              \<or> (\<exists>b. cl_stmt cl = Text b \<and> (planned_schema_sql schema_plan b \<or> verified_script sim_env sim_ws schema_plan b))))"
proof -
  have st: "cn_live recorded_start" "cn_timeout recorded_start = 0"
    "cn_world recorded_start = (\<lparr>sm_com = ([], []), sm_tx = None\<rparr>, [])"
    by (simp_all add: recorded_start_def timing_conn_new_def)
  obtain ac1 c1 where t: "ensure_tables (recording sim_env) (config_fingerprint sample_config) (sim_caches, recorded_start) = (Inr (), ac1, c1)"
    "cn_live c1" "cn_timeout c1 = 0" "fst (cn_world c1) = \<lparr>sm_com = ([], []), sm_tx = None\<rparr>"
    using sim_recorded_tables [OF st(1,3)] st(2) by metis
  then obtain l where l: "cn_world c1 = (\<lparr>sm_com = ([], []), sm_tx = None\<rparr>, l)" by (cases "cn_world c1") auto
  let ?cl = "\<lambda>s. \<lparr>cl_stmt = s, cl_params = [], cl_late = False, cl_ok = True\<rparr>"
  define c2 where "c2 = c1\<lparr>cn_world := (\<lparr>sm_com = ([], []), sm_tx = None\<rparr>, l @ [?cl BOOTSTRAP_INDEX]), cn_exec_calls := cn_exec_calls c1 + 1\<rparr>"
  have i: "ensure_history_index (recording sim_env) c1 = (Inr (), c2)"
    unfolding ensure_history_index_def c2_def by (rule sim_recorded_exec [OF t(2,3) l]) (simp add: sim_exec_def)
  have "sim_exec \<lparr>sm_com = ([], []), sm_tx = None\<rparr> (Text sim_schema_sql) = (False, Inr (), \<lparr>sm_com = ([sim_schema_sql], []), sm_tx = None\<rparr>)"
    by (simp add: sim_exec_def)
  from sim_recorded_exec [OF _ _ _ this, of c2 "l @ [?cl BOOTSTRAP_INDEX]"] t(2,3)
  have "\<exists>c3. conn_exec (recording sim_env) (Text sim_schema_sql) c2 = (Inr (), c3)" by (simp add: c2_def)
  then obtain c3 where e: "conn_exec (recording sim_env) (Text sim_schema_sql) c2 = (Inr (), c3)" ..
  have r: "run_phases (recording sim_env) sim_ws schema_plan c2 = Some (c3, apply_result_default\<lparr>ar_applied := 1\<rparr>)"
    by (simp add: run_phases_def schema_plan_def migration_plan_default_def sim_schema(1) e inc_applied_def apply_result_default_def
        apply_objects_def commit_history_def flush_tx_def apply_modules.simps sort_tx_batch_def)
  have p: "\<not> mp_blocked schema_plan" "ensure_objects_materialized sim_ws schema_plan = Some schema_plan"
    by (simp_all add: schema_plan_def migration_plan_default_def ensure_objects_materialized_def)
  obtain res ac' c' where "execute_plan (recording sim_env) sample_config sim_ws schema_plan (sim_caches, recorded_start) = Some (res, schema_plan, ac', c')"
    by (cases "finish (recording sim_env) sample_config (apply_result_default\<lparr>ar_applied := 1\<rparr>) (ac1, c3)")
      (auto simp: execute_plan_def p t(1) i r)
  with apply_sends_only_planned_sql [OF this] show ?thesis by blast
qed

text \<open>
  C17: The metadata commands never run repository SQL: \<open>baseline\<close> and \<open>repair-checksum\<close> only
  prepare the audit tables and insert history rows.
\<close>

theorem metadata_commands_send_no_scripts:
  assumes "execute_metadata_plan (recording ev) cfg ws plan0 mode (ac, c) = Some (res, plan, ac', c')"
  shows "\<exists>cs. calls_of c' = calls_of c @ cs
    \<and> cl_stmt ` set cs \<subseteq> {BOOTSTRAP_TABLES, BOOTSTRAP_DRIFT, BOOTSTRAP_INDEX, INSERT_HISTORY}"
  using execute_metadata_plan_calls [OF assms] by (auto simp: extends_calls_def)

theorem metadata_commands_send_no_scripts_witness:
  "\<exists>c'. (\<exists>res plan ac'. execute_metadata_plan (recording sim_env) sample_config sim_ws sim_plan MdBaseline (sim_caches, recorded_start) = Some (res, plan, ac', c'))
    \<and> (\<exists>cs. calls_of c' = calls_of recorded_start @ cs
         \<and> cl_stmt ` set cs \<subseteq> {BOOTSTRAP_TABLES, BOOTSTRAP_DRIFT, BOOTSTRAP_INDEX, INSERT_HISTORY})"
proof -
  have p: "\<not> mp_blocked sim_plan" "ensure_objects_materialized sim_ws sim_plan = Some sim_plan"
    by (simp_all add: sim_plan_def migration_plan_default_def ensure_objects_materialized_def)
  have "\<exists>x. execute_metadata_plan (recording sim_env) sample_config sim_ws sim_plan MdBaseline (sim_caches, recorded_start) = Some x"
    by (simp add: execute_metadata_plan_def p split: prod.splits sum.splits)
  then obtain res plan ac' c' where
    "execute_metadata_plan (recording sim_env) sample_config sim_ws sim_plan MdBaseline (sim_caches, recorded_start) = Some (res, plan, ac', c')"
    by (metis prod_cases4)
  with metadata_commands_send_no_scripts [OF this] show ?thesis by blast
qed

end
