(* ===== verification/Scope_Correct.thy ===== *)
theory Scope_Correct
  imports Scope Plan_Correct
begin

section \<open>The inspect scope is sound\<close>

text \<open>
  Which objects the database phase may leave uninspected, and the closure of the changed objects
  over trigger parents.
\<close>

subsection \<open>The closure over trigger parents\<close>

definition trigger_parent :: "workspace \<Rightarrow> string \<Rightarrow> string \<Rightarrow> bool" where
  "trigger_parent ws q pq \<longleftrightarrow>
     (\<exists>i < object_count ws. database_key ws i = Some q
       \<and> (\<exists>k. entry_key ws i = Some k \<and> kind_part k = ''triggers'')
       \<and> (\<exists>p. map_of (ws_parent_by_row ws) (row_id_at i) = Some p \<and> p \<noteq> 0 \<and> database_key ws (p - 1) = Some pq))"

inductive delta_reach :: "workspace \<Rightarrow> string list \<Rightarrow> string \<Rightarrow> bool" for ws delta where
  changed: "q \<in> set delta \<Longrightarrow> delta_reach ws delta q"
| parent: "delta_reach ws delta q \<Longrightarrow> trigger_parent ws q pq \<Longrightarrow> delta_reach ws delta pq"

lemma delta_pass_reach:
  "delta_pass ws is (delta, added) = Some (delta', added') \<Longrightarrow> \<forall>i \<in> set is. i < object_count ws \<Longrightarrow>
     \<forall>q \<in> set delta. delta_reach ws d0 q \<Longrightarrow> \<forall>q \<in> set delta'. delta_reach ws d0 q"
proof (induction "is" arbitrary: delta added)
  case (Cons i "is")
  from Cons.prems(1) obtain q k where qk: "database_key ws i = Some q" "entry_key ws i = Some k" by (auto split: Option.bind_splits)
  consider (skip) "delta_pass ws is (delta, added) = Some (delta', added')"
    | (add) p pq where "q \<in> set delta" "kind_part k = ''triggers''" "map_of (ws_parent_by_row ws) (row_id_at i) = Some p" "p \<noteq> 0"
        "database_key ws (p - 1) = Some pq" "delta_pass ws is (delta @ [pq], added + 1) = Some (delta', added')"
    using Cons.prems(1) qk by (auto split: Option.bind_splits if_splits option.splits)
  then show ?case
  proof cases
    case skip
    with Cons.IH Cons.prems(2,3) show ?thesis by auto
  next
    case add
    have "trigger_parent ws q pq" using Cons.prems(2) qk add unfolding trigger_parent_def by auto
    with Cons.prems(3) add(1) have "delta_reach ws d0 pq" by (blast intro: parent)
    with Cons.prems(2,3) show ?thesis by (intro Cons.IH [OF add(6)]) auto
  qed
qed simp

lemma delta_pass_closed:
  "delta_pass ws is (delta, added) = Some (delta', added) \<Longrightarrow> i \<in> set is \<Longrightarrow> database_key ws i = Some q \<Longrightarrow> q \<in> set delta \<Longrightarrow>
     entry_key ws i = Some k \<Longrightarrow> kind_part k = ''triggers'' \<Longrightarrow> map_of (ws_parent_by_row ws) (row_id_at i) = Some p \<Longrightarrow> p \<noteq> 0 \<Longrightarrow>
     database_key ws (p - 1) = Some pq \<Longrightarrow> pq \<in> set delta"
proof (induction "is" arbitrary: delta)
  case (Cons j "is")
  have same: "delta_pass ws js (d, added + 1) \<noteq> Some (delta', added)" for js d
    by (auto dest: delta_pass_grows)
  show ?case
  proof (cases "i = j")
    case True
    with Cons.prems same show ?thesis by (auto split: Option.bind_splits if_splits option.splits)
  next
    case False
    have "delta_pass ws is (delta, added) = Some (delta', added)"
      using Cons.prems(1) same by (auto split: Option.bind_splits if_splits option.splits)
    with False Cons.prems show ?thesis by (intro Cons.IH) auto
  qed
qed simp

lemma expand_delta_loop_reach:
  "expand_delta_loop ws delta = Some out \<Longrightarrow> \<forall>q \<in> set delta. delta_reach ws d0 q \<Longrightarrow> set d0 \<subseteq> set delta \<Longrightarrow>
     set out = {q. delta_reach ws d0 q}"
proof (induction ws delta rule: expand_delta_loop.induct)
  case (1 ws delta)
  from "1.prems"(1) obtain delta' added where pass: "delta_pass ws [0..<object_count ws] (delta, 0) = Some (delta', added)"
    by (auto simp: expand_delta_loop.simps [of ws delta] split: option.splits)
  from delta_pass_grows [OF this] obtain new where new: "delta' = delta @ new" "added = length new" by auto
  have reach: "\<forall>q \<in> set delta'. delta_reach ws d0 q"
    using delta_pass_reach [OF pass _ "1.prems"(2)] by auto
  show ?case
  proof (cases "added = 0")
    case True
    with "1.prems"(1) pass new have out: "out = delta" "delta' = delta" by (auto simp: expand_delta_loop.simps [of ws delta])
    have "q \<in> set delta" if "delta_reach ws d0 q" for q
      using that
    proof induction
      case (changed q)
      with "1.prems"(3) show ?case by auto
    next
      case (parent q pq)
      then show ?case using delta_pass_closed [of ws _ delta 0 delta] pass True out(2)
        unfolding trigger_parent_def by fastforce
    qed
    with out "1.prems"(2) show ?thesis by auto
  next
    case False
    with "1.prems" pass new reach "1.IH" [OF pass refl] show ?thesis
      by (auto simp: expand_delta_loop.simps [of ws delta])
  qed
qed

text \<open>An arranged workspace whose parent links stay inside the object table.\<close>

definition parents_in_range :: "workspace \<Rightarrow> bool" where
  "parents_in_range ws \<longleftrightarrow>
     length (ws_object_keys ws) = object_count ws \<and> length (ws_object_rows ws) = object_count ws
     \<and> list_all (\<lambda>(r, p). p \<le> object_count ws) (ws_parent_by_row ws)"

lemma database_key_total: "parents_in_range ws \<Longrightarrow> i < object_count ws \<Longrightarrow> \<exists>q. database_key ws i = Some q"
  by (auto simp: database_key_def parents_in_range_def object_count_def nth_opt_def entry_key_def)

lemma delta_pass_total:
  assumes ok: "parents_in_range ws"
  shows "\<forall>i \<in> set is. i < object_count ws \<Longrightarrow> \<exists>st. delta_pass ws is (delta, added) = Some st"
proof (induction "is" arbitrary: delta added)
  case (Cons i "is")
  obtain q where q: "database_key ws i = Some q" using database_key_total [OF ok] Cons.prems by auto
  then obtain k where k: "entry_key ws i = Some k" by (auto simp: database_key_def split: Option.bind_splits)
  have par: "\<exists>pq. database_key ws (p - 1) = Some pq" if "map_of (ws_parent_by_row ws) r = Some p" "p \<noteq> 0" for p r
  proof (rule database_key_total [OF ok])
    from that(1) ok have "p \<le> object_count ws" by (auto simp: parents_in_range_def list_all_iff dest: map_of_SomeD)
    with that(2) show "p - 1 < object_count ws" by simp
  qed
  have rest: "\<exists>st. delta_pass ws is (d, a) = Some st" for d a using Cons by simp
  show ?case
  proof (cases "map_of (ws_parent_by_row ws) (row_id_at i)")
    case None
    with q k rest [of delta added] show ?thesis by auto
  next
    case (Some p)
    show ?thesis
    proof (cases "p = 0")
      case True
      with Some q k rest [of delta added] show ?thesis by auto
    next
      case False
      with par Some obtain pq where "database_key ws (p - 1) = Some pq" by blast
      with False Some q k rest [of delta added] rest [of "delta @ [pq]" "added + 1"] show ?thesis by auto
    qed
  qed
qed simp

lemma expand_delta_loop_total:
  assumes ok: "parents_in_range ws"
  shows "\<exists>out. expand_delta_loop ws delta = Some out"
  using ok
proof (induction ws delta rule: expand_delta_loop.induct)
  case (1 ws delta)
  then obtain delta' added where pass: "delta_pass ws [0..<object_count ws] (delta, 0) = Some (delta', added)"
    using delta_pass_total [OF "1.prems", of "[0..<object_count ws]" delta 0] by force
  with 1 show ?case by (auto simp: expand_delta_loop.simps [of ws delta])
qed

text \<open>
  C21: \<open>expand_delta_closure\<close> (\<open>gate/delta.rs\<close>) always ends and yields exactly the closure: the
  changed objects and, for every trigger in the set, its parent table, over any number of steps. So a
  changed trigger never leaves its table out of the inspection, and nothing unrelated is added.
\<close>

theorem delta_closure_is_least:
  assumes "parents_in_range ws"
  shows "\<exists>out. expand_delta_closure ws delta = Some out \<and> set out = {q. delta_reach ws delta q}"
proof (cases "delta = []")
  case True
  have "\<not> delta_reach ws [] q" for q
  proof
    assume "delta_reach ws [] q"
    then show False by induction auto
  qed
  with True show ?thesis by (simp add: expand_delta_closure_def)
next
  case False
  from expand_delta_loop_total [OF assms] obtain out where "expand_delta_loop ws delta = Some out" by blast
  with expand_delta_loop_reach [OF this, of delta] False show ?thesis
    by (auto simp: expand_delta_closure_def intro: changed)
qed

subsection \<open>Hot and stable objects\<close>

text \<open>
  The evidence that lets an object go uninspected: it is not a module, it is not in the delta, and
  the checksum recorded for it is the one of its file and not the zero digest.
\<close>

definition unchanged :: "(string \<Rightarrow> nat) \<Rightarrow> workspace \<Rightarrow> checksum_map \<Rightarrow> string list \<Rightarrow> nat \<Rightarrow> bool" where
  "unchanged fp ws checksums delta i \<longleftrightarrow>
     (\<exists>obj k q row. nth_opt (ws_object_entries ws) i = Some obj \<and> entry_key ws i = Some k \<and> database_key ws i = Some q
        \<and> nth_opt (ws_object_rows ws) i = Some row \<and> \<not> is_module_kind_code (row_kind_code row) \<and> q \<notin> set delta
        \<and> get_key fp checksums k = Some (oe_checksum obj) \<and> oe_checksum obj \<noteq> zero_digest)"

lemma not_needs_inspection:
  "\<not> needs_inspection fp checksums delta kc q k cs \<longleftrightarrow>
     \<not> is_module_kind_code kc \<and> q \<notin> set delta \<and> get_key fp checksums k = Some cs \<and> cs \<noteq> zero_digest"
  by (auto simp: needs_inspection_def split: option.splits)

lemma fst_update: "fst ` set (AList.update k v m) = insert k (fst ` set m)"
  using dom_update [of k v m] by simp

lemma classify_objects_sound:
  "classify_objects fp ws checksums delta is (hot, stab) = Some (hot', stab') \<Longrightarrow>
     set hot \<subseteq> set hot' \<and> (distinct hot \<longrightarrow> distinct hot') \<and> fst ` set stab \<subseteq> fst ` set stab'
     \<and> set hot' \<subseteq> set hot \<union> {k. \<exists>i \<in> set is. entry_key ws i = Some k}
     \<and> fst ` set stab' \<subseteq> fst ` set stab \<union> {k. \<exists>i \<in> set is. entry_key ws i = Some k \<and> unchanged fp ws checksums delta i}
     \<and> (\<forall>i \<in> set is. \<exists>k. entry_key ws i = Some k
          \<and> (k \<in> set hot' \<or> k \<in> fst ` set stab' \<and> unchanged fp ws checksums delta i))"
proof (induction "is" arbitrary: hot stab)
  case (Cons i "is")
  from Cons.prems obtain obj k q row where got: "nth_opt (ws_object_entries ws) i = Some obj" "entry_key ws i = Some k"
    "database_key ws i = Some q" "nth_opt (ws_object_rows ws) i = Some row"
    by (auto split: Option.bind_splits)
  show ?case
  proof (cases "needs_inspection fp checksums delta (row_kind_code row) q k (oe_checksum obj)")
    case True
    with Cons.prems got have "classify_objects fp ws checksums delta is (List.insert k hot, stab) = Some (hot', stab')" by simp
    from Cons.IH [OF this] got show ?thesis by (auto simp: subset_iff)
  next
    case False
    with Cons.prems got obtain co where "classify_objects fp ws checksums delta is (hot, AList.update k co stab) = Some (hot', stab')"
      by (auto split: Option.bind_splits)
    note ih = Cons.IH [OF this, unfolded fst_update]
    have "unchanged fp ws checksums delta i" using got False by (auto simp: unchanged_def not_needs_inspection)
    with ih got show ?thesis by (intro conjI) (auto simp: subset_iff)
  qed
qed auto

lemma classify_objects_keys:
  assumes "classify_objects fp ws checksums delta is ([], []) = Some (hot, stab)"
  shows "distinct hot" "set hot \<subseteq> {k. \<exists>i \<in> set is. entry_key ws i = Some k}"
    "fst ` set stab \<subseteq> {k. \<exists>i \<in> set is. entry_key ws i = Some k}"
proof -
  note s = classify_objects_sound [OF assms]
  from s show "distinct hot" by simp
  from s show "set hot \<subseteq> {k. \<exists>i \<in> set is. entry_key ws i = Some k}" by simp
  from s have "fst ` set stab \<subseteq> {k. \<exists>i \<in> set is. entry_key ws i = Some k \<and> unchanged fp ws checksums delta i}" by simp
  then show "fst ` set stab \<subseteq> {k. \<exists>i \<in> set is. entry_key ws i = Some k}" by (rule subset_trans) blast
qed

lemma classify_objects_each:
  assumes "classify_objects fp ws checksums delta is ([], []) = Some (hot, stab)"
  shows "\<forall>i \<in> set is. \<exists>k. entry_key ws i = Some k
      \<and> (k \<in> set hot \<or> k \<in> fst ` set stab \<and> unchanged fp ws checksums delta i)"
  using classify_objects_sound [OF assms] by simp

lemma set_foldl_insert: "set (foldl (\<lambda>h k. List.insert k h) hot ks) = set hot \<union> set ks"
  by (induction ks arbitrary: hot) auto

lemma distinct_foldl_insert: "distinct hot \<Longrightarrow> distinct (foldl (\<lambda>h k. List.insert k h) hot ks)"
  by (induction ks arbitrary: hot) auto

lemma fst_foldl_delete: "fst ` set (foldl (\<lambda>m k. AList.delete k m) m ks) = fst ` set m - set ks"
proof (induction ks arbitrary: m)
  case (Cons k ks)
  have "fst ` set (AList.delete k m) = fst ` set m - {k}" by (auto simp: AList.delete_eq)
  with Cons show ?case by auto
qed simp

lemma promote_spot_check_keys_of:
  assumes "promote_spot_check_keys sha hex n dg (hot, stab) = (hot', stab')"
  shows "\<exists>keys. set keys \<subseteq> fst ` set stab \<and> hot' = foldl (\<lambda>h k. List.insert k h) hot keys
    \<and> stab' = foldl (\<lambda>m k. AList.delete k m) stab keys"
proof (cases "n = 0 \<or> stab = []")
  case True
  with assms show ?thesis by (intro exI [of _ "[]"]) (simp add: promote_spot_check_keys_def)
next
  case False
  let ?sorted = "sort_key (\<lambda>k. spot_check_rank sha k (hex dg)) (map fst stab)"
  let ?keys = "take (min n (length stab)) ?sorted"
  have "set ?keys \<subseteq> set ?sorted" by (rule set_take_subset)
  also have "\<dots> = fst ` set stab" by simp
  finally show ?thesis using assms False unfolding promote_spot_check_keys_def Let_def
    by (intro exI [of _ ?keys]) simp
qed

lemma promote_spot_check_sound:
  assumes "promote_spot_check_keys sha hex n dg (hot, stab) = (hot', stab')"
  shows "set hot \<subseteq> set hot' \<and> set hot' \<subseteq> set hot \<union> fst ` set stab \<and> (distinct hot \<longrightarrow> distinct hot')
    \<and> fst ` set stab' \<subseteq> fst ` set stab \<and> fst ` set stab \<subseteq> set hot' \<union> fst ` set stab'"
proof -
  from promote_spot_check_keys_of [OF assms] obtain keys where keys: "set keys \<subseteq> fst ` set stab"
    "set hot' = set hot \<union> set keys" "fst ` set stab' = fst ` set stab - set keys" "distinct hot \<Longrightarrow> distinct hot'"
    by (metis set_foldl_insert distinct_foldl_insert fst_foldl_delete)
  then show ?thesis by blast
qed

lemma promoted_at_least:
  assumes "promote_spot_check_keys sha hex n dg (hot, stab) = (hot', stab')" "distinct (map fst stab)"
  shows "min n (length stab) \<le> card (set hot' \<inter> fst ` set stab)"
proof (cases "n = 0 \<or> stab = []")
  case False
  define keys where "keys = take (min n (length stab)) (sort_key (\<lambda>k. spot_check_rank sha k (hex dg)) (map fst stab))"
  from assms False have hot': "set hot' = set hot \<union> set keys"
    by (auto simp: promote_spot_check_keys_def keys_def set_foldl_insert Let_def)
  have "distinct keys" using assms(2) by (simp add: keys_def)
  then have "card (set keys) = min n (length stab)" by (simp add: distinct_card keys_def)
  moreover have "set keys \<subseteq> set hot' \<inter> fst ` set stab" using hot' by (auto simp: keys_def dest: in_set_takeD)
  ultimately show ?thesis by (metis card_mono finite_Int List.finite_set)
qed auto

lemma all_keys_hot:
  assumes "length hot = object_count ws" "distinct hot" "set hot \<subseteq> {k. \<exists>i \<in> {0..<object_count ws}. entry_key ws i = Some k}"
    "i < object_count ws" "entry_key ws i = Some k"
  shows "k \<in> set hot"
proof -
  let ?K = "{k. \<exists>i \<in> {0..<object_count ws}. entry_key ws i = Some k}"
  have sub: "?K \<subseteq> (\<lambda>i. the (entry_key ws i)) ` {0..<object_count ws}" by force
  then have "card ?K \<le> object_count ws" using surj_card_le [OF _ sub] by simp
  moreover have "finite ?K" using sub by (rule finite_subset) simp
  moreover have "card (set hot) = object_count ws" using assms(1,2) by (simp add: distinct_card)
  ultimately have "set hot = ?K" using assms(3) by (intro card_seteq) auto
  with assms(4,5) show ?thesis by auto
qed

text \<open>
  C22: whatever scope \<open>build_inspect_scope\<close> builds, every managed object is either looked up in the
  live catalog (hot) or left out with evidence that it did not change: the scope is not a full one, the
  object is no module, no changed path leads to it directly or through a trigger, and the nonzero
  checksum of its file is the one recorded for it. Nothing else is taken from the repository on trust:
  every stable object has the same evidence.
\<close>

theorem inspect_scope_covers_every_object:
  assumes built: "build_inspect_scope sha hex fp spot ws paths full_flag checksums = Some scope"
  shows "\<forall>i < object_count ws. \<exists>k. entry_key ws i = Some k
      \<and> (k \<in> set (is_hot_keys scope)
         \<or> (\<not> is_full_inspect scope \<and> k \<in> fst ` set (is_stable_objects scope)
            \<and> (\<exists>delta. Option.bind (keys_for_changed_paths ws paths) (expand_delta_closure ws) = Some delta
                 \<and> unchanged fp ws checksums delta i)))"
proof (cases full_flag)
  case True
  with built show ?thesis
    by (auto simp: build_inspect_scope_def normalized_keys_def entry_keys_def those_eq_Some set_foldl_insert
        list_eq_iff_nth_eq split: Option.bind_splits)
next
  case False
  with built obtain delta0 delta hot0 stab0 hot stab where
    d: "keys_for_changed_paths ws paths = Some delta0" "expand_delta_closure ws delta0 = Some delta"
    and cl: "classify_objects fp ws checksums delta [0..<object_count ws] ([], []) = Some (hot0, stab0)"
    and pr: "promote_spot_check_keys sha hex spot (ws_layout_digest ws) (hot0, stab0) = (hot, stab)"
    and hot: "is_hot_keys scope = hot" and fl: "is_full_inspect scope = (length hot = object_count ws)"
    and st: "length hot \<noteq> object_count ws \<Longrightarrow> is_stable_objects scope = stab"
    by (auto simp: build_inspect_scope_def Let_def split: Option.bind_splits prod.splits if_splits)
  note c = classify_objects_keys [OF cl] and each = classify_objects_each [OF cl]
  from promote_spot_check_sound [OF pr] have p: "set hot0 \<subseteq> set hot" "set hot \<subseteq> set hot0 \<union> fst ` set stab0"
    "distinct hot0 \<Longrightarrow> distinct hot" "fst ` set stab0 \<subseteq> set hot \<union> fst ` set stab" by simp_all
  have sub: "set hot \<subseteq> {k. \<exists>i \<in> {0..<object_count ws}. entry_key ws i = Some k}" 
    using subset_trans [OF p(2) Un_least [OF c(2) c(3)]] by simp
  show ?thesis
  proof (intro allI impI)
    fix i assume i: "i < object_count ws"
    with bspec [OF each, of i] obtain k where k: "entry_key ws i = Some k" "k \<in> set hot0 \<or> k \<in> fst ` set stab0 \<and> unchanged fp ws checksums delta i" by auto
    show "\<exists>k. entry_key ws i = Some k
      \<and> (k \<in> set (is_hot_keys scope)
         \<or> (\<not> is_full_inspect scope \<and> k \<in> fst ` set (is_stable_objects scope)
            \<and> (\<exists>delta. Option.bind (keys_for_changed_paths ws paths) (expand_delta_closure ws) = Some delta
                 \<and> unchanged fp ws checksums delta i)))"
    proof (cases "k \<in> set hot")
      case True
      with k(1) hot show ?thesis by blast
    next
      case nothot: False
      from nothot subsetD [OF p(1)] k(2) have ev: "k \<in> fst ` set stab0" "unchanged fp ws checksums delta i" by auto
      with subsetD [OF p(4) ev(1)] nothot have "k \<in> fst ` set stab" by simp
      moreover from nothot have "length hot \<noteq> object_count ws" using all_keys_hot [OF _ p(3) [OF c(1)] sub i k(1)] by blast
      ultimately show ?thesis using k(1) ev(2) st fl d by simp
    qed
  qed
qed


subsection \<open>Samples\<close>

definition trigger_ws :: workspace where
  "trigger_ws = workspace_default
     \<lparr>ws_database_names := [[], ''db''],
      ws_object_entries := [sample_entry ''t'' 1, sample_entry ''r'' 2],
      ws_object_keys := [''dbo/tables/t'', ''dbo/triggers/r''],
      ws_object_rows := [\<lparr>row_schema_id = 1, row_kind_code = 3\<rparr>, \<lparr>row_schema_id = 1, row_kind_code = 9\<rparr>],
      ws_parent_by_row := [(2, 1)]\<rparr>"

lemma trigger_ws_sel:
  "object_count trigger_ws = 2" "ws_object_keys trigger_ws = [''dbo/tables/t'', ''dbo/triggers/r'']"
  "length (ws_object_rows trigger_ws) = 2" "ws_parent_by_row trigger_ws = [(2, 1)]"
  "database_key trigger_ws 0 = Some ''db/dbo/tables/t''" "database_key trigger_ws (Suc 0) = Some ''db/dbo/triggers/r''"
  by (simp_all add: trigger_ws_def object_count_def workspace_default_def database_key_def entry_key_def nth_opt_def
      database_name_def sample_entry_def)

lemma trigger_ws_parent: "trigger_parent trigger_ws ''db/dbo/triggers/r'' ''db/dbo/tables/t''"
proof -
  have "kind_part ''dbo/triggers/r'' = ''triggers''" by code_simp
  then show ?thesis unfolding trigger_parent_def
    by (intro exI [of _ "Suc 0"]) (simp add: trigger_ws_sel entry_key_def row_id_at_def as_u32_def)
qed

theorem delta_closure_is_least_witness:
  "\<exists>out. expand_delta_closure trigger_ws [''db/dbo/triggers/r''] = Some out \<and> ''db/dbo/tables/t'' \<in> set out"
proof -
  have "delta_reach trigger_ws [''db/dbo/triggers/r''] ''db/dbo/tables/t''"
    by (rule delta_reach.parent [OF delta_reach.changed trigger_ws_parent]) simp
  moreover have "parents_in_range trigger_ws" by (simp add: parents_in_range_def trigger_ws_sel)
  ultimately show ?thesis using delta_closure_is_least [of trigger_ws "[''db/dbo/triggers/r'']"] by auto
qed

definition sample_scope :: inspect_scope where
  "sample_scope = \<lparr>is_full_inspect = False, is_hot_keys = [''dbo/views/v''],
     is_stable_objects = [(''dbo/tables/t'', catalog_object_parts ''dbo'' ''tables'' ''t'' None)], is_allow_l1_skip = False\<rparr>"

lemma sample_builds:
  "build_inspect_scope (\<lambda>b. b) (\<lambda>d. d) length 0 sample_ws [] False (insert_key length ''dbo/tables/t'' ''new'' checksum_map_new)
     = Some sample_scope"
proof -
  have "kind_part ''dbo/tables/t'' = ''tables''" "schema_part ''dbo/tables/t'' = ''dbo''" "name_part ''dbo/tables/t'' = ''t''"
    by code_simp+
  then show ?thesis
    by (simp add: build_inspect_scope_def keys_for_changed_paths_def expand_delta_closure_def sample_ws_def
        workspace_default_def object_count_def upt_rec nth_opt_def entry_key_def database_key_def needs_inspection_def
        is_module_kind_code_def KIND_VIEWS_def KIND_TABLES_def KIND_FUNCTIONS_def KIND_PROCEDURES_def KIND_TRIGGERS_def
        get_key_def insert_key_def checksum_map_new_def
        sample_entry_def short_digest_nonzero object_parent_def promote_spot_check_keys_def sample_scope_def)
qed

theorem inspect_scope_covers_every_object_witness:
  "\<exists>k. entry_key sample_ws 1 = Some k
      \<and> (k \<in> set (is_hot_keys sample_scope) \<or> k \<in> fst ` set (is_stable_objects sample_scope))"
proof -
  have "1 < object_count sample_ws" by (simp add: sample_ws_def object_count_def)
  with inspect_scope_covers_every_object [OF sample_builds] show ?thesis by blast
qed

end
