(* ===== verification/Plan_Db_Calls.thy ===== *)
theory Plan_Db_Calls
  imports Engine Apply_Calls
begin

section \<open>What planning sends to the server\<close>

text \<open>
  The locale \<open>db_frame\<close> extends the frame of the executor by the calls of the database phase and
  of the file caches and carries the relation through \<open>run_plan_db_phase\<close>; its interpretation on
  the recorded calls says which statements planning may send.
\<close>

locale db_frame = call_frame ev allowed R
  for ev :: "'w env" and allowed :: "stmt \<Rightarrow> bool" and R :: "'w conn \<Rightarrow> 'w conn \<Rightarrow> bool" +
  assumes R_query_all: "allowed s \<Longrightarrow> conn_query_all ev s ps c = (z, c') \<Longrightarrow> R c c'"
    and R_client_late: "allowed s \<Longrightarrow> client_exec_late ev s c = (late, x, c') \<Longrightarrow> R c c'"
    and R_client_query: "allowed s \<Longrightarrow> client_query ev s ps c = (late, y, c') \<Longrightarrow> R c c'"
    and R_create_dir: "ev_create_dir_all ev (cn_world c) d = (x, w) \<Longrightarrow> R c (c\<lparr>cn_world := w\<rparr>)"
    and R_write: "ev_write ev (cn_world c) f b = (x, w) \<Longrightarrow> R c (c\<lparr>cn_world := w\<rparr>)"
    and R_rename: "ev_rename ev (cn_world c) f f' = (x, w) \<Longrightarrow> R c (c\<lparr>cn_world := w\<rparr>)"

definition catalog_queries :: "bool \<Rightarrow> stmt set" where
  "catalog_queries bootstrap = {s. \<exists>kinds cat skip relaxed. s = plan_db_batch_sql kinds bootstrap cat skip relaxed}"

definition planning_statements :: "bool \<Rightarrow> bool \<Rightarrow> stmt set" where
  "planning_statements bootstrap cache =
     {HISTORY_EXISTS, HISTORY_EMPTY, LOAD_CHECKSUMS, SCOPED_HIT, CACHE_LOAD} \<union> catalog_queries False
     \<union> (if cache then {CACHE_SAVE_BATCH} else {})
     \<union> (if bootstrap then {BOOTSTRAP_TABLES, BOOTSTRAP_DRIFT} \<union> catalog_queries True else {})"

lemma catalog_queriesI: "plan_db_batch_sql kinds b cat skip relaxed \<in> catalog_queries b"
  by (auto simp: catalog_queries_def)

lemma planning_statementsI [simp]:
  "HISTORY_EXISTS \<in> planning_statements b c" "HISTORY_EMPTY \<in> planning_statements b c"
  "LOAD_CHECKSUMS \<in> planning_statements b c" "SCOPED_HIT \<in> planning_statements b c"
  "CACHE_LOAD \<in> planning_statements b c" "plan_db_batch_sql kinds False cat skip relaxed \<in> planning_statements b c"
  "CACHE_SAVE_BATCH \<in> planning_statements b True" "BOOTSTRAP_TABLES \<in> planning_statements True c"
  "BOOTSTRAP_DRIFT \<in> planning_statements True c" "plan_db_batch_sql kinds True cat skip relaxed \<in> planning_statements True c"
  using catalog_queriesI [of kinds _ cat skip relaxed] by (simp_all add: planning_statements_def)

context db_frame
begin

lemma R_history_table_exists: "allowed HISTORY_EXISTS \<Longrightarrow> history_table_exists ev c = (r, c') \<Longrightarrow> R c c'"
  using R_query [of HISTORY_EXISTS "[]" c]
  by (auto simp: history_table_exists_def split: sum.splits prod.splits)

lemma R_probe_audit_tables: "allowed HISTORY_EXISTS \<Longrightarrow> probe_audit_tables_exist ev c = (r, c') \<Longrightarrow> R c c'"
  using R_query [of HISTORY_EXISTS "[]" c]
  by (auto simp: probe_audit_tables_exist_def split: sum.splits prod.splits)

lemma R_sync_tables: "allowed HISTORY_EXISTS \<Longrightarrow> sync_tables_ensured ev db_fp (ac, c) = (r, ac', c') \<Longrightarrow> R c c'"
  using R_probe_audit_tables [of c] by (auto simp: sync_tables_ensured_def split: sum.splits prod.splits)

lemma R_ensure_tables_plan:
  assumes "allowed BOOTSTRAP_TABLES" "allowed BOOTSTRAP_DRIFT" "ensure_tables_plan ev db_fp (ca, c) = (r, ca', c')"
  shows "R c c'"
proof -
  obtain x1 c1 where e1: "conn_exec ev BOOTSTRAP_TABLES c = (x1, c1)" by fastforce
  obtain x2 c2 where e2: "conn_exec ev BOOTSTRAP_DRIFT c1 = (x2, c2)" by fastforce
  have "R c c1" "R c1 c2" using R_exec e1 e2 assms(1,2) by blast+
  with R_trans have "R c c1" "R c c2" by blast+
  with assms(3) e1 e2 show ?thesis by (auto simp: ensure_tables_plan_def split: sum.splits)
qed

lemma R_probe_history_empty: "allowed HISTORY_EMPTY \<Longrightarrow> probe_history_empty ev db_fp (ca, c) = (r, ca', c') \<Longrightarrow> R c c'"
  using R_query [of HISTORY_EMPTY "[]" c] by (auto simp: probe_history_empty_def Let_def split: sum.splits prod.splits)

lemma R_load_checksums_query:
  "allowed LOAD_CHECKSUMS \<Longrightarrow> load_checksums_query_plan ev jc fp keys repair (ca, c) = (r, ca', c') \<Longrightarrow> R c c'"
  using R_query [of LOAD_CHECKSUMS "[keys]" c] by (auto simp: load_checksums_query_plan_def split: sum.splits prod.splits)

lemma R_history_table_is_empty:
  assumes al: "\<forall>s \<in> planning_statements boot cache. allowed s" and b: "allow_bootstrap \<longrightarrow> boot"
    and e: "history_table_is_empty_plan ev db_fp allow_bootstrap (ca, c) = (r, ca', c')"
  shows "R c c'"
proof -
  from al have q: "allowed HISTORY_EMPTY" "allowed HISTORY_EXISTS" by simp_all
  have boot: "allowed BOOTSTRAP_TABLES" "allowed BOOTSTRAP_DRIFT" if allow_bootstrap using that al b by auto
  consider (none) "c' = c" | (probe) r' where "probe_history_empty ev db_fp (ca, c) = (r', ca', c')"
    | (boot) r1 ca1 c1 where allow_bootstrap "ensure_tables_plan ev db_fp (ca, c) = (r1, ca1, c1)"
        "c' = c1 \<or> (\<exists>r2. probe_history_empty ev db_fp (ca1, c1) = (r2, ca', c'))"
    | (ex) r1 c1 where "history_table_exists ev c = (r1, c1)"
        "c' = c1 \<or> (\<exists>r2. probe_history_empty ev db_fp (ca, c1) = (r2, ca', c'))"
    using e by (auto simp: history_table_is_empty_plan_def split: option.splits if_splits sum.splits prod.splits bool.splits)
  then show ?thesis
  proof cases
    case boot
    with R_ensure_tables_plan boot(1) \<open>allow_bootstrap \<Longrightarrow> allowed BOOTSTRAP_TABLES\<close> \<open>allow_bootstrap \<Longrightarrow> allowed BOOTSTRAP_DRIFT\<close>
    have "R c c1" by blast
    with boot(3) R_probe_history_empty [OF q(1)] R_trans show ?thesis by blast
  next
    case ex
    then have "R c c1" using R_history_table_exists q by blast
    with ex(2) R_probe_history_empty [OF q(1)] R_trans show ?thesis by blast
  qed (use R_refl R_probe_history_empty q in blast)+
qed

lemma R_load_checksums_plan:
  assumes al: "\<forall>s \<in> planning_statements boot cache. allowed s" and b: "allow_bootstrap \<longrightarrow> boot"
    and e: "load_checksums_plan ev jc fp db_fp keys allow_bootstrap repair (ca, c) = (r, ca', c')"
  shows "R c c'"
proof -
  from al have q: "allowed LOAD_CHECKSUMS" by simp
  obtain r1 ca1 c1 where h: "history_table_is_empty_plan ev db_fp allow_bootstrap (ca, c) = (r1, ca1, c1)" by (metis prod_cases3)
  note r1 = R_history_table_is_empty [OF al b h]
  from e h consider "c' = c" | r' where "load_checksums_query_plan ev jc fp keys repair (ca, c) = (r', ca', c')"
    | "c' = c1" | r' where "load_checksums_query_plan ev jc fp keys repair (ca1, c1) = (r', ca', c')"
    by (auto simp: load_checksums_plan_def split: if_splits sum.splits bool.splits)
  then show ?thesis
    using R_refl r1 R_load_checksums_query [OF q] R_trans by cases blast+
qed

lemma R_ensure_if:
  assumes al: "\<forall>s \<in> planning_statements boot cache. allowed s" and b: "cond \<longrightarrow> boot"
    and e: "(if cond \<and> p then ensure_tables_plan ev db_fp (ca, c) else (Inr (), ca, c)) = (r, ca', c')"
  shows "R c c'"
  using e R_refl R_ensure_tables_plan [of db_fp ca c r ca' c'] al b by (auto split: if_splits)

lemma R_load_standard_checksums:
  assumes al: "\<forall>s \<in> planning_statements boot cache. allowed s"
    and b: "bc_bypass ctx \<longrightarrow> boot" "bc_bootstrap_in_sql ctx \<longrightarrow> boot" and dp: "dp_env dp = ev"
    and e: "load_standard_checksums dp ctx (ca, c) = (r, ca', c')"
  shows "R c c'"
proof -
  obtain r1 ca1 c1 where h: "(if bc_bootstrap_in_sql ctx \<and> \<not> tables_ensured (ca_audit ca) (bc_db_fp ctx)
      then ensure_tables_plan ev (bc_db_fp ctx) (ca, c) else (Inr (), ca, c)) = (r1, ca1, c1)" by (metis prod_cases3)
  note r1 = R_ensure_if [OF al b(2) h]
  from e dp h consider "c' = c1"
    | r' where "load_checksums_plan ev (dp_codec dp) (dp_fp dp) (bc_db_fp ctx) (bc_keys_json ctx)
            (bc_bypass ctx) (bc_allow_checksum_repair ctx) (ca1, c1) = (r', ca', c')"
    by (auto simp: load_standard_checksums_def split: sum.splits)
  then show ?thesis using r1 R_load_checksums_plan [OF al b(1)] R_trans by cases blast+
qed

lemma R_try_fast_empty: "allowed SCOPED_HIT \<Longrightarrow> try_fast_empty_catalog ev scope_json c = (r, c') \<Longrightarrow> R c c'"
  using R_query [of SCOPED_HIT "[scope_json]" c] R_refl
  by (auto simp: try_fast_empty_catalog_def split: if_splits sum.splits prod.splits)

lemma R_query_catalog_sets:
  "allowed s \<Longrightarrow> dp_env dp = ev \<Longrightarrow> query_catalog_sets dp s scope_json schemas base c = (r, c') \<Longrightarrow> R c c'"
  using R_query_all [of s "[''[]'', scope_json, schemas]" c] by (auto simp: query_catalog_sets_def split: sum.splits prod.splits)

lemma stored_conn: "stored dp ctx scope_json (r, ca, c) = (r', ca', c') \<Longrightarrow> c' = c"
  by (auto simp: stored_def split: sum.splits)


lemma R_load_full_catalog:
  assumes al: "\<forall>s \<in> planning_statements boot cache. allowed s" and dp: "dp_env dp = ev"
    and e: "load_full_catalog dp ctx scope scope_json schemas (ca, c) = Some (r, ca', c')"
  shows "R c c'"
proof -
  from e obtain kinds where kinds: "kinds_for_scope (bc_ws ctx) scope = Some kinds"
    by (auto simp: load_full_catalog_def split: Option.bind_splits)
  obtain r1 c1 where h: "(if fast_empty_provable kinds then try_fast_empty_catalog ev scope_json c else (Inr None, c)) = (r1, c1)" by fastforce
  then have r1: "R c c1" using R_refl R_try_fast_empty [of scope_json c] al by (auto split: if_splits)
  let ?s = "plan_db_batch_sql kinds False True False False"
  obtain r2 c2 where q: "query_catalog_sets dp ?s scope_json schemas catalog_default c1 = (r2, c2)" by fastforce
  then have "R c c2" using R_trans [OF r1] R_query_catalog_sets [OF _ dp q] al by simp
  moreover from e kinds h q dp have "c' = c1 \<or> c' = c2"
    by (auto simp: load_full_catalog_def dest!: stored_conn split: sum.splits option.splits)
  ultimately show ?thesis using r1 by blast
qed

lemma R_load_incremental_catalog:
  assumes al: "\<forall>s \<in> planning_statements boot cache. allowed s" and b: "bc_bootstrap_in_sql ctx \<longrightarrow> boot" and dp: "dp_env dp = ev"
    and e: "load_incremental_catalog dp ctx skipped scope scope_json schemas (ca, c) = Some (r, ca', c')"
  shows "R c c'"
proof -
  let ?single = "bc_bootstrap_in_sql ctx \<and> skipped"
  obtain r1 ca1 c1 where h: "(if bc_bootstrap_in_sql ctx \<and> \<not> ?single \<and> \<not> tables_ensured (ca_audit ca) (bc_db_fp ctx)
      then ensure_tables_plan ev (bc_db_fp ctx) (ca, c) else (Inr (), ca, c)) = (r1, ca1, c1)" by (metis prod_cases3)
  have r1: "R c c1" by (rule R_ensure_if [OF al b h])
  show ?thesis
  proof (cases r1)
    case (Inl x)
    with e h dp r1 show ?thesis by (auto simp: load_incremental_catalog_def Let_def)
  next
    case (Inr u)
    with e h dp obtain kinds where kinds: "kinds_for_scope (bc_ws ctx) scope = Some kinds"
      by (auto simp: load_incremental_catalog_def Let_def split: Option.bind_splits)
    let ?s = "plan_db_batch_sql kinds ?single True False False"
    obtain r2 c2 where q: "conn_query_all ev ?s [''[]'', scope_json, schemas] c1 = (r2, c2)" by fastforce
    have "allowed ?s" using al b by (cases ?single) auto
    from R_trans [OF r1 R_query_all [OF this q]] have "R c c2" .
    moreover from e h dp Inr kinds q have "c' = c2"
      by (auto simp: load_incremental_catalog_def Let_def dest!: stored_conn split: sum.splits)
    ultimately show ?thesis by simp
  qed
qed

lemma R_inspect_standard:
  assumes al: "\<forall>s \<in> planning_statements boot cache. allowed s" and b: "bc_bootstrap_in_sql ctx \<longrightarrow> boot" and dp: "dp_env dp = ev"
    and e: "inspect_standard dp ctx checksums skipped (ca, c) = Some (r, ca', c')"
  shows "R c c'"
proof -
  from e consider "c' = c" | scope scope_json schemas r' where "load_full_catalog dp ctx scope scope_json schemas (ca, c) = Some (r', ca', c')"
    | scope scope_json schemas r' where "load_incremental_catalog dp ctx skipped scope scope_json schemas (ca, c) = Some (r', ca', c')"
    by (auto simp: inspect_standard_def Let_def split: Option.bind_splits if_splits option.splits sum.splits)
  then show ?thesis using R_refl R_load_full_catalog [OF al dp] R_load_incremental_catalog [OF al b dp] by cases blast+
qed

lemma R_run_standard_body:
  assumes al: "\<forall>s \<in> planning_statements boot cache. allowed s"
    and b: "bc_bypass ctx \<longrightarrow> boot" "bc_bootstrap_in_sql ctx \<longrightarrow> boot" and dp: "dp_env dp = ev"
    and e: "run_standard_body dp ctx (ca, c) = Some (r, ca', c')"
  shows "R c c'"
proof -
  obtain r1 ca1 c1 where h: "(if bc_need_checksums ctx then load_standard_checksums dp ctx (ca, c) else (Inr checksum_map_new, ca, c)) = (r1, ca1, c1)"
    by (metis prod_cases3)
  then have r1: "R c c1" using R_refl R_load_standard_checksums [OF al b dp] by (auto split: if_splits)
  from e h consider "c' = c1" | checksums skipped r' where "inspect_standard dp ctx checksums skipped (ca1, c1) = Some (r', ca', c')"
    by (auto simp: run_standard_body_def split: sum.splits if_splits Option.bind_splits)
  then show ?thesis using r1 R_inspect_standard [OF al b(2) dp] R_trans by cases blast+
qed

lemma R_warmup_git_delta:
  assumes al: "\<forall>s \<in> planning_statements boot cache. allowed s" and b: "bc_bypass ctx \<longrightarrow> boot" and dp: "dp_env dp = ev"
    and e: "warmup_git_delta dp ctx (ca, c) = Some (r, ca', c')"
  shows "R c c'"
proof -
  let ?s = "plan_db_batch_sql [] False False False True"
  obtain r1 ca1 c1 where h: "(if bc_need_checksums ctx
            then load_checksums_plan ev (dp_codec dp) (dp_fp dp) (bc_db_fp ctx) (bc_keys_json ctx)
                   (bc_bypass ctx) (bc_allow_checksum_repair ctx) (ca, c)
            else (Inr checksum_map_new, ca, c)) = (r1, ca1, c1)" by (metis prod_cases3)
  then have r1: "R c c1" using R_refl R_load_checksums_plan [OF al b] by (auto split: if_splits)
  obtain r2 c2 where q: "conn_query_all ev ?s [bc_keys_json ctx, ''[]'', ''[]'', nat_to_string (object_count (bc_ws ctx))] c1 = (r2, c2)" by fastforce
  have "R c c2" using R_trans [OF r1 R_query_all [OF _ q]] al by simp
  moreover from e h q dp have "c' = c1 \<or> c' = c2"
    by (auto simp: warmup_git_delta_def Let_def split: sum.splits if_splits Option.bind_splits prod.splits)
  ultimately show ?thesis using r1 by blast
qed

lemma R_load_git_delta_catalog:
  assumes al: "\<forall>s \<in> planning_statements boot cache. allowed s" and dp: "dp_env dp = ev"
    and e: "load_git_delta_catalog dp ctx warm scope scope_json schemas (ca, c) = Some (r, ca', c')"
  shows "R c c'"
proof -
  have q: "R c c1" if "query_catalog_sets dp (plan_db_batch_sql kinds False cat skip relaxed) js sch base c = (r1, c1)" for kinds cat skip relaxed js sch base r1 c1
    using R_query_catalog_sets [OF _ dp that] al by simp
  from e consider "c' = c" | kinds cat skip relaxed js sch base r1 where
      "query_catalog_sets dp (plan_db_batch_sql kinds False cat skip relaxed) js sch base c = (r1, c')"
    by (auto simp: load_git_delta_catalog_def query_partial_cache_def query_delta_paths_def dest!: stored_conn
        split: option.splits Option.bind_splits if_splits)
  then show ?thesis using R_refl q by cases blast+
qed

lemma R_run_git_delta_body:
  assumes al: "\<forall>s \<in> planning_statements boot cache. allowed s" and b: "bc_bypass ctx \<longrightarrow> boot" and dp: "dp_env dp = ev"
    and e: "run_git_delta_body dp ctx (ca, c) = Some (r, ca', c')"
  shows "R c c'"
proof -
  from e obtain w ca1 c1 where h: "warmup_git_delta dp ctx (ca, c) = Some (w, ca1, c1)"
    by (auto simp: run_git_delta_body_def split: Option.bind_splits)
  note r1 = R_warmup_git_delta [OF al b dp h]
  from e h consider "c' = c1" | warm scope js schemas r' where "load_git_delta_catalog dp ctx warm scope js schemas (ca1, c1) = Some (r', ca', c')"
    by (auto simp: run_git_delta_body_def query_git_delta_catalog_def Let_def split: sum.splits if_splits Option.bind_splits)
  then show ?thesis using r1 R_load_git_delta_catalog [OF al dp] R_trans by cases blast+
qed

lemma R_save_batched:
  "allowed CACHE_SAVE_BATCH \<Longrightarrow> save_batched ev jc dg ws st c = Some (r, c') \<Longrightarrow> R c c'"
  using R_query [of CACHE_SAVE_BATCH] R_refl
  by (auto simp: save_batched_def split: if_splits Option.bind_splits sum.splits prod.splits)

lemma R_l1_save: "l1_save ev jc pid root fp dg cs cat c = (r, c') \<Longrightarrow> R c c'"
proof -
  assume e: "l1_save ev jc pid root fp dg cs cat c = (r, c')"
  let ?tmp = "path_join (path_join root fp) (ev_hex ev dg @ ''.'' @ nat_to_string pid @ ''.tmp'')"
  obtain x1 w1 where e1: "ev_create_dir_all ev (cn_world c) (path_join root fp) = (x1, w1)" by fastforce
  let ?c1 = "c\<lparr>cn_world := w1\<rparr>"
  have r1: "R c ?c1" by (rule R_create_dir [OF e1])
  obtain x2 w2 where e2: "ev_write ev w1 ?tmp (case jc_l1_write jc (dg, checksum_map_wire cs, cat) of Inr d \<Rightarrow> d | Inl e \<Rightarrow> []) = (x2, w2)" by fastforce
  have r2: "R c (c\<lparr>cn_world := w2\<rparr>)" using R_trans [OF r1] R_write [of ?c1] e2 by simp
  obtain x3 w3 where e3: "ev_rename ev w2 ?tmp (l1_path ev root fp dg) = (x3, w3)" by fastforce
  have r3: "R c (c\<lparr>cn_world := w3\<rparr>)" using R_trans [OF r2] R_rename [of "c\<lparr>cn_world := w2\<rparr>"] e3 by simp
  from e e1 e2 e3 r1 r2 r3 show "R c c'"
    by (auto simp: l1_save_def Let_def split: sum.splits if_splits)
qed

lemma R_prepare_execute:
  assumes al: "\<forall>s \<in> planning_statements boot cache. allowed s" and dp: "dp_env dp = ev"
    and e: "prepare_execute dp g cfg ws keys bypass repair (ca, c) = Some (r, g', ca', c')"
  shows "R c c'"
proof -
  obtain r1 ac1 c1 where h: "sync_tables_ensured ev (config_fingerprint cfg)
      (ca_audit (if bypass then on_audit (invalidate_audit_cache (config_fingerprint cfg)) ca else ca), c) = (r1, ac1, c1)"
    by (metis prod_cases3)
  have r1: "R c c1" using R_sync_tables [OF _ h] al by simp
  obtain r2 c2 where q: "conn_query ev CACHE_LOAD [ev_hex ev (ws_layout_digest ws), nat_to_string (object_count ws)] c1 = (r2, c2)" by fastforce
  have r2: "R c c2" using R_trans [OF r1 R_query [OF _ q]] al by simp
  from e h q dp have "c' = c1 \<or> c' = c2"
    by (auto simp: prepare_execute_def Let_def try_load_def split: sum.splits if_splits Option.bind_splits prod.splits)
  with r1 r2 show ?thesis by blast
qed

lemma R_ensure_tables_late:
  assumes "allowed BOOTSTRAP_TABLES" "allowed BOOTSTRAP_DRIFT" "bounded_ensure_tables ev timeout db_fp (ac, c) = (r, ac', c')"
  shows "R c c'"
proof (cases "timeout = 0")
  case True
  with assms R_ensure_tables show ?thesis by (auto simp: bounded_ensure_tables_def)
next
  case False
  obtain l1 x1 c1 where e1: "client_exec_late ev BOOTSTRAP_TABLES c = (l1, x1, c1)" by (metis prod_cases3)
  obtain l2 x2 c2 where e2: "client_exec_late ev BOOTSTRAP_DRIFT c1 = (l2, x2, c2)" by (metis prod_cases3)
  have "R c c1" "R c1 c2" using R_client_late e1 e2 assms(1,2) by blast+
  with R_trans have "R c c1" "R c c2" by blast+
  with assms(3) False e1 e2 R_refl show ?thesis
    by (auto simp: bounded_ensure_tables_def Let_def split: if_splits sum.splits bool.splits)
qed


lemma R_run_plan_body:
  assumes al: "\<forall>s \<in> planning_statements boot cache. allowed s" and dp: "dp_env dp = ev"
    and b: "es_bypass es \<longrightarrow> boot" "es_need_bootstrap es \<longrightarrow> boot" "es_defer_bootstrap es \<longrightarrow> boot"
    and e: "run_plan_body dp cfg ws keys es (ca, c) = Some (r, ca', c')"
  shows "R c c'"
proof -
  let ?defer = "es_defer_bootstrap es \<and> cfg_session_socket cfg \<noteq> []"
  let ?ensure = "if cfg_session_socket cfg = [] then bounded_ensure_tables ev (cfg_command_timeout cfg) (es_db_fp es) else ensure_tables ev (es_db_fp es)"
  obtain r1 ac1 c1 where h: "(if es_need_bootstrap es \<and> \<not> ?defer then ?ensure (ca_audit ca, c) else (Inr (), ca_audit ca, c)) = (r1, ac1, c1)"
    by (metis prod_cases3)
  have r1: "R c c1"
  proof (cases "es_need_bootstrap es \<and> \<not> ?defer")
    case True
    with al b have bt: "allowed BOOTSTRAP_TABLES" "allowed BOOTSTRAP_DRIFT" by auto
    from h True R_ensure_tables [OF bt] R_ensure_tables_late [OF bt] show ?thesis by (auto split: if_splits)
  next
    case False
    with h R_refl show ?thesis by auto
  qed
  from e h dp consider "c' = c1"
    | r' where "run_body dp (body_ctx cfg ws keys es ?defer) (ca\<lparr>ca_audit := ac1\<rparr>, c1) = Some (r', ca', c')"
    unfolding run_plan_body_def Let_def dp fst_conv snd_conv h by (cases r1) auto
  then show ?thesis
  proof cases
    case 2
    let ?ctx = "body_ctx cfg ws keys es ?defer"
    have cx: "bc_bypass ?ctx \<longrightarrow> boot" "bc_bootstrap_in_sql ?ctx \<longrightarrow> boot" using b by (auto simp: body_ctx_def)
    from 2 have "R c1 c'" using R_run_standard_body [OF al cx dp] R_run_git_delta_body [OF al cx(1) dp]
      by (auto simp: run_body_def split: if_splits)
    with r1 R_trans show ?thesis by blast
  qed (use r1 in simp)
qed

lemma prepare_execute_flags:
  "prepare_execute dp g cfg ws keys bypass repair st = Some (Inr es, g', st') \<Longrightarrow>
     es_bypass es = bypass \<and> es_need_bootstrap es = bypass \<and> (es_defer_bootstrap es \<longrightarrow> bypass)"
  by (auto simp: prepare_execute_def Let_def split: sum.splits prod.splits Option.bind_splits if_splits)

lemma R_execute_db:
  assumes al: "\<forall>s \<in> planning_statements bypass (cfg_catalog_cache cfg). allowed s" and dp: "dp_env dp = ev"
    and e: "execute_db dp g cfg ws keys bypass repair (ca, c) = Some (r, g', ca', c')"
  shows "R c c'"
proof -
  from e obtain s g1 ca1 c1 where h: "prepare_execute dp g cfg ws keys bypass repair (ca, c) = Some (s, g1, ca1, c1)"
    by (auto simp: execute_db_def split: Option.bind_splits)
  note r1 = R_prepare_execute [OF al dp h]
  show ?thesis
  proof (cases s)
    case (Inl x)
    with e h r1 show ?thesis by (auto simp: execute_db_def)
  next
    case (Inr es)
    note fl = prepare_execute_flags [OF h [unfolded Inr]]
    from e h Inr obtain b ca2 c2 where h2: "run_plan_body dp cfg ws keys es (ca1, c1) = Some (b, ca2, c2)"
      by (auto simp: execute_db_def split: Option.bind_splits)
    have r2: "R c c2" using R_trans [OF r1 R_run_plan_body [OF al dp _ _ _ h2]] fl by blast
    show ?thesis
    proof (cases b)
      case (Inl x)
      with e h Inr h2 r2 show ?thesis by (auto simp: execute_db_def)
    next
      case bInr: (Inr body)
      let ?save = "if cfg_catalog_cache cfg \<and> cat_objects (bo_catalog body) \<noteq> [] \<and> (es_need_catalog es \<or> es_git_delta es)
                 then map_option (\<lambda>(r, c'). (ca2, c'))
                        (save_batched (dp_env dp) (dp_codec dp) (ws_layout_digest ws) ws (bo_catalog body) c2)
                 else Some (ca2, c2)"
      from e h Inr h2 bInr obtain c3 where h3: "?save = Some (ca2, c3)"
        by (auto simp: execute_db_def split: Option.bind_splits if_splits)
      have r3: "R c c3"
      proof (cases "cfg_catalog_cache cfg")
        case True
        with h3 dp al R_trans [OF r2 R_save_batched] r2 show ?thesis by (auto split: if_splits)
      qed (use h3 r2 in auto)
      from e h Inr h2 bInr h3 dp consider "c' = c3" | x where "l1_save ev (dp_codec dp) (dp_pid dp) (cfg_l1_cache_dir cfg) (config_fingerprint cfg)
                         (ws_layout_digest ws) (bo_checksums body) (bo_catalog body) c3 = (x, c')"
        by (auto simp: execute_db_def Let_def split: if_splits prod.splits)
      then show ?thesis using r3 R_l1_save R_trans by cases blast+
    qed
  qed
qed

lemma R_run_plan_db_phase:
  assumes al: "\<forall>s \<in> planning_statements bypass (cfg_catalog_cache cfg). allowed s" and dp: "dp_env dp = ev"
    and e: "run_plan_db_phase dp g cfg ws bypass repair (ca, c) = Some (r, g', ca', c')"
  shows "R c c'"
proof -
  from e consider "c' = c"
    | keys where "execute_db dp g cfg ws keys bypass repair (ca, c) = Some (r, g', ca', c')"
    | x cs cat where "l1_save ev (dp_codec dp) (dp_pid dp) (cfg_l1_cache_dir cfg) (config_fingerprint cfg) (ws_layout_digest ws) cs cat c = (x, c')"
    using dp by (auto simp: run_plan_db_phase_def Let_def split: sum.splits option.splits Option.bind_splits if_splits prod.splits)
  then show ?thesis using R_refl R_execute_db [OF al dp] R_l1_save by cases blast+
qed

end

interpretation rec_db: db_frame "recording ev" allowed "extends_calls allowed"
  for ev :: "'w env" and allowed
proof
  fix s ps and c c' :: "('w \<times> call list) conn" and z
  assume "allowed s" "conn_query_all (recording ev) s ps c = (z, c')"
  then show "extends_calls allowed c c'"
    using conn_query_all_recorded [of ev s ps c z c'] by (auto simp: extends_calls_def split: if_splits)
next
  fix s and c c' :: "('w \<times> call list) conn" and late x
  assume "allowed s" "client_exec_late (recording ev) s c = (late, x, c')"
  then show "extends_calls allowed c c'"
    by (cases "cn_world c") (auto simp: client_exec_late_def recording_def extends_calls_def calls_of_def split: prod.splits)
next
  fix s ps and c c' :: "('w \<times> call list) conn" and late y
  assume "allowed s" "client_query (recording ev) s ps c = (late, y, c')"
  then show "extends_calls allowed c c'"
    by (cases "cn_world c") (auto simp: client_query_def recording_def extends_calls_def calls_of_def split: prod.splits)
next
  fix c :: "('w \<times> call list) conn" and d x w
  assume "ev_create_dir_all (recording ev) (cn_world c) d = (x, w)"
  then show "extends_calls allowed c (c\<lparr>cn_world := w\<rparr>)"
    by (cases "cn_world c") (auto simp: recording_def extends_calls_def calls_of_def split: prod.splits)
next
  fix c :: "('w \<times> call list) conn" and f b x w
  assume "ev_write (recording ev) (cn_world c) f b = (x, w)"
  then show "extends_calls allowed c (c\<lparr>cn_world := w\<rparr>)"
    by (cases "cn_world c") (auto simp: recording_def extends_calls_def calls_of_def split: prod.splits)
next
  fix c :: "('w \<times> call list) conn" and f f' x w
  assume "ev_rename (recording ev) (cn_world c) f f' = (x, w)"
  then show "extends_calls allowed c (c\<lparr>cn_world := w\<rparr>)"
    by (cases "cn_world c") (auto simp: recording_def extends_calls_def calls_of_def split: prod.splits)
qed

end
