(* ===== verification/Engine_Calls.thy ===== *)
theory Engine_Calls
  imports Plan_Db_Calls
begin

section \<open>What a command sends to the server\<close>

text \<open>
  The frame of the database phase carried through the commands, and the engine over recorded calls.
\<close>

context db_frame
begin

lemma R_load_table_columns:
  "allowed COLUMNS_OPENJSON \<Longrightarrow> load_table_columns ev jc ws c = Some (r, c') \<Longrightarrow> R c c'"
  using R_query [of COLUMNS_OPENJSON] R_refl
  by (auto simp: load_table_columns_def split: Option.bind_splits if_splits sum.splits prod.splits)

lemma R_world_trans:
  assumes "R c (c\<lparr>cn_world := w1\<rparr>)" "R (c\<lparr>cn_world := w1\<rparr>) (c\<lparr>cn_world := w1, cn_world := w2\<rparr>)"
  shows "R c (c\<lparr>cn_world := w2\<rparr>)"
  using R_trans [OF assms] by simp

lemma R_migration_dir:
  assumes "migration_dir_checked ev base db schema table w = (r, w')"
  shows "R (c\<lparr>cn_world := w\<rparr>) (c\<lparr>cn_world := w'\<rparr>)"
proof -
  have "w' = w \<or> (\<exists>d x. ev_create_dir_all ev w d = (x, w'))"
    using assms by (auto simp: migration_dir_checked_def Let_def split: sum.splits if_splits prod.splits)
  then show ?thesis using R_refl R_create_dir [of "c\<lparr>cn_world := w\<rparr>" _ _ w'] by auto
qed

lemma R_write_file:
  assumes "write_file ev dir file_name content w = (r, w')"
  shows "R (c\<lparr>cn_world := w\<rparr>) (c\<lparr>cn_world := w'\<rparr>)"
proof -
  obtain x1 w1 where e1: "ev_create_dir_all ev w dir = (x1, w1)" by fastforce
  have r1: "R (c\<lparr>cn_world := w\<rparr>) (c\<lparr>cn_world := w1\<rparr>)" using R_create_dir [of "c\<lparr>cn_world := w\<rparr>"] e1 by simp
  show ?thesis
  proof (cases x1)
    case (Inl e)
    with assms e1 r1 show ?thesis by (simp add: write_file_def)
  next
    case (Inr u)
    with assms e1 have "ev_write ev w1 (path_join dir file_name) content = (r, w')" by (simp add: write_file_def)
    then have "R (c\<lparr>cn_world := w1\<rparr>) (c\<lparr>cn_world := w'\<rparr>)" using R_write [of "c\<lparr>cn_world := w1\<rparr>"] by simp
    with r1 R_trans show ?thesis by blast
  qed
qed

lemma R_ensure_objects:
  "ensure_objects ev cfg ws columns commit objs (created, w) = Some (r, w') \<Longrightarrow> R (c\<lparr>cn_world := w\<rparr>) (c\<lparr>cn_world := w'\<rparr>)"
proof (induction objs arbitrary: created w)
  case Nil
  then show ?case by (simp add: R_refl)
next
  case (Cons obj objs)
  show ?case
  proof (cases "po_planned_action obj \<noteq> ReprocessChangedBlocked \<or> po_database_name obj = []")
    case True
    with Cons show ?thesis by auto
  next
    case False
    obtain d w1 where e1: "migration_dir_checked ev (cfg_sql_base cfg) (po_database_name obj) (po_schema_name obj) (po_object_name obj) w = (d, w1)" by fastforce
    note r1 = R_migration_dir [OF e1, of c]
    from Cons.prems False e1 consider "w' = w1" | cr where "ensure_objects ev cfg ws columns commit objs (cr, w1) = Some (r, w')"
      | dir name content x w2 where "write_file ev dir name content w1 = (x, w2)"
          "w' = w2 \<or> ensure_objects ev cfg ws columns commit objs (True, w2) = Some (r, w')"
      by (cases d) (auto split: if_splits Option.bind_splits prod.splits sum.splits)
    then show ?thesis
    proof cases
      case 3
      then have "R (c\<lparr>cn_world := w\<rparr>) (c\<lparr>cn_world := w2\<rparr>)" using R_trans [OF r1 R_write_file] by blast
      with 3(2) Cons.IH R_trans show ?thesis by blast
    qed (use r1 Cons.IH R_trans in blast)+
  qed
qed

lemma R_handle_blocked:
  assumes al: "allowed COLUMNS_OPENJSON" and dp: "dp_env dp = ev" and e: "handle_blocked_migrate dp g cfg ws plan c = Some (r, c')"
  shows "R c c'"
proof -
  from e dp obtain r1 c1 where h: "load_table_columns ev (dp_codec dp) ws c = Some (r1, c1)"
    by (auto simp: handle_blocked_migrate_def split: Option.bind_splits)
  note r1 = R_load_table_columns [OF al h]
  show ?thesis
  proof (cases r1)
    case (Inl x)
    with e h dp r1 show ?thesis by (simp add: handle_blocked_migrate_def)
  next
    case (Inr columns)
    with e h dp obtain x w where en: "ensure ev (dp_host dp) g cfg ws plan columns (cn_world c1) = Some (x, w)" "c' = c1\<lparr>cn_world := w\<rparr>"
      by (auto simp: handle_blocked_migrate_def split: Option.bind_splits)
    then have "R c1 c'" using R_ensure_objects [of cfg ws columns _ _ False "cn_world c1" x w c1] by (simp add: ensure_def)
    with r1 R_trans show ?thesis by blast
  qed
qed

lemma R_filter_applied:
  "allowed LOAD_ALL_MIGRATIONS \<Longrightarrow> filter_applied ev ws timeout plan c = Some (r, plan', c') \<Longrightarrow> R c c'"
  using R_client_query [of LOAD_ALL_MIGRATIONS "[]" c] R_refl
  by (auto simp: filter_applied_def split: if_splits prod.splits sum.splits Option.bind_splits)

lemma R_save_workspace_snapshot:
  assumes al: "allowed INDEX_PARENTS" "allowed CACHE_SAVE_BATCH"
    and e: "save_workspace_snapshot ev jc dg ws enabled c = Some (r, c')"
  shows "R c c'"
proof (cases "\<not> enabled \<or> object_count ws = 0")
  case True
  with e R_refl show ?thesis by (auto simp: save_workspace_snapshot_def)
next
  case False
  with e obtain st where st: "workspace_catalog ws [0..<object_count ws] catalog_default = Some st"
    by (auto simp: save_workspace_snapshot_def split: Option.bind_splits)
  obtain r1 c1 where h: "hydrate_index_parents_from_db ev st c = (r1, c1)" by fastforce
  then have r1: "R c c1" using R_query [OF al(1), of "[]" c] R_refl
    by (auto simp: hydrate_index_parents_from_db_def split: if_splits sum.splits prod.splits)
  from e False st h consider "c' = c1" | st' where "save_batched ev jc dg ws st' c1 = Some (r, c')"
    by (cases r1) (auto simp: save_workspace_snapshot_def)
  then show ?thesis using r1 R_save_batched [OF al(2)] R_trans by cases blast+
qed

lemma R_plan_phase:
  assumes al: "\<forall>s \<in> planning_statements (command_mutates cmd) (cfg_catalog_cache cfg). allowed s" and dp: "dp_env (en_db en) = ev"
    and e: "plan_phase en cmd cfg g ws (ca, c) = Some (r, g', ca', c')"
  shows "R c c'"
proof -
  from e obtain x g1 ca1 c1 where h: "run_plan_db_phase (en_db en) g cfg ws (command_mutates cmd) (cmd = CmdRepairChecksum) (ca, c) = Some (x, g1, ca1, c1)"
    by (auto simp: plan_phase_def Let_def split: Option.bind_splits)
  with e have "c' = c1" by (cases x) (auto simp: plan_phase_def Let_def split: Option.bind_splits)
  with R_run_plan_db_phase [OF al dp h] show ?thesis by simp
qed

definition apply_allowed :: bool where
  "apply_allowed \<longleftrightarrow> tx_allowed \<and> allowed BOOTSTRAP_TABLES \<and> allowed BOOTSTRAP_DRIFT \<and> allowed BOOTSTRAP_INDEX
     \<and> allowed CACHE_INVALIDATE \<and> allowed COLUMNS_OPENJSON \<and> allowed LOAD_ALL_MIGRATIONS \<and> allowed INDEX_PARENTS
     \<and> allowed CACHE_SAVE_BATCH \<and> (\<forall>b. allowed (Text b))"

lemma R_apply_migrate:
  assumes al: apply_allowed and dp: "dp_env dp = ev" and e: "apply_migrate dp cfg g ws plan (ca, c) = Some (r, plan', ca', c')"
  shows "R c c'"
proof (cases "mp_blocked plan")
  case True
  with e R_handle_blocked [OF _ dp] al show ?thesis
    by (auto simp: apply_migrate_def apply_allowed_def split: Option.bind_splits)
next
  case False
  with e obtain adopt plan1 where h1: "ensure_adopt_allowed cfg ws plan = Some (adopt, plan1)"
    by (auto simp: apply_migrate_def split: Option.bind_splits)
  show ?thesis
  proof (cases adopt)
    case (Inl x)
    with e False h1 R_refl show ?thesis by (auto simp: apply_migrate_def)
  next
    case (Inr u)
    with e False h1 dp obtain flt plan2 c1 where h2: "filter_applied ev ws (cfg_command_timeout cfg) plan1 c = Some (flt, plan2, c1)"
      by (auto simp: apply_migrate_def split: Option.bind_splits)
    have r1: "R c c1" using R_filter_applied [OF _ h2] al by (simp add: apply_allowed_def)
    show ?thesis
    proof (cases flt)
      case (Inl x)
      with e False h1 Inr h2 dp r1 show ?thesis by (auto simp: apply_migrate_def)
    next
      case f: (Inr v)
      with e False h1 Inr h2 dp obtain res plan3 ac c2 where h3: "execute_plan ev cfg ws plan2 (ca_audit ca, c1) = Some (res, plan3, ac, c2)"
        by (auto simp: apply_migrate_def split: Option.bind_splits)
      have t: "texts_allowed ws p" for p
        using al by (simp add: texts_allowed_def script_allowed_def transition_allowed_def apply_allowed_def)
      have "R c1 c2" using R_execute_plan [OF _ _ _ _ _ t h3] al by (simp add: apply_allowed_def)
      with r1 R_trans have r2: "R c c2" by blast
      from e False h1 Inr h2 f h3 dp consider "c' = c2"
        | x where "save_workspace_snapshot ev (dp_codec dp) (ws_layout_digest ws) ws (cfg_catalog_cache cfg) c2 = Some (x, c')"
        by (cases res) (auto simp: apply_migrate_def after_apply_def Let_def split: if_splits)
      then show ?thesis using r2 R_save_workspace_snapshot al R_trans
        unfolding apply_allowed_def by cases blast+
    qed
  qed
qed

lemma R_apply_plan:
  assumes al: apply_allowed and dp: "dp_env dp = ev" and e: "apply_plan dp cmd cfg g ws plan (ca, c) = Some (r, plan', ca', c')"
  shows "R c c'"
proof -
  have meta: "R c c'" if m: "apply_metadata dp cmd cfg ws plan (ca, c) = Some (r, plan', ca', c')"
  proof -
    from m dp obtain x ac where "execute_metadata_plan ev cfg ws plan (metadata_mode cmd) (ca_audit ca, c) = Some (x, plan', ac, c')"
      by (auto simp: apply_metadata_def split: Option.bind_splits)
    with R_execute_metadata_plan al show ?thesis by (auto simp: apply_allowed_def tx_allowed_def)
  qed
  with e R_apply_migrate [OF al dp] R_refl show ?thesis by (cases cmd) (auto simp: apply_plan_def)
qed

lemma R_locked_body:
  assumes al: apply_allowed "\<forall>s \<in> planning_statements (command_mutates cmd) (cfg_catalog_cache cfg). allowed s"
    and dp: "dp_env (en_db en) = ev" and e: "locked_body en cmd cfg g ws (ca, c) = Some (r, g', ca', c')"
  shows "R c c'"
proof -
  from e obtain p g1 ca1 c1 where h: "plan_phase en cmd cfg g ws (ca, c) = Some (p, g1, ca1, c1)"
    by (auto simp: locked_body_def split: Option.bind_splits)
  note r1 = R_plan_phase [OF al(2) dp h]
  from e h consider "c' = c1"
    | ws1 plan x plan1 where "apply_plan (en_db en) cmd cfg g1 ws1 plan (ca1, c1) = Some (x, plan1, ca', c')"
    by (cases p) (auto simp: locked_body_def split: Option.bind_splits)
  then show ?thesis using r1 R_apply_plan [OF al(1) dp] R_trans by cases blast+
qed

end

end
