(* ===== verification/Engine_Properties.thy ===== *)
theory Engine_Properties
  imports Engine_Calls
begin

section \<open>Properties of the commands\<close>

text \<open>
  Whole commands over recorded calls: what read-only commands send, the lock around mutating ones, the
  exit code of a run over several databases, and the merged plan.
\<close>

subsection \<open>The recorded engine\<close>

definition unlogged :: "('w \<Rightarrow> 'a \<times> 'w) \<Rightarrow> 'w \<times> call list \<Rightarrow> 'a \<times> ('w \<times> call list)" where
  "unlogged f wl = (case wl of (w, l) \<Rightarrow> let (r, w') = f w in (r, (w', l)))"

definition recording_db :: "('w, 'g) db_params \<Rightarrow> ('w \<times> call list, 'g) db_params" where
  "recording_db dp =
     \<lparr>dp_env = recording (dp_env dp), dp_codec = dp_codec dp, dp_fp = dp_fp dp, dp_hash = dp_hash dp,
      dp_host = dp_host dp, dp_pid = dp_pid dp\<rparr>"

definition recording_engine :: "('w, 'g) engine \<Rightarrow> ('w \<times> call list, 'g) engine" where
  "recording_engine en =
     \<lparr>en_db = recording_db (en_db en), en_probe = (\<lambda>cfg. unlogged (en_probe en cfg)),
      en_connect = (\<lambda>cfg. unlogged (en_connect en cfg)), en_connect_session = (\<lambda>cfg. unlogged (en_connect_session en cfg)),
      en_master = (\<lambda>cfg. unlogged (en_master en cfg)),
      en_master_exec = (\<lambda>sql (w, l). let (late, r, w') = en_master_exec en sql w in
        (late, r, (w', l @ [\<lparr>cl_stmt = Text sql, cl_params = [], cl_late = late, cl_ok = (\<not> isl r)\<rparr>]))),
      en_parallelism = en_parallelism en, en_kids = en_kids en, en_rfc3339 = en_rfc3339 en, en_now = en_now en\<rparr>"

lemma dp_env_recording [simp]: "dp_env (en_db (recording_engine en)) = recording (dp_env (en_db en))"
  by (simp add: recording_engine_def recording_db_def)

lemma unlogged_log: "unlogged f wl = (r, wl') \<Longrightarrow> snd wl' = snd wl"
  by (auto simp: unlogged_def split: prod.splits)

definition log_extends :: "(stmt \<Rightarrow> bool) \<Rightarrow> 'w \<times> call list \<Rightarrow> 'w \<times> call list \<Rightarrow> bool" where
  "log_extends allowed wl wl' \<longleftrightarrow> (\<exists>cs. snd wl' = snd wl @ cs \<and> (\<forall>cl \<in> set cs. allowed (cl_stmt cl)))"

lemma log_extends_refl: "snd wl' = snd wl \<Longrightarrow> log_extends allowed wl wl'"
  by (simp add: log_extends_def)

lemma log_extends_trans: "log_extends allowed wl wl1 \<Longrightarrow> log_extends allowed wl1 wl2 \<Longrightarrow> log_extends allowed wl wl2"
  by (auto simp: log_extends_def)

lemma log_extends_conn: "extends_calls allowed c c' \<longleftrightarrow> log_extends allowed (cn_world c) (cn_world c')"
  by (simp add: extends_calls_def log_extends_def calls_of_def)

subsection \<open>Read-only commands\<close>

lemma run_command_for_database_reads:
  assumes ro: "\<not> command_mutates cmd"
    and e: "run_command_for_database (recording_engine en) cmd cfg g ws multi (ca, wl) = Some (r, g', ca', wl')"
  shows "log_extends (\<lambda>s. s \<in> planning_statements False (cfg_catalog_cache cfg)) wl wl'"
proof -
  let ?en = "recording_engine en"
  obtain x wl1 where con: "(if multi then en_connect ?en cfg wl else en_connect_session ?en cfg wl) = (x, wl1)" by (metis surj_pair)
  then have l1: "snd wl1 = snd wl" by (auto simp: recording_engine_def dest: unlogged_log split: if_splits)
  show ?thesis
  proof (cases x)
    case (Inl y)
    with e con l1 show ?thesis by (cases multi) (auto simp: run_command_for_database_def log_extends_refl)
  next
    case (Inr u)
    let ?c = "set_command_timeout (cfg_command_timeout cfg) (timing_conn_new wl1)"
    from e con Inr ro obtain p c where ph: "plan_phase ?en cmd cfg g ws (ca, ?c) = Some (p, g', ca', c)" "wl' = cn_world c"
      by (cases multi) (auto simp: run_command_for_database_def Let_def split: Option.bind_splits)
    have "extends_calls (\<lambda>s. s \<in> planning_statements False (cfg_catalog_cache cfg)) ?c c"
      by (rule rec_db.R_plan_phase [OF _ _ ph(1)]) (simp_all add: ro)
    then have "log_extends (\<lambda>s. s \<in> planning_statements False (cfg_catalog_cache cfg)) wl1 wl'"
      by (simp add: log_extends_conn ph(2) set_command_timeout_def timing_conn_new_def)
    with l1 show ?thesis by (simp add: log_extends_def)
  qed
qed

lemma probe_catalog_log: "probe_catalog (recording_engine en) cmd cfg multi db wl = (r, wl') \<Longrightarrow> snd wl' = snd wl"
  by (auto simp: probe_catalog_def target_database_exists_def recording_engine_def dest: unlogged_log
      split: if_splits sum.splits prod.splits)

lemma db_config_cache [simp]: "cfg_catalog_cache (db_config cfg db) = cfg_catalog_cache cfg"
  by (simp add: db_config_def)

lemma run_databases_ConsE:
  assumes "run_databases en cmd cfg ws multi (db # dbs) rs (g, ca, w) = Some (r, st')"
  obtains (no_objects) v where "for_catalog_database (dp_fp (en_db en)) ws db = Some v" "object_count v = 0" multi
      "run_databases en cmd cfg ws multi dbs rs (g, ca, w) = Some (r, st')"
    | (unreachable) e w1 where "probe_catalog en cmd cfg multi db w = (Inl e, w1)" "r = Inl e" "st' = (g, ca, w1)"
    | (missing) w1 where "probe_catalog en cmd cfg multi db w = (Inr False, w1)"
      "run_databases en cmd cfg ws multi dbs (rs\<lparr>rs_missing := rs_missing rs @ [db]\<rparr>) (g, ca, w1) = Some (r, st')"
    | (finished) v w1 out st1 where "for_catalog_database (dp_fp (en_db en)) ws db = Some v" "probe_catalog en cmd cfg multi db w = (Inr True, w1)"
      "run_command_for_database en cmd (db_config cfg db) g v multi (ca, w1) = Some (Inr out, st1)"
      "run_databases en cmd cfg ws multi dbs (merge_output rs out) st1 = Some (r, st')"
    | (failed) v w1 e st1 where "probe_catalog en cmd cfg multi db w = (Inr True, w1)"
      "run_command_for_database en cmd (db_config cfg db) g v multi (ca, w1) = Some (Inl e, st1)"
      "multi \<and> run_databases en cmd cfg ws multi dbs (rs\<lparr>rs_exit := max (rs_exit rs) (exit_code e)\<rparr>) st1 = Some (r, st')
       \<or> \<not> multi \<and> r = Inl e \<and> st' = st1"
proof -
  from assms obtain v where v: "for_catalog_database (dp_fp (en_db en)) ws db = Some v" by (auto split: Option.bind_splits)
  obtain x w1 where pr: "probe_catalog en cmd cfg multi db w = (x, w1)" by (metis surj_pair)
  show thesis
  proof (cases "object_count v = 0 \<and> multi")
    case True
    with assms v show thesis by (intro no_objects) auto
  next
    case False
    show thesis
    proof (cases x)
      case (Inl e)
      with assms v False pr show thesis by (intro unreachable) auto
    next
      case (Inr b)
      show thesis
      proof (cases b)
        case True
        with assms v False pr Inr obtain y st1 where y: "run_command_for_database en cmd (db_config cfg db) g v multi (ca, w1) = Some (y, st1)"
          by (auto split: Option.bind_splits)
        show thesis
        proof (cases y)
          case (Inl e)
          with assms v False pr True y \<open>x = Inr b\<close> show thesis by (intro failed) (auto split: if_splits)
        next
          case (Inr out)
          with assms v False pr True y \<open>x = Inr b\<close> show thesis by (intro finished) auto
        qed
      next
        case F: False
        with assms v False pr Inr show thesis by (intro missing) auto
      qed
    qed
  qed
qed

lemma run_databases_reads:
  assumes ro: "\<not> command_mutates cmd"
  shows "run_databases (recording_engine en) cmd cfg ws multi dbs rs (g, ca, wl) = Some (r, g', ca', wl') \<Longrightarrow>
     log_extends (\<lambda>s. s \<in> planning_statements False (cfg_catalog_cache cfg)) wl wl'"
proof (induction dbs arbitrary: rs g ca wl)
  case Nil
  then show ?case by (simp add: log_extends_refl)
next
  case (Cons db dbs)
  let ?ok = "log_extends (\<lambda>s. s \<in> planning_statements False (cfg_catalog_cache cfg))"
  have probe: "?ok wl wl1" if "probe_catalog (recording_engine en) cmd cfg multi db wl = (x, wl1)" for x wl1
    by (rule log_extends_refl [OF probe_catalog_log [OF that]])
  have run: "?ok wl wl2" if "probe_catalog (recording_engine en) cmd cfg multi db wl = (x, wl1)"
    "run_command_for_database (recording_engine en) cmd (db_config cfg db) g v multi (ca, wl1) = Some (y, g1, ca1, wl2)" for x wl1 v y g1 ca1 wl2
    using log_extends_trans [OF probe [OF that(1)]] run_command_for_database_reads [OF ro that(2)] by simp
  from Cons.prems show ?case
  proof (cases rule: run_databases_ConsE)
    case (finished v w1 out st1)
    then show ?thesis using log_extends_trans [OF run [OF finished(2)]] Cons.IH by (cases st1) blast
  next
    case (failed v w1 e st1)
    obtain g1 ca1 wl2 where st1: "st1 = (g1, ca1, wl2)" by (cases st1)
    note r = run [OF failed(1) failed(2) [unfolded st1]]
    from failed(3) st1 log_extends_trans [OF r Cons.IH] r show ?thesis by auto
  next
    case (missing w1)
    then show ?thesis using log_extends_trans [OF probe] Cons.IH by blast
  qed (use Cons.IH probe in auto)
qed

fun parts :: "stmt \<Rightarrow> stmt list" where
  "parts (Joined ss) = concat (map parts ss)"
| "parts (Replaced s rs) = parts s"
| "parts s = [s]"

definition writing_statements :: "stmt set" where
  "writing_statements = {BOOTSTRAP_TABLES, BOOTSTRAP_DRIFT, BOOTSTRAP_INDEX, INSERT_HISTORY, CACHE_INVALIDATE,
     BEGIN_TX, COMMIT_TX, ROLLBACK, ACQUIRE, RELEASE, RELEASE_IF_HELD}"

definition reads_only :: "stmt \<Rightarrow> bool" where
  "reads_only s \<longleftrightarrow> set (parts s) \<inter> writing_statements = {}"

lemma reads_only_simps [simp]:
  "reads_only (Joined ss) \<longleftrightarrow> list_all reads_only ss" "reads_only (Replaced s rs) \<longleftrightarrow> reads_only s" "reads_only (Text b)"
  "reads_only SCOPE_HEADER" "reads_only SCHEMA_ROWS" "reads_only SYS_OBJECTS" "reads_only TYPES" "reads_only INDEXES"
  "reads_only ROWS_PROJECTION" "reads_only CACHE_LOAD_RELAXED"
  by (auto simp: reads_only_def list_all_iff writing_statements_def)

lemma catalog_sources_reads: "list_all reads_only (catalog_sources first ns)"
  by (induction ns arbitrary: first) (simp_all add: catalog_source_def)

lemma catalog_section_reads: "list_all reads_only (catalog_section name body) = reads_only body"
  by (simp add: catalog_section_def)

lemma batch_parts: "set (parts (plan_db_batch_sql kinds False cat skip relaxed)) \<inter> writing_statements = {}"
proof -
  have "reads_only (build_catalog_sql_batch kinds skip)"
    unfolding build_catalog_sql_batch_def build_catalog_from_header_def Let_def
    by (simp add: catalog_sources_reads catalog_section_reads)
  then have "reads_only (plan_db_batch_sql kinds False cat skip relaxed)" by (simp add: plan_db_batch_sql_def)
  then show ?thesis by (simp add: reads_only_def)
qed

lemma planning_reads: "s \<in> planning_statements False cache \<Longrightarrow> set (parts s) \<inter> writing_statements = {} \<and> (\<forall>b. s \<noteq> Text b)"
proof -
  assume "s \<in> planning_statements False cache"
  then consider "s \<in> {HISTORY_EXISTS, HISTORY_EMPTY, LOAD_CHECKSUMS, SCOPED_HIT, CACHE_LOAD, CACHE_SAVE_BATCH}" | "s \<in> catalog_queries False"
    by (auto simp: planning_statements_def split: if_splits)
  then show ?thesis
  proof cases
    case 2
    then obtain kinds cat skip relaxed where "s = plan_db_batch_sql kinds False cat skip relaxed"
      unfolding catalog_queries_def by blast
    moreover have "plan_db_batch_sql kinds False cat skip relaxed \<noteq> Text b" for b by (simp add: plan_db_batch_sql_def)
    ultimately show ?thesis using batch_parts [of kinds cat skip relaxed] by simp
  qed (auto simp: writing_statements_def)
qed

text \<open>
  C23: \<open>plan\<close> and \<open>validate\<close>, over any number of databases and whatever the server answers, send
  only inspection statements and, with the catalog cache enabled, the one statement that refreshes it.
  No bootstrap DDL, history row, transaction, lock request, \<open>CREATE DATABASE\<close> or repository script is
  ever sent.
\<close>

theorem read_only_commands_only_inspect:
  assumes ro: "\<not> command_mutates cmd"
    and run: "run_command (recording_engine en) cmd cfg (g, ca, w, []) = Some (r, g', ca', w', calls)"
  shows "\<forall>cl \<in> set calls. cl_stmt cl \<in> planning_statements False (cfg_catalog_cache cfg)
      \<and> set (parts (cl_stmt cl)) \<inter> writing_statements = {} \<and> (\<forall>b. cl_stmt cl \<noteq> Text b)"
proof -
  have "log_extends (\<lambda>s. s \<in> planning_statements False (cfg_catalog_cache cfg)) (w, []) (w', calls)"
  proof (cases "cmd = CmdVersion \<or> isl (command_databases (recording_engine en) cfg)")
    case True
    with run have "calls = []" by (auto simp: run_command_def split: if_splits sum.splits)
    then show ?thesis by (simp add: log_extends_def)
  next
    case False
    then obtain dbs where "command_databases (recording_engine en) cfg = Inr dbs" by (cases "command_databases (recording_engine en) cfg") auto
    with False run ro consider "calls = []"
      | rs ws r' where "run_databases (recording_engine en) cmd cfg ws (length dbs > 1) dbs rs (g, ca, w, []) = Some (r', g', ca', w', calls)"
      by (auto simp: run_command_def split: option.splits sum.splits)
    then show ?thesis
    proof cases
      case 2
      then show ?thesis by (rule run_databases_reads [OF ro])
    qed (simp add: log_extends_def)
  qed
  then have "\<forall>cl \<in> set calls. cl_stmt cl \<in> planning_statements False (cfg_catalog_cache cfg)" by (simp add: log_extends_def)
  with planning_reads show ?thesis by blast
qed

subsection \<open>The lock\<close>

definition lock_statements :: "stmt set" where
  "lock_statements = {ACQUIRE, RELEASE, RELEASE_IF_HELD}"

lemma planning_no_lock: "s \<in> planning_statements b cache \<Longrightarrow> s \<notin> lock_statements"
  by (auto simp: planning_statements_def lock_statements_def catalog_queries_def plan_db_batch_sql_def split: if_splits)

lemma body_no_lock: "db_frame.apply_allowed (\<lambda>s. s \<notin> lock_statements)"
  by (simp add: rec_db.apply_allowed_def rec.tx_allowed_def lock_statements_def)

text \<open>
  C24: a mutating command sends the lock request first. If it is not granted nothing else is sent and the
  command fails. If it is granted, planning and applying happen entirely between the grant and one
  release, which is attempted whatever the body returned; it is missing from the calls only when the
  connection had been given up. No lock statement is sent in between.
\<close>

theorem mutating_commands_hold_the_lock:
  assumes live: "cn_live c" and rec: "dp_env (en_db en) = recording ev"
    and run: "run_locked en cmd cfg g ws (ca, c) = Some (r, g', ca', c')"
  shows "case acquire (recording ev) cfg c of
      (Inl e, c1) \<Rightarrow> r = Inl e \<and> (\<exists>acq. calls_of c' = calls_of c @ [acq] \<and> cl_stmt acq = ACQUIRE)
    | (Inr u, c1) \<Rightarrow> \<exists>acq body rel. calls_of c' = calls_of c @ acq # body @ rel
        \<and> cl_stmt acq = ACQUIRE \<and> succeeded (cn_timeout c) acq
        \<and> (\<forall>cl \<in> set body. cl_stmt cl \<notin> lock_statements)
        \<and> (rel = [] \<and> \<not> cn_live c' \<or> (\<exists>x. rel = [x] \<and> cl_stmt x = RELEASE))"
proof -
  obtain a c1 where acq: "acquire (recording ev) cfg c = (a, c1)" by (metis surj_pair)
  then obtain q where q: "conn_query (recording ev) ACQUIRE [int_to_string (lock_timeout_millis_i32 (cfg_lock_timeout cfg))] c = (q, c1)"
    "a = Inr () \<Longrightarrow> \<not> isl q"
    by (auto simp: acquire_def split: sum.splits prod.splits)
  from conn_query_recorded [OF q(1)] live obtain cl where cl: "calls_of c1 = calls_of c @ [cl]" "cl_stmt cl = ACQUIRE"
    "succeeded (cn_timeout c) cl \<longleftrightarrow> \<not> isl q" by auto
  show ?thesis
  proof (cases a)
    case (Inl e)
    with run acq cl rec show ?thesis by (auto simp: run_locked_def)
  next
    case (Inr u)
    with run acq rec obtain b c2 where body: "locked_body en cmd cfg g ws (ca, c1) = Some (b, g', ca', c2)"
      and c': "c' = snd (release (recording ev) c2)"
      by (auto simp: run_locked_def release_after_body_def split: Option.bind_splits)
    have "extends_calls (\<lambda>s. s \<notin> lock_statements) c1 c2"
      by (rule rec_db.R_locked_body [OF body_no_lock _ rec body]) (auto dest: planning_no_lock)
    then obtain bs where bs: "calls_of c2 = calls_of c1 @ bs" "\<forall>cl \<in> set bs. cl_stmt cl \<notin> lock_statements"
      by (auto simp: extends_calls_def)
    obtain x c3 where rl: "conn_query (recording ev) RELEASE [] c2 = (x, c3)" by (metis surj_pair)
    with c' have "c' = c3" by (auto simp: release_def split: sum.splits)
    with conn_query_recorded [OF rl] obtain rel where "calls_of c' = calls_of c2 @ rel"
      "rel = [] \<and> \<not> cn_live c' \<or> (\<exists>x. rel = [x] \<and> cl_stmt x = RELEASE)" by (auto split: if_splits)
    with cl bs q(2) Inr acq show ?thesis by auto
  qed
qed


subsection \<open>Exit codes\<close>

definition database_succeeded :: "('w, 'g) engine \<Rightarrow> Command \<Rightarrow> config \<Rightarrow> workspace \<Rightarrow> bool \<Rightarrow> string \<Rightarrow> bool" where
  "database_succeeded en cmd cfg ws_full multi db \<longleftrightarrow>
     (\<exists>ws. for_catalog_database (dp_fp (en_db en)) ws_full db = Some ws
       \<and> (object_count ws = 0 \<and> multi
          \<or> (\<exists>g ca w out st. run_command_for_database en cmd (db_config cfg db) g ws multi (ca, w) = Some (Inr out, st)
               \<and> ro_exit_code out = 0)))"

lemma run_command_for_database_exit:
  "run_command_for_database en cmd cfg g ws multi st = Some (Inr out, st') \<Longrightarrow> 0 \<le> ro_exit_code out"
  by (auto simp: run_command_for_database_def run_locked_def locked_body_def release_after_body_def Let_def exit_defs
      split: prod.splits sum.splits if_splits Option.bind_splits)

lemma run_databases_exit_grows:
  "run_databases en cmd cfg ws multi dbs rs (g, ca, w) = Some (Inr rs', st') \<Longrightarrow> rs_exit rs \<le> rs_exit rs' \<and> set (rs_missing rs) \<subseteq> set (rs_missing rs')"
proof (induction dbs arbitrary: rs g ca w)
  case (Cons db dbs)
  from Cons.prems show ?case
  proof (cases rule: run_databases_ConsE)
    case (finished v w1 out st1)
    then show ?thesis using Cons.IH [of "merge_output rs out"] by (cases st1) (auto simp: merge_output_def)
  next
    case (failed v w1 e st1)
    obtain g1 ca1 w2 where "st1 = (g1, ca1, w2)" by (cases st1)
    with failed(3) have "run_databases en cmd cfg ws multi dbs (rs\<lparr>rs_exit := max (rs_exit rs) (exit_code e)\<rparr>) (g1, ca1, w2) = Some (Inr rs', st')"
      by auto
    from Cons.IH [OF this] show ?thesis by simp
  next
    case (missing w1)
    then show ?thesis using Cons.IH [OF missing(2)] by auto
  qed (use Cons.IH in auto)
qed simp

lemma run_databases_all_succeed:
  "run_databases en cmd cfg ws multi dbs rs (g, ca, w) = Some (Inr rs', st') \<Longrightarrow> 0 \<le> rs_exit rs \<Longrightarrow> rs_exit rs' = 0 \<Longrightarrow> rs_missing rs' = [] \<Longrightarrow>
     \<forall>db \<in> set dbs. database_succeeded en cmd cfg ws multi db"
proof (induction dbs arbitrary: rs g ca w)
  case (Cons db dbs)
  from Cons.prems(1) show ?case
  proof (cases rule: run_databases_ConsE)
    case (no_objects v)
    then show ?thesis using Cons.IH [OF no_objects(4)] Cons.prems by (auto simp: database_succeeded_def)
  next
    case (missing w1)
    from run_databases_exit_grows [OF missing(2)] Cons.prems(4) show ?thesis by simp
  next
    case (finished v w1 out st1)
    obtain g1 ca1 w2 where st1: "st1 = (g1, ca1, w2)" by (cases st1)
    note ex = run_command_for_database_exit [OF finished(3)] and rest = finished(4) [unfolded st1]
    from run_databases_exit_grows [OF rest] Cons.prems(2,3) ex have z: "ro_exit_code out = 0" by (simp add: merge_output_def)
    with finished have "database_succeeded en cmd cfg ws multi db" unfolding database_succeeded_def by blast
    with Cons.IH [OF rest] Cons.prems z show ?thesis by (simp add: merge_output_def)
  next
    case (failed v w1 e st1)
    obtain g1 ca1 w2 where st1: "st1 = (g1, ca1, w2)" by (cases st1)
    from failed(3) run_databases_exit_grows Cons.prems(3) exit_code_pos [of e] show ?thesis unfolding st1 by fastforce
  qed simp
qed simp

lemma finish_run_Inr: "finish_run r = Inr out \<Longrightarrow> \<exists>rs. r = Inr rs \<and> rs_missing rs = [] \<and> ro_exit_code out = rs_exit rs"
  by (auto simp: finish_run_def split: sum.splits if_splits)

lemma run_command_Inr:
  assumes "run_command en cmd cfg (g, ca, w) = Some (Inr out, st')" "cmd \<noteq> CmdVersion"
  obtains dbs w1 ws r where "command_databases en cfg = Inr dbs" "scan_workspace en cfg g = Some (Inr ws)"
    "run_databases en cmd cfg ws (length dbs > 1) dbs \<lparr>rs_exit = 0, rs_plan = None, rs_missing = []\<rparr> (g, ca, w1) = Some (r, st')"
    "finish_run r = Inr out"
  using assms unfolding run_command_def by (auto split: sum.splits prod.splits option.splits if_splits)



subsection \<open>A quiet server\<close>

text \<open>A server that grants the lock and answers every other query with no rows, and an empty repository.\<close>

definition quiet_env :: "unit env" where
  "quiet_env =
     \<lparr>ev_exec = (\<lambda>w s. (False, Inr (), w)),
      ev_query = (\<lambda>w s ps. (False, Inr (if s = ACQUIRE then [[CellStr ''0'']] else []), w)),
      ev_query_all = (\<lambda>w s ps. (False, Inr [], w)),
      ev_read = (\<lambda>w p. Inl ''no file''), ev_remove_dir_all = (\<lambda>w d. (Inr (), w)), ev_is_dir = (\<lambda>w d. False),
      ev_exists = (\<lambda>w d. False), ev_canonical = (\<lambda>w d. Inl ''no file''), ev_read_dir = (\<lambda>w d. None), ev_file_len = (\<lambda>w f. None),
      ev_create_dir_all = (\<lambda>w d. (Inr (), w)), ev_write = (\<lambda>w f d. (Inr (), w)), ev_rename = (\<lambda>w f g. (Inr (), w)),
      ev_sha = (\<lambda>d. []), ev_hex = (\<lambda>d. d), ev_to_json = (\<lambda>recs. Inr [])\<rparr>"

definition quiet_codec :: codec where
  "quiet_codec = \<lparr>jc_scope = (\<lambda>ps. ''[]''), jc_strings = (\<lambda>ss. ''[]''), jc_keys = (\<lambda>s. None), jc_cache_rows = (\<lambda>rs. Inr []),
     jc_l1_write = (\<lambda>p. Inr []), jc_l1_read = (\<lambda>b. None), jc_unhex = (\<lambda>s. None)\<rparr>"

definition quiet_host :: "unit host" where
  "quiet_host = \<lparr>ho_getenv = (\<lambda>n. if n = ''RMIG_INSPECT_FULL'' then Some ''1'' else None), ho_git = (\<lambda>g a. None),
     ho_git_fetch = (\<lambda>g a. g), ho_canonical = (\<lambda>p. None), ho_exists = (\<lambda>p. False), ho_read_to_string = (\<lambda>p. None),
     ho_pr_base_sha = (\<lambda>p. None)\<rparr>"

definition quiet_engine :: "(unit, unit) engine" where
  "quiet_engine =
     \<lparr>en_db = \<lparr>dp_env = quiet_env, dp_codec = quiet_codec, dp_fp = length, dp_hash = (\<lambda>x. 0), dp_host = quiet_host, dp_pid = 1\<rparr>,
      en_probe = (\<lambda>cfg w. (Inr (), w)), en_connect = (\<lambda>cfg w. (Inr (), w)), en_connect_session = (\<lambda>cfg w. (Inr (), w)),
      en_master = (\<lambda>cfg w. (Inr (), w)), en_master_exec = (\<lambda>sql w. (False, Inr (), w)), en_parallelism = None, en_kids = [],
      en_rfc3339 = (\<lambda>n. None), en_now = []\<rparr>"

definition quiet_config :: config where
  "quiet_config = config_default\<lparr>cfg_database := ''db'', cfg_skip_git := True\<rparr>"


definition no_caches :: caches where
  "no_caches = \<lparr>ca_audit = \<lparr>ac_ensured_dbs = [], ac_history_empty = Map.empty\<rparr>, ca_inspect = [], ca_snap = None\<rparr>"

definition quiet_ws :: workspace where
  "quiet_ws = workspace_default\<lparr>ws_layout_arena := Some \<lparr>sa_buf = [], sa_index = []\<rparr>, ws_layout_digest := []\<rparr>"

lemmas layout_eval = obind_def no_error_def reset_layout_def
     workspace_default_def finalize_object_layout_def Let_def
     invalidate_catalog_facts_def invalidate_transition_paths_def entries_are_interned_def finalize_sorted_entries_def
     apply_finalized_entries_def rebuild_layout_from_interned_def rebuild_layout_from_keys_def settle_layout_def compact_transitions_def
     entry_keys_def object_count_def clear_object_staging_def clear_scan_staging_def
     intern_workspace_strings_def register_workspace_strings_def registered_strings_def git_strings_def transition_strings_def schema_strings_def
     builder_with_capacity_def finish_builder_def install_layout_arena_def apply_workspace_strings_def apply_object_entries_def apply_scripts_def
     apply_interned_transitions_def apply_schemas_def rebuild_script_key_index_def rebuild_fp_index_def apply_script_git_offs_def
     rebuild_path_caches_def rebuild_transition_path_cache_def rebuild_object_path_cache_def

lemma quiet_scan: "scan_workspace (recording_engine quiet_engine) quiet_config () = Some (Inr quiet_ws)"
  by (simp add: scan_workspace_def populate_def scan_root_def walk_sql_def recording_engine_def recording_db_def recording_def
     quiet_engine_def quiet_env_def quiet_config_def quiet_ws_def config_default_def parse_objects_def PARALLEL_THRESHOLD_def
     layout_eval layout_digest_def)
definition quiet_db_ws :: workspace where
  "quiet_db_ws = workspace_default\<lparr>ws_database_names := [[], ''db''], ws_layout_digest := []\<rparr>"

lemma quiet_view: "for_catalog_database length quiet_ws ''db'' = Some quiet_db_ws"
  by (simp add: for_catalog_database_def quiet_ws_def quiet_db_ws_def adopt_dense_entries_def intern_database_def as_u16_def eq_ignore_ascii_case_def to_lowercase_def
    relink_transitions_from_def relink_parents_from_def layout_eval)

lemma quiet_db_sel: "object_count quiet_db_ws = 0" "ws_object_entries quiet_db_ws = []" "ws_object_rows quiet_db_ws = []" "ws_layout_digest quiet_db_ws = []"
  "ws_schemas quiet_db_ws = []" "entry_keys quiet_db_ws = Some []" "normalized_keys quiet_db_ws = Some []" "normalized_keys_json quiet_db_ws = Some ''[]''"
  "object_scope_json quiet_db_ws = Some ''[]''" "has_modules quiet_db_ws = False"
  by (simp_all add: quiet_db_ws_def workspace_default_def object_count_def entry_keys_def normalized_keys_def normalized_keys_json_def object_scope_json_def has_modules_def)

definition quiet_call :: "stmt \<Rightarrow> string list \<Rightarrow> call" where
  "quiet_call s ps = \<lparr>cl_stmt = s, cl_params = ps, cl_late = False, cl_ok = True\<rparr>"

lemma quiet_query: "cn_live c \<Longrightarrow> cn_world c = (w, l) \<Longrightarrow> conn_query (recording quiet_env) s ps c =
    (Inr (if s = ACQUIRE then [[CellStr ''0'']] else []), c\<lparr>cn_world := (w, l @ [quiet_call s ps]), cn_query_calls := cn_query_calls c + 1\<rparr>)"
  by (simp add: conn_query_def recording_def quiet_env_def quiet_call_def run_bounded_def)

lemma quiet_exec: "cn_live c \<Longrightarrow> cn_world c = (w, l) \<Longrightarrow> conn_exec (recording quiet_env) s c =
    (Inr (), c\<lparr>cn_world := (w, l @ [quiet_call s []]), cn_exec_calls := cn_exec_calls c + 1\<rparr>)"
  by (simp add: conn_exec_def recording_def quiet_env_def quiet_call_def run_bounded_def)

lemma quiet_l1: "l1_try_load (recording quiet_env) jc fp root fpr dg c = Inr None"
  by (cases "cn_world c") (simp add: l1_try_load_def recording_def quiet_env_def)

lemma quiet_l1_save: "l1_save (recording quiet_env) quiet_codec pid root fpr dg cs cat c = (Inr (), c)"
  by (cases "cn_world c") (simp add: l1_save_def recording_def quiet_env_def quiet_codec_def MAX_L1_CACHE_BYTES_def)

lemma quiet_warm: "warm_reuse (ho_getenv quiet_host) fp dg ca = None" "warm_store (ho_getenv quiet_host) fp dg cs cat ca = ca"
  by (simp_all add: warm_reuse_def warm_store_def reuse_enabled_def quiet_host_def)

lemma quiet_changed: "resolve_changed_paths quiet_host g root = (full ''env-full-inspect'', g)"
  by (simp add: resolve_changed_paths_def quiet_host_def)

lemma quiet_sync: "cn_live c \<Longrightarrow> cn_world c = (w, l) \<Longrightarrow> sync_tables_ensured (recording quiet_env) fp (ca_audit no_caches, c) =
   (Inr (), ca_audit no_caches, c\<lparr>cn_world := (w, l @ [quiet_call HISTORY_EXISTS []]), cn_query_calls := cn_query_calls c + 1\<rparr>)"
  by (simp add: sync_tables_ensured_def probe_audit_tables_exist_def quiet_query no_caches_def tables_ensured_def)

abbreviation quiet_dp :: "(unit \<times> call list, unit) db_params" where
  "quiet_dp \<equiv> en_db (recording_engine quiet_engine)"

lemma quiet_dp_sel: "dp_env (en_db quiet_engine) = quiet_env" "dp_env quiet_dp = recording quiet_env" "dp_codec quiet_dp = quiet_codec" "dp_fp quiet_dp = length" "dp_host quiet_dp = quiet_host" "dp_pid quiet_dp = 1"
  by (simp_all add: recording_engine_def recording_db_def quiet_engine_def)

lemma quiet_body:
  "bc_ws ctx = quiet_db_ws \<Longrightarrow> \<not> bc_need_checksums ctx \<Longrightarrow> bc_need_catalog ctx \<Longrightarrow> bc_full ctx \<Longrightarrow>
     run_standard_body quiet_dp ctx st = Some (Inr \<lparr>bo_checksums = checksum_map_new, bo_catalog = catalog_default\<rparr>, st)"
  by (simp add: run_standard_body_def inspect_standard_def dp_scope_def build_inspect_scope_def quiet_db_sel should_query_catalog_def
      merge_stable_catalog_def intern_catalog_state_def catalog_default_def Let_def quiet_dp_sel)

lemma quiet_reads:
  "cn_live c \<Longrightarrow> cn_world c = (w, l) \<Longrightarrow> run_plan_db_phase quiet_dp () quiet_config quiet_db_ws False False (no_caches, c) =
    Some (Inr \<lparr>bo_checksums = checksum_map_new, bo_catalog = catalog_default\<rparr>, (),
      (no_caches, c\<lparr>cn_world := (w, l @ [quiet_call HISTORY_EXISTS []]), cn_query_calls := cn_query_calls c + 1\<rparr>))"
  by (simp add: run_plan_db_phase_def quiet_db_sel quiet_dp_sel quiet_l1 quiet_warm Let_def
     execute_db_def prepare_execute_def quiet_sync quiet_changed full_def run_plan_body_def body_ctx_def run_body_def quiet_body quiet_l1_save catalog_default_def)

lemma quiet_intern: "intern_catalog_state catalog_default = Some catalog_default" 
  by (simp add: intern_catalog_state_def catalog_default_def)

definition quiet_plan :: "string \<Rightarrow> migration_plan" where
  "quiet_plan label = migration_plan_default\<lparr>mp_command := label\<rparr>"

lemma quiet_diff: "\<exists>ws'. compute_diff length quiet_db_ws catalog_default checksum_map_new = Some (ws', migration_plan_default) \<and> ws_object_entries ws' = []"
  by (simp add: compute_diff_def compute_diff_into_def prepare_diff_def quiet_db_sel apply_catalog_if_needed_def catalog_applied_def
     quiet_db_ws_def workspace_default_def apply_catalog_def apply_checksums_if_needed_def checksums_applied_def mark_catalog_applied_def
     CATALOG_APPLIED_def CHECKSUMS_APPLIED_def mark_checksums_applied_def object_count_def ensure_path_caches_def rebuild_path_caches_def
     rebuild_transition_path_cache_def rebuild_object_path_cache_def entry_keys_def resize_def Let_def ensure_plan_rows_def migration_plan_default_def
     diff_counters_default_def plan_summary_default_def)



definition quiet_start :: "(unit \<times> call list) conn" where
  "quiet_start = set_command_timeout (cfg_command_timeout quiet_config) (timing_conn_new ((), []))"

lemma quiet_start_sel: "cn_live quiet_start" "cn_world quiet_start = ((), [])"
  by (simp_all add: quiet_start_def set_command_timeout_def timing_conn_new_def)

definition quiet_after :: "(unit \<times> call list) conn" where
  "quiet_after = quiet_start\<lparr>cn_world := ((), [quiet_call HISTORY_EXISTS []]), cn_query_calls := Suc (cn_query_calls quiet_start)\<rparr>"

lemma quiet_planned_at: "resolved_planned_at (ho_getenv quiet_host) f now = now"
  by (simp add: resolved_planned_at_def quiet_host_def unwrap_or_def)

lemma quiet_plan_phase:
  "\<exists>ws'. plan_phase (recording_engine quiet_engine) CmdPlan quiet_config () quiet_db_ws (no_caches, quiet_start)
     = Some (Inr (quiet_plan ''plan'', ws'), (), no_caches, quiet_after)"
proof -
  obtain ws' where d: "compute_diff length quiet_db_ws catalog_default checksum_map_new = Some (ws', migration_plan_default)"
    using quiet_diff by blast
  have now: "en_now (recording_engine quiet_engine) = []" by (simp add: recording_engine_def quiet_engine_def)
  have cm: "command_mutates CmdPlan = False" by (simp add: command_mutates_def)
  have "plan_phase (recording_engine quiet_engine) CmdPlan quiet_config () quiet_db_ws (no_caches, quiet_start)
     = Some (Inr (quiet_plan ''plan'', ws'), (), no_caches, quiet_after)"
    unfolding plan_phase_def
    by (simp add: cm quiet_reads [OF quiet_start_sel] quiet_dp_sel quiet_warm d quiet_planned_at now quiet_plan_def quiet_after_def
       migration_plan_default_def Let_def)
  then show ?thesis by blast
qed

lemma quiet_cfg: "db_config quiet_config ''db'' = quiet_config" "cfg_database quiet_config = ''db''"
  by (simp_all add: quiet_config_def db_config_def)

lemma quiet_connect: "en_connect_session (recording_engine quiet_engine) quiet_config ((), []) = (Inr (), ((), []))"
  by (simp add: recording_engine_def quiet_engine_def unlogged_def)

lemma quiet_run_plan:
  "run_command (recording_engine quiet_engine) CmdPlan quiet_config ((), no_caches, (), []) =
     Some (Inr \<lparr>ro_exit_code = 0, ro_plan = Some (quiet_plan ''plan'')\<rparr>, (), no_caches, ((), [quiet_call HISTORY_EXISTS []]))"
proof -
  have cm: "command_mutates CmdPlan = False" by (simp add: command_mutates_def)
  have one: "run_command_for_database (recording_engine quiet_engine) CmdPlan quiet_config () quiet_db_ws False (no_caches, (), []) =
     Some (Inr \<lparr>ro_exit_code = 0, ro_plan = Some (quiet_plan ''plan'')\<rparr>, (), no_caches, ((), [quiet_call HISTORY_EXISTS []]))"
    using quiet_plan_phase
    by (auto simp: run_command_for_database_def quiet_connect cm quiet_start_def [symmetric] quiet_after_def Let_def)
  show ?thesis
    by (simp add: run_command_def command_databases_def quiet_cfg cm quiet_scan quiet_dp_sel quiet_view probe_catalog_def one
       merge_output_def merge_plan_def finish_run_def)
qed

theorem read_only_commands_only_inspect_witness:
  "cl_stmt (quiet_call HISTORY_EXISTS []) \<in> planning_statements False (cfg_catalog_cache quiet_config)
      \<and> set (parts (cl_stmt (quiet_call HISTORY_EXISTS []))) \<inter> writing_statements = {}"
  using read_only_commands_only_inspect [OF _ quiet_run_plan] by (simp add: command_mutates_def)



lemma quiet_acquire: "\<exists>c. acquire (recording quiet_env) quiet_config quiet_start = (Inr (), c) \<and> cn_live c"
proof -
  have "get_i32 [CellStr ''0''] 0 = Some 0"
    by (simp add: get_i32_def get_str_def nth_opt_def parse_i32_def trim_def trim_start_def trim_end_def is_space_def decimal_value_def
       is_ascii_digit_def I32_MAX_def)
  then show ?thesis
    by (simp add: acquire_def quiet_query [OF quiet_start_sel] classify_applock_def quiet_start_sel unwrap_or_def)
qed

lemma quiet_sync_any: "cn_live c \<Longrightarrow> \<exists>ac' c'. sync_tables_ensured (recording quiet_env) fp (ac, c) = (Inr (), ac', c') \<and> cn_live c'"
  by (cases "cn_world c") (simp add: sync_tables_ensured_def probe_audit_tables_exist_def quiet_query)

lemma quiet_client: "cn_live c \<Longrightarrow> \<exists>c'. client_exec (recording quiet_env) s c = (Inr (), c') \<and> cn_live c'"
  by (cases "cn_world c") (simp add: client_exec_def recording_def quiet_env_def)

lemma quiet_client_late: "cn_live c \<Longrightarrow> \<exists>c'. client_exec_late (recording quiet_env) s c = (False, Inr (), c') \<and> cn_live c'"
  by (cases "cn_world c") (simp add: client_exec_late_def recording_def quiet_env_def)

lemma quiet_ensure: 
  assumes "cn_live c"
  shows "\<exists>ac' c'. ensure_tables (recording quiet_env) fp (ac, c) = (Inr (), ac', c') \<and> cn_live c'"
    "\<exists>ac' c'. bounded_ensure_tables (recording quiet_env) t fp (ac, c) = (Inr (), ac', c') \<and> cn_live c'"
proof -
  from quiet_client [OF assms] obtain c1 where c1: "client_exec (recording quiet_env) BOOTSTRAP_TABLES c = (Inr (), c1)" "cn_live c1" by blast
  from quiet_client [OF c1(2)] obtain c2 where c2: "client_exec (recording quiet_env) BOOTSTRAP_DRIFT c1 = (Inr (), c2)" "cn_live c2" by blast
  show ens: "\<exists>ac' c'. ensure_tables (recording quiet_env) fp (ac, c) = (Inr (), ac', c') \<and> cn_live c'"
    using assms c1 c2 by (simp add: ensure_tables_def)
  from quiet_client_late [OF assms] obtain c1 where c1: "client_exec_late (recording quiet_env) BOOTSTRAP_TABLES c = (False, Inr (), c1)" "cn_live c1" by blast
  from quiet_client_late [OF c1(2)] obtain c2 where c2: "client_exec_late (recording quiet_env) BOOTSTRAP_DRIFT c1 = (False, Inr (), c2)" "cn_live c2" by blast
  show "\<exists>ac' c'. bounded_ensure_tables (recording quiet_env) t fp (ac, c) = (Inr (), ac', c') \<and> cn_live c'"
    using assms c1 c2 ens by (simp add: bounded_ensure_tables_def Let_def)
qed

lemma quiet_boot:
  assumes "cn_live c"
  shows "\<exists>ca' c'. run_plan_db_phase quiet_dp () quiet_config quiet_db_ws True False (ca, c) =
    Some (Inr \<lparr>bo_checksums = checksum_map_new, bo_catalog = catalog_default\<rparr>, (), ca', c') \<and> cn_live c'"
proof -
  let ?fp = "config_fingerprint quiet_config"
  let ?ca0 = "on_audit (invalidate_audit_cache ?fp) ca"
  from quiet_sync_any [OF assms] obtain ac1 c1 where s: "sync_tables_ensured (recording quiet_env) ?fp (ca_audit ?ca0, c) = (Inr (), ac1, c1)" "cn_live c1" by blast
  from quiet_ensure(2) [OF s(2)] obtain ac2 c2 where b: "bounded_ensure_tables (recording quiet_env) (cfg_command_timeout quiet_config) ?fp (ac1, c1) = (Inr (), ac2, c2)" "cn_live c2" by blast
  have sock: "cfg_session_socket quiet_config = []" by (simp add: quiet_config_def config_default_def)
  show ?thesis
    by (simp add: run_plan_db_phase_def quiet_db_sel quiet_dp_sel Let_def execute_db_def prepare_execute_def s quiet_changed full_def
       run_plan_body_def sock b body_ctx_def run_body_def quiet_body quiet_l1_save catalog_default_def)
qed


lemma quiet_phases: "\<exists>c'. run_phases (recording quiet_env) ws (quiet_plan l) c = Some (c', apply_result_default)"
  by (simp add: run_phases_def quiet_plan_def migration_plan_default_def apply_result_default_def apply_objects_def flush_tx_def commit_history_def
     apply_modules.simps Let_def sort_tx_batch_def)

lemma quiet_plan_sel: "mp_blocked (quiet_plan l) = False" "mp_objects (quiet_plan l) = []" "mp_rows (quiet_plan l) = []" "mp_schemas (quiet_plan l) = []"
  by (simp_all add: quiet_plan_def migration_plan_default_def)

lemma quiet_apply:
  assumes "cn_live c"
  shows "\<exists>r plan' st'. apply_plan quiet_dp CmdMigrate quiet_config () ws (quiet_plan l) (ca, c) = Some (r, plan', st')"
proof -
  from quiet_ensure(1) [OF assms] obtain ac1 c1 where e: "ensure_tables (recording quiet_env) (config_fingerprint quiet_config) (ca_audit ca, c) = (Inr (), ac1, c1)" "cn_live c1" by blast
  obtain w ls where "cn_world c1 = (w, ls)" by (metis surj_pair)
  then obtain c2 where i: "ensure_history_index (recording quiet_env) c1 = (Inr (), c2)" using quiet_exec [OF e(2)] by (auto simp: ensure_history_index_def)
  obtain c3 where p: "run_phases (recording quiet_env) ws (quiet_plan l) c2 = Some (c3, apply_result_default)" using quiet_phases by blast
  have fin: "finish (recording quiet_env) quiet_config apply_result_default (ac1, c3) = (Inr apply_result_default, ac1, c3)"
    by (simp add: finish_def apply_result_default_def)
  have "cfg_allow_adopt quiet_config = False" by (simp add: quiet_config_def config_default_def)
  with e i p fin show ?thesis
    by (simp add: apply_plan_def apply_migrate_def quiet_plan_sel ensure_adopt_allowed_def ensure_objects_materialized_def
       filter_applied_def needs_history_def execute_plan_def quiet_dp_sel after_apply_def apply_result_default_def)
qed

lemma quiet_run_locked:
  "\<exists>r g' ca' c'. run_locked (recording_engine quiet_engine) CmdMigrate quiet_config () quiet_db_ws (no_caches, quiet_start) = Some (r, g', ca', c')"
proof -
  from quiet_acquire obtain c1 where a: "acquire (recording quiet_env) quiet_config quiet_start = (Inr (), c1)" "cn_live c1" by blast
  from quiet_boot [OF a(2)] obtain ca2 c2 where b: "run_plan_db_phase quiet_dp () quiet_config quiet_db_ws True False (no_caches, c1) =
    Some (Inr \<lparr>bo_checksums = checksum_map_new, bo_catalog = catalog_default\<rparr>, (), ca2, c2)" "cn_live c2" by blast
  obtain ws' where d: "compute_diff length quiet_db_ws catalog_default checksum_map_new = Some (ws', migration_plan_default)"
    using quiet_diff by blast
  have now: "en_now (recording_engine quiet_engine) = []" by (simp add: recording_engine_def quiet_engine_def)
  have cm: "command_mutates CmdMigrate" by (simp add: command_mutates_def)
  have ph: "plan_phase (recording_engine quiet_engine) CmdMigrate quiet_config () quiet_db_ws (no_caches, c1)
     = Some (Inr (quiet_plan ''migrate'', ws'), (), ca2, c2)"
    unfolding plan_phase_def
    by (simp add: cm b quiet_dp_sel quiet_warm d quiet_planned_at now quiet_plan_def migration_plan_default_def Let_def)
  from quiet_apply [OF b(2)] obtain r plan' st' where "apply_plan quiet_dp CmdMigrate quiet_config () ws' (quiet_plan ''migrate'') (ca2, c2) = Some (r, plan', st')" by blast
  with a ph show ?thesis by (cases st') (simp add: run_locked_def locked_body_def quiet_dp_sel release_after_body_def Let_def)
qed

theorem mutating_commands_hold_the_lock_witness:
  "\<exists>(c' :: (unit \<times> call list) conn) acq body rel. calls_of c' = acq # body @ rel \<and> cl_stmt acq = ACQUIRE \<and> succeeded (cn_timeout quiet_start) acq
     \<and> (\<forall>cl \<in> set body. cl_stmt cl \<notin> lock_statements)
     \<and> (rel = [] \<and> \<not> cn_live c' \<or> (\<exists>x. rel = [x] \<and> cl_stmt x = RELEASE))"
proof -
  from quiet_run_locked obtain r g' ca' c' where run: "run_locked (recording_engine quiet_engine) CmdMigrate quiet_config () quiet_db_ws (no_caches, quiet_start) = Some (r, g', ca', c')"
    by blast
  have "calls_of quiet_start = []" by (simp add: calls_of_def quiet_start_sel)
  moreover from quiet_acquire obtain y where y: "acquire (recording quiet_env) quiet_config quiet_start = (Inr (), y)" by blast
  ultimately show ?thesis
    using mutating_commands_hold_the_lock [OF quiet_start_sel(1) quiet_dp_sel(2) run] by (intro exI [of _ c']) simp
qed

end
