(* ===== verification/Plan_Db_Correct.thy ===== *)
theory Plan_Db_Correct
  imports Engine_Properties
begin

section \<open>Mutating commands plan from the live database\<close>

text \<open>
  With the caches bypassed the database phase depends on the process-local caches in nothing: two runs
  from different caches give the same result and leave the same connection. \<open>same_view\<close> says that
  two cache states agree in what the phase still reads, the audit facts about the database at hand, and
  \<open>agrees\<close> that two outcomes differ at most in the other parts of the caches.
\<close>

definition same_view :: "string \<Rightarrow> caches \<Rightarrow> caches \<Rightarrow> bool" where
  "same_view fp ca1 ca2 \<longleftrightarrow>
     tables_ensured (ca_audit ca1) fp = tables_ensured (ca_audit ca2) fp
     \<and> history_empty_cached (ca_audit ca1) fp = history_empty_cached (ca_audit ca2) fp"

lemmas view_defs = same_view_def on_audit_def mark_tables_ensured_def cache_history_empty_def tables_ensured_def
  history_empty_cached_def invalidate_db_def invalidate_audit_cache_def invalidate_audit_cache_all_def

definition agrees :: "string \<Rightarrow> 'r \<times> caches \<times> 'w conn \<Rightarrow> 'r \<times> caches \<times> 'w conn \<Rightarrow> bool" where
  "agrees fp out1 out2 \<longleftrightarrow>
     fst out1 = fst out2 \<and> snd (snd out1) = snd (snd out2) \<and> same_view fp (fst (snd out1)) (fst (snd out2))"

lemma agreesE:
  assumes "agrees fp out1 out2"
  obtains r ca1 ca2 c where "out1 = (r, ca1, c)" "out2 = (r, ca2, c)" "same_view fp ca1 ca2"
  using assms by (cases out1; cases out2) (auto simp: agrees_def)

lemma agrees_pair [simp]: "agrees fp (r, ca1, c) (r', ca2, c') \<longleftrightarrow> r = r' \<and> c = c' \<and> same_view fp ca1 ca2"
  by (auto simp: agrees_def)

lemma same_view_facts:
  assumes "same_view fp ca1 ca2"
  shows same_view_ensured: "tables_ensured (ca_audit ca1) fp = tables_ensured (ca_audit ca2) fp"
    and same_view_cached: "history_empty_cached (ca_audit ca1) fp = history_empty_cached (ca_audit ca2) fp"
    and same_view_nonempty: "history_known_nonempty (ca_audit ca1) fp = history_known_nonempty (ca_audit ca2) fp"
    and same_view_skipped: "checksums_skipped_flag ca1 fp k = checksums_skipped_flag ca2 fp k"
  using assms by (simp_all add: same_view_def history_known_nonempty_def checksums_skipped_flag_def)

lemma same_view_update:
  assumes "same_view fp ca1 ca2"
  shows "same_view fp (on_audit (mark_tables_ensured fp) ca1) (on_audit (mark_tables_ensured fp) ca2)"
    and "same_view fp (on_audit (cache_history_empty fp b) ca1) (on_audit (cache_history_empty fp b) ca2)"
    and "same_view fp (store_inspect_cache h fp' dg sj l ca1) (store_inspect_cache h fp' dg sj l ca2)"
    and "same_view fp (invalidate_db fp' ca1) (invalidate_db fp' ca2)"
  using assms by (simp_all add: view_defs store_inspect_cache_def inspect_store_def Let_def)

subsection \<open>Recorded checksums\<close>

lemma agrees_ensure_tables_plan:
  "same_view fp ca1 ca2 \<Longrightarrow> agrees fp (ensure_tables_plan ev fp (ca1, c)) (ensure_tables_plan ev fp (ca2, c))"
  by (auto simp: ensure_tables_plan_def same_view_update split: sum.splits prod.splits)

lemma agrees_probe:
  "same_view fp ca1 ca2 \<Longrightarrow> agrees fp (probe_history_empty ev fp (ca1, c)) (probe_history_empty ev fp (ca2, c))"
  by (auto simp: probe_history_empty_def same_view_update Let_def split: sum.splits prod.splits)

lemma agrees_history_empty:
  assumes sv: "same_view fp ca1 ca2"
  shows "agrees fp (history_table_is_empty_plan ev fp b (ca1, c)) (history_table_is_empty_plan ev fp b (ca2, c))"
proof -
  note sim = history_table_is_empty_plan_def same_view_ensured [OF sv] same_view_cached [OF sv]
  consider (cached) e where "history_empty_cached (ca_audit ca2) fp = Some e"
    | (known) "history_empty_cached (ca_audit ca2) fp = None" "tables_ensured (ca_audit ca2) fp"
    | (bootstrap) "history_empty_cached (ca_audit ca2) fp = None" "\<not> tables_ensured (ca_audit ca2) fp" b
    | (look) "history_empty_cached (ca_audit ca2) fp = None" "\<not> tables_ensured (ca_audit ca2) fp" "\<not> b"
    by (cases "history_empty_cached (ca_audit ca2) fp") auto
  then show ?thesis
  proof cases
    case cached then show ?thesis using sv by (simp add: sim)
  next
    case known then show ?thesis using agrees_probe [OF sv] by (simp add: sim)
  next
    case bootstrap
    from agrees_ensure_tables_plan [OF sv, of ev c] obtain r ca1' ca2' c' where
      "ensure_tables_plan ev fp (ca1, c) = (r, ca1', c')" "ensure_tables_plan ev fp (ca2, c) = (r, ca2', c')" "same_view fp ca1' ca2'"
      by (rule agreesE)
    with bootstrap agrees_probe [of fp ca1' ca2' ev c'] show ?thesis by (cases r) (simp_all add: sim)
  next
    case look
    obtain r c' where "history_table_exists ev c = (r, c')" by (metis surj_pair)
    with look sv agrees_probe [OF sv, of ev c'] show ?thesis
      by (auto simp: sim same_view_update split: sum.splits bool.splits)
  qed
qed

lemma agrees_checksums_query:
  "same_view fp ca1 ca2
    \<Longrightarrow> agrees fp (load_checksums_query_plan ev jc kf kj ar (ca1, c)) (load_checksums_query_plan ev jc kf kj ar (ca2, c))"
  by (auto simp: load_checksums_query_plan_def split: sum.splits prod.splits)

lemma agrees_load_checksums:
  assumes sv: "same_view fp ca1 ca2"
  shows "agrees fp (load_checksums_plan ev jc kf fp kj b ar (ca1, c)) (load_checksums_plan ev jc kf fp kj b ar (ca2, c))"
proof -
  from agrees_history_empty [OF sv, of ev b c] obtain r ca1' ca2' c' where
    h: "history_table_is_empty_plan ev fp b (ca1, c) = (r, ca1', c')" "history_table_is_empty_plan ev fp b (ca2, c) = (r, ca2', c')"
    and sv': "same_view fp ca1' ca2'" by (rule agreesE)
  show ?thesis
    using sv agrees_checksums_query [OF sv, of ev jc kf kj ar c] agrees_checksums_query [OF sv', of ev jc kf kj ar c'] sv'
    by (auto simp: load_checksums_plan_def same_view_nonempty [OF sv] h split: sum.splits bool.splits)
qed

lemma agrees_guarded_ensure:
  assumes sv: "same_view fp ca1 ca2"
  shows "agrees fp (if b \<and> \<not> tables_ensured (ca_audit ca1) fp then ensure_tables_plan ev fp (ca1, c) else (Inr (), ca1, c))
    (if b \<and> \<not> tables_ensured (ca_audit ca2) fp then ensure_tables_plan ev fp (ca2, c) else (Inr (), ca2, c))"
  using agrees_ensure_tables_plan [OF sv, of ev c] sv by (simp add: same_view_ensured [OF sv])

lemma agrees_load_standard:
  assumes "same_view (bc_db_fp ctx) ca1 ca2"
  shows "agrees (bc_db_fp ctx) (load_standard_checksums dp ctx (ca1, c)) (load_standard_checksums dp ctx (ca2, c))"
proof -
  from agrees_guarded_ensure [OF assms, of "bc_bootstrap_in_sql ctx" "dp_env dp" c] obtain r ca1' ca2' c' where
    e: "(if bc_bootstrap_in_sql ctx \<and> \<not> tables_ensured (ca_audit ca1) (bc_db_fp ctx)
         then ensure_tables_plan (dp_env dp) (bc_db_fp ctx) (ca1, c) else (Inr (), ca1, c)) = (r, ca1', c')"
      "(if bc_bootstrap_in_sql ctx \<and> \<not> tables_ensured (ca_audit ca2) (bc_db_fp ctx)
         then ensure_tables_plan (dp_env dp) (bc_db_fp ctx) (ca2, c) else (Inr (), ca2, c)) = (r, ca2', c')"
    and sv: "same_view (bc_db_fp ctx) ca1' ca2'" by (rule agreesE)
  show ?thesis unfolding load_standard_checksums_def fst_conv e using sv agrees_load_checksums [OF sv] by (cases r) simp_all
qed

subsection \<open>The catalog\<close>

lemma agrees_stored:
  "agrees fp (r, ca1, c) (r', ca2, c') \<Longrightarrow> agrees fp (stored dp ctx sj (r, ca1, c)) (stored dp ctx sj (r', ca2, c'))"
  by (auto simp: stored_def same_view_update split: sum.splits)

lemma agrees_load_full:
  assumes "same_view fp ca1 ca2"
  shows "rel_option (agrees fp) (load_full_catalog dp ctx sc sj sch (ca1, c)) (load_full_catalog dp ctx sc sj sch (ca2, c))"
proof (cases "kinds_for_scope (bc_ws ctx) sc")
  case None then show ?thesis by (simp add: load_full_catalog_def)
next
  case (Some kinds)
  obtain r c' where r: "(if fast_empty_provable kinds then try_fast_empty_catalog (dp_env dp) sj c else (Inr None, c)) = (r, c')"
    by (metis surj_pair)
  show ?thesis
    unfolding load_full_catalog_def Some prod.case bind.bind_lunit r
    using assms by (auto intro: agrees_stored split: sum.splits option.splits prod.splits)
qed

lemma agrees_load_incremental:
  assumes "same_view (bc_db_fp ctx) ca1 ca2"
  shows "rel_option (agrees (bc_db_fp ctx)) (load_incremental_catalog dp ctx sk sc sj sch (ca1, c))
    (load_incremental_catalog dp ctx sk sc sj sch (ca2, c))"
proof -
  let ?b = "bc_bootstrap_in_sql ctx \<and> \<not> (bc_bootstrap_in_sql ctx \<and> sk)"
  from agrees_guarded_ensure [OF assms, of ?b "dp_env dp" c] obtain r ca1' ca2' c' where
    e: "(if ?b \<and> \<not> tables_ensured (ca_audit ca1) (bc_db_fp ctx)
         then ensure_tables_plan (dp_env dp) (bc_db_fp ctx) (ca1, c) else (Inr (), ca1, c)) = (r, ca1', c')"
      "(if ?b \<and> \<not> tables_ensured (ca_audit ca2) (bc_db_fp ctx)
         then ensure_tables_plan (dp_env dp) (bc_db_fp ctx) (ca2, c) else (Inr (), ca2, c)) = (r, ca2', c')"
    and sv: "same_view (bc_db_fp ctx) ca1' ca2'" by (rule agreesE)
  show ?thesis
    unfolding load_incremental_catalog_def fst_conv Let_def e [unfolded conj_assoc]
    using sv by (cases r; cases "kinds_for_scope (bc_ws ctx) sc")
      (auto intro!: agrees_stored simp: same_view_update split: sum.splits prod.splits)
qed

lemma agrees_bind:
  assumes "rel_option (agrees fp) x y"
    and "\<And>r ca1 ca2 c. same_view fp ca1 ca2 \<Longrightarrow> rel_option (agrees fp) (f r (ca1, c)) (f r (ca2, c))"
  shows "rel_option (agrees fp) (x \<bind> (\<lambda>(r, st). f r st)) (y \<bind> (\<lambda>(r, st). f r st))"
  using assms by (cases x; cases y) (auto elim!: agreesE)

lemma agrees_interned:
  assumes "rel_option (agrees fp) x y"
  shows "rel_option (agrees fp)
     (do { (r, st1) \<leftarrow> x; case r of Inl e \<Rightarrow> Some (Inl e, st1) | Inr l \<Rightarrow> do { final \<leftarrow> f l; Some (Inr final, st1) } })
     (do { (r, st1) \<leftarrow> y; case r of Inl e \<Rightarrow> Some (Inl e, st1) | Inr l \<Rightarrow> do { final \<leftarrow> f l; Some (Inr final, st1) } })"
  by (rule agrees_bind [OF assms]) (auto split: sum.splits bind_splits)

lemma agrees_inspect_standard:
  assumes sv: "same_view (bc_db_fp ctx) ca1 ca2" and "bc_bypass ctx"
  shows "rel_option (agrees (bc_db_fp ctx)) (inspect_standard dp ctx cs sk (ca1, c)) (inspect_standard dp ctx cs sk (ca2, c))"
proof (cases "dp_scope dp (bc_ws ctx) (cp_paths (bc_git ctx)) True cs")
  case None with assms(2) show ?thesis by (simp add: inspect_standard_def Let_def)
next
  case (Some scope)
  show ?thesis
  proof (cases "object_scope_json (bc_ws ctx)")
    case None with assms(2) Some show ?thesis by (simp add: inspect_standard_def Let_def)
  next
    case (Some sj)
    note sj = Some
    let ?load = "\<lambda>st. if should_query_catalog (bc_full ctx) scope sj
      then if bc_full ctx then load_full_catalog dp ctx scope sj (schemas_json (dp_codec dp) (bc_ws ctx)) st
           else load_incremental_catalog dp ctx sk scope sj (schemas_json (dp_codec dp) (bc_ws ctx)) st
      else Some (Inr catalog_default, st)"
    have "rel_option (agrees (bc_db_fp ctx)) (?load (ca1, c)) (?load (ca2, c))"
      by (simp add: agrees_load_full [OF sv] agrees_load_incremental [OF sv] sv)
    from agrees_interned [OF this] show ?thesis
      unfolding inspect_standard_def Let_def try_get_unless_bypassed_def
      by (simp only: assms(2) \<open>dp_scope _ _ _ _ _ = Some scope\<close> sj simp_thms if_True bind.bind_lunit option.case fst_conv)
  qed
qed

lemma agrees_standard_body:
  assumes sv: "same_view (bc_db_fp ctx) ca1 ca2" and "bc_bypass ctx"
  shows "rel_option (agrees (bc_db_fp ctx)) (run_standard_body dp ctx (ca1, c)) (run_standard_body dp ctx (ca2, c))"
proof -
  from agrees_load_standard [OF sv, of dp c] sv
  have "agrees (bc_db_fp ctx) (if bc_need_checksums ctx then load_standard_checksums dp ctx (ca1, c) else (Inr checksum_map_new, ca1, c))
      (if bc_need_checksums ctx then load_standard_checksums dp ctx (ca2, c) else (Inr checksum_map_new, ca2, c))" by simp
  then obtain r ca1' ca2' c' where
    l: "(if bc_need_checksums ctx then load_standard_checksums dp ctx (ca1, c) else (Inr checksum_map_new, ca1, c)) = (r, ca1', c')"
      "(if bc_need_checksums ctx then load_standard_checksums dp ctx (ca2, c) else (Inr checksum_map_new, ca2, c)) = (r, ca2', c')"
    and sv': "same_view (bc_db_fp ctx) ca1' ca2'" by (rule agreesE)
  show ?thesis
  proof (cases r)
    case (Inl e) with sv' show ?thesis unfolding run_standard_body_def l by simp
  next
    case (Inr checksums)
    then show ?thesis
      unfolding run_standard_body_def l using sv' assms(2)
      by (auto simp: same_view_skipped [OF sv'] intro!: agrees_bind agrees_inspect_standard)
  qed
qed

subsection \<open>The phase\<close>

lemma agrees_ensured:
  assumes "same_view fp ca1 ca2"
    and "boot = ensure_tables ev fp \<or> boot = bounded_ensure_tables ev t fp"
  obtains r ac1 ac2 c' where "boot (ca_audit ca1, c) = (r, ac1, c')" "boot (ca_audit ca2, c) = (r, ac2, c')"
    "same_view fp (ca1\<lparr>ca_audit := ac1\<rparr>) (ca2\<lparr>ca_audit := ac2\<rparr>)"
proof -
  have "\<exists>r ac1 ac2 c'. boot (ca_audit ca1, c) = (r, ac1, c') \<and> boot (ca_audit ca2, c) = (r, ac2, c')
     \<and> same_view fp (ca1\<lparr>ca_audit := ac1\<rparr>) (ca2\<lparr>ca_audit := ac2\<rparr>)"
    if "boot = ensure_tables ev fp" for boot
    using assms(1) by (auto simp: that ensure_tables_def view_defs split: sum.splits prod.splits)
  moreover have "\<exists>r ac1 ac2 c'. boot (ca_audit ca1, c) = (r, ac1, c') \<and> boot (ca_audit ca2, c) = (r, ac2, c')
     \<and> same_view fp (ca1\<lparr>ca_audit := ac1\<rparr>) (ca2\<lparr>ca_audit := ac2\<rparr>)"
    if "boot = bounded_ensure_tables ev t fp" "t \<noteq> 0" for boot
    using assms(1) that(2) by (auto simp: that(1) bounded_ensure_tables_def Let_def view_defs split: sum.splits prod.splits bool.splits)
  moreover have "bounded_ensure_tables ev 0 fp = ensure_tables ev fp" by (simp add: bounded_ensure_tables_def fun_eq_iff)
  ultimately show ?thesis using assms(2) that by (metis (no_types, lifting))
qed

lemma agrees_plan_body:
  assumes sv: "same_view (es_db_fp es) ca1 ca2" and "es_bypass es" "\<not> es_git_delta es"
  shows "rel_option (agrees (es_db_fp es)) (run_plan_body dp cfg ws kj es (ca1, c)) (run_plan_body dp cfg ws kj es (ca2, c))"
proof -
  let ?direct = "cfg_session_socket cfg = []"
  let ?defer = "es_defer_bootstrap es \<and> \<not> ?direct"
  let ?ensure = "if ?direct then bounded_ensure_tables (dp_env dp) (cfg_command_timeout cfg) (es_db_fp es) else ensure_tables (dp_env dp) (es_db_fp es)"
  obtain r ac1 ac2 c' where
    e: "(if es_need_bootstrap es \<and> \<not> ?defer then ?ensure (ca_audit ca1, c) else (Inr (), ca_audit ca1, c)) = (r, ac1, c')"
      "(if es_need_bootstrap es \<and> \<not> ?defer then ?ensure (ca_audit ca2, c) else (Inr (), ca_audit ca2, c)) = (r, ac2, c')"
    and sv': "same_view (es_db_fp es) (ca1\<lparr>ca_audit := ac1\<rparr>) (ca2\<lparr>ca_audit := ac2\<rparr>)"
  proof (cases "es_need_bootstrap es \<and> \<not> ?defer")
    case True
    obtain r ac1 ac2 c' where "?ensure (ca_audit ca1, c) = (r, ac1, c')" "?ensure (ca_audit ca2, c) = (r, ac2, c')"
      "same_view (es_db_fp es) (ca1\<lparr>ca_audit := ac1\<rparr>) (ca2\<lparr>ca_audit := ac2\<rparr>)"
      by (rule agrees_ensured [OF sv, of ?ensure "dp_env dp" "cfg_command_timeout cfg" c]) auto
    with True that show ?thesis by presburger
  next
    case False with that sv show ?thesis by (auto simp: same_view_def)
  qed
  have "rel_option (agrees (es_db_fp es)) (run_body dp (body_ctx cfg ws kj es d) (x1, c')) (run_body dp (body_ctx cfg ws kj es d) (x2, c'))"
    if "same_view (es_db_fp es) x1 x2" for d x1 x2
    using agrees_standard_body [of "body_ctx cfg ws kj es d" x1 x2 dp c'] that assms by (simp add: run_body_def body_ctx_def)
  with sv' show ?thesis unfolding run_plan_body_def Let_def fst_conv snd_conv e by (cases r) auto
qed

lemma bypassed_setup:
  assumes "prepare_execute dp g cfg ws kj True ar (ca, c) = Some (Inr es, g', st)"
  shows "es_bypass es" "\<not> es_git_delta es" "es_db_fp es = config_fingerprint cfg"
  using assms by (auto simp: prepare_execute_def Let_def split: sum.splits prod.splits bind_splits)

text \<open>Dropping the cached emptiness and probing the tables makes any two cache states agree.\<close>

lemma agrees_setup:
  "rel_option (\<lambda>(r1, g1, st1) (r2, g2, st2). r1 = r2 \<and> g1 = g2 \<and> snd st1 = snd st2
       \<and> (\<not> isl r1 \<longrightarrow> same_view (config_fingerprint cfg) (fst st1) (fst st2)))
     (prepare_execute dp g cfg ws kj True ar (ca1, c)) (prepare_execute dp g cfg ws kj True ar (ca2, c))"
proof -
  obtain r c' where p: "probe_audit_tables_exist (dp_env dp) c = (r, c')" by (metis surj_pair)
  show ?thesis
    by (cases r) (auto simp: prepare_execute_def sync_tables_ensured_def p Let_def view_defs split: prod.splits)
qed

lemma execute_db_same_body:
  assumes p: "prepare_execute dp g cfg ws kj True ar (ca1, c) = Some (Inr es, g', x1, c')"
      "prepare_execute dp g cfg ws kj True ar (ca2, c) = Some (Inr es, g', x2, c')"
    and b: "run_plan_body dp cfg ws kj es (x1, c') = Some (b, y1, d)" "run_plan_body dp cfg ws kj es (x2, c') = Some (b, y2, d)"
  shows "map_option (\<lambda>(r, g, st). (r, g, snd st)) (execute_db dp g cfg ws kj True ar (ca1, c))
     = map_option (\<lambda>(r, g, st). (r, g, snd st)) (execute_db dp g cfg ws kj True ar (ca2, c))"
proof (cases b)
  case (Inl e) with p b show ?thesis by (simp add: execute_db_def)
next
  case (Inr out)
  show ?thesis
    unfolding execute_db_def p b Inr bind.bind_lunit prod.case sum.case fst_conv snd_conv
    by (auto simp: option.map_comp map_option_bind comp_def split_beta Let_def bind_map_option)
qed

lemma execute_db_bypassed:
  "map_option (\<lambda>(r, g, st). (r, g, snd st)) (execute_db dp g cfg ws kj True ar (ca1, c))
     = map_option (\<lambda>(r, g, st). (r, g, snd st)) (execute_db dp g cfg ws kj True ar (ca2, c))"
proof -
  let ?p = "\<lambda>ca. prepare_execute dp g cfg ws kj True ar (ca, c)"
  from agrees_setup [of cfg dp g ws kj ar ca1 c ca2]
  consider (none) "?p ca1 = None" "?p ca2 = None"
    | (refused) e g' x1 x2 c' where "?p ca1 = Some (Inl e, g', x1, c')" "?p ca2 = Some (Inl e, g', x2, c')"
    | (ready) es g' x1 x2 c' where "?p ca1 = Some (Inr es, g', x1, c')" "?p ca2 = Some (Inr es, g', x2, c')"
        "same_view (config_fingerprint cfg) x1 x2"
    by (cases "?p ca1"; cases "?p ca2") (auto, (metis sum.exhaust isl_def)+)
  then show ?thesis
  proof cases
    case ready
    note es = bypassed_setup [OF ready(1)]
    let ?b = "\<lambda>x. run_plan_body dp cfg ws kj es (x, c')"
    from ready(3) es(3) have "same_view (es_db_fp es) x1 x2" by simp
    from agrees_plan_body [OF this es(1,2), of dp cfg ws kj c']
    consider "?b x1 = None" "?b x2 = None" | b y1 y2 d where "?b x1 = Some (b, y1, d)" "?b x2 = Some (b, y2, d)"
      by (cases "?b x1"; cases "?b x2") (auto elim: agreesE)
    then show ?thesis
      by cases (simp add: execute_db_def ready(1,2), rule execute_db_same_body [OF ready(1,2)])
  qed (simp_all add: execute_db_def)
qed

lemma db_phase_bypassed:
  "map_option (\<lambda>(r, g, st). (r, g, snd st)) (run_plan_db_phase dp g cfg ws True ar (ca1, c))
     = map_option (\<lambda>(r, g, st). (r, g, snd st)) (run_plan_db_phase dp g cfg ws True ar (ca2, c))"
  using execute_db_bypassed [of dp g cfg ws _ ar ca1 c ca2]
  by (cases "normalized_keys_json ws") (simp_all add: run_plan_db_phase_def)

text \<open>
  C26: What a mutating command plans does not depend on the process-local caches. Whatever an earlier
  command of the same process left in the inspection cache, the warm snapshot, the remembered
  emptiness of the history or the set of bootstrapped databases, \<open>migrate\<close>, \<open>baseline\<close> and
  \<open>repair-checksum\<close> compute the same plan, over the same workspace, from the same statements, and
  leave the connection in the same state.
\<close>

theorem mutating_plan_ignores_caches:
  assumes "command_mutates cmd"
  shows "map_option (\<lambda>(r, g, st). (r, g, snd st)) (plan_phase en cmd cfg g ws (ca1, c))
    = map_option (\<lambda>(r, g, st). (r, g, snd st)) (plan_phase en cmd cfg g ws (ca2, c))"
proof -
  let ?r = "\<lambda>ca. run_plan_db_phase (en_db en) g cfg ws True (cmd = CmdRepairChecksum) (ca, c)"
  from db_phase_bypassed [of "en_db en" g cfg ws "cmd = CmdRepairChecksum" ca1 c ca2]
  consider (none) "?r ca1 = None" "?r ca2 = None"
    | (some) r g' x1 x2 c' where "?r ca1 = Some (r, g', x1, c')" "?r ca2 = Some (r, g', x2, c')"
    by (cases "?r ca1"; cases "?r ca2") auto
  then show ?thesis
    using assms by cases (auto simp: plan_phase_def Let_def split: sum.splits bind_splits)
qed

text \<open>At \<open>migrate\<close> on the quiet server, from empty caches and from caches that claim an empty history.\<close>

theorem mutating_plan_ignores_caches_witness:
  "map_option (\<lambda>(r, g, st). (r, g, snd st)) (plan_phase quiet_engine CmdMigrate quiet_config () quiet_db_ws (no_caches, timing_conn_new ()))
    = map_option (\<lambda>(r, g, st). (r, g, snd st)) (plan_phase quiet_engine CmdMigrate quiet_config () quiet_db_ws
        (on_audit (cache_history_empty (config_fingerprint quiet_config) True) no_caches, timing_conn_new ()))"
  by (rule mutating_plan_ignores_caches) (simp add: command_mutates_def)

end
