(* ===== verification/Text_Properties.thy ===== *)
theory Text_Properties
  imports Layout_Correct Driver
begin

section \<open>Generated text reads back\<close>

text \<open>
  The texts the program builds for the server, against readers written from the documented rules of the
  language they are in: the two DDL statements (\<open>apply/schemas.rs\<close>,
  \<open>config/ensure_db.rs\<close>), the JSON key list of \<open>domain/workspace/views/keys.rs\<close>, the lock
  timeout of \<open>lock/mod.rs\<close>, and the strings of the workspace arena.
\<close>

subsection \<open>DDL\<close>

lemma quote_literal_Cons: "c \<noteq> CHR 0x27 \<Longrightarrow> quote_literal (c # s) = c # quote_literal s"
  by (simp add: quote_literal_def text_simps)

lemma lex_quoted: "\<forall>r. rest \<noteq> CHR 0x27 # r \<Longrightarrow> lex_literal (CHR 0x27 # quote_literal s @ CHR 0x27 # rest) = Some (s, rest)"
  using lex_literal_quote [of rest s] by simp

definition names_only :: "string \<Rightarrow> string \<Rightarrow> bool" where
  "names_only name q \<longleftrightarrow> lex_bracket q = Some (name, [])"

definition quotable :: "string \<Rightarrow> bool" where
  "quotable name \<longleftrightarrow> validate_path_component name = Inr () \<and> chars_count name \<le> 128"

lemma bracket_names_only: "bracket_ident name = Inr q \<Longrightarrow> names_only name q"
  using lex_bracket_ident [of name q "[]"] by (simp add: names_only_def)


subsection \<open>The JSON key list\<close>

text \<open>
  A reader of a JSON string after its opening quote, and of an array of strings. Of the escapes of JSON
  it reads those for the quote and the backslash and \<open>\u00XY\<close>; raw control characters are refused,
  as \<open>OPENJSON\<close> refuses them.
\<close>

definition hex_value :: "char \<Rightarrow> nat" where
  "hex_value c = (if is_ascii_digit c then of_char c - 48 else of_char c - 87)"

definition json_token :: "string \<Rightarrow> (char \<times> string) option" where
  "json_token s =
     (case s of
        [] \<Rightarrow> None
      | c # t \<Rightarrow>
          if c = CHR 0x5C then
            (case t of
               [] \<Rightarrow> None
             | e # u \<Rightarrow>
                 if e = CHR 0x22 \<or> e = CHR 0x5C then Some (e, u)
                 else if e = CHR ''u'' \<and> take 2 u = ''00'' \<and> length u \<ge> 4
                 then Some (char_of (16 * hex_value (u ! 2) + hex_value (u ! 3)), drop 4 u)
                 else None)
          else if (of_char c :: nat) < 32 then None
          else Some (c, t))"

lemma json_token_shorter: "json_token s = Some (c, t) \<Longrightarrow> length t < length s"
  by (auto simp: json_token_def split: list.splits if_splits)

function read_json_string :: "string \<Rightarrow> (string \<times> string) option" where
  "read_json_string s =
     (case s of
        [] \<Rightarrow> None
      | q # t \<Rightarrow>
          if q = CHR 0x22 then Some ([], t)
          else case json_token s of
            None \<Rightarrow> None
          | Some (c, u) \<Rightarrow> map_option (\<lambda>(n, r). (c # n, r)) (read_json_string u))"
  by pat_completeness auto
termination by (relation "measure length") (auto dest: json_token_shorter)

declare read_json_string.simps [simp del]

lemma read_json_string_shorter: "read_json_string s = Some (n, r) \<Longrightarrow> length r < length s"
proof (induction s arbitrary: n r rule: read_json_string.induct)
  case (1 s)
  show ?case
  proof (cases "\<exists>t. s = CHR 0x22 # t")
    case True with "1.prems" show ?thesis by (auto simp: read_json_string.simps [of s])
  next
    case False
    with "1.prems" obtain q t c u m where
      "s = q # t" "q \<noteq> CHR 0x22" "json_token s = Some (c, u)" "read_json_string u = Some (m, r)"
      by (auto simp: read_json_string.simps [of s] split: list.splits if_splits option.splits)
    with "1.IH" json_token_shorter [of s c u] show ?thesis by fastforce
  qed
qed

function read_json_items :: "string \<Rightarrow> string list option" where
  "read_json_items s =
     (case s of
        [] \<Rightarrow> None
      | q # t \<Rightarrow>
          if q \<noteq> CHR 0x22 then None
          else case read_json_string t of
            None \<Rightarrow> None
          | Some (n, []) \<Rightarrow> None
          | Some (n, d # u) \<Rightarrow>
              if d = CHR '']'' then (if u = [] then Some [n] else None)
              else if d = CHR '','' then map_option ((#) n) (read_json_items u)
              else None)"
  by pat_completeness auto
termination by (relation "measure length") (auto dest: read_json_string_shorter)

declare read_json_items.simps [simp del]

definition read_json_strings :: "string \<Rightarrow> string list option" where
  "read_json_strings s = (if s = ''[]'' then Some [] else case s of c # t \<Rightarrow> if c = CHR ''['' then read_json_items t else None | [] \<Rightarrow> None)"

lemma hex_digit_value: "n < 16 \<Longrightarrow> hex_value (hex_digit n) = n"
  by (auto simp: hex_value_def hex_digit_def is_ascii_digit_def)

lemma json_token_char: "json_token (json_char c @ s) = Some (c, s)"
proof -
  have "(of_char c :: nat) < 32 \<Longrightarrow> 16 * (of_char c div 16) + of_char c mod 16 = (of_char c :: nat)"
    "(of_char c :: nat) < 32 \<Longrightarrow> of_char c div 16 < (16 :: nat)" by simp_all
  then show ?thesis by (auto simp: json_token_def json_char_def hex_digit_value numeral_2_eq_2)
qed

lemma json_char_not_quote: "json_char c = d # s \<Longrightarrow> d \<noteq> CHR 0x22"
  by (auto simp: json_char_def split: if_splits)

lemma json_char_Cons: "\<exists>d t. json_char c = d # t"
  by (auto simp: json_char_def)

lemma read_json_string_printed: "read_json_string (push_json_str s @ CHR 0x22 # rest) = Some (s, rest)"
proof (induction s)
  case Nil
  show ?case by (simp add: push_json_str_def read_json_string.simps)
next
  case (Cons c s)
  obtain d t where d: "json_char c = d # t" using json_char_Cons by blast
  from json_token_char [of c "push_json_str s @ CHR 0x22 # rest"] json_char_not_quote [OF d] Cons d show ?case
    by (subst read_json_string.simps) (simp add: push_json_str_def)
qed

lemma quoted_json_append: "quoted_json k @ s = CHR 0x22 # push_json_str k @ CHR 0x22 # s"
  by (simp add: quoted_json_def)

lemma read_json_items_printed:
  "ks \<noteq> [] \<Longrightarrow> read_json_items (join_with '','' (map quoted_json ks) @ '']'') = Some ks"
proof (induction ks rule: list_nonempty_induct)
  case (single k)
  show ?case using read_json_string_printed [of k "'']''"]
    by (subst read_json_items.simps) (simp add: quoted_json_append)
next
  case (cons k ks)
  from \<open>ks \<noteq> []\<close> have "join_with '','' (map quoted_json (k # ks)) = quoted_json k @ CHR '','' # join_with '','' (map quoted_json ks)"
    by (cases ks) simp_all
  with cons read_json_string_printed [of k "'','' @ join_with '','' (map quoted_json ks) @ '']''"] show ?case
    by (subst read_json_items.simps) (simp add: quoted_json_append)
qed

text \<open>
  C28: The JSON list of object keys that is sent to the server is well-formed and reads back as exactly
  the keys of the workspace, in order, whatever characters the file names hold; it is missing exactly
  when a key of the workspace cannot be read.
\<close>

theorem keys_json_reads_back:
  "map_option read_json_strings (normalized_keys_json ws) = map_option Some (entry_keys ws)"
proof (cases "ws_object_entries ws = []")
  case True
  then show ?thesis by (simp add: normalized_keys_json_def entry_keys_def object_count_def read_json_strings_def)
next
  case False
  show ?thesis
  proof (cases "entry_keys ws")
    case None with False show ?thesis by (simp add: normalized_keys_json_def)
  next
    case (Some ks)
    then have "length ks = object_count ws" by (auto simp: entry_keys_def those_eq_Some dest: map_eq_imp_length_eq)
    with False have "ks \<noteq> []" by (auto simp: object_count_def)
    moreover have "hd (join_with '','' (map quoted_json ks) @ '']'') \<noteq> CHR '']''"
      using \<open>ks \<noteq> []\<close> by (cases ks; cases "tl ks") (auto simp: quoted_json_def)
    ultimately show ?thesis
      using False Some read_json_items_printed [of ks] by (auto simp: normalized_keys_json_def read_json_strings_def)
  qed
qed

subsection \<open>The lock timeout\<close>

text \<open>
  The lock timeout handed to \<open>sp_getapplock\<close> is a decimal number that the server reads as a
  32-bit integer, never negative (a negative timeout would wait forever), never above the configured
  duration, and equal to it whenever that fits.
\<close>

theorem lock_timeout_parameter_in_range:
  "\<exists>v. parse_i32 (int_to_string (lock_timeout_millis_i32 t)) = Some v \<and> 0 \<le> v \<and> v \<le> int t
     \<and> v = min (int t) (2 ^ 31 - 1)"
proof -
  let ?v = "lock_timeout_millis_i32 t"
  have r: "0 \<le> ?v" "?v \<le> I32_MAX" using lock_timeout_millis_range by auto
  obtain c cs where d: "nat_to_string (nat ?v) = c # cs" by (cases "nat_to_string (nat ?v)") auto
  have "is_ascii_digit c" using nat_to_string_digits [of c "nat ?v"] d by simp
  then have "c \<noteq> CHR ''-''" "c \<noteq> CHR ''+''" by (auto simp: is_ascii_digit_def)
  then have "parse_i32 (int_to_string ?v) = Some ?v"
    using r d nat_to_string_digits [of _ "nat ?v"] decimal_value_nat_to_string [of "nat ?v"]
    by (auto simp: parse_i32_def int_to_string_def I32_MAX_def)
  with r show ?thesis by (auto simp: lock_timeout_millis_i32_def I32_MAX_def)
qed

subsection \<open>The arena\<close>

text \<open>
  Strings interned in the workspace arena read back. As long as the strings registered take less than
  4 GiB together, every one of them is found again, at an offset and a length that fit 32 bits, and the
  bytes there are the string itself, whether or not it was registered more than once.
\<close>

theorem interned_strings_read_back:
  assumes "sum_list (map length ss) < 2 ^ 32" and "s \<in> set ss" and "is_utf8 s"
  shows "\<exists>off. offset_len (finish_builder (foldl register builder_with_capacity ss)) s = Some off
    \<and> str_at (finish_builder (foldl register builder_with_capacity ss)) off = Some s"
  using ar.foldl_resolves [OF builder_wf_empty, of ss s] assms
  by (auto simp: builder_size_def builder_with_capacity_def bind_eq_Some_conv)

theorem interned_strings_read_back_witness:
  "\<exists>off. offset_len (finish_builder (foldl register builder_with_capacity [''dbo'', ''sales'', ''dbo''])) ''sales'' = Some off
    \<and> str_at (finish_builder (foldl register builder_with_capacity [''dbo'', ''sales'', ''dbo''])) off = Some ''sales''"
  by (rule interned_strings_read_back) (simp, simp, code_simp)

end
