(* ===== verification/Catalog_Correct.thy ===== *)
theory Catalog_Correct
  imports Catalog
begin

section \<open>What the server's rows become\<close>

text \<open>
  Decoding of result rows: the recorded checksums (\<open>audit/load/checksum.rs\<close>), the live catalog
  (\<open>db/catalog_merge.rs\<close>, \<open>db/catalog_guard.rs\<close>) and the wire form of the checksum map.
\<close>

subsection \<open>Recorded checksums\<close>

definition row_key :: "row_data \<Rightarrow> string" where
  "row_key row = unwrap_or (get_str row 0) []"

definition row_checksum :: "(string \<Rightarrow> bytes option) \<Rightarrow> row_data \<Rightarrow> digest" where
  "row_checksum unhex row = unwrap_or (parse_history_checksum unhex row 1) zero_digest"

definition row_drifted :: "(string \<Rightarrow> bytes option) \<Rightarrow> row_data \<Rightarrow> bool" where
  "row_drifted unhex row \<longleftrightarrow>
     row_checksum unhex row \<noteq> zero_digest \<and> (case get_i32 row 2 of Some n \<Rightarrow> n \<noteq> 0 | None \<Rightarrow> False)"

definition decodable :: "(string \<Rightarrow> bytes option) \<Rightarrow> row_data \<Rightarrow> bool" where
  "decodable unhex row \<longleftrightarrow> parse_history_checksum unhex row 1 \<noteq> None"

lemma checksum_row_Inl:
  "checksum_row unhex fp ar m row = Inl e \<longleftrightarrow> \<not> ar \<and> \<not> decodable unhex row \<and> e = corrupt_checksum (row_key row)"
  by (auto simp: checksum_row_def decodable_def row_key_def Let_def split: option.splits)

lemma checksum_row_Inr:
  assumes "checksum_row unhex fp ar m row = Inr m'"
  shows "map_of (cm_by_fp m') = (map_of (cm_by_fp m))(fp (row_key row) \<mapsto> row_checksum unhex row)"
    and "set (cm_drift m') = set (cm_drift m) \<union> (if row_drifted unhex row then {fp (row_key row)} else {})"
    and "ar \<or> decodable unhex row"
  using assms
  by (auto simp: checksum_row_def decodable_def row_key_def row_checksum_def row_drifted_def insert_key_def
      mark_live_definition_drift_def update_conv' Let_def unwrap_or_def split: option.splits if_splits)

lemma checksum_rows_Inl:
  "checksum_rows_loop unhex fp ar rows m = Inl e
    \<Longrightarrow> \<not> ar \<and> (\<exists>pre row post. rows = pre @ row # post \<and> list_all (decodable unhex) pre \<and> \<not> decodable unhex row
          \<and> e = corrupt_checksum (row_key row))"
proof (induction rows arbitrary: m)
  case (Cons row rows)
  show ?case
  proof (cases "checksum_row unhex fp ar m row")
    case (Inl e')
    with Cons.prems have "checksum_row unhex fp ar m row = Inl e" by simp
    then have "\<not> ar" "row # rows = [] @ row # rows" "\<not> decodable unhex row" "e = corrupt_checksum (row_key row)"
      by (auto simp: checksum_row_Inl)
    then show ?thesis by (metis list.pred_inject(1))
  next
    case (Inr m')
    with Cons.prems Cons.IH [of m'] obtain pre r post where
      "\<not> ar" "rows = pre @ r # post" "list_all (decodable unhex) pre" "\<not> decodable unhex r" "e = corrupt_checksum (row_key r)"
      by auto
    moreover have "decodable unhex row" using checksum_row_Inr(3) [OF Inr] \<open>\<not> ar\<close> by simp
    ultimately show ?thesis by (intro conjI exI [of _ "row # pre"]) auto
  qed
qed simp

lemma checksum_rows_Inr:
  "checksum_rows_loop unhex fp ar rows m = Inr m'
    \<Longrightarrow> map_of (cm_by_fp m') = map_of (cm_by_fp m) ++ map_of (rev (map (\<lambda>r. (fp (row_key r), row_checksum unhex r)) rows))
      \<and> set (cm_drift m') = set (cm_drift m) \<union> {fp (row_key r) |r. r \<in> set rows \<and> row_drifted unhex r}
      \<and> (ar \<or> list_all (decodable unhex) rows)"
proof (induction rows arbitrary: m)
  case (Cons row rows)
  from Cons.prems obtain m1 where m1: "checksum_row unhex fp ar m row = Inr m1" "checksum_rows_loop unhex fp ar rows m1 = Inr m'"
    by (auto simp: bind_result_Inr)
  note IH = Cons.IH [OF m1(2)] and r = checksum_row_Inr [OF m1(1)]
  have "map_of (cm_by_fp m') = map_of (cm_by_fp m) ++ map_of (rev (map (\<lambda>r. (fp (row_key r), row_checksum unhex r)) (row # rows)))"
    unfolding conjunct1 [OF IH] r(1) by simp
  moreover have "set (cm_drift m') = set (cm_drift m) \<union> {fp (row_key r) |r. r \<in> set (row # rows) \<and> row_drifted unhex r}"
    unfolding conjunct1 [OF conjunct2 [OF IH]] r(2) by auto
  moreover from IH r(3) have "ar \<or> list_all (decodable unhex) (row # rows)" by auto
  ultimately show ?case by blast
qed simp

text \<open>
  C29: Recorded checksums are read exactly or not at all. When a row's checksum cannot be decoded the load
  stops at the first such row with a checksum error (exit code 4) that names its key, unless the command
  is \<open>repair-checksum\<close>, which reads it as the zero digest. Otherwise a key has the checksum of the last row for
  it and no other key has one, and it counts as drifted exactly when some row for it with a non-zero
  checksum carries the server's drift flag.
\<close>

theorem recorded_checksums_read_exactly:
  "case checksum_map_from_rows_ws unhex fp rows ar of
     Inl e \<Rightarrow> \<not> ar \<and> exit_code e = EXIT_CHECKSUM
       \<and> (\<exists>pre row post. rows = pre @ row # post \<and> list_all (decodable unhex) pre \<and> \<not> decodable unhex row
             \<and> e = corrupt_checksum (row_key row))
   | Inr m \<Rightarrow> (ar \<or> list_all (decodable unhex) rows)
       \<and> (\<forall>k. get_key fp m k = map_of (rev (map (\<lambda>r. (fp (row_key r), row_checksum unhex r)) rows)) (fp k))
       \<and> (\<forall>k. has_live_definition_drift fp m k \<longleftrightarrow> (\<exists>r. r \<in> set rows \<and> fp (row_key r) = fp k \<and> row_drifted unhex r))"
proof (cases "checksum_map_from_rows_ws unhex fp rows ar")
  case (Inl e)
  with checksum_rows_Inl [of unhex fp ar rows checksum_map_new e] show ?thesis
    by (auto simp: checksum_map_from_rows_ws_def corrupt_checksum_def exit_defs)
next
  case (Inr m)
  with checksum_rows_Inr [of unhex fp ar rows checksum_map_new m] show ?thesis
    by (auto simp: checksum_map_from_rows_ws_def checksum_map_new_def get_key_def has_live_definition_drift_def)
qed

subsection \<open>The wire form\<close>

definition checksum_map_wf :: "(string \<Rightarrow> nat) \<Rightarrow> checksum_map \<Rightarrow> bool" where
  "checksum_map_wf fp m \<longleftrightarrow> distinct (map fst (cm_by_fp m))
     \<and> (\<forall>f k. map_of (cm_key_by_fp m) f = Some k \<longrightarrow> fp k = f)
     \<and> dom (map_of (cm_by_fp m)) \<subseteq> dom (map_of (cm_key_by_fp m))"

lemma wf_insert_key: "checksum_map_wf fp m \<Longrightarrow> checksum_map_wf fp (insert_key fp key cs m)"
  by (auto simp: checksum_map_wf_def insert_key_def update_conv' distinct_update)

lemma wf_mark: "checksum_map_wf fp (mark_live_definition_drift fp key m) = checksum_map_wf fp m"
  by (simp add: checksum_map_wf_def mark_live_definition_drift_def)

lemma wf_checksum_row:
  "checksum_row unhex fp ar m row = Inr m' \<Longrightarrow> checksum_map_wf fp m \<Longrightarrow> checksum_map_wf fp m'"
  by (auto simp: checksum_row_def Let_def wf_insert_key wf_mark split: option.splits if_splits)

lemma wf_checksum_rows:
  "checksum_rows_loop unhex fp ar rows m = Inr m' \<Longrightarrow> checksum_map_wf fp m \<Longrightarrow> checksum_map_wf fp m'"
  by (induction rows arbitrary: m) (auto simp: bind_result_Inr dest: wf_checksum_row)

lemma unwire_lookup:
  "map_of (cm_by_fp (foldl (\<lambda>m (k, cs). insert_normalized fp k cs m) m0 wire))
     = map_of (cm_by_fp m0) ++ map_of (rev (map (\<lambda>(k, cs). (fp k, cs)) wire))"
  by (induction wire arbitrary: m0) (auto simp: insert_normalized_def update_conv')

lemma unwire_drift: "cm_drift (foldl (\<lambda>m (k, cs). insert_normalized fp k cs m) m0 wire) = cm_drift m0"
  by (induction wire arbitrary: m0) (auto simp: insert_normalized_def)

lemma wire_entries:
  assumes "checksum_map_wf fp m"
  shows "map (\<lambda>(k, cs). (fp k, cs)) (checksum_map_wire m) = cm_by_fp m"
proof -
  have "\<exists>k. map_of (cm_key_by_fp m) f = Some k \<and> fp k = f" if "(f, cs) \<in> set (cm_by_fp m)" for f cs
  proof -
    from that have "f \<in> dom (map_of (cm_by_fp m))" by (auto simp: dom_map_of_conv_image_fst intro: rev_image_eqI)
    with assms show ?thesis unfolding checksum_map_wf_def by blast
  qed
  then show ?thesis by (fastforce simp: checksum_map_wire_def intro!: map_idI)
qed

text \<open>
  The checksum map survives its wire form. Reading back what \<open>Serialize\<close> wrote gives every key the
  checksum it had, and no other key one; the marks of live-definition drift are not part of the wire form
  and are gone after it.
\<close>

theorem checksum_map_round_trip:
  assumes "checksum_map_from_rows_ws unhex fp rows ar = Inr m"
  shows "get_key fp (checksum_map_unwire fp (checksum_map_wire m)) k = get_key fp m k
    \<and> \<not> has_live_definition_drift fp (checksum_map_unwire fp (checksum_map_wire m)) k"
proof -
  have "checksum_map_wf fp checksum_map_new" by (simp add: checksum_map_wf_def checksum_map_new_def)
  with assms have wf: "checksum_map_wf fp m" unfolding checksum_map_from_rows_ws_def by (rule wf_checksum_rows)
  then have "map_of (rev (cm_by_fp m)) = map_of (cm_by_fp m)"
    by (intro map_of_inject_set [THEN iffD2]) (simp_all add: checksum_map_wf_def rev_map [symmetric])
  then show ?thesis
    using unwire_lookup [of fp checksum_map_new "checksum_map_wire m"] unwire_drift [of fp checksum_map_new "checksum_map_wire m"]
    by (simp add: checksum_map_unwire_def get_key_def has_live_definition_drift_def wire_entries [OF wf] checksum_map_new_def)
qed

text \<open>One recorded row with a 32-byte checksum and the drift flag set.\<close>

theorem checksum_map_round_trip_witness:
  "\<exists>m. checksum_map_from_rows_ws (\<lambda>s. None) length [[CellStr ''dbo/views/v'', CellBytes (replicate 32 (CHR 0x01)), CellStr ''1'']] False = Inr m
    \<and> get_key length (checksum_map_unwire length (checksum_map_wire m)) ''dbo/views/v'' = Some (replicate 32 (CHR 0x01))
    \<and> \<not> has_live_definition_drift length (checksum_map_unwire length (checksum_map_wire m)) ''dbo/views/v''"
proof -
  let ?rows = "[[CellStr ''dbo/views/v'', CellBytes (replicate 32 (CHR 0x01)), CellStr ''1'']]"
  have d: "parse_history_checksum (\<lambda>s. None) (hd ?rows) 1 = Some (replicate 32 (CHR 0x01))"
    by (simp add: parse_history_checksum_def get_bytes_def nth_opt_def)
  then obtain m where m: "checksum_map_from_rows_ws (\<lambda>s. None) length ?rows False = Inr m"
    by (auto simp: checksum_map_from_rows_ws_def checksum_row_def Let_def)
  then have "get_key length m ''dbo/views/v'' = Some (replicate 32 (CHR 0x01))"
    using checksum_rows_Inr [of "\<lambda>s. None" length False ?rows checksum_map_new m] d
    by (simp add: checksum_map_from_rows_ws_def get_key_def row_key_def row_checksum_def get_str_def nth_opt_def unwrap_or_def)
  with m checksum_map_round_trip [OF m, of "''dbo/views/v''"] show ?thesis by auto
qed

subsection \<open>The live catalog\<close>

definition is_schema_row :: "row_data \<Rightarrow> bool" where
  "is_schema_row row \<longleftrightarrow> cell_str row 0 = ''schema''"

definition catalog_key :: "row_data \<Rightarrow> string" where
  "catalog_key row = object_key_new (cell_str row 1) (cell_str row 2) (cell_str row 3)"

definition catalog_object :: "row_data \<Rightarrow> catalog_object" where
  "catalog_object row = catalog_object_new (cell_str row 1) (cell_str row 2) (cell_str row 3) (get_str row 4)"

definition catalog_entries :: "row_data list \<Rightarrow> (string \<times> catalog_object) list" where
  "catalog_entries rows = rev (map (\<lambda>r. (catalog_key r, catalog_object r)) (filter (\<lambda>r. \<not> is_schema_row r) rows))"

definition other_parent :: "catalog_object option \<Rightarrow> row_data \<Rightarrow> bool" where
  "other_parent prev row \<longleftrightarrow> \<not> is_schema_row row \<and> cell_str row 2 = ''indexes''
     \<and> (\<exists>p. prev = Some p \<and> unwrap_or (co_parent p) [] \<noteq> unwrap_or (get_str row 4) [])"

lemma merge_catalog_row_Inr:
  assumes "merge_catalog_row st row = Inr st'"
  shows "map_of (cat_objects st') = map_of (cat_objects st) ++ map_of (catalog_entries [row])"
    and "set (cat_schemas st') = set (cat_schemas st) \<union> (if is_schema_row row then {to_lowercase (cell_str row 1)} else {})"
    and "\<not> other_parent (map_of (cat_objects st) (catalog_key row)) row"
  using assms
  by (auto simp: merge_catalog_row_def is_schema_row_def catalog_entries_def insert_schema_def insert_object_def update_conv'
      catalog_key_def catalog_object_def other_parent_def ensure_index_unambiguous_def bind_result_Inr Let_def
      split: if_splits option.splits)

lemma merge_catalog_row_Inl:
  "merge_catalog_row st row = Inl e
    \<Longrightarrow> exit_code e = EXIT_INVALID_INPUT \<and> other_parent (map_of (cat_objects st) (catalog_key row)) row"
  by (auto simp: merge_catalog_row_def is_schema_row_def catalog_key_def other_parent_def ensure_index_unambiguous_def
      bind_result_Inl Let_def exit_defs split: if_splits option.splits)

lemma catalog_entries_Cons: "map_of (catalog_entries (r # rows)) = map_of (catalog_entries [r]) ++ map_of (catalog_entries rows)"
  by (simp add: catalog_entries_def)

text \<open>
  C30: The rows of the catalog query become exactly the catalog. Merged onto a state, they replace or add
  the object of each object row under its key, the last row winning, and add each schema in lower case; an
  index that a row places on another table than the one already known under the same key is refused as
  invalid input (exit code 8) at that row instead of being overwritten, and nothing else is refused.
\<close>

theorem catalog_rows_merge_exactly:
  "case merge_rows st rows of
     Inr st' \<Rightarrow> map_of (cat_objects st') = map_of (cat_objects st) ++ map_of (catalog_entries rows)
       \<and> set (cat_schemas st') = set (cat_schemas st) \<union> {to_lowercase (cell_str r 1) |r. r \<in> set rows \<and> is_schema_row r}
       \<and> (\<nexists>pre r post. rows = pre @ r # post
             \<and> other_parent ((map_of (cat_objects st) ++ map_of (catalog_entries pre)) (catalog_key r)) r)
   | Inl e \<Rightarrow> exit_code e = EXIT_INVALID_INPUT
       \<and> (\<exists>pre r post. rows = pre @ r # post
             \<and> other_parent ((map_of (cat_objects st) ++ map_of (catalog_entries pre)) (catalog_key r)) r)"
proof (induction rows arbitrary: st)
  case Nil
  show ?case by (simp add: catalog_entries_def)
next
  case (Cons row rows)
  show ?case
  proof (cases "merge_catalog_row st row")
    case (Inl e)
    note refused = merge_catalog_row_Inl [OF this]
    then have "row # rows = [] @ row # rows
      \<and> other_parent ((map_of (cat_objects st) ++ map_of (catalog_entries [])) (catalog_key row)) row"
      by (simp add: catalog_entries_def)
    then have "\<exists>pre r post. row # rows = pre @ r # post
      \<and> other_parent ((map_of (cat_objects st) ++ map_of (catalog_entries pre)) (catalog_key r)) r" by blast
    with refused Inl show ?thesis by simp
  next
    case (Inr st1)
    note r = merge_catalog_row_Inr [OF Inr]
    have step: "map_of (cat_objects st1) ++ map_of (catalog_entries pre) = map_of (cat_objects st) ++ map_of (catalog_entries (row # pre))" for pre
      by (simp add: r(1) catalog_entries_Cons [of row pre])
    show ?thesis
    proof (cases "merge_rows st1 rows")
      case merged: (Inl e)
      with Cons [of st1] obtain pre r post where "exit_code e = EXIT_INVALID_INPUT" "rows = pre @ r # post"
        "other_parent ((map_of (cat_objects st) ++ map_of (catalog_entries (row # pre))) (catalog_key r)) r" by (auto simp: step)
      with Inr merged show ?thesis by (auto intro!: exI [of _ "row # pre"])
    next
      case merged: (Inr st')
      have later: "\<nexists>pre r post. rows = pre @ r # post
          \<and> other_parent ((map_of (cat_objects st) ++ map_of (catalog_entries (row # pre))) (catalog_key r)) r"
        using Cons [of st1] merged by (simp add: step)
      have none: "\<not> other_parent ((map_of (cat_objects st) ++ map_of (catalog_entries pre)) (catalog_key x)) x"
        if split: "row # rows = pre @ x # post" for pre x post
      proof (cases pre)
        case Nil with split r(3) show ?thesis by (simp add: catalog_entries_def)
      next
        case (Cons p pre') with split later show ?thesis by (metis append_Cons list.inject)
      qed
      from Cons [of st1] merged Inr r(2) none show ?thesis by (auto simp: step [symmetric] split: if_splits)
    qed
  qed
qed

end
