(* ===== verification/Transition_Filter.thy ===== *)
theory Transition_Filter
  imports Plan_Correct
begin

section \<open>Transitions that were applied before\<close>

text \<open>
  \<open>export/materialize/filter.rs\<close>: which transition scripts of a plan still have to run, and which of
  the applied ones were edited since.
\<close>

definition tampered_path :: "(string \<rightharpoonup> string) \<Rightarrow> (string \<rightharpoonup> string) \<Rightarrow> string \<Rightarrow> bool" where
  "tampered_path applied current p \<longleftrightarrow>
     (\<exists>r now. applied p = Some r \<and> current p = Some now \<and> r \<noteq> [] \<and> now \<noteq> r)"

lemma applied_unchanged_eq:
  "applied_unchanged applied current p t = (applied p \<noteq> None, t @ filter (tampered_path applied current) [p])"
  by (auto simp: applied_unchanged_def tampered_path_def split: option.splits)

lemma retain_unapplied_eq:
  "retain_unapplied applied current xps t
     = (map fst (filter (\<lambda>(x, p). applied p = None) xps), t @ filter (tampered_path applied current) (map snd xps))"
  by (induction xps arbitrary: t) (auto simp: applied_unchanged_eq)

text \<open>The transitions planned for a row that is reprocessed, and what of them is left to run.\<close>

definition reprocessed :: "plan_row list \<Rightarrow> nat \<Rightarrow> bool" where
  "reprocessed rows i \<longleftrightarrow> i < length rows \<and> planned_action (rows ! i) = ReprocessChanged"

definition unapplied :: "workspace \<Rightarrow> (string \<rightharpoonup> string) \<Rightarrow> str_off list \<Rightarrow> str_off list" where
  "unapplied ws applied offs = filter (\<lambda>off. \<exists>p. ws_str_at ws off = Some p \<and> applied p = None) offs"

definition planned_paths :: "workspace \<Rightarrow> migration_plan \<Rightarrow> string set" where
  "planned_paths ws plan =
     {p. \<exists>i offs off. reprocessed (mp_rows plan) i \<and> mp_plan_transitions plan i = Some offs
         \<and> off \<in> set offs \<and> ws_str_at ws off = Some p}"

lemma retained_offsets:
  assumes "map (ws_str_at ws) offs = map Some paths"
  shows "map fst (filter (\<lambda>(x, p). applied p = None) (zip offs paths)) = unapplied ws applied offs"
  using assms by (induction offs arbitrary: paths) (auto simp: unapplied_def Cons_eq_map_conv)

lemma resolved_paths: "map (ws_str_at ws) offs = map Some paths \<Longrightarrow> set paths = {p. \<exists>off \<in> set offs. ws_str_at ws off = Some p}"
  by (induction offs arbitrary: paths) (auto simp: Cons_eq_map_conv)

lemma filter_row_cases:
  assumes "filter_row ws applied current (i, row) (trs, t) = Some (trs', t')" and "i < 2 ^ 32"
  shows "trs' = (if planned_action row = ReprocessChanged then trs(i := map_option (unapplied ws applied) (trs i)) else trs)
    \<and> set t' = set t \<union> {p. tampered_path applied current p \<and> planned_action row = ReprocessChanged
        \<and> (\<exists>offs off. trs i = Some offs \<and> off \<in> set offs \<and> ws_str_at ws off = Some p)}"
proof (cases "planned_action row = ReprocessChanged \<and> trs i \<noteq> None")
  case False
  with assms show ?thesis by (auto simp: filter_row_def as_u32_def)
next
  case True
  with assms obtain offs paths where o: "trs i = Some offs" "those (map (ws_str_at ws) offs) = Some paths"
    "trs' = trs(i \<mapsto> map fst (filter (\<lambda>(x, p). applied p = None) (zip offs paths)))"
    "t' = t @ filter (tampered_path applied current) (map snd (zip offs paths))"
    by (auto simp: filter_row_def as_u32_def retain_unapplied_eq split: bind_splits)
  then have m: "map (ws_str_at ws) offs = map Some paths" by (simp add: those_eq_Some)
  then have "map snd (zip offs paths) = paths" by (metis map_snd_zip length_map)
  with True o retained_offsets [OF m] resolved_paths [OF m] show ?thesis by auto
qed

lemma filter_rows_loop_exact:
  assumes "filter_rows_loop ws applied current irs (trs, t) = Some (trs', t')"
    and "distinct (map fst irs)" and "\<forall>(i, row) \<in> set irs. i < 2 ^ 32"
  shows "trs' = (\<lambda>i. if \<exists>row. (i, row) \<in> set irs \<and> planned_action row = ReprocessChanged
                    then map_option (unapplied ws applied) (trs i) else trs i)
    \<and> set t' = set t \<union> {p. tampered_path applied current p \<and> (\<exists>i row offs off. (i, row) \<in> set irs
        \<and> planned_action row = ReprocessChanged \<and> trs i = Some offs \<and> off \<in> set offs \<and> ws_str_at ws off = Some p)}"
  using assms
proof (induction irs arbitrary: trs t)
  case (Cons ir irs)
  obtain i row where ir: "ir = (i, row)" by (cases ir)
  with Cons.prems obtain trs1 t1 where r: "filter_row ws applied current (i, row) (trs, t) = Some (trs1, t1)"
    and rest: "filter_rows_loop ws applied current irs (trs1, t1) = Some (trs', t')"
    by (auto split: bind_splits)
  have i: "i < 2 ^ 32" "i \<notin> fst ` set irs" using Cons.prems(2,3) ir by auto
  have other: "trs1 j = trs j" if "(j, q) \<in> set irs" for j q
  proof -
    from that i(2) have "j \<noteq> i" by (auto intro: rev_image_eqI)
    with filter_row_cases [OF r i(1)] show ?thesis by simp
  qed
  note step = filter_row_cases [OF r i(1)]
  have IH: "trs' = (\<lambda>i. if \<exists>row. (i, row) \<in> set irs \<and> planned_action row = ReprocessChanged
                    then map_option (unapplied ws applied) (trs1 i) else trs1 i)"
    "set t' = set t1 \<union> {p. tampered_path applied current p \<and> (\<exists>i row offs off. (i, row) \<in> set irs
        \<and> planned_action row = ReprocessChanged \<and> trs1 i = Some offs \<and> off \<in> set offs \<and> ws_str_at ws off = Some p)}"
    using Cons.IH [OF rest] Cons.prems(2,3) by auto
  have new: "trs' = (\<lambda>j. if \<exists>row. (j, row) \<in> set (ir # irs) \<and> planned_action row = ReprocessChanged
                    then map_option (unapplied ws applied) (trs j) else trs j)"
  proof
    fix j show "trs' j = (if \<exists>row. (j, row) \<in> set (ir # irs) \<and> planned_action row = ReprocessChanged
                    then map_option (unapplied ws applied) (trs j) else trs j)"
      using step other [of j] i(2) unfolding IH(1) ir by (cases "j = i") (auto intro: rev_image_eqI)
  qed
  have eq: "(\<exists>i row offs off. (i, row) \<in> set irs \<and> planned_action row = ReprocessChanged \<and> trs1 i = Some offs
        \<and> off \<in> set offs \<and> ws_str_at ws off = Some p)
     = (\<exists>i row offs off. (i, row) \<in> set irs \<and> planned_action row = ReprocessChanged \<and> trs i = Some offs
        \<and> off \<in> set offs \<and> ws_str_at ws off = Some p)" for p
    using other by metis
  have "set t' = set t \<union> {p. tampered_path applied current p \<and> (\<exists>i row offs off. (i, row) \<in> set (ir # irs)
        \<and> planned_action row = ReprocessChanged \<and> trs i = Some offs \<and> off \<in> set offs \<and> ws_str_at ws off = Some p)}"
    unfolding IH(2) eq conjunct2 [OF step] ir list.set insert_iff prod.inject by (intro set_eqI) (unfold Un_iff mem_Collect_eq, blast)
  with new show ?case by blast
qed auto

lemma enumerate_reprocessed:
  "(\<exists>row. (i, row) \<in> set (List.enumerate 0 rows) \<and> planned_action row = ReprocessChanged) \<longleftrightarrow> reprocessed rows i"
  by (auto simp: in_set_enumerate_eq reprocessed_def)

lemma filter_rows_exact:
  assumes "filter_rows ws applied current plan = Some (plan', t)" and "length (mp_rows plan) < 2 ^ 32"
  shows "mp_rows plan' = mp_rows plan"
    and "mp_plan_transitions plan' = (\<lambda>i. if reprocessed (mp_rows plan) i
       then map_option (unapplied ws applied) (mp_plan_transitions plan i) else mp_plan_transitions plan i)"
    and "set t = {p \<in> planned_paths ws plan. tampered_path applied current p}"
proof -
  let ?rows = "List.enumerate 0 (mp_rows plan)"
  let ?need = "\<exists>(i, row) \<in> set ?rows. planned_action row = ReprocessChanged
                    \<and> (case mp_plan_transitions plan (as_u32 i) of Some v \<Rightarrow> v \<noteq> [] | None \<Rightarrow> False)"
  have small: "i < 2 ^ 32" if "(i, row) \<in> set ?rows" for i row using that assms(2) by (auto simp: in_set_enumerate_eq)
  have res: "mp_rows plan' = mp_rows plan \<and> mp_plan_transitions plan' = (\<lambda>i. if reprocessed (mp_rows plan) i
       then map_option (unapplied ws applied) (mp_plan_transitions plan i) else mp_plan_transitions plan i)
     \<and> set t = {p \<in> planned_paths ws plan. tampered_path applied current p}"
  proof (cases ?need)
    case True
    then have "filter_rows ws applied current plan = do {
        (trs, tampered) \<leftarrow> filter_rows_loop ws applied current ?rows (mp_plan_transitions plan, []);
        Some (plan\<lparr>mp_plan_transitions := trs, mp_objects := []\<rparr>, tampered) }"
      unfolding filter_rows_def Let_def by (simp only: not_not simp_thms if_False)
    with assms(1) obtain trs where loop: "filter_rows_loop ws applied current ?rows (mp_plan_transitions plan, []) = Some (trs, t)"
      and plan': "plan' = plan\<lparr>mp_plan_transitions := trs, mp_objects := []\<rparr>"
      by (auto split: bind_splits)
    from small have "\<forall>(i, row) \<in> set ?rows. i < 2 ^ 32" by blast
    from filter_rows_loop_exact [OF loop _ this] have exact: "trs = (\<lambda>i. if \<exists>row. (i, row) \<in> set ?rows \<and> planned_action row = ReprocessChanged
           then map_option (unapplied ws applied) (mp_plan_transitions plan i) else mp_plan_transitions plan i)"
      "set t = {p. tampered_path applied current p \<and> (\<exists>i row offs off. (i, row) \<in> set ?rows
        \<and> planned_action row = ReprocessChanged \<and> mp_plan_transitions plan i = Some offs \<and> off \<in> set offs \<and> ws_str_at ws off = Some p)}"
      by simp_all
    have l: "trs = (\<lambda>i. if reprocessed (mp_rows plan) i then map_option (unapplied ws applied) (mp_plan_transitions plan i)
         else mp_plan_transitions plan i)"
      "set t = {p. tampered_path applied current p \<and> (\<exists>i row offs off. (i, row) \<in> set ?rows
        \<and> planned_action row = ReprocessChanged \<and> mp_plan_transitions plan i = Some offs \<and> off \<in> set offs \<and> ws_str_at ws off = Some p)}"
      using exact by (simp_all add: enumerate_reprocessed)
    have "set t = {p \<in> planned_paths ws plan. tampered_path applied current p}"
      unfolding l(2) planned_paths_def enumerate_reprocessed [symmetric] by blast
    with plan' l(1) show ?thesis by simp
  next
    case False
    then have empty: "offs = []" if "reprocessed (mp_rows plan) i" "mp_plan_transitions plan i = Some offs" for i offs
    proof -
      from that(1) have "(i, mp_rows plan ! i) \<in> set ?rows" "planned_action (mp_rows plan ! i) = ReprocessChanged"
        by (auto simp: in_set_enumerate_eq reprocessed_def)
      with False have "\<not> (case mp_plan_transitions plan (as_u32 i) of Some v \<Rightarrow> v \<noteq> [] | None \<Rightarrow> False)" by blast
      moreover from that(1) assms(2) have "as_u32 i = i" by (simp add: reprocessed_def as_u32_def)
      ultimately show ?thesis using that(2) by simp
    qed
    from False assms(1) have "plan' = plan" "t = []" by (auto simp: filter_rows_def Let_def)
    moreover have "planned_paths ws plan = {}" using empty by (fastforce simp: planned_paths_def)
    moreover have "map_option (unapplied ws applied) (mp_plan_transitions plan i) = mp_plan_transitions plan i"
      if "reprocessed (mp_rows plan) i" for i
      using empty [OF that] by (cases "mp_plan_transitions plan i") (auto simp: unapplied_def)
    ultimately show ?thesis by (auto simp: fun_eq_iff)
  qed
  from res show "mp_rows plan' = mp_rows plan"
    "mp_plan_transitions plan' = (\<lambda>i. if reprocessed (mp_rows plan) i
       then map_option (unapplied ws applied) (mp_plan_transitions plan i) else mp_plan_transitions plan i)"
    "set t = {p \<in> planned_paths ws plan. tampered_path applied current p}" by simp_all
qed

text \<open>
  C31: Before a migration runs, exactly the transition scripts that the history does not hold are left in
  the plan, in their order, for every row that is reprocessed; no other row changes. An applied script whose
  file no longer has the recorded checksum (and the history did record one) is tampering: all such scripts
  of the plan, and only those, are reported, sorted, and the plan is accepted exactly when there is none.
\<close>

theorem applied_transitions_are_filtered:
  assumes run: "filter_applied_migrations_on_plan hex ws applied plan = Some (plan', res)"
    and rows: "mp_rows plan \<noteq> []" "length (mp_rows plan) < 2 ^ 32"
  shows "mp_rows plan' = mp_rows plan
    \<and> mp_plan_transitions plan' = (\<lambda>i. if reprocessed (mp_rows plan) i
         then map_option (unapplied ws applied) (mp_plan_transitions plan i) else mp_plan_transitions plan i)
    \<and> (\<exists>current. transition_checksums hex ws = Some current
        \<and> (case res of
             Inr u \<Rightarrow> \<nexists>p. p \<in> planned_paths ws plan \<and> tampered_path applied current p
           | Inl t \<Rightarrow> t \<noteq> [] \<and> sorted t \<and> set t = {p \<in> planned_paths ws plan. tampered_path applied current p}))"
proof -
  from run rows(1) obtain current t where c: "transition_checksums hex ws = Some current"
    and f: "filter_rows ws applied current plan = Some (plan', t)" and r: "res = (if t = [] then Inr () else Inl (sort t))"
    by (auto simp: filter_applied_migrations_on_plan_def split: bind_splits)
  note x = filter_rows_exact [OF f rows(2)]
  have "case res of Inr u \<Rightarrow> \<nexists>p. p \<in> planned_paths ws plan \<and> tampered_path applied current p
      | Inl t' \<Rightarrow> t' \<noteq> [] \<and> sorted t' \<and> set t' = {p \<in> planned_paths ws plan. tampered_path applied current p}"
  proof (cases "t = []")
    case True with x(3) r show ?thesis by auto
  next
    case False
    then have "sort t \<noteq> []" by (metis set_empty set_sort)
    with False x(3) r show ?thesis by simp
  qed
  with x(1,2) c show ?thesis by blast
qed

text \<open>Two planned scripts, the first applied with another checksum than its file has now.\<close>

definition filter_ws :: workspace where
  "filter_ws = workspace_default\<lparr>ws_layout_arena := Some \<lparr>sa_buf = ''ab'', sa_index = []\<rparr>,
     ws_script_rows := [\<lparr>sr_path_off = (0, 1), sr_abs_path_off = (0, 0), sr_kind = TransitionScript\<rparr>],
     ws_script_checksums := [Some ''new'']\<rparr>"

definition filter_plan :: migration_plan where
  "filter_plan = migration_plan_default\<lparr>mp_rows := [\<lparr>pr_action = as_repr ReprocessChanged, pr_flags = 0, pr_checksum = []\<rparr>],
     mp_plan_transitions := [0 \<mapsto> [(0, 1), (1, 1)]]\<rparr>"

lemma filter_ws_paths: "ws_str_at filter_ws (0, 1) = Some ''a''" "ws_str_at filter_ws (1, 1) = Some ''b''"
  "transition_checksums (\<lambda>d. d) filter_ws = Some [''a'' \<mapsto> ''new'']"
proof -
  show p: "ws_str_at filter_ws (0, 1) = Some ''a''" "ws_str_at filter_ws (1, 1) = Some ''b''" by code_simp+
  have "script_path filter_ws (Suc 0) = Some ''a''" using p(1) by (simp add: script_path_def filter_ws_def nth_opt_def)
  then show "transition_checksums (\<lambda>d. d) filter_ws = Some [''a'' \<mapsto> ''new'']"
    by (simp add: transition_checksums_def filter_ws_def workspace_default_def nth_opt_def script_checksum_def)
qed

lemma filter_plan_row: "planned_action \<lparr>pr_action = as_repr ReprocessChanged, pr_flags = 0, pr_checksum = []\<rparr> = ReprocessChanged"
  unfolding planned_action_def by (simp del: as_repr.simps)

lemma filter_plan_run:
  "\<exists>plan' res. filter_applied_migrations_on_plan (\<lambda>d. d) filter_ws [''a'' \<mapsto> ''old''] filter_plan = Some (plan', res)"
  by (simp del: as_repr.simps One_nat_def add: filter_applied_migrations_on_plan_def filter_ws_paths filter_rows_def filter_row_def
      filter_plan_def migration_plan_default_def filter_plan_row as_u32_def retain_unapplied_eq)

theorem applied_transitions_are_filtered_witness:
  "\<exists>plan' t. filter_applied_migrations_on_plan (\<lambda>d. d) filter_ws [''a'' \<mapsto> ''old''] filter_plan = Some (plan', Inl t)
    \<and> mp_plan_transitions plan' 0 = Some [(1, 1)] \<and> ''a'' \<in> set t"
proof -
  obtain plan' res where run: "filter_applied_migrations_on_plan (\<lambda>d. d) filter_ws [''a'' \<mapsto> ''old''] filter_plan = Some (plan', res)"
    using filter_plan_run by blast
  have r: "reprocessed (mp_rows filter_plan) 0"
    by (simp del: as_repr.simps add: reprocessed_def filter_plan_def migration_plan_default_def filter_plan_row)
  have o: "mp_plan_transitions filter_plan 0 = Some [(0, 1), (1, 1)]" by (simp add: filter_plan_def)
  have "''a'' \<in> planned_paths filter_ws filter_plan" unfolding planned_paths_def using r o filter_ws_paths(1) by force
  moreover have "tampered_path [''a'' \<mapsto> ''old''] [''a'' \<mapsto> ''new''] ''a''" by (simp add: tampered_path_def)
  moreover have "mp_rows filter_plan \<noteq> []" "length (mp_rows filter_plan) < 2 ^ 32"
    by (simp_all add: filter_plan_def migration_plan_default_def)
  moreover have "unapplied filter_ws [''a'' \<mapsto> ''old''] [(0, 1), (1, 1)] = [(1, 1)]"
    by (simp add: unapplied_def filter_ws_paths del: One_nat_def)
  ultimately show ?thesis
    using applied_transitions_are_filtered [OF run] run r o filter_ws_paths(3) by (cases res) auto
qed

end
