(* ===== verification/Cli_Properties.thy ===== *)
theory Cli_Properties
  imports Cli Engine_Properties Apply_Properties
begin

section \<open>Properties of the command line\<close>

text \<open>
  Invariants of a run over several databases (exit codes, the merged plan), what the reports hold, and
  the exit status of the process.
\<close>

subsection \<open>Invariants of the loop over databases\<close>

lemma run_databases_inv:
  assumes "run_databases en cmd cfg ws multi dbs rs st = Some (Inr rs', st')" and "P rs"
    and missing: "\<And>rs db. P rs \<Longrightarrow> P (rs\<lparr>rs_missing := rs_missing rs @ [db]\<rparr>)"
    and finished: "\<And>rs db v g ca w out st1. P rs \<Longrightarrow>
      run_command_for_database en cmd (db_config cfg db) g v multi (ca, w) = Some (Inr out, st1) \<Longrightarrow> P (merge_output rs out)"
    and failed: "\<And>rs e. P rs \<Longrightarrow> P (rs\<lparr>rs_exit := max (rs_exit rs) (exit_code e)\<rparr>)"
  shows "P rs'"
  using assms(1,2)
proof (induction dbs arbitrary: rs st)
  case Nil
  then show ?case by (cases st) simp
next
  case (Cons db dbs)
  obtain g ca w where st: "st = (g, ca, w)" by (cases st)
  from Cons.prems(1) [unfolded st] show ?case
  proof (cases rule: run_databases_ConsE)
    case (finished v w1 out st1)
    with Cons.IH assms(4) Cons.prems(2) show ?thesis by blast
  qed (use Cons.IH Cons.prems(2) missing failed in auto)
qed

lemma run_command_inv:
  assumes run: "run_command en cmd cfg st = Some (Inr out, st')" and "cmd \<noteq> CmdVersion"
    and "P \<lparr>rs_exit = 0, rs_plan = None, rs_missing = []\<rparr>"
    and "\<And>rs db. P rs \<Longrightarrow> P (rs\<lparr>rs_missing := rs_missing rs @ [db]\<rparr>)"
    and "\<And>rs db v g ca w out st1 multi. P rs \<Longrightarrow>
      run_command_for_database en cmd (db_config cfg db) g v multi (ca, w) = Some (Inr out, st1) \<Longrightarrow> P (merge_output rs out)"
    and "\<And>rs e. P rs \<Longrightarrow> P (rs\<lparr>rs_exit := max (rs_exit rs) (exit_code e)\<rparr>)"
  obtains rs where "P rs" "ro_exit_code out = rs_exit rs" "ro_plan out = rs_plan rs"
proof -
  obtain g ca w where st: "st = (g, ca, w)" by (cases st)
  from run_command_Inr [OF run [unfolded st] assms(2)] obtain dbs w1 ws r where
    r: "run_databases en cmd cfg ws (length dbs > 1) dbs \<lparr>rs_exit = 0, rs_plan = None, rs_missing = []\<rparr> (g, ca, w1) = Some (r, st')"
    and fin: "finish_run r = Inr out" .
  from fin obtain rs where rs: "r = Inr rs" "ro_exit_code out = rs_exit rs" "ro_plan out = rs_plan rs"
    by (auto simp: finish_run_def split: sum.splits if_splits)
  have "P rs" by (rule run_databases_inv [OF r [unfolded rs(1)], of P]) (use assms in auto)
  with rs that show thesis by blast
qed

subsection \<open>Exit codes\<close>

definition exit_codes :: "int set" where
  "exit_codes = {0, 1, 2, 3, 4, 5, 7, 8, 10}"

lemma exit_code_in: "exit_code e \<in> exit_codes"
  using exit_code_range [of e] by (auto simp: exit_codes_def)

lemma plain_exits_in [simp]: "0 \<in> exit_codes" "EXIT_PLAN_BLOCKED \<in> exit_codes"
  by (simp_all add: exit_codes_def exit_defs)

lemma max_exit_in: "a \<in> exit_codes \<Longrightarrow> b \<in> exit_codes \<Longrightarrow> max a b \<in> exit_codes"
  by (auto simp: max_def)

lemma database_exit_in:
  assumes "run_command_for_database en cmd cfg g ws multi st = Some (Inr out, st')"
  shows "ro_exit_code out \<in> exit_codes"
proof -
  have body: "code \<in> exit_codes" if "locked_body en cmd cfg g ws st0 = Some (Inr (plan, code), x)" for plan code st0 x
    using that by (auto simp: locked_body_def split: Option.bind_splits sum.splits prod.splits if_splits)
  have "code \<in> exit_codes" if "run_locked en cmd cfg g ws st0 = Some (Inr (plan, code), x)" for plan code st0 x
    using that body
    by (auto simp: run_locked_def release_after_body_def Let_def split: Option.bind_splits sum.splits prod.splits)
  with assms show ?thesis
    by (auto simp: run_command_for_database_def Let_def split: Option.bind_splits sum.splits prod.splits if_splits)
qed

lemma run_command_exit_in:
  assumes "run_command en cmd cfg st = Some (Inr out, st')"
  shows "ro_exit_code out \<in> exit_codes"
proof (cases "cmd = CmdVersion")
  case True
  with assms show ?thesis by (auto simp: run_command_def exit_codes_def)
next
  case False
  show ?thesis
    by (rule run_command_inv [OF assms False, of "\<lambda>rs. rs_exit rs \<in> exit_codes"])
       (auto simp: merge_output_def intro: max_exit_in exit_code_in dest: database_exit_in)
qed

lemma finish_cases:
  assumes "finish_ok pr cfg cmd command json out st = Some (Inr code, ps, st')"
  shows "code = ro_exit_code out"
  using assms by (auto simp: finish_ok_def Let_def split: Option.bind_splits sum.splits prod.splits)

lemma finish_err_Inl: "finish_err pr cfg cmd e st = Some (r, ps, st') \<Longrightarrow> r = Inl e"
  by (auto simp: finish_err_def split: Option.bind_splits prod.splits)

text \<open>Who asked only for help or the version.\<close>

definition informational :: "string list \<Rightarrow> bool" where
  "informational args \<longleftrightarrow> parse_args args = Inr Help \<or> (\<exists>cf json. parse_args args = Inr (Run ''version'' cf json))"

definition engine_finished :: "('w, 'g) process \<Rightarrow> string list \<Rightarrow> ('w, 'g) cli_state \<Rightarrow> int \<Rightarrow> bool" where
  "engine_finished pr args st code \<longleftrightarrow> (\<exists>cmd cf json command cfg out est. parse_args args = Inr (Run cmd cf json)
     \<and> parse_command cmd = Inr command \<and> command_config pr cf (snd (snd (fst st))) = Inr cfg \<and> pr_interrupt pr = None
     \<and> run_command (pr_engine pr) command cfg (fst st) = Some (Inr out, est) \<and> ro_exit_code out = code)"

lemma cli_run_Inr:
  assumes "cli_run pr args help_text st = Some (Inr code, ps, st')"
  shows "informational args \<and> code = 0 \<or> pr_interrupt pr \<noteq> None \<and> code = 130 \<or> engine_finished pr args st code"
proof -
  consider "parse_args args = Inr Help"
    | cmd cf json where "parse_args args = Inr (Run cmd cf json)" "run_command_line pr cmd cf json st = Some (Inr code, ps, st')"
    using assms by (auto simp: cli_run_def split: sum.splits ParsedArgs.splits)
  then show ?thesis
  proof cases
    case 1
    with assms show ?thesis by (simp add: cli_run_def informational_def)
  next
    case (2 cmd cf json)
    show ?thesis
    proof (cases "cmd = ''version''")
      case True
      with 2 show ?thesis by (auto simp: run_command_line_def informational_def split: sum.splits)
    next
      case False
      with 2 obtain command cfg where c: "parse_command cmd = Inr command" "command_config pr cf (snd (snd (fst st))) = Inr cfg"
        by (auto simp: run_command_line_def split: sum.splits)
      show ?thesis
      proof (cases "pr_interrupt pr")
        case (Some sw)
        with 2 False c show ?thesis by (auto simp: run_command_line_def split: Option.bind_splits prod.splits)
      next
        case None
        with 2 False c obtain outcome est where o: "run_command (pr_engine pr) command cfg (fst st) = Some (outcome, est)"
          by (auto simp: run_command_line_def split: Option.bind_splits)
        obtain g1 ca1 w1 where "est = (g1, ca1, w1)" by (cases est)
        with o 2 False c None show ?thesis
          by (cases outcome) (auto simp: run_command_line_def engine_finished_def dest: finish_cases finish_err_Inl)
      qed
    qed
  qed
qed

lemma exit_byte_small: "0 \<le> code \<Longrightarrow> code < 256 \<Longrightarrow> exit_byte code = nat code"
  by (simp add: exit_byte_def)

text \<open>
  C32: The exit status of the process tells the outcome. It is one of the documented codes, or 130 after a
  signal, and the reduction to a byte never turns a failure into success: status 0 means that help or the
  version was asked for, or that the engine finished the command on every database with exit code 0.
\<close>

theorem exit_status_tells_the_outcome:
  assumes run: "cli_main pr args help_text st = Some (status, ps, st')"
  shows "status \<in> {0, 1, 2, 3, 4, 5, 7, 8, 10, 130}
    \<and> (status = 0 \<longrightarrow> informational args \<or> engine_finished pr args st 0)"
proof -
  from run obtain r ps1 where r: "cli_run pr args help_text st = Some (r, ps1, st')"
    and s: "status = exit_byte (case r of Inr code \<Rightarrow> code | Inl e \<Rightarrow> exit_code e)"
    unfolding cli_main_def by (elim map_option_eq_Some [THEN iffD1, elim_format] exE conjE) (auto split: sum.splits prod.splits)
  show ?thesis
  proof (cases r)
    case (Inl e)
    with s exit_code_range [of e] show ?thesis by (auto simp: exit_byte_small)
  next
    case (Inr code)
    have "code \<in> insert 130 exit_codes"
      using cli_run_Inr [OF r [unfolded Inr]] by (auto simp: engine_finished_def dest: run_command_exit_in)
    with s Inr cli_run_Inr [OF r [unfolded Inr]] show ?thesis by (auto simp: exit_codes_def exit_byte_small)
  qed
qed

subsection \<open>The reported plan is materialized\<close>

definition materialized :: "migration_plan \<Rightarrow> bool" where
  "materialized plan \<longleftrightarrow> length (mp_objects plan) = length (mp_rows plan)"

lemma diff_step_objects: "diff_step fp ws cs i st = Some st' \<Longrightarrow> mp_objects (snd st') = mp_objects (snd st)"
  by (auto simp: diff_step_def decide_object_at_def fill_plan_row_def Let_def split: Option.bind_splits if_splits prod.splits)

lemma diff_loop_objects: "diff_loop fp ws cs is st = Some st' \<Longrightarrow> mp_objects (snd st') = mp_objects (snd st)"
  by (induction "is" arbitrary: st) (auto dest: diff_step_objects split: Option.bind_splits)

lemma compute_diff_objects: "compute_diff fp ws cat cs = Some (ws', plan) \<Longrightarrow> mp_objects plan = []"
  by (auto simp: compute_diff_def compute_diff_into_def ensure_plan_rows_def Let_def dest: diff_loop_objects split: Option.bind_splits)

lemma materialize_rows_length: "materialize_rows ws plan = Some os \<Longrightarrow> length os = length (mp_rows plan)"
  by (auto simp: materialize_rows_def those_eq_Some dest: map_eq_imp_length_eq)

lemma ensure_materialized:
  assumes "ensure_objects_materialized ws plan = Some plan'" and "mp_rows plan = [] \<Longrightarrow> mp_objects plan = []"
  shows "materialized plan'" "mp_rows plan' = mp_rows plan" "mp_blocked plan' = mp_blocked plan"
  using assms by (auto simp: ensure_objects_materialized_def materialized_def dest: materialize_rows_length split: if_splits Option.bind_splits)

lemma plan_phase_materialized:
  assumes "plan_phase en cmd cfg g ws st = Some (Inr (plan, ws'), x)"
  shows "materialized plan"
proof -
  from assms obtain cat cs p c t where d: "compute_diff (dp_fp (en_db en)) ws cat cs = Some (ws', p)"
    and m: "(if mp_rows p \<noteq> [] then ensure_objects_materialized ws' (p\<lparr>mp_command := c, mp_planned_at := t\<rparr>)
       else Some (p\<lparr>mp_command := c, mp_planned_at := t\<rparr>)) = Some plan"
    by (auto simp: plan_phase_def Let_def split: Option.bind_splits sum.splits)
  from compute_diff_objects [OF d] m ensure_materialized(1) [of ws' "p\<lparr>mp_command := c, mp_planned_at := t\<rparr>" plan] show ?thesis
    by (auto simp: materialized_def split: if_splits)
qed

lemma filter_applied_kept:
  assumes "filter_applied ev ws timeout plan c = Some (r, plan', c')" and "materialized plan"
  shows "mp_rows plan = [] \<Longrightarrow> plan' = plan" "mp_rows plan' = mp_rows plan" "mp_blocked plan' = mp_blocked plan"
    "r = Inl PlanBlocked \<Longrightarrow> plan' = plan"
proof -
  have f: "mp_rows q' = mp_rows q \<and> mp_blocked q' = mp_blocked q" if "filter_applied_migrations_on_plan h ws ap q = Some (q', z)" for h ap q q' z
    using that by (auto simp: filter_applied_migrations_on_plan_def filter_rows_def filter_legacy_objects_def Let_def
        split: Option.bind_splits if_splits prod.splits)
  show "mp_rows plan = [] \<Longrightarrow> plan' = plan"
    using assms by (auto simp: filter_applied_def needs_history_def materialized_def)
  show "mp_rows plan' = mp_rows plan" "mp_blocked plan' = mp_blocked plan"
    using assms(1) f by (auto simp: filter_applied_def split: if_splits prod.splits sum.splits Option.bind_splits)
  show "r = Inl PlanBlocked \<Longrightarrow> plan' = plan"
    using assms(1) by (auto simp: filter_applied_def tampered_error_def unavailable_def split: if_splits prod.splits sum.splits Option.bind_splits)
qed

lemma execute_plan_materialized:
  assumes "execute_plan ev cfg ws plan st = Some (r, plan', x)" and "\<not> mp_blocked plan" and "mp_rows plan = [] \<Longrightarrow> mp_objects plan = []"
  shows "materialized plan'"
proof -
  from assms(1,2) have "ensure_objects_materialized ws plan = Some plan'"
    by (auto simp: execute_plan_def Let_def split: Option.bind_splits sum.splits prod.splits)
  from ensure_materialized(1) [OF this assms(3)] show ?thesis .
qed

lemma apply_migrate_materialized:
  assumes run: "apply_migrate dp cfg g ws plan (ca, c) = Some (r, plan', st')" and m: "materialized plan"
    and r: "r = Inr u \<or> r = Inl PlanBlocked"
  shows "materialized plan'"
proof (cases "mp_blocked plan")
  case True
  with run m show ?thesis by (auto simp: apply_migrate_def split: Option.bind_splits)
next
  case False
  from m have e: "mp_rows plan = [] \<Longrightarrow> mp_objects plan = []" by (simp add: materialized_def)
  from run False obtain adopt plan1 where a: "ensure_adopt_allowed cfg ws plan = Some (adopt, plan1)"
    by (auto simp: apply_migrate_def split: Option.bind_splits)
  with m ensure_materialized [OF _ e] have p1: "materialized plan1" "mp_rows plan1 = mp_rows plan" "\<not> mp_blocked plan1"
    using False by (auto simp: ensure_adopt_allowed_def split: Option.bind_splits if_splits)
  show ?thesis
  proof (cases adopt)
    case (Inl x)
    with run False a p1 show ?thesis by (auto simp: apply_migrate_def)
  next
    case (Inr v)
    with run False a obtain flt plan2 c1 where f: "filter_applied (dp_env dp) ws (cfg_command_timeout cfg) plan1 c = Some (flt, plan2, c1)"
      by (auto simp: apply_migrate_def split: Option.bind_splits)
    note k = filter_applied_kept [OF f p1(1)]
    show ?thesis
    proof (cases flt)
      case (Inl x)
      with run False a Inr f r k(4) p1(1) show ?thesis by (auto simp: apply_migrate_def)
    next
      case ok: (Inr y)
      with run False a Inr f obtain res ac c2 where x: "execute_plan (dp_env dp) cfg ws plan2 (ca_audit ca, c1) = Some (res, plan', ac, c2)"
        by (auto simp: apply_migrate_def Let_def split: Option.bind_splits sum.splits)
      have "mp_rows plan2 = [] \<Longrightarrow> mp_objects plan2 = []" using k(1,2) p1(1) by (auto simp: materialized_def)
      with execute_plan_materialized [OF x] k(3) p1(3) show ?thesis by simp
    qed
  qed
qed

lemma apply_plan_materialized:
  assumes "apply_plan dp cmd cfg g ws plan (ca, c) = Some (r, plan', st')" and m: "materialized plan"
    and "r = Inr u \<or> r = Inl PlanBlocked"
  shows "materialized plan'"
proof -
  have "materialized plan'" if "apply_metadata dp cmd cfg ws plan (ca, c) = Some (r, plan', st')"
  proof -
    from that obtain x y z where "execute_metadata_plan (dp_env dp) cfg ws plan (metadata_mode cmd) (ca_audit ca, c) = Some (x, plan', y, z)"
      by (auto simp: apply_metadata_def split: Option.bind_splits)
    then have "plan' = plan \<or> ensure_objects_materialized ws plan = Some plan'"
      by (auto simp: execute_metadata_plan_def Let_def split: Option.bind_splits sum.splits prod.splits if_splits)
    moreover from m have "mp_rows plan = [] \<Longrightarrow> mp_objects plan = []" by (simp add: materialized_def)
    ultimately show ?thesis using m ensure_materialized(1) by blast
  qed
  with assms apply_migrate_materialized [of dp cfg g ws plan ca c r plan' st' u] show ?thesis
    by (cases cmd) (auto simp: apply_plan_def)
qed

lemma database_plan_materialized:
  assumes "run_command_for_database en cmd cfg g ws multi st = Some (Inr out, st')" and "ro_plan out = Some plan"
  shows "materialized plan"
proof -
  have body: "materialized p" if run: "locked_body en cmd cfg g ws st0 = Some (Inr (p, code), x)" for p code st0 x
  proof -
    from run obtain q ws1 g1 ca1 c1 where ph: "plan_phase en cmd cfg g ws st0 = Some (Inr (q, ws1), g1, ca1, c1)"
      by (auto simp: locked_body_def split: Option.bind_splits sum.splits)
    with run obtain r st2 where a: "apply_plan (en_db en) cmd cfg g1 ws1 q (ca1, c1) = Some (r, p, st2)" "r = Inr () \<or> r = Inl PlanBlocked"
      by (auto simp: locked_body_def split: Option.bind_splits sum.splits if_splits)
    show ?thesis by (rule apply_plan_materialized [OF a(1) plan_phase_materialized [OF ph] a(2)])
  qed
  have "materialized p" if "run_locked en cmd cfg g ws st0 = Some (Inr (p, code), x)" for p code st0 x
    using that body by (auto simp: run_locked_def release_after_body_def Let_def split: Option.bind_splits sum.splits prod.splits)
  with assms plan_phase_materialized [of en cmd cfg g ws] show ?thesis
    by (auto simp: run_command_for_database_def Let_def split: Option.bind_splits sum.splits prod.splits if_splits)
qed

lemma merge_materialized: "materialized a \<Longrightarrow> materialized b \<Longrightarrow> materialized (merge_plan_into a b)"
  by (simp add: materialized_def merge_plan_into_def Let_def)

text \<open>
  C33: The plan that a command hands to the reports is complete. Every row of it, also of the plan merged
  over several databases, has its materialized object, so the document for standard output and for
  \<open>.plan.json\<close> is always built from these objects and never fails for want of the workspace.
\<close>

theorem reported_plan_is_materialized:
  assumes run: "run_command en cmd cfg st = Some (Inr out, st')" and plan: "ro_plan out = Some plan"
  shows "length (mp_objects plan) = length (mp_rows plan)
    \<and> write_plan_json ser plan None = Some (bind_result (ser (plan_wire_new plan (mp_objects plan))) (\<lambda>v. Inr (v @ [LF])))"
proof -
  have "cmd \<noteq> CmdVersion" using run plan by (auto simp: run_command_def)
  then have "materialized plan"
  proof (rule run_command_inv [OF run, of "\<lambda>rs. \<forall>p. rs_plan rs = Some p \<longrightarrow> materialized p"])
    fix rs :: run_state and db v g ca w out st1 multi
    assume rs: "\<forall>p. rs_plan rs = Some p \<longrightarrow> materialized p"
      and one: "run_command_for_database en cmd (db_config cfg db) g v multi (ca, w) = Some (Inr out, st1)"
    have "\<forall>p. ro_plan out = Some p \<longrightarrow> materialized p" by (intro allI impI) (rule database_plan_materialized [OF one])
    with rs show "\<forall>p. rs_plan (merge_output rs out) = Some p \<longrightarrow> materialized p"
      by (auto simp: merge_output_def merge_plan_def merge_materialized split: option.splits)
  qed (use plan in auto)
  then show ?thesis by (auto simp: materialized_def write_plan_json_def Let_def)
qed

subsection \<open>Refused migrations\<close>

text \<open>A plan that \<open>migrate\<close> must not run: it is blocked, or it would adopt existing objects unasked.\<close>

definition refused :: "config \<Rightarrow> workspace \<Rightarrow> migration_plan \<Rightarrow> bool" where
  "refused cfg ws plan \<longleftrightarrow> mp_blocked plan
     \<or> (\<not> cfg_allow_adopt cfg \<and> (\<exists>m. ensure_objects_materialized ws plan = Some m
          \<and> list_ex (\<lambda>ob. po_planned_action ob = AdoptExisting) (mp_objects m)))"

lemma handle_blocked_Inl: "handle_blocked_migrate dp g cfg ws plan c = Some (r, c') \<Longrightarrow> isl r"
  by (auto simp: handle_blocked_migrate_def split: Option.bind_splits sum.splits)


subsection \<open>Witnesses\<close>

definition quiet_process :: "(unit, unit) process" where
  "quiet_process = \<lparr>pr_engine = quiet_engine, pr_getenv_os = (\<lambda>n. None), pr_secs_f64 = (\<lambda>s. None),
     pr_toml_parse = Inr, pr_toml_sections = (\<lambda>d s. None), pr_toml_typed = (\<lambda>d. Inr toml_default), pr_root = None,
     pr_ser_plan = (\<lambda>d. Inr ''{}''), pr_ser_report = (\<lambda>d. Inr ''{}''), pr_ser_version = (\<lambda>d. Inr ''{}''),
     pr_remove_file = (\<lambda>w p. (Inr (), w)), pr_sync = (\<lambda>w p. (Inr (), w)), pr_interrupt = None, pr_timings = ''{}'',
     pr_version = None, pr_commit = None\<rparr>"

theorem exit_status_tells_the_outcome_witness:
  "\<exists>ps st'. cli_main quiet_process [''version''] [] (((), no_caches, ()), 0) = Some (0, ps, st')
    \<and> (informational [''version''] \<or> engine_finished quiet_process [''version''] (((), no_caches, ()), 0) 0)"
proof -
  obtain ps st' where run: "cli_main quiet_process [''version''] [] (((), no_caches, ()), 0) = Some (0, ps, st')"
    by (simp add: cli_main_def cli_run_def parse_args_def starts_with_def run_command_line_def print_version_def exit_byte_def)
  from exit_status_tells_the_outcome [OF run] run show ?thesis by blast
qed

theorem reported_plan_is_materialized_witness:
  "write_plan_json (\<lambda>d. Inr ''{}'') (quiet_plan ''plan'') None = Some (Inr (''{}'' @ [LF]))"
  using reported_plan_is_materialized [OF quiet_run_plan, of "quiet_plan ''plan''" "\<lambda>d. Inr ''{}''"] by simp

definition adopting_plan :: migration_plan where
  "adopting_plan = migration_plan_default\<lparr>mp_rows := [\<lparr>pr_action = as_repr AdoptExisting, pr_flags = 0, pr_checksum = []\<rparr>],
     mp_objects := [sim_a\<lparr>po_planned_action := AdoptExisting\<rparr>]\<rparr>"


end
