(* ===== verification/Tds.thy ===== *)
theory Tds
  imports Driver Configuration
begin

section \<open>The SQL Server client\<close>

text \<open>
  \<open>crates/core/src/driver\<close> (\<open>mssql.rs\<close>, \<open>mssql_auth.rs\<close>, \<open>mssql_query.rs\<close>, the decoding of
  result rows in \<open>row.rs\<close>) over a parameter \<open>tds\<close> for TCP and the \<open>tiberius\<close> crate: \<open>'c\<close> is
  the type of its clients, \<open>'r\<close> of its rows, \<open>'w\<close> the state of everything outside the program.

  A future is a function of a flag, whether it runs under \<open>tokio::time::timeout\<close>, and of the
  outside. Each call reports whether its reply came after the deadline of the enclosing timeout:
  under a timeout the future is then dropped at that point, which is the value \<open>None\<close>; what the
  call did to the outside stays. Without a timeout the reply is waited for.
\<close>

subsection \<open>Futures\<close>

type_synonym ('w, 'a) future = "bool \<Rightarrow> 'w \<Rightarrow> 'a option \<times> 'w"

definition ready :: "'a \<Rightarrow> ('w, 'a) future" where
  "ready a = (\<lambda>bounded w. (Some a, w))"

definition await :: "('w \<Rightarrow> bool \<times> 'a \<times> 'w) \<Rightarrow> ('w, 'a) future" where
  "await call = (\<lambda>bounded w. let (late, a, w') = call w in (if bounded \<and> late then None else Some a, w'))"

definition and_then :: "('w, 'a) future \<Rightarrow> ('a \<Rightarrow> ('w, 'b) future) \<Rightarrow> ('w, 'b) future" where
  "and_then fut k = (\<lambda>bounded w.
     case fut bounded w of (None, w') \<Rightarrow> (None, w') | (Some a, w') \<Rightarrow> k a bounded w')"

text \<open>The \<open>?\<close> operator after an \<open>await\<close>.\<close>

definition try_then :: "('w, 'e + 'a) future \<Rightarrow> ('a \<Rightarrow> ('w, 'e + 'b) future) \<Rightarrow> ('w, 'e + 'b) future" where
  "try_then fut k = and_then fut (\<lambda>r. case r of Inl e \<Rightarrow> ready (Inl e) | Inr a \<Rightarrow> k a)"

text \<open>\<open>Result::map_err\<close> on the result of a future.\<close>

definition map_err :: "('e \<Rightarrow> 'f) \<Rightarrow> ('w, 'e + 'a) future \<Rightarrow> ('w, 'f + 'a) future" where
  "map_err f fut = and_then fut (\<lambda>r. ready (map_sum f id r))"

text \<open>Running a future under a timeout of \<open>t\<close> milliseconds (none when zero), or without one.\<close>

definition timeout :: "nat \<Rightarrow> ('w, 'a) future \<Rightarrow> 'w \<Rightarrow> 'a option \<times> 'w" where
  "timeout t fut w = fut (t \<noteq> 0) w"

definition block_on :: "('w, 'a) future \<Rightarrow> 'w \<Rightarrow> 'a \<times> 'w" where
  "block_on fut w = (let (r, w') = fut False w in (the r, w'))"

subsection \<open>The outside\<close>

datatype EncryptionLevel = Required | NotSupported

record tds_config =
  tc_host :: string
  tc_tcp_port :: "nat option"
  tc_db :: string
  tc_sql_server_auth :: "string \<times> string"
  tc_trust_cert :: bool
  tc_encryption :: EncryptionLevel

text \<open>
  \<open>td_get_bytes\<close> and its siblings are \<open>Row::try_get\<close> at one type: \<open>None\<close> for an error (the
  column has another type), \<open>Some None\<close> for a \<open>NULL\<close>.
\<close>

record ('w, 'c, 'r) tds =
  td_tcp_connect :: "'w \<Rightarrow> string \<Rightarrow> bool \<times> (string + unit) \<times> 'w"
  td_handshake :: "'w \<Rightarrow> tds_config \<Rightarrow> bool \<times> (string + 'c) \<times> 'w"
  td_simple_query :: "'w \<Rightarrow> 'c \<Rightarrow> stmt \<Rightarrow> bool \<times> (string + unit) \<times> 'w"
  td_query :: "'w \<Rightarrow> 'c \<Rightarrow> stmt \<Rightarrow> string list \<Rightarrow> bool \<times> (string + unit) \<times> 'w"
  td_into_results :: "'w \<Rightarrow> 'c \<Rightarrow> bool \<times> (string + 'r list list) \<times> 'w"
  td_into_first_result :: "'w \<Rightarrow> 'c \<Rightarrow> bool \<times> (string + 'r list) \<times> 'w"
  td_columns :: "'r \<Rightarrow> (string \<times> string) list"
  td_get_bytes :: "'r \<Rightarrow> nat \<Rightarrow> bytes option option"
  td_get_str :: "'r \<Rightarrow> nat \<Rightarrow> string option option"
  td_get_bool :: "'r \<Rightarrow> nat \<Rightarrow> bool option option"
  td_get_i16 :: "'r \<Rightarrow> nat \<Rightarrow> int option option"
  td_get_i32 :: "'r \<Rightarrow> nat \<Rightarrow> int option option"
  td_get_i64 :: "'r \<Rightarrow> nat \<Rightarrow> int option option"
  td_get_u8 :: "'r \<Rightarrow> nat \<Rightarrow> int option option"

subsection \<open>Queries\<close>

definition tds_ping :: "('w, 'c, 'r) tds \<Rightarrow> 'c \<Rightarrow> ('w, unit result) future" where
  "tds_ping td c = map_err Sql (await (\<lambda>w. td_simple_query td w c PING))"

definition tds_exec :: "('w, 'c, 'r) tds \<Rightarrow> 'c \<Rightarrow> stmt \<Rightarrow> ('w, unit result) future" where
  "tds_exec td c sql =
     try_then (map_err Sql (await (\<lambda>w. td_simple_query td w c sql))) (\<lambda>_.
     try_then (map_err Sql (await (\<lambda>w. td_into_results td w c))) (\<lambda>_.
     ready (Inr ())))"

definition query_tiberius :: "('w, 'c, 'r) tds \<Rightarrow> 'c \<Rightarrow> stmt \<Rightarrow> string list \<Rightarrow> ('w, 'r list result) future" where
  "query_tiberius td c sql params =
     try_then (map_err Sql (await (\<lambda>w. td_query td w c sql params))) (\<lambda>_.
     map_err Sql (await (\<lambda>w. td_into_first_result td w c)))"

definition query_all_results ::
  "('w, 'c, 'r) tds \<Rightarrow> 'c \<Rightarrow> stmt \<Rightarrow> string list \<Rightarrow> ('w, 'r list list result) future" where
  "query_all_results td c sql params =
     try_then (map_err Sql (await (\<lambda>w. td_query td w c sql params))) (\<lambda>_.
     map_err Sql (await (\<lambda>w. td_into_results td w c)))"

subsection \<open>Decoding rows\<close>

text \<open>\<open>take\<close>: the value, and the updated \<open>saw_null\<close>.\<close>

definition take_col :: "'a option option \<Rightarrow> bool \<Rightarrow> 'a option \<times> bool" where
  "take_col r saw_null =
     (case r of Some (Some v) \<Rightarrow> (Some v, saw_null) | Some None \<Rightarrow> (None, True) | None \<Rightarrow> (None, saw_null))"

definition unsupported_column :: "('w, 'c, 'r) tds \<Rightarrow> 'r \<Rightarrow> nat \<Rightarrow> error" where
  "unsupported_column td row i =
     Sql (''unsupported column type ''
       @ (case nth_opt (td_columns td row) i of Some (ty, name) \<Rightarrow> ''Some('' @ ty @ '')'' | None \<Rightarrow> ''None'')
       @ '' for column '' @ (case nth_opt (td_columns td row) i of Some (ty, name) \<Rightarrow> name | None \<Rightarrow> ''?'')
       @ '' at index '' @ nat_to_string i)"

definition cell_from :: "('w, 'c, 'r) tds \<Rightarrow> 'r \<Rightarrow> nat \<Rightarrow> cell result" where
  "cell_from td row i =
     (case take_col (td_get_bytes td row i) False of (Some b, _) \<Rightarrow> Inr (CellBytes b) | (None, null) \<Rightarrow>
     (case take_col (td_get_str td row i) null of (Some s, _) \<Rightarrow> Inr (CellStr s) | (None, null) \<Rightarrow>
     (case take_col (td_get_bool td row i) null of
        (Some b, _) \<Rightarrow> Inr (CellStr (if b then ''1'' else ''0'')) | (None, null) \<Rightarrow>
     (case take_col (td_get_i16 td row i) null of (Some n, _) \<Rightarrow> Inr (CellStr (int_to_string n)) | (None, null) \<Rightarrow>
     (case take_col (td_get_i32 td row i) null of (Some n, _) \<Rightarrow> Inr (CellStr (int_to_string n)) | (None, null) \<Rightarrow>
     (case take_col (td_get_i64 td row i) null of (Some n, _) \<Rightarrow> Inr (CellStr (int_to_string n)) | (None, null) \<Rightarrow>
     (case take_col (td_get_u8 td row i) null of (Some n, _) \<Rightarrow> Inr (CellStr (int_to_string n)) | (None, null) \<Rightarrow>
        if null then Inr CellNull else Inl (unsupported_column td row i))))))))"

definition from_tiberius :: "('w, 'c, 'r) tds \<Rightarrow> 'r \<Rightarrow> row_data result" where
  "from_tiberius td row = collect_results (map (cell_from td row) [0..<length (td_columns td row)])"

subsection \<open>Connecting\<close>

definition select_auth_method :: "config \<Rightarrow> (string \<times> string) result" where
  "select_auth_method cfg =
     (let mode = map ascii_lower (cfg_db_auth cfg) in
      if mode = [] \<or> mode = ''sql'' then Inr (cfg_user cfg, cfg_password cfg)
      else if mode = ''integrated'' \<or> mode = ''windows'' then
        Inl (Config (''integrated auth not compiled; enable tiberius features: ''
          @ ''integrated-auth-gssapi (Unix) or winauth (Windows)''))
      else Inl (Config (''unsupported RM_DB_AUTH value: '' @ mode)))"

definition with_connect_timeout :: "nat \<Rightarrow> string \<Rightarrow> string \<Rightarrow> ('w, 'a) future \<Rightarrow> 'w \<Rightarrow> 'a result \<times> 'w" where
  "with_connect_timeout t addr what fut w =
     (case timeout t fut w of
        (Some a, w') \<Rightarrow> (Inr a, w')
      | (None, w') \<Rightarrow>
          (Inl (Conn (''connect '' @ addr @ '': '' @ what @ '' timed out after '' @ duration_debug t)), w'))"

definition init_session :: "('w, 'c, 'r) tds \<Rightarrow> 'c \<Rightarrow> ('w, unit result) future" where
  "init_session td c =
     tds_exec td c (Text ''SET QUOTED_IDENTIFIER ON; SET ANSI_NULLS ON; SET ANSI_PADDING ON;'')"

definition tds_config_of :: "config \<Rightarrow> string \<times> string \<Rightarrow> tds_config" where
  "tds_config_of cfg auth =
     \<lparr>tc_host = cfg_server cfg, tc_tcp_port = parse_unsigned (2 ^ 16) (cfg_port cfg), tc_db = cfg_database cfg,
      tc_sql_server_auth = auth, tc_trust_cert = cfg_trust_server_certificate cfg,
      tc_encryption = (if cfg_encrypt cfg then Required else NotSupported)\<rparr>"

definition connect_once :: "('w, 'c, 'r) tds \<Rightarrow> config \<Rightarrow> 'w \<Rightarrow> 'c result \<times> 'w" where
  "connect_once td cfg w =
     (case select_auth_method cfg of
        Inl e \<Rightarrow> (Inl e, w)
      | Inr auth \<Rightarrow>
          (let addr = cfg_server cfg @ '':'' @ cfg_port cfg; t = cfg_command_timeout cfg in
           case with_connect_timeout t addr ''tcp connect'' (await (\<lambda>w. td_tcp_connect td w addr)) w of
             (Inl e, w) \<Rightarrow> (Inl e, w)
           | (Inr (Inl e), w) \<Rightarrow> (Inl (Conn (''connect '' @ addr @ '': '' @ e)), w)
           | (Inr (Inr _), w) \<Rightarrow>
               (case with_connect_timeout t addr ''tds handshake''
                       (await (\<lambda>w. td_handshake td w (tds_config_of cfg auth))) w of
                  (Inl e, w) \<Rightarrow> (Inl e, w)
                | (Inr (Inl e), w) \<Rightarrow> (Inl (Conn (''connect '' @ addr @ '': tds handshake: '' @ e)), w)
                | (Inr (Inr c), w) \<Rightarrow>
                    (case with_connect_timeout t addr ''session init'' (init_session td c) w of
                       (Inl e, w) \<Rightarrow> (Inl e, w)
                     | (Inr (Inl e), w) \<Rightarrow> (Inl e, w)
                     | (Inr (Inr _), w) \<Rightarrow> (Inr c, w)))))"

definition MAX_ATTEMPTS :: nat where "MAX_ATTEMPTS = 3"

text \<open>The loop of \<open>connect\<close>: only a connection error before the last attempt is retried.\<close>

function connect_loop :: "('w, 'c, 'r) tds \<Rightarrow> config \<Rightarrow> nat \<Rightarrow> 'w \<Rightarrow> 'c result \<times> 'w" where
  "connect_loop td cfg attempt w =
     (case connect_once td cfg w of
        (Inr c, w') \<Rightarrow> (Inr c, w')
      | (Inl (Conn msg), w') \<Rightarrow>
          if attempt < MAX_ATTEMPTS then connect_loop td cfg (attempt + 1) w' else (Inl (Conn msg), w')
      | (Inl e, w') \<Rightarrow> (Inl e, w'))"
  by pat_completeness auto
termination
  by (relation "measure (\<lambda>(td, cfg, attempt, w). MAX_ATTEMPTS - attempt)") auto

declare connect_loop.simps [simp del]

definition connect :: "('w, 'c, 'r) tds \<Rightarrow> config \<Rightarrow> 'w \<Rightarrow> 'c result \<times> 'w" where
  "connect td cfg w = connect_loop td cfg 1 w"

subsection \<open>Rules of the futures\<close>

lemma future_simps [simp]:
  "ready a b w = (Some a, w)"
  "and_then (ready a) k = k a"
  "try_then (ready (Inl e)) k = ready (Inl e)"
  "try_then (ready (Inr x)) k' = k' x"
  by (simp_all add: ready_def and_then_def try_then_def)

text \<open>Without a deadline no future is dropped.\<close>

definition waits :: "('w, 'a) future \<Rightarrow> bool" where
  "waits fut \<longleftrightarrow> (\<forall>w. fst (fut False w) \<noteq> None)"

named_theorems waits_intros \<open>futures that end when nothing drops them\<close>

lemma waits_ready [waits_intros, intro]: "waits (ready a)"
  by (simp add: waits_def)

lemma waits_await [waits_intros, intro]: "waits (await call)"
  by (simp add: waits_def await_def split: prod.splits)

lemma waits_and_then [waits_intros, intro]:
  assumes "waits fut" and "\<And>a. waits (k a)"
  shows "waits (and_then fut k)"
  unfolding waits_def
proof
  fix w
  obtain a w' where "fut False w = (Some a, w')"
    using assms(1) by (metis waits_def not_Some_eq prod.collapse)
  with assms(2) [of a] show "fst (and_then fut k False w) \<noteq> None"
    by (simp add: and_then_def waits_def)
qed

lemma waits_try_then [waits_intros, intro]:
  "waits fut \<Longrightarrow> (\<And>a. waits (k a)) \<Longrightarrow> waits (try_then fut k)"
  unfolding try_then_def by (rule waits_and_then) (auto split: sum.splits)

lemma waits_map_err [waits_intros, intro]: "waits fut \<Longrightarrow> waits (map_err f fut)"
  unfolding map_err_def by (rule waits_and_then) auto

lemma waits_queries [waits_intros, intro]:
  "waits (tds_ping td c)" "waits (tds_exec td c s)" "waits (query_tiberius td c s ps)" "waits (init_session td c)"
  by (auto simp: tds_ping_def tds_exec_def query_tiberius_def init_session_def)

lemma block_on_waits: "waits fut \<Longrightarrow> fut False w = (Some (fst (block_on fut w)), snd (block_on fut w))"
  by (auto simp: waits_def block_on_def split: prod.splits) (metis fst_conv option.collapse option.sel)

subsection \<open>Rows and connections\<close>

text \<open>
  A decoded cell is \<open>NULL\<close> only when the column is a \<open>NULL\<close> of one of the supported types; a
  column of another type is an error, never a silent \<open>NULL\<close>.
\<close>

lemma cell_from_null:
  assumes "cell_from td row i = Inr CellNull"
  shows "td_get_bytes td row i = Some None \<or> td_get_str td row i = Some None \<or> td_get_bool td row i = Some None
    \<or> td_get_i16 td row i = Some None \<or> td_get_i32 td row i = Some None \<or> td_get_i64 td row i = Some None
    \<or> td_get_u8 td row i = Some None"
  using assms by (auto simp: cell_from_def take_col_def split: option.splits if_splits prod.splits)

lemma connect_attempts:
  assumes "\<And>w. \<exists>msg w'. connect_once td cfg w = (Inl (Conn msg), w')"
  shows "\<exists>msg. connect td cfg w = (Inl (Conn msg), snd (connect_once td cfg (snd (connect_once td cfg (snd (connect_once td cfg w))))))"
proof -
  have step: "\<exists>msg. connect_once td cfg w = (Inl (Conn msg), snd (connect_once td cfg w))" for w
    using assms [of w] by force
  obtain m1 where 1: "connect_once td cfg w = (Inl (Conn m1), snd (connect_once td cfg w))"
    using step by blast
  obtain m2 where 2: "connect_once td cfg (snd (connect_once td cfg w))
      = (Inl (Conn m2), snd (connect_once td cfg (snd (connect_once td cfg w))))"
    using step by blast
  obtain m3 where 3: "connect_once td cfg (snd (connect_once td cfg (snd (connect_once td cfg w))))
      = (Inl (Conn m3), snd (connect_once td cfg (snd (connect_once td cfg (snd (connect_once td cfg w))))))"
    using step by blast
  show ?thesis
    unfolding connect_def
    apply (subst connect_loop.simps, subst 1, simp add: MAX_ATTEMPTS_def)
    apply (subst connect_loop.simps, subst 2, simp add: MAX_ATTEMPTS_def)
    apply (subst connect_loop.simps, subst 3, simp add: MAX_ATTEMPTS_def)
    done
qed

end
