(* ===== verification/Session.thy ===== *)
theory Session
  imports Tds Apply Git
begin

unbundle bit_operations_syntax

section \<open>The session daemon\<close>

text \<open>
  \<open>crates/core/src/session\<close> on the side of the daemon: the messages (\<open>protocol.rs\<close>), the token
  (\<open>auth.rs\<close>), the endpoint check, the counters, the replies and the handler of one client socket
  (\<open>daemon/*.rs\<close>, \<open>daemon_rpc.rs\<close>), the socket's directory (\<open>socket.rs\<close>) and the start of
  the daemon (\<open>run_daemon\<close>).

  The handlers run concurrently. \<open>daemon\<close> is what they share: the mutex around the optional warm
  client (\<open>dm_client\<close> its content, \<open>dm_holder\<close> the handler that has the guard), the counters,
  and the handlers themselves with what each keeps between two turns of its loop. A turn reads one
  line and answers it; it is cut in two where it waits for the mutex. \<open>daemon_act\<close> is one turn of
  one handler, the start of a handler, or the grant of the mutex to a waiting one, and every
  interleaving of the handlers is a sequence of such acts. The work done on the client while the
  guard is held is one act, since no other handler can reach the client meanwhile.

  The outside is \<open>host\<close>: writing to a client socket, the clock, the JSON codec of the messages, the
  file system at the start. Log output is left out.
\<close>

subsection \<open>Messages and limits\<close>

definition MAX_SESSION_LINE_BYTES :: nat where "MAX_SESSION_LINE_BYTES = 4 * 1024 * 1024"
definition MAX_DAEMON_CLIENTS :: nat where "MAX_DAEMON_CLIENTS = 64"
definition WARM_SESSION_WAIT_WARN_MS :: nat where "WARM_SESSION_WAIT_WARN_MS = 100"

datatype Request =
    Auth string
  | Ping string string string "bool option" "bool option"
  | Exec string
  | Query string "string list"
  | Stats

record response =
  rs_ok :: bool
  rs_error :: string
  rs_rows :: "row_data list"
  rs_stats :: string

definition request_ping :: "config \<Rightarrow> Request" where
  "request_ping cfg =
     Ping (cfg_server cfg) (cfg_port cfg) (cfg_user cfg) (Some (cfg_encrypt cfg)) (Some (cfg_trust_server_certificate cfg))"

text \<open>\<open>Formatter::debug_struct\<close>: the fields with their printed values.\<close>

definition debug_struct :: "string \<Rightarrow> (string \<times> string) list \<Rightarrow> bool \<Rightarrow> string" where
  "debug_struct name fs exhaustive =
     name @ '' { '' @ join_with '', '' (map (\<lambda>(f, v). f @ '': '' @ v) fs @ (if exhaustive then [] else [''..''])) @ '' }''"

definition debug_bool :: "bool \<Rightarrow> string" where
  "debug_bool b = (if b then ''true'' else ''false'')"

text \<open>\<open>Debug\<close> of a request and of the configuration: the secrets are never printed.\<close>

fun request_debug :: "Request \<Rightarrow> string" where
  "request_debug (Auth token) = debug_struct ''Auth'' [(''token'', debug_str ''<redacted>'')] True"
| "request_debug (Ping server port user encrypt trust) =
     debug_struct ''Ping'' [(''server'', debug_str server), (''port'', debug_str port)] True"
| "request_debug (Exec sql) = debug_struct ''Exec'' [(''sql'', debug_str sql)] True"
| "request_debug (Query sql params) =
     debug_struct ''Query'' [(''sql'', debug_str sql), (''params'', ''['' @ join_with '', '' (map debug_str params) @ '']'')] True"
| "request_debug Stats = ''Stats''"

definition mask_token :: "string \<Rightarrow> string" where
  "mask_token token = (if token = [] then ''<unset>'' else ''<redacted>'')"

definition config_cold_debug :: "config \<Rightarrow> string" where
  "config_cold_debug cfg =
     debug_struct ''ConfigCold''
       [(''server'', debug_str (cfg_server cfg)), (''port'', debug_str (cfg_port cfg)),
        (''db_auth'', debug_str (cfg_db_auth cfg)), (''user'', debug_str (cfg_user cfg)),
        (''password'', debug_str ''<redacted>''), (''session_socket'', debug_str (cfg_session_socket cfg)),
        (''session_token'', debug_str (mask_token (cfg_session_token cfg))),
        (''l1_cache_dir'', debug_str (cfg_l1_cache_dir cfg)),
        (''command_timeout'', duration_debug (cfg_command_timeout cfg)),
        (''lock_timeout'', duration_debug (cfg_lock_timeout cfg)), (''encrypt'', debug_bool (cfg_encrypt cfg)),
        (''trust_server_certificate'', debug_bool (cfg_trust_server_certificate cfg))] True"

definition config_debug :: "config \<Rightarrow> string" where
  "config_debug cfg =
     debug_struct ''Config''
       [(''sql_root'', debug_str (cfg_sql_root cfg)), (''sql_base'', debug_str (cfg_sql_base cfg)),
        (''report_dir'', debug_str (cfg_report_dir cfg)), (''server'', debug_str (cfg_server cfg)),
        (''port'', debug_str (cfg_port cfg)), (''database'', debug_str (cfg_database cfg)),
        (''user'', debug_str (cfg_user cfg)), (''password'', debug_str ''<redacted>''),
        (''session_socket'', debug_str (cfg_session_socket cfg)),
        (''session_token'', debug_str (mask_token (cfg_session_token cfg))),
        (''encrypt'', debug_bool (cfg_encrypt cfg)),
        (''trust_server_certificate'', debug_bool (cfg_trust_server_certificate cfg)),
        (''report_sync'', debug_bool (cfg_report_sync cfg)), (''skip_git'', debug_bool (cfg_skip_git cfg)),
        (''catalog_cache'', debug_bool (cfg_catalog_cache cfg))] False"

text \<open>Two configurations that differ only in the password and in a token that is set look the same.\<close>

lemma config_debug_hides_secrets:
  assumes "t = [] \<longleftrightarrow> t' = []"
  shows "config_debug (cfg\<lparr>cfg_password := pw, cfg_session_token := t\<rparr>) = config_debug (cfg\<lparr>cfg_password := pw', cfg_session_token := t'\<rparr>)"
    and "config_cold_debug (cfg\<lparr>cfg_password := pw, cfg_session_token := t\<rparr>) = config_cold_debug (cfg\<lparr>cfg_password := pw', cfg_session_token := t'\<rparr>)"
  using assms by (simp_all add: config_debug_def config_cold_debug_def mask_token_def)

definition ok_empty :: response where
  "ok_empty = \<lparr>rs_ok = True, rs_error = [], rs_rows = [], rs_stats = []\<rparr>"

definition err_response :: "string \<Rightarrow> response" where
  "err_response msg = \<lparr>rs_ok = False, rs_error = msg, rs_rows = [], rs_stats = []\<rparr>"

definition stats_response :: "string \<Rightarrow> response" where
  "stats_response json = \<lparr>rs_ok = True, rs_error = [], rs_rows = [], rs_stats = json\<rparr>"

definition rows_response :: "row_data list \<Rightarrow> response" where
  "rows_response rows = \<lparr>rs_ok = True, rs_error = [], rs_rows = rows, rs_stats = []\<rparr>"

definition into_result :: "response \<Rightarrow> row_data list result" where
  "into_result r = (if rs_ok r then Inr (rs_rows r) else Inl (Sql (rs_error r)))"

subsection \<open>The session token\<close>

text \<open>\<open>published\<close> is the process-wide token, \<open>env\<close> the variable \<open>RMIG_SESSION_TOKEN\<close>.\<close>

definition resolve_session_token :: "config option \<Rightarrow> string option \<Rightarrow> string option \<Rightarrow> string" where
  "resolve_session_token cfg published env =
     (case cfg of
        Some c \<Rightarrow> if cfg_session_token c \<noteq> [] then cfg_session_token c
                   else (case published of Some t \<Rightarrow> t | None \<Rightarrow> unwrap_or env [])
      | None \<Rightarrow> (case published of Some t \<Rightarrow> t | None \<Rightarrow> unwrap_or env []))"

definition apply_session_token_from_config :: "config \<Rightarrow> string option \<Rightarrow> string option" where
  "apply_session_token_from_config cfg published =
     (if cfg_session_token cfg \<noteq> [] then Some (cfg_session_token cfg) else published)"

definition token_required :: "string option \<Rightarrow> string option \<Rightarrow> bool" where
  "token_required published env = (resolve_session_token None published env \<noteq> [])"

definition as_bytes :: "string \<Rightarrow> u8 list" where
  "as_bytes s = map of_char s"

fun fold_diff :: "(u8 \<times> u8) list \<Rightarrow> u8 \<Rightarrow> u8" where
  "fold_diff [] diff = diff"
| "fold_diff ((x, y) # ps) diff = fold_diff ps (diff OR (x XOR y))"

definition constant_time_eq :: "u8 list \<Rightarrow> u8 list \<Rightarrow> bool" where
  "constant_time_eq a b = (if length a \<noteq> length b then False else fold_diff (zip a b) 0 = 0)"

definition verify_token :: "string option \<Rightarrow> string option \<Rightarrow> string \<Rightarrow> unit result" where
  "verify_token published env provided =
     (let expected = resolve_session_token None published env in
      if expected = [] then Inr ()
      else if constant_time_eq (as_bytes provided) (as_bytes expected) then Inr ()
      else Inl (InvalidInput ''rmigd: invalid session token''))"

subsection \<open>The endpoint\<close>

record endpoint =
  ep_server :: string
  ep_port :: string
  ep_user :: string
  ep_encrypt :: bool
  ep_trust_server_certificate :: bool

definition endpoint_of :: "config \<Rightarrow> endpoint" where
  "endpoint_of cfg =
     \<lparr>ep_server = cfg_server cfg, ep_port = cfg_port cfg, ep_user = cfg_user cfg, ep_encrypt = cfg_encrypt cfg,
      ep_trust_server_certificate = cfg_trust_server_certificate cfg\<rparr>"

definition mismatched :: "endpoint \<Rightarrow> string \<Rightarrow> string \<Rightarrow> string \<Rightarrow> bool option \<Rightarrow> bool option \<Rightarrow> string list" where
  "mismatched ep server port user encrypt trust =
     map fst (filter (\<lambda>(name, got, want). got \<noteq> [] \<and> got \<noteq> want)
       [(''server'', server, ep_server ep), (''port'', port, ep_port ep), (''user'', user, ep_user ep)])
     @ (if \<exists>v \<in> set_option encrypt. v \<noteq> ep_encrypt ep then [''encrypt''] else [])
     @ (if \<exists>v \<in> set_option trust. v \<noteq> ep_trust_server_certificate ep then [''trust_server_certificate''] else [])"

definition endpoint_mismatch ::
  "endpoint \<Rightarrow> string \<Rightarrow> string \<Rightarrow> string \<Rightarrow> bool option \<Rightarrow> bool option \<Rightarrow> string option" where
  "endpoint_mismatch ep server port user encrypt trust =
     (let names = mismatched ep server port user encrypt trust in
      if names = [] then None
      else Some (''rmigd endpoint mismatch ('' @ join_with '', '' names @ ''): daemon serves ''
        @ ep_server ep @ '':'' @ ep_port ep @ '' as '' @ ep_user ep
        @ ''; reconnect directly or point RMIG_SESSION at a matching daemon''))"

fun refusal_for :: "Request \<Rightarrow> endpoint \<Rightarrow> response option" where
  "refusal_for (Ping server port user encrypt trust) ep =
     map_option err_response (endpoint_mismatch ep server port user encrypt trust)"
| "refusal_for _ ep = None"

subsection \<open>The state of the daemon\<close>

record client_conn =
  cc_input :: bytes
  cc_authenticated :: bool
  cc_waiting :: "Request option"

record ('w, 'c) daemon =
  dm_client :: "'c option"
  dm_holder :: "nat option"
  dm_requests :: "64 word"
  dm_reconnects :: "64 word"
  dm_queue_waits :: "64 word"
  dm_conns :: "nat \<rightharpoonup> client_conn"
  dm_world :: 'w

text \<open>
  \<open>ho_waited_ms\<close> is how long the last wait for the mutex took; \<open>ho_mode\<close> the permission bits of a
  directory; \<open>ho_answers\<close> whether a connection to a socket is accepted.
\<close>

record 'w host =
  ho_write :: "'w \<Rightarrow> nat \<Rightarrow> string \<Rightarrow> (string + unit) \<times> 'w"
  ho_uptime_s :: "'w \<Rightarrow> nat"
  ho_waited_ms :: "'w \<Rightarrow> nat"
  ho_response_json :: "response \<Rightarrow> string + string"
  ho_parse_request :: "string \<Rightarrow> string + Request"
  ho_getenv :: "string \<Rightarrow> string option"
  ho_exists :: "'w \<Rightarrow> string \<Rightarrow> bool"
  ho_mode :: "'w \<Rightarrow> string \<Rightarrow> string + 32 word"
  ho_answers :: "'w \<Rightarrow> string \<Rightarrow> bool"
  ho_remove_file :: "'w \<Rightarrow> string \<Rightarrow> (string + unit) \<times> 'w"
  ho_create_dir_all :: "'w \<Rightarrow> string \<Rightarrow> (string + unit) \<times> 'w"
  ho_set_mode :: "'w \<Rightarrow> string \<Rightarrow> 32 word \<Rightarrow> (string + unit) \<times> 'w"
  ho_bind :: "'w \<Rightarrow> string \<Rightarrow> (string + unit) \<times> 'w"

text \<open>What a handler is given: the client library, the host, the configuration and the token.\<close>

record ('w, 'c, 'r) serve_context =
  cx_tds :: "('w, 'c, 'r) tds"
  cx_host :: "'w host"
  cx_config :: config
  cx_published :: "string option"

definition cx_token_env :: "('w, 'c, 'r) serve_context \<Rightarrow> string option" where
  "cx_token_env cx = ho_getenv (cx_host cx) ''RMIG_SESSION_TOKEN''"

subsection \<open>Counters\<close>

definition record_request :: "('w, 'c) daemon \<Rightarrow> ('w, 'c) daemon" where
  "record_request d = d\<lparr>dm_requests := dm_requests d + 1\<rparr>"

definition record_reconnect :: "('w, 'c) daemon \<Rightarrow> ('w, 'c) daemon" where
  "record_reconnect d = d\<lparr>dm_reconnects := dm_reconnects d + 1\<rparr>"

definition record_queue_wait :: "('w, 'c) daemon \<Rightarrow> ('w, 'c) daemon" where
  "record_queue_wait d = d\<lparr>dm_queue_waits := dm_queue_waits d + 1\<rparr>"

definition snapshot_json :: "'w host \<Rightarrow> bool \<Rightarrow> ('w, 'c) daemon \<Rightarrow> string" where
  "snapshot_json ho warm d =
     ''{'' @ quoted_json ''uptime_s'' @ '':'' @ nat_to_string (ho_uptime_s ho (dm_world d))
     @ '','' @ quoted_json ''requests'' @ '':'' @ nat_to_string (unat (dm_requests d))
     @ '','' @ quoted_json ''reconnects'' @ '':'' @ nat_to_string (unat (dm_reconnects d))
     @ '','' @ quoted_json ''queue_waits'' @ '':'' @ nat_to_string (unat (dm_queue_waits d))
     @ '','' @ quoted_json ''warm_connection'' @ '':'' @ (if warm then ''true'' else ''false'') @ ''}''"

subsection \<open>Replies\<close>

definition write_response :: "'w host \<Rightarrow> nat \<Rightarrow> response \<Rightarrow> ('w, 'c) daemon \<Rightarrow> unit result \<times> ('w, 'c) daemon" where
  "write_response ho i resp d =
     (case ho_response_json ho resp of
        Inl e \<Rightarrow> (Inl (Other e), d)
      | Inr out \<Rightarrow>
          if length out > MAX_SESSION_LINE_BYTES then (Inl (InvalidInput ''response exceeds size limit''), d)
          else
            (let (r, w) = ho_write ho (dm_world d) i (out @ [LF]) in
             (map_sum Io id r, d\<lparr>dm_world := w\<rparr>)))"

subsection \<open>Requests on the warm client\<close>

definition rpc_query :: "('w, 'c, 'r) tds \<Rightarrow> 'c \<Rightarrow> string \<Rightarrow> string list \<Rightarrow> ('w, row_data list result) future" where
  "rpc_query td c sql params =
     try_then (query_tiberius td c (Text sql) params) (\<lambda>rows.
     ready (collect_results (map (from_tiberius td) rows)))"

definition ack :: "unit result \<Rightarrow> response" where
  "ack r = (case r of Inr _ \<Rightarrow> ok_empty | Inl e \<Rightarrow> err_response (error_to_string e))"

fun handle :: "('w, 'c, 'r) tds \<Rightarrow> 'c \<Rightarrow> Request \<Rightarrow> ('w, response) future" where
  "handle td c (Auth token) = ready (err_response ''auth must be handled before rpc dispatch'')"
| "handle td c (Ping server port user encrypt trust) = and_then (tds_ping td c) (\<lambda>r. ready (ack r))"
| "handle td c (Exec sql) = and_then (tds_exec td c (Text sql)) (\<lambda>r. ready (ack r))"
| "handle td c (Query sql params) =
     and_then (rpc_query td c sql params) (\<lambda>r.
       ready (case r of Inr rows \<Rightarrow> rows_response rows | Inl e \<Rightarrow> err_response (error_to_string e)))"
| "handle td c Stats = ready (err_response ''stats handled at daemon level'')"

definition cleanup_session :: "('w, 'c, 'r) tds \<Rightarrow> 'c \<Rightarrow> ('w, unit result) future" where
  "cleanup_session td c =
     try_then (tds_exec td c ROLLBACK_IF_OPEN) (\<lambda>_. tds_exec td c RELEASE_IF_HELD)"

definition reconnect :: "('w, 'c, 'r) serve_context \<Rightarrow> ('w, 'c) daemon \<Rightarrow> unit result \<times> ('w, 'c) daemon" where
  "reconnect cx d =
     (if dm_client d = None then
        (case connect (cx_tds cx) (cx_config cx) (dm_world d) of
           (Inl e, w) \<Rightarrow> (Inl e, d\<lparr>dm_world := w\<rparr>)
         | (Inr c, w) \<Rightarrow> (Inr (), record_reconnect (d\<lparr>dm_world := w, dm_client := Some c\<rparr>)))
      else (Inr (), d))"

text \<open>
  The mutex is free, or handler \<open>i\<close> has it, when this runs. The guard is dropped when the function
  returns without having stored it.
\<close>

definition acquire_session :: "('w, 'c, 'r) serve_context \<Rightarrow> nat \<Rightarrow> ('w, 'c) daemon \<Rightarrow> bool result \<times> ('w, 'c) daemon" where
  "acquire_session cx i d =
     (if dm_holder d = Some i then (Inr True, d)
      else
        (let d1 = (if ho_waited_ms (cx_host cx) (dm_world d) > WARM_SESSION_WAIT_WARN_MS
                   then record_queue_wait d else d)
         in case reconnect cx d1 of
              (Inl e, d2) \<Rightarrow>
                (case write_response (cx_host cx) i
                        (err_response (''rmigd: database reconnect failed: '' @ error_to_string e)) d2 of
                   (Inl e, d3) \<Rightarrow> (Inl e, d3)
                 | (Inr _, d3) \<Rightarrow> (Inr False, d3))
            | (Inr _, d2) \<Rightarrow> (Inr True, d2\<lparr>dm_holder := Some i\<rparr>)))"

definition dispatch ::
  "('w, 'c, 'r) tds \<Rightarrow> 'c option \<Rightarrow> Request \<Rightarrow> nat \<Rightarrow> 'w \<Rightarrow> response option result \<times> 'c option \<times> 'w" where
  "dispatch td session req t w =
     (case session of
        None \<Rightarrow> (Inl (Config ''rmigd: missing database session''), None, w)
      | Some c \<Rightarrow>
          (case timeout t (handle td c req) w of
             (Some resp, w') \<Rightarrow> (Inr (Some resp), Some c, w')
           | (None, w') \<Rightarrow> (Inr None, None, w')))"

subsection \<open>The loop of a handler\<close>

text \<open>How a turn of the loop ends, and what the read at its start met.\<close>

datatype turn = Continue | Stop "unit result" | NeedSession Request

datatype read_event = Ready | Idle | ReadError string

text \<open>One line of the peer's stream, the newline included, never more than the limit and one byte.\<close>

definition read_limited :: "bytes \<Rightarrow> bytes \<times> bytes" where
  "read_limited inp =
     (let l = take (MAX_SESSION_LINE_BYTES + 1) inp;
          line = takeWhile (\<lambda>c. c \<noteq> LF) l @ (if LF \<in> set l then [LF] else [])
      in (line, drop (length line) inp))"

definition reply :: "'w host \<Rightarrow> nat \<Rightarrow> response \<Rightarrow> turn \<Rightarrow> ('w, 'c) daemon \<Rightarrow> turn \<times> ('w, 'c) daemon" where
  "reply ho i resp t d =
     (case write_response ho i resp d of (Inl e, d') \<Rightarrow> (Stop (Inl e), d') | (Inr _, d') \<Rightarrow> (t, d'))"

text \<open>One parsed request, up to the point where the warm client is needed.\<close>

definition serve_request ::
  "('w, 'c, 'r) serve_context \<Rightarrow> nat \<Rightarrow> Request \<Rightarrow> client_conn \<Rightarrow> ('w, 'c) daemon \<Rightarrow> turn \<times> client_conn \<times> ('w, 'c) daemon" where
  "serve_request cx i req cc d =
     (let ho = cx_host cx in
      case req of
        Auth token \<Rightarrow>
          (case verify_token (cx_published cx) (cx_token_env cx) token of
             Inr _ \<Rightarrow> (let (t, d') = reply ho i ok_empty Continue d in (t, cc\<lparr>cc_authenticated := True\<rparr>, d'))
           | Inl e \<Rightarrow> (let (t, d') = reply ho i (err_response (error_to_string e)) (Stop (Inr ())) d in (t, cc, d')))
      | _ \<Rightarrow>
          if \<not> cc_authenticated cc then
            (let (t, d') = reply ho i (err_response ''rmigd: auth required (send Auth with RMIG_SESSION_TOKEN)'')
               (Stop (Inr ())) d in (t, cc, d'))
          else if req = Stats then
            (let warm = (if dm_holder d = None then dm_client d \<noteq> None else True);
                 (t, d') = reply ho i (stats_response (snapshot_json ho warm d)) Continue d in (t, cc, d'))
          else
            (case refusal_for req (endpoint_of (cx_config cx)) of
               Some resp \<Rightarrow> (let (t, d') = reply ho i resp (Stop (Inr ())) d in (t, cc, d'))
             | None \<Rightarrow> (NeedSession req, cc, d)))"

definition serve_turn ::
  "('w, 'c, 'r) serve_context \<Rightarrow> read_event \<Rightarrow> nat \<Rightarrow> client_conn \<Rightarrow> ('w, 'c) daemon \<Rightarrow> turn \<times> client_conn \<times> ('w, 'c) daemon" where
  "serve_turn cx ev i cc d =
     (case ev of
        Idle \<Rightarrow> (Stop (Inr ()), cc, d)
      | ReadError e \<Rightarrow> (Stop (Inl (Io e)), cc, d)
      | Ready \<Rightarrow>
          (let (line, rest) = read_limited (cc_input cc); cc1 = cc\<lparr>cc_input := rest\<rparr>; ho = cx_host cx in
           if \<not> is_utf8 line then (Stop (Inl (Io ''stream did not contain valid UTF-8'')), cc1, d)
           else if length line = 0 then (Stop (Inr ()), cc1, d)
           else if length line > MAX_SESSION_LINE_BYTES then
             (let (t, d') = reply ho i (err_response ''request line exceeds size limit'') (Stop (Inr ())) d
              in (t, cc1, d'))
           else
             (case ho_parse_request ho (trim line) of
                Inl e \<Rightarrow> (let (t, d') = reply ho i (err_response e) Continue d in (t, cc1, d'))
              | Inr req \<Rightarrow> serve_request cx i req cc1 d)))"

text \<open>The rest of the turn, with the mutex: acquire, count, dispatch, answer.\<close>

definition session_turn ::
  "('w, 'c, 'r) serve_context \<Rightarrow> nat \<Rightarrow> Request \<Rightarrow> ('w, 'c) daemon \<Rightarrow> turn \<times> ('w, 'c) daemon" where
  "session_turn cx i req d =
     (case acquire_session cx i d of
        (Inl e, d1) \<Rightarrow> (Stop (Inl e), d1)
      | (Inr False, d1) \<Rightarrow> (Stop (Inr ()), d1)
      | (Inr True, d1) \<Rightarrow>
          (let d2 = record_request d1 in
           case dispatch (cx_tds cx) (dm_client d2) req (cfg_command_timeout (cx_config cx)) (dm_world d2) of
             (r, session, w) \<Rightarrow>
               (let d3 = d2\<lparr>dm_client := session, dm_world := w\<rparr> in
                case r of
                  Inl e \<Rightarrow> (Stop (Inl e), d3)
                | Inr (Some resp) \<Rightarrow> reply (cx_host cx) i resp Continue d3
                | Inr None \<Rightarrow> reply (cx_host cx) i (err_response ''rmigd: request timed out'') (Stop (Inr ())) d3)))"

text \<open>The end of \<open>serve\<close>: the guard's client is cleaned, or discarded when that fails.\<close>

definition serve_exit :: "('w, 'c, 'r) serve_context \<Rightarrow> nat \<Rightarrow> ('w, 'c) daemon \<Rightarrow> ('w, 'c) daemon" where
  "serve_exit cx i d =
     (if dm_holder d = Some i then
        (case dm_client d of
           None \<Rightarrow> d\<lparr>dm_holder := None\<rparr>
         | Some c \<Rightarrow>
             (case block_on (cleanup_session (cx_tds cx) c) (dm_world d) of
                (Inr _, w) \<Rightarrow> d\<lparr>dm_world := w, dm_holder := None\<rparr>
              | (Inl e, w) \<Rightarrow> d\<lparr>dm_world := w, dm_client := None, dm_holder := None\<rparr>))
      else d)"

definition finish_turn ::
  "('w, 'c, 'r) serve_context \<Rightarrow> nat \<Rightarrow> client_conn \<Rightarrow> turn \<times> ('w, 'c) daemon \<Rightarrow> ('w, 'c) daemon" where
  "finish_turn cx i cc td =
     (case td of
        (Continue, d) \<Rightarrow> d\<lparr>dm_conns := (dm_conns d)(i \<mapsto> cc\<lparr>cc_waiting := None\<rparr>)\<rparr>
      | (NeedSession req, d) \<Rightarrow> d\<lparr>dm_conns := (dm_conns d)(i \<mapsto> cc\<lparr>cc_waiting := Some req\<rparr>)\<rparr>
      | (Stop r, d) \<Rightarrow> (let d' = serve_exit cx i d in d'\<lparr>dm_conns := (dm_conns d')(i := None)\<rparr>))"

subsection \<open>Acts of the daemon\<close>

definition new_conn :: "('w, 'c, 'r) serve_context \<Rightarrow> bytes \<Rightarrow> client_conn" where
  "new_conn cx inp =
     \<lparr>cc_input = inp, cc_authenticated = (\<not> token_required (cx_published cx) (cx_token_env cx)), cc_waiting = None\<rparr>"

text \<open>
  \<open>Accept i inp\<close>: a client whose stream will be \<open>inp\<close> gets a handler, if one of the slots is free.
  \<open>Turn i ev\<close>: handler \<open>i\<close> takes a turn. \<open>Grant i\<close>: handler \<open>i\<close>, waiting for the mutex,
  gets it. An act that is not possible is \<open>None\<close>.
\<close>

datatype act = Accept nat bytes | Turn nat read_event | Grant nat

fun daemon_act :: "('w, 'c, 'r) serve_context \<Rightarrow> act \<Rightarrow> ('w, 'c) daemon \<Rightarrow> ('w, 'c) daemon option" where
  "daemon_act cx (Accept i inp) d =
     (if dm_conns d i = None \<and> card (dom (dm_conns d)) < MAX_DAEMON_CLIENTS
      then Some (d\<lparr>dm_conns := (dm_conns d)(i \<mapsto> new_conn cx inp)\<rparr>) else None)"
| "daemon_act cx (Turn i ev) d =
     (case dm_conns d i of
        Some cc \<Rightarrow>
          if cc_waiting cc = None then
            (case serve_turn cx ev i cc d of
               (NeedSession req, cc', d') \<Rightarrow>
                 Some (if dm_holder d' = Some i then finish_turn cx i cc' (session_turn cx i req d')
                       else finish_turn cx i cc' (NeedSession req, d'))
             | (t, cc', d') \<Rightarrow> Some (finish_turn cx i cc' (t, d')))
          else None
      | None \<Rightarrow> None)"
| "daemon_act cx (Grant i) d =
     (case dm_conns d i of
        Some cc \<Rightarrow>
          (case cc_waiting cc of
             Some req \<Rightarrow> if dm_holder d = None then Some (finish_turn cx i cc (session_turn cx i req d)) else None
           | None \<Rightarrow> None)
      | None \<Rightarrow> None)"

subsection \<open>The socket and the start\<close>

definition rmig_dir :: "'w host \<Rightarrow> string" where
  "rmig_dir ho = (case ho_getenv ho ''HOME'' of Some home \<Rightarrow> path_join home ''.rmig'' | None \<Rightarrow> ''.rmig'')"

definition default_socket_path :: "'w host \<Rightarrow> string" where
  "default_socket_path ho = path_join (rmig_dir ho) ''rmigd.sock''"

definition restrict_dir_mode :: "'w host \<Rightarrow> string \<Rightarrow> 'w \<Rightarrow> unit result \<times> 'w" where
  "restrict_dir_mode ho path w = (let (r, w') = ho_set_mode ho w path 0x1C0 in (map_sum Io id r, w'))"

definition restrict_socket_mode :: "'w host \<Rightarrow> string \<Rightarrow> 'w \<Rightarrow> unit result \<times> 'w" where
  "restrict_socket_mode ho path w = (let (r, w') = ho_set_mode ho w path 0x180 in (map_sum Io id r, w'))"

text \<open>The octal form \<open>{:o}\<close>.\<close>

fun nat_to_octal :: "nat \<Rightarrow> string" where
  "nat_to_octal n = (if n < 8 then nat_to_string n else nat_to_octal (n div 8) @ nat_to_string (n mod 8))"

declare nat_to_octal.simps [simp del]

definition ensure_private_parent :: "'w host \<Rightarrow> string \<Rightarrow> 'w \<Rightarrow> unit result \<times> 'w" where
  "ensure_private_parent ho parent w =
     (if \<not> ho_exists ho w parent then
        (case ho_create_dir_all ho w parent of
           (Inl e, w') \<Rightarrow> (Inl (Io e), w')
         | (Inr _, w') \<Rightarrow> restrict_dir_mode ho parent w')
      else
        (case ho_mode ho w parent of
           Inl e \<Rightarrow> (Inl (Io e), w)
         | Inr mode \<Rightarrow>
             if mode AND 0x3F \<noteq> 0 then
               (Inl (Config (''socket parent '' @ parent @ '' is group/world accessible (mode ''
                  @ nat_to_octal (unat (mode AND 0x1FF))
                  @ ''); point RMIGD_SOCKET at a private directory (0700) or a new path'')), w)
             else (Inr (), w)))"

text \<open>The check of the socket's directory, which \<open>resolve_socket_path\<close> and \<open>run_daemon\<close> share.\<close>

definition private_parent_of :: "'w host \<Rightarrow> string \<Rightarrow> 'w \<Rightarrow> unit result \<times> 'w" where
  "private_parent_of ho path w =
     (case path_parent path of
        Some parent \<Rightarrow> if parent \<noteq> [] then ensure_private_parent ho parent w else (Inr (), w)
      | None \<Rightarrow> (Inr (), w))"

definition resolve_socket_path :: "'w host \<Rightarrow> 'w \<Rightarrow> string result \<times> 'w" where
  "resolve_socket_path ho w =
     (let path = (case ho_getenv ho ''RMIGD_SOCKET'' of Some p \<Rightarrow> p | None \<Rightarrow> default_socket_path ho) in
      case private_parent_of ho path w of (Inl e, w') \<Rightarrow> (Inl e, w') | (Inr _, w') \<Rightarrow> (Inr path, w'))"

text \<open>A socket file that a live daemon answers is left alone; a stale one is removed.\<close>

definition clear_stale_socket :: "'w host \<Rightarrow> string \<Rightarrow> 'w \<Rightarrow> unit result \<times> 'w" where
  "clear_stale_socket ho socket w =
     (if ho_exists ho w socket then
        if ho_answers ho w socket then
          (Inl (Other (''rmigd: a daemon is already listening on '' @ socket)), w)
        else (let (r, w') = ho_remove_file ho w socket in (map_sum Io id r, w'))
      else (Inr (), w))"

definition effective_socket :: "config \<Rightarrow> string \<Rightarrow> string" where
  "effective_socket cfg socket = (if cfg_session_socket cfg \<noteq> [] then cfg_session_socket cfg else socket)"

text \<open>\<open>run_daemon\<close> up to its accept loop: the state the loop starts in.\<close>

definition daemon_context :: "('w, 'c, 'r) tds \<Rightarrow> 'w host \<Rightarrow> config \<Rightarrow> string option \<Rightarrow> ('w, 'c, 'r) serve_context" where
  "daemon_context td ho cfg published =
     \<lparr>cx_tds = td, cx_host = ho, cx_config = cfg, cx_published = apply_session_token_from_config cfg published\<rparr>"

definition start_daemon :: "('w, 'c, 'r) serve_context \<Rightarrow> string \<Rightarrow> 'w \<Rightarrow> ('w, 'c) daemon result \<times> 'w" where
  "start_daemon cx socket_arg w =
     (let ho = cx_host cx; socket = effective_socket (cx_config cx) socket_arg in
      case connect (cx_tds cx) (cx_config cx) w of
        (Inl e, w) \<Rightarrow> (Inl e, w)
      | (Inr c, w) \<Rightarrow>
          (case clear_stale_socket ho socket w of
             (Inl e, w) \<Rightarrow> (Inl e, w)
           | (Inr _, w) \<Rightarrow>
               (case private_parent_of ho socket w of
                  (Inl e, w) \<Rightarrow> (Inl e, w)
                | (Inr _, w) \<Rightarrow>
                    (case ho_bind ho w socket of
                       (Inl e, w) \<Rightarrow> (Inl (Io e), w)
                     | (Inr _, w) \<Rightarrow>
                         (case restrict_socket_mode ho socket w of
                            (Inl e, w) \<Rightarrow> (Inl e, w)
                          | (Inr _, w) \<Rightarrow>
                              (Inr \<lparr>dm_client = Some c, dm_holder = None, dm_requests = 0, dm_reconnects = 0,
                                    dm_queue_waits = 0, dm_conns = Map.empty, dm_world = w\<rparr>, w))))))"

end
