(* ===== verification/Session_Calls.thy ===== *)
theory Session_Calls
  imports Session
begin

section \<open>What the daemon sends to the server\<close>

text \<open>
  The specification side of the session daemon: \<open>recording_tds\<close> and \<open>recording_host\<close> are the same
  outside over a state that also lists what the client library is asked, and the lemmas say which
  events each operation adds.
\<close>

datatype 'c tds_event = Opened 'c | Sent 'c stmt "string list" bool | Drained 'c bool

fun event_client :: "'c tds_event \<Rightarrow> 'c" where
  "event_client (Opened c) = c"
| "event_client (Sent c s ps ok) = c"
| "event_client (Drained c ok) = c"

definition noting :: "('w \<Rightarrow> bool \<times> (string + 'a) \<times> 'w) \<Rightarrow> (string + 'a \<Rightarrow> 'e list)
    \<Rightarrow> 'w \<times> 'e list \<Rightarrow> bool \<times> (string + 'a) \<times> 'w \<times> 'e list" where
  "noting call note wl =
     (let (late, r, w') = call (fst wl) in (late, r, w', snd wl @ note r))"

definition recording_tds :: "('w, 'c, 'r) tds \<Rightarrow> ('w \<times> 'c tds_event list, 'c, 'r) tds" where
  "recording_tds td =
     \<lparr>td_tcp_connect = (\<lambda>wl addr. noting (\<lambda>w. td_tcp_connect td w addr) (\<lambda>r. []) wl),
      td_handshake = (\<lambda>wl tc. noting (\<lambda>w. td_handshake td w tc)
        (\<lambda>r. case r of Inr c \<Rightarrow> [Opened c] | Inl _ \<Rightarrow> []) wl),
      td_simple_query = (\<lambda>wl c s. noting (\<lambda>w. td_simple_query td w c s) (\<lambda>r. [Sent c s [] (\<not> isl r)]) wl),
      td_query = (\<lambda>wl c s ps. noting (\<lambda>w. td_query td w c s ps) (\<lambda>r. [Sent c s ps (\<not> isl r)]) wl),
      td_into_results = (\<lambda>wl c. noting (\<lambda>w. td_into_results td w c) (\<lambda>r. [Drained c (\<not> isl r)]) wl),
      td_into_first_result = (\<lambda>wl c. noting (\<lambda>w. td_into_first_result td w c) (\<lambda>r. [Drained c (\<not> isl r)]) wl),
      td_columns = td_columns td, td_get_bytes = td_get_bytes td, td_get_str = td_get_str td,
      td_get_bool = td_get_bool td, td_get_i16 = td_get_i16 td, td_get_i32 = td_get_i32 td,
      td_get_i64 = td_get_i64 td, td_get_u8 = td_get_u8 td\<rparr>"

definition recording_host :: "'w host \<Rightarrow> ('w \<times> 'e list) host" where
  "recording_host ho =
     \<lparr>ho_write = (\<lambda>(w, l) i s. let (r, w') = ho_write ho w i s in (r, w', l)),
      ho_uptime_s = ho_uptime_s ho \<circ> fst, ho_waited_ms = ho_waited_ms ho \<circ> fst,
      ho_response_json = ho_response_json ho, ho_parse_request = ho_parse_request ho,
      ho_getenv = ho_getenv ho, ho_exists = ho_exists ho \<circ> fst, ho_mode = ho_mode ho \<circ> fst,
      ho_answers = ho_answers ho \<circ> fst,
      ho_remove_file = (\<lambda>(w, l) f. let (r, w') = ho_remove_file ho w f in (r, w', l)),
      ho_create_dir_all = (\<lambda>(w, l) f. let (r, w') = ho_create_dir_all ho w f in (r, w', l)),
      ho_set_mode = (\<lambda>(w, l) f m. let (r, w') = ho_set_mode ho w f m in (r, w', l)),
      ho_bind = (\<lambda>(w, l) f. let (r, w') = ho_bind ho w f in (r, w', l))\<rparr>"

definition recording_context :: "('w, 'c, 'r) serve_context \<Rightarrow> ('w \<times> 'c tds_event list, 'c, 'r) serve_context" where
  "recording_context cx =
     \<lparr>cx_tds = recording_tds (cx_tds cx), cx_host = recording_host (cx_host cx),
      cx_config = cx_config cx, cx_published = cx_published cx\<rparr>"

lemma recording_context_simps [simp]:
  "cx_tds (recording_context cx) = recording_tds (cx_tds cx)"
  "cx_host (recording_context cx) = recording_host (cx_host cx)"
  "cx_config (recording_context cx) = cx_config cx"
  "cx_published (recording_context cx) = cx_published cx"
  "cx_token_env (recording_context cx) = cx_token_env cx"
  "ho_parse_request (recording_host ho) = ho_parse_request ho"
  "ho_response_json (recording_host ho) = ho_response_json ho"
  "ho_getenv (recording_host ho) = ho_getenv ho"
  by (simp_all add: recording_context_def recording_host_def cx_token_env_def)

subsection \<open>The events of a future\<close>

definition emits :: "('w \<times> 'e list, 'a) future \<Rightarrow> ('a option \<Rightarrow> 'e list \<Rightarrow> bool) \<Rightarrow> bool" where
  "emits fut Q \<longleftrightarrow> (\<forall>b wl r wl'. fut b wl = (r, wl') \<longrightarrow> (\<exists>es. snd wl' = snd wl @ es \<and> Q r es))"

lemma emitsD: "emits fut Q \<Longrightarrow> fut b wl = (r, wl') \<Longrightarrow> \<exists>es. snd wl' = snd wl @ es \<and> Q r es"
  unfolding emits_def by blast

lemma emits_mono: "emits fut P \<Longrightarrow> (\<And>r es. P r es \<Longrightarrow> Q r es) \<Longrightarrow> emits fut Q"
  unfolding emits_def by blast

lemma emits_ready: "Q (Some a) [] \<Longrightarrow> emits (ready a) Q"
  by (simp add: emits_def)

lemma emits_await: "(\<And>r. Q None (note r) \<and> Q (Some r) (note r)) \<Longrightarrow> emits (await (noting call note)) Q"
  unfolding emits_def await_def noting_def by (auto split: prod.splits)

lemma emits_and_then:
  assumes f: "emits fut P" and k: "\<And>a. emits (k a) (R a)"
    and none: "\<And>es. P None es \<Longrightarrow> Q None es"
    and some: "\<And>a es fs r. P (Some a) es \<Longrightarrow> R a r fs \<Longrightarrow> Q r (es @ fs)"
  shows "emits (and_then fut k) Q"
  unfolding emits_def
proof (intro allI impI)
  fix b wl r wl'
  assume run: "and_then fut k b wl = (r, wl')"
  obtain x wl1 where x: "fut b wl = (x, wl1)"
    by (metis surj_pair)
  obtain es where es: "snd wl1 = snd wl @ es" "P x es"
    using emitsD [OF f x] by blast
  show "\<exists>es. snd wl' = snd wl @ es \<and> Q r es"
  proof (cases x)
    case None
    with run x es none show ?thesis by (auto simp: and_then_def)
  next
    case (Some a)
    with run x have "k a b wl1 = (r, wl')" by (simp add: and_then_def)
    then obtain fs where "snd wl' = snd wl1 @ fs" "R a r fs"
      using emitsD [OF k] by blast
    with es Some some show ?thesis by auto
  qed
qed

lemma emits_map_err: "emits fut P \<Longrightarrow> (\<And>es. P None es \<Longrightarrow> Q None es)
    \<Longrightarrow> (\<And>r es. P (Some r) es \<Longrightarrow> Q (Some (map_sum f id r)) es) \<Longrightarrow> emits (map_err f fut) Q"
  unfolding map_err_def
  by (rule emits_and_then [where P = P and R = "\<lambda>a r es. r = Some (map_sum f id a) \<and> es = []"])
    (auto intro: emits_ready)

lemma emits_try_then:
  assumes f: "emits fut P" and k: "\<And>a. emits (k a) (R a)"
    and none: "\<And>es. P None es \<Longrightarrow> Q None es"
    and err: "\<And>e es. P (Some (Inl e)) es \<Longrightarrow> Q (Some (Inl e)) es"
    and some: "\<And>a es fs r. P (Some (Inr a)) es \<Longrightarrow> R a r fs \<Longrightarrow> Q r (es @ fs)"
  shows "emits (try_then fut k) Q"
  unfolding try_then_def
proof (rule emits_and_then [OF f, where R = "\<lambda>x r es. case x of Inl e \<Rightarrow> r = Some (Inl e) \<and> es = [] | Inr a \<Rightarrow> R a r es"])
  fix x
  show "emits (case x of Inl e \<Rightarrow> ready (Inl e) | Inr a \<Rightarrow> k a)
      (\<lambda>r es. case x of Inl e \<Rightarrow> r = Some (Inl e) \<and> es = [] | Inr a \<Rightarrow> R a r es)"
    by (cases x) (auto intro: emits_ready k)
qed (auto simp: none err some split: sum.splits)

subsection \<open>The events of the operations\<close>

definition on_client :: "'c \<Rightarrow> 'c tds_event list \<Rightarrow> bool" where
  "on_client c es \<longleftrightarrow> list_all (\<lambda>e. event_client e = c) es"

lemma on_client_simps [simp]:
  "on_client c []" "on_client c (es @ fs) \<longleftrightarrow> on_client c es \<and> on_client c fs"
  "on_client c (e # es) \<longleftrightarrow> event_client e = c \<and> on_client c es"
  by (simp_all add: on_client_def)

text \<open>The events of a statement that ended well.\<close>

definition executed :: "'c \<Rightarrow> stmt \<Rightarrow> 'c tds_event list" where
  "executed c s = [Sent c s [] True, Drained c True]"

lemma map_sum_Inr: "map_sum f id r = Inr a \<longleftrightarrow> r = Inr a"
  by (cases r) auto

lemma emits_simple_query:
  "emits (map_err Sql (await (\<lambda>w. td_simple_query (recording_tds td) w c s)))
     (\<lambda>r es. es = [Sent c s [] True] \<or> es = [Sent c s [] False] \<and> (\<forall>a. r \<noteq> Some (Inr a)))"
  unfolding recording_tds_def tds.simps
  by (rule emits_map_err [OF emits_await [where Q = "\<lambda>r es. es = [Sent c s [] True] \<or> es = [Sent c s [] False] \<and> (\<forall>a. r \<noteq> Some (Inr a))"]])
    (auto simp: isl_def map_sum_Inr split: sum.splits)

lemma emits_into_results:
  "emits (map_err Sql (await (\<lambda>w. td_into_results (recording_tds td) w c)))
     (\<lambda>r es. es = [Drained c True] \<or> es = [Drained c False] \<and> (\<forall>a. r \<noteq> Some (Inr a)))"
  unfolding recording_tds_def tds.simps
  by (rule emits_map_err [OF emits_await [where Q = "\<lambda>r es. es = [Drained c True] \<or> es = [Drained c False] \<and> (\<forall>a. r \<noteq> Some (Inr a))"]])
    (auto simp: isl_def map_sum_Inr split: sum.splits)

lemma emits_exec:
  "emits (tds_exec (recording_tds td) c s) (\<lambda>r es. on_client c es \<and> (\<forall>u. r = Some (Inr u) \<longrightarrow> es = executed c s))"
  unfolding tds_exec_def
proof (rule emits_try_then [OF emits_simple_query])
  show "emits (try_then (map_err Sql (await (\<lambda>w. td_into_results (recording_tds td) w c))) (\<lambda>_. ready (Inr ())))
      (\<lambda>r es. on_client c es \<and> (\<forall>u. r = Some (Inr u) \<longrightarrow> es = [Drained c True]))"
    by (rule emits_try_then [OF emits_into_results emits_ready [where Q = "\<lambda>r es. es = []"]]) auto
qed (auto simp: executed_def)

lemma emits_ping: "emits (tds_ping (recording_tds td) c) (\<lambda>r es. on_client c es)"
  unfolding tds_ping_def by (rule emits_mono [OF emits_simple_query]) auto

lemma emits_query: "emits (query_tiberius (recording_tds td) c s ps) (\<lambda>r es. on_client c es)"
  unfolding query_tiberius_def recording_tds_def tds.simps
  apply (rule emits_try_then [where P = "\<lambda>r es. on_client c es" and R = "\<lambda>a r es. on_client c es"])
  by (auto intro!: emits_map_err [where P = "\<lambda>r es. on_client c es"] emits_await)

lemma emits_handle: "emits (handle (recording_tds td) c req) (\<lambda>r es. on_client c es)"
proof -
  have q: "emits (rpc_query (recording_tds td) c sql ps) (\<lambda>r es. on_client c es)" for sql ps
    unfolding rpc_query_def
    by (rule emits_try_then [OF emits_query emits_ready [where Q = "\<lambda>r es. es = []"]]) auto
  show ?thesis
    by (cases req)
      (auto intro!: emits_ready emits_and_then [OF emits_ping emits_ready [where Q = "\<lambda>r es. es = []"]]
        emits_and_then [OF emits_exec emits_ready [where Q = "\<lambda>r es. es = []"]]
        emits_and_then [OF q emits_ready [where Q = "\<lambda>r es. es = []"]])
qed

text \<open>The statements that put a client back into its initial state.\<close>

definition cleaned :: "'c \<Rightarrow> 'c tds_event list" where
  "cleaned c = executed c ROLLBACK_IF_OPEN @ executed c RELEASE_IF_HELD"

lemma emits_cleanup:
  "emits (cleanup_session (recording_tds td) c) (\<lambda>r es. on_client c es \<and> (\<forall>u. r = Some (Inr u) \<longrightarrow> es = cleaned c))"
  unfolding cleanup_session_def
  by (rule emits_try_then [OF emits_exec emits_exec]) (auto simp: cleaned_def)

text \<open>The events of a new connection.\<close>

definition opened :: "'c \<Rightarrow> 'c tds_event list" where
  "opened c = Opened c # executed c (Text ''SET QUOTED_IDENTIFIER ON; SET ANSI_NULLS ON; SET ANSI_PADDING ON;'')"

lemma waits_handle [intro]: "waits (handle td c req)"
  by (cases req) (auto simp: rpc_query_def)

lemma waits_cleanup [intro]: "waits (cleanup_session td c)"
  by (auto simp: cleanup_session_def)

text \<open>What a completed connection attempt added, and which events only its own client has.\<close>

definition connect_log :: "'c result \<Rightarrow> 'c tds_event list \<Rightarrow> bool" where
  "connect_log r es \<longleftrightarrow> (\<forall>c. r = Inr c \<longrightarrow> suffix (opened c) es)"

lemma with_connect_timeout_emits:
  assumes "emits fut Q" and "with_connect_timeout t addr what fut wl = (r, wl')"
  shows "\<exists>es. snd wl' = snd wl @ es \<and> (case r of Inr a \<Rightarrow> Q (Some a) es | Inl e \<Rightarrow> Q None es)"
proof -
  obtain x wl1 where "fut (t \<noteq> 0) wl = (x, wl1)"
    by (metis surj_pair)
  with emitsD [OF assms(1) this] assms(2) show ?thesis
    by (auto simp: with_connect_timeout_def timeout_def split: option.splits)
qed

lemma connect_once_log:
  assumes "connect_once (recording_tds td) cfg wl = (r, wl')"
  shows "\<exists>es. snd wl' = snd wl @ es \<and> connect_log r es"
proof (cases "select_auth_method cfg")
  case (Inl e)
  with assms show ?thesis by (auto simp: connect_once_def connect_log_def)
next
  case (Inr auth)
  define addr where "addr = cfg_server cfg @ '':'' @ cfg_port cfg"
  define t where "t = cfg_command_timeout cfg"
  obtain r1 wl1 where 1: "with_connect_timeout t addr ''tcp connect''
      (await (\<lambda>w. td_tcp_connect (recording_tds td) w addr)) wl = (r1, wl1)"
    by (metis surj_pair)
  obtain r2 wl2 where 2: "with_connect_timeout t addr ''tds handshake''
      (await (\<lambda>w. td_handshake (recording_tds td) w (tds_config_of cfg auth))) wl1 = (r2, wl2)"
    by (metis surj_pair)
  have e1: "emits (await (\<lambda>w. td_tcp_connect (recording_tds td) w addr)) (\<lambda>r es. es = [])"
    unfolding recording_tds_def tds.simps by (rule emits_await) simp
  have e2: "emits (await (\<lambda>w. td_handshake (recording_tds td) w tc))
      (\<lambda>r es. \<forall>c. r = Some (Inr c) \<longrightarrow> es = [Opened c])" for tc
    unfolding recording_tds_def tds.simps by (rule emits_await) simp
  have s1: "snd wl1 = snd wl"
    using with_connect_timeout_emits [OF e1 1] by (auto split: sum.splits)
  obtain es2 where s2: "snd wl2 = snd wl1 @ es2" "\<forall>c. r2 = Inr (Inr c) \<longrightarrow> es2 = [Opened c]"
    using with_connect_timeout_emits [OF e2 2] by (cases r2) auto
  show ?thesis
  proof (cases "\<exists>c. r1 = Inr (Inr ()) \<and> r2 = Inr (Inr c)")
    case False
    then have "connect_once (recording_tds td) cfg wl
        = (if \<exists>u. r1 = Inr (Inr u) then (case r2 of Inl e \<Rightarrow> (Inl e, wl2)
             | Inr (Inl e) \<Rightarrow> (Inl (Conn (''connect '' @ addr @ '': tds handshake: '' @ e)), wl2)
             | Inr (Inr c) \<Rightarrow> undefined)
           else (case r1 of Inl e \<Rightarrow> (Inl e, wl1) | Inr (Inl e) \<Rightarrow> (Inl (Conn (''connect '' @ addr @ '': '' @ e)), wl1)))"
      using Inr 1 2 by (auto simp: connect_once_def addr_def t_def Let_def split: sum.splits)
    with assms False s1 s2 show ?thesis
      by (auto simp: connect_log_def split: sum.splits if_splits)
  next
    case True
    then obtain c where c: "r1 = Inr (Inr ())" "r2 = Inr (Inr c)" by blast
    obtain r3 wl3 where 3: "with_connect_timeout t addr ''session init'' (init_session (recording_tds td) c) wl2 = (r3, wl3)"
      by (metis surj_pair)
    have e3: "emits (init_session (recording_tds td) c) (\<lambda>r es. \<forall>u. r = Some (Inr u) \<longrightarrow> Opened c # es = opened c)"
      unfolding init_session_def by (rule emits_mono [OF emits_exec]) (simp add: opened_def)
    obtain es3 where s3: "snd wl3 = snd wl2 @ es3" "\<forall>u. r3 = Inr (Inr u) \<longrightarrow> Opened c # es3 = opened c"
      using with_connect_timeout_emits [OF e3 3] by (cases r3) auto
    have "connect_once (recording_tds td) cfg wl
        = ((case r3 of Inl e \<Rightarrow> Inl e | Inr (Inl e) \<Rightarrow> Inl e | Inr (Inr _) \<Rightarrow> Inr c), wl3)"
      using Inr 1 2 3 c by (auto simp: connect_once_def addr_def t_def Let_def split: sum.splits)
    with assms s1 s2 s3 c show ?thesis
      by (auto simp: connect_log_def suffix_def split: sum.splits)
  qed
qed

lemma connect_loop_log:
  "connect_loop (recording_tds td) cfg n wl = (r, wl') \<Longrightarrow> \<exists>es. snd wl' = snd wl @ es \<and> connect_log r es"
proof (induction "recording_tds td" cfg n wl arbitrary: r wl' rule: connect_loop.induct)
  case (1 cfg n wl)
  obtain r1 wl1 where 1: "connect_once (recording_tds td) cfg wl = (r1, wl1)"
    by (metis surj_pair)
  obtain es where es: "snd wl1 = snd wl @ es" "connect_log r1 es"
    using connect_once_log [OF 1] by blast
  show ?case
  proof (cases "\<exists>msg. r1 = Inl (Conn msg) \<and> n < MAX_ATTEMPTS")
    case True
    then obtain msg where msg: "r1 = Inl (Conn msg)" "n < MAX_ATTEMPTS" by blast
    then have "connect_loop (recording_tds td) cfg (n + 1) wl1 = (r, wl')"
      using "1.prems" 1 by (simp add: connect_loop.simps [of _ _ n])
    from "1.hyps" [OF 1 [symmetric] msg(1) refl msg(2) this] obtain fs where "snd wl' = snd wl1 @ fs" "connect_log r fs"
      by blast
    with es show ?thesis
      by (auto simp: connect_log_def suffix_append intro!: exI [of _ "es @ fs"])
  next
    case False
    then have "(r, wl') = (r1, wl1)"
      using "1.prems" 1 by (auto simp: connect_loop.simps [of _ _ n] split: sum.splits error.splits)
    with es show ?thesis by auto
  qed
qed

lemma connect_logs:
  "connect (recording_tds td) cfg wl = (r, wl') \<Longrightarrow> \<exists>es. snd wl' = snd wl @ es \<and> connect_log r es"
  unfolding connect_def by (rule connect_loop_log)

end
