(* ===== verification/Session_Client.thy ===== *)
theory Session_Client
  imports Session Cli
begin

section \<open>Clients of the session daemon, and its program\<close>

text \<open>
  \<open>session/proxy.rs\<close> and \<open>session/client.rs\<close> (the command line's side of the socket, with the
  fallback to a direct connection), \<open>driver/db_client.rs\<close> (one interface over both), and the
  program \<open>crates/rmigd/src/main.rs\<close>. The socket and the JSON codec are the parameter
  \<open>proxy_io\<close>, a stream being of the type \<open>'p\<close>; \<open>px_read_line\<close> reads a line of at most the given
  number of bytes.
\<close>

record ('w, 'p) proxy_io =
  px_connect :: "'w \<Rightarrow> string \<Rightarrow> bool \<times> (string + 'p) \<times> 'w"
  px_write :: "'w \<Rightarrow> 'p \<Rightarrow> string \<Rightarrow> bool \<times> (string + unit) \<times> 'w"
  px_read_line :: "'w \<Rightarrow> 'p \<Rightarrow> nat \<Rightarrow> bool \<times> (string + string) \<times> 'w"
  px_request_json :: "Request \<Rightarrow> string + string"
  px_parse_response :: "string \<Rightarrow> string + response"

subsection \<open>The proxy client\<close>

definition proxy_call :: "('w, 'p) proxy_io \<Rightarrow> 'p \<Rightarrow> Request \<Rightarrow> ('w, response result) future" where
  "proxy_call px p req =
     (case px_request_json px req of
        Inl e \<Rightarrow> ready (Inl (Other e))
      | Inr line \<Rightarrow>
          if length line > MAX_SESSION_LINE_BYTES then ready (Inl (InvalidInput ''rmigd request exceeds size limit''))
          else
            try_then (map_err Other (await (\<lambda>w. px_write px w p (line @ [LF])))) (\<lambda>_.
            try_then (map_err Other (await (\<lambda>w. px_read_line px w p (MAX_SESSION_LINE_BYTES + 1)))) (\<lambda>resp_line.
              if length resp_line > MAX_SESSION_LINE_BYTES
              then ready (Inl (InvalidInput ''rmigd response exceeds size limit''))
              else ready (map_sum Other id (px_parse_response px resp_line)))))"

definition call_ok :: "('w, 'p) proxy_io \<Rightarrow> 'p \<Rightarrow> Request \<Rightarrow> ('w, unit result) future" where
  "call_ok px p req =
     try_then (proxy_call px p req) (\<lambda>resp. ready (map_sum id (\<lambda>_. ()) (into_result resp)))"

definition proxy_exec :: "('w, 'p) proxy_io \<Rightarrow> 'p \<Rightarrow> string \<Rightarrow> ('w, unit result) future" where
  "proxy_exec px p sql = call_ok px p (Exec sql)"

definition proxy_query :: "('w, 'p) proxy_io \<Rightarrow> 'p \<Rightarrow> string \<Rightarrow> string list \<Rightarrow> ('w, row_data list result) future" where
  "proxy_query px p sql params = try_then (proxy_call px p (Query sql params)) (\<lambda>resp. ready (into_result resp))"

definition proxy_connect_inner ::
  "('w, 'p) proxy_io \<Rightarrow> string option \<Rightarrow> string option \<Rightarrow> string \<Rightarrow> config \<Rightarrow> ('w, 'p result) future" where
  "proxy_connect_inner px published env socket_path cfg =
     try_then (map_err (\<lambda>e. Config (''rmigd connect '' @ socket_path @ '': '' @ e))
                 (await (\<lambda>w. px_connect px w socket_path))) (\<lambda>p.
     let token = resolve_session_token (Some cfg) published env in
     try_then (if token \<noteq> [] then call_ok px p (Auth token) else ready (Inr ())) (\<lambda>_.
     try_then (call_ok px p (request_ping cfg)) (\<lambda>_.
     ready (Inr p))))"

definition proxy_connect ::
  "('w, 'p) proxy_io \<Rightarrow> string option \<Rightarrow> string option \<Rightarrow> string \<Rightarrow> config \<Rightarrow> 'w \<Rightarrow> 'p result \<times> 'w" where
  "proxy_connect px published env socket_path cfg w =
     (case timeout (cfg_command_timeout cfg) (proxy_connect_inner px published env socket_path cfg) w of
        (Some r, w') \<Rightarrow> (r, w')
      | (None, w') \<Rightarrow>
          (Inl (Config (''rmigd connect '' @ socket_path @ '': timed out after ''
             @ duration_debug (cfg_command_timeout cfg))), w'))"

subsection \<open>One client over both connections\<close>

datatype ('c, 'p) DbClient = Direct 'c | Proxy 'p

text \<open>\<open>sql_text\<close> gives the text of a statement, the SQL files of the repository among them.\<close>

fun db_exec ::
  "('w, 'c, 'r) tds \<Rightarrow> ('w, 'p) proxy_io \<Rightarrow> (stmt \<Rightarrow> string) \<Rightarrow> ('c, 'p) DbClient \<Rightarrow> stmt \<Rightarrow> ('w, unit result) future" where
  "db_exec td px sql_text (Direct c) sql = tds_exec td c sql"
| "db_exec td px sql_text (Proxy p) sql = proxy_exec px p (sql_text sql)"

fun db_query ::
  "('w, 'c, 'r) tds \<Rightarrow> ('w, 'p) proxy_io \<Rightarrow> (stmt \<Rightarrow> string) \<Rightarrow> ('c, 'p) DbClient \<Rightarrow> stmt \<Rightarrow> string list
    \<Rightarrow> ('w, row_data list result) future" where
  "db_query td px sql_text (Direct c) sql params =
     try_then (query_tiberius td c sql params) (\<lambda>rows. ready (collect_results (map (from_tiberius td) rows)))"
| "db_query td px sql_text (Proxy p) sql params = proxy_query px p (sql_text sql) params"

fun db_query_all ::
  "('w, 'c, 'r) tds \<Rightarrow> ('w, 'p) proxy_io \<Rightarrow> (stmt \<Rightarrow> string) \<Rightarrow> ('c, 'p) DbClient \<Rightarrow> stmt \<Rightarrow> string list
    \<Rightarrow> ('w, row_data list list result) future" where
  "db_query_all td px sql_text (Direct c) sql params =
     try_then (query_all_results td c sql params) (\<lambda>sets.
     ready (collect_results (map (\<lambda>rows. collect_results (map (from_tiberius td) rows)) sets)))"
| "db_query_all td px sql_text (Proxy p) sql params =
     try_then (proxy_query px p (sql_text sql) params) (\<lambda>rows. ready (Inr [rows]))"

subsection \<open>Connecting\<close>

definition use_database :: "('w, 'p) proxy_io \<Rightarrow> 'p \<Rightarrow> config \<Rightarrow> 'w \<Rightarrow> unit result \<times> 'w" where
  "use_database px p cfg w =
     (case bracket_ident (cfg_database cfg) of
        Inl e \<Rightarrow> (Inl e, w)
      | Inr quoted \<Rightarrow>
          (case timeout (cfg_command_timeout cfg) (proxy_exec px p (''USE '' @ quoted)) w of
             (Some r, w') \<Rightarrow> (r, w')
           | (None, w') \<Rightarrow>
               (Inl (Config (''rmigd session init (USE) timed out after '' @ duration_debug (cfg_command_timeout cfg))), w')))"

definition connect_daemon ::
  "('w, 'p) proxy_io \<Rightarrow> string option \<Rightarrow> string option \<Rightarrow> string \<Rightarrow> config \<Rightarrow> 'w \<Rightarrow> ('c, 'p) DbClient result \<times> 'w" where
  "connect_daemon px published env socket_path cfg w =
     (case proxy_connect px published env socket_path cfg w of
        (Inl e, w) \<Rightarrow> (Inl e, w)
      | (Inr p, w) \<Rightarrow>
          if cfg_database cfg \<noteq> [] then
            (case use_database px p cfg w of (Inl e, w) \<Rightarrow> (Inl e, w) | (Inr _, w) \<Rightarrow> (Inr (Proxy p), w))
          else (Inr (Proxy p), w))"

definition connect_direct :: "('w, 'c, 'r) tds \<Rightarrow> config \<Rightarrow> 'w \<Rightarrow> ('c, 'p) DbClient result \<times> 'w" where
  "connect_direct td cfg w = (let (r, w') = connect td cfg w in (map_sum id Direct r, w'))"

text \<open>The error of the daemon is logged, that of the direct connection reported.\<close>

definition connect_direct_after_daemon_error ::
  "('w, 'c, 'r) tds \<Rightarrow> config \<Rightarrow> error \<Rightarrow> 'w \<Rightarrow> ('c, 'p) DbClient result \<times> 'w" where
  "connect_direct_after_daemon_error td cfg daemon_err w =
     (case connect td cfg w of
        (Inr client, w') \<Rightarrow> (Inr (Direct client), w')
      | (Inl err, w') \<Rightarrow> (Inl err, w'))"

definition connect_session_or_direct ::
  "('w, 'c, 'r) tds \<Rightarrow> ('w, 'p) proxy_io \<Rightarrow> string option \<Rightarrow> string option \<Rightarrow> config \<Rightarrow> 'w
    \<Rightarrow> ('c, 'p) DbClient result \<times> 'w" where
  "connect_session_or_direct td px published env cfg w =
     (if cfg_session_socket cfg = [] then connect_direct td cfg w
      else
        (case connect_daemon px published env (cfg_session_socket cfg) cfg w of
           (Inr client, w') \<Rightarrow> (Inr client, w')
         | (Inl e, w') \<Rightarrow> connect_direct_after_daemon_error td cfg e w'))"

text \<open>When connecting fails, the direct connection was tried last and its error is reported.\<close>

lemma connect_session_or_direct_error:
  "connect_session_or_direct td px published env cfg w = (Inl e, w') \<Longrightarrow> \<exists>w1. connect td cfg w1 = (Inl e, w')"
  by (auto simp: connect_session_or_direct_def connect_direct_def connect_direct_after_daemon_error_def split: if_splits prod.splits sum.splits)
    (metis Inl_Inr_False map_sum.simps sum.exhaust sum.inject(1) id_apply)+

subsection \<open>The program \<open>rmigd\<close>\<close>

definition rmigd_config :: "('w, 'g) process \<Rightarrow> 'w \<Rightarrow> config result" where
  "rmigd_config pr w =
     bind_result (case env_var (pr_getenv_os pr) ''RMIGD_CONFIG'' of
                    Some path \<Rightarrow> load_toml_config_inner pr path True w
                  | None \<Rightarrow> load_toml_config_inner pr ''config.toml'' False w) (\<lambda>tc.
       validate_daemon_config (pr_getenv_os pr) (pr_root pr) (build_config (pr_secs_f64 pr) (env_var (pr_getenv_os pr)) tc))"

text \<open>
  \<open>run\<close> of \<open>main.rs\<close>: the exit code when the daemon does not come up, or the daemon with the context
  of its handlers. The published token of a fresh process is \<open>None\<close>.
\<close>

definition rmigd_start ::
  "('w, 'g) process \<Rightarrow> ('w, 'c, 'r) tds \<Rightarrow> 'w host \<Rightarrow> 'w
    \<Rightarrow> (int + ('w, 'c, 'r) serve_context \<times> string \<times> ('w, 'c) daemon) \<times> 'w" where
  "rmigd_start pr td ho w =
     (case rmigd_config pr w of
        Inl e \<Rightarrow> (Inl (exit_code e), w)
      | Inr cfg \<Rightarrow>
          (case resolve_socket_path ho w of
             (Inl e, w) \<Rightarrow> (Inl (exit_code e), w)
           | (Inr socket, w) \<Rightarrow>
               (let cx = daemon_context td ho cfg None in
                case start_daemon cx socket w of
                  (Inl e, w) \<Rightarrow> (Inl EXIT_GENERAL, w)
                | (Inr d, w) \<Rightarrow> (Inr (cx, effective_socket cfg socket, d), w))))"

text \<open>A signal ends the program: the socket file is removed, a failure to do so ignored.\<close>

definition rmigd_signal :: "'w host \<Rightarrow> string \<Rightarrow> 'w \<Rightarrow> int \<times> 'w" where
  "rmigd_signal ho socket w = (let (r, w') = ho_remove_file ho w socket in (EXIT_OK, w'))"

end
