(* ===== verification/Session_Correct.thy ===== *)
theory Session_Correct
  imports Session_Calls Session_Client
begin

section \<open>What the session daemon guarantees\<close>

text \<open>
  The comparison of tokens and of endpoints, the framing of lines on the socket, and the invariant of
  the concurrent handlers: whatever the interleaving, at most one handler has the warm client, only a
  client that presented the token is served, and a client that is handed over is new or cleaned.
\<close>

subsection \<open>Tokens\<close>

lemma xor_eq_0_iff_u8: "x XOR y = 0 \<longleftrightarrow> x = (y :: u8)"
  by (auto simp: bit_eq_iff bit_simps)

lemma fold_diff_zero: "fold_diff ps diff = 0 \<longleftrightarrow> diff = 0 \<and> (\<forall>(x, y) \<in> set ps. x = y)"
proof (induction ps diff rule: fold_diff.induct)
  case (2 x y ps diff)
  have "diff OR (x XOR y) = 0 \<longleftrightarrow> diff = 0 \<and> x = y"
    by (auto simp: or_eq_0_iff xor_eq_0_iff_u8)
  with 2 show ?case by auto
qed simp

lemma constant_time_eq_iff: "constant_time_eq a b \<longleftrightarrow> a = b"
proof -
  have "length a = length b \<Longrightarrow> (\<forall>(x, y) \<in> set (zip a b). x = y) \<longleftrightarrow> a = b"
    by (induction a b rule: list_induct2) auto
  then show ?thesis
    by (auto simp: constant_time_eq_def fold_diff_zero)
qed

lemma of_char_u8_inj: "inj (of_char :: char \<Rightarrow> u8)"
proof (rule injI)
  fix c d :: char
  assume eq: "(of_char c :: u8) = of_char d"
  have "unat (of_char e :: u8) = of_char e" for e
    by (simp add: of_nat_of_char [symmetric, where ?'a = u8] unat_of_nat)
  with eq have "(of_char c :: nat) = of_char d" by metis
  then show "c = d" by simp
qed

lemma as_bytes_eq: "as_bytes s = as_bytes t \<longleftrightarrow> s = t"
  by (simp add: as_bytes_def inj_map_eq_map [OF of_char_u8_inj])

lemma verify_token_iff:
  "verify_token published env t = Inr u \<longleftrightarrow>
     \<not> token_required published env \<or> t = resolve_session_token None published env"
  by (simp add: verify_token_def token_required_def constant_time_eq_iff as_bytes_eq Let_def)

subsection \<open>The runs of the daemon\<close>

text \<open>\<open>served cx d0 str d\<close>: the daemon can get from \<open>d0\<close> to \<open>d\<close>, \<open>str i\<close> being the stream of client \<open>i\<close>.\<close>

inductive served ::
  "('w, 'c, 'r) serve_context \<Rightarrow> ('w, 'c) daemon \<Rightarrow> (nat \<Rightarrow> bytes) \<Rightarrow> ('w, 'c) daemon \<Rightarrow> bool"
  for cx :: "('w, 'c, 'r) serve_context" and d0 :: "('w, 'c) daemon" where
  started: "served cx d0 str d0"
| accepted: "served cx d0 str d \<Longrightarrow> daemon_act cx (Accept i inp) d = Some d' \<Longrightarrow> served cx d0 (str(i := inp)) d'"
| turned: "served cx d0 str d \<Longrightarrow> daemon_act cx (Turn i ev) d = Some d' \<Longrightarrow> served cx d0 str d'"
| granted: "served cx d0 str d \<Longrightarrow> daemon_act cx (Grant i) d = Some d' \<Longrightarrow> served cx d0 str d'"

text \<open>
  What an invariant of the daemon owes to each act, and what it gets: it holds in every state the
  daemon can reach.
\<close>

locale daemon_invariant =
  fixes cx :: "('w, 'c, 'r) serve_context" and I :: "(nat \<Rightarrow> bytes) \<Rightarrow> ('w, 'c) daemon \<Rightarrow> bool"
  assumes keeps_accept: "I str d \<Longrightarrow> daemon_act cx (Accept i inp) d = Some d' \<Longrightarrow> I (str(i := inp)) d'"
    and keeps_turn: "I str d \<Longrightarrow> daemon_act cx (Turn i ev) d = Some d' \<Longrightarrow> I str d'"
    and keeps_grant: "I str d \<Longrightarrow> daemon_act cx (Grant i) d = Some d' \<Longrightarrow> I str d'"
begin

lemma served_keeps:
  assumes "served cx d0 str d" and start: "\<And>str0. I str0 d0"
  shows "I str d"
  using assms(1)
  by induction (blast intro: start keeps_accept keeps_turn keeps_grant)+

end

text \<open>The first lines of a stream, and what is left of it.\<close>

fun read_lines :: "nat \<Rightarrow> bytes \<Rightarrow> bytes list \<times> bytes" where
  "read_lines 0 inp = ([], inp)"
| "read_lines (Suc n) inp =
     (let (ls, rest) = read_lines n inp; (line, rest') = read_limited rest in (ls @ [line], rest'))"

text \<open>Among the lines is one that presents the daemon's token, or the daemon asks for none.\<close>

definition presented :: "('w, 'c, 'r) serve_context \<Rightarrow> bytes list \<Rightarrow> bool" where
  "presented cx ls \<longleftrightarrow>
     \<not> token_required (cx_published cx) (cx_token_env cx)
     \<or> list_ex (\<lambda>line. ho_parse_request (cx_host cx) (trim line)
          = Inr (Auth (resolve_session_token None (cx_published cx) (cx_token_env cx)))) ls"

definition conn_ok :: "('w, 'c, 'r) serve_context \<Rightarrow> bytes \<Rightarrow> client_conn \<Rightarrow> bool" where
  "conn_ok cx inp cc \<longleftrightarrow>
     (\<exists>n. snd (read_lines n inp) = cc_input cc \<and> (cc_authenticated cc \<longrightarrow> presented cx (fst (read_lines n inp))))
     \<and> (cc_waiting cc \<noteq> None \<longrightarrow> cc_authenticated cc)"

definition dlog :: "('w \<times> 'c tds_event list, 'c) daemon \<Rightarrow> 'c tds_event list" where
  "dlog d = snd (dm_world d)"

text \<open>The last that happened to the client: it was opened and initialized, or cleaned.\<close>

definition clean_log :: "'c \<Rightarrow> 'c tds_event list \<Rightarrow> bool" where
  "clean_log c l \<longleftrightarrow> suffix (opened c) l \<or> suffix (cleaned c) l"

definition handed_over :: "('w \<times> 'c tds_event list, 'c) daemon \<Rightarrow> bool" where
  "handed_over d \<longleftrightarrow> (\<forall>c. dm_client d = Some c \<longrightarrow> clean_log c (dlog d))"

definition daemon_inv ::
  "('w, 'c, 'r) serve_context \<Rightarrow> (nat \<Rightarrow> bytes) \<Rightarrow> ('w \<times> 'c tds_event list, 'c) daemon \<Rightarrow> bool" where
  "daemon_inv cx str d \<longleftrightarrow>
     finite (dom (dm_conns d)) \<and> card (dom (dm_conns d)) \<le> MAX_DAEMON_CLIENTS
     \<and> (\<forall>i. dm_holder d = Some i \<longrightarrow> (\<exists>cc. dm_conns d i = Some cc \<and> cc_waiting cc = None \<and> cc_authenticated cc))
     \<and> (\<forall>i cc. dm_conns d i = Some cc \<longrightarrow> conn_ok cx (str i) cc)
     \<and> (dm_holder d = None \<longrightarrow> handed_over d)"

subsection \<open>Each operation keeps the invariant\<close>

text \<open>Answering a client changes nothing but the outside, and sends nothing to the server.\<close>

definition only_wrote :: "('w \<times> 'e list, 'c) daemon \<Rightarrow> ('w \<times> 'e list, 'c) daemon \<Rightarrow> bool" where
  "only_wrote d d' \<longleftrightarrow> (\<exists>w. d' = d\<lparr>dm_world := (w, snd (dm_world d))\<rparr>)"

lemma only_wrote_refl [simp]: "only_wrote d d"
  by (cases d) (auto simp: only_wrote_def)

lemma only_wroteD:
  assumes "only_wrote d d'"
  shows "dm_client d' = dm_client d" "dm_holder d' = dm_holder d" "dm_conns d' = dm_conns d"
    "snd (dm_world d') = snd (dm_world d)"
  using assms by (auto simp: only_wrote_def)

lemma write_response_only:
  "write_response (recording_host ho) i resp d = (r, d') \<Longrightarrow> only_wrote d d'"
  by (cases d, cases "dm_world d")
    (auto simp: write_response_def recording_host_def only_wrote_def split: sum.splits if_splits prod.splits)

lemma reply_only:
  assumes "reply (recording_host ho) i resp t d = (t', d')"
  shows "only_wrote d d' \<and> (t' = t \<or> (\<exists>e. t' = Stop (Inl e)))"
proof -
  obtain r d1 where "write_response (recording_host ho) i resp d = (r, d1)"
    by (metis surj_pair)
  with write_response_only [OF this] assms show ?thesis
    by (auto simp: reply_def split: sum.splits)
qed

lemma reply_frame:
  assumes "reply (recording_host ho) i resp t d = (t', d')"
  shows "dm_client d' = dm_client d \<and> dm_holder d' = dm_holder d \<and> dm_conns d' = dm_conns d
    \<and> snd (dm_world d') = snd (dm_world d) \<and> (t' = t \<or> (\<exists>e. t' = Stop (Inl e)))"
  using reply_only [OF assms] by (auto dest: only_wroteD)

lemma presented_append: "presented cx ls \<Longrightarrow> presented cx (ls @ ls')"
  by (auto simp: presented_def)

text \<open>A line more was read; the handler is authenticated if it was or if the line presents the token.\<close>

lemma conn_ok_read:
  assumes "conn_ok cx inp cc" and "read_limited (cc_input cc) = (line, rest)" and "cc_waiting cc' = None"
    and "cc_input cc' = rest"
    and "cc_authenticated cc' \<Longrightarrow> cc_authenticated cc \<or> presented cx [line]"
  shows "conn_ok cx inp cc'"
proof -
  obtain n where n: "snd (read_lines n inp) = cc_input cc"
      "cc_authenticated cc \<longrightarrow> presented cx (fst (read_lines n inp))"
    using assms(1) by (auto simp: conn_ok_def)
  then have "read_lines (Suc n) inp = (fst (read_lines n inp) @ [line], rest)"
    using assms(2) by (cases "read_lines n inp") simp
  moreover have "presented cx [line] \<Longrightarrow> presented cx (ls @ [line])" for ls
    by (auto simp: presented_def)
  ultimately show ?thesis
    unfolding conn_ok_def using assms n presented_append
    by (intro conjI exI [of _ "Suc n"]) auto
qed

lemma serve_request_ok:
  assumes "serve_request (recording_context cx) i req cc d = (t, cc', d')"
  shows "only_wrote d d' \<and> cc_waiting cc' = cc_waiting cc \<and> cc_input cc' = cc_input cc
    \<and> (\<forall>req'. t = NeedSession req' \<longrightarrow> cc_authenticated cc')
    \<and> (cc_authenticated cc' \<longrightarrow> cc_authenticated cc
         \<or> (\<exists>token. req = Auth token \<and> verify_token (cx_published cx) (cx_token_env cx) token = Inr ()))"
  using assms
  by (auto simp: serve_request_def Let_def split: Request.splits sum.splits if_splits prod.splits option.splits
      dest: reply_only)

lemma serve_turn_ok:
  assumes ok: "conn_ok cx inp cc" and idle: "cc_waiting cc = None"
    and run: "serve_turn (recording_context cx) ev i cc d = (t, cc', d')"
  shows "only_wrote d d' \<and> cc_waiting cc' = None \<and> conn_ok cx inp cc'
    \<and> (\<forall>req. t = NeedSession req \<longrightarrow> cc_authenticated cc')
    \<and> (cc_authenticated cc \<longrightarrow> cc_authenticated cc')"
proof (cases ev)
  case Ready
  obtain line rest where rd: "read_limited (cc_input cc) = (line, rest)"
    by (metis surj_pair)
  define cc1 where "cc1 = cc\<lparr>cc_input := rest\<rparr>"
  have ok1: "conn_ok cx inp cc1"
    by (rule conn_ok_read [OF ok rd]) (simp_all add: cc1_def idle)
  show ?thesis
  proof (cases "is_utf8 line \<and> length line \<noteq> 0 \<and> length line \<le> MAX_SESSION_LINE_BYTES
      \<and> \<not> isl (ho_parse_request (cx_host cx) (trim line))")
    case False
    then show ?thesis
      using run Ready rd idle ok1
      by (auto simp: serve_turn_def Let_def cc1_def split: if_splits sum.splits prod.splits dest: reply_only)
  next
    case True
    then obtain req where req: "ho_parse_request (cx_host cx) (trim line) = Inr req"
      by (auto simp: isl_def split: sum.splits) (metis sum.exhaust_sel isl_def)
    then have run1: "serve_request (recording_context cx) i req cc1 d = (t, cc', d')"
      using run Ready rd True by (simp add: serve_turn_def Let_def cc1_def)
    note facts = serve_request_ok [OF run1]
    have "conn_ok cx inp cc'"
    proof (rule conn_ok_read [OF ok rd])
      assume "cc_authenticated cc'"
      with facts have "cc_authenticated cc \<or> (\<exists>token. req = Auth token
          \<and> verify_token (cx_published cx) (cx_token_env cx) token = Inr ())"
        by (simp add: cc1_def)
      then show "cc_authenticated cc \<or> presented cx [line]"
        using req by (auto simp: verify_token_iff presented_def)
    qed (use facts idle in \<open>simp_all add: cc1_def\<close>)
    moreover have "cc_authenticated cc \<Longrightarrow> cc_authenticated cc'"
      using run1 by (auto simp: cc1_def serve_request_def Let_def split: Request.splits sum.splits if_splits prod.splits option.splits)
    ultimately show ?thesis
      using facts idle by (simp add: cc1_def)
  qed
qed (use run ok idle in \<open>auto simp: serve_turn_def\<close>)

text \<open>Connecting again leaves a client that was just opened.\<close>

lemma reconnect_log:
  assumes "reconnect (recording_context cx) d = (r, d')"
  shows "dm_conns d' = dm_conns d \<and> dm_holder d' = dm_holder d
    \<and> (dm_client d \<noteq> None \<longrightarrow> d' = d \<and> r = Inr ())
    \<and> (isl r \<longrightarrow> dm_client d' = None)"
proof (cases "dm_client d")
  case None
  obtain x w where "connect (recording_tds (cx_tds cx)) (cx_config cx) (dm_world d) = (x, w)"
    by (metis surj_pair)
  with assms None show ?thesis
    by (auto simp: reconnect_def record_reconnect_def split: sum.splits)
qed (use assms in \<open>auto simp: reconnect_def\<close>)

text \<open>
  With the mutex free or its own, a handler ends the turn with the guard, or without it and with no
  client left in the mutex.
\<close>

lemma session_turn_ok:
  assumes free: "dm_holder d = None \<or> dm_holder d = Some i"
    and run: "session_turn (recording_context cx) i req d = (t, d')"
  shows "dm_conns d' = dm_conns d \<and> (\<forall>req. t \<noteq> NeedSession req)
    \<and> (dm_holder d' = Some i \<or> dm_holder d' = None \<and> dm_client d' = None \<and> (\<exists>r. t = Stop r))"
proof -
  obtain r1 d1 where acq: "acquire_session (recording_context cx) i d = (r1, d1)"
    by (metis surj_pair)
  have 1: "dm_conns d1 = dm_conns d
      \<and> (if r1 = Inr True then dm_holder d1 = Some i else dm_holder d1 = None \<and> dm_client d1 = None)"
  proof (cases "dm_holder d = Some i")
    case True
    with acq show ?thesis by (simp add: acquire_session_def)
  next
    case False
    define e where "e = (if ho_waited_ms (recording_host (cx_host cx)) (dm_world d) > WARM_SESSION_WAIT_WARN_MS
      then record_queue_wait d else d)"
    have e: "dm_conns e = dm_conns d" "dm_holder e = None"
      using False free by (auto simp: e_def record_queue_wait_def)
    obtain r2 d2 where rec: "reconnect (recording_context cx) e = (r2, d2)"
      by (metis surj_pair)
    note facts = reconnect_log [OF rec]
    show ?thesis
    proof (cases r2)
      case (Inr u)
      with acq False rec facts e show ?thesis
        by (auto simp: acquire_session_def e_def [symmetric])
    next
      case (Inl x)
      obtain r3 d3 where wr: "write_response (recording_host (cx_host cx)) i
          (err_response (''rmigd: database reconnect failed: '' @ error_to_string x)) d2 = (r3, d3)"
        by (metis surj_pair)
      with acq False rec Inl have "d1 = d3 \<and> r1 \<noteq> Inr True"
        by (auto simp: acquire_session_def e_def [symmetric] split: sum.splits)
      with only_wroteD [OF write_response_only [OF wr]] facts e Inl show ?thesis
        by auto
    qed
  qed
  show ?thesis
  proof (cases "r1 = Inr True")
    case False
    with run acq 1 show ?thesis
      by (auto simp: session_turn_def split: sum.splits bool.splits)
  next
    case True
    obtain r s w where dis: "dispatch (recording_tds (cx_tds cx)) (dm_client d1) req
        (cfg_command_timeout (cx_config cx)) (dm_world d1) = (r, s, w)"
      by (metis prod_cases3)
    with run acq True 1 show ?thesis
      by (auto simp: session_turn_def record_request_def Let_def split: sum.splits option.splits
          dest!: reply_frame)
  qed
qed

text \<open>The end of a handler frees the mutex it has, with a clean client or none.\<close>

lemma serve_exit_ok:
  assumes "serve_exit (recording_context cx) i d = d'"
  shows "dm_conns d' = dm_conns d
    \<and> (if dm_holder d = Some i then dm_holder d' = None \<and> handed_over d' else d' = d)"
proof (cases "dm_holder d = Some i \<and> dm_client d \<noteq> None")
  case True
  then obtain c where c: "dm_client d = Some c" by blast
  obtain r w where r: "block_on (cleanup_session (recording_tds (cx_tds cx)) c) (dm_world d) = (r, w)"
    by (metis surj_pair)
  then have "cleanup_session (recording_tds (cx_tds cx)) c False (dm_world d) = (Some r, w)"
    using block_on_waits [OF waits_cleanup] by (metis fst_conv snd_conv)
  from emitsD [OF emits_cleanup this] obtain es where
    "snd w = snd (dm_world d) @ es" "\<forall>u. r = Inr u \<longrightarrow> es = cleaned c"
    by auto
  with assms True c r show ?thesis
    by (cases r) (auto simp: serve_exit_def handed_over_def clean_log_def dlog_def suffix_def)
qed (use assms in \<open>auto simp: serve_exit_def handed_over_def\<close>)

lemma finish_turn_ok:
  assumes inv: "daemon_inv cx str d0" and conns: "dm_conns d = dm_conns d0" and mine: "dm_conns d0 i \<noteq> None"
    and cc: "conn_ok cx (str i) cc" and idle: "cc_waiting cc = None"
    and t: "case t of Continue \<Rightarrow> True | NeedSession req \<Rightarrow> cc_authenticated cc \<and> dm_holder d \<noteq> Some i | Stop r \<Rightarrow> True"
    and hold: "dm_holder d = Some i \<and> cc_authenticated cc
      \<or> dm_holder d \<noteq> Some i \<and> (\<forall>j. dm_holder d = Some j \<longrightarrow> dm_holder d0 = Some j) \<and> (dm_holder d = None \<longrightarrow> handed_over d)"
  shows "daemon_inv cx str (finish_turn (recording_context cx) i cc (t, d))"
proof -
  have dom: "dom ((dm_conns d0)(i \<mapsto> x)) = dom (dm_conns d0)" for x
    using mine by auto
  have fin: "finite (dom (dm_conns d0))" "card (dom (dm_conns d0)) \<le> MAX_DAEMON_CLIENTS"
    using inv by (simp_all add: daemon_inv_def)
  have others: "dm_holder d0 = Some j \<Longrightarrow> \<exists>cc. dm_conns d0 j = Some cc \<and> cc_waiting cc = None \<and> cc_authenticated cc" for j
    using inv by (simp add: daemon_inv_def)
  have conn_oks: "dm_conns d0 j = Some cj \<Longrightarrow> conn_ok cx (str j) cj" for j cj
    using inv by (simp add: daemon_inv_def)
  show ?thesis
  proof (cases t)
    case Continue
    have "conn_ok cx (str i) (cc\<lparr>cc_waiting := None\<rparr>)"
      using cc by (simp add: conn_ok_def)
    with Continue conns hold fin others conn_oks dom show ?thesis
      by (auto simp: finish_turn_def daemon_inv_def handed_over_def dlog_def)
  next
    case (NeedSession req)
    have "conn_ok cx (str i) (cc\<lparr>cc_waiting := Some req\<rparr>)"
      using cc t NeedSession by (simp add: conn_ok_def)
    with NeedSession conns hold t fin others conn_oks dom show ?thesis
      by (auto simp: finish_turn_def daemon_inv_def handed_over_def dlog_def)
  next
    case (Stop r)
    have exit: "dm_conns (serve_exit (recording_context cx) i d) = dm_conns d
      \<and> (if dm_holder d = Some i then dm_holder (serve_exit (recording_context cx) i d) = None
            \<and> handed_over (serve_exit (recording_context cx) i d)
         else serve_exit (recording_context cx) i d = d)"
      by (rule serve_exit_ok) simp
    have "card (dom (dm_conns d0) - {i}) \<le> MAX_DAEMON_CLIENTS"
      using fin by (meson card_Diff1_le order_trans)
    with Stop exit conns hold fin others conn_oks show ?thesis
      by (auto simp: finish_turn_def daemon_inv_def handed_over_def dlog_def Let_def split: if_splits)
  qed
qed

lemma inv_act_accept:
  assumes inv: "daemon_inv cx str d" and act: "daemon_act (recording_context cx) (Accept i inp) d = Some d'"
  shows "daemon_inv cx (str(i := inp)) d'"
proof -
  have new: "dm_conns d i = None" "card (dom (dm_conns d)) < MAX_DAEMON_CLIENTS"
      "d' = d\<lparr>dm_conns := (dm_conns d)(i \<mapsto> new_conn (recording_context cx) inp)\<rparr>"
    using act by (auto split: if_splits)
  have "conn_ok cx inp (new_conn (recording_context cx) inp)"
    by (auto simp: conn_ok_def new_conn_def presented_def intro!: exI [of _ 0])
  moreover have "card (insert i (dom (dm_conns d))) \<le> MAX_DAEMON_CLIENTS"
    using inv new by (auto simp: daemon_inv_def card_insert_if)
  ultimately show ?thesis
    using inv new by (auto simp: daemon_inv_def handed_over_def dlog_def)
qed

lemma inv_conns: "daemon_inv cx str d \<Longrightarrow> dm_conns d i = Some cc \<Longrightarrow> conn_ok cx (str i) cc"
  by (simp add: daemon_inv_def)

lemma inv_holder: "daemon_inv cx str d \<Longrightarrow> dm_holder d = Some i \<Longrightarrow> dm_conns d i = Some cc
    \<Longrightarrow> cc_authenticated cc \<and> cc_waiting cc = None"
  by (auto simp: daemon_inv_def)

lemma inv_free: "daemon_inv cx str d \<Longrightarrow> dm_holder d = None \<Longrightarrow> handed_over d"
  by (simp add: daemon_inv_def)

text \<open>A turn that does not need the mutex, and one that has it.\<close>

lemma handed_over_frame:
  "dm_client d' = dm_client d \<Longrightarrow> snd (dm_world d') = snd (dm_world d) \<Longrightarrow> handed_over d' = handed_over d"
  by (simp add: handed_over_def dlog_def)

lemma session_turn_finish:
  assumes inv: "daemon_inv cx str d0" and conns: "dm_conns d = dm_conns d0" and mine: "dm_conns d0 i \<noteq> None"
    and cc: "conn_ok cx (str i) cc" "cc_waiting cc = None" "cc_authenticated cc"
    and free: "dm_holder d = None \<or> dm_holder d = Some i"
  shows "daemon_inv cx str (finish_turn (recording_context cx) i cc (session_turn (recording_context cx) i req d))"
proof -
  obtain t d' where run: "session_turn (recording_context cx) i req d = (t, d')"
    by (metis surj_pair)
  note facts = session_turn_ok [OF free run]
  show ?thesis
    unfolding run
    by (rule finish_turn_ok [OF inv _ mine cc(1,2)])
      (use facts conns cc in \<open>auto simp: handed_over_def split: turn.splits\<close>)
qed

lemma inv_act_turn:
  assumes inv: "daemon_inv cx str d" and act: "daemon_act (recording_context cx) (Turn i ev) d = Some d'"
  shows "daemon_inv cx str d'"
proof -
  obtain cc where cc: "dm_conns d i = Some cc" "cc_waiting cc = None"
    using act by (auto split: option.splits if_splits)
  obtain t cc1 d1 where run: "serve_turn (recording_context cx) ev i cc d = (t, cc1, d1)"
    by (metis prod_cases3)
  note facts = serve_turn_ok [OF inv_conns [OF inv cc(1)] cc(2) run]
  then have frame: "dm_client d1 = dm_client d" "dm_holder d1 = dm_holder d" "dm_conns d1 = dm_conns d"
      "snd (dm_world d1) = snd (dm_world d)"
    using only_wroteD by blast+
  have auth: "dm_holder d = Some i \<Longrightarrow> cc_authenticated cc1"
    using inv_holder [OF inv _ cc(1)] facts by blast
  have over: "dm_holder d = None \<Longrightarrow> handed_over d1"
    using inv_free [OF inv] handed_over_frame [OF frame(1,4)] by simp
  show ?thesis
  proof (cases "\<exists>req. t = NeedSession req \<and> dm_holder d1 = Some i")
    case True
    then obtain req where req: "t = NeedSession req" "dm_holder d1 = Some i" by blast
    with act cc run have "d' = finish_turn (recording_context cx) i cc1 (session_turn (recording_context cx) i req d1)"
      by simp
    with session_turn_finish [OF inv frame(3)] cc facts req auth frame show ?thesis
      by simp
  next
    case False
    with act cc run have d': "d' = finish_turn (recording_context cx) i cc1 (t, d1)"
      by (cases t) auto
    show ?thesis
      unfolding d'
      by (rule finish_turn_ok [OF inv frame(3)])
        (use facts cc frame auth over False in \<open>auto split: turn.splits\<close>)
  qed
qed

lemma inv_act_grant:
  assumes inv: "daemon_inv cx str d" and act: "daemon_act (recording_context cx) (Grant i) d = Some d'"
  shows "daemon_inv cx str d'"
proof -
  obtain cc req where cc: "dm_conns d i = Some cc" "cc_waiting cc = Some req" "dm_holder d = None"
      and d': "d' = finish_turn (recording_context cx) i cc (session_turn (recording_context cx) i req d)"
    using act by (auto split: option.splits if_splits)
  have ok: "conn_ok cx (str i) (cc\<lparr>cc_waiting := None\<rparr>)" "cc_authenticated cc"
    using inv_conns [OF inv cc(1)] cc(2) by (auto simp: conn_ok_def)
  have "finish_turn (recording_context cx) i cc x = finish_turn (recording_context cx) i (cc\<lparr>cc_waiting := None\<rparr>) x" for x
    by (simp add: finish_turn_def split: prod.splits turn.splits)
  with d' session_turn_finish [OF inv refl, of i "cc\<lparr>cc_waiting := None\<rparr>" req] ok cc show ?thesis
    by simp
qed

text \<open>The daemon starts with a client that was just opened.\<close>

lemma private_parent_log:
  "private_parent_of (recording_host ho) path w = (r, w') \<Longrightarrow> snd w' = snd w"
  by (cases w) (auto simp: private_parent_of_def ensure_private_parent_def restrict_dir_mode_def recording_host_def
      split: option.splits if_splits sum.splits prod.splits)

lemma start_inv:
  assumes "start_daemon (recording_context cx) socket wl = (Inr d0, wl')"
  shows "daemon_inv cx str d0"
proof -
  obtain r w1 where con: "connect (recording_tds (cx_tds cx)) (cx_config cx) wl = (r, w1)"
    by (metis surj_pair)
  obtain es where es: "snd w1 = snd wl @ es" "connect_log r es"
    using connect_logs [OF con] by blast
  define ho where "ho = (recording_host (cx_host cx) :: ('a \<times> 'b tds_event list) host)"
  define sock where "sock = effective_socket (cx_config cx) socket"
  obtain r2 w2 where c2: "clear_stale_socket ho sock w1 = (r2, w2)"
    by (metis surj_pair)
  obtain r3 w3 where c3: "private_parent_of ho sock w2 = (r3, w3)"
    by (metis surj_pair)
  obtain r4 w4 where c4: "ho_bind ho w3 sock = (r4, w4)"
    by (metis surj_pair)
  obtain r5 w5 where c5: "restrict_socket_mode ho sock w4 = (r5, w5)"
    by (metis surj_pair)
  have "snd w2 = snd w1"
    using c2 by (cases w1) (auto simp: clear_stale_socket_def ho_def recording_host_def split: if_splits prod.splits)
  moreover have "snd w3 = snd w2"
    using private_parent_log c3 unfolding ho_def by blast
  moreover have "snd w4 = snd w3"
    using c4 by (cases w3) (auto simp: ho_def recording_host_def split: prod.splits)
  moreover have "snd w5 = snd w4"
    using c5 by (cases w4) (auto simp: restrict_socket_mode_def ho_def recording_host_def split: prod.splits)
  moreover obtain c where "r = Inr c" "d0 = \<lparr>dm_client = Some c, dm_holder = None, dm_requests = 0, dm_reconnects = 0,
      dm_queue_waits = 0, dm_conns = Map.empty, dm_world = w5\<rparr>"
    using assms con c2 c3 c4 c5
    by (auto simp: start_daemon_def ho_def [symmetric] sock_def [symmetric] Let_def split: sum.splits)
  ultimately show ?thesis
    using es by (auto simp: daemon_inv_def handed_over_def dlog_def clean_log_def connect_log_def suffix_append)
qed

interpretation di: daemon_invariant "recording_context cx" "daemon_inv cx"
  for cx :: "('w, 'c, 'r) serve_context"
  by unfold_locales (fact inv_act_accept inv_act_turn inv_act_grant)+

lemma served_inv:
  assumes "start_daemon (recording_context cx) socket wl = (Inr d0, wl')"
    and "served (recording_context cx) d0 str d"
  shows "daemon_inv cx str d"
  by (rule di.served_keeps [OF assms(2) start_inv [OF assms(1)]])

text \<open>Only the handler with the mutex, or the one that gets the free mutex, sends anything.\<close>

lemma act_sends:
  assumes act: "daemon_act (recording_context cx) a d = Some d'" and sent: "dlog d' \<noteq> dlog d"
    and inv: "daemon_inv cx str d"
  shows "\<exists>i cc. dm_conns d i = Some cc \<and> ((\<exists>ev. a = Turn i ev) \<and> dm_holder d = Some i \<or> a = Grant i \<and> dm_holder d = None)"
proof (cases a)
  case (Accept i inp)
  with act sent show ?thesis by (auto simp: dlog_def split: if_splits)
next
  case (Grant i)
  with act show ?thesis by (auto split: option.splits if_splits)
next
  case (Turn i ev)
  obtain cc where cc: "dm_conns d i = Some cc" "cc_waiting cc = None"
    using act Turn by (auto split: option.splits if_splits)
  obtain t cc1 d1 where run: "serve_turn (recording_context cx) ev i cc d = (t, cc1, d1)"
    by (metis prod_cases3)
  have frame: "dm_holder d1 = dm_holder d" "snd (dm_world d1) = snd (dm_world d)"
    using serve_turn_ok [OF inv_conns [OF inv cc(1)] cc(2) run] only_wroteD by blast+
  have "dm_holder d = Some i"
  proof (rule ccontr)
    assume other: "dm_holder d \<noteq> Some i"
    with act Turn cc run frame have "d' = finish_turn (recording_context cx) i cc1 (t, d1)"
      by (cases t) auto
    with other frame have "dlog d' = dlog d"
      by (cases t) (simp_all add: finish_turn_def dlog_def serve_exit_def)
    with sent show False by simp
  qed
  with Turn cc show ?thesis by blast
qed

end
