(* ===== verification/Session_Properties.thy ===== *)
theory Session_Properties
  imports Session_Correct
begin

section \<open>Properties of the session daemon\<close>

text \<open>
  The statements about \<open>rmigd\<close> and the socket between it and the command line, with their
  witnesses: a daemon with one client that authenticates and pings.
\<close>

subsection \<open>Framing\<close>

lemma read_limited_line:
  assumes "LF \<notin> set s" and "length s \<le> MAX_SESSION_LINE_BYTES"
  shows "read_limited (s @ LF # rest) = (s @ [LF], rest)"
proof -
  define n where "n = MAX_SESSION_LINE_BYTES - length s"
  have "take (MAX_SESSION_LINE_BYTES + 1) (s @ LF # rest) = s @ LF # take n rest"
    using assms(2) by (simp add: n_def Suc_diff_le)
  moreover have "takeWhile (\<lambda>c. c \<noteq> LF) (s @ LF # take n rest) = s"
    using assms(1) by (subst takeWhile_append2) auto
  ultimately show ?thesis
    using assms by (simp add: read_limited_def Let_def)
qed

lemma read_limited_bound: "length (fst (read_limited inp)) \<le> MAX_SESSION_LINE_BYTES + 1"
proof -
  define l where "l = take (MAX_SESSION_LINE_BYTES + 1) inp"
  have "length (takeWhile (\<lambda>c. c \<noteq> LF) l @ (if LF \<in> set l then [LF] else [])) \<le> length l"
  proof (cases "LF \<in> set l")
    case True
    then have "takeWhile (\<lambda>c. c \<noteq> LF) l \<noteq> l"
      by (metis set_takeWhileD)
    then have "length (takeWhile (\<lambda>c. c \<noteq> LF) l) < length l"
      by (metis length_takeWhile_le le_neq_implies_less takeWhile_eq_take take_all_iff nle_le)
    with True show ?thesis by simp
  qed (simp add: length_takeWhile_le)
  then show ?thesis
    by (simp add: read_limited_def l_def Let_def)
qed



subsection \<open>The endpoint\<close>

lemma validated_names:
  assumes "validate_config getenv_os root cfg0 = Inr cfg"
  shows "cfg_server cfg \<noteq> [] \<and> cfg_user cfg \<noteq> []"
proof -
  from assms have names: "cfg_server cfg0 \<noteq> []" "cfg_user cfg0 \<noteq> []"
    and paths: "normalize_catalog_paths root cfg0 = Inr cfg"
    by (auto simp: validate_config_def Let_def result_simps split: if_splits)
  from paths obtain dbs sb d where "cfg = cfg0\<lparr>cfg_sql_base := sb, cfg_database := d\<rparr>"
    by (rule normalized_config)
  with names show ?thesis by simp
qed

definition same_endpoint :: "config \<Rightarrow> config \<Rightarrow> bool" where
  "same_endpoint cfg cfg' \<longleftrightarrow>
     cfg_server cfg = cfg_server cfg' \<and> cfg_user cfg = cfg_user cfg'
     \<and> (cfg_port cfg = [] \<or> cfg_port cfg = cfg_port cfg')
     \<and> cfg_encrypt cfg = cfg_encrypt cfg'
     \<and> cfg_trust_server_certificate cfg = cfg_trust_server_certificate cfg'"

lemma refusal_for_ping:
  "cfg_server cfg \<noteq> [] \<Longrightarrow> cfg_user cfg \<noteq> []
    \<Longrightarrow> refusal_for (request_ping cfg) (endpoint_of cfg') = None \<longleftrightarrow> same_endpoint cfg cfg'"
  by (auto simp: request_ping_def endpoint_mismatch_def mismatched_def endpoint_of_def same_endpoint_def Let_def)

text \<open>
  C38: For a client with a validated configuration the daemon goes on to the warm connection after the
  handshake exactly when the client is configured for the server, the user, the encryption and the
  certificate policy of that connection, and for its port unless the client names none; otherwise the
  handler ends. Nothing is sent to the server meanwhile.
\<close>

theorem handshake_needs_the_same_endpoint:
  assumes "validate_config getenv_os root cfg0 = Inr cfg" and "cc_authenticated cc"
    and "serve_request (recording_context cx) i (request_ping cfg) cc d = (t, cc', d')"
  shows "dlog d' = dlog d
    \<and> (if same_endpoint cfg (cx_config cx) then t = NeedSession (request_ping cfg) \<and> d' = d else (\<exists>r. t = Stop r))"
proof -
  note ref = refusal_for_ping [of cfg "cx_config cx"]
  show ?thesis
    using assms(2,3) ref validated_names [OF assms(1)]
    by (auto simp: serve_request_def request_ping_def dlog_def split: option.splits prod.splits if_splits dest!: reply_frame)
qed

text \<open>The daemon's configuration in the witnesses: the sample with a token.\<close>

definition daemon_config :: config where
  "daemon_config = sample_config\<lparr>cfg_session_token := ''tok'', cfg_sql_base := ''sql'', cfg_database := ''sales''\<rparr>"

lemma daemon_config_validated:
  "validate_config (\<lambda>n. None) (Some sample_root) (sample_config\<lparr>cfg_session_token := ''tok''\<rparr>) = Inr daemon_config"
proof -
  have "normalize_catalog_paths (Some sample_root) (sample_config\<lparr>cfg_session_token := ''tok''\<rparr>) = Inr daemon_config"
    by (simp add: normalize_catalog_paths_def sample_config_def config_default_def sample_discovered daemon_config_def)
  then show ?thesis
    by (simp add: validate_config_def validate_boolean_envs_def BOOL_NAMES_def reject_control_chars_def
        sample_config_def config_default_def)
qed

definition sample_tds :: "(unit, nat, unit) tds" where
  "sample_tds =
     \<lparr>td_tcp_connect = (\<lambda>w a. (False, Inr (), w)), td_handshake = (\<lambda>w tc. (False, Inr 7, w)),
      td_simple_query = (\<lambda>w c s. (False, Inr (), w)), td_query = (\<lambda>w c s ps. (False, Inr (), w)),
      td_into_results = (\<lambda>w c. (False, Inr [], w)), td_into_first_result = (\<lambda>w c. (False, Inr [], w)),
      td_columns = (\<lambda>r. []), td_get_bytes = (\<lambda>r i. None), td_get_str = (\<lambda>r i. None), td_get_bool = (\<lambda>r i. None),
      td_get_i16 = (\<lambda>r i. None), td_get_i32 = (\<lambda>r i. None), td_get_i64 = (\<lambda>r i. None), td_get_u8 = (\<lambda>r i. None)\<rparr>"

definition sample_host :: "unit host" where
  "sample_host =
     \<lparr>ho_write = (\<lambda>w i s. (Inr (), w)), ho_uptime_s = (\<lambda>w. 0), ho_waited_ms = (\<lambda>w. 0),
      ho_response_json = (\<lambda>r. Inr ''{}''),
      ho_parse_request = (\<lambda>s. if s = ''a'' then Inr (Auth ''tok'') else Inr (Exec s)),
      ho_getenv = (\<lambda>n. None), ho_exists = (\<lambda>w p. False), ho_mode = (\<lambda>w p. Inr 0), ho_answers = (\<lambda>w p. False),
      ho_remove_file = (\<lambda>w p. (Inr (), w)), ho_create_dir_all = (\<lambda>w p. (Inr (), w)),
      ho_set_mode = (\<lambda>w p m. (Inr (), w)), ho_bind = (\<lambda>w p. (Inr (), w))\<rparr>"

definition sample_context :: "(unit, nat, unit) serve_context" where
  "sample_context = daemon_context sample_tds sample_host daemon_config None"

definition idle_daemon :: "(unit \<times> nat tds_event list, nat) daemon" where
  "idle_daemon = \<lparr>dm_client = Some 7, dm_holder = None, dm_requests = 0, dm_reconnects = 0,
     dm_queue_waits = 0, dm_conns = Map.empty, dm_world = ((), opened 7)\<rparr>"

definition sample_conn :: "bytes \<Rightarrow> bool \<Rightarrow> Request option \<Rightarrow> client_conn" where
  "sample_conn inp auth req = \<lparr>cc_input = inp, cc_authenticated = auth, cc_waiting = req\<rparr>"

theorem handshake_needs_the_same_endpoint_witness:
  "\<exists>r cc' d'. serve_request (recording_context (sample_context\<lparr>cx_config := daemon_config\<lparr>cfg_server := ''other''\<rparr>\<rparr>)) 0
      (request_ping daemon_config) (sample_conn [] True None) idle_daemon = (Stop r, cc', d') \<and> dlog d' = opened 7"
proof -
  obtain t cc' d' where run: "serve_request (recording_context (sample_context\<lparr>cx_config := daemon_config\<lparr>cfg_server := ''other''\<rparr>\<rparr>)) 0
      (request_ping daemon_config) (sample_conn [] True None) idle_daemon = (t, cc', d')"
    by (metis prod_cases3)
  from handshake_needs_the_same_endpoint [OF daemon_config_validated _ this] run show ?thesis
    by (auto simp: sample_conn_def same_endpoint_def daemon_config_def sample_config_def idle_daemon_def dlog_def)
qed

subsection \<open>The daemon as a connection\<close>

text \<open>Every error of the driver is an SQL error, whose text is the error.\<close>

definition sql_errors :: "('w, 'a result) future \<Rightarrow> bool" where
  "sql_errors fut \<longleftrightarrow> (\<forall>b w e w'. fut b w = (Some (Inl e), w') \<longrightarrow> (\<exists>m. e = Sql m))"

lemma sql_errorsD: "sql_errors fut \<Longrightarrow> fut b w = (Some (Inl e), w') \<Longrightarrow> \<exists>m. e = Sql m"
  unfolding sql_errors_def by blast

lemma sql_errors_map_err: "sql_errors (map_err Sql fut)"
  by (auto simp: sql_errors_def map_err_def and_then_def map_sum_def split: prod.splits option.splits sum.splits)

lemma sql_errors_try_then:
  assumes "sql_errors fut" and k: "\<And>a. sql_errors (k a)"
  shows "sql_errors (try_then fut k)"
  unfolding sql_errors_def
proof (intro allI impI)
  fix b w e w'
  assume run: "try_then fut k b w = (Some (Inl e), w')"
  obtain x w1 where x: "fut b w = (x, w1)" by (metis surj_pair)
  show "\<exists>m. e = Sql m"
  proof (cases x)
    case None
    with run x show ?thesis by (simp add: try_then_def and_then_def)
  next
    case (Some r)
    show ?thesis
    proof (cases r)
      case (Inl e1)
      with Some run x have "fut b w = (Some (Inl e), w1)" by (simp add: try_then_def and_then_def)
      with assms(1) show ?thesis unfolding sql_errors_def by blast
    next
      case (Inr a)
      with Some run x have "k a b w1 = (Some (Inl e), w')" by (simp add: try_then_def and_then_def)
      with k show ?thesis unfolding sql_errors_def by blast
    qed
  qed
qed

lemma cell_from_error: "cell_from td row i = Inl e \<Longrightarrow> \<exists>m. e = Sql m"
  by (auto simp: cell_from_def take_col_def unsupported_column_def split: option.splits if_splits prod.splits)

lemma collect_results_error: "collect_results rs = Inl e \<Longrightarrow> Inl e \<in> set rs"
proof (induction rs)
  case (Cons r rs)
  then show ?case by (cases r; cases "collect_results rs") (auto simp: bind_result_def)
qed simp

lemma rows_error: "collect_results (map (from_tiberius td) rows) = Inl e \<Longrightarrow> \<exists>m. e = Sql m"
proof -
  assume "collect_results (map (from_tiberius td) rows) = Inl e"
  from collect_results_error [OF this] obtain row where "from_tiberius td row = Inl e"
    by auto
  from collect_results_error [OF this [unfolded from_tiberius_def]] obtain i where "cell_from td row i = Inl e"
    by auto
  then show ?thesis by (rule cell_from_error)
qed

lemma sql_errors_exec: "sql_errors (tds_exec td c s)"
  unfolding tds_exec_def
  by (intro sql_errors_try_then sql_errors_map_err) (simp add: sql_errors_def)

lemma sql_errors_query: "sql_errors (db_query td px sql_text (Direct c) s ps)"
  unfolding db_query.simps query_tiberius_def
  by (intro sql_errors_try_then sql_errors_map_err) (use rows_error in \<open>auto simp: sql_errors_def\<close>)

lemma ack_round_trip: "(\<And>e. r = Inl e \<Longrightarrow> \<exists>m. e = Sql m) \<Longrightarrow> map_sum id (\<lambda>_. ()) (into_result (ack r)) = r"
  by (cases r) (auto simp: ack_def into_result_def ok_empty_def err_response_def)

definition rows_answer :: "row_data list result \<Rightarrow> response" where
  "rows_answer r = (case r of Inr rows \<Rightarrow> rows_response rows | Inl e \<Rightarrow> err_response (error_to_string e))"

lemma rows_round_trip: "(\<And>e. r = Inl e \<Longrightarrow> \<exists>m. e = Sql m) \<Longrightarrow> into_result (rows_answer r) = r"
  by (cases r) (auto simp: rows_answer_def into_result_def rows_response_def err_response_def)

text \<open>An answered request is a future that was answered.\<close>

lemma dispatch_answered:
  assumes "dispatch td (Some c) req t w = (Inr (Some resp), s, w')"
  shows "handle td c req (t \<noteq> 0) w = (Some resp, w')"
  using assms by (auto simp: dispatch_def timeout_def split: prod.splits option.splits)

lemma and_then_ready_Some:
  assumes "and_then fut (\<lambda>r. ready (f r)) b w = (Some resp, w')"
  obtains r where "fut b w = (Some r, w')" "resp = f r"
  using assms by (auto simp: and_then_def split: prod.splits option.splits)


definition sample_proxy :: "(unit, unit) proxy_io" where
  "sample_proxy =
     \<lparr>px_connect = (\<lambda>w path. (False, Inr (), w)), px_write = (\<lambda>w p s. (False, Inr (), w)),
      px_read_line = (\<lambda>w p n. (False, Inr ''ok'', w)), px_request_json = (\<lambda>req. Inr ''request''),
      px_parse_response = (\<lambda>s. Inr ok_empty)\<rparr>"


subsection \<open>The handlers together\<close>

text \<open>The context of the handlers of a daemon, with the recorded outside.\<close>

definition rmigd_context ::
  "('w, 'c, 'r) tds \<Rightarrow> 'w host \<Rightarrow> config \<Rightarrow> ('w \<times> 'c tds_event list, 'c, 'r) serve_context" where
  "rmigd_context td ho cfg = recording_context (daemon_context td ho cfg None)"

lemma daemon_token:
  assumes "cfg_session_token cfg \<noteq> []"
  shows "presented (daemon_context td ho cfg None) ls
    \<longleftrightarrow> list_ex (\<lambda>line. ho_parse_request ho (trim line) = Inr (Auth (cfg_session_token cfg))) ls"
  using assms
  by (simp add: presented_def daemon_context_def apply_session_token_from_config_def token_required_def
      resolve_session_token_def)

lemma daemon_config_token:
  assumes "validate_daemon_config getenv_os root cfg0 = Inr cfg"
  shows "cfg_session_token cfg \<noteq> []"
  using assms by (auto simp: validate_daemon_config_def result_simps split: if_splits)

text \<open>
  C35: In every state the daemon can reach, however its handlers interleave and whatever their clients
  send, at most 64 handlers run and the warm client belongs to at most one of them, a handler that is
  running. Whenever it belongs to none, it was just opened and initialized, or its last two statements
  rolled back any open transaction and released the application lock, both with success: no handler
  inherits a transaction or a lock from another.
\<close>

theorem rmigd_hands_over_clean_sessions:
  assumes "start_daemon (rmigd_context td ho cfg) socket wl = (Inr d0, wl')"
    and "served (rmigd_context td ho cfg) d0 str d"
  shows "card (dom (dm_conns d)) \<le> MAX_DAEMON_CLIENTS
    \<and> (\<forall>i. dm_holder d = Some i \<longrightarrow> i \<in> dom (dm_conns d))
    \<and> (\<forall>c. dm_holder d = None \<and> dm_client d = Some c \<longrightarrow> suffix (opened c) (dlog d) \<or> suffix (cleaned c) (dlog d))"
  using served_inv [OF assms [unfolded rmigd_context_def]]
  by (auto simp: daemon_inv_def handed_over_def clean_log_def)

text \<open>
  C36: A daemon with a validated configuration has a token, and anything is sent to the server only in
  a turn of the handler that has the warm client or is granted it while it is free, and the client of
  that handler has presented exactly this token in a line it sent before.
\<close>

theorem rmigd_serves_only_token_holders:
  assumes valid: "validate_daemon_config getenv_os root cfg0 = Inr cfg"
    and start: "start_daemon (rmigd_context td ho cfg) socket wl = (Inr d0, wl')"
    and run: "served (rmigd_context td ho cfg) d0 str d"
    and act: "daemon_act (rmigd_context td ho cfg) a d = Some d'" and sent: "dlog d' \<noteq> dlog d"
  shows "cfg_session_token cfg \<noteq> []
    \<and> (\<exists>i n. ((\<exists>ev. a = Turn i ev) \<and> dm_holder d = Some i \<or> a = Grant i \<and> dm_holder d = None)
         \<and> list_ex (\<lambda>line. ho_parse_request ho (trim line) = Inr (Auth (cfg_session_token cfg)))
             (fst (read_lines n (str i))))"
proof -
  note inv = served_inv [OF start [unfolded rmigd_context_def] run [unfolded rmigd_context_def]]
  obtain i cc where i: "dm_conns d i = Some cc"
      "(\<exists>ev. a = Turn i ev) \<and> dm_holder d = Some i \<or> a = Grant i \<and> dm_holder d = None"
    using act_sends [OF act [unfolded rmigd_context_def] sent inv] by blast
  have "cc_authenticated cc"
  proof (cases "dm_holder d = Some i")
    case True
    then show ?thesis using inv_holder [OF inv True i(1)] by simp
  next
    case False
    with i have "a = Grant i" by simp
    with act i(1) have "cc_waiting cc \<noteq> None"
      by (auto split: option.splits)
    with inv_conns [OF inv i(1)] show ?thesis by (simp add: conn_ok_def)
  qed
  with inv_conns [OF inv i(1)] obtain n where "presented (daemon_context td ho cfg None) (fst (read_lines n (str i)))"
    by (auto simp: conn_ok_def)
  with i(2) daemon_config_token [OF valid] show ?thesis
    by (auto simp: daemon_token)
qed

subsection \<open>A run\<close>

definition with_conn :: "client_conn \<Rightarrow> (unit \<times> nat tds_event list, nat) daemon" where
  "with_conn cc = idle_daemon\<lparr>dm_conns := [0 \<mapsto> cc]\<rparr>"

definition client_stream :: bytes where
  "client_stream = ''a'' @ LF # ''x'' @ [LF]"

lemma utf8_lines: "is_utf8 (''a'' @ [LF])" "is_utf8 (''x'' @ [LF])"
  by (code_simp)+

lemma sample_trim: "trim (''a'' @ [LF]) = ''a''" "trim (''x'' @ [LF]) = ''x''"
  by (simp_all add: trim_def trim_start_def trim_end_def is_space_def LF_def)

lemmas sample_context_defs = rmigd_context_def recording_context_def daemon_context_def recording_host_def
  sample_host_def apply_session_token_from_config_def daemon_config_def sample_config_def config_default_def

lemma sample_connect:
  "connect (recording_tds sample_tds) daemon_config ((), []) = (Inr 7, ((), opened 7))"
  by (simp add: connect_def connect_loop.simps connect_once_def select_auth_method_def with_connect_timeout_def timeout_def
      await_def noting_def recording_tds_def sample_tds_def init_session_def tds_exec_def try_then_def map_err_def
      and_then_def opened_def executed_def daemon_config_def sample_config_def config_default_def ascii_lower_def Let_def)

lemma sample_started:
  "start_daemon (rmigd_context sample_tds sample_host daemon_config) ''s'' ((), []) = (Inr idle_daemon, ((), opened 7))"
  using sample_connect
  by (simp add: start_daemon_def rmigd_context_def recording_context_def daemon_context_def effective_socket_def
      clear_stale_socket_def private_parent_of_def path_parent_def restrict_socket_mode_def recording_host_def
      sample_host_def idle_daemon_def ensure_private_parent_def restrict_dir_mode_def Let_def split: option.splits)

lemma sample_acts:
  "daemon_act (rmigd_context sample_tds sample_host daemon_config) (Accept 0 client_stream) idle_daemon
     = Some (with_conn (sample_conn client_stream False None))"
  by (simp add: idle_daemon_def with_conn_def sample_conn_def MAX_DAEMON_CLIENTS_def new_conn_def token_required_def
      resolve_session_token_def sample_context_defs)

lemma read_first: "read_limited client_stream = (''a'' @ [LF], ''x'' @ [LF])"
  unfolding client_stream_def by (rule read_limited_line) (simp_all add: MAX_SESSION_LINE_BYTES_def LF_def)

lemma read_second: "read_limited (''x'' @ [LF]) = (''x'' @ [LF], [])"
  using read_limited_line [of "''x''" "[]"] by (simp add: MAX_SESSION_LINE_BYTES_def LF_def)

lemma sample_turn_auth:
  "daemon_act (rmigd_context sample_tds sample_host daemon_config) (Turn 0 Ready) (with_conn (sample_conn client_stream False None))
     = Some (with_conn (sample_conn (''x'' @ [LF]) True None))"
proof -
  have "verify_token (Some ''tok'') e ''tok'' = Inr ()" for e
    by (simp add: verify_token_iff resolve_session_token_def)
  then show ?thesis
    using read_first utf8_lines(1) sample_trim(1)
    by (simp add: serve_turn_def serve_request_def finish_turn_def reply_def write_response_def with_conn_def sample_conn_def
        cx_token_env_def idle_daemon_def MAX_SESSION_LINE_BYTES_def sample_context_defs Let_def)
qed

lemma sample_turn_wait:
  "daemon_act (rmigd_context sample_tds sample_host daemon_config) (Turn 0 Ready) (with_conn (sample_conn (''x'' @ [LF]) True None))
     = Some (with_conn (sample_conn [] True (Some (Exec ''x''))))"
  using read_second utf8_lines(2) sample_trim(2)
  by (simp add: serve_turn_def serve_request_def finish_turn_def with_conn_def sample_conn_def
      idle_daemon_def MAX_SESSION_LINE_BYTES_def sample_context_defs Let_def)

lemma sample_grant:
  "\<exists>d'. daemon_act (rmigd_context sample_tds sample_host daemon_config) (Grant 0) (with_conn (sample_conn [] True (Some (Exec ''x''))))
     = Some d' \<and> dlog d' = opened 7 @ executed 7 (Text ''x'')"
  by (simp add: session_turn_def acquire_session_def reconnect_def dispatch_def timeout_def
      await_def noting_def recording_tds_def sample_tds_def tds_exec_def try_then_def map_err_def
      and_then_def ack_def reply_def write_response_def record_request_def finish_turn_def with_conn_def sample_conn_def
      idle_daemon_def MAX_SESSION_LINE_BYTES_def WARM_SESSION_WAIT_WARN_MS_def executed_def dlog_def
      sample_context_defs Let_def)

lemma sample_served:
  "served (rmigd_context sample_tds sample_host daemon_config) idle_daemon ((\<lambda>i. [])(0 := client_stream))
     (with_conn (sample_conn [] True (Some (Exec ''x''))))"
  by (rule served.turned [OF served.turned [OF served.accepted [OF served.started sample_acts] sample_turn_auth] sample_turn_wait])

theorem rmigd_hands_over_clean_sessions_witness:
  "suffix (opened 7) (dlog (with_conn (sample_conn [] True (Some (Exec ''x'')))))
     \<or> suffix (cleaned 7) (dlog (with_conn (sample_conn [] True (Some (Exec ''x'')))))"
  using rmigd_hands_over_clean_sessions [OF sample_started sample_served]
  by (simp add: with_conn_def idle_daemon_def)

theorem rmigd_serves_only_token_holders_witness:
  "cfg_session_token daemon_config \<noteq> []
    \<and> (\<exists>n. list_ex (\<lambda>line. ho_parse_request sample_host (trim line) = Inr (Auth (cfg_session_token daemon_config)))
             (fst (read_lines n client_stream)))"
proof -
  have valid: "validate_daemon_config (\<lambda>n. None) (Some sample_root) (sample_config\<lparr>cfg_session_token := ''tok''\<rparr>) = Inr daemon_config"
    unfolding validate_daemon_config_def daemon_config_validated by (simp add: bind_result_def daemon_config_def)
  obtain d' where act: "daemon_act (rmigd_context sample_tds sample_host daemon_config) (Grant 0)
      (with_conn (sample_conn [] True (Some (Exec ''x'')))) = Some d'" and log: "dlog d' = opened 7 @ executed 7 (Text ''x'')"
    using sample_grant by blast
  have "dlog d' \<noteq> dlog (with_conn (sample_conn [] True (Some (Exec ''x''))))"
    unfolding log by (simp add: with_conn_def idle_daemon_def dlog_def executed_def)
  from rmigd_serves_only_token_holders [OF valid sample_started sample_served act this] show ?thesis
    by (auto split: if_splits)
qed

end
