(* ===== verification/Gate_Properties.thy ===== *)
theory Gate_Properties
  imports Gate
begin

section \<open>What the gate decides\<close>

text \<open>
  The verdict of the gate in terms of what changed between two snapshots, and that the comparison of
  reports finds every difference of the snapshots.
\<close>

subsection \<open>Snapshots\<close>

lemma snapshot_lookup:
  "map_of (fold (\<lambda>obj. AList.update (snapshot_key obj) (snapshot_object_of hex obj)) obs al) =
     map_of al ++ map_of (rev (map (\<lambda>obj. (snapshot_key obj, snapshot_object_of hex obj)) obs))"
proof (induction obs arbitrary: al)
  case (Cons ob obs)
  show ?case
    unfolding fold_simps Cons.IH by (rule ext) (simp add: update_conv' map_add_def split: option.splits)
qed simp

lemma snapshot_from_plan_lookup:
  "map_of (sn_objects (snapshot_from_plan hex plan)) =
     map_of (rev (map (\<lambda>obj. (snapshot_key obj, snapshot_object_of hex obj)) (mp_objects plan)))"
  by (simp add: snapshot_from_plan_def snapshot_lookup)

lemma action_str_nonempty: "action_str a \<noteq> []"
  by (cases a) simp_all

definition named_actions :: "plan_snapshot \<Rightarrow> bool" where
  "named_actions s \<longleftrightarrow> (\<forall>k ob. map_of (sn_objects s) k = Some ob \<longrightarrow> so_planned_action ob \<noteq> [])"

lemma snapshot_from_plan_named: "named_actions (snapshot_from_plan hex plan)"
  unfolding named_actions_def snapshot_from_plan_lookup
  by (auto dest!: map_of_SomeD simp: snapshot_object_of_def action_str_nonempty)

subsection \<open>The verdict\<close>

text \<open>What the gate looks at of the entry of an object.\<close>

definition gate_entry :: "plan_snapshot \<Rightarrow> string \<Rightarrow> (string \<times> string \<times> bool) option" where
  "gate_entry s k = map_option (\<lambda>ob. (so_planned_action ob, so_checksum_hex ob, so_exists ob)) (map_of (sn_objects s) k)"

lemma diff_entry_empty:
  assumes "named_actions b" and "named_actions c"
  shows "diff_entry (map_of (sn_objects b) k) (map_of (sn_objects c) k) = [] \<longleftrightarrow> gate_entry b k = gate_entry c k"
  using assms by (auto simp: diff_entry_def gate_entry_def named_actions_def split: option.splits)

definition key_allowed :: "plan_snapshot \<Rightarrow> plan_snapshot \<Rightarrow> string list \<Rightarrow> string \<Rightarrow> bool" where
  "key_allowed b c delta k \<longleftrightarrow>
     gate_entry b k = gate_entry c k
     \<or> k \<in> set delta \<and> (\<forall>ob. map_of (sn_objects c) k = Some ob \<longrightarrow> \<not> is_risky_action (so_planned_action ob))"

definition says_why :: "compare_result \<Rightarrow> bool" where
  "says_why r \<longleftrightarrow> (cr_passed r \<longleftrightarrow> cr_messages r = [] \<and> cr_unexpected r = [])"

lemma compare_key_passed:
  assumes "named_actions b" and "named_actions c" and "says_why r"
  shows "cr_passed (compare_key b c delta True k r) \<longleftrightarrow> cr_passed r \<and> key_allowed b c delta k"
    and "says_why (compare_key b c delta True k r)"
  using assms(3) unfolding compare_key_def diff_entry_empty [OF assms(1,2)] key_allowed_def says_why_def
  by (auto split: option.splits)

lemma compare_keys_passed:
  assumes "named_actions b" and "named_actions c" and "says_why r"
  shows "(cr_passed (fold (compare_key b c delta True) ks r) \<longleftrightarrow> cr_passed r \<and> list_all (key_allowed b c delta) ks)
    \<and> says_why (fold (compare_key b c delta True) ks r)"
  using assms(3)
proof (induction ks arbitrary: r)
  case (Cons k ks)
  from Cons.IH [OF compare_key_passed(2) [OF assms(1,2) Cons.prems]] compare_key_passed(1) [OF assms(1,2) Cons.prems]
  show ?case by simp
qed simp

lemma union_keys_set: "set (union_keys a b) = set (map fst a) \<union> set (map fst b)"
  by (auto simp: union_keys_def)

lemma allowed_elsewhere: "k \<notin> set (union_keys (sn_objects b) (sn_objects c)) \<Longrightarrow> key_allowed b c delta k"
proof -
  assume "k \<notin> set (union_keys (sn_objects b) (sn_objects c))"
  then have "map_of (sn_objects b) k = None" "map_of (sn_objects c) k = None"
    by (auto simp: union_keys_set map_of_eq_None_iff)
  then show ?thesis by (simp add: key_allowed_def gate_entry_def)
qed

lemma compare_snapshots_passed:
  assumes "named_actions b" and "named_actions c"
  shows "(cr_passed (compare_snapshots b c delta True) \<longleftrightarrow>
      sn_version b = sn_version c \<and> (sn_blocked c \<longrightarrow> sn_blocked b) \<and> (\<forall>k. key_allowed b c delta k))
    \<and> (cr_passed (compare_snapshots b c delta True) \<longleftrightarrow> cr_messages (compare_snapshots b c delta True) = [])
    \<and> says_why (compare_snapshots b c delta True)"
proof -
  define r0 where "r0 = (if sn_blocked c \<and> \<not> sn_blocked b
      then \<lparr>cr_passed = False, cr_messages = [''plan became blocked''], cr_unexpected = []\<rparr>
      else \<lparr>cr_passed = True, cr_messages = [], cr_unexpected = []\<rparr>)"
  define r where "r = fold (compare_key b c delta True) (union_keys (sn_objects b) (sn_objects c)) r0"
  have "says_why r0" by (simp add: r0_def says_why_def)
  note r = compare_keys_passed [OF assms this, of delta "union_keys (sn_objects b) (sn_objects c)", folded r_def]
  have all: "list_all (key_allowed b c delta) (union_keys (sn_objects b) (sn_objects c)) \<longleftrightarrow> (\<forall>k. key_allowed b c delta k)"
    using allowed_elsewhere by (fastforce simp: list_all_iff)
  have start: "cr_passed r0 \<longleftrightarrow> (sn_blocked c \<longrightarrow> sn_blocked b)"
    by (auto simp: r0_def)
  show ?thesis
  proof (cases "sn_version b = sn_version c")
    case True
    then have "compare_snapshots b c delta True
        = (if \<not> cr_passed r \<and> cr_messages r = [] then r\<lparr>cr_messages := [''incremental plan gate failed'']\<rparr> else r)"
      by (simp add: compare_snapshots_def r_def r0_def Let_def)
    with True r all start show ?thesis by (auto simp: says_why_def)
  qed (simp add: compare_snapshots_def says_why_def)
qed


subsection \<open>Parity\<close>

lemma field_line_empty: "field_line k f e a = [] \<longleftrightarrow> e = a"
  by (simp add: field_line_def)

lemma bool_str_inj: "bool_str a = bool_str b \<longleftrightarrow> a = b"
  by (simp add: bool_str_def)

lemma parity_key_empty: "parity_key e a k = [] \<longleftrightarrow> map_of (sn_objects e) k = map_of (sn_objects a) k"
  by (auto simp: parity_key_def parity_object_fields_def field_line_empty bool_str_inj split: option.splits
      intro!: snapshot_object.equality)

text \<open>No parity message is given exactly when the two snapshots are equal.\<close>

lemma parity_messages_empty:
  "parity_messages e a = [] \<longleftrightarrow>
     sn_version e = sn_version a \<and> sn_blocked e = sn_blocked a \<and> map_of (sn_objects e) = map_of (sn_objects a)"
proof -
  have "(\<forall>k \<in> set (union_keys (sn_objects e) (sn_objects a)). map_of (sn_objects e) k = map_of (sn_objects a) k)
      \<longleftrightarrow> map_of (sn_objects e) = map_of (sn_objects a)"
    unfolding fun_eq_iff union_keys_set by (metis Un_iff map_of_eq_None_iff list.set_map)
  then show ?thesis
    by (auto simp: parity_messages_def parity_key_empty)
qed

lemma compare_e2e_gate_reports_empty:
  "compare_e2e_gate_reports b a = [] \<longleftrightarrow>
     ge_scenario b = ge_scenario a \<and> ge_gate_pass b = ge_gate_pass a \<and> ge_messages b = ge_messages a
     \<and> sn_version (ge_snapshot b) = sn_version (ge_snapshot a) \<and> sn_blocked (ge_snapshot b) = sn_blocked (ge_snapshot a)
     \<and> map_of (sn_objects (ge_snapshot b)) = map_of (sn_objects (ge_snapshot a))"
  by (auto simp: compare_e2e_gate_reports_def diff_field_def parity_messages_empty)

lemma plan_db_path_round_trip: "plan_db_path_from_label (plan_db_path_as_str p) = Some p"
  by (cases p) (simp_all add: plan_db_path_from_label_def)

text \<open>A set limit of the environment is positive, or the run is refused.\<close>

lemma max_plan_wall_ms_positive:
  "max_plan_wall_ms_from_env getenv = Inr n \<Longrightarrow> n > 0 \<or> n = 0 \<and> (\<forall>v. getenv ''RMIG_GATE_MAX_PLAN_WALL_MS'' = Some v \<longrightarrow> trim v = [])"
  by (auto simp: max_plan_wall_ms_from_env_def Let_def split: option.splits if_splits)

subsection \<open>Witness\<close>

definition gate_object :: "string \<Rightarrow> Action \<Rightarrow> planned_object" where
  "gate_object key action =
     \<lparr>po_normalized_key = key, po_object_path = key, po_schema_name = ''dbo'', po_kind = ''table'', po_object_name = key,
      po_database_name = ''db'', po_parent_name = [], po_transition_paths = [], po_git = None, po_checksum = ''c'',
      po_planned_action = action, po_exists = True\<rparr>"

definition quiet_timings :: phase_timings where
  "quiet_timings =
     \<lparr>pt_connect_ms = 0, pt_scan_ms = 0, pt_inspect_ms = 0, pt_checksums_ms = 0, pt_ensure_ms = 0, pt_parallel_wall_ms = 0,
      pt_audit_ms = 0, pt_diff_ms = 0, pt_plan_wall_ms = 40, pt_cli_wall_ms = 0, pt_engine_ms = 0, pt_apply_ms = 0,
      pt_plan_db_query_calls = 0, pt_plan_db_query_ms = 0, pt_plan_db_checksums_batch_ms = 0, pt_plan_db_catalog_ms = 0,
      pt_plan_db_catalog_sql_ms = 0, pt_plan_db_intern_catalog_ms = 0, pt_plan_db_round_trips = 0, pt_plan_db_path = [],
      pt_l1_cache_hit = False, pt_plan_db_bootstrap = False, pt_plan_db_catalog_queried = False,
      pt_plan_db_history_empty = False, pt_plan_db_checksums_skipped = False\<rparr>"

definition gate_plan :: "Action \<Rightarrow> migration_plan" where
  "gate_plan action = migration_plan_default\<lparr>mp_objects := [gate_object ''t'' action]\<rparr>"

definition gate_sample :: gate_input where
  "gate_sample =
     \<lparr>gi_blocked = False, gi_timings = quiet_timings, gi_max_plan_wall_ms = 100,
      gi_baseline = snapshot_from_plan id (gate_plan SkipUnchanged), gi_current = snapshot_from_plan id (gate_plan Fail),
      gi_delta_keys = [''db/t'']\<rparr>"


end
