(* ===== verification/Spec2Isabelle.thy ===== *)
theory Spec2Isabelle
  imports Scan_Correct Populate_Total Shared_Key Layout_Fast Timings_Correct Report_Files Accessors Dev_Bench Dev_Perf Plan_Correct Apply_Properties Scope_Correct Engine_Properties Plan_Db_Correct Text_Properties Catalog_Correct Transition_Filter Cli_Properties Session_Properties Gate_Properties
begin

text \<open>
  \<^bold>\<open>Verification of rmig, a repository-driven schema migrator for Microsoft SQL Server.\<close>

  rmig reads a tree of SQL scripts (\<open>database/schema/kind/name.sql\<close> and per-table migration
  scripts), compares it with the catalog of the server and with its own audit history, and derives a
  plan: create, adopt, skip, update, run migration scripts, or refuse. \<open>rmig migrate\<close> applies the
  plan, each script in one transaction with its history row; \<open>baseline\<close> and
  \<open>repair-checksum\<close> write history only; \<open>plan\<close> and \<open>validate\<close> only read. The library is
  \<open>src/crates/core\<close>, the command line \<open>src/crates/cli\<close>, and \<open>src/crates/rmigd\<close> a daemon
  that keeps one connection open for several runs of the command line.

  \<^bold>\<open>How a run goes through the parts.\<close> The command line parses its arguments and loads the
  configuration; the engine scans the tree into a workspace, finds the catalog databases and, per
  database, connects (directly or through the daemon), takes the application lock for a mutating
  command, loads history and catalog (from caches where a read-only command may), computes the
  plan, filters the migration scripts the history already has, applies the plan, releases the lock and
  merges the plans; the command line writes the reports and turns the outcome into the exit status.

  \<^bold>\<open>Theories and sources\<close> (paths below \<open>src/crates/core/src\<close> unless given in full).

  \<^item> \<open>Prelude\<close>, \<open>Errors\<close>, \<open>Sql_Ident\<close>, \<open>Text_Properties\<close>: the operations of Rust's library on strings, results and
    fixed-width integers; \<open>error.rs\<close> with the exit codes and the codes of \<open>lock/mod.rs\<close>;
    \<open>sql_ident.rs\<close> and the statements built from identifiers; what generated SQL and JSON text means.
  \<^item> \<open>Domain_Key\<close>, \<open>Arena\<close>, \<open>Workspace\<close>, \<open>Layout\<close>, \<open>Layout_Correct\<close>: \<open>domain/\<close>, that is keys,
    kinds, actions, packed plan rows, the string arena (locale \<open>interner\<close>), the workspace with its
    staging areas, its finalized layout, the path caches and the view of one database. A string is its
    text there. \<open>Shared_Key\<close> and \<open>Layout_Fast\<close> have the representation of the source, strings that
    are slices of an arena buffer, and the fast paths for them, \<open>Accessors\<close> the accessors of entries
    and scripts on it; they show that it refines the text.
  \<^item> \<open>Scan\<close>, \<open>Git\<close>, \<open>Scan_Correct\<close>: \<open>scan/\<close>, \<open>git/\<close> and the changed paths of \<open>gate/\<close>. The tree is
    a datatype, the git process a parameter, and the worker threads are the chunks they work on.
    \<open>Intern_Correct\<close>, \<open>Populate_Correct\<close>, \<open>Populate_Total\<close>: from the scan to the interned workspace,
    \<open>scan::populate\<close> as a whole.
  \<^item> \<open>Plan_Data\<close>, \<open>Plan\<close>, \<open>Plan_Correct\<close>: \<open>plan/diff*.rs\<close>, \<open>plan/scenario*.rs\<close> and the plan record
    of \<open>export/\<close>. \<open>Scope\<close>, \<open>Scope_Correct\<close>: \<open>plan/scope*.rs\<close>, \<open>plan/git_scope.rs\<close>, \<open>gate/delta.rs\<close>,
    which objects have to be inspected.
  \<^item> \<open>Driver\<close>, \<open>Tds\<close>: \<open>driver/\<close>: result cells and rows, the timed connection that loses its client
    on a timeout, and below it the opening of a connection with its retries and time limits.
  \<^item> \<open>Audit_History\<close>, \<open>Catalog\<close>, \<open>Catalog_Correct\<close>, \<open>Plan_Db\<close>, \<open>Plan_Db_Calls\<close>, \<open>Plan_Db_Correct\<close>:
    \<open>audit/\<close>, \<open>db/\<close> and \<open>cache/\<close>: history records and recorded checksums, the catalog query and its
    rows, the caches in the database, in the process and on disk, and the planning phase on them.
  \<^item> \<open>Scaffold\<close>, \<open>Transition_Filter\<close>: \<open>scaffold/\<close>, the generated migration scripts for a refused
    table, and \<open>export/materialize/filter.rs\<close>.
  \<^item> \<open>Apply\<close>, \<open>Transactions\<close>, \<open>Apply_Correct\<close>, \<open>Apply_Calls\<close>, \<open>Apply_Properties\<close>: \<open>apply/\<close>:
    schemas, migration scripts, objects in kind order, modules retried until nothing changes, and the
    history. \<open>Transactions\<close> holds the abstract machine of durable changes that \<open>execute_plan\<close> refines.
  \<^item> \<open>Configuration\<close>, \<open>Engine\<close>, \<open>Engine_Calls\<close>, \<open>Engine_Properties\<close>: \<open>config/\<close> and \<open>engine/\<close>.
  \<^item> \<open>Cli\<close>, \<open>Cli_Properties\<close>: \<open>src/crates/cli/src\<close>, the reports of \<open>export/\<close>, \<open>buildinfo/\<close>.
  \<^item> \<open>Session\<close>, \<open>Session_Client\<close>, \<open>Session_Calls\<close>, \<open>Session_Correct\<close>, \<open>Session_Properties\<close>:
    \<open>session/\<close> and \<open>src/crates/rmigd/src/main.rs\<close>: messages, token, endpoint, the handlers of the
    daemon as acts on a shared state, the proxy client and its fallback.
  \<^item> \<open>Gate\<close>, \<open>Gate_Properties\<close>: the rest of \<open>gate/\<close>: snapshots of plans, their comparison with a
    committed baseline, the verdict, and the end-to-end reports. \<open>Report_Files\<close>: the files they are
    written to, \<open>buildinfo/\<close> in JSON and \<open>src/crates/core/build.rs\<close>.
  \<^item> \<open>Timings\<close>, \<open>Timings_Wire\<close>, \<open>Timings_Correct\<close>: \<open>timings/\<close>, \<open>db/plan_db_trace\<close> and the flow of
    durations and counters from a database phase to the report of a run. They do not influence the
    outcome, so the other theories carry no times; here they are arguments.
  \<^item> \<open>Dev_Bench\<close>, \<open>Dev_Perf\<close>: \<open>src/crates/core-dev/src\<close>, which is not part of the program: the synthetic
    workspaces of the benchmarks, the baseline of struct sizes, and profiles.

  \<^bold>\<open>How state and effects are modelled.\<close> Structs are records and enums datatypes under the
  source's names; a function that mutates its argument returns it. A Rust \<open>Result\<close> is a sum with
  the error on the left, and a panic (a failed assertion, an index out of range) is \<open>None\<close>. What lies
  outside the program is a record of functions on an arbitrary type \<open>'w\<close> and may answer anything:
  \<open>env\<close> for SQL Server and the file system (\<open>Driver\<close>), \<open>engine\<close> for connecting and git, \<open>process\<close>
  for the process (\<open>Cli\<close>), \<open>tds\<close> for the TDS library and \<open>host\<close> and \<open>proxy_io\<close> for the sockets
  (\<open>Tds\<close>, \<open>Session\<close>, \<open>Session_Client\<close>). A call reports whether its answer came in time, so every
  timeout is a branch. What is sent is observed by running the same definitions on a recording
  outside (\<open>recording\<close>, \<open>recording_tds\<close>); nothing is logged in the model itself. Key fingerprints,
  SHA-256, hexadecimal text, JSON, TOML and floating-point numbers are parameters, with what a
  theorem needs of them (injectivity on the keys at hand, a reader that inverts the writer) among its
  hypotheses. The daemon's concurrency is the relation \<open>served\<close>, all sequences of acts of its handlers;
  while one holds the mutex around the warm client, its work on the client is one act.

  \<^bold>\<open>What is shown.\<close> The properties carry the numbers C1 to C40 next to their theorems.

  \<^item> Planning: the decision table of the planner, that each row of a plan reflects catalog, history
    and file, that a plan is blocked exactly with a blocker per refused row, and its counts
    (\<open>Plan_Correct\<close>); the scan never panics, yields a finalized layout, and does not depend on the
    number of threads (\<open>Scan_Correct\<close>); what it found is stored without a panic and unchanged
    (\<open>Populate_Total\<close>), under keys that behave as their text (\<open>Shared_Key\<close>); checksums and catalog rows are read exactly
    (\<open>Catalog_Correct\<close>); only unchanged objects escape inspection (\<open>Scope_Correct\<close>); a mutating
    command plans without the caches (\<open>Plan_Db_Correct\<close>).
  \<^item> Applying: scripts and history change together whatever fails, a successful run records every
    script, nothing but planned and verified SQL is sent, and the retry of modules applies all of them
    (\<open>Apply_Properties\<close>); exactly the applied migration scripts are left out (\<open>Transition_Filter\<close>).
  \<^item> Running: read-only commands write nothing, mutating ones hold the lock around everything they
    send, exit code 0 means every database succeeded (\<open>Engine_Properties\<close>, \<open>Cli_Properties\<close>).
  \<^item> The daemon: whatever the interleaving, the warm client is handed over new or cleaned, only
    clients with the token are served, only for the same endpoint, with bounded lines, and a statement
    sent through it has the outcome it has on a direct connection (\<open>Session_Properties\<close>).
  \<^item> The gate: it passes exactly when nothing changed outside the delta and nothing in it is refused
    (\<open>Gate_Properties\<close>).

  \<^bold>\<open>Interfaces.\<close> The locale \<open>interner\<close> (\<open>Arena\<close>) is the contract of the string arena,
  \<open>call_frame\<close> (\<open>Apply_Calls\<close>) and its extension \<open>db_frame\<close> (\<open>Plan_Db_Calls\<close>) carry a relation between
  connections through every operation that sends statements, and \<open>daemon_invariant\<close> (\<open>Session_Correct\<close>)
  an invariant through every act of the daemon, and \<open>scan_invariant\<close> (\<open>Populate_Correct\<close>) one through
  every step of the scan. Each is interpreted on the model's own definitions.

  \<^bold>\<open>Bounds and termination.\<close> Every function is total and no fuel is used. Loops end by a measure:
  the closure of a delta by the objects not yet in it, the retry of modules by the pending ones, the
  retry of connections by its three attempts. Row ids are 32-bit and schema ids 16-bit numbers as in
  the source; theorems that need them not to wrap have a bound on the number of files as hypothesis.
  Case conversion and trimming are exact on ASCII.

  \<^bold>\<open>Not modelled.\<close> The text of T-SQL statements is not interpreted (each is a constructor of
  \<open>stmt\<close>); where a theorem needs an effect of theirs it is a hypothesis on the server (\<open>tx_server\<close>,
  \<open>dependency_server\<close>). Logging and the reading of the clock have no effect on the outcome and are left
  out, as are allocation and capacity. The asynchronous runtime, sockets and signal handling belong to
  tokio, and the benchmark programs (\<open>src/crates/core-dev/benches\<close>) only time calls of the library.
\<close>

end
